(* ===== verification/Zengo_Prelude.thy ===== *)
theory Zengo_Prelude
  imports Main "HOL-Library.Sublist"
begin

text \<open>
  The prelude of the development: what every component model shares.

  \<^item> \<open>Go strings\<close>: a Go \<open>string\<close> is a byte sequence, so it is HOL's \<open>string\<close>
    (a list of 8-bit \<open>char\<close>s).  The functions of the packages \<open>strings\<close> and
    \<open>unicode\<close> that the sources call are defined here on ASCII text: letters, digits,
    case and white space of characters below 128.  A byte of 128 or more counts as
    neither letter, digit nor space and has no case.
  \<^item> \<open>Go pointers\<close>: a nilable pointer to a struct is an \<open>option\<close>.
  \<^item> \<open>Go errors\<close>: a call that returns \<open>(T, error)\<close> is a sum \<open>'e + 'a\<close>, with \<open>Inl\<close>
    for the error.
  \<^item> \<open>codec\<close>: the contract between a runtime shape and its wire shape, which the TLS
    options and the manifest both provide.
\<close>

named_theorems go_strings \<open>facts on the string operations of the Go library\<close>
named_theorems wf_intros \<open>well-formedness facts of the models\<close>

section \<open>ASCII characters\<close>

definition is_space :: "char \<Rightarrow> bool" where
  "is_space c \<longleftrightarrow> c = CHR '' '' \<or> (9 \<le> (of_char c :: nat) \<and> (of_char c :: nat) \<le> 13)"

definition is_upper :: "char \<Rightarrow> bool" where
  "is_upper c \<longleftrightarrow> 65 \<le> (of_char c :: nat) \<and> (of_char c :: nat) \<le> 90"

definition is_lower :: "char \<Rightarrow> bool" where
  "is_lower c \<longleftrightarrow> 97 \<le> (of_char c :: nat) \<and> (of_char c :: nat) \<le> 122"

definition is_letter :: "char \<Rightarrow> bool" where
  "is_letter c \<longleftrightarrow> is_upper c \<or> is_lower c"

definition is_digit :: "char \<Rightarrow> bool" where
  "is_digit c \<longleftrightarrow> 48 \<le> (of_char c :: nat) \<and> (of_char c :: nat) \<le> 57"

definition lower_char :: "char \<Rightarrow> char" where
  "lower_char c = (if is_upper c then char_of ((of_char c :: nat) + 32) else c)"

definition upper_char :: "char \<Rightarrow> char" where
  "upper_char c = (if is_lower c then char_of ((of_char c :: nat) - 32) else c)"

lemma of_lower_char:
  "(of_char (lower_char c) :: nat) = (if is_upper c then of_char c + 32 else of_char c)"
  by (simp add: lower_char_def is_upper_def)

lemma of_upper_char:
  "(of_char (upper_char c) :: nat) = (if is_lower c then of_char c - 32 else of_char c)"
  by (auto simp add: upper_char_def is_lower_def)

lemma lower_char_not_upper [simp]: "\<not> is_upper (lower_char c)"
  by (auto simp add: is_upper_def of_lower_char)

lemma lower_char_idem [simp]: "lower_char (lower_char c) = lower_char c"
  by (simp add: lower_char_def [of "lower_char c"])

lemma lower_char_fixed: "\<not> is_upper c \<Longrightarrow> lower_char c = c"
  by (simp add: lower_char_def)

lemma upper_char_upper: "is_letter c \<Longrightarrow> is_upper (upper_char c)"
  by (auto simp add: is_letter_def is_upper_def is_lower_def of_upper_char)

lemma upper_char_digit [simp]: "is_digit c \<Longrightarrow> upper_char c = c"
  by (auto simp add: upper_char_def is_digit_def is_lower_def)

lemma letter_not_space [simp]: "is_letter c \<Longrightarrow> \<not> is_space c"
  by (auto simp add: is_letter_def is_upper_def is_lower_def is_space_def)

lemma digit_not_space [simp]: "is_digit c \<Longrightarrow> \<not> is_space c"
  by (auto simp add: is_digit_def is_space_def)

lemma digit_not_letter [simp]: "is_digit c \<Longrightarrow> \<not> is_letter c"
  by (auto simp add: is_letter_def is_digit_def is_upper_def is_lower_def)

lemma digit_not_upper [simp]: "is_digit c \<Longrightarrow> \<not> is_upper c"
  by (auto simp add: is_digit_def is_upper_def)

lemma underscore_class [simp]:
  "\<not> is_letter CHR ''_''" "\<not> is_digit CHR ''_''" "\<not> is_space CHR ''_''" "\<not> is_upper CHR ''_''"
  by (simp_all add: is_letter_def is_digit_def is_space_def is_upper_def is_lower_def)

section \<open>The functions of package strings\<close>

text \<open>\<open>strings.ToLower\<close> and \<open>strings.ToUpper\<close>.\<close>

definition to_lower :: "string \<Rightarrow> string" where
  "to_lower s = map lower_char s"

definition to_upper :: "string \<Rightarrow> string" where
  "to_upper s = map upper_char s"

text \<open>\<open>strings.TrimFunc\<close>; \<open>strings.TrimSpace\<close> and \<open>strings.Trim\<close> are instances.\<close>

definition trim_func :: "(char \<Rightarrow> bool) \<Rightarrow> string \<Rightarrow> string" where
  "trim_func p s = rev (dropWhile p (rev (dropWhile p s)))"

definition trim_space :: "string \<Rightarrow> string" where
  "trim_space s = trim_func is_space s"

definition has_prefix :: "string \<Rightarrow> string \<Rightarrow> bool" where
  "has_prefix s p \<longleftrightarrow> take (length p) s = p"

definition has_suffix :: "string \<Rightarrow> string \<Rightarrow> bool" where
  "has_suffix s p \<longleftrightarrow> has_prefix (rev s) (rev p)"

definition trim_prefix :: "string \<Rightarrow> string \<Rightarrow> string" where
  "trim_prefix s p = (if has_prefix s p then drop (length p) s else s)"

definition trim_suffix :: "string \<Rightarrow> string \<Rightarrow> string" where
  "trim_suffix s p = (if has_suffix s p then take (length s - length p) s else s)"

text \<open>\<open>strings.Split\<close> with a one-byte separator, and \<open>strings.Join\<close>.\<close>

fun split_on :: "char \<Rightarrow> string \<Rightarrow> string list" where
  "split_on c [] = [[]]"
| "split_on c (x # xs) =
     (if x = c then [] # split_on c xs
      else (case split_on c xs of [] \<Rightarrow> [[x]] | w # ws \<Rightarrow> (x # w) # ws))"

fun join :: "string \<Rightarrow> string list \<Rightarrow> string" where
  "join sep [] = []"
| "join sep [s] = s"
| "join sep (s # t # ts) = s @ sep @ join sep (t # ts)"

text \<open>\<open>strings.FieldsFunc\<close>: the maximal runs of characters that do not satisfy \<open>p\<close>.\<close>

fun fields_func :: "(char \<Rightarrow> bool) \<Rightarrow> string \<Rightarrow> string \<Rightarrow> string list" where
  "fields_func p cur [] = (if cur = [] then [] else [cur])"
| "fields_func p cur (x # xs) =
     (if p x then (if cur = [] then fields_func p [] xs else cur # fields_func p [] xs)
      else fields_func p (cur @ [x]) xs)"

text \<open>\<open>strings.Contains\<close>.\<close>

definition contains :: "string \<Rightarrow> string \<Rightarrow> bool" where
  "contains s p \<longleftrightarrow> sublist p s"

lemma contains_Nil [simp]: "contains s []"
  by (simp add: contains_def)

text \<open>\<open>filepath.Join\<close> on a directory that is already clean and a relative name.\<close>

definition path_join :: "string \<Rightarrow> string \<Rightarrow> string" where
  "path_join dir name =
     (if dir = [] then name else if last dir = CHR ''/'' then dir @ name else dir @ ''/'' @ name)"

lemma path_join_inj: "path_join dir a = path_join dir b \<longleftrightarrow> a = b"
  by (auto simp add: path_join_def)

text \<open>\<open>strconv.Quote\<close>, the verb \<open>%q\<close>, on ASCII text.\<close>

definition hex_digit :: "nat \<Rightarrow> char" where
  "hex_digit n = ''0123456789abcdef'' ! n"

definition quote_char :: "char \<Rightarrow> string" where
  "quote_char c =
     (if c = CHR 0x22 \<or> c = CHR 0x5C then [CHR 0x5C, c]
      else if c = CHR 0x07 then [CHR 0x5C, CHR ''a'']
      else if c = CHR 0x08 then [CHR 0x5C, CHR ''b'']
      else if c = CHR 0x0C then [CHR 0x5C, CHR ''f'']
      else if c = CHR 0x0A then [CHR 0x5C, CHR ''n'']
      else if c = CHR 0x0D then [CHR 0x5C, CHR ''r'']
      else if c = CHR 0x09 then [CHR 0x5C, CHR ''t'']
      else if c = CHR 0x0B then [CHR 0x5C, CHR ''v'']
      else if of_char c < (32::nat) \<or> c = CHR 0x7F
      then [CHR 0x5C, CHR ''x'', hex_digit (of_char c div 16), hex_digit (of_char c mod 16)]
      else [c])"

definition go_quote :: "string \<Rightarrow> string" where
  "go_quote s = [CHR 0x22] @ concat (map quote_char s) @ [CHR 0x22]"

text \<open>\<open>strconv.Itoa\<close>: the decimal digits, and a minus sign.\<close>

fun nat_digits :: "nat \<Rightarrow> string" where
  "nat_digits n =
     (if n < 10 then [char_of (48 + n)] else nat_digits (n div 10) @ [char_of (48 + n mod 10)])"

declare nat_digits.simps [simp del]

definition itoa :: "int \<Rightarrow> string" where
  "itoa i = (if i < 0 then ''-'' @ nat_digits (nat (- i)) else nat_digits (nat i))"

lemma to_lower_Nil [simp]: "to_lower [] = []"
  by (simp add: to_lower_def)

lemma to_lower_idem [simp]: "to_lower (to_lower s) = to_lower s"
  by (simp add: to_lower_def)

lemma to_lower_fixed: "\<forall>c \<in> set s. \<not> is_upper c \<Longrightarrow> to_lower s = s"
  by (induction s) (auto simp add: to_lower_def lower_char_fixed)

lemma has_prefix_append [simp]: "has_prefix (p @ s) p"
  by (simp add: has_prefix_def)

lemma has_prefixE: "has_prefix s p \<Longrightarrow> \<exists>t. s = p @ t"
  unfolding has_prefix_def by (metis append_take_drop_id)

lemma has_prefix_iff: "has_prefix s p \<longleftrightarrow> (\<exists>t. s = p @ t)"
  by (auto dest: has_prefixE)

lemma has_suffix_iff: "has_suffix s p \<longleftrightarrow> (\<exists>t. s = t @ p)"
  unfolding has_suffix_def has_prefix_iff by (metis rev_append rev_rev_ident)

lemma trim_prefix_append [simp]: "trim_prefix (p @ s) p = s"
  by (simp add: trim_prefix_def)

lemma set_trim_func: "set (trim_func p s) \<subseteq> set s"
  unfolding trim_func_def by (auto dest!: set_dropWhileD)

lemma hd_dropWhile_not: "dropWhile p s \<noteq> [] \<Longrightarrow> \<not> p (hd (dropWhile p s))"
  by (rule hd_dropWhile)

lemma last_trim_func: "trim_func p s \<noteq> [] \<Longrightarrow> \<not> p (last (trim_func p s))"
  unfolding trim_func_def by (simp add: last_rev hd_dropWhile)

text \<open>Trimming on the right keeps the first character of what is left.\<close>

lemma rev_dropWhile_rev_prefix: "\<exists>t. s = rev (dropWhile p (rev s)) @ t"
  by (metis rev_append rev_rev_ident takeWhile_dropWhile_id)

lemma hd_trim_func: "trim_func p s \<noteq> [] \<Longrightarrow> \<not> p (hd (trim_func p s))"
proof -
  assume ne: "trim_func p s \<noteq> []"
  obtain t where t: "dropWhile p s = trim_func p s @ t"
    unfolding trim_func_def using rev_dropWhile_rev_prefix by blast
  then have "hd (dropWhile p s) = hd (trim_func p s)" "dropWhile p s \<noteq> []"
    using ne by auto
  then show ?thesis using hd_dropWhile [of p s] by auto
qed

lemma trim_func_fixed:
  assumes "s \<noteq> [] \<Longrightarrow> \<not> p (hd s)" and "s \<noteq> [] \<Longrightarrow> \<not> p (last s)"
  shows "trim_func p s = s"
proof (cases "s = []")
  case True
  then show ?thesis by (simp add: trim_func_def)
next
  case False
  with assms have "dropWhile p s = s" "dropWhile p (rev s) = rev s"
    by (auto simp: dropWhile_eq_self_iff hd_rev)
  then show ?thesis by (simp add: trim_func_def)
qed

lemma trim_func_idem [simp]: "trim_func p (trim_func p s) = trim_func p s"
  by (rule trim_func_fixed) (use hd_trim_func last_trim_func in blast)+

lemma trim_space_idem [simp]: "trim_space (trim_space s) = trim_space s"
  by (simp add: trim_space_def)

lemma set_trim_suffix: "set (trim_suffix s p) \<subseteq> set s"
  by (auto simp add: trim_suffix_def dest: in_set_takeD)

lemma split_on_neq_Nil [simp]: "split_on c s \<noteq> []"
  by (induction s) (auto split: list.splits)

text \<open>Joining what was split gives the string back.\<close>

lemma join_Cons: "ts \<noteq> [] \<Longrightarrow> join sep (s # ts) = s @ sep @ join sep ts"
  by (cases ts) simp_all

lemma join_split_on [go_strings]: "join [c] (split_on c s) = s"
proof (induction s)
  case Nil
  then show ?case by simp
next
  case (Cons x xs)
  obtain w ws where w: "split_on c xs = w # ws"
    using split_on_neq_Nil by (meson neq_Nil_conv)
  with Cons.IH have IH: "join [c] (w # ws) = xs" by simp
  show ?case
  proof (cases "x = c")
    case True
    then show ?thesis using Cons.IH by (simp add: join_Cons)
  next
    case False
    then show ?thesis using IH w by (cases ws) auto
  qed
qed

lemma fields_func_nonempty: "w \<in> set (fields_func p cur s) \<Longrightarrow> w \<noteq> []"
  by (induction p cur s rule: fields_func.induct) (auto split: if_splits)

lemma fields_func_chars:
  assumes "\<forall>x \<in> set cur. \<not> p x"
  shows "w \<in> set (fields_func p cur s) \<Longrightarrow> x \<in> set w \<Longrightarrow> \<not> p x"
  using assms by (induction p cur s rule: fields_func.induct) (auto split: if_splits)

section \<open>Errors\<close>

text \<open>\<open>x, err := f(); if err != nil { return err }; ...\<close> is \<open>bind_err\<close>, a wrapped error
  (\<open>fmt.Errorf("...: %w", err)\<close>) is \<open>wrap_err\<close>, and for a function that only returns an
  \<open>error\<close> (\<open>None\<close> is \<open>nil\<close>) the early return is \<open>check_then\<close>.\<close>

fun bind_err :: "'e + 'a \<Rightarrow> ('a \<Rightarrow> 'e + 'b) \<Rightarrow> 'e + 'b" where
  "bind_err (Inl e) f = Inl e"
| "bind_err (Inr x) f = f x"

fun wrap_err :: "('e \<Rightarrow> 'f) \<Rightarrow> 'e + 'a \<Rightarrow> 'f + 'a" where
  "wrap_err w (Inl e) = Inl (w e)"
| "wrap_err w (Inr x) = Inr x"

fun check_then :: "'e option \<Rightarrow> 'e option \<Rightarrow> 'e option" where
  "check_then (Some e) k = Some e"
| "check_then None k = k"

fun check_bind :: "'e option \<Rightarrow> 'e + 'a \<Rightarrow> 'e + 'a" where
  "check_bind (Some e) k = Inl e"
| "check_bind None k = k"

lemma bind_err_Inr [simp]: "bind_err r f = Inr y \<longleftrightarrow> (\<exists>x. r = Inr x \<and> f x = Inr y)"
  by (cases r) auto

lemma wrap_err_Inr [simp]: "wrap_err w r = Inr y \<longleftrightarrow> r = Inr y"
  by (cases r) auto

lemma check_then_None [simp]: "check_then a b = None \<longleftrightarrow> a = None \<and> b = None"
  by (cases a) auto

lemma check_bind_Inr [simp]: "check_bind a r = Inr y \<longleftrightarrow> a = None \<and> r = Inr y"
  by (cases a) auto

section \<open>Wire shapes\<close>

text \<open>
  A codec turns a runtime value into its wire shape (\<open>enc\<close>, a source function named
  \<open>...ToProto\<close>) and reads one back (\<open>dec\<close>, \<open>...FromProto\<close>).  The runtime side has values
  that the wire cannot carry, and the wire side has several spellings of one value, so
  the law is: on the well-formed runtime values decoding inverts encoding, and whatever
  is decoded is well formed.
\<close>

locale codec =
  fixes enc :: "'a \<Rightarrow> 'w"
    and dec :: "'w \<Rightarrow> 'a"
    and wf :: "'a \<Rightarrow> bool"
  assumes dec_enc: "wf x \<Longrightarrow> dec (enc x) = x"
    and wf_dec: "wf (dec w)"
begin

lemma enc_inj: "wf x \<Longrightarrow> wf y \<Longrightarrow> enc x = enc y \<Longrightarrow> x = y"
  by (metis dec_enc)

lemma normalise: "dec (enc (dec w)) = dec w"
  by (simp add: dec_enc wf_dec)

lemma normalise_wire: "enc (dec (enc (dec w))) = enc (dec w)"
  by (simp add: normalise)

lemma dec_surj: "wf x \<longleftrightarrow> (\<exists>w. dec w = x)"
  by (metis dec_enc wf_dec)

end

end
