(* ===== verification/Naming.thy ===== *)
theory Naming
  imports Zengo_Prelude
begin

text \<open>
  Package \<open>internal/naming\<close> and the name helpers of \<open>internal/codegen/helpers.go\<close> and
  \<open>internal/versioning\<close> (\<open>names.go\<close>, \<open>meta.go\<close>): how a service name becomes a package
  segment, a type prefix and the names of the generated functions.
\<close>

section \<open>Model\<close>

text \<open>\<open>hp_loop rs b u\<close> is the loop over the runes of \<open>base\<close>: \<open>b\<close> is the builder, \<open>u\<close> is
  \<open>lastUnderscore\<close>.\<close>

fun hp_loop :: "string \<Rightarrow> string \<Rightarrow> bool \<Rightarrow> string" where
  "hp_loop [] b u = b"
| "hp_loop (r # rs) b u =
     (if is_letter r \<or> is_digit r
      then hp_loop rs ((if b = [] \<and> is_digit r then b @ ''_'' else b) @ [r]) False
      else if b \<noteq> [] \<and> \<not> u then hp_loop rs (b @ ''_'') True
      else hp_loop rs b u)"

definition HandlerPackage :: "string \<Rightarrow> string" where
  "HandlerPackage serviceName =
     (let base = trim_space (to_lower serviceName);
          base = trim_suffix base ''-service'';
          base = trim_space base
      in if base = [] then ''app''
         else (let normalized = trim_func (\<lambda>c. c = CHR ''_'') (hp_loop base [] False)
               in if normalized = [] then ''app'' else normalized))"

definition capitalize :: "string \<Rightarrow> string" where
  "capitalize s = (case s of [] \<Rightarrow> [] | c # cs \<Rightarrow> upper_char c # cs)"

definition title_separator :: "char \<Rightarrow> bool" where
  "title_separator r \<longleftrightarrow> r = CHR ''_'' \<or> r = CHR ''-'' \<or> \<not> is_letter r \<and> \<not> is_digit r"

definition HandlerTitle :: "string \<Rightarrow> string" where
  "HandlerTitle handlerPkg =
     (let parts = fields_func title_separator [] handlerPkg
      in if parts = [] then ''App''
         else (let b = concat (map capitalize parts) in if b = [] then ''App'' else b))"

text \<open>\<open>codegen.GoName\<close>, \<open>codegen.UcFirst\<close> and \<open>versioning.goName\<close>.\<close>

definition GoName :: "string \<Rightarrow> string" where
  "GoName field =
     join [] (map (\<lambda>part. if part = [] then part else to_upper (take 1 part) @ drop 1 part)
                  (split_on CHR ''_'' field))"

definition UcFirst :: "string \<Rightarrow> string" where
  "UcFirst s = (if s = [] then [] else to_upper (take 1 s) @ drop 1 s)"

definition goName :: "string \<Rightarrow> string" where
  "goName field =
     (let parts = split_on CHR ''_'' field
      in join [] (map (\<lambda>p. if p = [] then p else to_upper (take 1 p) @ drop 1 p) parts))"

definition IsScalarType :: "string \<Rightarrow> bool" where
  "IsScalarType t \<longleftrightarrow>
     t \<in> {''string'', ''bytes'', ''bool'', ''double'', ''float'', ''int32'', ''int64'',
          ''uint32'', ''uint64'', ''sint32'', ''sint64'', ''fixed32'', ''fixed64'',
          ''sfixed32'', ''sfixed64''}"

text \<open>The names of \<open>internal/versioning/meta.go\<close>.  Go panics on \<open>version[:1]\<close> of the empty
  string; versions come from \<open>Discover\<close>, which only lists names that match \<open>v[0-9]+\<close>.\<close>

definition serviceBaseName :: "string \<Rightarrow> string" where
  "serviceBaseName service = trim_suffix service ''Service''"

definition registerGRPCName :: "string \<Rightarrow> string \<Rightarrow> string" where
  "registerGRPCName service version = ''RegisterGRPC'' @ serviceBaseName service @ UcFirst version"

definition gatewayRegisterName :: "string \<Rightarrow> string \<Rightarrow> string" where
  "gatewayRegisterName service version =
     ''GatewayRegister'' @ serviceBaseName service @ UcFirst version"

definition legacyWireGRPCName :: "string \<Rightarrow> string \<Rightarrow> string" where
  "legacyWireGRPCName service version = ''RegisterLegacy'' @ service @ UcFirst version"

definition adapterTypeName :: "string \<Rightarrow> string \<Rightarrow> string" where
  "adapterTypeName service version = service @ UcFirst version"

definition adapterFileName :: "string \<Rightarrow> string" where
  "adapterFileName service = to_lower (serviceBaseName service) @ ''_service_gen.go''"

definition eventAdapterFileName :: "string \<Rightarrow> string" where
  "eventAdapterFileName service =
     to_lower (trim_suffix service ''EventHandler'') @ ''_event_handler_gen.go''"

section \<open>What the builder loop writes\<close>

text \<open>A package segment: lower-case letters, digits and single inner underscores.\<close>

definition segment_char :: "char \<Rightarrow> bool" where
  "segment_char c \<longleftrightarrow> is_lower c \<or> is_digit c \<or> c = CHR ''_''"

definition no_double :: "string \<Rightarrow> bool" where
  "no_double s \<longleftrightarrow> successively (\<lambda>a b. \<not> (a = CHR ''_'' \<and> b = CHR ''_'')) s"

definition package_segment :: "string \<Rightarrow> bool" where
  "package_segment s \<longleftrightarrow>
     s \<noteq> [] \<and> (\<forall>c \<in> set s. segment_char c) \<and> no_double s \<and>
     hd s \<noteq> CHR ''_'' \<and> last s \<noteq> CHR ''_''"

lemma segment_char_lower: "\<not> is_upper c \<Longrightarrow> is_letter c \<or> is_digit c \<Longrightarrow> segment_char c"
  by (auto simp add: segment_char_def is_letter_def)

lemma segment_char_props:
  assumes "segment_char c"
  shows "\<not> is_upper c" "\<not> is_space c" "c = CHR ''_'' \<or> is_letter c \<or> is_digit c" "c \<noteq> CHR ''-''"
proof -
  from assms consider "is_lower c" | "is_digit c" | "c = CHR ''_''"
    by (auto simp: segment_char_def)
  then show "\<not> is_upper c" "\<not> is_space c" "c = CHR ''_'' \<or> is_letter c \<or> is_digit c" "c \<noteq> CHR ''-''"
    by (cases; auto simp: is_letter_def is_upper_def is_lower_def is_digit_def is_space_def)+
qed

lemma hp_loop_chars:
  assumes "\<forall>c \<in> set rs. \<not> is_upper c" and "\<forall>c \<in> set b. segment_char c"
  shows "\<forall>c \<in> set (hp_loop rs b u). segment_char c"
  using assms
proof (induction rs b u rule: hp_loop.induct)
  case (2 r rs b u)
  have us: "segment_char CHR ''_''" by (simp add: segment_char_def)
  have rs: "\<forall>c \<in> set rs. \<not> is_upper c" using "2.prems"(1) by simp
  show ?case
  proof (cases "is_letter r \<or> is_digit r")
    case True
    have "segment_char r"
      by (rule segment_char_lower [OF _ True]) (use "2.prems"(1) in simp)
    with us "2.prems"(2) show ?thesis
      by (simp only: hp_loop.simps True if_True) (rule "2.IH"(1) [OF True rs], simp)
  next
    case False
    show ?thesis
    proof (cases "b \<noteq> [] \<and> \<not> u")
      case True
      with us "2.prems"(2) show ?thesis
        by (simp only: hp_loop.simps False if_False if_True simp_thms)
          (rule "2.IH"(2) [OF False True rs], simp)
    next
      case b: False
      show ?thesis
        by (simp only: hp_loop.simps False b if_False)
          (rule "2.IH"(3) [OF False b rs "2.prems"(2)])
    qed
  qed
qed simp

text \<open>The builder never holds two underscores in a row, and ends in one exactly when
  \<open>lastUnderscore\<close> is set.\<close>

lemma no_double_snoc:
  "no_double (b @ [c]) \<longleftrightarrow> no_double b \<and> (b \<noteq> [] \<longrightarrow> \<not> (last b = CHR ''_'' \<and> c = CHR ''_''))"
  by (auto simp add: no_double_def successively_append_iff)

lemma hp_loop_no_double:
  assumes "no_double b" and "u \<longleftrightarrow> b \<noteq> [] \<and> last b = CHR ''_''"
  shows "no_double (hp_loop rs b u)"
  using assms
proof (induction rs b u rule: hp_loop.induct)
  case (2 r rs b u)
  have r: "r \<noteq> CHR ''_''" if "is_letter r \<or> is_digit r" using that by auto
  have "no_double [CHR ''_'', r]" if "r \<noteq> CHR ''_''" using that by (simp add: no_double_def)
  moreover have "no_double ''_''" by (simp add: no_double_def)
  ultimately show ?case using 2 r by (auto simp add: no_double_snoc)
qed simp

lemma trim_func_factor: "\<exists>pre post. s = pre @ trim_func p s @ post"
  unfolding trim_func_def by (metis rev_dropWhile_rev_prefix takeWhile_dropWhile_id)

lemma no_double_trim: "no_double s \<Longrightarrow> no_double (trim_func p s)"
  using trim_func_factor [of s p] unfolding no_double_def by (metis successively_append_iff)

lemma app_segment: "package_segment ''app''"
  by (simp add: package_segment_def no_double_def segment_char_def is_lower_def)

text \<open>The name passed to the loop holds no upper-case letter.\<close>

lemma base_not_upper:
  "c \<in> set (trim_space (trim_suffix (trim_space (to_lower s)) sfx)) \<Longrightarrow> \<not> is_upper c"
proof -
  assume "c \<in> set (trim_space (trim_suffix (trim_space (to_lower s)) sfx))"
  then have "c \<in> set (to_lower s)"
    using set_trim_func set_trim_suffix unfolding trim_space_def by blast
  then show ?thesis by (auto simp add: to_lower_def)
qed

lemma normalized_segment:
  assumes "\<forall>c \<in> set base. \<not> is_upper c"
    and "trim_func (\<lambda>c. c = CHR ''_'') (hp_loop base [] False) \<noteq> []" (is "?n \<noteq> []")
  shows "package_segment ?n"
proof -
  have "\<forall>c \<in> set ?n. segment_char c"
    using hp_loop_chars [OF assms(1), of "[]" False] set_trim_func by fastforce
  moreover have "no_double ?n"
    by (intro no_double_trim hp_loop_no_double) (simp_all add: no_double_def)
  moreover have "hd ?n \<noteq> CHR ''_''" "last ?n \<noteq> CHR ''_''"
    using hd_trim_func [OF assms(2)] last_trim_func [OF assms(2)] by auto
  ultimately show ?thesis using assms(2) by (simp add: package_segment_def)
qed

lemma HandlerPackage_wf [wf_intros]: "package_segment (HandlerPackage s)"
  unfolding HandlerPackage_def Let_def
  using app_segment normalized_segment base_not_upper by (auto split: if_splits)

text \<open>On a package segment the loop is the identity, up to the underscore it writes in front
  of a leading digit, which the final trim takes off again.\<close>

lemma hp_loop_keeps:
  assumes "b \<noteq> []" and "\<forall>c \<in> set s. segment_char c" and "no_double s"
    and "u \<Longrightarrow> s \<noteq> [] \<Longrightarrow> hd s \<noteq> CHR ''_''"
  shows "hp_loop s b u = b @ s"
  using assms
proof (induction s b u rule: hp_loop.induct)
  case (2 r rs b u)
  have nd: "no_double rs" "r = CHR ''_'' \<Longrightarrow> rs \<noteq> [] \<Longrightarrow> hd rs \<noteq> CHR ''_''"
    using 2(6) by (cases rs; simp add: no_double_def)+
  from 2(5) segment_char_props [of r] have "r = CHR ''_'' \<or> is_letter r \<or> is_digit r" by simp
  then show ?case using 2 nd by auto
qed simp

lemma hp_loop_segment:
  assumes "package_segment s"
  shows "hp_loop s [] False = (if is_digit (hd s) then CHR ''_'' # s else s)"
proof (cases s)
  case (Cons r rs)
  from assms Cons have r: "is_letter r \<or> is_digit r" and rs: "\<forall>c \<in> set rs. segment_char c" "no_double rs"
    using segment_char_props [of r] by (cases rs; auto simp: package_segment_def no_double_def)+
  have keep: "hp_loop rs b False = b @ rs" if "b \<noteq> []" for b
    using hp_loop_keeps [OF that rs] by simp
  show ?thesis using r Cons keep by auto
qed (use assms in \<open>simp add: package_segment_def\<close>)

lemma trim_segment:
  assumes "package_segment s"
  shows "trim_func (\<lambda>c. c = CHR ''_'') (hp_loop s [] False) = s"
proof -
  have "trim_func (\<lambda>c. c = CHR ''_'') s = s"
    using assms by (intro trim_func_fixed) (auto simp: package_segment_def)
  moreover have "trim_func (\<lambda>c. c = CHR ''_'') (CHR ''_'' # s) = trim_func (\<lambda>c. c = CHR ''_'') s"
    by (simp add: trim_func_def)
  ultimately show ?thesis by (simp add: hp_loop_segment [OF assms])
qed

lemma segment_trim_space: "package_segment s \<Longrightarrow> trim_space s = s"
  unfolding trim_space_def package_segment_def
  by (intro trim_func_fixed) (meson segment_char_props(2) hd_in_set last_in_set)+

lemma segment_trim_suffix:
  assumes "package_segment s" shows "trim_suffix s (CHR ''-'' # t) = s"
proof -
  have "\<not> has_suffix s (CHR ''-'' # t)"
    using assms segment_char_props(4) unfolding has_suffix_iff package_segment_def by fastforce
  then show ?thesis by (simp add: trim_suffix_def)
qed

lemma HandlerPackage_segment: "package_segment s \<Longrightarrow> HandlerPackage s = s"
proof -
  assume s: "package_segment s"
  then have "to_lower s = s"
    by (intro to_lower_fixed) (auto simp: package_segment_def dest: segment_char_props(1))
  with s show ?thesis
    by (auto simp add: HandlerPackage_def segment_trim_space segment_trim_suffix trim_segment
        package_segment_def)
qed

section \<open>Properties\<close>

text \<open>\<open>HandlerPackage\<close> is a normal form.  Whatever the service name, the package segment is
  not empty, has only lower-case letters, digits and single inner underscores, and
  normalising it again changes nothing; so the segment that \<open>InitService\<close> writes and the one
  the manifest derives later from the same name agree.\<close>

theorem HandlerPackage_normal_form:
  "package_segment (HandlerPackage s) \<and> HandlerPackage (HandlerPackage s) = HandlerPackage s"
  by (simp add: HandlerPackage_segment HandlerPackage_wf)

text \<open>The underscore that the loop writes in front of a leading digit, to keep the segment a
  valid Go identifier, does not survive: a segment that starts with a digit is returned with
  the digit in front, because the final \<open>strings.Trim\<close> removes the underscore.\<close>

theorem HandlerPackage_digit_guard_lost:
  assumes "package_segment s" and "is_digit (hd s)"
  shows "hd (hp_loop s [] False) = CHR ''_'' \<and> is_digit (hd (HandlerPackage s))"
  using assms by (simp add: hp_loop_segment HandlerPackage_segment)

lemma segment_2fa: "package_segment ''2fa''"
  by (simp add: package_segment_def no_double_def segment_char_def is_lower_def is_digit_def)

theorem HandlerPackage_digit_guard_lost_witness:
  "hd (hp_loop ''2fa'' [] False) = CHR ''_'' \<and> is_digit (hd (HandlerPackage ''2fa''))"
  by (rule HandlerPackage_digit_guard_lost [OF segment_2fa]) (simp add: is_digit_def)

end
