(* ===== verification/TLSConfig.thy ===== *)
theory TLSConfig
  imports Zengo_Prelude
begin

text \<open>
  Package \<open>sdk/tlsconfig\<close>: the shared TLS options, their protobuf form
  (\<open>api/config/meta/tls.proto\<close>), their validation and the \<open>tls.Config\<close> built from them.

  Reading a file and parsing PEM and X.509 data are outside: they are the three functions
  of a \<open>tls_env\<close>, which may answer or fail in any way.
\<close>

section \<open>Options and wire messages\<close>

record Material =
  mt_Path :: string
  mt_InlinePEM :: string

record ClientOptions =
  co_CA :: "Material option"
  co_Cert :: "Material option"
  co_Key :: "Material option"
  co_ServerName :: string
  co_InsecureSkipVerify :: bool

text \<open>\<open>ClientAuthMode\<close> is a string type in the source, so any string may arrive.\<close>

type_synonym ClientAuthMode = string

abbreviation ClientAuthNone :: ClientAuthMode where "ClientAuthNone \<equiv> ''none''"
abbreviation ClientAuthVerifyIfGiven :: ClientAuthMode where
  "ClientAuthVerifyIfGiven \<equiv> ''verify_if_given''"
abbreviation ClientAuthRequireAndVerify :: ClientAuthMode where
  "ClientAuthRequireAndVerify \<equiv> ''require_and_verify''"

record ServerOptions =
  so_Cert :: "Material option"
  so_Key :: "Material option"
  so_CA :: "Material option"
  so_ClientCA :: "Material option"
  so_ServerName :: string
  so_ClientAuth :: ClientAuthMode

datatype pb_material_source = TLSMaterial_Path string | TLSMaterial_InlinePem string

record pb_TLSMaterial =
  pbm_Source :: "pb_material_source option"

record pb_ClientTLS =
  pbc_Ca :: "pb_TLSMaterial option"
  pbc_Cert :: "pb_TLSMaterial option"
  pbc_Key :: "pb_TLSMaterial option"
  pbc_ServerName :: string
  pbc_InsecureSkipVerify :: bool

text \<open>A proto3 enum is open: any number may arrive on the wire.\<close>

type_synonym pb_ClientAuth = int

abbreviation (input) ServerTLS_NONE :: pb_ClientAuth where "ServerTLS_NONE \<equiv> 0"
abbreviation (input) ServerTLS_VERIFY_IF_GIVEN :: pb_ClientAuth where "ServerTLS_VERIFY_IF_GIVEN \<equiv> 1"
abbreviation (input) ServerTLS_REQUIRE_AND_VERIFY :: pb_ClientAuth where
  "ServerTLS_REQUIRE_AND_VERIFY \<equiv> 2"

record pb_ServerTLS =
  pbs_Cert :: "pb_TLSMaterial option"
  pbs_Key :: "pb_TLSMaterial option"
  pbs_Ca :: "pb_TLSMaterial option"
  pbs_ClientCa :: "pb_TLSMaterial option"
  pbs_ServerName :: string
  pbs_ClientAuth :: pb_ClientAuth

section \<open>Conversions\<close>

definition MaterialFromProto :: "pb_TLSMaterial option \<Rightarrow> Material option" where
  "MaterialFromProto src =
     (case src of None \<Rightarrow> None
      | Some m \<Rightarrow>
          (let out = (case pbm_Source m of
                        Some (TLSMaterial_Path p) \<Rightarrow> \<lparr>mt_Path = p, mt_InlinePEM = []\<rparr>
                      | Some (TLSMaterial_InlinePem p) \<Rightarrow> \<lparr>mt_Path = [], mt_InlinePEM = p\<rparr>
                      | None \<Rightarrow> \<lparr>mt_Path = [], mt_InlinePEM = []\<rparr>)
           in if mt_Path out = [] \<and> mt_InlinePEM out = [] then None else Some out))"

definition MaterialToProto :: "Material option \<Rightarrow> pb_TLSMaterial option" where
  "MaterialToProto src =
     (case src of None \<Rightarrow> None
      | Some m \<Rightarrow>
          if mt_Path m \<noteq> [] then Some \<lparr>pbm_Source = Some (TLSMaterial_Path (mt_Path m))\<rparr>
          else if mt_InlinePEM m \<noteq> []
               then Some \<lparr>pbm_Source = Some (TLSMaterial_InlinePem (mt_InlinePEM m))\<rparr>
          else None)"

definition ClientOptionsFromProto :: "pb_ClientTLS option \<Rightarrow> ClientOptions option" where
  "ClientOptionsFromProto src =
     (case src of None \<Rightarrow> None
      | Some p \<Rightarrow>
          (let out = \<lparr>co_CA = MaterialFromProto (pbc_Ca p),
                      co_Cert = MaterialFromProto (pbc_Cert p),
                      co_Key = MaterialFromProto (pbc_Key p),
                      co_ServerName = pbc_ServerName p,
                      co_InsecureSkipVerify = pbc_InsecureSkipVerify p\<rparr>
           in if co_CA out = None \<and> co_Cert out = None \<and> co_Key out = None \<and>
                 co_ServerName out = [] \<and> \<not> co_InsecureSkipVerify out
              then None else Some out))"

definition ClientOptionsToProto :: "ClientOptions option \<Rightarrow> pb_ClientTLS option" where
  "ClientOptionsToProto src =
     (case src of None \<Rightarrow> None
      | Some o' \<Rightarrow> Some \<lparr>pbc_Ca = MaterialToProto (co_CA o'),
                        pbc_Cert = MaterialToProto (co_Cert o'),
                        pbc_Key = MaterialToProto (co_Key o'),
                        pbc_ServerName = co_ServerName o',
                        pbc_InsecureSkipVerify = co_InsecureSkipVerify o'\<rparr>)"

definition clientAuthModeFromProto :: "pb_ClientAuth \<Rightarrow> ClientAuthMode" where
  "clientAuthModeFromProto mode =
     (if mode = ServerTLS_VERIFY_IF_GIVEN then ClientAuthVerifyIfGiven
      else if mode = ServerTLS_REQUIRE_AND_VERIFY then ClientAuthRequireAndVerify
      else ClientAuthNone)"

definition clientAuthModeToProto :: "ClientAuthMode \<Rightarrow> pb_ClientAuth" where
  "clientAuthModeToProto mode =
     (if mode = ClientAuthVerifyIfGiven then ServerTLS_VERIFY_IF_GIVEN
      else if mode = ClientAuthRequireAndVerify then ServerTLS_REQUIRE_AND_VERIFY
      else ServerTLS_NONE)"

definition effectiveClientAuth :: "ClientAuthMode \<Rightarrow> ClientAuthMode" where
  "effectiveClientAuth mode = (if mode = [] then ClientAuthNone else mode)"

definition ServerOptionsFromProto :: "pb_ServerTLS option \<Rightarrow> ServerOptions option" where
  "ServerOptionsFromProto src =
     (case src of None \<Rightarrow> None
      | Some p \<Rightarrow>
          (let out = \<lparr>so_Cert = MaterialFromProto (pbs_Cert p),
                      so_Key = MaterialFromProto (pbs_Key p),
                      so_CA = MaterialFromProto (pbs_Ca p),
                      so_ClientCA = MaterialFromProto (pbs_ClientCa p),
                      so_ServerName = pbs_ServerName p,
                      so_ClientAuth = clientAuthModeFromProto (pbs_ClientAuth p)\<rparr>
           in if so_Cert out = None \<and> so_Key out = None \<and> so_CA out = None \<and>
                 so_ClientCA out = None \<and> so_ServerName out = [] \<and>
                 so_ClientAuth out = ClientAuthNone
              then None else Some out))"

definition ServerOptionsToProto :: "ServerOptions option \<Rightarrow> pb_ServerTLS option" where
  "ServerOptionsToProto src =
     (case src of None \<Rightarrow> None
      | Some o' \<Rightarrow> Some \<lparr>pbs_Cert = MaterialToProto (so_Cert o'),
                        pbs_Key = MaterialToProto (so_Key o'),
                        pbs_Ca = MaterialToProto (so_CA o'),
                        pbs_ClientCa = MaterialToProto (so_ClientCA o'),
                        pbs_ServerName = so_ServerName o',
                        pbs_ClientAuth = clientAuthModeToProto (so_ClientAuth o')\<rparr>)"

section \<open>Validation\<close>

datatype 'e tls_error =
    MaterialExactlyOne string
  | MaterialMissing string
  | ClientCertKeyTogether
  | UnsupportedClientAuth string
  | ServerCertKeyRequired
  | ServerClientCARequired
  | MaterialIsNil
  | ReadFailed string 'e
  | AppendCertsFailed
  | ParseKeyPair 'e
  | LoadClientCA "'e tls_error"
  | LoadClientCert "'e tls_error"
  | LoadServerCert "'e tls_error"
  | LoadServerClientCA "'e tls_error"

definition validateMaterial :: "string \<Rightarrow> Material option \<Rightarrow> 'e tls_error option" where
  "validateMaterial name material =
     (case material of None \<Rightarrow> None
      | Some m \<Rightarrow>
          if mt_Path m \<noteq> [] \<and> mt_InlinePEM m \<noteq> [] then Some (MaterialExactlyOne name)
          else if mt_Path m = [] \<and> mt_InlinePEM m = [] then Some (MaterialMissing name)
          else None)"

definition validateClientOptions :: "ClientOptions option \<Rightarrow> 'e tls_error option" where
  "validateClientOptions opts =
     (case opts of None \<Rightarrow> None
      | Some o' \<Rightarrow>
          check_then (validateMaterial ''ca'' (co_CA o'))
         (check_then (validateMaterial ''cert'' (co_Cert o'))
         (check_then (validateMaterial ''key'' (co_Key o'))
         (if (co_Cert o' = None) \<noteq> (co_Key o' = None) then Some ClientCertKeyTogether else None))))"

definition validateServerOptions :: "ServerOptions option \<Rightarrow> 'e tls_error option" where
  "validateServerOptions opts =
     (case opts of None \<Rightarrow> None
      | Some o' \<Rightarrow>
          (let mode = effectiveClientAuth (so_ClientAuth o')
           in if mode \<notin> {ClientAuthNone, ClientAuthVerifyIfGiven, ClientAuthRequireAndVerify}
              then Some (UnsupportedClientAuth mode)
              else check_then (validateMaterial ''cert'' (so_Cert o'))
                  (check_then (validateMaterial ''key'' (so_Key o'))
                  (check_then (validateMaterial ''ca'' (so_CA o'))
                  (check_then (validateMaterial ''client_ca'' (so_ClientCA o'))
                  (if so_Cert o' = None \<or> so_Key o' = None then Some ServerCertKeyRequired
                   else if mode \<noteq> ClientAuthNone \<and> so_ClientCA o' = None
                   then Some ServerClientCARequired else None))))))"

section \<open>Building tls.Config\<close>

record ('e, 'pool, 'cert) tls_env =
  env_ReadFile :: "string \<Rightarrow> 'e + string"
  env_CertsFromPEM :: "string \<Rightarrow> 'pool option"
  env_X509KeyPair :: "string \<Rightarrow> string \<Rightarrow> 'e + 'cert"

datatype client_auth_type = NoClientCert | VerifyClientCertIfGiven | RequireAndVerifyClientCert

record ('pool, 'cert) tls_Config =
  tc_MinVersion :: nat
  tc_ServerName :: string
  tc_InsecureSkipVerify :: bool
  tc_RootCAs :: "'pool option"
  tc_Certificates :: "'cert list"
  tc_ClientAuth :: client_auth_type
  tc_ClientCAs :: "'pool option"

text \<open>\<open>tls.VersionTLS12\<close> is \<open>0x0303\<close>; the zero value of a \<open>tls.Config\<close>.\<close>

definition VersionTLS12 :: nat where "VersionTLS12 = 771"

definition zero_Config :: "('pool, 'cert) tls_Config" where
  "zero_Config = \<lparr>tc_MinVersion = 0, tc_ServerName = [], tc_InsecureSkipVerify = False,
     tc_RootCAs = None, tc_Certificates = [], tc_ClientAuth = NoClientCert, tc_ClientCAs = None\<rparr>"

definition readMaterial ::
  "('e, 'pool, 'cert) tls_env \<Rightarrow> Material option \<Rightarrow> 'e tls_error + string" where
  "readMaterial env material =
     (case material of None \<Rightarrow> Inl MaterialIsNil
      | Some m \<Rightarrow>
          if mt_Path m \<noteq> []
          then wrap_err (ReadFailed (mt_Path m)) (env_ReadFile env (mt_Path m))
          else Inr (mt_InlinePEM m))"

definition loadCertPool ::
  "('e, 'pool, 'cert) tls_env \<Rightarrow> Material option \<Rightarrow> 'e tls_error + 'pool" where
  "loadCertPool env material =
     (case material of None \<Rightarrow> Inl MaterialIsNil
      | Some m \<Rightarrow>
          bind_err (readMaterial env material) (\<lambda>pemBytes.
            case env_CertsFromPEM env pemBytes of
              None \<Rightarrow> Inl AppendCertsFailed | Some pool \<Rightarrow> Inr pool))"

definition loadKeyPair ::
  "('e, 'pool, 'cert) tls_env \<Rightarrow> Material option \<Rightarrow> Material option \<Rightarrow> Material option
     \<Rightarrow> 'e tls_error + 'cert" where
  "loadKeyPair env certMaterial keyMaterial caMaterial =
     bind_err (readMaterial env certMaterial) (\<lambda>certPEM.
     bind_err (case caMaterial of None \<Rightarrow> Inr certPEM
               | Some _ \<Rightarrow> bind_err (readMaterial env caMaterial)
                             (\<lambda>caPEM. Inr (certPEM @ [char_of (10::nat)] @ caPEM))) (\<lambda>certPEM.
     bind_err (readMaterial env keyMaterial) (\<lambda>keyPEM.
       wrap_err ParseKeyPair (env_X509KeyPair env certPEM keyPEM))))"

definition ClientConfig ::
  "('e, 'pool, 'cert) tls_env \<Rightarrow> ClientOptions option
     \<Rightarrow> 'e tls_error + ('pool, 'cert) tls_Config option" where
  "ClientConfig env opts =
     (case opts of None \<Rightarrow> Inr None
      | Some o' \<Rightarrow>
          check_bind (validateClientOptions opts)
          (let cfg = zero_Config\<lparr>tc_MinVersion := VersionTLS12,
                                tc_ServerName := co_ServerName o',
                                tc_InsecureSkipVerify := co_InsecureSkipVerify o'\<rparr>
           in bind_err
                (if co_CA o' \<noteq> None
                 then bind_err (wrap_err LoadClientCA (loadCertPool env (co_CA o')))
                        (\<lambda>pool. Inr (cfg\<lparr>tc_RootCAs := Some pool\<rparr>))
                 else Inr cfg) (\<lambda>cfg.
              if co_Cert o' \<noteq> None
              then bind_err (wrap_err LoadClientCert
                              (loadKeyPair env (co_Cert o') (co_Key o') None))
                     (\<lambda>cert. Inr (Some (cfg\<lparr>tc_Certificates := [cert]\<rparr>)))
              else Inr (Some cfg))))"

definition ServerConfig ::
  "('e, 'pool, 'cert) tls_env \<Rightarrow> ServerOptions option
     \<Rightarrow> 'e tls_error + ('pool, 'cert) tls_Config option" where
  "ServerConfig env opts =
     (case opts of None \<Rightarrow> Inr None
      | Some o' \<Rightarrow>
          check_bind (validateServerOptions opts)
          (bind_err (wrap_err LoadServerCert
                      (loadKeyPair env (so_Cert o') (so_Key o') (so_CA o'))) (\<lambda>cert.
           let cfg = zero_Config\<lparr>tc_MinVersion := VersionTLS12, tc_Certificates := [cert]\<rparr>;
               cfg = (if so_ServerName o' \<noteq> [] then cfg\<lparr>tc_ServerName := so_ServerName o'\<rparr> else cfg);
               mode = effectiveClientAuth (so_ClientAuth o');
               cfg = cfg\<lparr>tc_ClientAuth :=
                       (if mode = ClientAuthVerifyIfGiven then VerifyClientCertIfGiven
                        else if mode = ClientAuthRequireAndVerify then RequireAndVerifyClientCert
                        else NoClientCert)\<rparr>
           in if mode \<noteq> ClientAuthNone
              then bind_err (wrap_err LoadServerClientCA (loadCertPool env (so_ClientCA o')))
                     (\<lambda>pool. Inr (Some (cfg\<lparr>tc_ClientCAs := Some pool\<rparr>)))
              else Inr (Some cfg))))"

section \<open>Round trips\<close>

definition wf_material :: "Material option \<Rightarrow> bool" where
  "wf_material m \<longleftrightarrow> validateMaterial [] m = (None :: unit tls_error option)"

lemma wf_material_iff:
  "wf_material m \<longleftrightarrow>
     (case m of None \<Rightarrow> True | Some m \<Rightarrow> (mt_Path m = []) \<noteq> (mt_InlinePEM m = []))"
  by (auto simp add: wf_material_def validateMaterial_def split: option.splits)

lemma validateMaterial_None [simp]: "validateMaterial name m = None \<longleftrightarrow> wf_material m"
  by (auto simp add: wf_material_iff validateMaterial_def split: option.splits)

interpretation material: codec MaterialToProto MaterialFromProto wf_material
  by unfold_locales
    (auto simp add: wf_material_iff MaterialToProto_def MaterialFromProto_def Let_def
      split: option.splits pb_material_source.splits)

definition wf_client :: "ClientOptions option \<Rightarrow> bool" where
  "wf_client o' \<longleftrightarrow>
     (case o' of None \<Rightarrow> True
      | Some c \<Rightarrow> wf_material (co_CA c) \<and> wf_material (co_Cert c) \<and> wf_material (co_Key c) \<and>
          (co_CA c \<noteq> None \<or> co_Cert c \<noteq> None \<or> co_Key c \<noteq> None \<or> co_ServerName c \<noteq> [] \<or>
           co_InsecureSkipVerify c))"

interpretation client: codec ClientOptionsToProto ClientOptionsFromProto wf_client
  by unfold_locales
    (auto simp add: wf_client_def ClientOptionsToProto_def ClientOptionsFromProto_def Let_def
      material.dec_enc material.wf_dec split: option.splits)

definition auth_modes :: "ClientAuthMode set" where
  "auth_modes = {ClientAuthNone, ClientAuthVerifyIfGiven, ClientAuthRequireAndVerify}"

lemma auth_mode_roundtrip: "m \<in> auth_modes \<Longrightarrow> clientAuthModeFromProto (clientAuthModeToProto m) = m"
  by (auto simp add: auth_modes_def clientAuthModeFromProto_def clientAuthModeToProto_def)

lemma auth_mode_range: "clientAuthModeFromProto n \<in> auth_modes"
  by (simp add: auth_modes_def clientAuthModeFromProto_def)

interpretation auth_mode: codec clientAuthModeToProto clientAuthModeFromProto "\<lambda>m. m \<in> auth_modes"
  by unfold_locales (auto simp add: auth_mode_roundtrip auth_mode_range)

definition wf_server :: "ServerOptions option \<Rightarrow> bool" where
  "wf_server o' \<longleftrightarrow>
     (case o' of None \<Rightarrow> True
      | Some s \<Rightarrow> wf_material (so_Cert s) \<and> wf_material (so_Key s) \<and> wf_material (so_CA s) \<and>
          wf_material (so_ClientCA s) \<and> so_ClientAuth s \<in> auth_modes \<and>
          (so_Cert s \<noteq> None \<or> so_Key s \<noteq> None \<or> so_CA s \<noteq> None \<or> so_ClientCA s \<noteq> None \<or>
           so_ServerName s \<noteq> [] \<or> so_ClientAuth s \<noteq> ClientAuthNone))"

interpretation server: codec ServerOptionsToProto ServerOptionsFromProto wf_server
  by unfold_locales
    (auto simp add: wf_server_def ServerOptionsToProto_def ServerOptionsFromProto_def Let_def
      material.dec_enc material.wf_dec auth_mode_roundtrip auth_mode_range split: option.splits)

section \<open>What a built configuration guarantees\<close>

lemma loadKeyPair_Some:
  "loadKeyPair env cert key ca = Inr c \<Longrightarrow> cert \<noteq> None \<and> key \<noteq> None"
  by (auto simp add: loadKeyPair_def readMaterial_def split: option.splits)

lemma loadCertPool_Some: "loadCertPool env m = Inr pool \<Longrightarrow> m \<noteq> None"
  by (auto simp add: loadCertPool_def split: option.splits)

lemma validateServerOptions_None [simp]:
  "validateServerOptions (Some s) = None \<longleftrightarrow>
     effectiveClientAuth (so_ClientAuth s) \<in> auth_modes \<and>
     wf_material (so_Cert s) \<and> wf_material (so_Key s) \<and> wf_material (so_CA s) \<and>
     wf_material (so_ClientCA s) \<and> so_Cert s \<noteq> None \<and> so_Key s \<noteq> None \<and>
     (effectiveClientAuth (so_ClientAuth s) = ClientAuthNone \<or> so_ClientCA s \<noteq> None)"
  by (auto simp add: validateServerOptions_def Let_def auth_modes_def)

lemma validateClientOptions_None [simp]:
  "validateClientOptions (Some c) = None \<longleftrightarrow>
     wf_material (co_CA c) \<and> wf_material (co_Cert c) \<and> wf_material (co_Key c) \<and>
     (co_Cert c = None \<longleftrightarrow> co_Key c = None)"
  by (auto simp add: validateClientOptions_def)

lemma effectiveClientAuth_cases:
  "effectiveClientAuth m \<in> auth_modes \<Longrightarrow>
     m = [] \<or> m = ClientAuthNone \<or> m = ClientAuthVerifyIfGiven \<or> m = ClientAuthRequireAndVerify"
  by (auto simp add: effectiveClientAuth_def auth_modes_def split: if_splits)

text \<open>C29: a server configuration is never weaker than its options.  When \<open>ServerConfig\<close>
  succeeds, the minimum version is TLS 1.2, exactly one certificate is served, the
  client-certificate policy is the one the options name (and the name is one of the known
  modes, or empty for none), and a pool of client CAs is installed exactly when
  certificates are verified, so no client is verified against the system roots.\<close>

theorem ServerConfig_enforces_client_auth:
  assumes "ServerConfig env (Some s) = Inr r"
  shows "\<exists>c. r = Some c \<and> tc_MinVersion c = VersionTLS12 \<and> length (tc_Certificates c) = 1 \<and>
    (tc_ClientAuth c = RequireAndVerifyClientCert \<longleftrightarrow> so_ClientAuth s = ClientAuthRequireAndVerify) \<and>
    (tc_ClientAuth c = VerifyClientCertIfGiven \<longleftrightarrow> so_ClientAuth s = ClientAuthVerifyIfGiven) \<and>
    (tc_ClientCAs c \<noteq> None \<longleftrightarrow> tc_ClientAuth c \<noteq> NoClientCert) \<and>
    (so_ClientAuth s = [] \<or> so_ClientAuth s \<in> auth_modes)"
proof -
  from assms have mode: "effectiveClientAuth (so_ClientAuth s) \<in> auth_modes"
    by (auto simp add: ServerConfig_def)
  show ?thesis
    using assms effectiveClientAuth_cases [OF mode]
    by (elim disjE)
      (auto simp add: ServerConfig_def Let_def zero_Config_def effectiveClientAuth_def auth_modes_def)
qed

definition demo_env :: "(string, string, string) tls_env" where
  "demo_env = \<lparr>env_ReadFile = (\<lambda>p. if p = ''/cert'' then Inr ''C'' else Inl p),
     env_CertsFromPEM = (\<lambda>b. if b = [] then None else Some b),
     env_X509KeyPair = (\<lambda>c k. Inr (c @ k))\<rparr>"

definition demo_server :: ServerOptions where
  "demo_server = \<lparr>so_Cert = Some \<lparr>mt_Path = ''/cert'', mt_InlinePEM = []\<rparr>,
     so_Key = Some \<lparr>mt_Path = [], mt_InlinePEM = ''K''\<rparr>, so_CA = None,
     so_ClientCA = Some \<lparr>mt_Path = [], mt_InlinePEM = ''CA''\<rparr>, so_ServerName = [],
     so_ClientAuth = ClientAuthRequireAndVerify\<rparr>"

lemma demo_server_config:
  "ServerConfig demo_env (Some demo_server) =
     Inr (Some \<lparr>tc_MinVersion = 771, tc_ServerName = [], tc_InsecureSkipVerify = False,
       tc_RootCAs = None, tc_Certificates = [''CK''], tc_ClientAuth = RequireAndVerifyClientCert,
       tc_ClientCAs = Some ''CA''\<rparr>)"
  by (simp add: ServerConfig_def demo_server_def demo_env_def validateServerOptions_def
      validateMaterial_def effectiveClientAuth_def loadKeyPair_def loadCertPool_def
      readMaterial_def zero_Config_def VersionTLS12_def)

theorem ServerConfig_enforces_client_auth_witness:
  "\<exists>c. ServerConfig demo_env (Some demo_server) = Inr (Some c) \<and> tc_ClientCAs c \<noteq> None"
proof -
  obtain c where c: "ServerConfig demo_env (Some demo_server) = Inr (Some c)"
      "tc_ClientCAs c \<noteq> None \<longleftrightarrow> tc_ClientAuth c \<noteq> NoClientCert"
      "tc_ClientAuth c = RequireAndVerifyClientCert \<longleftrightarrow>
         so_ClientAuth demo_server = ClientAuthRequireAndVerify"
    using ServerConfig_enforces_client_auth [OF demo_server_config] demo_server_config by metis
  moreover have "so_ClientAuth demo_server = ClientAuthRequireAndVerify"
    by (simp add: demo_server_def)
  ultimately show ?thesis by (intro exI [of _ c]) simp
qed

text \<open>A client configuration verifies the server unless the options say otherwise.  When
  \<open>ClientConfig\<close> returns a configuration, its minimum version is TLS 1.2, it skips
  verification only when the options ask for it, it carries its own roots exactly when a CA
  is configured, and it presents a certificate exactly when both certificate and key are.\<close>

theorem ClientConfig_secure:
  assumes "ClientConfig env (Some o') = Inr r"
  shows "\<exists>c. r = Some c \<and> tc_MinVersion c = VersionTLS12 \<and>
    (tc_InsecureSkipVerify c \<longleftrightarrow> co_InsecureSkipVerify o') \<and>
    (tc_RootCAs c \<noteq> None \<longleftrightarrow> co_CA o' \<noteq> None) \<and>
    (tc_Certificates c \<noteq> [] \<longleftrightarrow> co_Cert o' \<noteq> None \<and> co_Key o' \<noteq> None)"
  using assms by (auto simp add: ClientConfig_def Let_def zero_Config_def split: if_splits)

theorem ClientConfig_secure_witness:
  "\<exists>c. ClientConfig demo_env
     (Some \<lparr>co_CA = Some \<lparr>mt_Path = [], mt_InlinePEM = ''CA''\<rparr>, co_Cert = None, co_Key = None,
            co_ServerName = ''db'', co_InsecureSkipVerify = False\<rparr>) = Inr (Some c) \<and>
     \<not> tc_InsecureSkipVerify c \<and> tc_RootCAs c \<noteq> None"
proof -
  let ?o = "\<lparr>co_CA = Some \<lparr>mt_Path = [], mt_InlinePEM = ''CA''\<rparr>, co_Cert = None, co_Key = None,
            co_ServerName = ''db'', co_InsecureSkipVerify = False\<rparr>"
  have "\<exists>r. ClientConfig demo_env (Some ?o) = Inr r"
    by (simp add: ClientConfig_def demo_env_def validateClientOptions_def validateMaterial_def
        loadCertPool_def readMaterial_def Let_def)
  then obtain r where r: "ClientConfig demo_env (Some ?o) = Inr r" ..
  with ClientConfig_secure [OF r] show ?thesis by auto
qed

lemma validateMaterial_wf: "wf_material m \<Longrightarrow> validateMaterial name m = None"
  by simp

lemma validateServerOptions_wf:
  assumes "wf_server (Some s)"
  shows "validateServerOptions (Some s) =
    (if so_Cert s = None \<or> so_Key s = None then Some ServerCertKeyRequired
     else if so_ClientAuth s \<noteq> ClientAuthNone \<and> so_ClientCA s = None
     then Some ServerClientCARequired else None)"
proof -
  from assms have m: "so_ClientAuth s \<in> auth_modes" by (simp add: wf_server_def)
  then have e: "effectiveClientAuth (so_ClientAuth s) = so_ClientAuth s"
    by (auto simp add: auth_modes_def effectiveClientAuth_def)
  show ?thesis
    using assms m
    by (simp only: validateServerOptions_def option.case Let_def e auth_modes_def wf_server_def
        validateMaterial_wf check_then.simps not_not if_False simp_thms)
qed

lemma validateClientOptions_wf:
  assumes "wf_client (Some c)"
  shows "validateClientOptions (Some c) =
    (if (co_Cert c = None) \<noteq> (co_Key c = None) then Some ClientCertKeyTogether else None)"
  using assms by (simp add: validateClientOptions_def wf_client_def validateMaterial_wf)

text \<open>Options that come from protobuf need no material check.  Decoding normalises the
  one-of source, so the only error left for client options is a certificate without its key
  or the reverse, and server options decode to a known client-auth mode.\<close>

theorem decoded_options_validation:
  "validateClientOptions (ClientOptionsFromProto p) \<in> {None, Some ClientCertKeyTogether} \<and>
   validateServerOptions (ServerOptionsFromProto q) \<in>
     {None, Some ServerCertKeyRequired, Some ServerClientCARequired}"
proof
  show "validateClientOptions (ClientOptionsFromProto p) \<in> {None, Some ClientCertKeyTogether}"
    using client.wf_dec [of p]
    by (cases "ClientOptionsFromProto p")
      (simp_all add: validateClientOptions_wf, simp add: validateClientOptions_def)
  show "validateServerOptions (ServerOptionsFromProto q) \<in>
     {None, Some ServerCertKeyRequired, Some ServerClientCARequired}"
    using server.wf_dec [of q]
    by (cases "ServerOptionsFromProto q")
      (simp_all add: validateServerOptions_wf, simp add: validateServerOptions_def)
qed

end
