(* ===== verification/Manifest.thy ===== *)
theory Manifest
  imports TLSConfig Naming
begin

text \<open>
  Package \<open>internal/manifest\<close> (\<open>manifest.go\<close>): the service manifest, its protobuf form
  (\<open>api/zengo/manifest/manifest.proto\<close>), its validation, the defaults that the generators
  read from it, and the conversions in both directions.  Files are in \<open>ManifestStore\<close>.

  A pointer to a sub-configuration is an \<open>option\<close>; a Go \<open>int\<close> port is an \<open>int\<close>; an API-key
  map is a finite map, where Go's nil map and its empty map are the same map.
\<close>

section \<open>The manifest\<close>

type_synonym CompatibilityMode = string

abbreviation (input) CompatibilityUnspecified :: CompatibilityMode where "CompatibilityUnspecified \<equiv> []"
abbreviation (input) CompatibilityDisabled :: CompatibilityMode where "CompatibilityDisabled \<equiv> ''disabled''"
abbreviation (input) CompatibilityEnabled :: CompatibilityMode where "CompatibilityEnabled \<equiv> ''enabled''"

record Service =
  sv_Name :: string
  sv_Module :: string

record GRPC =
  g_Port :: int
  g_TLS :: "ServerOptions option"

record REST =
  r_Port :: int
  r_TLS :: "ServerOptions option"
  r_GRPCClientTLS :: "ClientOptions option"

record Transports =
  t_GRPC :: "GRPC option"
  t_REST :: "REST option"

record PostgresDB =
  pg_ConfigFrom :: string
  pg_Queries :: string

record CassandraDB =
  ca_ConfigFrom :: string
  ca_Keyspace :: string
  ca_CQL :: string

record OracleDB =
  or_ConfigFrom :: string
  or_Queries :: string

record DB =
  db_Postgres :: "PostgresDB option"
  db_Cassandra :: "CassandraDB option"
  db_Oracle :: "OracleDB option"

record Kafka =
  k_BrokersFromConfig :: string
  k_Brokers :: "string list"

record Nats =
  n_ConfigFrom :: string
  n_URLs :: "string list"

record RabbitMQ =
  rb_ConfigFrom :: string
  rb_URLs :: "string list"

record Queue =
  q_Kafka :: "Kafka option"
  q_Nats :: "Nats option"
  q_RabbitMQ :: "RabbitMQ option"

record Redis =
  rd_ConfigFrom :: string

record Cache =
  c_Redis :: "Redis option"

record S3 =
  s3_ConfigFrom :: string

record Storage =
  st_S3 :: "S3 option"

record Observability =
  ob_Metrics :: bool
  ob_Tracing :: bool
  ob_Health :: bool
  ob_TracingConfigFrom :: string
  ob_LoggingConfigFrom :: string

record Auth =
  au_Enabled :: bool
  au_APIKeys :: "string \<rightharpoonup> string"

record Compatibility =
  cp_LegacyVersions :: CompatibilityMode

record Manifest =
  m_Service :: Service
  m_Transports :: Transports
  m_Observability :: Observability
  m_Auth :: "Auth option"
  m_DB :: "DB option"
  m_Queue :: "Queue option"
  m_Cache :: "Cache option"
  m_Storage :: "Storage option"
  m_Compatibility :: "Compatibility option"

section \<open>The protobuf messages\<close>

type_synonym pb_CompatibilityMode = int

abbreviation (input) Compatibility_UNSPECIFIED :: pb_CompatibilityMode where "Compatibility_UNSPECIFIED \<equiv> 0"
abbreviation (input) Compatibility_DISABLED :: pb_CompatibilityMode where "Compatibility_DISABLED \<equiv> 1"
abbreviation (input) Compatibility_ENABLED :: pb_CompatibilityMode where "Compatibility_ENABLED \<equiv> 2"

record pb_Service =
  p_Name :: string
  p_Module :: string

record pb_GRPC =
  pg_Port :: int
  pg_Tls :: "pb_ServerTLS option"

record pb_REST =
  pr_Port :: int
  pr_Tls :: "pb_ServerTLS option"
  pr_GrpcClientTls :: "pb_ClientTLS option"

record pb_Transports =
  pt_Grpc :: "pb_GRPC option"
  pt_Rest :: "pb_REST option"

record pb_PostgresDB =
  ppg_ConfigFrom :: string
  ppg_Queries :: string

record pb_CassandraDB =
  pca_ConfigFrom :: string
  pca_Keyspace :: string
  pca_Cql :: string

record pb_OracleDB =
  por_ConfigFrom :: string
  por_Queries :: string

record pb_DB =
  pdb_Postgres :: "pb_PostgresDB option"
  pdb_Cassandra :: "pb_CassandraDB option"
  pdb_Oracle :: "pb_OracleDB option"

record pb_Kafka =
  pk_BrokersFromConfig :: string
  pk_Brokers :: "string list"

record pb_Nats =
  pn_ConfigFrom :: string
  pn_Urls :: "string list"

record pb_RabbitMQ =
  prb_ConfigFrom :: string
  prb_Urls :: "string list"

record pb_Queue =
  pq_Kafka :: "pb_Kafka option"
  pq_Nats :: "pb_Nats option"
  pq_Rabbitmq :: "pb_RabbitMQ option"

record pb_Redis =
  prd_ConfigFrom :: string

record pb_Cache =
  pc_Redis :: "pb_Redis option"

record pb_S3 =
  ps3_ConfigFrom :: string

record pb_Storage =
  pst_S3 :: "pb_S3 option"

record pb_Observability =
  pob_Metrics :: bool
  pob_Tracing :: bool
  pob_Health :: bool
  pob_TracingConfigFrom :: string
  pob_LoggingConfigFrom :: string

record pb_Auth =
  pau_Enabled :: bool
  pau_ApiKeys :: "string \<rightharpoonup> string"

record pb_Compatibility =
  pcp_LegacyVersions :: pb_CompatibilityMode

record pb_Manifest =
  pm_Service :: "pb_Service option"
  pm_Transports :: "pb_Transports option"
  pm_Observability :: "pb_Observability option"
  pm_Auth :: "pb_Auth option"
  pm_Db :: "pb_DB option"
  pm_Queue :: "pb_Queue option"
  pm_Compatibility :: "pb_Compatibility option"
  pm_Cache :: "pb_Cache option"
  pm_Storage :: "pb_Storage option"

section \<open>Configuration kinds and defaults\<close>

definition InitRequired :: "Observability \<Rightarrow> bool" where
  "InitRequired o' \<longleftrightarrow> ob_Metrics o' \<or> ob_Tracing o'"

definition TracingConfigKey :: "Observability \<Rightarrow> string" where
  "TracingConfigKey o' =
     (if ob_TracingConfigFrom o' \<noteq> [] then ob_TracingConfigFrom o' else ''tracing'')"

definition LoggingConfigKey :: "Observability \<Rightarrow> string" where
  "LoggingConfigKey o' =
     (if ob_LoggingConfigFrom o' \<noteq> [] then ob_LoggingConfigFrom o' else ''logging'')"

definition Kafka_ConfigKey :: "Kafka option \<Rightarrow> string" where
  "Kafka_ConfigKey k =
     (case k of None \<Rightarrow> ''kafka''
      | Some k \<Rightarrow> if k_BrokersFromConfig k \<noteq> [] then k_BrokersFromConfig k else ''kafka'')"

definition Nats_ConfigKey :: "Nats option \<Rightarrow> string" where
  "Nats_ConfigKey n =
     (case n of None \<Rightarrow> ''nats''
      | Some n \<Rightarrow> if n_ConfigFrom n = [] then ''nats'' else n_ConfigFrom n)"

definition RabbitMQ_ConfigKey :: "RabbitMQ option \<Rightarrow> string" where
  "RabbitMQ_ConfigKey r =
     (case r of None \<Rightarrow> ''rabbitmq''
      | Some r \<Rightarrow> if rb_ConfigFrom r = [] then ''rabbitmq'' else rb_ConfigFrom r)"

definition PostgresDB_ConfigKey :: "PostgresDB option \<Rightarrow> string" where
  "PostgresDB_ConfigKey p =
     (case p of None \<Rightarrow> ''postgres''
      | Some p \<Rightarrow> if pg_ConfigFrom p = [] then ''postgres'' else pg_ConfigFrom p)"

definition CassandraDB_ConfigKey :: "CassandraDB option \<Rightarrow> string" where
  "CassandraDB_ConfigKey c =
     (case c of None \<Rightarrow> ''cassandra''
      | Some c \<Rightarrow> if ca_ConfigFrom c = [] then ''cassandra'' else ca_ConfigFrom c)"

definition OracleDB_ConfigKey :: "OracleDB option \<Rightarrow> string" where
  "OracleDB_ConfigKey o' =
     (case o' of None \<Rightarrow> ''oracle''
      | Some o' \<Rightarrow> if or_ConfigFrom o' = [] then ''oracle'' else or_ConfigFrom o')"

definition Redis_ConfigKey :: "Redis option \<Rightarrow> string" where
  "Redis_ConfigKey r =
     (case r of None \<Rightarrow> ''redis''
      | Some r \<Rightarrow> if rd_ConfigFrom r = [] then ''redis'' else rd_ConfigFrom r)"

definition S3_ConfigKey :: "S3 option \<Rightarrow> string" where
  "S3_ConfigKey s =
     (case s of None \<Rightarrow> ''s3''
      | Some s \<Rightarrow> if s3_ConfigFrom s = [] then ''s3'' else s3_ConfigFrom s)"

definition GRPCPort :: "Manifest \<Rightarrow> int" where
  "GRPCPort m =
     (case t_GRPC (m_Transports m) of
        Some g \<Rightarrow> if g_Port g > 0 then g_Port g else 9090
      | None \<Rightarrow> 9090)"

definition RESTPort :: "Manifest \<Rightarrow> int" where
  "RESTPort m =
     (case t_REST (m_Transports m) of
        Some r \<Rightarrow> if r_Port r > 0 then r_Port r else 8080
      | None \<Rightarrow> 8080)"

definition AuthEnabled :: "Manifest \<Rightarrow> bool" where
  "AuthEnabled m \<longleftrightarrow> (case m_Auth m of None \<Rightarrow> False | Some a \<Rightarrow> au_Enabled a)"

definition EffectiveRabbitMQ :: "Manifest \<Rightarrow> RabbitMQ option" where
  "EffectiveRabbitMQ m = (case m_Queue m of Some q \<Rightarrow> q_RabbitMQ q | None \<Rightarrow> None)"

text \<open>The guards \<open>m.DB != nil && (m.DB.Postgres != nil || ...)\<close> that the accessors and
  \<open>toProto\<close> share.\<close>

definition has_db :: "DB option \<Rightarrow> bool" where
  "has_db d \<longleftrightarrow> (case d of None \<Rightarrow> False
     | Some d \<Rightarrow> db_Postgres d \<noteq> None \<or> db_Cassandra d \<noteq> None \<or> db_Oracle d \<noteq> None)"

definition has_queue :: "Queue option \<Rightarrow> bool" where
  "has_queue q \<longleftrightarrow> (case q of None \<Rightarrow> False
     | Some q \<Rightarrow> q_Kafka q \<noteq> None \<or> q_Nats q \<noteq> None \<or> q_RabbitMQ q \<noteq> None)"

definition has_cache :: "Cache option \<Rightarrow> bool" where
  "has_cache c \<longleftrightarrow> (case c of None \<Rightarrow> False | Some c \<Rightarrow> c_Redis c \<noteq> None)"

definition has_storage :: "Storage option \<Rightarrow> bool" where
  "has_storage s \<longleftrightarrow> (case s of None \<Rightarrow> False | Some s \<Rightarrow> st_S3 s \<noteq> None)"

definition NeedsConfigLoader :: "Manifest option \<Rightarrow> bool" where
  "NeedsConfigLoader mo =
     (case mo of None \<Rightarrow> False
      | Some m \<Rightarrow>
          if has_db (m_DB m) then True
          else if (case m_Queue m of None \<Rightarrow> False | Some q \<Rightarrow> q_Kafka q \<noteq> None) then True
          else if has_cache (m_Cache m) then True
          else if has_storage (m_Storage m) then True
          else InitRequired (m_Observability m))"

definition Manifest_HandlerPackage :: "Manifest \<Rightarrow> string" where
  "Manifest_HandlerPackage m = HandlerPackage (sv_Name (m_Service m))"

definition HandlerImport :: "Manifest \<Rightarrow> string" where
  "HandlerImport m = sv_Module (m_Service m) @ ''/internal/'' @ Manifest_HandlerPackage m"

definition LegacyCompatibilityMode :: "Manifest option \<Rightarrow> CompatibilityMode" where
  "LegacyCompatibilityMode mo =
     (case mo of None \<Rightarrow> CompatibilityUnspecified
      | Some m \<Rightarrow> (case m_Compatibility m of None \<Rightarrow> CompatibilityUnspecified
                   | Some c \<Rightarrow> cp_LegacyVersions c))"

definition LegacyCompatibilityConfigured :: "Manifest option \<Rightarrow> bool" where
  "LegacyCompatibilityConfigured m \<longleftrightarrow> LegacyCompatibilityMode m \<noteq> CompatibilityUnspecified"

definition LegacyCompatibilityEnabled :: "Manifest option \<Rightarrow> bool" where
  "LegacyCompatibilityEnabled m \<longleftrightarrow> LegacyCompatibilityMode m = CompatibilityEnabled"

definition PostgresDBName :: "Manifest \<Rightarrow> string" where
  "PostgresDBName m = Manifest_HandlerPackage m @ ''s''"

section \<open>Validation\<close>

datatype manifest_error =
    ServiceNameRequired
  | ServiceModuleRequired
  | GRPCRequiredByREST
  | GRPCClientTLSRequired
  | PortOutOfRange string

definition MaxUint16 :: int where "MaxUint16 = 65535"

definition validatePort :: "string \<Rightarrow> int \<Rightarrow> manifest_error option" where
  "validatePort name port =
     (if port = 0 then None
      else if port < 0 \<or> port > MaxUint16 then Some (PortOutOfRange name)
      else None)"

definition validate :: "Manifest \<Rightarrow> manifest_error option" where
  "validate m =
     (let grpc = t_GRPC (m_Transports m); rest = t_REST (m_Transports m)
      in if sv_Name (m_Service m) = [] then Some ServiceNameRequired
         else if sv_Module (m_Service m) = [] then Some ServiceModuleRequired
         else if rest \<noteq> None \<and> grpc = None then Some GRPCRequiredByREST
         else if (case (rest, grpc) of
                    (Some r, Some g) \<Rightarrow> g_TLS g \<noteq> None \<and> r_GRPCClientTLS r = None
                  | _ \<Rightarrow> False) then Some GRPCClientTLSRequired
         else check_then
                (case grpc of None \<Rightarrow> None
                 | Some g \<Rightarrow> validatePort ''manifest.transports.grpc.port'' (g_Port g))
             (check_then
                (case rest of None \<Rightarrow> None
                 | Some r \<Rightarrow> validatePort ''manifest.transports.rest.port'' (r_Port r))
              None))"

section \<open>From protobuf\<close>

definition compatibilityModeFromProto :: "pb_CompatibilityMode \<Rightarrow> CompatibilityMode" where
  "compatibilityModeFromProto mode =
     (if mode = Compatibility_DISABLED then CompatibilityDisabled
      else if mode = Compatibility_ENABLED then CompatibilityEnabled
      else CompatibilityUnspecified)"

definition compatibilityModeToProto :: "CompatibilityMode \<Rightarrow> pb_CompatibilityMode" where
  "compatibilityModeToProto mode =
     (if mode = CompatibilityDisabled then Compatibility_DISABLED
      else if mode = CompatibilityEnabled then Compatibility_ENABLED
      else Compatibility_UNSPECIFIED)"

definition cloneMap :: "(string \<rightharpoonup> string) \<Rightarrow> (string \<rightharpoonup> string)" where
  "cloneMap in_map = (if dom in_map = {} then Map.empty else Map.empty ++ in_map)"

definition portToInt32 :: "int \<Rightarrow> int" where
  "portToInt32 port = (if port < 0 \<or> port > MaxUint16 then 0 else port)"

definition dbFromProto :: "pb_DB option \<Rightarrow> DB option" where
  "dbFromProto db =
     (case db of None \<Rightarrow> None
      | Some d \<Rightarrow> Some
          \<lparr>db_Postgres = map_option
             (\<lambda>p. \<lparr>pg_ConfigFrom = ppg_ConfigFrom p, pg_Queries = ppg_Queries p\<rparr>) (pdb_Postgres d),
           db_Cassandra = map_option
             (\<lambda>c. \<lparr>ca_ConfigFrom = pca_ConfigFrom c, ca_Keyspace = pca_Keyspace c, ca_CQL = pca_Cql c\<rparr>)
             (pdb_Cassandra d),
           db_Oracle = map_option
             (\<lambda>o'. \<lparr>or_ConfigFrom = por_ConfigFrom o', or_Queries = por_Queries o'\<rparr>) (pdb_Oracle d)\<rparr>)"

definition kafkaFromProto :: "pb_Kafka \<Rightarrow> Kafka" where
  "kafkaFromProto k = \<lparr>k_BrokersFromConfig = pk_BrokersFromConfig k, k_Brokers = [] @ pk_Brokers k\<rparr>"

definition natsFromProto :: "pb_Nats \<Rightarrow> Nats" where
  "natsFromProto n = \<lparr>n_ConfigFrom = pn_ConfigFrom n, n_URLs = [] @ pn_Urls n\<rparr>"

definition rabbitMQFromProto :: "pb_RabbitMQ \<Rightarrow> RabbitMQ" where
  "rabbitMQFromProto r = \<lparr>rb_ConfigFrom = prb_ConfigFrom r, rb_URLs = [] @ prb_Urls r\<rparr>"

definition redisFromProto :: "pb_Redis \<Rightarrow> Redis" where
  "redisFromProto r = \<lparr>rd_ConfigFrom = prd_ConfigFrom r\<rparr>"

definition s3FromProto :: "pb_S3 \<Rightarrow> S3" where
  "s3FromProto s = \<lparr>s3_ConfigFrom = ps3_ConfigFrom s\<rparr>"

definition queueFromProto :: "pb_Queue option \<Rightarrow> Queue option" where
  "queueFromProto q =
     (case q of None \<Rightarrow> None
      | Some q \<Rightarrow> Some \<lparr>q_Kafka = map_option kafkaFromProto (pq_Kafka q),
                        q_Nats = map_option natsFromProto (pq_Nats q),
                        q_RabbitMQ = map_option rabbitMQFromProto (pq_Rabbitmq q)\<rparr>)"

definition cacheFromProto :: "pb_Cache option \<Rightarrow> Cache option" where
  "cacheFromProto c =
     (case c of None \<Rightarrow> None
      | Some c \<Rightarrow> Some \<lparr>c_Redis = map_option redisFromProto (pc_Redis c)\<rparr>)"

definition storageFromProto :: "pb_Storage option \<Rightarrow> Storage option" where
  "storageFromProto s =
     (case s of None \<Rightarrow> None
      | Some s \<Rightarrow> Some \<lparr>st_S3 = map_option s3FromProto (pst_S3 s)\<rparr>)"

definition zero_Observability :: Observability where
  "zero_Observability = \<lparr>ob_Metrics = False, ob_Tracing = False, ob_Health = False,
     ob_TracingConfigFrom = [], ob_LoggingConfigFrom = []\<rparr>"

definition fromProto :: "pb_Manifest \<Rightarrow> Manifest" where
  "fromProto pb =
     \<lparr>m_Service = (case pm_Service pb of None \<Rightarrow> \<lparr>sv_Name = [], sv_Module = []\<rparr>
                   | Some svc \<Rightarrow> \<lparr>sv_Name = p_Name svc, sv_Module = p_Module svc\<rparr>),
      m_Transports = (case pm_Transports pb of None \<Rightarrow> \<lparr>t_GRPC = None, t_REST = None\<rparr>
        | Some t \<Rightarrow>
            \<lparr>t_GRPC = map_option
               (\<lambda>g. \<lparr>g_Port = pg_Port g, g_TLS = ServerOptionsFromProto (pg_Tls g)\<rparr>) (pt_Grpc t),
             t_REST = map_option
               (\<lambda>r. \<lparr>r_Port = pr_Port r, r_TLS = ServerOptionsFromProto (pr_Tls r),
                     r_GRPCClientTLS = ClientOptionsFromProto (pr_GrpcClientTls r)\<rparr>) (pt_Rest t)\<rparr>),
      m_Observability = (case pm_Observability pb of None \<Rightarrow> zero_Observability
        | Some o' \<Rightarrow> \<lparr>ob_Metrics = pob_Metrics o', ob_Tracing = pob_Tracing o',
                     ob_Health = pob_Health o',
                     ob_TracingConfigFrom = pob_TracingConfigFrom o',
                     ob_LoggingConfigFrom = pob_LoggingConfigFrom o'\<rparr>),
      m_Auth = map_option
        (\<lambda>a. \<lparr>au_Enabled = pau_Enabled a, au_APIKeys = cloneMap (pau_ApiKeys a)\<rparr>) (pm_Auth pb),
      m_DB = dbFromProto (pm_Db pb),
      m_Queue = queueFromProto (pm_Queue pb),
      m_Cache = cacheFromProto (pm_Cache pb),
      m_Storage = storageFromProto (pm_Storage pb),
      m_Compatibility = map_option
        (\<lambda>c. \<lparr>cp_LegacyVersions = compatibilityModeFromProto (pcp_LegacyVersions c)\<rparr>)
        (pm_Compatibility pb)\<rparr>"

section \<open>To protobuf\<close>

definition toProto :: "Manifest \<Rightarrow> pb_Manifest" where
  "toProto m =
     \<lparr>pm_Service = Some \<lparr>p_Name = sv_Name (m_Service m), p_Module = sv_Module (m_Service m)\<rparr>,
      pm_Transports =
        (if t_GRPC (m_Transports m) \<noteq> None \<or> t_REST (m_Transports m) \<noteq> None
         then Some
           \<lparr>pt_Grpc = map_option
              (\<lambda>g. \<lparr>pg_Port = portToInt32 (g_Port g), pg_Tls = ServerOptionsToProto (g_TLS g)\<rparr>)
              (t_GRPC (m_Transports m)),
            pt_Rest = map_option
              (\<lambda>r. \<lparr>pr_Port = portToInt32 (r_Port r), pr_Tls = ServerOptionsToProto (r_TLS r),
                    pr_GrpcClientTls = ClientOptionsToProto (r_GRPCClientTLS r)\<rparr>)
              (t_REST (m_Transports m))\<rparr>
         else None),
      pm_Observability = Some
        \<lparr>pob_Metrics = ob_Metrics (m_Observability m), pob_Tracing = ob_Tracing (m_Observability m),
         pob_Health = ob_Health (m_Observability m),
         pob_TracingConfigFrom = ob_TracingConfigFrom (m_Observability m),
         pob_LoggingConfigFrom = ob_LoggingConfigFrom (m_Observability m)\<rparr>,
      pm_Auth = map_option
        (\<lambda>a. \<lparr>pau_Enabled = au_Enabled a, pau_ApiKeys = cloneMap (au_APIKeys a)\<rparr>) (m_Auth m),
      pm_Db =
        (if has_db (m_DB m)
         then map_option
           (\<lambda>d. \<lparr>pdb_Postgres = map_option
                    (\<lambda>p. \<lparr>ppg_ConfigFrom = pg_ConfigFrom p, ppg_Queries = pg_Queries p\<rparr>) (db_Postgres d),
                  pdb_Cassandra = map_option
                    (\<lambda>c. \<lparr>pca_ConfigFrom = ca_ConfigFrom c, pca_Keyspace = ca_Keyspace c,
                          pca_Cql = ca_CQL c\<rparr>) (db_Cassandra d),
                  pdb_Oracle = map_option
                    (\<lambda>o'. \<lparr>por_ConfigFrom = or_ConfigFrom o', por_Queries = or_Queries o'\<rparr>)
                    (db_Oracle d)\<rparr>) (m_DB m)
         else None),
      pm_Queue =
        (if has_queue (m_Queue m)
         then map_option
           (\<lambda>q. \<lparr>pq_Kafka = map_option
                    (\<lambda>k. \<lparr>pk_BrokersFromConfig = k_BrokersFromConfig k, pk_Brokers = [] @ k_Brokers k\<rparr>)
                    (q_Kafka q),
                  pq_Nats = map_option
                    (\<lambda>n. \<lparr>pn_ConfigFrom = n_ConfigFrom n, pn_Urls = [] @ n_URLs n\<rparr>) (q_Nats q),
                  pq_Rabbitmq = map_option
                    (\<lambda>r. \<lparr>prb_ConfigFrom = rb_ConfigFrom r, prb_Urls = [] @ rb_URLs r\<rparr>)
                    (q_RabbitMQ q)\<rparr>) (m_Queue m)
         else None),
      pm_Compatibility = map_option
        (\<lambda>c. \<lparr>pcp_LegacyVersions = compatibilityModeToProto (cp_LegacyVersions c)\<rparr>)
        (m_Compatibility m),
      pm_Cache =
        (if has_cache (m_Cache m)
         then map_option
           (\<lambda>c. \<lparr>pc_Redis = map_option (\<lambda>r. \<lparr>prd_ConfigFrom = rd_ConfigFrom r\<rparr>) (c_Redis c)\<rparr>) (m_Cache m)
         else None),
      pm_Storage =
        (if has_storage (m_Storage m)
         then map_option
           (\<lambda>s. \<lparr>pst_S3 = map_option (\<lambda>c. \<lparr>ps3_ConfigFrom = s3_ConfigFrom c\<rparr>) (st_S3 s)\<rparr>) (m_Storage m)
         else None)\<rparr>"

end
