(* ===== verification/ManifestFacts.thy ===== *)
theory ManifestFacts
  imports Manifest
begin

text \<open>
  What holds of the manifest model: which manifests \<open>validate\<close> accepts, that the ports the
  generators read are always usable, and what a manifest keeps when it is written to
  protobuf and read back.
\<close>

section \<open>Validation\<close>

lemma validatePort_None [simp]: "validatePort n p = None \<longleftrightarrow> 0 \<le> p \<and> p \<le> 65535"
  by (auto simp add: validatePort_def MaxUint16_def)

text \<open>The manifests the code means to accept.\<close>

definition valid_manifest :: "Manifest \<Rightarrow> bool" where
  "valid_manifest m \<longleftrightarrow>
     sv_Name (m_Service m) \<noteq> [] \<and> sv_Module (m_Service m) \<noteq> [] \<and>
     (\<forall>r. t_REST (m_Transports m) = Some r \<longrightarrow>
        (\<exists>g. t_GRPC (m_Transports m) = Some g \<and>
             (g_TLS g \<noteq> None \<longrightarrow> r_GRPCClientTLS r \<noteq> None)) \<and>
        0 \<le> r_Port r \<and> r_Port r \<le> 65535) \<and>
     (\<forall>g. t_GRPC (m_Transports m) = Some g \<longrightarrow> 0 \<le> g_Port g \<and> g_Port g \<le> 65535)"

lemma validate_iff: "validate m = None \<longleftrightarrow> valid_manifest m"
  by (auto simp add: validate_def valid_manifest_def Let_def split: option.splits if_splits)

text \<open>\<open>validate\<close> accepts exactly the manifests with a name, a module, gRPC wherever REST
  is, client TLS options for the gateway wherever gRPC uses TLS, and ports of 0 to 65535.
  The ports the generators then read, with their defaults for 0, are ports a listener can
  bind: 1 to 65535.\<close>

theorem validate_complete:
  "(validate m = None \<longleftrightarrow> valid_manifest m) \<and>
   (validate m = None \<longrightarrow> 1 \<le> GRPCPort m \<and> GRPCPort m \<le> 65535 \<and>
                         1 \<le> RESTPort m \<and> RESTPort m \<le> 65535)"
  by (auto simp add: validate_iff valid_manifest_def GRPCPort_def RESTPort_def split: option.splits)

definition demo_manifest :: Manifest where
  "demo_manifest = fromProto
     \<lparr>pm_Service = Some \<lparr>p_Name = ''user-service'', p_Module = ''example.com/user''\<rparr>,
      pm_Transports = Some
        \<lparr>pt_Grpc = Some \<lparr>pg_Port = 0, pg_Tls = None\<rparr>,
         pt_Rest = Some \<lparr>pr_Port = 8081, pr_Tls = None, pr_GrpcClientTls = None\<rparr>\<rparr>,
      pm_Observability = None, pm_Auth = None,
      pm_Db = Some \<lparr>pdb_Postgres = None, pdb_Cassandra = None, pdb_Oracle = None\<rparr>,
      pm_Queue = None, pm_Compatibility = None,
      pm_Cache = Some \<lparr>pc_Redis = Some \<lparr>prd_ConfigFrom = []\<rparr>\<rparr>, pm_Storage = None\<rparr>"

lemmas demo_manifest_simps =
  demo_manifest_def fromProto_def dbFromProto_def queueFromProto_def cacheFromProto_def
  storageFromProto_def redisFromProto_def ServerOptionsFromProto_def ClientOptionsFromProto_def

lemma demo_manifest_valid: "validate demo_manifest = None"
  by (simp add: demo_manifest_simps validate_def Let_def)

theorem validate_complete_witness:
  "validate demo_manifest = None \<and> GRPCPort demo_manifest = 9090 \<and> RESTPort demo_manifest = 8081 \<and>
   1 \<le> RESTPort demo_manifest"
  using validate_complete [of demo_manifest] demo_manifest_valid
  by (auto simp add: demo_manifest_simps GRPCPort_def RESTPort_def)

section \<open>Round trips\<close>

text \<open>Protobuf has no way to write a section with nothing in it, so \<open>toProto\<close> drops it.\<close>

definition drop_empty :: "Manifest \<Rightarrow> Manifest" where
  "drop_empty m = m
     \<lparr>m_DB := (if has_db (m_DB m) then m_DB m else None),
      m_Queue := (if has_queue (m_Queue m) then m_Queue m else None),
      m_Cache := (if has_cache (m_Cache m) then m_Cache m else None),
      m_Storage := (if has_storage (m_Storage m) then m_Storage m else None)\<rparr>"

definition compat_modes :: "CompatibilityMode set" where
  "compat_modes = {CompatibilityUnspecified, CompatibilityDisabled, CompatibilityEnabled}"

text \<open>What the wire can carry.\<close>

definition wf_grpc :: "GRPC \<Rightarrow> bool" where
  "wf_grpc g \<longleftrightarrow> 0 \<le> g_Port g \<and> g_Port g \<le> 65535 \<and> wf_server (g_TLS g)"

definition wf_rest :: "REST \<Rightarrow> bool" where
  "wf_rest r \<longleftrightarrow> 0 \<le> r_Port r \<and> r_Port r \<le> 65535 \<and> wf_server (r_TLS r) \<and>
     wf_client (r_GRPCClientTLS r)"

definition wf_manifest :: "Manifest \<Rightarrow> bool" where
  "wf_manifest m \<longleftrightarrow>
     (\<forall>g. t_GRPC (m_Transports m) = Some g \<longrightarrow> wf_grpc g) \<and>
     (\<forall>r. t_REST (m_Transports m) = Some r \<longrightarrow> wf_rest r) \<and>
     (\<forall>c. m_Compatibility m = Some c \<longrightarrow> cp_LegacyVersions c \<in> compat_modes)"

lemma cloneMap_id [simp]: "cloneMap m = m"
  by (auto simp add: cloneMap_def)

lemma portToInt32_id: "0 \<le> p \<Longrightarrow> p \<le> 65535 \<Longrightarrow> portToInt32 p = p"
  by (simp add: portToInt32_def MaxUint16_def)

lemma compat_mode_roundtrip:
  "m \<in> compat_modes \<Longrightarrow> compatibilityModeFromProto (compatibilityModeToProto m) = m"
  by (auto simp add: compat_modes_def compatibilityModeFromProto_def compatibilityModeToProto_def)

lemma compat_mode_range: "compatibilityModeFromProto n \<in> compat_modes"
  by (simp add: compat_modes_def compatibilityModeFromProto_def)

interpretation compat_mode: codec compatibilityModeToProto compatibilityModeFromProto
  "\<lambda>m. m \<in> compat_modes"
  by unfold_locales (auto simp add: compat_mode_roundtrip compat_mode_range)

lemma transports_roundtrip:
  assumes "\<forall>g. t_GRPC t = Some g \<longrightarrow> wf_grpc g" and "\<forall>r. t_REST t = Some r \<longrightarrow> wf_rest r"
  shows "map_option (\<lambda>g. \<lparr>g_Port = portToInt32 (g_Port g),
             g_TLS = ServerOptionsFromProto (ServerOptionsToProto (g_TLS g))\<rparr>) (t_GRPC t) = t_GRPC t"
    and "map_option (\<lambda>r. \<lparr>r_Port = portToInt32 (r_Port r),
             r_TLS = ServerOptionsFromProto (ServerOptionsToProto (r_TLS r)),
             r_GRPCClientTLS = ClientOptionsFromProto (ClientOptionsToProto (r_GRPCClientTLS r))\<rparr>)
           (t_REST t) = t_REST t"
  using assms
  by (auto simp add: map_option_case wf_grpc_def wf_rest_def portToInt32_id server.dec_enc
      client.dec_enc split: option.splits)

lemma section_roundtrips:
  "dbFromProto (pm_Db (toProto m)) = (if has_db (m_DB m) then m_DB m else None)"
  "queueFromProto (pm_Queue (toProto m)) = (if has_queue (m_Queue m) then m_Queue m else None)"
  "cacheFromProto (pm_Cache (toProto m)) = (if has_cache (m_Cache m) then m_Cache m else None)"
  "storageFromProto (pm_Storage (toProto m)) = (if has_storage (m_Storage m) then m_Storage m else None)"
  by (auto simp add: toProto_def dbFromProto_def has_db_def queueFromProto_def has_queue_def
      cacheFromProto_def has_cache_def storageFromProto_def has_storage_def kafkaFromProto_def
      natsFromProto_def rabbitMQFromProto_def redisFromProto_def s3FromProto_def
      map_option_case split: option.splits)

lemma fromProto_toProto:
  assumes "wf_manifest m"
  shows "fromProto (toProto m) = drop_empty m"
proof (rule Manifest.Manifest.equality)
  show "m_Transports (fromProto (toProto m)) = m_Transports (drop_empty m)"
    using assms transports_roundtrip [of "m_Transports m"]
    by (auto simp add: fromProto_def toProto_def drop_empty_def wf_manifest_def option.map_comp comp_def)
  show "m_Compatibility (fromProto (toProto m)) = m_Compatibility (drop_empty m)"
    using assms by (auto simp add: fromProto_def toProto_def drop_empty_def wf_manifest_def
        compat_mode_roundtrip map_option_case split: option.splits)
  show "m_Auth (fromProto (toProto m)) = m_Auth (drop_empty m)"
    by (auto simp add: fromProto_def toProto_def drop_empty_def map_option_case split: option.splits)
qed (simp_all add: fromProto_def section_roundtrips drop_empty_def, simp_all add: toProto_def)

lemma wf_fromProto: "validate (fromProto pb) = None \<Longrightarrow> wf_manifest (fromProto pb)"
  by (auto simp add: validate_iff valid_manifest_def wf_manifest_def wf_grpc_def wf_rest_def
      fromProto_def server.wf_dec client.wf_dec compat_mode_range split: option.splits)

text \<open>Validation looks at the service and the transports only.\<close>

lemma validate_cong:
  "m_Service a = m_Service b \<Longrightarrow> m_Transports a = m_Transports b \<Longrightarrow> validate a = validate b"
  by (simp only: validate_def)

text \<open>Every default and every question that a generator asks has the same answer after empty
  sections are dropped.\<close>

lemma drop_empty_accessors:
  "GRPCPort (drop_empty m) = GRPCPort m" "RESTPort (drop_empty m) = RESTPort m"
  "AuthEnabled (drop_empty m) = AuthEnabled m"
  "EffectiveRabbitMQ (drop_empty m) = EffectiveRabbitMQ m"
  "NeedsConfigLoader (Some (drop_empty m)) = NeedsConfigLoader (Some m)"
  "Manifest_HandlerPackage (drop_empty m) = Manifest_HandlerPackage m"
  "HandlerImport (drop_empty m) = HandlerImport m" "PostgresDBName (drop_empty m) = PostgresDBName m"
  "LegacyCompatibilityMode (Some (drop_empty m)) = LegacyCompatibilityMode (Some m)"
  "validate (drop_empty m) = validate m"
  by (auto simp add: drop_empty_def GRPCPort_def RESTPort_def AuthEnabled_def EffectiveRabbitMQ_def
      NeedsConfigLoader_def Manifest_HandlerPackage_def HandlerImport_def PostgresDBName_def
      LegacyCompatibilityMode_def validate_def has_db_def has_queue_def has_cache_def has_storage_def
      Let_def split: option.splits)

lemma drop_empty_idem [simp]: "drop_empty (drop_empty m) = drop_empty m"
  by (simp add: drop_empty_def has_db_def has_queue_def has_cache_def has_storage_def)

lemma toProto_drop_empty [simp]: "toProto (drop_empty m) = toProto m"
  by (simp add: toProto_def drop_empty_def has_db_def has_queue_def has_cache_def has_storage_def)

lemma wf_drop_empty [simp]: "wf_manifest (drop_empty m) = wf_manifest m"
  by (simp add: wf_manifest_def drop_empty_def)

text \<open>C33: a manifest that loads and validates survives being written back.  Reading its
  protobuf form gives the manifest without its empty sections, writing that again gives the
  same protobuf message, it still validates, and the effective ports, handler package,
  compatibility mode and the need for a configuration loader are unchanged.\<close>

theorem manifest_roundtrip:
  assumes "validate (fromProto pb) = None"
  defines "m \<equiv> fromProto pb" and "m' \<equiv> fromProto (toProto (fromProto pb))"
  shows "m' = drop_empty m \<and> toProto m' = toProto m \<and> validate m' = None \<and>
    GRPCPort m' = GRPCPort m \<and> RESTPort m' = RESTPort m \<and> AuthEnabled m' = AuthEnabled m \<and>
    Manifest_HandlerPackage m' = Manifest_HandlerPackage m \<and>
    NeedsConfigLoader (Some m') = NeedsConfigLoader (Some m) \<and>
    LegacyCompatibilityMode (Some m') = LegacyCompatibilityMode (Some m)"
proof -
  have "m' = drop_empty m"
    unfolding m_def m'_def by (rule fromProto_toProto [OF wf_fromProto [OF assms(1)]])
  then show ?thesis using assms(1) by (simp add: drop_empty_accessors m_def)
qed

theorem manifest_roundtrip_witness:
  "validate demo_manifest = None \<and> fromProto (toProto demo_manifest) = drop_empty demo_manifest \<and>
   m_DB demo_manifest \<noteq> None \<and> m_DB (fromProto (toProto demo_manifest)) = None"
proof -
  have v: "validate demo_manifest = None" by (rule demo_manifest_valid)
  have eq: "fromProto (toProto demo_manifest) = drop_empty demo_manifest"
    using manifest_roundtrip [OF v [unfolded demo_manifest_def]] by (simp add: demo_manifest_def)
  show ?thesis
    unfolding eq using v by (simp add: demo_manifest_simps drop_empty_def has_db_def)
qed

end
