(* ===== verification/ManifestStore.thy ===== *)
theory ManifestStore
  imports ManifestFacts
begin

text \<open>
  The manifest on disk: package \<open>pkg/sdk/config/configfmt\<close> (the wire format chosen by the
  file extension) and the loading, discovery and update of a manifest file
  (\<open>internal/manifest/manifest.go\<close>, \<open>yaml.go\<close>).

  YAML and protobuf text are encoded by third-party packages, so the two marshallers and
  the two unmarshallers are the functions of a \<open>fmt_env\<close>.  \<open>fmt_faithful\<close> is what their
  documentation promises: a message that was marshalled unmarshals to itself.

  A disk maps the path of a regular file to its contents; reads, writes and the creation
  of a directory may also be refused by the operating system.
\<close>

section \<open>Formats\<close>

record ('e, 'm) fmt_env =
  YAMLToJSON :: "string \<Rightarrow> 'e + string"
  JSONToYAML :: "string \<Rightarrow> 'e + string"
  protojson_Unmarshal :: "string \<Rightarrow> 'e + 'm"
  protojson_Marshal :: "'m \<Rightarrow> 'e + string"
  prototext_Unmarshal :: "string \<Rightarrow> 'e + 'm"
  prototext_Marshal :: "'m \<Rightarrow> 'e + string"

datatype 'e fmt_error =
    YamlToJson 'e | JsonToYaml 'e | DecodeError 'e | MarshalJson 'e | MarshalText 'e
  | UnsupportedFormat string

text \<open>\<open>filepath.Ext\<close>: from the last dot of the last path element, or empty.\<close>

fun ext_rev :: "string \<Rightarrow> string \<Rightarrow> string" where
  "ext_rev acc [] = []"
| "ext_rev acc (c # cs) =
     (if c = CHR ''/'' then [] else if c = CHR ''.'' then c # acc else ext_rev (c # acc) cs)"

definition Ext :: "string \<Rightarrow> string" where
  "Ext path = ext_rev [] (rev path)"

definition SupportedExtensions :: "string list" where
  "SupportedExtensions = [''.yaml'', ''.yml'', ''.textproto'', ''.pbtxt'']"

definition IsSupported :: "string \<Rightarrow> bool" where
  "IsSupported path \<longleftrightarrow> to_lower (Ext path) \<in> set SupportedExtensions"

definition fmt_Unmarshal :: "('e, 'm) fmt_env \<Rightarrow> string \<Rightarrow> string \<Rightarrow> 'e fmt_error + 'm" where
  "fmt_Unmarshal env path data =
     (let ext = to_lower (Ext path)
      in if ext = ''.yaml'' \<or> ext = ''.yml''
         then bind_err (wrap_err YamlToJson (YAMLToJSON env data))
                (\<lambda>jsonData. wrap_err DecodeError (protojson_Unmarshal env jsonData))
         else if ext = ''.textproto'' \<or> ext = ''.pbtxt''
         then wrap_err DecodeError (prototext_Unmarshal env data)
         else Inl (UnsupportedFormat (Ext path)))"

definition fmt_Marshal :: "('e, 'm) fmt_env \<Rightarrow> string \<Rightarrow> 'm \<Rightarrow> 'e fmt_error + string" where
  "fmt_Marshal env path msg =
     (let ext = to_lower (Ext path)
      in if ext = ''.yaml'' \<or> ext = ''.yml''
         then bind_err (wrap_err MarshalJson (protojson_Marshal env msg))
                (\<lambda>jsonData. wrap_err JsonToYaml (JSONToYAML env jsonData))
         else if ext = ''.textproto'' \<or> ext = ''.pbtxt''
         then wrap_err MarshalText (prototext_Marshal env msg)
         else Inl (UnsupportedFormat (Ext path)))"

definition fmt_faithful :: "('e, 'm) fmt_env \<Rightarrow> bool" where
  "fmt_faithful env \<longleftrightarrow>
     (\<forall>msg j y. protojson_Marshal env msg = Inr j \<longrightarrow> JSONToYAML env j = Inr y \<longrightarrow>
        (\<exists>j'. YAMLToJSON env y = Inr j' \<and> protojson_Unmarshal env j' = Inr msg)) \<and>
     (\<forall>msg t. prototext_Marshal env msg = Inr t \<longrightarrow> prototext_Unmarshal env t = Inr msg)"

lemma fmt_roundtrip:
  "fmt_faithful env \<Longrightarrow> fmt_Marshal env path msg = Inr data \<Longrightarrow> fmt_Unmarshal env path data = Inr msg"
  by (auto simp add: fmt_faithful_def fmt_Marshal_def fmt_Unmarshal_def Let_def split: if_splits)

lemma fmt_Marshal_supported: "fmt_Marshal env path msg = Inr data \<Longrightarrow> IsSupported path"
  by (auto simp add: fmt_Marshal_def IsSupported_def SupportedExtensions_def Let_def split: if_splits)

section \<open>The disk\<close>

record disk =
  files :: "string \<rightharpoonup> string"
  unreadable :: "string \<Rightarrow> bool"
  unwritable :: "string \<Rightarrow> bool"
  unmakeable :: "string \<Rightarrow> bool"

definition fileExists :: "disk \<Rightarrow> string \<Rightarrow> bool" where
  "fileExists d path \<longleftrightarrow> files d path \<noteq> None"

definition ReadFile :: "disk \<Rightarrow> string \<Rightarrow> string option" where
  "ReadFile d path = (if unreadable d path then None else files d path)"

definition WriteFile :: "disk \<Rightarrow> string \<Rightarrow> string \<Rightarrow> disk option" where
  "WriteFile d path data =
     (if unwritable d path then None else Some (d\<lparr>files := (files d)(path \<mapsto> data)\<rparr>))"

section \<open>Finding, loading and updating\<close>

datatype path_error =
    UnsupportedManifestFormat string | ManifestNotFound string | MultipleManifests "string list"

datatype 'e load_error =
    PathFailed path_error | ReadManifest string | ParseManifest "'e fmt_error"
  | InvalidManifest manifest_error

datatype ('e, 'p) update_error =
    LoadFailed "'e load_error" | PatchFailed 'p | InvalidUpdate manifest_error
  | MarshalManifest "'e fmt_error" | WriteManifest string

definition manifestCandidates :: "string list" where
  "manifestCandidates = [''zengo.yaml'', ''zengo.yml'', ''zengo.textproto'', ''zengo.pbtxt'']"

definition pick_found :: "string \<Rightarrow> string list \<Rightarrow> path_error + string" where
  "pick_found dir found =
     (case found of [] \<Rightarrow> Inl (ManifestNotFound dir)
      | [f] \<Rightarrow> Inr f
      | _ \<Rightarrow> Inl (MultipleManifests found))"

definition resolveManifestPath :: "disk \<Rightarrow> string \<Rightarrow> path_error + string" where
  "resolveManifestPath d path =
     (if path \<noteq> []
      then (if \<not> IsSupported path then Inl (UnsupportedManifestFormat (Ext path)) else Inr path)
      else pick_found ''current directory'' (filter (fileExists d) manifestCandidates))"

definition FindPath :: "disk \<Rightarrow> string \<Rightarrow> path_error + string" where
  "FindPath d dir =
     (if dir = [] \<or> dir = ''.'' then resolveManifestPath d []
      else pick_found dir (filter (fileExists d) (map (path_join dir) manifestCandidates)))"

definition loadProto ::
  "('e, pb_Manifest) fmt_env \<Rightarrow> disk \<Rightarrow> string \<Rightarrow> 'e load_error + (string \<times> pb_Manifest)" where
  "loadProto env d path =
     bind_err (wrap_err PathFailed (resolveManifestPath d path)) (\<lambda>resolved.
       case ReadFile d resolved of
         None \<Rightarrow> Inl (ReadManifest resolved)
       | Some data \<Rightarrow> bind_err (wrap_err ParseManifest (fmt_Unmarshal env resolved data))
                       (\<lambda>pb. Inr (resolved, pb)))"

definition Load ::
  "('e, pb_Manifest) fmt_env \<Rightarrow> disk \<Rightarrow> string \<Rightarrow> 'e load_error + Manifest" where
  "Load env d path =
     bind_err (loadProto env d path) (\<lambda>(resolved, pb).
       let m = fromProto pb
       in case validate m of Some e \<Rightarrow> Inl (InvalidManifest e) | None \<Rightarrow> Inr m)"

text \<open>\<open>Update\<close> returns the disk with the error, if any.\<close>

definition Update ::
  "('e, pb_Manifest) fmt_env \<Rightarrow> disk \<Rightarrow> string \<Rightarrow> (Manifest \<Rightarrow> 'p + Manifest)
     \<Rightarrow> disk \<times> ('e, 'p) update_error option" where
  "Update env d path patch =
     (case loadProto env d path of Inl e \<Rightarrow> (d, Some (LoadFailed e))
      | Inr (resolved, pb) \<Rightarrow>
          (case patch (fromProto pb) of Inl e \<Rightarrow> (d, Some (PatchFailed e))
           | Inr m \<Rightarrow>
               (case validate m of Some e \<Rightarrow> (d, Some (InvalidUpdate e))
                | None \<Rightarrow>
                    (case fmt_Marshal env resolved (toProto m) of
                       Inl e \<Rightarrow> (d, Some (MarshalManifest e))
                     | Inr data \<Rightarrow>
                         (case WriteFile d resolved data of
                            None \<Rightarrow> (d, Some (WriteManifest resolved))
                          | Some d' \<Rightarrow> (d', None))))))"

section \<open>What an update does to the disk\<close>

lemma resolve_explicit: "resolveManifestPath d path = Inr r \<Longrightarrow> path \<noteq> [] \<Longrightarrow> r = path"
  by (auto simp add: resolveManifestPath_def split: if_splits)

lemma pick_found_Inr: "pick_found dir found = Inr f \<longleftrightarrow> found = [f]"
  by (auto simp add: pick_found_def split: list.splits)

text \<open>The path found in the working directory is found again after the file is rewritten.\<close>

lemma resolve_stable:
  assumes "resolveManifestPath d path = Inr r" and "files d r \<noteq> None"
  shows "resolveManifestPath (d\<lparr>files := (files d)(r \<mapsto> data)\<rparr>) path = Inr r"
proof -
  have "fileExists (d\<lparr>files := (files d)(r \<mapsto> data)\<rparr>) = fileExists d"
    using assms(2) by (auto simp add: fileExists_def fun_eq_iff)
  then show ?thesis using assms(1) by (simp add: resolveManifestPath_def split: if_splits)
qed

lemma UpdateE:
  assumes "Update env d path patch = (d', None)"
  obtains r pb m data where "loadProto env d path = Inr (r, pb)" "patch (fromProto pb) = Inr m"
    "validate m = None" "fmt_Marshal env r (toProto m) = Inr data"
    "\<not> unwritable d r" "d' = d\<lparr>files := (files d)(r \<mapsto> data)\<rparr>"
  using assms by (auto simp add: Update_def WriteFile_def split: sum.splits option.splits if_splits)

lemma loadProtoE:
  assumes "loadProto env d path = Inr (r, pb)"
  obtains data where "resolveManifestPath d path = Inr r"
    "files d r = Some data" "\<not> unreadable d r" "fmt_Unmarshal env r data = Inr pb"
  using assms by (auto simp add: loadProto_def ReadFile_def split: option.splits if_splits)

lemma loadProto_rewritten:
  assumes ld: "loadProto env d path = Inr (r, pb)"
    and "fmt_faithful env" and "fmt_Marshal env r msg = Inr data"
  shows "loadProto env (d\<lparr>files := (files d)(r \<mapsto> data)\<rparr>) path = Inr (r, msg)"
proof -
  from ld obtain data0 where r: "resolveManifestPath d path = Inr r"
      "files d r = Some data0" "\<not> unreadable d r"
    by (rule loadProtoE)
  then show ?thesis
    using resolve_stable [of d path r data] fmt_roundtrip [OF assms(2,3)]
    by (simp add: loadProto_def ReadFile_def)
qed


text \<open>After a successful \<open>Update\<close>, loading the manifest again gives the patched manifest
  without its empty sections, provided the wire formats round-trip and the patch yields a
  manifest that the wire can carry.\<close>

theorem Update_then_Load:
  assumes "Update env d path patch = (d', None)" and "fmt_faithful env"
    and "\<And>m m'. wf_manifest m \<Longrightarrow> patch m = Inr m' \<Longrightarrow> wf_manifest m'"
    and "Load env d path = Inr m"
  shows "\<exists>m'. patch m = Inr m' \<and> Load env d' path = Inr (drop_empty m')"
proof -
  from assms(1) obtain r pb m' data where u: "loadProto env d path = Inr (r, pb)"
      "patch (fromProto pb) = Inr m'" "validate m' = None"
      "fmt_Marshal env r (toProto m') = Inr data" "d' = d\<lparr>files := (files d)(r \<mapsto> data)\<rparr>"
    by (rule UpdateE)
  have m: "m = fromProto pb" "validate m = None"
    using assms(4) u(1) by (auto simp add: Load_def Let_def split: option.splits)
  with u(2) assms(3) have wf: "wf_manifest m'" using wf_fromProto by blast
  have "loadProto env d' path = Inr (r, toProto m')"
    unfolding u(5) by (rule loadProto_rewritten [OF u(1) assms(2) u(4)])
  then have "Load env d' path = Inr (drop_empty m')"
    using u(3) wf by (simp add: Load_def fromProto_toProto drop_empty_accessors)
  with m(1) u(2) show ?thesis by blast
qed

section \<open>A concrete disk\<close>

text \<open>An environment that knows the encodings of two messages.\<close>

definition demo_fmt_env :: "pb_Manifest \<Rightarrow> pb_Manifest \<Rightarrow> (unit, pb_Manifest) fmt_env" where
  "demo_fmt_env a b = \<lparr>YAMLToJSON = Inr, JSONToYAML = Inr,
     protojson_Unmarshal = (\<lambda>s. if s = ''a'' then Inr a else if s = ''b'' then Inr b else Inl ()),
     protojson_Marshal = (\<lambda>m. if m = a then Inr ''a'' else if m = b then Inr ''b'' else Inl ()),
     prototext_Unmarshal = (\<lambda>s. Inl ()), prototext_Marshal = (\<lambda>m. Inl ())\<rparr>"

definition demo_disk :: disk where
  "demo_disk = \<lparr>files = [''zengo.yaml'' \<mapsto> ''a''], unreadable = (\<lambda>_. False), unwritable = (\<lambda>_. False),
     unmakeable = (\<lambda>_. False)\<rparr>"

definition demo_loaded :: Manifest where
  "demo_loaded = drop_empty demo_manifest"

definition demo_patched :: Manifest where
  "demo_patched = demo_loaded\<lparr>m_Auth := Some \<lparr>au_Enabled = True, au_APIKeys = Map.empty\<rparr>\<rparr>"

definition demo_patch :: "Manifest \<Rightarrow> unit + Manifest" where
  "demo_patch m = Inr (m\<lparr>m_Auth := Some \<lparr>au_Enabled = True, au_APIKeys = Map.empty\<rparr>\<rparr>)"

lemma demo_fmt_env_faithful: "fmt_faithful (demo_fmt_env a b)"
  by (simp add: fmt_faithful_def demo_fmt_env_def)

lemma demo_resolve: "resolveManifestPath demo_disk [] = Inr ''zengo.yaml''"
  by (simp add: resolveManifestPath_def manifestCandidates_def fileExists_def demo_disk_def
      pick_found_def)

lemma demo_yaml: "to_lower (Ext ''zengo.yaml'') = ''.yaml''"
  by (simp add: Ext_def to_lower_def lower_char_def is_upper_def)

lemma demo_loaded_facts:
  "fromProto (toProto demo_loaded) = demo_loaded" "validate demo_loaded = None"
  "fromProto (toProto demo_patched) = demo_patched" "validate demo_patched = None"
  "drop_empty demo_patched = demo_patched"
proof -
  have v: "validate demo_loaded = None"
    using demo_manifest_valid by (simp add: demo_loaded_def drop_empty_accessors)
  then show "validate demo_loaded = None" .
  have "wf_manifest demo_manifest"
    by (simp add: wf_manifest_def demo_manifest_simps wf_grpc_def wf_rest_def wf_server_def wf_client_def)
  then have wf: "wf_manifest demo_loaded" by (simp add: demo_loaded_def)
  then show "fromProto (toProto demo_loaded) = demo_loaded"
    by (simp add: fromProto_toProto demo_loaded_def)
  show d: "drop_empty demo_patched = demo_patched"
    by (simp add: demo_patched_def demo_loaded_def drop_empty_def has_db_def has_queue_def
        has_cache_def has_storage_def)
  have "wf_manifest demo_patched" using wf by (simp add: demo_patched_def wf_manifest_def)
  then show "fromProto (toProto demo_patched) = demo_patched"
    by (simp add: fromProto_toProto d)
  show "validate demo_patched = None"
    using v validate_cong [of demo_patched demo_loaded] by (simp add: demo_patched_def)
qed

lemma demo_update:
  "Update (demo_fmt_env (toProto demo_loaded) (toProto demo_patched)) demo_disk [] demo_patch =
     (demo_disk\<lparr>files := (files demo_disk)(''zengo.yaml'' \<mapsto> ''b'')\<rparr>, None)"
proof -
  have ne: "toProto demo_patched \<noteq> toProto demo_loaded"
    by (simp add: toProto_def demo_patched_def demo_loaded_def demo_manifest_simps drop_empty_def)
  have r: "ReadFile demo_disk ''zengo.yaml'' = Some ''a''" by (simp add: ReadFile_def demo_disk_def)
  have p: "demo_patch demo_loaded = Inr demo_patched" by (simp add: demo_patch_def demo_patched_def)
  have w: "WriteFile demo_disk ''zengo.yaml'' x =
      Some (demo_disk\<lparr>files := (files demo_disk)(''zengo.yaml'' \<mapsto> x)\<rparr>)" for x
    by (simp add: WriteFile_def demo_disk_def)
  show ?thesis
    using ne r p w demo_yaml demo_loaded_facts
    by (simp add: Update_def loadProto_def demo_resolve fmt_Unmarshal_def fmt_Marshal_def demo_fmt_env_def)
qed

lemma demo_Load:
  "Load (demo_fmt_env (toProto demo_loaded) b) demo_disk [] = Inr demo_loaded"
proof -
  have r: "ReadFile demo_disk ''zengo.yaml'' = Some ''a''" by (simp add: ReadFile_def demo_disk_def)
  show ?thesis
    using r demo_yaml demo_loaded_facts
    by (simp add: Load_def loadProto_def demo_resolve fmt_Unmarshal_def demo_fmt_env_def)
qed


theorem Update_then_Load_witness:
  "Load (demo_fmt_env (toProto demo_loaded) (toProto demo_patched))
     (demo_disk\<lparr>files := (files demo_disk)(''zengo.yaml'' \<mapsto> ''b'')\<rparr>) [] = Inr demo_patched"
proof -
  have wf: "wf_manifest m'" if "wf_manifest m" "demo_patch m = Inr m'" for m m'
    using that by (auto simp add: demo_patch_def wf_manifest_def)
  show ?thesis
    using Update_then_Load [OF demo_update demo_fmt_env_faithful wf demo_Load] demo_loaded_facts(5)
    by (auto simp add: demo_patch_def demo_patched_def)
qed

end
