(* ===== verification/ScaffoldAdd.thy ===== *)
theory ScaffoldAdd
  imports ManifestStore
begin

text \<open>
  \<open>zengo add\<close> (\<open>internal/scaffold/add.go\<close>): a target enables one section of the manifest
  and writes the configuration files of that section that do not exist yet.

  The patch of each target is a function on manifests; \<open>manifest_patch\<close> is the contract
  that \<open>Add\<close> relies on, and each target's patch is an interpretation of it.  The embedded
  templates (\<open>internal/scaffold/templates\<close>) are a map from path to contents.
\<close>

section \<open>Replacers and embedded templates\<close>

text \<open>\<open>strings.NewReplacer\<close>: at each position the first pair whose old string matches.\<close>

fun replacer_match :: "(string \<times> string) list \<Rightarrow> string \<Rightarrow> (string \<times> string) option" where
  "replacer_match [] s = None"
| "replacer_match ((old, new) # ps) s =
     (if old \<noteq> [] \<and> has_prefix s old then Some (old, new) else replacer_match ps s)"

lemma replacer_match_nonempty: "replacer_match ps s = Some (old, new) \<Longrightarrow> old \<noteq> []"
  by (induction ps s rule: replacer_match.induct) (auto split: if_splits)

function Replace :: "(string \<times> string) list \<Rightarrow> string \<Rightarrow> string" where
  "Replace ps [] = []"
| "Replace ps (c # cs) =
     (case replacer_match ps (c # cs) of
        None \<Rightarrow> c # Replace ps cs
      | Some (old, new) \<Rightarrow> new @ Replace ps (drop (length old) (c # cs)))"
  by pat_completeness auto
termination
  by (relation "measure (\<lambda>(ps, s). length s)") (auto dest!: replacer_match_nonempty)

type_synonym templates = "string \<rightharpoonup> string"

record addContext =
  ctx_dir :: string
  ctx_manifestPath :: string
  ctx_manifest :: Manifest

definition serviceName :: "addContext \<Rightarrow> string" where
  "serviceName c =
     (if sv_Name (m_Service (ctx_manifest c)) \<noteq> [] then sv_Name (m_Service (ctx_manifest c))
      else ''app'')"

definition replacer :: "addContext \<Rightarrow> (string \<times> string) list" where
  "replacer c =
     [(''{{HANDLER_PKG}}'', Manifest_HandlerPackage (ctx_manifest c)),
      (''{{SERVICE_NAME}}'', serviceName c)]"

datatype 'e add_error =
    FindFailed path_error | AddLoadFailed "'e load_error" | UnknownTarget string
  | UpdateFailed "('e, unit) update_error" | NoTemplate string | MkdirFailed string | WriteFailed string

type_synonym 'e outcome = "disk \<times> 'e add_error option"

definition and_then :: "'e outcome \<Rightarrow> (disk \<Rightarrow> 'e outcome) \<Rightarrow> 'e outcome" where
  "and_then r k = (case r of (d, Some e) \<Rightarrow> (d, Some e) | (d, None) \<Rightarrow> k d)"

text \<open>\<open>filepath.Dir\<close> of a file below the service directory.\<close>

definition path_Dir :: "string \<Rightarrow> string" where
  "path_Dir p = rev (drop 1 (dropWhile (\<lambda>c. c \<noteq> CHR ''/'') (rev p)))"

definition writeTemplateIfMissing ::
  "templates \<Rightarrow> string \<Rightarrow> string \<Rightarrow> string \<Rightarrow> (string \<times> string) list \<Rightarrow> disk \<Rightarrow> 'e outcome" where
  "writeTemplateIfMissing tm baseDir relPath templatePath rep d =
     (let target = path_join baseDir relPath
      in if fileExists d target then (d, None)
         else (case tm (path_join ''templates'' templatePath) of
                 None \<Rightarrow> (d, Some (NoTemplate templatePath))
               | Some data \<Rightarrow>
                   (if unmakeable d (path_Dir target) then (d, Some (MkdirFailed (path_Dir target)))
                    else (case WriteFile d target (Replace rep data) of
                            None \<Rightarrow> (d, Some (WriteFailed target)) | Some d' \<Rightarrow> (d', None)))))"

definition copyEmbeddedTemplate ::
  "templates \<Rightarrow> string \<Rightarrow> string \<Rightarrow> string \<Rightarrow> (string \<times> string) list \<Rightarrow> disk \<Rightarrow> 'e outcome" where
  "copyEmbeddedTemplate tm baseDir name target rep d =
     (case tm (path_join ''templates'' name) of
        None \<Rightarrow> (d, Some (NoTemplate name))
      | Some data \<Rightarrow>
          (let path = path_join baseDir target
           in case WriteFile d path (Replace rep data) of
                None \<Rightarrow> (d, Some (WriteFailed path)) | Some d' \<Rightarrow> (d', None)))"

section \<open>The patches\<close>

definition patch_postgres :: "Manifest \<Rightarrow> Manifest" where
  "patch_postgres m =
     (let db = (case m_DB m of None \<Rightarrow> \<lparr>db_Postgres = None, db_Cassandra = None, db_Oracle = None\<rparr>
                | Some db \<Rightarrow> db);
          pg = (case db_Postgres db of None \<Rightarrow> \<lparr>pg_ConfigFrom = [], pg_Queries = ''queries/''\<rparr>
                | Some pg \<Rightarrow> pg);
          pg = (if pg_Queries pg = [] then pg\<lparr>pg_Queries := ''queries/''\<rparr> else pg)
      in m\<lparr>m_DB := Some (db\<lparr>db_Postgres := Some pg\<rparr>)\<rparr>)"

definition patch_cassandra :: "Manifest \<Rightarrow> Manifest" where
  "patch_cassandra m =
     (let db = (case m_DB m of None \<Rightarrow> \<lparr>db_Postgres = None, db_Cassandra = None, db_Oracle = None\<rparr>
                | Some db \<Rightarrow> db);
          ca = (case db_Cassandra db of
                  None \<Rightarrow> \<lparr>ca_ConfigFrom = [], ca_Keyspace = ''app'', ca_CQL = ''cql/''\<rparr> | Some ca \<Rightarrow> ca);
          ca = (if ca_Keyspace ca = [] then ca\<lparr>ca_Keyspace := ''app''\<rparr> else ca);
          ca = (if ca_CQL ca = [] then ca\<lparr>ca_CQL := ''cql/''\<rparr> else ca)
      in m\<lparr>m_DB := Some (db\<lparr>db_Cassandra := Some ca\<rparr>)\<rparr>)"

definition empty_queue :: Queue where
  "empty_queue = \<lparr>q_Kafka = None, q_Nats = None, q_RabbitMQ = None\<rparr>"

definition patch_kafka :: "Manifest \<Rightarrow> Manifest" where
  "patch_kafka m =
     (let q = (case m_Queue m of None \<Rightarrow> empty_queue | Some q \<Rightarrow> q);
          k = (case q_Kafka q of None \<Rightarrow> \<lparr>k_BrokersFromConfig = [], k_Brokers = []\<rparr> | Some k \<Rightarrow> k);
          k = (if k_BrokersFromConfig k = [] then k\<lparr>k_BrokersFromConfig := ''kafka''\<rparr> else k);
          k = (if length (k_Brokers k) = 0 then k\<lparr>k_Brokers := [''localhost:9092'']\<rparr> else k)
      in m\<lparr>m_Queue := Some (q\<lparr>q_Kafka := Some k\<rparr>)\<rparr>)"

definition patch_nats :: "Manifest \<Rightarrow> Manifest" where
  "patch_nats m =
     (let q = (case m_Queue m of None \<Rightarrow> empty_queue | Some q \<Rightarrow> q);
          n = (case q_Nats q of None \<Rightarrow> \<lparr>n_ConfigFrom = ''nats'', n_URLs = []\<rparr> | Some n \<Rightarrow> n);
          n = (if n_ConfigFrom n = [] then n\<lparr>n_ConfigFrom := ''nats''\<rparr> else n)
      in m\<lparr>m_Queue := Some (q\<lparr>q_Nats := Some n\<rparr>)\<rparr>)"

definition patch_rabbitmq :: "Manifest \<Rightarrow> Manifest" where
  "patch_rabbitmq m =
     (let q = (case m_Queue m of None \<Rightarrow> empty_queue | Some q \<Rightarrow> q);
          r = (case q_RabbitMQ q of None \<Rightarrow> \<lparr>rb_ConfigFrom = ''rabbitmq'', rb_URLs = []\<rparr> | Some r \<Rightarrow> r);
          r = (if rb_ConfigFrom r = [] then r\<lparr>rb_ConfigFrom := ''rabbitmq''\<rparr> else r)
      in m\<lparr>m_Queue := Some (q\<lparr>q_RabbitMQ := Some r\<rparr>)\<rparr>)"

definition patch_grpc :: "Manifest \<Rightarrow> Manifest" where
  "patch_grpc m =
     (let t = m_Transports m;
          g = (case t_GRPC t of None \<Rightarrow> \<lparr>g_Port = 9090, g_TLS = None\<rparr> | Some g \<Rightarrow> g);
          g = (if g_Port g = 0 then g\<lparr>g_Port := 9090\<rparr> else g)
      in m\<lparr>m_Transports := t\<lparr>t_GRPC := Some g\<rparr>\<rparr>)"

definition patch_rest :: "Manifest \<Rightarrow> Manifest" where
  "patch_rest m =
     (let t = m_Transports m;
          r = (case t_REST t of None \<Rightarrow> \<lparr>r_Port = 8080, r_TLS = None, r_GRPCClientTLS = None\<rparr> | Some r \<Rightarrow> r);
          r = (if r_Port r = 0 then r\<lparr>r_Port := 8080\<rparr> else r)
      in m\<lparr>m_Transports := t\<lparr>t_REST := Some r\<rparr>\<rparr>)"

definition patch_observability :: "Manifest \<Rightarrow> Manifest" where
  "patch_observability m =
     (let ob = m_Observability m\<lparr>ob_Metrics := True, ob_Tracing := True, ob_Health := True\<rparr>;
          ob = (if ob_TracingConfigFrom ob = [] then ob\<lparr>ob_TracingConfigFrom := ''tracing''\<rparr> else ob);
          ob = (if ob_LoggingConfigFrom ob = [] then ob\<lparr>ob_LoggingConfigFrom := ''logging''\<rparr> else ob)
      in m\<lparr>m_Observability := ob\<rparr>)"

text \<open>\<open>len(APIKeys) == 0\<close>.\<close>

definition patch_auth :: "Manifest \<Rightarrow> Manifest" where
  "patch_auth m =
     (let au = (case m_Auth m of None \<Rightarrow> \<lparr>au_Enabled = False, au_APIKeys = Map.empty\<rparr> | Some au \<Rightarrow> au);
          au = au\<lparr>au_Enabled := True\<rparr>;
          au = (if au_APIKeys au = Map.empty then au\<lparr>au_APIKeys := [''dev'' \<mapsto> ''dev-token'']\<rparr> else au)
      in m\<lparr>m_Auth := Some au\<rparr>)"

definition patch_redis :: "Manifest \<Rightarrow> Manifest" where
  "patch_redis m =
     (let c = (case m_Cache m of None \<Rightarrow> \<lparr>c_Redis = None\<rparr> | Some c \<Rightarrow> c);
          r = (case c_Redis c of None \<Rightarrow> \<lparr>rd_ConfigFrom = ''redis''\<rparr> | Some r \<Rightarrow> r);
          r = (if rd_ConfigFrom r = [] then r\<lparr>rd_ConfigFrom := ''redis''\<rparr> else r)
      in m\<lparr>m_Cache := Some (c\<lparr>c_Redis := Some r\<rparr>)\<rparr>)"

definition patch_s3 :: "Manifest \<Rightarrow> Manifest" where
  "patch_s3 m =
     (let st = (case m_Storage m of None \<Rightarrow> \<lparr>st_S3 = None\<rparr> | Some st \<Rightarrow> st);
          s = (case st_S3 st of None \<Rightarrow> \<lparr>s3_ConfigFrom = ''s3''\<rparr> | Some s \<Rightarrow> s);
          s = (if s3_ConfigFrom s = [] then s\<lparr>s3_ConfigFrom := ''s3''\<rparr> else s)
      in m\<lparr>m_Storage := Some (st\<lparr>st_S3 := Some s\<rparr>)\<rparr>)"

section \<open>The targets\<close>

text \<open>\<open>manifest.Update\<close> with a patch that cannot fail; a patch error has the type \<open>unit\<close>.\<close>

type_synonym 'e add_env = "('e, pb_Manifest) fmt_env"

abbreviation pure_patch :: "(Manifest \<Rightarrow> Manifest) \<Rightarrow> Manifest \<Rightarrow> unit + Manifest" where
  "pure_patch patch \<equiv> \<lambda>m. Inr (patch m)"

definition update_manifest ::
  "'e add_env \<Rightarrow> addContext \<Rightarrow> (Manifest \<Rightarrow> Manifest) \<Rightarrow> disk \<Rightarrow> 'e outcome" where
  "update_manifest env ctx patch d =
     (case Update env d (ctx_manifestPath ctx) (pure_patch patch) of
        (d', None) \<Rightarrow> (d', None) | (d', Some e) \<Rightarrow> (d', Some (UpdateFailed e)))"

definition addPostgres :: "'e add_env \<Rightarrow> templates \<Rightarrow> addContext \<Rightarrow> disk \<Rightarrow> 'e outcome" where
  "addPostgres env tm ctx d =
     and_then (update_manifest env ctx patch_postgres d) (\<lambda>d.
     and_then (writeTemplateIfMissing tm (ctx_dir ctx) ''configs/postgres.yaml''
                 ''configs/postgres.yaml.tmpl'' (replacer ctx) d) (\<lambda>d.
     and_then (writeTemplateIfMissing tm (ctx_dir ctx)
                 (path_join ''queries'' (Manifest_HandlerPackage (ctx_manifest ctx) @ ''.sql''))
                 ''queries/_handler_.sql.tmpl'' (replacer ctx) d) (\<lambda>d.
     if \<not> fileExists d (path_join (ctx_dir ctx) ''sqlc.yaml'')
     then copyEmbeddedTemplate tm (ctx_dir ctx) ''sqlc.yaml'' ''sqlc.yaml'' (replacer ctx) d
     else (d, None))))"

definition addKafka :: "'e add_env \<Rightarrow> templates \<Rightarrow> addContext \<Rightarrow> disk \<Rightarrow> 'e outcome" where
  "addKafka env tm ctx d =
     and_then (update_manifest env ctx patch_kafka d)
       (writeTemplateIfMissing tm (ctx_dir ctx) ''configs/kafka.yaml'' ''configs/kafka.yaml.tmpl''
          (replacer ctx))"

definition addNats :: "'e add_env \<Rightarrow> templates \<Rightarrow> addContext \<Rightarrow> disk \<Rightarrow> 'e outcome" where
  "addNats env tm ctx d =
     and_then (update_manifest env ctx patch_nats d)
       (writeTemplateIfMissing tm (ctx_dir ctx) ''configs/nats.textproto''
          ''configs/nats.textproto.tmpl'' (replacer ctx))"

definition addRabbitMQ :: "'e add_env \<Rightarrow> addContext \<Rightarrow> disk \<Rightarrow> 'e outcome" where
  "addRabbitMQ env ctx d = update_manifest env ctx patch_rabbitmq d"

definition addGRPC :: "'e add_env \<Rightarrow> addContext \<Rightarrow> disk \<Rightarrow> 'e outcome" where
  "addGRPC env ctx d = update_manifest env ctx patch_grpc d"

definition addREST :: "'e add_env \<Rightarrow> addContext \<Rightarrow> disk \<Rightarrow> 'e outcome" where
  "addREST env ctx d = update_manifest env ctx patch_rest d"

definition addObservability :: "'e add_env \<Rightarrow> templates \<Rightarrow> addContext \<Rightarrow> disk \<Rightarrow> 'e outcome" where
  "addObservability env tm ctx d =
     and_then (update_manifest env ctx patch_observability d) (\<lambda>d.
     and_then (writeTemplateIfMissing tm (ctx_dir ctx) ''configs/logging.yaml''
                 ''configs/logging.yaml.tmpl'' (replacer ctx) d)
       (writeTemplateIfMissing tm (ctx_dir ctx) ''configs/tracing.yaml''
          ''configs/tracing.yaml.tmpl'' (replacer ctx)))"

definition addAuth :: "'e add_env \<Rightarrow> addContext \<Rightarrow> disk \<Rightarrow> 'e outcome" where
  "addAuth env ctx d = update_manifest env ctx patch_auth d"

definition addCassandra :: "'e add_env \<Rightarrow> templates \<Rightarrow> addContext \<Rightarrow> disk \<Rightarrow> 'e outcome" where
  "addCassandra env tm ctx d =
     and_then (update_manifest env ctx patch_cassandra d)
       (writeTemplateIfMissing tm (ctx_dir ctx) ''configs/cassandra.yaml''
          ''configs/cassandra.yaml.tmpl'' (replacer ctx))"

definition addRedis :: "'e add_env \<Rightarrow> templates \<Rightarrow> addContext \<Rightarrow> disk \<Rightarrow> 'e outcome" where
  "addRedis env tm ctx d =
     and_then (update_manifest env ctx patch_redis d)
       (writeTemplateIfMissing tm (ctx_dir ctx) ''configs/redis.yaml'' ''configs/redis.yaml.tmpl''
          (replacer ctx))"

definition addS3 :: "'e add_env \<Rightarrow> templates \<Rightarrow> addContext \<Rightarrow> disk \<Rightarrow> 'e outcome" where
  "addS3 env tm ctx d =
     and_then (update_manifest env ctx patch_s3 d)
       (writeTemplateIfMissing tm (ctx_dir ctx) ''configs/s3.yaml'' ''configs/s3.yaml.tmpl''
          (replacer ctx))"

definition normalizeAddTarget :: "string \<Rightarrow> string" where
  "normalizeAddTarget raw0 =
     (let raw = trim_space (to_lower raw0)
      in if raw \<in> {''postgres'', ''db/postgres''} then ''db/postgres''
         else if raw \<in> {''kafka'', ''queue/kafka''} then ''queue/kafka''
         else if raw \<in> {''nats'', ''queue/nats''} then ''queue/nats''
         else if raw \<in> {''rabbitmq'', ''queue/rabbitmq''} then ''queue/rabbitmq''
         else if raw \<in> {''grpc'', ''transport/grpc''} then ''transport/grpc''
         else if raw \<in> {''rest'', ''transport/rest''} then ''transport/rest''
         else if raw \<in> {''observability'', ''obs'', ''metrics'', ''tracing'', ''health''} then ''observability''
         else if raw = ''auth'' then ''auth''
         else if raw \<in> {''redis'', ''cache/redis'', ''config/redis''} then ''cache/redis''
         else if raw \<in> {''s3'', ''storage/s3'', ''config/s3''} then ''storage/s3''
         else if raw \<in> {''cassandra'', ''db/cassandra''} then ''db/cassandra''
         else raw)"

definition add_target ::
  "'e add_env \<Rightarrow> templates \<Rightarrow> addContext \<Rightarrow> string \<Rightarrow> disk \<Rightarrow> 'e outcome" where
  "add_target env tm ctx target d =
     (if target = ''db/postgres'' then addPostgres env tm ctx d
      else if target = ''queue/kafka'' then addKafka env tm ctx d
      else if target = ''queue/nats'' then addNats env tm ctx d
      else if target = ''queue/rabbitmq'' then addRabbitMQ env ctx d
      else if target = ''transport/grpc'' then addGRPC env ctx d
      else if target = ''transport/rest'' then addREST env ctx d
      else if target = ''observability'' then addObservability env tm ctx d
      else if target = ''auth'' then addAuth env ctx d
      else if target = ''cache/redis'' then addRedis env tm ctx d
      else if target = ''storage/s3'' then addS3 env tm ctx d
      else if target = ''db/cassandra'' then addCassandra env tm ctx d
      else (d, Some (UnknownTarget target)))"

text \<open>\<open>Add\<close> on an absolute directory (the result of \<open>filepath.Abs\<close>).\<close>

definition Add :: "'e add_env \<Rightarrow> templates \<Rightarrow> string \<Rightarrow> string \<Rightarrow> disk \<Rightarrow> 'e outcome" where
  "Add env tm absDir target d =
     (case FindPath d absDir of Inl e \<Rightarrow> (d, Some (FindFailed e))
      | Inr manifestPath \<Rightarrow>
          (case Load env d manifestPath of Inl e \<Rightarrow> (d, Some (AddLoadFailed e))
           | Inr m \<Rightarrow>
               (let ctx = \<lparr>ctx_dir = absDir, ctx_manifestPath = manifestPath, ctx_manifest = m\<rparr>
                in add_target env tm ctx (normalizeAddTarget target) d)))"

end
