(* ===== verification/ScaffoldAddFacts.thy ===== *)
theory ScaffoldAddFacts
  imports ScaffoldAdd
begin

text \<open>
  What \<open>zengo add\<close> does to the service directory: the contract of a patch, with every
  target's patch as an interpretation, and the effect of \<open>Add\<close> on the disk.
\<close>

section \<open>The contract of a patch\<close>

text \<open>A patch fills in a section and leaves the rest alone: applying it twice is applying it
  once, it keeps the service's identity and everything the wire can carry, and it does not
  depend on sections that are present but empty.\<close>

locale manifest_patch =
  fixes patch :: "Manifest \<Rightarrow> Manifest"
  assumes idem: "patch (patch m) = patch m"
    and keeps_service: "m_Service (patch m) = m_Service m"
    and keeps_wf: "wf_manifest m \<Longrightarrow> wf_manifest (patch m)"
    and empty_irrelevant: "drop_empty (patch (drop_empty m)) = drop_empty (patch m)"
begin

lemma toProto_repatch: "toProto (patch (drop_empty (patch m))) = toProto (patch m)"
proof -
  have "toProto (patch (drop_empty (patch m))) = toProto (drop_empty (patch (drop_empty (patch m))))"
    by simp
  then show ?thesis by (simp add: empty_irrelevant idem)
qed

lemma validate_repatch: "validate (patch (drop_empty (patch m))) = validate (patch m)"
proof -
  have "validate (patch (drop_empty (patch m))) = validate (drop_empty (patch (drop_empty (patch m))))"
    by (simp add: drop_empty_accessors)
  then show ?thesis by (simp add: empty_irrelevant idem drop_empty_accessors)
qed

lemma keeps_package:
  "Manifest_HandlerPackage (drop_empty (patch m)) = Manifest_HandlerPackage m"
  by (simp add: Manifest_HandlerPackage_def drop_empty_def keeps_service)

lemma second_update:
  assumes "Load env d path = Inr m" and "fmt_faithful env"
    and "Update env d path (pure_patch patch) = (d', None)" and "path \<noteq> []"
    and "files d'' path = files d' path" and "unreadable d'' = unreadable d"
      "unwritable d'' = unwritable d"
  shows "Load env d'' path = Inr (drop_empty (patch m))"
    and "Update env d'' path (pure_patch patch) = (d'', None)"
proof -
  from assms(3) obtain r pb m0 data where u: "loadProto env d path = Inr (r, pb)"
      "patch (fromProto pb) = m0" "validate m0 = None"
      "fmt_Marshal env r (toProto m0) = Inr data" "\<not> unwritable d r"
      "d' = d\<lparr>files := (files d)(r \<mapsto> data)\<rparr>"
    by (rule UpdateE) simp
  from u(1) have res: "resolveManifestPath d path = Inr r" and rd: "\<not> unreadable d r"
    by (auto elim: loadProtoE)
  have r: "r = path" and res'': "resolveManifestPath d'' path = Inr path"
    using res assms(4) by (auto simp add: resolveManifestPath_def split: if_splits)
  have m: "m = fromProto pb" "validate m = None"
    using assms(1) u(1) by (auto simp add: Load_def Let_def split: option.splits)
  have data: "files d'' path = Some data" using assms(5) u(6) r by simp
  have um: "fmt_Unmarshal env path data = Inr (toProto m0)"
    using fmt_roundtrip [OF assms(2) u(4)] r by simp
  have lp: "loadProto env d'' path = Inr (path, toProto m0)"
    using res'' data rd r assms(6) um by (simp add: loadProto_def ReadFile_def)
  have "wf_manifest m0" using u(2) keeps_wf wf_fromProto m by blast
  then have fp: "fromProto (toProto m0) = drop_empty (patch m)"
    using u(2) m(1) by (simp add: fromProto_toProto)
  have m0: "m0 = patch m" using u(2) m(1) by simp
  have v: "validate (patch (drop_empty (patch m))) = None"
    using u(3) by (simp add: validate_repatch m0)
  have mar: "fmt_Marshal env path (toProto (patch (drop_empty (patch m)))) = Inr data"
    using u(4) r by (simp add: toProto_repatch m0)
  have wr: "WriteFile d'' path data = Some d''"
    using u(5) r assms(7) data by (simp add: WriteFile_def fun_upd_idem)
  show "Load env d'' path = Inr (drop_empty (patch m))"
    using lp fp u(3) by (simp add: Load_def Let_def drop_empty_accessors m0)
  show "Update env d'' path (pure_patch patch) = (d'', None)"
    using lp fp v mar wr by (simp add: Update_def)
qed

end

lemma wf_no_tls [simp]: "wf_server None" "wf_client None"
  by (simp_all add: wf_server_def wf_client_def)

lemmas patch_laws = patch_postgres_def patch_cassandra_def patch_kafka_def patch_nats_def
  patch_rabbitmq_def patch_grpc_def patch_rest_def patch_observability_def patch_auth_def
  patch_redis_def patch_s3_def empty_queue_def drop_empty_def has_db_def has_queue_def
  has_cache_def has_storage_def wf_manifest_def

interpretation postgres: manifest_patch patch_postgres
  by unfold_locales (simp_all add: patch_laws Let_def split: option.split)

interpretation cassandra: manifest_patch patch_cassandra
  by unfold_locales (simp_all add: patch_laws Let_def split: option.split)

interpretation kafka: manifest_patch patch_kafka
  by unfold_locales (simp_all add: patch_laws Let_def split: option.split)

interpretation nats: manifest_patch patch_nats
  by unfold_locales (simp_all add: patch_laws Let_def split: option.split)

interpretation rabbitmq: manifest_patch patch_rabbitmq
  by unfold_locales (simp_all add: patch_laws Let_def split: option.split)

interpretation grpc: manifest_patch patch_grpc
proof unfold_locales
  show "wf_manifest (patch_grpc m)" if "wf_manifest m" for m
    using that by (cases "t_GRPC (m_Transports m)")
      (auto simp add: wf_manifest_def patch_grpc_def wf_grpc_def Let_def)
qed (simp_all add: patch_grpc_def drop_empty_def Let_def split: option.split)

interpretation rest: manifest_patch patch_rest
proof unfold_locales
  show "wf_manifest (patch_rest m)" if "wf_manifest m" for m
    using that by (cases "t_REST (m_Transports m)")
      (auto simp add: wf_manifest_def patch_rest_def wf_rest_def Let_def)
qed (simp_all add: patch_rest_def drop_empty_def Let_def split: option.split)

interpretation observability: manifest_patch patch_observability
  by unfold_locales (simp_all add: patch_laws Let_def split: option.split)

interpretation auth: manifest_patch patch_auth
  by unfold_locales (simp_all add: patch_laws Let_def split: option.split)

interpretation redis: manifest_patch patch_redis
  by unfold_locales (simp_all add: patch_laws Let_def split: option.split)

interpretation s3: manifest_patch patch_s3
  by unfold_locales (simp_all add: patch_laws Let_def split: option.split)

section \<open>The plan of a target\<close>

text \<open>Every target updates the manifest by its patch and then writes a list of files that are
  missing; \<open>plan\<close> names both.\<close>

datatype job = IfMissing string string | CopyIfMissing string string

fun job_target :: "job \<Rightarrow> string" where
  "job_target (IfMissing rel t) = rel"
| "job_target (CopyIfMissing rel t) = rel"

fun run_job :: "templates \<Rightarrow> addContext \<Rightarrow> job \<Rightarrow> disk \<Rightarrow> 'e outcome" where
  "run_job tm ctx (IfMissing rel t) d = writeTemplateIfMissing tm (ctx_dir ctx) rel t (replacer ctx) d"
| "run_job tm ctx (CopyIfMissing rel t) d =
     (if \<not> fileExists d (path_join (ctx_dir ctx) rel)
      then copyEmbeddedTemplate tm (ctx_dir ctx) t rel (replacer ctx) d else (d, None))"

fun run_jobs :: "templates \<Rightarrow> addContext \<Rightarrow> job list \<Rightarrow> disk \<Rightarrow> 'e outcome" where
  "run_jobs tm ctx [] d = (d, None)"
| "run_jobs tm ctx (j # js) d = and_then (run_job tm ctx j d) (run_jobs tm ctx js)"

definition plans :: "string \<Rightarrow> (string \<times> (Manifest \<Rightarrow> Manifest) \<times> job list) list" where
  "plans pkg =
     [(''db/postgres'', patch_postgres,
        [IfMissing ''configs/postgres.yaml'' ''configs/postgres.yaml.tmpl'',
         IfMissing (path_join ''queries'' (pkg @ ''.sql'')) ''queries/_handler_.sql.tmpl'',
         CopyIfMissing ''sqlc.yaml'' ''sqlc.yaml'']),
      (''queue/kafka'', patch_kafka, [IfMissing ''configs/kafka.yaml'' ''configs/kafka.yaml.tmpl'']),
      (''queue/nats'', patch_nats,
        [IfMissing ''configs/nats.textproto'' ''configs/nats.textproto.tmpl'']),
      (''queue/rabbitmq'', patch_rabbitmq, []),
      (''transport/grpc'', patch_grpc, []),
      (''transport/rest'', patch_rest, []),
      (''observability'', patch_observability,
        [IfMissing ''configs/logging.yaml'' ''configs/logging.yaml.tmpl'',
         IfMissing ''configs/tracing.yaml'' ''configs/tracing.yaml.tmpl'']),
      (''auth'', patch_auth, []),
      (''cache/redis'', patch_redis, [IfMissing ''configs/redis.yaml'' ''configs/redis.yaml.tmpl'']),
      (''storage/s3'', patch_s3, [IfMissing ''configs/s3.yaml'' ''configs/s3.yaml.tmpl'']),
      (''db/cassandra'', patch_cassandra,
        [IfMissing ''configs/cassandra.yaml'' ''configs/cassandra.yaml.tmpl''])]"

definition plan :: "string \<Rightarrow> string \<Rightarrow> ((Manifest \<Rightarrow> Manifest) \<times> job list) option" where
  "plan pkg t = map_of (plans pkg) t"

lemma and_then_simps [simp]:
  "and_then (d, None) k = k d" "and_then (d, Some e) k = (d, Some e)"
  by (simp_all add: and_then_def)

lemma and_then_None: "and_then r (\<lambda>d. (d, None)) = r"
  by (cases r) (simp add: and_then_def split: option.splits)

lemma and_then_assoc: "and_then (and_then r k) l = and_then r (\<lambda>d. and_then (k d) l)"
  by (cases r) (simp add: and_then_def split: option.splits)

lemma run_jobs_funs:
  "run_jobs tm ctx [] = (\<lambda>d. (d, None))"
  "run_jobs tm ctx [j] = run_job tm ctx j"
  "run_jobs tm ctx (i # j # js) = (\<lambda>d. and_then (run_job tm ctx i d) (run_jobs tm ctx (j # js)))"
  "run_job tm ctx (IfMissing rel t) = writeTemplateIfMissing tm (ctx_dir ctx) rel t (replacer ctx)"
  "run_job tm ctx (CopyIfMissing rel t) =
     (\<lambda>d. if \<not> fileExists d (path_join (ctx_dir ctx) rel)
          then copyEmbeddedTemplate tm (ctx_dir ctx) t rel (replacer ctx) d else (d, None))"
proof -
  show nil: "run_jobs tm ctx [] = (\<lambda>d. (d, None))" by (simp add: fun_eq_iff)
  show "run_jobs tm ctx [j] = run_job tm ctx j" by (simp add: fun_eq_iff nil and_then_None)
qed (simp_all add: fun_eq_iff)

lemmas add_defs = addPostgres_def addKafka_def addNats_def addRabbitMQ_def addGRPC_def addREST_def
  addObservability_def addAuth_def addRedis_def addS3_def addCassandra_def

lemma add_target_plan:
  "add_target env tm ctx t d =
     (case plan (Manifest_HandlerPackage (ctx_manifest ctx)) t of
        None \<Rightarrow> (d, Some (UnknownTarget t))
      | Some (patch, jobs) \<Rightarrow> and_then (update_manifest env ctx patch d) (run_jobs tm ctx jobs))"
  by (simp only: add_target_def plan_def plans_def map_of.simps fst_conv snd_conv fun_upd_apply
      add_defs run_jobs_funs and_then_None option.case prod.case if_distrib [of "case_option _ _"])

lemma plans_patch: "list_all (\<lambda>(t, patch, jobs). manifest_patch patch) (plans pkg)"
  by (simp only: plans_def list.pred_inject prod.case postgres.manifest_patch_axioms
      cassandra.manifest_patch_axioms kafka.manifest_patch_axioms nats.manifest_patch_axioms
      rabbitmq.manifest_patch_axioms grpc.manifest_patch_axioms rest.manifest_patch_axioms
      observability.manifest_patch_axioms auth.manifest_patch_axioms redis.manifest_patch_axioms
      s3.manifest_patch_axioms simp_thms)

text \<open>No file that a target writes starts as a manifest's name does.\<close>

lemma plans_targets:
  "list_all (\<lambda>(t, patch, jobs). list_all (\<lambda>j. job_target j \<noteq> [] \<and> hd (job_target j) \<noteq> CHR ''z'') jobs)
     (plans pkg)"
  by (simp add: plans_def path_join_def)

lemma plan_patch: "plan pkg t = Some (patch, jobs) \<Longrightarrow> manifest_patch patch"
  using plans_patch [of pkg] unfolding plan_def
  by (auto dest!: map_of_SomeD simp add: list_all_iff)

lemma candidates_z: "c \<in> set manifestCandidates \<Longrightarrow> c \<noteq> [] \<and> hd c = CHR ''z''"
  by (auto simp add: manifestCandidates_def)

lemma plan_targets:
  assumes "plan pkg t = Some (patch, jobs)" and "j \<in> set jobs"
  shows "job_target j \<notin> set manifestCandidates"
proof -
  have "(t, patch, jobs) \<in> set (plans pkg)" using assms(1) by (simp add: plan_def map_of_SomeD)
  then have "hd (job_target j) \<noteq> CHR ''z''"
    using plans_targets [of pkg] assms(2) by (fastforce simp add: list_all_iff)
  then show ?thesis using candidates_z by blast
qed

section \<open>Writing the missing files\<close>

text \<open>\<open>grows P d d'\<close>: \<open>d'\<close> differs from \<open>d\<close> by new files, all in \<open>P\<close>.\<close>

definition grows :: "string set \<Rightarrow> disk \<Rightarrow> disk \<Rightarrow> bool" where
  "grows P d d' \<longleftrightarrow>
     (\<forall>p. files d p \<noteq> None \<longrightarrow> files d' p = files d p) \<and>
     (\<forall>p. files d' p \<noteq> files d p \<longrightarrow> p \<in> P) \<and>
     unreadable d' = unreadable d \<and> unwritable d' = unwritable d \<and> unmakeable d' = unmakeable d"

lemma grows_refl [simp]: "grows P d d"
  by (simp add: grows_def)

lemma grows_trans: "grows P d d' \<Longrightarrow> grows Q d' d'' \<Longrightarrow> grows (P \<union> Q) d d''"
  unfolding grows_def by (metis Un_iff)

lemma grows_write:
  "\<not> fileExists d p \<Longrightarrow> WriteFile d p data = Some d' \<Longrightarrow> grows {p} d d'"
  by (auto simp add: grows_def WriteFile_def fileExists_def split: if_splits)

lemma run_job_grows:
  "run_job tm ctx j d = (d', e) \<Longrightarrow> grows {path_join (ctx_dir ctx) (job_target j)} d d'"
  by (cases j)
    (auto simp add: writeTemplateIfMissing_def copyEmbeddedTemplate_def Let_def
      intro: grows_write split: if_splits option.splits)

lemma run_job_done:
  "run_job tm ctx j d = (d', None) \<Longrightarrow> fileExists d' (path_join (ctx_dir ctx) (job_target j))"
  by (cases j)
    (auto simp add: writeTemplateIfMissing_def copyEmbeddedTemplate_def Let_def WriteFile_def
      fileExists_def split: if_splits option.splits)

lemma run_job_skip:
  "fileExists d (path_join (ctx_dir ctx) (job_target j)) \<Longrightarrow> run_job tm ctx j d = (d, None)"
  by (cases j) (simp_all add: writeTemplateIfMissing_def)

definition targets :: "addContext \<Rightarrow> job list \<Rightarrow> string set" where
  "targets ctx jobs = (\<lambda>j. path_join (ctx_dir ctx) (job_target j)) ` set jobs"

lemma run_jobs_grows:
  "run_jobs tm ctx js d = (d', e :: 'e add_error option) \<Longrightarrow> grows (targets ctx js) d d'"
proof (induction js arbitrary: d)
  case (Cons j js)
  obtain d1 e1 where j: "run_job tm ctx j d = (d1, e1 :: 'e add_error option)" by force
  then have g1: "grows {path_join (ctx_dir ctx) (job_target j)} d d1" by (rule run_job_grows)
  show ?case
  proof (cases e1)
    case None
    then have "grows (targets ctx js) d1 d'" using Cons j by simp
    from grows_trans [OF g1 this] show ?thesis by (simp add: targets_def)
  next
    case (Some x)
    then have "d1 = d'" using Cons.prems j by simp
    from grows_trans [OF g1 grows_refl [of "targets ctx js" d1]] show ?thesis
      unfolding \<open>d1 = d'\<close> by (simp add: targets_def)
  qed
qed (simp add: targets_def)

lemma grows_exists: "grows P d d' \<Longrightarrow> fileExists d p \<Longrightarrow> fileExists d' p"
  by (simp add: grows_def fileExists_def)

lemma run_jobs_no_update: "run_jobs tm ctx js d = (d', e) \<Longrightarrow> e \<noteq> Some (UpdateFailed x)"
proof (induction js arbitrary: d)
  case (Cons j js)
  have "snd (run_job tm ctx j d) \<noteq> Some (UpdateFailed x)"
    by (cases j) (auto simp add: writeTemplateIfMissing_def copyEmbeddedTemplate_def Let_def
        split: option.splits)
  then show ?case using Cons by (auto simp add: and_then_def split: prod.splits option.splits)
qed simp

lemma run_jobs_done:
  "run_jobs tm ctx js d = (d', None :: 'e add_error option) \<Longrightarrow> p \<in> targets ctx js \<Longrightarrow> fileExists d' p"
proof (induction js arbitrary: d)
  case (Cons j js)
  obtain d1 where j: "run_job tm ctx j d = (d1, None :: 'e add_error option)" 
      and js: "run_jobs tm ctx js d1 = (d', None :: 'e add_error option)"
    using Cons.prems(1) by (auto simp add: and_then_def split: prod.splits option.splits)
  show ?case
  proof (cases "p \<in> targets ctx js")
    case False
    then have "p = path_join (ctx_dir ctx) (job_target j)"
      using Cons.prems(2) by (auto simp add: targets_def)
    then show ?thesis using run_job_done [OF j] grows_exists [OF run_jobs_grows [OF js]] by simp
  qed (use Cons.IH js in blast)
qed (simp add: targets_def)

lemma run_jobs_skip: "\<forall>p \<in> targets ctx js. fileExists d p \<Longrightarrow> run_jobs tm ctx js d = (d, None)"
  by (induction js) (simp_all add: targets_def run_job_skip)

section \<open>Adding a component\<close>

text \<open>What a run of \<open>Add\<close> that reaches its target has gone through.\<close>

lemma Add_steps:
  assumes "Add env tm dir t d = (d', e)"
  obtains (failed) "d' = d" "e \<noteq> None"
  | (ran) mp m patch jobs d1 e1 where "FindPath d dir = Inr mp" "Load env d mp = Inr m"
      "plan (Manifest_HandlerPackage m) (normalizeAddTarget t) = Some (patch, jobs)"
      "Update env d mp (pure_patch patch) = (d1, e1)"
      "case e1 of Some x \<Rightarrow> d' = d1 \<and> e = Some (UpdateFailed x)
       | None \<Rightarrow> run_jobs tm \<lparr>ctx_dir = dir, ctx_manifestPath = mp, ctx_manifest = m\<rparr> jobs d1 = (d', e)"
proof (cases "FindPath d dir")
  case (Inl x)
  then show ?thesis using assms failed by (auto simp add: Add_def)
next
  case (Inr mp)
  note find = this
  show ?thesis
  proof (cases "Load env d mp")
    case (Inl x)
    then show ?thesis using assms failed find by (auto simp add: Add_def)
  next
    case (Inr m)
    show ?thesis
    proof (cases "plan (Manifest_HandlerPackage m) (normalizeAddTarget t)")
      case None
      then show ?thesis using assms failed find Inr by (auto simp add: Add_def add_target_plan)
    next
      case (Some p)
      obtain patch jobs where p: "p = (patch, jobs)" by force
      obtain d1 e1 where u: "Update env d mp (pure_patch patch) = (d1, e1)" by force
      define ctx where "ctx = \<lparr>ctx_dir = dir, ctx_manifestPath = mp, ctx_manifest = m\<rparr>"
      have "Add env tm dir t d = and_then (update_manifest env ctx patch d) (run_jobs tm ctx jobs)"
        by (simp add: Add_def find Inr add_target_plan Some p ctx_def Let_def)
      then show ?thesis
        using ran [OF find Inr Some [unfolded p] u, folded ctx_def] assms u
        by (cases e1) (simp_all add: update_manifest_def ctx_def)
    qed
  qed
qed

lemma FindPath_dir:
  assumes "FindPath d dir = Inr mp" and "dir \<noteq> []" and "dir \<noteq> ''.''"
  obtains c where "c \<in> set manifestCandidates" "mp = path_join dir c" "fileExists d mp"
    and "filter (fileExists d) (map (path_join dir) manifestCandidates) = [mp]"
proof -
  have f: "filter (fileExists d) (map (path_join dir) manifestCandidates) = [mp]"
    using assms by (simp add: FindPath_def pick_found_Inr)
  then have "mp \<in> set (filter (fileExists d) (map (path_join dir) manifestCandidates))" by simp
  then obtain c where c: "c \<in> set manifestCandidates" "mp = path_join dir c" "fileExists d mp"
    by auto
  show ?thesis by (rule that [OF c f])
qed

lemma Update_disk:
  assumes "Update env d path patch = (d1, e1)" and "path \<noteq> []"
  shows "(\<forall>p. p \<noteq> path \<longrightarrow> files d1 p = files d p) \<and> (files d path \<noteq> None \<longrightarrow> files d1 path \<noteq> None) \<and>
    unreadable d1 = unreadable d \<and> unwritable d1 = unwritable d \<and> unmakeable d1 = unmakeable d \<and>
    (e1 \<noteq> None \<longrightarrow> d1 = d)"
proof (cases e1)
  case None
  with assms(1) obtain r pb m data where "loadProto env d path = Inr (r, pb)"
      "d1 = d\<lparr>files := (files d)(r \<mapsto> data)\<rparr>" by (auto elim!: UpdateE)
  moreover from this(1) have "r = path" using assms(2) resolve_explicit by (auto elim: loadProtoE)
  ultimately show ?thesis using None by simp
next
  case (Some x)
  then have "d1 = d" using assms(1)
    by (auto simp add: Update_def split: sum.splits option.splits)
  then show ?thesis by simp
qed

lemma path_ne: "c \<in> set manifestCandidates \<Longrightarrow> path_join dir c \<noteq> []"
  using candidates_z [of c] by (auto simp add: path_join_def)

text \<open>The files of a target are not manifests.\<close>

lemma targets_not_manifest:
  assumes "plan pkg t = Some (patch, jobs)" and "c \<in> set manifestCandidates"
  shows "path_join (ctx_dir ctx) c \<notin> targets ctx jobs"
  using plan_targets [OF assms(1)] assms(2) by (auto simp add: targets_def path_join_inj)


text \<open>\<open>zengo add\<close> is idempotent.  Running it again right after it succeeded succeeds and
  changes nothing on the disk: the manifest is rewritten byte for byte and no file is created,
  for every target, provided the wire formats decode what they encoded.\<close>

theorem Add_idempotent:
  fixes env :: "'e add_env"
  assumes "Add env tm dir t d = (d', None)" and "fmt_faithful env" and "dir \<noteq> []" and "dir \<noteq> ''.''"
  shows "Add env tm dir t d' = (d', None)"
  using assms(1)
proof (cases rule: Add_steps)
  case (ran mp m patch jobs d1 e1)
  define ctx where "ctx = \<lparr>ctx_dir = dir, ctx_manifestPath = mp, ctx_manifest = m\<rparr>"
  define m' where "m' = drop_empty (patch m)"
  define ctx' where "ctx' = \<lparr>ctx_dir = dir, ctx_manifestPath = mp, ctx_manifest = m'\<rparr>"
  have e1: "e1 = None" and jobs: "run_jobs tm ctx jobs d1 = (d', None :: 'e add_error option)"
    using ran(5) by (auto simp add: ctx_def split: option.splits)
  note mp = plan_patch [OF ran(3)]
  from FindPath_dir [OF ran(1) assms(3,4)] obtain c
    where c: "c \<in> set manifestCandidates" "mp = path_join dir c" "fileExists d mp" by metis
  have ne: "mp \<noteq> []" using c path_ne by simp
  have ud: "\<And>p. fileExists d1 p = fileExists d p" and perms1:
      "unreadable d1 = unreadable d" "unwritable d1 = unwritable d"
    using Update_disk [OF ran(4) ne] c(3) by (auto simp add: fileExists_def)
  note g = run_jobs_grows [OF jobs]
  have notin: "path_join dir c' \<notin> targets ctx jobs" if "c' \<in> set manifestCandidates" for c'
    using targets_not_manifest [OF ran(3) that, of ctx] by (simp add: ctx_def)
  have same: "files d' (path_join dir c') = files d1 (path_join dir c')"
    if "c' \<in> set manifestCandidates" for c'
    using g notin [OF that] unfolding grows_def by blast
  have "fileExists d' (path_join dir c') = fileExists d (path_join dir c')"
    if "c' \<in> set manifestCandidates" for c'
    using same [OF that] ud by (simp add: fileExists_def)
  then have find: "FindPath d' dir = Inr mp"
    using ran(1) assms(3,4) by (simp add: FindPath_def filter_map comp_def cong: filter_cong)
  have perms: "unreadable d' = unreadable d" "unwritable d' = unwritable d"
    using g perms1 by (simp_all add: grows_def)
  note again = manifest_patch.second_update [OF mp ran(2) assms(2) ran(4) [unfolded e1] ne
      same [OF c(1), folded c(2)] perms]
  have pkg: "Manifest_HandlerPackage m' = Manifest_HandlerPackage m"
    unfolding m'_def by (rule manifest_patch.keeps_package [OF mp])
  have "run_jobs tm ctx' jobs d' = (d', None :: 'e add_error option)"
    using run_jobs_done [OF jobs] by (intro run_jobs_skip) (simp add: targets_def ctx_def ctx'_def)
  then show ?thesis
    using again ran(3) find
    by (simp add: Add_def Let_def add_target_plan pkg update_manifest_def ctx'_def flip: m'_def)
qed simp

section \<open>A concrete run\<close>

definition demo_kafka :: Manifest where
  "demo_kafka = patch_kafka demo_loaded"

definition demo_add_env :: "unit add_env" where
  "demo_add_env = demo_fmt_env (toProto demo_loaded) (toProto demo_kafka)"

definition demo_add_disk :: disk where
  "demo_add_disk = \<lparr>files = [''/s/zengo.yaml'' \<mapsto> ''a'', ''/s/README.md'' \<mapsto> ''r''],
     unreadable = (\<lambda>_. False), unwritable = (\<lambda>_. False), unmakeable = (\<lambda>_. False)\<rparr>"

definition demo_templates :: templates where
  "demo_templates = [''templates/configs/kafka.yaml.tmpl'' \<mapsto> ''client: {{SERVICE_NAME}}'']"

lemma demo_add_steps:
  "path_join ''/s'' ''zengo.yaml'' = ''/s/zengo.yaml''" "path_join ''/s'' ''zengo.yml'' = ''/s/zengo.yml''"
  "path_join ''/s'' ''zengo.textproto'' = ''/s/zengo.textproto''"
  "path_join ''/s'' ''zengo.pbtxt'' = ''/s/zengo.pbtxt''"
  "to_lower (Ext ''/s/zengo.yaml'') = ''.yaml''"
  "normalizeAddTarget ''kafka '' = ''queue/kafka''"
  by (simp_all add: path_join_def Ext_def to_lower_def lower_char_def is_upper_def
      normalizeAddTarget_def trim_space_def trim_func_def is_space_def Let_def)

lemma demo_find: "FindPath demo_add_disk ''/s'' = Inr ''/s/zengo.yaml''"
  by (simp add: FindPath_def manifestCandidates_def demo_add_steps fileExists_def demo_add_disk_def
      pick_found_def)

lemma demo_add_loadProto:
  "loadProto demo_add_env demo_add_disk ''/s/zengo.yaml'' = Inr (''/s/zengo.yaml'', toProto demo_loaded)"
  by (simp add: loadProto_def resolveManifestPath_def IsSupported_def SupportedExtensions_def
      demo_add_steps ReadFile_def demo_add_disk_def fmt_Unmarshal_def demo_add_env_def demo_fmt_env_def)

lemma demo_add_Load: "Load demo_add_env demo_add_disk ''/s/zengo.yaml'' = Inr demo_loaded"
  by (simp add: Load_def demo_add_loadProto demo_loaded_facts)

lemma demo_kafka_facts: "validate demo_kafka = None" "toProto demo_kafka \<noteq> toProto demo_loaded"
proof -
  show "validate demo_kafka = None"
    using demo_loaded_facts(2) validate_cong [of demo_kafka demo_loaded]
    by (simp add: demo_kafka_def patch_kafka_def Let_def)
  show "toProto demo_kafka \<noteq> toProto demo_loaded"
    by (simp add: toProto_def demo_kafka_def patch_kafka_def empty_queue_def demo_loaded_def
        demo_manifest_simps drop_empty_def Let_def has_queue_def)
qed

definition demo_added_disk :: disk where
  "demo_added_disk = demo_add_disk\<lparr>files := (files demo_add_disk)(''/s/zengo.yaml'' \<mapsto> ''b'',
     ''/s/configs/kafka.yaml'' \<mapsto> ''client: '' @ sv_Name (m_Service demo_loaded))\<rparr>"

lemma demo_Add: "Add demo_add_env demo_templates ''/s'' ''kafka '' demo_add_disk = (demo_added_disk, None)"
proof -
  have mar: "fmt_Marshal demo_add_env ''/s/zengo.yaml'' (toProto demo_kafka) = Inr ''b''"
    using demo_kafka_facts(2)
    by (simp add: fmt_Marshal_def demo_add_steps demo_add_env_def demo_fmt_env_def)
  have wr: "WriteFile d p x = Some (d\<lparr>files := (files d)(p \<mapsto> x)\<rparr>)"
    if "unwritable d = (\<lambda>_. False)" for d p x using that by (simp add: WriteFile_def)
  have perms: "unwritable demo_add_disk = (\<lambda>_. False)" "unmakeable demo_add_disk = (\<lambda>_. False)"
    by (simp_all add: demo_add_disk_def)
  have missing: "files demo_add_disk ''/s/configs/kafka.yaml'' = None" by (simp add: demo_add_disk_def)
  have tmpl: "demo_templates ''templates/configs/kafka.yaml.tmpl'' = Some ''client: {{SERVICE_NAME}}''"
    by (simp add: demo_templates_def)
  have name: "sv_Name (m_Service demo_loaded) \<noteq> []"
    by (simp add: demo_loaded_def demo_manifest_simps drop_empty_def)
  have rep: "Replace [(''{{HANDLER_PKG}}'', x), (''{{SERVICE_NAME}}'', y)] ''client: {{SERVICE_NAME}}''
      = ''client: '' @ y" for x y by (simp add: has_prefix_def)
  have paths: "path_join ''/s'' ''configs/kafka.yaml'' = ''/s/configs/kafka.yaml''"
    "path_join ''templates'' ''configs/kafka.yaml.tmpl'' = ''templates/configs/kafka.yaml.tmpl''"
    by (simp_all add: path_join_def)
  have u: "Update demo_add_env demo_add_disk ''/s/zengo.yaml'' (pure_patch patch_kafka) =
      (demo_add_disk\<lparr>files := (files demo_add_disk)(''/s/zengo.yaml'' \<mapsto> ''b'')\<rparr>, None)"
    using demo_kafka_facts(1) mar
    by (simp add: Update_def demo_add_loadProto demo_loaded_facts demo_kafka_def wr perms)
  define D where "D = demo_add_disk\<lparr>files := (files demo_add_disk)(''/s/zengo.yaml'' \<mapsto> ''b'')\<rparr>"
  define ctx where "ctx = \<lparr>ctx_dir = ''/s'', ctx_manifestPath = ''/s/zengo.yaml'', ctx_manifest = demo_loaded\<rparr>"
  have D: "files D ''/s/configs/kafka.yaml'' = None" "unwritable D = (\<lambda>_. False)"
    "unmakeable D = (\<lambda>_. False)" using missing perms by (simp_all add: D_def)
  have rc: "replacer ctx = [(''{{HANDLER_PKG}}'', Manifest_HandlerPackage demo_loaded),
      (''{{SERVICE_NAME}}'', sv_Name (m_Service demo_loaded))]"
    using name by (simp add: replacer_def ctx_def serviceName_def)
  have w: "writeTemplateIfMissing demo_templates ''/s'' ''configs/kafka.yaml''
      ''configs/kafka.yaml.tmpl'' (replacer ctx) D = (demo_added_disk, None :: unit add_error option)"
    using D by (simp only: writeTemplateIfMissing_def Let_def paths fileExists_def tmpl option.case
        simp_thms if_False rc rep wr [OF D(2)] D_def [symmetric]) (simp add: demo_added_disk_def D_def)
  have k: "addKafka demo_add_env demo_templates ctx demo_add_disk = (demo_added_disk, None)"
    using w by (simp add: addKafka_def update_manifest_def ctx_def u D_def)
  have "add_target demo_add_env demo_templates ctx ''queue/kafka'' demo_add_disk = (demo_added_disk, None)"
    using k by (simp add: add_target_def)
  then show ?thesis
    by (simp add: Add_def demo_find demo_add_Load demo_add_steps ctx_def)
qed


theorem Add_idempotent_witness:
  "Add demo_add_env demo_templates ''/s'' ''kafka '' demo_added_disk = (demo_added_disk, None)"
  using Add_idempotent [OF demo_Add] by (simp add: demo_add_env_def demo_fmt_env_faithful)

end
