(* ===== verification/GoError.thy ===== *)
theory GoError
  imports Zengo_Prelude "HOL-Library.Word"
begin

text \<open>
  Error values.

  A Go error value is a \<open>go_err\<close>: an \<open>*errx.Error\<close>, a gRPC status error, an error that
  wraps another (\<open>fmt.Errorf\<close> with \<open>%w\<close>), a join of errors, one of the two context errors, a
  package variable made by \<open>errors.New\<close> (which \<open>errors.Is\<close> finds by identity), a \<open>responseError\<close>
  of \<open>sdk/policy\<close>, or a text.  \<open>errors.As\<close> and \<open>errors.Is\<close> walk this tree in pre-order.  The
  gRPC library is the record \<open>grpc_env\<close>.
\<close>

section \<open>Errors and statuses\<close>

type_synonym Code = "32 word"

abbreviation (input) OK :: Code where "OK \<equiv> 0"
abbreviation (input) Canceled :: Code where "Canceled \<equiv> 1"
abbreviation (input) InvalidArgument :: Code where "InvalidArgument \<equiv> 3"
abbreviation (input) DeadlineExceeded :: Code where "DeadlineExceeded \<equiv> 4"
abbreviation (input) NotFound :: Code where "NotFound \<equiv> 5"
abbreviation (input) AlreadyExists :: Code where "AlreadyExists \<equiv> 6"
abbreviation (input) PermissionDenied :: Code where "PermissionDenied \<equiv> 7"
abbreviation (input) ResourceExhausted :: Code where "ResourceExhausted \<equiv> 8"
abbreviation (input) Internal :: Code where "Internal \<equiv> 13"
abbreviation (input) Unavailable :: Code where "Unavailable \<equiv> 14"
abbreviation (input) Unauthenticated :: Code where "Unauthenticated \<equiv> 16"

record Field =
  f_Key :: string
  f_Value :: string

datatype detail =
    ErrorInfo (ei_Reason: string) (ei_Domain: string) (ei_Metadata: "(string \<times> string) list")
  | DebugInfo (di_StackEntries: "string list") (di_Detail: string)
  | OtherDetail string

record Status =
  st_Code :: Code
  st_Message :: string
  st_Details :: "detail list"

text \<open>The response that the policy middleware buffers (\<open>sdk/policy\<close>): the header as the list of
  its entries in iteration order, the body and the status, 0 when it is not set.\<close>

record bufferedResponse =
  br_header :: "(string \<times> string list) list"
  br_body :: string
  br_status :: int

datatype Error = MkError
    (e_code: Code) (e_message: string) (e_publicMessage: string)
    (e_fields: "Field list") (e_stack: "string list") (e_cause: "go_err option")
  and go_err =
    AppErr Error | StatusErr Status | WrapErr string go_err | JoinErr "go_err list"
  | ContextCanceled | ContextDeadline | SentinelErr string | PlainErr string
  | ResponseErr bufferedResponse

text \<open>The text of a status error is the one that package \<open>status\<close> documents for \<open>(*Error).Error\<close>;
  the name of the code is a parameter.\<close>

record grpc_env =
  status_FromError :: "go_err \<Rightarrow> Status option"
  status_WithDetails :: "Status \<Rightarrow> detail list \<Rightarrow> Status option"
  status_CodeOf :: "go_err \<Rightarrow> Code"
  status_text :: "Status \<Rightarrow> string"

text \<open>\<open>(*bufferedResponse).Status\<close>.\<close>

definition Response_Status :: "bufferedResponse \<Rightarrow> int" where
  "Response_Status r = (if br_status r = 0 then 200 else br_status r)"

text \<open>\<open>err.Error()\<close>.\<close>

fun Error_text :: "grpc_env \<Rightarrow> go_err \<Rightarrow> string" where
  "Error_text g (AppErr (MkError code message public flds stack cause)) =
     (let msg = message;
          msg = (if msg = [] then public else msg);
          msg = (if msg = [] then (case cause of None \<Rightarrow> msg | Some c \<Rightarrow> Error_text g c) else msg)
      in case cause of None \<Rightarrow> msg
         | Some c \<Rightarrow>
             (let ct = Error_text g c
              in if ct = [] \<or> ct = msg then msg
                 else if msg = [] then ct else msg @ '': '' @ ct))"
| "Error_text g (StatusErr st) = status_text g st"
| "Error_text g (WrapErr s e) = s"
| "Error_text g (JoinErr es) = join [CHR 0x0A] (map (Error_text g) es)"
| "Error_text g ContextCanceled = ''context canceled''"
| "Error_text g ContextDeadline = ''context deadline exceeded''"
| "Error_text g (SentinelErr s) = s"
| "Error_text g (PlainErr s) = s"
| "Error_text g (ResponseErr r) = ''http response status '' @ itoa (Response_Status r)"

text \<open>\<open>errors.Join\<close>.\<close>

definition errors_Join :: "go_err option list \<Rightarrow> go_err option" where
  "errors_Join errs =
     (let es = List.map_filter (\<lambda>e. e) errs in if es = [] then None else Some (JoinErr es))"

text \<open>\<open>errors.AsType[*Error]\<close> and \<open>errors.Is\<close>.\<close>

fun first_some :: "'a option list \<Rightarrow> 'a option" where
  "first_some [] = None"
| "first_some (None # xs) = first_some xs"
| "first_some (Some x # xs) = Some x"

fun AsError :: "go_err \<Rightarrow> Error option" where
  "AsError (AppErr e) = Some e"
| "AsError (WrapErr s e) = AsError e"
| "AsError (JoinErr es) = first_some (map AsError es)"
| "AsError _ = None"

fun err_Is :: "(go_err \<Rightarrow> bool) \<Rightarrow> go_err \<Rightarrow> bool" where
  "err_Is p (AppErr (MkError code message public flds stack cause)) =
     (p (AppErr (MkError code message public flds stack cause)) \<or>
      (case cause of None \<Rightarrow> False | Some c \<Rightarrow> err_Is p c))"
| "err_Is p (WrapErr s e) = (p (WrapErr s e) \<or> err_Is p e)"
| "err_Is p (JoinErr es) = (p (JoinErr es) \<or> list_ex (err_Is p) es)"
| "err_Is p e = p e"

definition IsCanceled :: "go_err \<Rightarrow> bool" where
  "IsCanceled e = err_Is (\<lambda>x. case x of ContextCanceled \<Rightarrow> True | _ \<Rightarrow> False) e"

definition IsDeadline :: "go_err \<Rightarrow> bool" where
  "IsDeadline e = err_Is (\<lambda>x. case x of ContextDeadline \<Rightarrow> True | _ \<Rightarrow> False) e"

end
