(* ===== verification/Errx.thy ===== *)
theory Errx
  imports GoError "HOL-Library.List_Lexorder" "HOL-Library.Char_ord"
begin

text \<open>
  Package \<open>sdk/errx\<close> (\<open>errx.go\<close>): application errors, what they carry and what of them
  reaches a gRPC peer.  The error values themselves are in \<open>GoError\<close>.
\<close>

section \<open>Codes and messages\<close>

definition errorInfoDomain :: string where "errorInfoDomain = ''zengo.platform/sdk/errx''"
definition errorInfoReason :: string where "errorInfoReason = ''APPLICATION_ERROR''"

definition normalizeCode :: "Code \<Rightarrow> Code" where
  "normalizeCode code = (if code = OK then Internal else code)"

definition pickCode :: "Code \<Rightarrow> Code \<Rightarrow> Code" where
  "pickCode preferred fallback =
     (if preferred \<noteq> OK then normalizeCode preferred else normalizeCode fallback)"

definition defaultPublicMessage :: "Code \<Rightarrow> string" where
  "defaultPublicMessage code =
     (let c = normalizeCode code
      in if c = InvalidArgument then ''invalid request''
         else if c = NotFound then ''resource not found''
         else if c = AlreadyExists then ''resource already exists''
         else if c = PermissionDenied then ''permission denied''
         else if c = Unauthenticated then ''authentication required''
         else if c = DeadlineExceeded then ''request timeout''
         else if c = Unavailable then ''service temporarily unavailable''
         else if c = ResourceExhausted then ''resource limit exceeded''
         else if c = Canceled then ''request canceled''
         else ''internal server error'')"

text \<open>\<open>finalizeMessages\<close> updates the error it is given; here it returns it.\<close>

fun finalizeMessages :: "grpc_env \<Rightarrow> Error \<Rightarrow> Error" where
  "finalizeMessages g (MkError code message public flds stack cause) =
     (let message = (if message = [] then (case cause of None \<Rightarrow> message | Some c \<Rightarrow> Error_text g c)
                     else message);
          public = (if public = [] then defaultPublicMessage code else public);
          message = (if message = [] then public else message)
      in MkError code message public flds stack cause)"

definition codeFromError :: "grpc_env \<Rightarrow> go_err option \<Rightarrow> Code" where
  "codeFromError g err =
     (case err of None \<Rightarrow> OK
      | Some e \<Rightarrow>
          if IsCanceled e then Canceled
          else if IsDeadline e then DeadlineExceeded
          else (case status_FromError g e of Some st \<Rightarrow> st_Code st | None \<Rightarrow> Internal))"

section \<open>Fields\<close>

text \<open>The two loops of \<open>mergeFields\<close>: \<open>out\<close> and \<open>index\<close> are the loop's variables.\<close>

fun merge_base :: "Field list \<Rightarrow> Field list \<Rightarrow> (string \<rightharpoonup> nat) \<Rightarrow> Field list \<times> (string \<rightharpoonup> nat)" where
  "merge_base [] out index = (out, index)"
| "merge_base (field # fs) out index =
     (if f_Key field = [] then merge_base fs out index
      else merge_base fs (out @ [field]) (index(f_Key field \<mapsto> length out)))"

fun merge_extra :: "Field list \<Rightarrow> Field list \<Rightarrow> (string \<rightharpoonup> nat) \<Rightarrow> Field list" where
  "merge_extra [] out index = out"
| "merge_extra (field # fs) out index =
     (if f_Key field = [] then merge_extra fs out index
      else (case index (f_Key field) of
              Some idx \<Rightarrow> merge_extra fs (out[idx := field]) index
            | None \<Rightarrow> merge_extra fs (out @ [field]) (index(f_Key field \<mapsto> length out))))"

definition mergeFields :: "Field list \<Rightarrow> Field list \<Rightarrow> Field list" where
  "mergeFields base extra =
     (if base = [] \<and> extra = [] then []
      else (case merge_base base [] Map.empty of (out, index) \<Rightarrow> merge_extra extra out index))"

definition metadataMessage :: string where "metadataMessage = ''message''"
definition metadataPublicMessage :: string where "metadataPublicMessage = ''public_message''"
definition metadataFieldPrefix :: string where "metadataFieldPrefix = ''field.''"

text \<open>The metadata of an \<open>ErrorInfo\<close> is a Go map: the list of its entries, without repeated keys,
  in the order in which the map is iterated.  The keys are sorted, so that the order does not
  matter.\<close>

definition decodeFields :: "(string \<times> string) list \<Rightarrow> Field list" where
  "decodeFields md =
     (let keys = filter (\<lambda>key. has_prefix key metadataFieldPrefix) (map fst md)
      in map (\<lambda>key. \<lparr>f_Key = trim_prefix key metadataFieldPrefix,
                      f_Value = (case map_of md key of Some v \<Rightarrow> v | None \<Rightarrow> [])\<rparr>)
           (filter (\<lambda>key. trim_prefix key metadataFieldPrefix \<noteq> []) (sort keys)))"

section \<open>Construction\<close>

record options =
  opt_publicMessage :: string
  opt_fields :: "Field list"
  opt_stackSkip :: int

type_synonym Option = "options \<Rightarrow> options"

definition Public :: "string \<Rightarrow> Option" where
  "Public message opts = opts\<lparr>opt_publicMessage := message\<rparr>"

definition Fields :: "Field list \<Rightarrow> Option" where
  "Fields fs opts = opts\<lparr>opt_fields := mergeFields (opt_fields opts) fs\<rparr>"

definition StackSkip :: "int \<Rightarrow> Option" where
  "StackSkip skip opts =
     (if 0 < skip then opts\<lparr>opt_stackSkip := opt_stackSkip opts + skip\<rparr> else opts)"

text \<open>A nil option is skipped.\<close>

definition applyOptions :: "Option option list \<Rightarrow> options" where
  "applyOptions opts =
     foldl (\<lambda>cfg opt. case opt of None \<Rightarrow> cfg | Some f \<Rightarrow> f cfg)
       \<lparr>opt_publicMessage = [], opt_fields = [], opt_stackSkip = 0\<rparr> opts"

text \<open>\<open>runtime.Callers\<close> answers the frames of the running goroutine: \<open>callers\<close> is that
  answer for each number of skipped frames.\<close>

record frame =
  fr_File :: string
  fr_Line :: string
  fr_Function :: string

type_synonym callers = "int \<Rightarrow> frame list"

definition captureStack :: "callers \<Rightarrow> int \<Rightarrow> string list" where
  "captureStack callers skip =
     map (\<lambda>f. fr_File f @ '':'' @ fr_Line f @ '' '' @ fr_Function f)
       (filter (\<lambda>f. fr_Function f \<noteq> []) (take 32 (callers skip)))"

definition New :: "grpc_env \<Rightarrow> callers \<Rightarrow> Code \<Rightarrow> string \<Rightarrow> Option option list \<Rightarrow> Error" where
  "New g callers code message opts =
     (let cfg = applyOptions opts
      in finalizeMessages g
           (MkError (normalizeCode code) message (opt_publicMessage cfg)
              (mergeFields [] (opt_fields cfg)) (captureStack callers (3 + opt_stackSkip cfg)) None))"

text \<open>The loop of \<open>fromStatus\<close> over the details.\<close>

fun status_details :: "detail list \<Rightarrow> Error \<Rightarrow> Error" where
  "status_details [] out = out"
| "status_details (ErrorInfo reason domain md # ds) (MkError code message public flds stack cause) =
     (if domain \<noteq> errorInfoDomain \<or> reason \<noteq> errorInfoReason
      then status_details ds (MkError code message public flds stack cause)
      else (let msg = (case map_of md metadataMessage of Some v \<Rightarrow> v | None \<Rightarrow> []);
                message = (if msg \<noteq> [] then msg else message);
                publicMsg = (case map_of md metadataPublicMessage of Some v \<Rightarrow> v | None \<Rightarrow> []);
                public = (if publicMsg \<noteq> [] then publicMsg else public)
            in status_details ds (MkError code message public (decodeFields md) stack cause)))"
| "status_details (DebugInfo entries text # ds) (MkError code message public flds stack cause) =
     (let stack = (if 0 < length entries then entries else stack);
          message = (if message = [] \<and> text \<noteq> [] then text else message)
      in status_details ds (MkError code message public flds stack cause))"
| "status_details (OtherDetail s # ds) out = status_details ds out"

definition fromStatus :: "grpc_env \<Rightarrow> Status \<Rightarrow> go_err \<Rightarrow> Error" where
  "fromStatus g st cause =
     finalizeMessages g
       (status_details (st_Details st)
          (MkError (normalizeCode (st_Code st)) (st_Message st) (st_Message st) [] [] (Some cause)))"

text \<open>\<open>clone\<close> copies the two slices; in a model without mutable sharing it is the identity.\<close>

definition clone :: "Error \<Rightarrow> Error" where
  "clone e = MkError (e_code e) (e_message e) (e_publicMessage e) (e_fields e) (e_stack e) (e_cause e)"

definition FromError :: "grpc_env \<Rightarrow> go_err option \<Rightarrow> Error option" where
  "FromError g err =
     (case err of None \<Rightarrow> None
      | Some e \<Rightarrow>
          (case AsError e of Some appErr \<Rightarrow> Some (clone appErr)
           | None \<Rightarrow>
               (case status_FromError g e of Some st \<Rightarrow> Some (fromStatus g st e)
                | None \<Rightarrow> Some (finalizeMessages g
                    (MkError (codeFromError g err) (Error_text g e) [] [] [] (Some e))))))"

text \<open>The error extracted from an error that is there.\<close>

definition base_error :: "grpc_env \<Rightarrow> go_err \<Rightarrow> Error" where
  "base_error g e = the (FromError g (Some e))"

definition Wrap ::
  "grpc_env \<Rightarrow> callers \<Rightarrow> go_err option \<Rightarrow> Code \<Rightarrow> string \<Rightarrow> Option option list \<Rightarrow> Error option" where
  "Wrap g callers err code message opts =
     (case err of None \<Rightarrow> None
      | Some e \<Rightarrow>
          (let cfg = applyOptions opts;
               base = base_error g e;
               message = (if message = [] then e_message base else message);
               public = (if opt_publicMessage cfg = [] then e_publicMessage base
                         else opt_publicMessage cfg)
           in Some (finalizeMessages g
                (MkError (pickCode code (e_code base)) message public
                   (mergeFields (e_fields base) (opt_fields cfg))
                   (captureStack callers (3 + opt_stackSkip cfg)) (Some e)))))"

definition Normalize :: "grpc_env \<Rightarrow> go_err option \<Rightarrow> Option option list \<Rightarrow> Error option" where
  "Normalize g err opts =
     (case err of None \<Rightarrow> None
      | Some e \<Rightarrow>
          (let cfg = applyOptions opts; base = base_error g e
           in if length (opt_fields cfg) = 0 then Some base
              else (let out = clone base
                    in Some (finalizeMessages g
                         (MkError (e_code out) (e_message out) (e_publicMessage out)
                            (mergeFields (e_fields out) (opt_fields cfg)) (e_stack out) (e_cause out))))))"

text \<open>The package functions \<open>Code\<close>, \<open>Message\<close>, \<open>PublicMessage\<close>, \<open>FieldsOf\<close> and \<open>StackTrace\<close>.\<close>

definition Code_of :: "grpc_env \<Rightarrow> go_err option \<Rightarrow> Code" where
  "Code_of g err = (case err of None \<Rightarrow> OK | Some e \<Rightarrow> e_code (base_error g e))"

definition Message_of :: "grpc_env \<Rightarrow> go_err option \<Rightarrow> string" where
  "Message_of g err = (case err of None \<Rightarrow> [] | Some e \<Rightarrow> e_message (base_error g e))"

definition PublicMessage_of :: "grpc_env \<Rightarrow> go_err option \<Rightarrow> string" where
  "PublicMessage_of g err = (case err of None \<Rightarrow> [] | Some e \<Rightarrow> e_publicMessage (base_error g e))"

definition FieldsOf :: "grpc_env \<Rightarrow> go_err option \<Rightarrow> Field list" where
  "FieldsOf g err = (case err of None \<Rightarrow> [] | Some e \<Rightarrow> e_fields (base_error g e))"

definition StackTrace_of :: "grpc_env \<Rightarrow> go_err option \<Rightarrow> string list" where
  "StackTrace_of g err = (case err of None \<Rightarrow> [] | Some e \<Rightarrow> e_stack (base_error g e))"

section \<open>Crossing the wire\<close>

definition GRPCStatus :: "grpc_env \<Rightarrow> Error option \<Rightarrow> Status" where
  "GRPCStatus g err =
     (case err of None \<Rightarrow> \<lparr>st_Code = OK, st_Message = [], st_Details = []\<rparr>
      | Some e \<Rightarrow>
          (let st = \<lparr>st_Code = normalizeCode (e_code e), st_Message = e_publicMessage e, st_Details = []\<rparr>
           in case status_WithDetails g st [ErrorInfo errorInfoReason errorInfoDomain []] of
                None \<Rightarrow> st | Some withInfo \<Rightarrow> withInfo))"

definition hasErrxDetails :: "Status \<Rightarrow> bool" where
  "hasErrxDetails st =
     list_ex (\<lambda>d. case d of ErrorInfo reason domain md \<Rightarrow>
                      domain = errorInfoDomain \<and> reason = errorInfoReason
                  | _ \<Rightarrow> False) (st_Details st)"

definition serverError :: "grpc_env \<Rightarrow> callers \<Rightarrow> go_err option \<Rightarrow> Error option" where
  "serverError g callers err =
     (case err of None \<Rightarrow> None
      | Some e \<Rightarrow>
          (case AsError e of Some appErr \<Rightarrow> Some (finalizeMessages g (clone appErr))
           | None \<Rightarrow>
               (case status_FromError g e of
                  Some st \<Rightarrow>
                    if hasErrxDetails st then Some (finalizeMessages g (fromStatus g st e))
                    else Wrap g callers err (st_Code st) (st_Message st)
                           [Some (Public (st_Message st)), Some (StackSkip 1)]
                | None \<Rightarrow> Wrap g callers err (codeFromError g err) (Error_text g e) [Some (StackSkip 1)])))"

text \<open>The interceptors, on the answer of the handler or of the remote call.\<close>

definition errx_UnaryServerInterceptor ::
  "grpc_env \<Rightarrow> callers \<Rightarrow> 'r \<times> go_err option \<Rightarrow> 'r \<times> go_err option" where
  "errx_UnaryServerInterceptor g callers answer =
     (case answer of (resp, None) \<Rightarrow> (resp, None)
      | (resp, Some err) \<Rightarrow>
          (case serverError g callers (Some err) of
             Some appErr \<Rightarrow> (resp, Some (AppErr appErr))
           | None \<Rightarrow> (resp, Some err)))"

definition errx_UnaryClientInterceptor :: "grpc_env \<Rightarrow> go_err option \<Rightarrow> go_err option" where
  "errx_UnaryClientInterceptor g err =
     (case err of None \<Rightarrow> None | Some e \<Rightarrow> map_option AppErr (Normalize g (Some e) []))"

end
