(* ===== verification/ErrxFacts.thy ===== *)
theory ErrxFacts
  imports Errx "HOL-Library.Multiset"
begin

text \<open>
  What \<open>sdk/errx\<close> guarantees: merged fields behave as an ordered map, every error that the
  package builds has a code and messages, a gRPC peer sees an error's code and public message
  and nothing else, and statuses of older peers are still decoded.
\<close>

section \<open>Fields as an ordered map\<close>

definition keys :: "Field list \<Rightarrow> string list" where
  "keys fs = map f_Key fs"

definition lookup_field :: "Field list \<Rightarrow> string \<Rightarrow> string option" where
  "lookup_field fs k = map_of (map (\<lambda>f. (f_Key f, f_Value f)) fs) k"

definition wf_fields :: "Field list \<Rightarrow> bool" where
  "wf_fields fs \<longleftrightarrow> distinct (keys fs) \<and> [] \<notin> set (keys fs)"

text \<open>The loop's index maps each key of the output to its position.\<close>

definition indexed :: "Field list \<Rightarrow> (string \<rightharpoonup> nat) \<Rightarrow> bool" where
  "indexed out index \<longleftrightarrow>
     (\<forall>k i. index k = Some i \<longleftrightarrow> i < length out \<and> f_Key (out ! i) = k)"

text \<open>The reference: replace the value of a key in place, or append the field.\<close>

definition upsert :: "Field list \<Rightarrow> Field \<Rightarrow> Field list" where
  "upsert out f =
     (if f_Key f = [] then out
      else if f_Key f \<in> set (keys out) then map (\<lambda>g. if f_Key g = f_Key f then f else g) out
      else out @ [f])"

lemma indexed_Nil [simp]: "indexed [] Map.empty"
  by (simp add: indexed_def)

lemma in_keys: "k \<in> set (keys out) \<longleftrightarrow> (\<exists>i. i < length out \<and> f_Key (out ! i) = k)"
  unfolding keys_def in_set_conv_nth by auto

lemma indexed_None: "indexed out index \<Longrightarrow> index k = None \<longleftrightarrow> k \<notin> set (keys out)"
  unfolding in_keys indexed_def by (metis not_None_eq)

lemma indexed_append:
  assumes "indexed out index" and "f_Key f \<notin> set (keys out)"
  shows "indexed (out @ [f]) (index(f_Key f \<mapsto> length out))"
  unfolding indexed_def
proof (intro allI)
  fix k i
  have ne: "j < length out \<Longrightarrow> f_Key (out ! j) \<noteq> f_Key f" for j using assms(2) in_keys by auto
  consider "i < length out" | "i = length out" | "length out < i" by linarith
  then show "(index(f_Key f \<mapsto> length out)) k = Some i \<longleftrightarrow>
      i < length (out @ [f]) \<and> f_Key ((out @ [f]) ! i) = k"
  proof cases
    case 1
    then show ?thesis using ne [OF 1] assms(1) by (auto simp add: nth_append indexed_def)
  next
    case 2
    then show ?thesis using assms(1) by (auto simp add: nth_append indexed_def)
  next
    case 3
    then show ?thesis using assms(1) by (auto simp add: indexed_def)
  qed
qed

lemma indexed_update:
  assumes "indexed out index" and "index (f_Key f) = Some i"
  shows "indexed (out[i := f]) index" and "out[i := f] = map (\<lambda>g. if f_Key g = f_Key f then f else g) out"
proof -
  have i: "i < length out" "f_Key (out ! i) = f_Key f" using assms by (auto simp add: indexed_def)
  have uniq: "j = i" if "j < length out" "f_Key (out ! j) = f_Key f" for j
    using assms that by (metis indexed_def option.inject)
  have "f_Key (out[i := f] ! j) = f_Key (out ! j)" if "j < length out" for j
    using i that by (cases "j = i") simp_all
  then show "indexed (out[i := f]) index"
    using assms(1) unfolding indexed_def length_list_update by metis
  show "out[i := f] = map (\<lambda>g. if f_Key g = f_Key f then f else g) out"
  proof (rule nth_equalityI)
    fix j assume "j < length (out[i := f])"
    then have j: "j < length out" by simp
    show "out[i := f] ! j = map (\<lambda>g. if f_Key g = f_Key f then f else g) out ! j"
    proof (cases "j = i")
      case False
      then have "f_Key (out ! j) \<noteq> f_Key f" using uniq j by blast
      then show ?thesis using False j by simp
    qed (use i j in simp)
  qed simp
qed

lemma merge_base_run:
  assumes "indexed out index" and "distinct (keys out @ filter (\<lambda>k. k \<noteq> []) (keys fs))"
  shows "\<exists>index'. merge_base fs out index = (out @ filter (\<lambda>f. f_Key f \<noteq> []) fs, index') \<and>
    indexed (out @ filter (\<lambda>f. f_Key f \<noteq> []) fs) index'"
  using assms
proof (induction fs arbitrary: out index)
  case (Cons f fs)
  show ?case
  proof (cases "f_Key f = []")
    case False
    then have f: "f_Key f \<notin> set (keys out)"
      using Cons.prems(2) by (auto simp add: keys_def [of "f # fs"])
    have d: "distinct (keys (out @ [f]) @ filter (\<lambda>k. k \<noteq> []) (keys fs))"
      using Cons.prems(2) False unfolding keys_def map_append list.map filter.simps append_assoc by simp
    have "merge_base (f # fs) out index = merge_base fs (out @ [f]) (index(f_Key f \<mapsto> length out))"
      using False by (simp only: merge_base.simps if_False)
    then show ?thesis using Cons.IH [OF indexed_append [OF Cons.prems(1) f] d] False
      by (simp only: filter.simps if_True not_False_eq_True append_assoc append.simps)
  qed (use Cons in \<open>simp add: keys_def\<close>)
qed simp

lemma merge_extra_run: "indexed out index \<Longrightarrow> merge_extra fs out index = foldl upsert out fs"
proof (induction fs arbitrary: out index)
  case (Cons f fs)
  show ?case
  proof (cases "f_Key f = []")
    case True
    then show ?thesis using Cons.IH [OF Cons.prems] by (simp add: upsert_def)
  next
    case ne: False
    show ?thesis
    proof (cases "index (f_Key f)")
      case None
      then have "f_Key f \<notin> set (keys out)" using indexed_None [OF Cons.prems] by simp
      from Cons.IH [OF indexed_append [OF Cons.prems this]] this None ne show ?thesis
        by (simp only: merge_extra.simps upsert_def foldl_Cons if_False option.case)
    next
      case (Some i)
      then have "f_Key f \<in> set (keys out)" using indexed_None [OF Cons.prems, of "f_Key f"] by auto
      then have "upsert out f = out[i := f]"
        using indexed_update(2) [OF Cons.prems Some] ne by (simp add: upsert_def)
      then show ?thesis using Cons.IH [OF indexed_update(1) [OF Cons.prems Some]] Some ne by simp
    qed
  qed
qed simp

lemma mergeFields_upsert: "wf_fields base \<Longrightarrow> mergeFields base extra = foldl upsert base extra"
proof -
  assume wf: "wf_fields base"
  then have f: "filter (\<lambda>f. f_Key f \<noteq> []) base = base"
    by (force simp add: wf_fields_def keys_def filter_id_conv)
  have fk: "filter (\<lambda>k. k \<noteq> []) (keys base) = keys base"
    using wf by (auto simp add: wf_fields_def filter_id_conv)
  obtain index' where m: "merge_base base [] Map.empty = (base, index')" and "indexed base index'"
    using merge_base_run [of "[]" Map.empty base] wf f fk by (auto simp add: wf_fields_def keys_def)
  from merge_extra_run [OF this(2)] m show ?thesis by (simp add: mergeFields_def)
qed

lemma upsert_wf: "wf_fields out \<Longrightarrow> wf_fields (upsert out f)"
proof -
  assume wf: "wf_fields out"
  have k: "keys (map (\<lambda>g. if f_Key g = f_Key f then f else g) out) = keys out"
    by (auto simp add: keys_def)
  have a: "keys (out @ [f]) = keys out @ [f_Key f]" by (simp add: keys_def)
  show ?thesis using wf by (auto simp add: upsert_def wf_fields_def k a)
qed

lemma lookup_upsert:
  "k \<noteq> [] \<Longrightarrow> lookup_field (upsert out f) k =
     (if f_Key f = k then Some (f_Value f) else lookup_field out k)"
proof -
  assume k: "k \<noteq> []"
  have "lookup_field (map (\<lambda>g. if f_Key g = f_Key f then f else g) out) k =
      (if f_Key f = k \<and> k \<in> set (keys out) then Some (f_Value f) else lookup_field out k)"
    by (induction out) (auto simp add: lookup_field_def keys_def)
  moreover have "lookup_field (out @ [f]) k =
      (if f_Key f = k \<and> k \<notin> set (keys out) then Some (f_Value f) else lookup_field out k)"
    by (induction out) (auto simp add: lookup_field_def keys_def)
  ultimately show ?thesis using k by (auto simp add: upsert_def)
qed

lemma foldl_upsert:
  "wf_fields out \<Longrightarrow> wf_fields (foldl upsert out fs) \<and>
     (\<forall>k. k \<noteq> [] \<longrightarrow> lookup_field (foldl upsert out fs) k =
        (case lookup_field (rev fs) k of Some v \<Rightarrow> Some v | None \<Rightarrow> lookup_field out k))"
proof (induction fs arbitrary: out)
  case (Cons f fs)
  have "lookup_field (rev (f # fs)) k =
      (case lookup_field (rev fs) k of Some v \<Rightarrow> Some v
       | None \<Rightarrow> if f_Key f = k then Some (f_Value f) else None)" for k
    by (auto simp add: lookup_field_def map_add_def simp flip: rev_map split: option.splits)
  then show ?case
    using Cons.IH [OF upsert_wf [OF Cons.prems, of f]] by (auto simp add: lookup_upsert split: option.splits)
qed (auto simp add: lookup_field_def)

text \<open>Merging fields keeps them a map.  When the base has one field per key and no empty
  key, so has the result; a key has the last value that \<open>extra\<close> gives it, else the value it
  had in \<open>base\<close>; and the fields of \<open>base\<close> keep their positions.\<close>

theorem mergeFields_map:
  assumes "wf_fields base"
  shows "wf_fields (mergeFields base extra) \<and>
    (\<forall>k. k \<noteq> [] \<longrightarrow> lookup_field (mergeFields base extra) k =
       (case lookup_field (rev extra) k of Some v \<Rightarrow> Some v | None \<Rightarrow> lookup_field base k)) \<and>
    take (length base) (keys (mergeFields base extra)) = keys base"
proof -
  have "take (length out) (keys (foldl upsert out fs)) = keys out" for out fs
  proof (induction fs arbitrary: out)
    case (Cons f fs)
    have l: "length out \<le> length (upsert out f)" "take (length out) (keys (upsert out f)) = keys out"
      by (auto simp add: upsert_def keys_def intro!: nth_equalityI)
    show ?case using Cons.IH [of "upsert out f"] l
      by (metis foldl_Cons min.absorb1 take_take)
  qed (simp add: keys_def)
  then show ?thesis using foldl_upsert [OF assms] mergeFields_upsert [OF assms] by simp
qed

theorem mergeFields_map_witness:
  "lookup_field (mergeFields [\<lparr>f_Key = ''id'', f_Value = ''1''\<rparr>, \<lparr>f_Key = ''op'', f_Value = ''get''\<rparr>]
     [\<lparr>f_Key = ''id'', f_Value = ''2''\<rparr>, \<lparr>f_Key = ''id'', f_Value = ''3''\<rparr>]) ''id'' = Some ''3''"
proof -
  have wf: "wf_fields [\<lparr>f_Key = ''id'', f_Value = ''1''\<rparr>, \<lparr>f_Key = ''op'', f_Value = ''get''\<rparr>]"
    by (simp add: wf_fields_def keys_def)
  show ?thesis
    using mergeFields_map [OF wf, of "[\<lparr>f_Key = ''id'', f_Value = ''2''\<rparr>, \<lparr>f_Key = ''id'', f_Value = ''3''\<rparr>]"]
    by (simp add: lookup_field_def)
qed

section \<open>Codes and messages\<close>

declare finalizeMessages.simps [simp del]

definition wf_error :: "Error \<Rightarrow> bool" where
  "wf_error a \<longleftrightarrow> e_code a \<noteq> OK \<and> e_message a \<noteq> [] \<and> e_publicMessage a \<noteq> []"

lemma normalizeCode_not_OK [simp]: "normalizeCode c \<noteq> OK"
  by (simp add: normalizeCode_def)

lemma normalizeCode_idem [simp]: "normalizeCode (normalizeCode c) = normalizeCode c"
  by (simp add: normalizeCode_def)

lemma normalizeCode_fixed [simp]: "c \<noteq> OK \<Longrightarrow> normalizeCode c = c"
  by (simp add: normalizeCode_def)

lemma pickCode_not_OK [simp]: "pickCode p f \<noteq> OK"
  by (simp add: pickCode_def)

lemma defaultPublicMessage_not_empty [simp]: "defaultPublicMessage c \<noteq> []"
  by (simp add: defaultPublicMessage_def Let_def)

lemma finalize_sel [simp]:
  "e_code (finalizeMessages g a) = e_code a" "e_cause (finalizeMessages g a) = e_cause a"
  "e_fields (finalizeMessages g a) = e_fields a" "e_stack (finalizeMessages g a) = e_stack a"
  "e_publicMessage (finalizeMessages g a) =
     (if e_publicMessage a = [] then defaultPublicMessage (e_code a) else e_publicMessage a)"
  "e_message (finalizeMessages g a) \<noteq> []" "e_publicMessage (finalizeMessages g a) \<noteq> []"
  by (cases a; simp add: finalizeMessages.simps Let_def)+

lemma finalize_message: "e_message a \<noteq> [] \<Longrightarrow> e_message (finalizeMessages g a) = e_message a"
  by (cases a) (simp add: finalizeMessages.simps Let_def)

lemma wf_finalize [simp]: "wf_error (finalizeMessages g a) \<longleftrightarrow> e_code a \<noteq> OK"
  by (simp add: wf_error_def)

lemma clone_id [simp]: "clone e = e"
  by (simp add: clone_def)

lemma status_details_code [simp]: "e_code (status_details ds a) = e_code a"
  by (induction ds a rule: status_details.induct) (simp_all add: Let_def)

lemma base_error_AppErr: "AsError e = Some a \<Longrightarrow> base_error g e = a"
  by (simp add: base_error_def FromError_def)

lemma base_error_status:
  "AsError e = None \<Longrightarrow> status_FromError g e = Some st \<Longrightarrow> base_error g e = fromStatus g st e"
  by (simp add: base_error_def FromError_def)

lemma base_error_other:
  "AsError e = None \<Longrightarrow> status_FromError g e = None \<Longrightarrow>
     base_error g e = finalizeMessages g (MkError (codeFromError g (Some e)) (Error_text g e) [] [] [] (Some e))"
  by (simp add: base_error_def FromError_def)

lemma codeFromError_other:
  "status_FromError g e = None \<Longrightarrow> codeFromError g (Some e) \<noteq> OK"
  by (simp add: codeFromError_def)

lemma base_error_wf:
  assumes "\<And>a. AsError e = Some a \<Longrightarrow> wf_error a"
  shows "wf_error (base_error g e)"
proof (cases "AsError e")
  case (Some a)
  then show ?thesis using assms by (simp add: base_error_AppErr)
next
  case None
  then show ?thesis
    by (cases "status_FromError g e")
      (simp_all add: base_error_status base_error_other fromStatus_def codeFromError_other)
qed

lemma Wrap_Some:
  "Wrap g callers (Some e) code message opts = Some a \<Longrightarrow>
     e_code a = pickCode code (e_code (base_error g e)) \<and> e_cause a = Some e \<and> wf_error a \<and>
     (message \<noteq> [] \<longrightarrow> e_message a = message)"
  by (auto simp add: Wrap_def Let_def finalize_message)

text \<open>Every error that the package makes is well formed, whatever the error it is made from:
  its code is not \<open>OK\<close> and neither of its messages is empty; a wrapped error keeps its cause, so
  that \<open>errors.Is\<close> still finds in it whatever it found before, and it has the caller's code and
  message when they are given.\<close>

theorem constructed_errors:
  "wf_error (New g callers code message opts) \<and>
   (\<exists>a. Wrap g callers (Some e) code message opts = Some a \<and> wf_error a \<and>
      (code \<noteq> OK \<longrightarrow> e_code a = code) \<and> (message \<noteq> [] \<longrightarrow> e_message a = message) \<and>
      (err_Is p e \<longrightarrow> err_Is p (AppErr a))) \<and>
   Wrap g callers None code message opts = None"
proof -
  obtain a where a: "Wrap g callers (Some e) code message opts = Some a"
    by (simp add: Wrap_def Let_def)
  from Wrap_Some [OF a] have w: "e_code a = pickCode code (e_code (base_error g e))"
    "e_cause a = Some e" "wf_error a" "message \<noteq> [] \<longrightarrow> e_message a = message" by blast+
  have "err_Is p e \<Longrightarrow> err_Is p (AppErr a)" using w(2) by (cases a) simp
  then show ?thesis
    using a w by (auto simp add: New_def Let_def pickCode_def Wrap_def)
qed

section \<open>What a peer sees\<close>

text \<open>The code and message that an error shows to a client, without going through the wire: of an
  application error its code and public message, of a status its code and message, of anything
  else the class of the error and the fixed text for that class.\<close>

definition public_view :: "grpc_env \<Rightarrow> go_err \<Rightarrow> Code \<times> string" where
  "public_view g e =
     (case AsError e of
        Some a \<Rightarrow> (normalizeCode (e_code a),
          if e_publicMessage a = [] then defaultPublicMessage (e_code a) else e_publicMessage a)
      | None \<Rightarrow>
          (case status_FromError g e of
             Some st \<Rightarrow>
               (normalizeCode (st_Code st),
                if hasErrxDetails st then e_publicMessage (fromStatus g st e)
                else if st_Message st = [] then defaultPublicMessage (normalizeCode (st_Code st))
                else st_Message st)
           | None \<Rightarrow> (codeFromError g (Some e), defaultPublicMessage (codeFromError g (Some e)))))"

definition wire_status :: "grpc_env \<Rightarrow> Code \<times> string \<Rightarrow> Status" where
  "wire_status g v =
     (let st = \<lparr>st_Code = fst v, st_Message = snd v, st_Details = []\<rparr>
      in case status_WithDetails g st [ErrorInfo errorInfoReason errorInfoDomain []] of
           None \<Rightarrow> st | Some s \<Rightarrow> s)"

lemma GRPCStatus_wire: "GRPCStatus g (Some a) = wire_status g (normalizeCode (e_code a), e_publicMessage a)"
  by (simp add: GRPCStatus_def wire_status_def Let_def)

lemma details_public:
  "\<not> list_ex (\<lambda>d. case d of ErrorInfo reason domain md \<Rightarrow>
        domain = errorInfoDomain \<and> reason = errorInfoReason | _ \<Rightarrow> False) ds \<Longrightarrow>
     e_publicMessage (status_details ds a) = e_publicMessage a"
  by (induction ds a rule: status_details.induct) (auto simp add: Let_def)

lemma applyOptions_public: "opt_publicMessage (applyOptions [Some (Public m), Some (StackSkip k)]) = m"
  by (simp add: applyOptions_def Public_def StackSkip_def)

lemma applyOptions_skip: "opt_publicMessage (applyOptions [Some (StackSkip k)]) = []"
  by (simp add: applyOptions_def StackSkip_def)

lemma serverError_view:
  "\<exists>a. serverError g callers (Some e) = Some a \<and>
     (normalizeCode (e_code a), e_publicMessage a) = public_view g e"
proof (cases "AsError e")
  case (Some a)
  then show ?thesis by (simp add: serverError_def public_view_def)
next
  case None
  note as = this
  show ?thesis
  proof (cases "status_FromError g e")
    case None
    then show ?thesis using as
      by (simp add: serverError_def public_view_def Wrap_def Let_def applyOptions_skip
          base_error_other pickCode_def codeFromError_other)
  next
    case (Some st)
    show ?thesis
    proof (cases "hasErrxDetails st")
      case True
      then show ?thesis using as Some
        by (simp add: serverError_def public_view_def fromStatus_def)
    next
      case False
      then have "e_publicMessage (status_details (st_Details st) a) = e_publicMessage a" for a
        unfolding hasErrxDetails_def by (rule details_public)
      then show ?thesis using as Some False
        by (simp add: serverError_def public_view_def Wrap_def Let_def applyOptions_public
            base_error_status fromStatus_def pickCode_def normalizeCode_def)
    qed
  qed
qed

text \<open>C1: a gRPC peer sees an error's code and public message and nothing else.  Every error that a
  handler returns leaves the server interceptor as an application error whose gRPC status is a
  function of \<open>public_view\<close> alone: the code is never \<open>OK\<close> and the message never empty.  Two
  application errors with the same code and public message give the same status, whatever
  internal message, fields, stack trace and cause they carry.\<close>

theorem server_status_is_public:
  "\<exists>a. errx_UnaryServerInterceptor g callers (resp, Some e) = (resp, Some (AppErr a)) \<and>
     GRPCStatus g (Some a) = wire_status g (public_view g e) \<and>
     fst (public_view g e) \<noteq> OK \<and> snd (public_view g e) \<noteq> [] \<and>
     GRPCStatus g (serverError g callers (Some (AppErr (MkError c m1 p f1 s1 k1)))) =
     GRPCStatus g (serverError g callers' (Some (AppErr (MkError c m2 p f2 s2 k2))))"
proof -
  obtain a where a: "serverError g callers (Some e) = Some a"
      "(normalizeCode (e_code a), e_publicMessage a) = public_view g e"
    using serverError_view by blast
  have ne: "snd (public_view g x) \<noteq> []" for x
    by (auto simp add: public_view_def fromStatus_def split: option.splits)
  have st: "GRPCStatus g (serverError g cs (Some x)) = wire_status g (public_view g x)" for cs x
    using serverError_view [of g cs x] by (auto simp add: GRPCStatus_wire)
  have "public_view g (AppErr (MkError c m1 p f1 s1 k1)) = public_view g (AppErr (MkError c m2 p f2 s2 k2))"
    by (simp add: public_view_def)
  moreover have "GRPCStatus g (Some a) = wire_status g (public_view g e)" using st [of callers e] a by simp
  moreover have "fst (public_view g e) \<noteq> OK" using a(2) by (metis fst_conv normalizeCode_not_OK)
  ultimately show ?thesis using a st ne by (auto simp add: errx_UnaryServerInterceptor_def)
qed

text \<open>What the documentation of package \<open>status\<close> says: a status error carries its status, and
  details are appended.\<close>

definition grpc_documented :: "grpc_env \<Rightarrow> bool" where
  "grpc_documented g \<longleftrightarrow>
     (\<forall>st. status_FromError g (StatusErr st) = Some st) \<and>
     (\<forall>st ds s. status_WithDetails g st ds = Some s \<longrightarrow> s = st\<lparr>st_Details := st_Details st @ ds\<rparr>)"

lemma wire_status_documented:
  assumes "grpc_documented g"
  shows "st_Code (wire_status g v) = fst v" "st_Message (wire_status g v) = snd v"
    "st_Details (wire_status g v) = [] \<or>
     st_Details (wire_status g v) = [ErrorInfo errorInfoReason errorInfoDomain []]"
proof -
  define st where "st = \<lparr>st_Code = fst v, st_Message = snd v, st_Details = []\<rparr>"
  define w where "w = status_WithDetails g st [ErrorInfo errorInfoReason errorInfoDomain []]"
  have append: "s = st'\<lparr>st_Details := st_Details st' @ ds\<rparr>" if "status_WithDetails g st' ds = Some s"
    for st' ds s using assms that unfolding grpc_documented_def by blast
  have "w = Some s \<Longrightarrow> s = st\<lparr>st_Details := [ErrorInfo errorInfoReason errorInfoDomain []]\<rparr>" for s
    using append [of st _ s] unfolding w_def by (simp add: st_def)
  then have "wire_status g v = st \<or> wire_status g v = st\<lparr>st_Details := [ErrorInfo errorInfoReason errorInfoDomain []]\<rparr>"
    by (cases w) (simp_all add: wire_status_def Let_def st_def [symmetric] w_def [symmetric])
  then show "st_Code (wire_status g v) = fst v" "st_Message (wire_status g v) = snd v"
    "st_Details (wire_status g v) = [] \<or>
     st_Details (wire_status g v) = [ErrorInfo errorInfoReason errorInfoDomain []]"
    by (auto simp add: st_def)
qed

lemma status_details_marker:
  "ds = [] \<or> ds = [ErrorInfo errorInfoReason errorInfoDomain []] \<Longrightarrow>
     status_details ds (MkError c m p [] s k) = MkError c m p [] s k"
  by (auto simp add: decodeFields_def)

text \<open>The error that a client decodes from a server's reply has the code and the public
  message of the handler's error, no fields and no stack, and the public message is all that it
  knows of the internal one.\<close>

theorem client_decodes_public_view:
  assumes "grpc_documented g"
  shows "\<exists>a b. errx_UnaryServerInterceptor g callers (resp, Some e) = (resp, Some (AppErr a)) \<and>
     errx_UnaryClientInterceptor g (Some (StatusErr (GRPCStatus g (Some a)))) = Some (AppErr b) \<and>
     (e_code b, e_publicMessage b) = public_view g e \<and> e_message b = snd (public_view g e) \<and>
     e_fields b = [] \<and> e_stack b = []"
proof -
  obtain a where a: "serverError g callers (Some e) = Some a"
      "(normalizeCode (e_code a), e_publicMessage a) = public_view g e"
    using serverError_view by blast
  define st where "st = wire_status g (public_view g e)"
  have v: "fst (public_view g e) \<noteq> OK" "snd (public_view g e) \<noteq> []"
  proof -
    show "fst (public_view g e) \<noteq> OK" using a(2) by (metis fst_conv normalizeCode_not_OK)
    show "snd (public_view g e) \<noteq> []"
      by (auto simp add: public_view_def fromStatus_def split: option.splits)
  qed
  note st_facts = wire_status_documented [OF assms, of "public_view g e", folded st_def]
  define b where "b = finalizeMessages g (MkError (fst (public_view g e)) (snd (public_view g e))
      (snd (public_view g e)) [] [] (Some (StatusErr st)))"
  have "fromStatus g st (StatusErr st) = b"
    using st_facts(1,2) v status_details_marker [OF st_facts(3)]
    by (simp add: fromStatus_def b_def)
  moreover have "status_FromError g (StatusErr st) = Some st" using assms by (simp add: grpc_documented_def)
  ultimately have "errx_UnaryClientInterceptor g (Some (StatusErr st)) = Some (AppErr b)"
    by (simp add: errx_UnaryClientInterceptor_def Normalize_def applyOptions_def base_error_status)
  moreover have "GRPCStatus g (Some a) = st" using a(2) by (simp add: GRPCStatus_wire st_def)
  moreover have "errx_UnaryServerInterceptor g callers (resp, Some e) = (resp, Some (AppErr a))"
    using a(1) by (simp add: errx_UnaryServerInterceptor_def)
  ultimately show ?thesis
    using v by (intro exI [of _ a] exI [of _ b]) (simp add: b_def finalize_message)
qed

section \<open>Statuses of older peers\<close>

text \<open>Older servers sent the message, the public message and the fields as metadata, and the stack
  as debug information.\<close>

definition legacy_metadata :: "string \<Rightarrow> string \<Rightarrow> Field list \<Rightarrow> (string \<times> string) list" where
  "legacy_metadata m p fs =
     [(metadataMessage, m), (metadataPublicMessage, p)] @
     map (\<lambda>f. (metadataFieldPrefix @ f_Key f, f_Value f)) fs"

lemma sort_map_prefix: "sort (map (\<lambda>k. pre @ k) ks) = map (\<lambda>k. pre @ k) (sort ks)" for ks :: "string list"
proof (rule properties_for_sort)
  have le: "pre @ a \<le> pre @ b" if "a \<le> b" for a b :: string using that by (induction pre) simp_all
  have "sorted (map (\<lambda>k. pre @ k) xs)" if "sorted xs" for xs :: "string list"
    using that by (induction xs) (auto simp add: le)
  then show "sorted (map (\<lambda>k. pre @ k) (sort ks))" by simp
qed simp

lemma has_field_prefix [simp]:
  "\<not> has_prefix metadataMessage metadataFieldPrefix" "\<not> has_prefix metadataPublicMessage metadataFieldPrefix"
  by (simp_all add: has_prefix_def metadataMessage_def metadataPublicMessage_def metadataFieldPrefix_def)

lemma legacy_keys_distinct: "wf_fields fs \<Longrightarrow> distinct (map fst (legacy_metadata m p fs))"
  by (auto simp add: legacy_metadata_def wf_fields_def keys_def distinct_map inj_on_def comp_def
      metadataMessage_def metadataPublicMessage_def metadataFieldPrefix_def)

lemma decodeFields_legacy:
  assumes "wf_fields fs" and "mset md = mset (legacy_metadata m p fs)"
  shows "decodeFields md = sort_key f_Key fs"
proof -
  let ?pre = metadataFieldPrefix
  have perm: "mset (filter P (map fst md)) = mset (filter P (map fst (legacy_metadata m p fs)))" for P
    using assms(2) by (metis mset_filter mset_map)
  have "mset (filter (\<lambda>key. has_prefix key ?pre) (map fst md)) = mset (map (\<lambda>k. ?pre @ k) (keys fs))"
    unfolding perm by (simp add: legacy_metadata_def keys_def comp_def filter_map)
  then have "sort (filter (\<lambda>key. has_prefix key ?pre) (map fst md)) = sort (map (\<lambda>k. ?pre @ k) (keys fs))"
    by (metis mset_sort properties_for_sort sorted_sort)
  also have "\<dots> = map (\<lambda>k. ?pre @ k) (map f_Key (sort_key f_Key fs))"
    unfolding sort_map_prefix by (metis keys_def mset_map mset_sort properties_for_sort sorted_sort_key)
  finally have srt: "sort (filter (\<lambda>key. has_prefix key ?pre) (map fst md)) =
      map (\<lambda>f. ?pre @ f_Key f) (sort_key f_Key fs)" by (simp add: comp_def)
  have d: "distinct (map fst md)"
    using legacy_keys_distinct [OF assms(1), of m p] assms(2) by (metis mset_eq_imp_distinct_iff mset_map)
  have val: "map_of md (?pre @ f_Key f) = Some (f_Value f)" if "f \<in> set fs" for f
  proof -
    have "(?pre @ f_Key f, f_Value f) \<in> set (legacy_metadata m p fs)"
      using that by (auto simp add: legacy_metadata_def)
    then show ?thesis using assms(2) d by (metis map_of_is_SomeI set_mset_mset)
  qed
  have "\<forall>f \<in> set fs. f_Key f \<noteq> []" using assms(1) unfolding wf_fields_def keys_def by force
  then have ne: "filter (\<lambda>key. trim_prefix key ?pre \<noteq> []) (map (\<lambda>f. ?pre @ f_Key f) (sort_key f_Key fs)) =
      map (\<lambda>f. ?pre @ f_Key f) (sort_key f_Key fs)"
    by (intro filter_True) auto
  show ?thesis
    unfolding decodeFields_def Let_def srt ne map_map
    by (rule map_idI) (simp only: comp_def set_sort val option.case trim_prefix_append, simp)
qed

text \<open>Statuses of older peers are still decoded.  When a status carries the old metadata, in
  whatever order the map is read, and debug information, the decoded error has the internal and
  the public message, the stack, and the fields sorted by key.\<close>

theorem legacy_status_decoded:
  fixes c :: Code and t d :: string
  assumes "wf_fields fs" and "mset md = mset (legacy_metadata m p fs)" and "m \<noteq> []" and "p \<noteq> []"
    and "stack \<noteq> []" and "grpc_documented g"
  defines "st \<equiv> \<lparr>st_Code = c, st_Message = t,
        st_Details = [ErrorInfo errorInfoReason errorInfoDomain md, DebugInfo stack d]\<rparr>"
  shows "FromError g (Some (StatusErr st)) =
      Some (MkError (normalizeCode c) m p (sort_key f_Key fs) stack (Some (StatusErr st)))"
proof -
  have dist: "distinct (map fst md)"
    using legacy_keys_distinct [OF assms(1), of m p] assms(2) by (metis mset_eq_imp_distinct_iff mset_map)
  have "(metadataMessage, m) \<in> set md" "(metadataPublicMessage, p) \<in> set md"
    using mset_eq_setD [OF assms(2)] by (simp_all add: legacy_metadata_def)
  then have "map_of md metadataMessage = Some m" "map_of md metadataPublicMessage = Some p"
    using dist by simp_all
  then show ?thesis
    using assms(3-6) decodeFields_legacy [OF assms(1,2)]
    by (simp add: st_def fromStatus_def finalizeMessages.simps FromError_def grpc_documented_def)
qed

section \<open>A concrete gRPC library\<close>

definition demo_grpc :: grpc_env where
  "demo_grpc = \<lparr>status_FromError = (\<lambda>e. case e of StatusErr st \<Rightarrow> Some st | _ \<Rightarrow> None),
     status_WithDetails = (\<lambda>st ds. if st_Code st = OK then None
        else Some (st\<lparr>st_Details := st_Details st @ ds\<rparr>)),
     status_CodeOf = (\<lambda>e. case e of StatusErr st \<Rightarrow> st_Code st | _ \<Rightarrow> 2), status_text = st_Message\<rparr>"

lemma demo_grpc_documented: "grpc_documented demo_grpc"
  by (simp add: grpc_documented_def demo_grpc_def)

theorem constructed_errors_witness:
  "\<exists>a. Wrap demo_grpc (\<lambda>_. []) (Some ContextDeadline) NotFound ''load user'' [] = Some a \<and>
     e_code a = NotFound \<and> e_message a = ''load user'' \<and> IsDeadline (AppErr a)"
  using constructed_errors [of demo_grpc "\<lambda>_. []" NotFound "''load user''" "[]" ContextDeadline
      "\<lambda>x. case x of ContextDeadline \<Rightarrow> True | _ \<Rightarrow> False"]
  by (auto simp add: IsDeadline_def)

theorem client_decodes_public_view_witness:
  "\<exists>a b. errx_UnaryServerInterceptor demo_grpc (\<lambda>_. [])
       ((), Some (AppErr (MkError Unavailable ''dial db-1'' ''try again'' [] [''main.go:1 main''] None))) =
       ((), Some (AppErr a)) \<and>
     errx_UnaryClientInterceptor demo_grpc (Some (StatusErr (GRPCStatus demo_grpc (Some a)))) =
       Some (AppErr b) \<and> e_code b = Unavailable \<and> e_message b = ''try again'' \<and> e_stack b = []"
  using client_decodes_public_view [OF demo_grpc_documented, of "\<lambda>_. []" "()"
      "AppErr (MkError Unavailable ''dial db-1'' ''try again'' [] [''main.go:1 main''] None)"]
  by (force simp add: public_view_def)

definition demo_legacy_status :: Status where
  "demo_legacy_status = \<lparr>st_Code = NotFound, st_Message = ''t'',
     st_Details = [ErrorInfo errorInfoReason errorInfoDomain
         [(''field.b'', ''2''), (''public_message'', ''gone''), (''message'', ''row 7''), (''field.a'', ''1'')],
       DebugInfo [''x.go:3 f''] []]\<rparr>"

theorem legacy_status_decoded_witness:
  "FromError demo_grpc (Some (StatusErr demo_legacy_status)) =
   Some (MkError NotFound ''row 7'' ''gone''
     [\<lparr>f_Key = ''a'', f_Value = ''1''\<rparr>, \<lparr>f_Key = ''b'', f_Value = ''2''\<rparr>]
     [''x.go:3 f''] (Some (StatusErr demo_legacy_status)))"
proof -
  define fs where "fs = [\<lparr>f_Key = ''b'', f_Value = ''2''\<rparr>, \<lparr>f_Key = ''a'', f_Value = ''1''\<rparr>]"
  have wf: "wf_fields fs" by (simp add: fs_def wf_fields_def keys_def)
  have ms: "mset [(''field.b'', ''2''), (''public_message'', ''gone''), (''message'', ''row 7''), (''field.a'', ''1'')] =
      mset (legacy_metadata ''row 7'' ''gone'' fs)"
    by (simp add: legacy_metadata_def fs_def metadataMessage_def metadataPublicMessage_def
        metadataFieldPrefix_def)
  have srt: "sort_key f_Key fs = [\<lparr>f_Key = ''a'', f_Value = ''1''\<rparr>, \<lparr>f_Key = ''b'', f_Value = ''2''\<rparr>]"
    by (simp add: fs_def less_eq_char_def less_char_def)
  show ?thesis
    using legacy_status_decoded [OF wf ms _ _ _ demo_grpc_documented, of "[''x.go:3 f'']" NotFound "''t''" "[]"]
    unfolding srt demo_legacy_status_def by simp
qed

end
