(* ===== verification/AuthInterceptor.thy ===== *)
theory AuthInterceptor
  imports ErrxFacts
begin

text \<open>
  API-key authentication of gRPC calls (\<open>sdk/transport/grpc/auth/auth.go\<close>).

  The incoming metadata of a call is \<open>None\<close> when the context has none, else the function
  \<open>md.Get\<close>.  A handler reads the request and a state that it may change, so that a call that
  does not reach it leaves the state alone.
\<close>

record Config =
  cfg_Enabled :: bool
  cfg_APIKeys :: "string \<rightharpoonup> string"

type_synonym incoming = "(string \<Rightarrow> string list) option"
type_synonym ('req, 's, 'resp) handler = "'req \<Rightarrow> 's \<Rightarrow> 's \<times> (go_err + 'resp)"

definition authorize :: "grpc_env \<Rightarrow> callers \<Rightarrow> incoming \<Rightarrow> Config \<Rightarrow> Error option" where
  "authorize g callers md cfg =
     (case md of
        None \<Rightarrow> Some (New g callers Unauthenticated ''missing authentication metadata''
                  [Some (Public ''authentication required'')])
      | Some Get \<Rightarrow>
          (let values = Get ''authorization''
           in if length values = 0
              then Some (New g callers Unauthenticated ''missing authorization header''
                     [Some (Public ''authentication required'')])
              else (let token = trim_prefix (hd values) ''Bearer '';
                        token = (if token = hd values then trim_prefix (hd values) ''ApiKey '' else token)
                    in if cfg_APIKeys cfg token = None
                       then Some (New g callers PermissionDenied ''invalid api key''
                              [Some (Public ''access denied'')])
                       else None)))"

definition auth_UnaryServerInterceptor ::
  "grpc_env \<Rightarrow> callers \<Rightarrow> Config \<Rightarrow> string \<Rightarrow> incoming \<Rightarrow> ('req, 's, 'resp) handler
     \<Rightarrow> ('req, 's, 'resp) handler" where
  "auth_UnaryServerInterceptor g callers cfg FullMethod md handler req s =
     (if \<not> cfg_Enabled cfg \<or> has_prefix FullMethod ''/grpc.health'' then handler req s
      else (case authorize g callers md cfg of Some err \<Rightarrow> (s, Inl (AppErr err))
            | None \<Rightarrow> handler req s))"

section \<open>Properties\<close>

text \<open>The credential of a call: the first authorization value without its scheme.\<close>

definition credential :: "incoming \<Rightarrow> string option" where
  "credential md =
     (case md of Some Get \<Rightarrow>
        (case Get ''authorization'' of v # vs \<Rightarrow>
           Some (if has_prefix v ''Bearer '' then trim_prefix v ''Bearer '' else trim_prefix v ''ApiKey '')
         | [] \<Rightarrow> None)
      | None \<Rightarrow> None)"

lemma trim_Bearer_same: "trim_prefix v ''Bearer '' = v \<longleftrightarrow> \<not> has_prefix v ''Bearer ''"
  by (auto simp add: has_prefix_iff trim_prefix_def)

lemma authorize_credential:
  "authorize g callers md cfg = None \<longleftrightarrow> (\<exists>k. credential md = Some k \<and> cfg_APIKeys cfg k \<noteq> None)"
  by (auto simp add: authorize_def credential_def Let_def trim_Bearer_same split: option.splits list.splits)

lemma New_sel:
  "e_code (New g callers code m [Some (Public p)]) = normalizeCode code"
  "e_publicMessage (New g callers code m [Some (Public p)]) =
     (if p = [] then defaultPublicMessage (normalizeCode code) else p)"
  by (simp_all add: New_def applyOptions_def Public_def Let_def)

lemma authorize_error:
  assumes "authorize g callers md cfg = Some a"
  shows "(e_code a, e_publicMessage a) =
    (if credential md = None then (Unauthenticated, ''authentication required'')
     else (PermissionDenied, ''access denied''))"
  using assms
  by (auto simp add: authorize_def credential_def Let_def New_sel split: option.splits list.splits if_splits)

text \<open>C3: with authentication on, a call outside the health service reaches its handler exactly
  when its credential is one of the API keys.  Otherwise the handler does not run, and what the
  client is told is one of two fixed answers: \<open>Unauthenticated\<close> when there is no credential,
  \<open>PermissionDenied\<close> when it is not a key.  The internal reason is not part of it.\<close>

theorem auth_guards_handler:
  assumes "cfg_Enabled cfg" and "\<not> has_prefix FullMethod ''/grpc.health''"
  shows "(case credential md of
      Some k \<Rightarrow>
        if cfg_APIKeys cfg k \<noteq> None
        then auth_UnaryServerInterceptor g callers cfg FullMethod md handler req s = handler req s
        else (\<exists>e. auth_UnaryServerInterceptor g callers cfg FullMethod md handler req s = (s, Inl e) \<and>
                public_view g e = (PermissionDenied, ''access denied''))
    | None \<Rightarrow> (\<exists>e. auth_UnaryServerInterceptor g callers cfg FullMethod md handler req s = (s, Inl e) \<and>
                public_view g e = (Unauthenticated, ''authentication required'')))"
proof (cases "authorize g callers md cfg")
  case None
  then show ?thesis using assms authorize_credential [of g callers md cfg]
    by (auto simp add: auth_UnaryServerInterceptor_def split: option.splits)
next
  case (Some a)
  have "auth_UnaryServerInterceptor g callers cfg FullMethod md handler req s = (s, Inl (AppErr a))"
    using assms Some by (simp add: auth_UnaryServerInterceptor_def)
  moreover have "public_view g (AppErr a) = (e_code a, e_publicMessage a)"
    using authorize_error [OF Some] by (auto simp add: public_view_def split: if_splits)
  ultimately show ?thesis
    using authorize_error [OF Some] authorize_credential [of g callers md cfg] Some
    by (auto split: option.splits)
qed

definition demo_auth :: Config where
  "demo_auth = \<lparr>cfg_Enabled = True, cfg_APIKeys = [''dev-token'' \<mapsto> ''dev'']\<rparr>"

theorem auth_guards_handler_witness:
  "auth_UnaryServerInterceptor demo_grpc (\<lambda>_. []) demo_auth ''/users.v1.Users/Get''
     (Some (\<lambda>k. [''Bearer dev-token''])) (\<lambda>req s. (s + 1, Inr req)) () (0::nat) = (1, Inr ()) \<and>
   fst (auth_UnaryServerInterceptor demo_grpc (\<lambda>_. []) demo_auth ''/users.v1.Users/Get''
     (Some (\<lambda>k. [''Bearer dev''])) (\<lambda>req s. (s + 1, Inr req)) () (0::nat)) = 0"
proof -
  have en: "cfg_Enabled demo_auth" and nh: "\<not> has_prefix ''/users.v1.Users/Get'' ''/grpc.health''"
    by (simp_all add: demo_auth_def has_prefix_def)
  have c: "credential (Some (\<lambda>k. [''Bearer dev-token''])) = Some ''dev-token''"
    "credential (Some (\<lambda>k. [''Bearer dev''])) = Some ''dev''"
    by (simp_all add: credential_def has_prefix_def trim_prefix_def)
  show ?thesis
    using auth_guards_handler [OF en nh, where g = demo_grpc and callers = "\<lambda>_. []" and
          md = "Some (\<lambda>k. [''Bearer dev-token''])" and handler = "\<lambda>req s. (s + 1, Inr req)" and
          req = "()" and s = "0::nat"]
      auth_guards_handler [OF en nh, where g = demo_grpc and callers = "\<lambda>_. []" and
          md = "Some (\<lambda>k. [''Bearer dev''])" and handler = "\<lambda>req s. (s + 1, Inr req)" and
          req = "()" and s = "0::nat"]
    by (auto simp add: c) (auto simp add: demo_auth_def)
qed

end
