(* ===== verification/Policy.thy ===== *)
theory Policy
  imports Complex_Main Errx
begin

text \<open>
  Package \<open>sdk/policy\<close> (\<open>policy.go\<close>): the token-bucket rate limiter, the circuit breaker, the
  executor that puts rate limit, breaker, concurrency limit, timeout and retries around an
  operation, and the gRPC and HTTP adapters of it.

  A \<open>time.Time\<close> and a \<open>time.Duration\<close> are numbers of nanoseconds; the zero \<open>time.Time\<close> is
  \<open>None\<close>.  A float64 is a rational; each floating-point operation is the exact one followed by
  the rounding \<open>fl\<close>, which is a parameter.  An operation reads and changes a state \<open>'s\<close>; it
  is given the timeout of its context, if the policy sets one.
\<close>

type_synonym Time = int
type_synonym Duration = int

section \<open>Options\<close>

record Retry =
  rt_Attempts :: int
  rt_Backoff :: Duration

record RateLimit =
  rl_Requests :: int
  rl_Per :: Duration
  rl_Burst :: int

record CircuitBreaker =
  cb_Failures :: int
  cb_OpenFor :: Duration

record Options =
  po_Timeout :: Duration
  po_Retry :: Retry
  po_RateLimit :: RateLimit
  po_CircuitBreaker :: CircuitBreaker
  po_ConcurrencyLimit :: int

text \<open>The zero value of the options.\<close>

definition zero_Options :: Options where
  "zero_Options = \<lparr>po_Timeout = 0, po_Retry = \<lparr>rt_Attempts = 0, rt_Backoff = 0\<rparr>,
     po_RateLimit = \<lparr>rl_Requests = 0, rl_Per = 0, rl_Burst = 0\<rparr>,
     po_CircuitBreaker = \<lparr>cb_Failures = 0, cb_OpenFor = 0\<rparr>, po_ConcurrencyLimit = 0\<rparr>"

definition Enabled :: "Options \<Rightarrow> bool" where
  "Enabled opts \<longleftrightarrow>
     po_Timeout opts > 0 \<or> rt_Attempts (po_Retry opts) > 1 \<or> rl_Requests (po_RateLimit opts) > 0 \<or>
     cb_Failures (po_CircuitBreaker opts) > 0 \<or> po_ConcurrencyLimit opts > 0"

definition normalize :: "Options \<Rightarrow> Options" where
  "normalize opts =
     (let opts = (if rt_Attempts (po_Retry opts) \<le> 0
                  then opts\<lparr>po_Retry := (po_Retry opts)\<lparr>rt_Attempts := 1\<rparr>\<rparr> else opts)
      in if rl_Requests (po_RateLimit opts) > 0 \<and> rl_Burst (po_RateLimit opts) \<le> 0
         then opts\<lparr>po_RateLimit := (po_RateLimit opts)\<lparr>rl_Burst := rl_Requests (po_RateLimit opts)\<rparr>\<rparr>
         else opts)"

section \<open>Rate limiter\<close>

type_synonym rounding = "rat \<Rightarrow> rat"

text \<open>\<open>Duration.Seconds\<close>: the whole seconds plus the rest divided by 1e9.\<close>

definition Seconds :: "rounding \<Rightarrow> Duration \<Rightarrow> rat" where
  "Seconds fl d =
     (let sec = (if d < 0 then - ((- d) div 1000000000) else d div 1000000000);
          nsec = d - sec * 1000000000
      in fl (fl (of_int sec) + fl (fl (of_int nsec) / 1000000000)))"

record rateLimiter =
  lim_rate :: rat
  lim_burst :: rat
  lim_tokens :: rat
  lim_last :: Time

definition newRateLimiter :: "rounding \<Rightarrow> RateLimit \<Rightarrow> Time \<Rightarrow> rateLimiter" where
  "newRateLimiter fl opts now =
     \<lparr>lim_rate = fl (fl (of_int (rl_Requests opts)) / Seconds fl (rl_Per opts)),
      lim_burst = fl (of_int (rl_Burst opts)), lim_tokens = fl (of_int (rl_Burst opts)), lim_last = now\<rparr>"

definition minFloat :: "rat \<Rightarrow> rat \<Rightarrow> rat" where
  "minFloat a b = (if a < b then a else b)"

definition Allow :: "rounding \<Rightarrow> rateLimiter \<Rightarrow> Time \<Rightarrow> rateLimiter \<times> bool" where
  "Allow fl l now =
     (let elapsed = Seconds fl (now - lim_last l);
          l = l\<lparr>lim_last := now\<rparr>;
          l = l\<lparr>lim_tokens := minFloat (lim_burst l) (fl (lim_tokens l + fl (elapsed * lim_rate l)))\<rparr>
      in if lim_tokens l < 1 then (l, False)
         else (l\<lparr>lim_tokens := fl (lim_tokens l - 1)\<rparr>, True))"

section \<open>Circuit breaker\<close>

record circuitState =
  cs_failures :: int
  cs_openFor :: Duration
  cs_consecutive :: int
  cs_openUntil :: "Time option"

definition newCircuitState :: "CircuitBreaker \<Rightarrow> circuitState" where
  "newCircuitState opts =
     \<lparr>cs_failures = cb_Failures opts, cs_openFor = cb_OpenFor opts, cs_consecutive = 0,
      cs_openUntil = None\<rparr>"

definition Open :: "circuitState \<Rightarrow> Time \<Rightarrow> bool" where
  "Open c now = (case cs_openUntil c of None \<Rightarrow> False | Some t \<Rightarrow> now < t)"

definition Success :: "circuitState \<Rightarrow> circuitState" where
  "Success c = c\<lparr>cs_consecutive := 0, cs_openUntil := None\<rparr>"

definition Failure :: "circuitState \<Rightarrow> Time \<Rightarrow> circuitState" where
  "Failure c now =
     (let c = c\<lparr>cs_consecutive := cs_consecutive c + 1\<rparr>
      in if cs_consecutive c \<ge> cs_failures c
         then c\<lparr>cs_openUntil := Some (now + cs_openFor c), cs_consecutive := 0\<rparr> else c)"

section \<open>Executor\<close>

definition ErrRateLimited :: go_err where "ErrRateLimited = SentinelErr ''policy: rate limited''"
definition ErrCircuitOpen :: go_err where "ErrCircuitOpen = SentinelErr ''policy: circuit open''"
definition ErrConcurrencyLimited :: go_err where
  "ErrConcurrencyLimited = SentinelErr ''policy: concurrency limit reached''"

text \<open>\<open>errors.Is\<close> with a package variable.\<close>

definition Is_sentinel :: "go_err \<Rightarrow> go_err \<Rightarrow> bool" where
  "Is_sentinel err target = err_Is (\<lambda>x. case (x, target) of
     (SentinelErr a, SentinelErr b) \<Rightarrow> a = b | _ \<Rightarrow> False) err"

text \<open>\<open>errors.As\<close> with a \<open>responseError\<close>.\<close>

fun AsResponse :: "go_err \<Rightarrow> bufferedResponse option" where
  "AsResponse (ResponseErr r) = Some r"
| "AsResponse (AppErr (MkError code message public flds stack cause)) =
     (case cause of None \<Rightarrow> None | Some c \<Rightarrow> AsResponse c)"
| "AsResponse (WrapErr s e) = AsResponse e"
| "AsResponse (JoinErr es) = first_some (map AsResponse es)"
| "AsResponse _ = None"

text \<open>The executor; \<open>ex_sem\<close> is the number of slots taken of the semaphore channel.\<close>

record Executor =
  ex_opts :: Options
  ex_limiter :: "rateLimiter option"
  ex_breaker :: "circuitState option"
  ex_sem :: "nat option"

definition NewExecutor :: "rounding \<Rightarrow> Options \<Rightarrow> Time \<Rightarrow> Executor" where
  "NewExecutor fl opts0 now =
     (let opts = normalize opts0
      in \<lparr>ex_opts = opts,
          ex_limiter = (if rl_Requests (po_RateLimit opts) > 0 \<and> rl_Per (po_RateLimit opts) > 0
                        then Some (newRateLimiter fl (po_RateLimit opts) now) else None),
          ex_breaker = (if cb_Failures (po_CircuitBreaker opts) > 0 \<and> cb_OpenFor (po_CircuitBreaker opts) > 0
                        then Some (newCircuitState (po_CircuitBreaker opts)) else None),
          ex_sem = (if po_ConcurrencyLimit opts > 0 then Some 0 else None)\<rparr>)"

text \<open>Of the gRPC codes, \<open>Aborted\<close> is 10 and \<open>Unknown\<close> is 2.\<close>

definition shouldRetry :: "grpc_env \<Rightarrow> go_err option \<Rightarrow> bool" where
  "shouldRetry g err =
     (case err of None \<Rightarrow> False
      | Some e \<Rightarrow>
          if Is_sentinel e ErrRateLimited \<or> Is_sentinel e ErrCircuitOpen \<or>
             Is_sentinel e ErrConcurrencyLimited \<or> IsCanceled e then False
          else if IsDeadline e then True
          else (case AsResponse e of
                  Some r \<Rightarrow> Response_Status r \<ge> 500
                | None \<Rightarrow>
                    let code = status_CodeOf g e
                    in code = Unavailable \<or> code = DeadlineExceeded \<or> code = ResourceExhausted \<or>
                       code = 10 \<or> code = Internal \<or> code = 2))"

text \<open>\<open>sleepContext\<close>: \<open>outcome\<close> is what the \<open>select\<close> takes, an error of the context that is done
  or \<open>None\<close> for the timer.\<close>

definition sleepContext :: "go_err option \<Rightarrow> Duration \<Rightarrow> go_err option" where
  "sleepContext outcome d = (if d \<le> 0 then None else outcome)"

text \<open>What happens around a run of \<open>Do\<close>: the readings of the clock and the outcomes of the waits.\<close>

record Do_env =
  now_limit :: Time
  now_open :: Time
  now_failure :: Time
  wait_outcome :: "nat \<Rightarrow> go_err option"

type_synonym 's operation = "Duration option \<Rightarrow> 's \<Rightarrow> 's \<times> go_err option"

text \<open>Admission: the three checks in their order.\<close>

definition admit :: "rounding \<Rightarrow> Do_env \<Rightarrow> Executor \<Rightarrow> Executor \<times> go_err option" where
  "admit fl env e =
     (let (e, allowed) = (case ex_limiter e of None \<Rightarrow> (e, True)
                          | Some l \<Rightarrow> (case Allow fl l (now_limit env) of
                                        (l', ok) \<Rightarrow> (e\<lparr>ex_limiter := Some l'\<rparr>, ok)))
      in if \<not> allowed then (e, Some ErrRateLimited)
         else if (case ex_breaker e of None \<Rightarrow> False | Some c \<Rightarrow> Open c (now_open env))
         then (e, Some ErrCircuitOpen)
         else (case ex_sem e of None \<Rightarrow> (e, None)
               | Some n \<Rightarrow>
                   if int n < po_ConcurrencyLimit (ex_opts e) then (e\<lparr>ex_sem := Some (n + 1)\<rparr>, None)
                   else (e, Some ErrConcurrencyLimited)))"

text \<open>The loop over the attempts; \<open>attempt\<close> counts from 0 and \<open>k\<close> is the number of attempts left.
  The result is the state and the final error, \<open>None\<close> when an attempt succeeded.\<close>

fun attempt_loop ::
  "grpc_env \<Rightarrow> Options \<Rightarrow> Do_env \<Rightarrow> 's operation \<Rightarrow> nat \<Rightarrow> nat \<Rightarrow> go_err option \<Rightarrow> 's
     \<Rightarrow> 's \<times> go_err option" where
  "attempt_loop g opts env fn attempt 0 finalErr s = (s, finalErr)"
| "attempt_loop g opts env fn attempt (Suc k) finalErr s =
     (case fn (if po_Timeout opts > 0 then Some (po_Timeout opts) else None) s of
        (s', None) \<Rightarrow> (s', None)
      | (s', Some err) \<Rightarrow>
          if k = 0 \<or> \<not> shouldRetry g (Some err) then (s', Some err)
          else (case sleepContext (wait_outcome env attempt) (rt_Backoff (po_Retry opts)) of
                  Some werr \<Rightarrow> (s', Some werr)
                | None \<Rightarrow> attempt_loop g opts env fn (attempt + 1) k (Some err) s'))"

text \<open>The end of \<open>Do\<close>: the breaker is told, the deferred release of the slot runs.\<close>

definition finish :: "Do_env \<Rightarrow> go_err option \<Rightarrow> Executor \<Rightarrow> Executor" where
  "finish env res e =
     (let e = (case ex_breaker e of None \<Rightarrow> e
               | Some c \<Rightarrow> (case res of None \<Rightarrow> e\<lparr>ex_breaker := Some (Success c)\<rparr>
                            | Some err \<Rightarrow> e\<lparr>ex_breaker := Some (Failure c (now_failure env))\<rparr>))
      in case ex_sem e of None \<Rightarrow> e | Some n \<Rightarrow> e\<lparr>ex_sem := Some (n - 1)\<rparr>)"

definition Do ::
  "rounding \<Rightarrow> grpc_env \<Rightarrow> Do_env \<Rightarrow> Executor option \<Rightarrow> 's operation \<Rightarrow> 's
     \<Rightarrow> Executor option \<times> 's \<times> go_err option" where
  "Do fl g env exec fn s =
     (case exec of
        None \<Rightarrow> (case fn None s of (s', r) \<Rightarrow> (None, s', r))
      | Some e \<Rightarrow>
          (case admit fl env e of
             (e, Some err) \<Rightarrow> (Some e, s, Some err)
           | (e, None) \<Rightarrow>
               (case attempt_loop g (ex_opts e) env fn 0 (nat (rt_Attempts (po_Retry (ex_opts e)))) None s of
                  (s', res) \<Rightarrow> (Some (finish env res e), s', res))))"

section \<open>The gRPC adapter\<close>

definition grpcError :: "grpc_env \<Rightarrow> go_err \<Rightarrow> go_err" where
  "grpcError g err =
     (let status = (\<lambda>c. StatusErr \<lparr>st_Code = c, st_Message = Error_text g err, st_Details = []\<rparr>)
      in if Is_sentinel err ErrRateLimited then status ResourceExhausted
         else if Is_sentinel err ErrCircuitOpen \<or> Is_sentinel err ErrConcurrencyLimited
         then status Unavailable
         else if IsDeadline err then status DeadlineExceeded
         else err)"

definition serverOptions :: "Options \<Rightarrow> Options" where
  "serverOptions opts = opts\<lparr>po_Retry := (po_Retry opts)\<lparr>rt_Attempts := 1\<rparr>\<rparr>"

text \<open>The handler returns a response and an error; the response of the closure is kept beside the
  state.\<close>

type_synonym ('s, 'r) unary = "Duration option \<Rightarrow> 's \<Rightarrow> 's \<times> 'r \<times> go_err option"

definition GRPCUnaryServerInterceptor ::
  "rounding \<Rightarrow> grpc_env \<Rightarrow> Do_env \<Rightarrow> Executor \<Rightarrow> ('s, 'r) unary \<Rightarrow> 's
     \<Rightarrow> Executor \<times> 's \<times> 'r option \<times> go_err option" where
  "GRPCUnaryServerInterceptor fl g env exec handler s =
     (case Do fl g env (Some exec)
             (\<lambda>timeout (s, resp). case handler timeout s of
                (s', out, None) \<Rightarrow> ((s', Some out), None)
              | (s', out, Some err) \<Rightarrow> ((s', resp), Some err)) (s, None) of
        (e', (s', resp), None) \<Rightarrow> (the e', s', resp, None)
      | (e', (s', resp), Some err) \<Rightarrow> (the e', s', None, Some (grpcError g err)))"

section \<open>The HTTP adapter\<close>

text \<open>What a handler does to its \<open>ResponseWriter\<close>.\<close>

datatype writer_op =
    HeaderAdd string string | WriteHeader int | Write string | HTTPError string int

definition newBufferedResponse :: bufferedResponse where
  "newBufferedResponse = \<lparr>br_header = [], br_body = [], br_status = 0\<rparr>"

fun header_add :: "(string \<times> string list) list \<Rightarrow> string \<Rightarrow> string \<Rightarrow> (string \<times> string list) list" where
  "header_add [] k v = [(k, [v])]"
| "header_add ((k', vs) # h) k v = (if k' = k then (k', vs @ [v]) # h else (k', vs) # header_add h k v)"

definition Response_Write :: "bufferedResponse \<Rightarrow> string \<Rightarrow> bufferedResponse" where
  "Response_Write r data =
     (let r = (if br_status r = 0 then r\<lparr>br_status := 200\<rparr> else r)
      in r\<lparr>br_body := br_body r @ data\<rparr>)"

definition Response_WriteHeader :: "bufferedResponse \<Rightarrow> int \<Rightarrow> bufferedResponse" where
  "Response_WriteHeader r statusCode = (if br_status r \<noteq> 0 then r else r\<lparr>br_status := statusCode\<rparr>)"

text \<open>\<open>http.Error\<close> sets headers that the model leaves out, and writes the status and a text.\<close>

definition buffer_op :: "bufferedResponse \<Rightarrow> writer_op \<Rightarrow> bufferedResponse" where
  "buffer_op r op =
     (case op of HeaderAdd k v \<Rightarrow> r\<lparr>br_header := header_add (br_header r) k v\<rparr>
      | WriteHeader code \<Rightarrow> Response_WriteHeader r code
      | Write data \<Rightarrow> Response_Write r data
      | HTTPError text code \<Rightarrow> Response_Write (Response_WriteHeader r code) (text @ [CHR 0x0A]))"

text \<open>\<open>Commit\<close>: what the buffered response does to the real writer.\<close>

definition Commit :: "bufferedResponse \<Rightarrow> writer_op list" where
  "Commit r =
     concat (map (\<lambda>(key, values). map (HeaderAdd key) values) (br_header r)) @
     [WriteHeader (Response_Status r), Write (br_body r)]"

text \<open>A handler changes the state, performs operations on the writer that it is given, and may end
  in a panic, whose value is printed by the model's text.\<close>

type_synonym 's http_handler = "Duration option \<Rightarrow> 's \<Rightarrow> 's \<times> writer_op list \<times> string option"

text \<open>The operation that \<open>HTTPMiddleware\<close> gives to the executor; \<open>capture\<close> is kept beside the
  state.\<close>

definition http_operation :: "'s http_handler \<Rightarrow> ('s \<times> bufferedResponse option) operation" where
  "http_operation next timeout st =
     (case next timeout (fst st) of
        (s', ops, panic) \<Rightarrow>
          (let current = foldl buffer_op newBufferedResponse ops;
               current = (case panic of None \<Rightarrow> current
                          | Some v \<Rightarrow> if br_status current = 0 then current\<lparr>br_status := 500\<rparr> else current);
               err = (case panic of Some v \<Rightarrow> Some (PlainErr (''http handler panic: '' @ v))
                      | None \<Rightarrow> if Response_Status current \<ge> 500 then Some (ResponseErr current) else None)
           in ((s', Some current), err)))"

definition StatusText :: "int \<Rightarrow> string" where
  "StatusText code =
     (if code = 429 then ''Too Many Requests'' else if code = 503 then ''Service Unavailable''
      else if code = 504 then ''Gateway Timeout'' else if code = 500 then ''Internal Server Error''
      else [])"

definition http_reply :: "bufferedResponse option \<Rightarrow> go_err option \<Rightarrow> writer_op list" where
  "http_reply capture err =
     (case err of None \<Rightarrow> (case capture of Some r \<Rightarrow> Commit r | None \<Rightarrow> [])
      | Some e \<Rightarrow>
          (case AsResponse e of Some r \<Rightarrow> Commit r
           | None \<Rightarrow>
               if Is_sentinel e ErrRateLimited then [HTTPError (StatusText 429) 429]
               else if Is_sentinel e ErrCircuitOpen \<or> Is_sentinel e ErrConcurrencyLimited
               then [HTTPError (StatusText 503) 503]
               else if IsDeadline e then [HTTPError (StatusText 504) 504]
               else (case capture of
                       Some r \<Rightarrow> if Response_Status r \<ge> 500 then Commit r
                                 else [HTTPError (StatusText 500) 500]
                     | None \<Rightarrow> [HTTPError (StatusText 500) 500])))"

text \<open>\<open>HTTPMiddleware\<close> on one request; \<open>exec\<close> is the executor made by \<open>NewExecutor\<close> from
  \<open>serverOptions opts\<close>.  A handler that is not wrapped writes to the real writer.\<close>

definition HTTPMiddleware ::
  "rounding \<Rightarrow> grpc_env \<Rightarrow> Do_env \<Rightarrow> Options \<Rightarrow> Executor \<Rightarrow> 's http_handler option \<Rightarrow> 's
     \<Rightarrow> Executor \<times> 's \<times> writer_op list \<times> string option" where
  "HTTPMiddleware fl g env opts exec next s =
     (case next of None \<Rightarrow> (exec, s, [], None)
      | Some h \<Rightarrow>
          if \<not> Enabled opts then (exec, h None s)
          else (case Do fl g env (Some exec) (http_operation h) (s, None) of
                  (e', (s', capture), err) \<Rightarrow> (the e', s', http_reply capture err, None)))"

end
