(* ===== verification/PolicyFacts.thy ===== *)
theory PolicyFacts
  imports Policy ErrxFacts
begin

text \<open>
  What \<open>sdk/policy\<close> guarantees: how many calls the limiter admits, when the breaker is open, how
  often an operation runs, that a server handler runs at most once, and that the concurrency limit
  holds under any interleaving.
\<close>

section \<open>The rate limiter\<close>

text \<open>The answers of a sequence of calls at the given times.\<close>

fun allow_all :: "rounding \<Rightarrow> rateLimiter \<Rightarrow> Time list \<Rightarrow> rateLimiter \<times> nat" where
  "allow_all fl l [] = (l, 0)"
| "allow_all fl l (t # ts) =
     (case Allow fl l t of (l', ok) \<Rightarrow>
        (case allow_all fl l' ts of (l'', n) \<Rightarrow> (l'', if ok then n + 1 else n)))"

text \<open>What is asked of the rounding: it is monotone and exact on the integers that a float64
  holds.\<close>

definition rounds :: "rounding \<Rightarrow> bool" where
  "rounds fl \<longleftrightarrow> (\<forall>x y. x \<le> y \<longrightarrow> fl x \<le> fl y) \<and> (\<forall>n::nat. n \<le> 2 ^ 53 \<longrightarrow> fl (of_nat n) = of_nat n)"

lemma rounds_le_nat:
  assumes "rounds fl" and "x \<le> of_nat n" and "n \<le> 2 ^ 53"
  shows "fl x \<le> of_nat n"
  using assms unfolding rounds_def by metis

lemma rounds_0: "rounds fl \<Longrightarrow> fl 0 = 0"
  unfolding rounds_def by (drule conjunct2, drule spec [of _ 0]) simp

lemma Seconds_0: "rounds fl \<Longrightarrow> Seconds fl 0 = 0"
  by (simp add: Seconds_def rounds_0)

text \<open>The tokens of a call before it takes one.\<close>

definition refill :: "rounding \<Rightarrow> rateLimiter \<Rightarrow> Time \<Rightarrow> rat" where
  "refill fl l t = minFloat (lim_burst l) (fl (lim_tokens l + fl (Seconds fl (t - lim_last l) * lim_rate l)))"

lemma Allow_refill:
  "Allow fl l t =
     (if refill fl l t < 1 then (l\<lparr>lim_last := t, lim_tokens := refill fl l t\<rparr>, False)
      else (l\<lparr>lim_last := t, lim_tokens := fl (refill fl l t - 1)\<rparr>, True))"
  by (simp add: Allow_def Let_def refill_def)

lemma refill_burst: "refill fl l t \<le> lim_burst l"
  by (simp add: refill_def minFloat_def)

lemma refill_same:
  assumes "rounds fl" and "lim_tokens l \<le> of_nat k" and "k \<le> 2 ^ 53"
  shows "refill fl l (lim_last l) \<le> of_nat k"
  using rounds_le_nat [OF assms]
  by (simp add: refill_def minFloat_def Seconds_0 [OF assms(1)] rounds_0 [OF assms(1)])

lemma Allow_bound:
  assumes "rounds fl" and "refill fl l t \<le> of_nat k" and "k \<le> 2 ^ 53" and "Allow fl l t = (l', ok)"
  shows "lim_tokens l' \<le> of_nat (if ok then k - 1 else k)" and "ok \<Longrightarrow> 0 < k"
    and "lim_last l' = t" and "lim_burst l' = lim_burst l" and "lim_rate l' = lim_rate l"
proof -
  define x where "x = refill fl l t"
  have A: "Allow fl l t = (if x < 1 then (l\<lparr>lim_last := t, lim_tokens := x\<rparr>, False)
      else (l\<lparr>lim_last := t, lim_tokens := fl (x - 1)\<rparr>, True))"
    by (simp add: Allow_refill x_def)
  show "lim_last l' = t" "lim_burst l' = lim_burst l" "lim_rate l' = lim_rate l"
    using A assms(4) by (auto split: if_splits)
  have k: "0 < k" if "\<not> x < 1" using assms(2) that by (cases k) (auto simp add: x_def)
  then show "ok \<Longrightarrow> 0 < k" using A assms(4) by (auto split: if_splits)
  show "lim_tokens l' \<le> of_nat (if ok then k - 1 else k)"
  proof (cases "x < 1")
    case True
    then show ?thesis using A assms(2,4) by (auto simp add: x_def)
  next
    case False
    then have "x - 1 \<le> of_nat (k - 1)" using k assms(2) by (simp add: of_nat_diff x_def)
    then have "fl (x - 1) \<le> of_nat (k - 1)" by (rule rounds_le_nat [OF assms(1)]) (use assms(3) in simp)
    then show ?thesis using A False assms(4) by auto
  qed
qed

lemma allow_all_same_instant:
  assumes "rounds fl"
  shows "lim_tokens l \<le> of_nat k \<Longrightarrow> k \<le> 2 ^ 53 \<Longrightarrow> snd (allow_all fl l (replicate n (lim_last l))) \<le> k"
proof (induction n arbitrary: l k)
  case (Suc n)
  obtain l' ok where A: "Allow fl l (lim_last l) = (l', ok)" by force
  note b = Allow_bound [OF assms refill_same [OF assms Suc.prems] Suc.prems(2) A]
  have "snd (allow_all fl l' (replicate n (lim_last l'))) \<le> (if ok then k - 1 else k)"
    using b(1) Suc.prems(2) by (intro Suc.IH) auto
  then show ?case using b(2,3) A by (auto split: prod.splits)
qed simp

lemma allow_all_instant:
  assumes "rounds fl" and "lim_burst l = of_nat b" and "b \<le> 2 ^ 53"
  shows "snd (allow_all fl l (replicate n t)) \<le> b"
proof (cases n)
  case (Suc m)
  obtain l' ok where A: "Allow fl l t = (l', ok)" by force
  have "refill fl l t \<le> of_nat b" using refill_burst [of fl l t] assms(2) by simp
  note b = Allow_bound [OF assms(1) this assms(3) A]
  have "snd (allow_all fl l' (replicate m (lim_last l'))) \<le> (if ok then b - 1 else b)"
    using b(1) assms(3) by (intro allow_all_same_instant [OF assms(1)]) auto
  then show ?thesis using Suc b(2,3) A by (auto split: prod.splits)
qed simp

lemma allow_all_keeps:
  "lim_burst (fst (allow_all fl l ts)) = lim_burst l \<and> lim_rate (fst (allow_all fl l ts)) = lim_rate l"
proof (induction ts arbitrary: l)
  case (Cons t ts)
  obtain l' ok where A: "Allow fl l t = (l', ok)" by force
  then have "lim_burst l' = lim_burst l" "lim_rate l' = lim_rate l" by (auto simp add: Allow_refill split: if_splits)
  then show ?case using Cons.IH [of l'] A by (auto split: prod.splits)
qed simp

text \<open>However the processor rounds, the limiter admits at most \<open>burst\<close> calls at one instant,
  after whatever sequence of calls it has seen.\<close>

theorem limiter_burst:
  assumes "rounds fl" and "rl_Burst opts = int b" and "b \<le> 2 ^ 53"
  shows "snd (allow_all fl (fst (allow_all fl (newRateLimiter fl opts t0) ts)) (replicate n t)) \<le> b"
proof -
  have "fl (of_int (rl_Burst opts)) = of_nat b" using assms by (simp add: rounds_def)
  then have "lim_burst (fst (allow_all fl (newRateLimiter fl opts t0) ts)) = of_nat b"
    by (simp add: allow_all_keeps newRateLimiter_def)
  then show ?thesis by (rule allow_all_instant [OF assms(1) _ assms(3)])
qed

text \<open>Exact arithmetic.\<close>

definition exact :: rounding where
  "exact x = x"

lemma Seconds_exact: "Seconds exact d = of_int d / 1000000000"
  by (simp add: Seconds_def exact_def field_simps)

fun nondecreasing :: "Time \<Rightarrow> Time list \<Rightarrow> bool" where
  "nondecreasing t [] = True"
| "nondecreasing t (u # us) = (t \<le> u \<and> nondecreasing u us)"

lemma Allow_exact:
  assumes "Allow exact l t = (l', ok)" and "0 \<le> lim_rate l" and "lim_last l \<le> t"
    and "0 \<le> lim_tokens l" and "0 \<le> lim_burst l"
  shows "(if ok then 1 else 0) + lim_tokens l' \<le>
      lim_tokens l + lim_rate l * of_int (t - lim_last l) / 1000000000"
    and "0 \<le> lim_tokens l'" and "lim_last l' = t" and "lim_rate l' = lim_rate l"
    and "lim_burst l' = lim_burst l"
proof -
  define r where "r = lim_tokens l + lim_rate l * of_int (t - lim_last l) / 1000000000"
  have x: "refill exact l t = minFloat (lim_burst l) r"
    by (simp add: refill_def Seconds_exact exact_def r_def mult.commute)
  have "0 \<le> lim_rate l * of_int (t - lim_last l) / 1000000000" using assms(2,3) by simp
  then have "0 \<le> r" using assms(4) by (simp add: r_def)
  then have x0: "0 \<le> refill exact l t" "refill exact l t \<le> r" using assms(5) by (simp_all add: x minFloat_def)
  show "(if ok then 1 else 0) + lim_tokens l' \<le> lim_tokens l + lim_rate l * of_int (t - lim_last l) / 1000000000"
    unfolding r_def [symmetric] using assms(1) x0(2) by (auto simp add: Allow_refill exact_def r_def [symmetric] split: if_splits)
  show "0 \<le> lim_tokens l'" using assms(1) x0(1) by (auto simp add: Allow_refill exact_def split: if_splits)
  show "lim_last l' = t" "lim_rate l' = lim_rate l" "lim_burst l' = lim_burst l"
    using assms(1) by (auto simp add: Allow_refill split: if_splits)
qed

lemma allow_all_rate:
  "0 \<le> lim_rate l \<Longrightarrow> nondecreasing (lim_last l) ts \<Longrightarrow> 0 \<le> lim_tokens l \<Longrightarrow> 0 \<le> lim_burst l \<Longrightarrow>
     of_nat (snd (allow_all exact l ts)) \<le> lim_tokens l +
       lim_rate l * of_int (last (lim_last l # ts) - lim_last l) / 1000000000 \<and>
     0 \<le> lim_tokens (fst (allow_all exact l ts)) \<and> lim_last (fst (allow_all exact l ts)) = last (lim_last l # ts)"
proof (induction ts arbitrary: l)
  case (Cons t ts)
  obtain l' ok where A: "Allow exact l t = (l', ok)" by force
  have t: "lim_last l \<le> t" "nondecreasing t ts" using Cons.prems(2) by simp_all
  note e = Allow_exact [OF A Cons.prems(1) t(1) Cons.prems(3,4)]
  obtain l'' n where B: "allow_all exact l' ts = (l'', n)" by force
  have "of_nat n \<le> lim_tokens l' + lim_rate l * of_int (last (t # ts) - t) / 1000000000 \<and>
      0 \<le> lim_tokens l'' \<and> lim_last l'' = last (t # ts)"
    using Cons.IH [of l'] Cons.prems(1,4) t(2) e B by simp
  moreover have "lim_rate l * of_int (last (t # ts) - t) / 1000000000 +
      lim_rate l * of_int (t - lim_last l) / 1000000000 =
      lim_rate l * of_int (last (t # ts) - lim_last l) / 1000000000"
    by (simp add: field_simps)
  ultimately show ?case using e(1) A B by (auto split: if_splits)
qed simp

lemma allow_all_tokens_le:
  "lim_tokens l \<le> lim_burst l \<Longrightarrow> lim_tokens (fst (allow_all exact l ts)) \<le> lim_burst l"
proof (induction ts arbitrary: l)
  case (Cons t ts)
  obtain l' ok where A: "Allow exact l t = (l', ok)" by force
  then have "lim_tokens l' \<le> lim_burst l'" "lim_burst l' = lim_burst l"
    using refill_burst [of exact l t] by (auto simp add: Allow_refill exact_def split: if_splits)
  then show ?case using Cons.IH [of l'] A by (auto split: prod.splits)
qed simp

lemma nondecreasing_append:
  "nondecreasing t (us @ vs) \<longleftrightarrow> nondecreasing t us \<and> nondecreasing (last (t # us)) vs"
  by (induction us arbitrary: t) auto

text \<open>C39: in exact arithmetic the limiter keeps its rate over every window of time.  After any
  calls \<open>us\<close>, the calls \<open>vs\<close> that follow get at most \<open>burst\<close> admissions plus the share of
  \<open>requests\<close> per period that the elapsed time is worth.\<close>

theorem limiter_rate:
  assumes "0 \<le> rl_Requests opts" and "0 < rl_Per opts" and "0 \<le> rl_Burst opts"
    and "nondecreasing t0 (us @ vs)"
  shows "of_nat (snd (allow_all exact (fst (allow_all exact (newRateLimiter exact opts t0) us)) vs)) \<le>
    (of_int (rl_Burst opts) + of_int (rl_Requests opts) *
       of_int (last (t0 # us @ vs) - last (t0 # us)) / of_int (rl_Per opts) :: rat)"
proof -
  define l0 where "l0 = newRateLimiter exact opts t0"
  define l where "l = fst (allow_all exact l0 us)"
  have l0: "0 \<le> lim_rate l0" "lim_last l0 = t0" "0 \<le> lim_tokens l0" "0 \<le> lim_burst l0"
    "lim_tokens l0 \<le> lim_burst l0" "lim_burst l0 = of_int (rl_Burst opts)"
    "lim_rate l0 = of_int (rl_Requests opts) * 1000000000 / of_int (rl_Per opts)"
    using assms(1-3) by (simp_all add: l0_def newRateLimiter_def Seconds_exact exact_def)
  have nd: "nondecreasing t0 us" "nondecreasing (last (t0 # us)) vs"
    using assms(4) by (simp_all add: nondecreasing_append)
  have l: "0 \<le> lim_tokens l" "lim_last l = last (t0 # us)" "lim_tokens l \<le> lim_burst l"
    "lim_burst l = lim_burst l0" "lim_rate l = lim_rate l0"
    using allow_all_rate [of l0 us] allow_all_tokens_le [of l0 us] allow_all_keeps [of exact l0 us] l0 nd
    by (simp_all add: l_def)
  have "of_nat (snd (allow_all exact l vs)) \<le>
      lim_tokens l + lim_rate l * of_int (last (lim_last l # vs) - lim_last l) / 1000000000"
    using allow_all_rate [of l vs] l l0 nd by simp
  moreover have "last (lim_last l # vs) = last (t0 # us @ vs)" using l(2) by (cases vs) simp_all
  ultimately show ?thesis
    using l l0(6,7) by (simp add: l_def [symmetric] l0_def [symmetric])
qed

section \<open>The circuit breaker\<close>

text \<open>The history of a breaker: successes, and failures with their times.\<close>

datatype outcome_event = Succeeded | Failed Time

fun breaker_step :: "circuitState \<Rightarrow> outcome_event \<Rightarrow> circuitState" where
  "breaker_step c Succeeded = Success c"
| "breaker_step c (Failed t) = Failure c t"

text \<open>The failures since the last success, the oldest first.\<close>

fun streak :: "Time list \<Rightarrow> outcome_event list \<Rightarrow> Time list" where
  "streak fs [] = fs"
| "streak fs (Succeeded # es) = streak [] es"
| "streak fs (Failed t # es) = streak (fs @ [t]) es"

text \<open>What the breaker should be after a streak: every \<open>n\<close>-th failure opens it.\<close>

definition breaker_of :: "int \<Rightarrow> Duration \<Rightarrow> Time list \<Rightarrow> circuitState" where
  "breaker_of n openFor fs =
     (let k = length fs - length fs mod nat n
      in \<lparr>cs_failures = n, cs_openFor = openFor, cs_consecutive = int (length fs mod nat n),
          cs_openUntil = (if k = 0 then None else Some (fs ! (k - 1) + openFor))\<rparr>)"

lemma breaker_of_Failure:
  assumes "0 < n"
  shows "Failure (breaker_of n openFor fs) t = breaker_of n openFor (fs @ [t])"
proof -
  define m where "m = nat n"
  have m: "0 < m" "n = int m" using assms by (simp_all add: m_def)
  have lt: "length fs mod m < m" using m by simp
  have le: "length fs mod m \<le> length fs" by (rule mod_less_eq_dividend)
  show ?thesis
  proof (cases "length fs mod m + 1 = m")
    case True
    then have 0: "(length fs + 1) mod m = 0" by (metis mod_add_left_eq mod_self)
    then show ?thesis using True m
      by (simp add: breaker_of_def Failure_def Let_def nth_append)
  next
    case False
    then have 1: "(length fs + 1) mod m = length fs mod m + 1"
      using lt by (metis Suc_eq_plus1 Suc_lessI mod_Suc)
    have 2: "length fs + 1 - (length fs mod m + 1) = length fs - length fs mod m" by simp
    show ?thesis using False m lt 1 2 le
      by (auto simp add: breaker_of_def Failure_def Let_def nth_append)
  qed
qed

lemma breaker_run:
  "0 < n \<Longrightarrow> foldl breaker_step (breaker_of n openFor fs) es = breaker_of n openFor (streak fs es)"
proof (induction fs es rule: streak.induct)
  case (2 fs es)
  have "Success (breaker_of n openFor fs) = breaker_of n openFor []"
    by (simp add: Success_def breaker_of_def Let_def)
  then show ?case using 2 by simp
next
  case (3 fs t es)
  then show ?case by (simp add: breaker_of_Failure)
qed simp


section \<open>The executor\<close>

text \<open>Running an operation a number of times: the results of the calls, in order.\<close>

fun iterate_op :: "'s operation \<Rightarrow> Duration option \<Rightarrow> nat \<Rightarrow> 's \<Rightarrow> 's \<times> go_err option list" where
  "iterate_op fn t 0 s = (s, [])"
| "iterate_op fn t (Suc n) s =
     (case fn t s of (s', r) \<Rightarrow> (case iterate_op fn t n s' of (s'', rs) \<Rightarrow> (s'', r # rs)))"

definition op_timeout :: "Options \<Rightarrow> Duration option" where
  "op_timeout opts = (if po_Timeout opts > 0 then Some (po_Timeout opts) else None)"

text \<open>What the calls of one run look like: every call but the last failed with an error that may
  be retried, and the outcome is the last call's, or the error of the context that ended the wait
  after a call that could have been retried.\<close>

definition attempts_ok ::
  "grpc_env \<Rightarrow> Options \<Rightarrow> nat \<Rightarrow> go_err option list \<Rightarrow> go_err option \<Rightarrow> bool" where
  "attempts_ok g opts n rs res \<longleftrightarrow>
     1 \<le> length rs \<and> length rs \<le> n \<and> (\<forall>r \<in> set (butlast rs). r \<noteq> None \<and> shouldRetry g r) \<and>
     (res = last rs \<and> (res \<noteq> None \<longrightarrow> length rs = n \<or> \<not> shouldRetry g res) \<or>
      res \<noteq> None \<and> length rs < n \<and> 0 < rt_Backoff (po_Retry opts) \<and> shouldRetry g (last rs))"

lemma attempt_loop_run:
  "attempt_loop g opts env fn attempt (Suc k) fe s = (s', res) \<Longrightarrow>
     \<exists>rs. iterate_op fn (op_timeout opts) (length rs) s = (s', rs) \<and> attempts_ok g opts (Suc k) rs res"
proof (induction k arbitrary: attempt fe s)
  case 0
  obtain s1 r where c: "fn (op_timeout opts) s = (s1, r)" by force
  then have "s' = s1 \<and> res = r" using 0 by (cases r) (auto simp add: op_timeout_def)
  then show ?case using c by (intro exI [of _ "[r]"]) (simp add: attempts_ok_def)
next
  case (Suc k)
  obtain s1 r where c: "fn (op_timeout opts) s = (s1, r)" by force
  show ?case
  proof (cases "r = None \<or> \<not> shouldRetry g r")
    case True
    then have "s' = s1 \<and> res = r" using Suc.prems c by (cases r) (auto simp add: op_timeout_def)
    then show ?thesis using c True by (intro exI [of _ "[r]"]) (auto simp add: attempts_ok_def)
  next
    case False
    then obtain err where r: "r = Some err" "shouldRetry g (Some err)" by auto
    define w where "w = sleepContext (wait_outcome env attempt) (rt_Backoff (po_Retry opts))"
    show ?thesis
    proof (cases w)
      case (Some e)
      then have "s' = s1 \<and> res = Some e" using Suc.prems c r by (simp add: op_timeout_def w_def)
      moreover have "0 < rt_Backoff (po_Retry opts)"
        using Some by (auto simp add: w_def sleepContext_def split: if_splits)
      ultimately show ?thesis using c r by (intro exI [of _ "[r]"]) (auto simp add: attempts_ok_def)
    next
      case None
      then have "attempt_loop g opts env fn (attempt + 1) (Suc k) (Some err) s1 = (s', res)"
        using Suc.prems c r by (simp add: op_timeout_def w_def)
      from Suc.IH [OF this] obtain rs where rs: "iterate_op fn (op_timeout opts) (length rs) s1 = (s', rs)"
        "attempts_ok g opts (Suc k) rs res" by blast
      then have "rs \<noteq> []" by (auto simp add: attempts_ok_def)
      then have "attempts_ok g opts (Suc (Suc k)) (r # rs) res"
        using rs(2) r by (auto simp add: attempts_ok_def)
      then show ?thesis using c rs(1) by (intro exI [of _ "r # rs"]) simp
    qed
  qed
qed

lemma normalize_attempts: "1 \<le> rt_Attempts (po_Retry (normalize opts))"
  by (simp add: normalize_def Let_def)

lemma normalize_sel [simp]:
  "po_Timeout (normalize opts) = po_Timeout opts"
  "rt_Backoff (po_Retry (normalize opts)) = rt_Backoff (po_Retry opts)"
  "rt_Attempts (po_Retry (normalize opts)) = max 1 (rt_Attempts (po_Retry opts))"
  "po_ConcurrencyLimit (normalize opts) = po_ConcurrencyLimit opts"
  "po_CircuitBreaker (normalize opts) = po_CircuitBreaker opts"
  by (simp_all add: normalize_def Let_def)

lemma attempts_ok_cong:
  "rt_Backoff (po_Retry o1) = rt_Backoff (po_Retry o2) \<Longrightarrow> attempts_ok g o1 n rs res = attempts_ok g o2 n rs res"
  by (simp add: attempts_ok_def)

lemma admit_opts: "admit fl env e = (e', r) \<Longrightarrow> ex_opts e' = ex_opts e"
  by (auto simp add: admit_def Let_def split: option.splits prod.splits if_splits)


section \<open>Concurrent calls\<close>

text \<open>Calls of \<open>Do\<close> by several goroutines: each is admitted or rejected at one moment and, once
  admitted, ends at a later one, with the operations of others in between.  The second component
  of a state is the number of operations that are running.\<close>

inductive exec_step :: "rounding \<Rightarrow> Executor \<times> nat \<Rightarrow> Executor \<times> nat \<Rightarrow> bool" for fl where
  admitted: "admit fl env e = (e', None) \<Longrightarrow> exec_step fl (e, n) (e', n + 1)"
| rejected: "admit fl env e = (e', Some err) \<Longrightarrow> exec_step fl (e, n) (e', n)"
| completed: "0 < n \<Longrightarrow> exec_step fl (e, n) (finish env res e, n - 1)"

inductive exec_reach :: "rounding \<Rightarrow> Executor \<Rightarrow> Executor \<times> nat \<Rightarrow> bool" for fl e0 where
  start: "exec_reach fl e0 (e0, 0)"
| step: "exec_reach fl e0 x \<Longrightarrow> exec_step fl x y \<Longrightarrow> exec_reach fl e0 y"

inductive_cases exec_stepE: "exec_step fl (e, n) y"

definition slots_ok :: "Options \<Rightarrow> Executor \<times> nat \<Rightarrow> bool" where
  "slots_ok opts x \<longleftrightarrow>
     ex_opts (fst x) = normalize opts \<and>
     (case ex_sem (fst x) of None \<Rightarrow> po_ConcurrencyLimit opts \<le> 0
      | Some k \<Rightarrow> k = snd x \<and> int k \<le> po_ConcurrencyLimit opts)"

lemma admit_sem:
  "admit fl env e = (e', r) \<Longrightarrow>
     ex_sem e' = (case r of None \<Rightarrow> map_option (\<lambda>n. n + 1) (ex_sem e) | Some err \<Rightarrow> ex_sem e)"
  by (auto simp add: admit_def Let_def split: option.splits prod.splits if_splits)

lemma admit_limit:
  "admit fl env e = (e', None) \<Longrightarrow> ex_sem e = Some n \<Longrightarrow> int n < po_ConcurrencyLimit (ex_opts e)"
  by (auto simp add: admit_def Let_def split: option.splits prod.splits if_splits)

lemma sentinels_distinct [simp]:
  "ErrRateLimited \<noteq> ErrConcurrencyLimited" "ErrCircuitOpen \<noteq> ErrConcurrencyLimited"
  by (simp_all add: ErrRateLimited_def ErrConcurrencyLimited_def ErrCircuitOpen_def)

lemma admit_full:
  "admit fl env e = (e', Some ErrConcurrencyLimited) \<Longrightarrow>
     \<exists>n. ex_sem e = Some n \<and> po_ConcurrencyLimit (ex_opts e) \<le> int n"
  by (auto simp add: admit_def Let_def split: option.splits prod.splits if_splits)

lemma finish_sel:
  "ex_opts (finish env res e) = ex_opts e" "ex_sem (finish env res e) = map_option (\<lambda>n. n - 1) (ex_sem e)"
  by (auto simp add: finish_def Let_def split: option.splits)

lemma slots_step: "exec_step fl x y \<Longrightarrow> slots_ok opts x \<Longrightarrow> slots_ok opts y"
proof (induction rule: exec_step.induct)
  case (admitted env e e' n)
  then show ?case using admit_sem [OF admitted(1)] admit_opts [OF admitted(1)] admit_limit [OF admitted(1)]
    by (auto simp add: slots_ok_def split: option.splits)
next
  case (rejected env e e' err n)
  then show ?case using admit_sem [OF rejected(1)] admit_opts [OF rejected(1)]
    by (auto simp add: slots_ok_def split: option.splits)
next
  case (completed n e env res)
  then show ?case by (auto simp add: slots_ok_def finish_sel split: option.splits)
qed

lemma slots_reach:
  assumes "exec_reach fl (NewExecutor fl opts now) x"
  shows "slots_ok opts x"
  using assms
proof induction
  case start
  then show ?case by (simp add: slots_ok_def NewExecutor_def Let_def)
next
  case (step x y)
  then show ?case using slots_step by blast
qed

text \<open>C19: under any interleaving of concurrent calls, at most \<open>ConcurrencyLimit\<close> operations run at
  the same time; the semaphore counts exactly the running ones, so that no slot is ever lost, and
  a call is rejected for concurrency only while the limit is reached.\<close>

theorem concurrency_limit:
  assumes "exec_reach fl (NewExecutor fl opts now) (e, n)" and "0 < po_ConcurrencyLimit opts"
  shows "ex_sem e = Some n \<and> int n \<le> po_ConcurrencyLimit opts \<and>
    (\<forall>env e'. admit fl env e = (e', Some ErrConcurrencyLimited) \<longrightarrow> int n = po_ConcurrencyLimit opts)"
proof -
  from slots_reach [OF assms(1)] have s: "ex_opts e = normalize opts" "ex_sem e = Some n"
      "int n \<le> po_ConcurrencyLimit opts"
    using assms(2) by (auto simp add: slots_ok_def split: option.splits)
  then show ?thesis using admit_full by fastforce
qed

text \<open>A call of \<open>Do\<close> is one arrival and, if it is admitted, one completion.\<close>

lemma Do_steps:
  assumes "Do fl g env (Some e) fn s = (Some e', s', res)"
  shows "\<exists>e1 r. admit fl env e = (e1, r) \<and> (e' = e1 \<or> e' = finish env res e1 \<and> r = None)"
  using assms by (cases "admit fl env e") (auto simp add: Do_def split: option.splits prod.splits)

section \<open>Server handlers run once\<close>

lemma Do_once:
  assumes "ex_opts e = normalize (serverOptions opts)" and "Do fl g env (Some e) fn s = (e', s', res)"
  shows "s' = s \<and> (\<exists>err \<in> {ErrRateLimited, ErrCircuitOpen, ErrConcurrencyLimited}. res = Some err) \<or>
    fn (op_timeout opts) s = (s', res)"
proof -
  obtain e1 r where a: "admit fl env e = (e1, r)" by force
  show ?thesis
  proof (cases r)
    case (Some err)
    then have "err \<in> {ErrRateLimited, ErrCircuitOpen, ErrConcurrencyLimited}"
      using a by (auto simp add: admit_def Let_def split: option.splits prod.splits if_splits)
    then show ?thesis using assms(2) a Some by (auto simp add: Do_def)
  next
    case None
    have o1: "ex_opts e1 = normalize (serverOptions opts)" using admit_opts [OF a] assms(1) by simp
    obtain s1 x where f: "fn (op_timeout opts) s = (s1, x)" by force
    have t: "(if po_Timeout (ex_opts e1) > 0 then Some (po_Timeout (ex_opts e1)) else None) = op_timeout opts"
      using o1 by (simp add: op_timeout_def serverOptions_def)
    have "attempt_loop g (ex_opts e1) env fn 0 (Suc 0) None s = (s1, x)"
      unfolding attempt_loop.simps t f by (cases x) simp_all
    then show ?thesis using assms(2) a None f o1
      by (auto simp add: Do_def serverOptions_def)
  qed
qed

lemma Is_sentinel_simps [simp]:
  "Is_sentinel ErrRateLimited ErrRateLimited" "\<not> Is_sentinel ErrCircuitOpen ErrRateLimited"
  "\<not> Is_sentinel ErrConcurrencyLimited ErrRateLimited" "Is_sentinel ErrCircuitOpen ErrCircuitOpen"
  "Is_sentinel ErrConcurrencyLimited ErrConcurrencyLimited" "\<not> Is_sentinel ErrRateLimited ErrCircuitOpen"
  "\<not> Is_sentinel ErrConcurrencyLimited ErrCircuitOpen"
  "\<not> Is_sentinel (PlainErr s) x" "\<not> IsDeadline (PlainErr s)"
  by (simp_all add: Is_sentinel_def ErrRateLimited_def ErrCircuitOpen_def ErrConcurrencyLimited_def
      IsDeadline_def)

text \<open>Whatever \<open>Retry\<close> says, one gRPC request runs its handler at most once.  Either the call
  is rejected, the handler does not run and the client gets \<open>ResourceExhausted\<close> or
  \<open>Unavailable\<close>, or the handler runs exactly once and its response or its error is the reply, the
  error of an expired deadline as \<open>DeadlineExceeded\<close>.\<close>

lemma grpc_handler_once:
  assumes "ex_opts e = normalize (serverOptions opts)"
    and "GRPCUnaryServerInterceptor fl g env e handler s = (e', s', resp, err)"
  shows "(s' = s \<and> resp = None \<and>
      (\<exists>c t. c \<in> {ResourceExhausted, Unavailable} \<and>
         err = Some (StatusErr \<lparr>st_Code = c, st_Message = t, st_Details = []\<rparr>))) \<or>
    (\<exists>out. handler (op_timeout opts) s = (s', out, None) \<and> resp = Some out \<and> err = None) \<or>
    (\<exists>out x. handler (op_timeout opts) s = (s', out, Some x) \<and> resp = None \<and> err = Some (grpcError g x))"
proof -
  define fn where "fn = (\<lambda>timeout (s, resp). case handler timeout s of
       (s', out, None) \<Rightarrow> ((s', Some out), None) | (s', out, Some err) \<Rightarrow> ((s', resp), Some err))"
  obtain e1 s1 r1 res where d: "Do fl g env (Some e) fn (s, None) = (e1, (s1, r1), res)"
    by (metis prod_cases3 surj_pair)
  have i: "GRPCUnaryServerInterceptor fl g env e handler s =
      (case res of None \<Rightarrow> (the e1, s1, r1, None) | Some x \<Rightarrow> (the e1, s1, None, Some (grpcError g x)))"
    using d unfolding fn_def GRPCUnaryServerInterceptor_def by (cases res) simp_all
  obtain s2 out y where h: "handler (op_timeout opts) s = (s2, out, y)" by (metis prod_cases3)
  from Do_once [OF assms(1) d] show ?thesis
  proof
    assume "(s1, r1) = (s, None) \<and> (\<exists>x \<in> {ErrRateLimited, ErrCircuitOpen, ErrConcurrencyLimited}. res = Some x)"
    then show ?thesis using i assms(2) by (auto simp add: grpcError_def Let_def)
  next
    assume "fn (op_timeout opts) (s, None) = ((s1, r1), res)"
    then show ?thesis using i h assms(2) by (cases y) (auto simp add: fn_def)
  qed
qed

text \<open>The reply to a request whose handler ran: the response that it wrote, whatever its status;
  after a panic a response with a status of at least 500.\<close>

definition handled_reply :: "writer_op list \<Rightarrow> string option \<Rightarrow> writer_op list" where
  "handled_reply ops panic =
     (let r = foldl buffer_op newBufferedResponse ops
      in case panic of None \<Rightarrow> Commit r
         | Some v \<Rightarrow> if br_status r = 0 then Commit (r\<lparr>br_status := 500\<rparr>)
                     else if Response_Status r \<ge> 500 then Commit r
                     else [HTTPError (StatusText 500) 500])"

text \<open>An enabled HTTP policy runs the handler at most once per request, also when \<open>Retry\<close> asks
  for more.  A rejected request gets 429 or 503 and the handler does not run; otherwise the
  handler runs once, a panic is caught, and the client gets the buffered response, or a status of
  at least 500 after a panic.\<close>

theorem http_handler_once:
  assumes "ex_opts e = normalize (serverOptions opts)" and "Enabled opts"
    and "HTTPMiddleware fl g env opts e (Some h) s = (e', s', reply, panic)"
  shows "panic = None \<and>
    (s' = s \<and> reply \<in> {[HTTPError (StatusText 429) 429], [HTTPError (StatusText 503) 503]} \<or>
     (\<exists>ops p. h (op_timeout opts) s = (s', ops, p) \<and> reply = handled_reply ops p))"
proof -
  obtain e1 s1 c1 res where d: "Do fl g env (Some e) (http_operation h) (s, None) = (e1, (s1, c1), res)"
    by (metis prod_cases3 surj_pair)
  have i: "HTTPMiddleware fl g env opts e (Some h) s = (the e1, s1, http_reply c1 res, None)"
    using d assms(2) by (simp add: HTTPMiddleware_def)
  obtain s2 ops p where h: "h (op_timeout opts) s = (s2, ops, p)" by (metis prod_cases3)
  from Do_once [OF assms(1) d] show ?thesis
  proof
    assume "(s1, c1) = (s, None) \<and> (\<exists>x \<in> {ErrRateLimited, ErrCircuitOpen, ErrConcurrencyLimited}. res = Some x)"
    moreover have "AsResponse ErrRateLimited = None" "AsResponse ErrCircuitOpen = None"
      "AsResponse ErrConcurrencyLimited = None"
      by (simp_all add: ErrRateLimited_def ErrCircuitOpen_def ErrConcurrencyLimited_def)
    ultimately show ?thesis using i assms(3) by (auto simp add: http_reply_def)
  next
    assume "http_operation h (op_timeout opts) (s, None) = ((s1, c1), res)"
    then have "s1 = s2 \<and> http_reply c1 res = handled_reply ops p"
      using h by (cases p) (auto simp add: http_operation_def handled_reply_def http_reply_def
          Response_Status_def Let_def split: if_splits)
    then show ?thesis using i h assms(3) by auto
  qed
qed

section \<open>Concrete runs\<close>

definition demo_opts :: Options where
  "demo_opts = \<lparr>po_Timeout = 0, po_Retry = \<lparr>rt_Attempts = 3, rt_Backoff = 0\<rparr>,
     po_RateLimit = \<lparr>rl_Requests = 2, rl_Per = 1000000000, rl_Burst = 2\<rparr>,
     po_CircuitBreaker = \<lparr>cb_Failures = 2, cb_OpenFor = 5\<rparr>, po_ConcurrencyLimit = 1\<rparr>"

definition demo_Do_env :: Do_env where
  "demo_Do_env = \<lparr>now_limit = 0, now_open = 0, now_failure = 0, wait_outcome = (\<lambda>_. None)\<rparr>"

lemma exact_rounds: "rounds exact"
  by (simp add: rounds_def exact_def)

theorem limiter_burst_witness:
  "snd (allow_all exact (fst (allow_all exact (newRateLimiter exact (po_RateLimit demo_opts) 0) [5, 7]))
     (replicate 9 8)) \<le> 2"
  using limiter_burst [OF exact_rounds, of "po_RateLimit demo_opts" 2 0 "[5, 7]" 9 8]
  by (simp add: demo_opts_def)

theorem limiter_rate_witness:
  "snd (allow_all exact (fst (allow_all exact (newRateLimiter exact (po_RateLimit demo_opts) 0) [0]))
     [1000000000, 2000000000]) \<le> 6"
proof -
  have "of_nat (snd (allow_all exact (fst (allow_all exact (newRateLimiter exact (po_RateLimit demo_opts) 0) [0]))
     [1000000000, 2000000000])) \<le> (6 :: rat)"
    using limiter_rate [of "po_RateLimit demo_opts" 0 "[0]" "[1000000000, 2000000000]"]
    by (simp add: demo_opts_def del: allow_all.simps)
  then show ?thesis by (metis of_nat_le_iff of_nat_numeral)
qed


text \<open>An operation that fails twice with a deadline and then succeeds; the state counts its calls.\<close>

definition demo_op :: "nat operation" where
  "demo_op t n = (n + 1, if n < 2 then Some ContextDeadline else None)"

definition demo_executor :: Executor where
  "demo_executor = \<lparr>ex_opts = normalize demo_opts, ex_limiter = None, ex_breaker = None, ex_sem = Some 0\<rparr>"

lemma demo_Do:
  "Do exact demo_grpc demo_Do_env (Some demo_executor) demo_op 0 = (Some demo_executor, 3, None)"
  by (simp add: Do_def demo_executor_def admit_def demo_opts_def normalize_def finish_def demo_op_def
      numeral_eq_Suc shouldRetry_def Is_sentinel_def ErrRateLimited_def ErrCircuitOpen_def
      ErrConcurrencyLimited_def IsCanceled_def IsDeadline_def sleepContext_def)


definition demo_limit_opts :: Options where
  "demo_limit_opts = demo_opts\<lparr>po_RateLimit := \<lparr>rl_Requests = 0, rl_Per = 0, rl_Burst = 0\<rparr>\<rparr>"

theorem concurrency_limit_witness:
  "\<exists>e. exec_reach exact (NewExecutor exact demo_limit_opts 0) (e, 1) \<and> ex_sem e = Some 1 \<and>
     snd (admit exact demo_Do_env e) = Some ErrConcurrencyLimited"
proof -
  define e0 where "e0 = NewExecutor exact demo_limit_opts 0"
  define e where "e = e0\<lparr>ex_sem := Some 1\<rparr>"
  have a: "admit exact demo_Do_env e0 = (e, None)"
    by (simp add: admit_def e_def e0_def NewExecutor_def demo_limit_opts_def demo_opts_def
        normalize_def newCircuitState_def Open_def)
  have "exec_step exact (e0, 0) (e, 0 + 1)" by (rule exec_step.admitted [OF a])
  then have r: "exec_reach exact (NewExecutor exact demo_limit_opts 0) (e, 1)"
    using exec_reach.step [OF exec_reach.start [of exact e0]] by (simp add: e0_def)
  have s: "ex_sem e = Some 1"
    using concurrency_limit [OF r] by (simp add: demo_limit_opts_def demo_opts_def)
  have "snd (admit exact demo_Do_env e) = Some ErrConcurrencyLimited"
    by (simp add: admit_def e_def e0_def NewExecutor_def demo_limit_opts_def demo_opts_def
        normalize_def newCircuitState_def Open_def)
  then show ?thesis using r s by blast
qed

definition demo_server_executor :: Executor where
  "demo_server_executor = \<lparr>ex_opts = normalize (serverOptions demo_opts), ex_limiter = None,
     ex_breaker = None, ex_sem = None\<rparr>"

definition demo_http :: "nat http_handler" where
  "demo_http t n = (n + 1, [WriteHeader 503, Write ''down''], None)"

theorem http_handler_once_witness:
  "\<exists>e'. HTTPMiddleware exact demo_grpc demo_Do_env demo_opts demo_server_executor (Some demo_http) 0
     = (e', 1, [WriteHeader 503, Write ''down''], None)"
proof -
  obtain e' s' reply panic where h: "HTTPMiddleware exact demo_grpc demo_Do_env demo_opts
      demo_server_executor (Some demo_http) 0 = (e', s', reply, panic)" by (metis prod_cases4)
  have en: "Enabled demo_opts" by (simp add: Enabled_def demo_opts_def)
  have "s' = 1"
    using h en by (simp add: HTTPMiddleware_def Do_def demo_server_executor_def admit_def demo_http_def
        http_operation_def serverOptions_def normalize_def demo_opts_def buffer_op_def
        newBufferedResponse_def Response_WriteHeader_def Response_Write_def Response_Status_def Let_def)
  moreover have "panic = None \<and> reply = handled_reply [WriteHeader 503, Write ''down''] None"
    using http_handler_once [OF _ en h] \<open>s' = 1\<close>
    by (auto simp add: demo_server_executor_def demo_http_def)
  ultimately show ?thesis
    using h by (simp add: handled_reply_def buffer_op_def newBufferedResponse_def
        Response_WriteHeader_def Response_Write_def Response_Status_def Commit_def)
qed

end
