(* ===== verification/Kafka.thy ===== *)
theory Kafka
  imports TLSConfig Policy
begin

text \<open>
  The Kafka transport (\<open>sdk/transport/queue/kafka\<close>) and the event envelope
  (\<open>sdk/router/router.go\<close>).

  Sarama and \<open>encoding/json\<close> are parameters: the default configuration, the constructors of
  producers and consumer groups, and the two conversions of an envelope.  A producer is known by
  a number, its messages go to a log.  A claim is the sequence of choices that the \<open>select\<close> of
  \<open>ConsumeClaim\<close> makes; a message comes with what its run of the policy executor meets.  Tracing
  and logging are left out.
\<close>

section \<open>Envelopes\<close>

record EventEnvelope =
  ev_APIVersion :: string
  ev_Kind :: string
  ev_Payload :: string

definition NewEventEnvelope :: "string \<Rightarrow> string \<Rightarrow> string \<Rightarrow> EventEnvelope" where
  "NewEventEnvelope apiVersion kind payload =
     \<lparr>ev_APIVersion = apiVersion, ev_Kind = kind, ev_Payload = payload\<rparr>"

definition Envelope_Validate :: "EventEnvelope \<Rightarrow> go_err option" where
  "Envelope_Validate e =
     (if ev_APIVersion e = [] then Some (PlainErr ''event envelope: apiVersion is required'')
      else if ev_Kind e = [] then Some (PlainErr ''event envelope: kind is required'')
      else None)"

section \<open>Brokers\<close>

definition defaultBroker :: string where "defaultBroker = ''localhost:9092''"

definition normalizeBrokers :: "string list \<Rightarrow> string list" where
  "normalizeBrokers brokers = filter (\<lambda>b. b \<noteq> []) (map trim_space brokers)"

definition splitBrokers :: "string \<Rightarrow> string list" where
  "splitBrokers raw = normalizeBrokers (split_on CHR '','' raw)"

record Spec =
  ks_Brokers :: "string list"
  ks_ClientId :: string
  ks_GroupId :: string
  ks_Tls :: "pb_ClientTLS option"

record KafkaConfig =
  kc_Kind :: string
  kc_ApiVersion :: string
  kc_Spec :: "Spec option"

definition specBrokers :: "KafkaConfig option \<Rightarrow> string list" where
  "specBrokers cfg =
     (case cfg of None \<Rightarrow> []
      | Some c \<Rightarrow> (case kc_Spec c of None \<Rightarrow> [] | Some spec \<Rightarrow> normalizeBrokers (ks_Brokers spec)))"

definition Brokers :: "KafkaConfig option \<Rightarrow> string list" where
  "Brokers cfg = (let brokers = specBrokers cfg in if 0 < length brokers then brokers else [defaultBroker])"

text \<open>\<open>env\<close> is the value of the variable \<open>KAFKA_BROKERS\<close>.\<close>

definition fallbackBrokers :: "string \<Rightarrow> string list \<Rightarrow> string list" where
  "fallbackBrokers env manifestBrokers =
     (let brokers = normalizeBrokers manifestBrokers
      in if 0 < length brokers then brokers
         else if env \<noteq> [] then splitBrokers env else [defaultBroker])"

text \<open>\<open>loader.Kafka\<close> is a function from the kind, with \<open>None\<close> for an error; a nil loader is \<open>None\<close>.\<close>

definition empty_Spec :: Spec where
  "empty_Spec = \<lparr>ks_Brokers = [], ks_ClientId = [], ks_GroupId = [], ks_Tls = None\<rparr>"

definition ConfigFromLoader ::
  "string \<Rightarrow> (string \<Rightarrow> KafkaConfig option) option \<Rightarrow> string \<Rightarrow> string list \<Rightarrow> KafkaConfig" where
  "ConfigFromLoader env loader kind manifestBrokers =
     (let kind = (if kind = [] then ''kafka'' else kind);
          default = \<lparr>kc_Kind = kind, kc_ApiVersion = ''v1'',
            kc_Spec = Some (empty_Spec\<lparr>ks_Brokers := fallbackBrokers env manifestBrokers\<rparr>)\<rparr>
      in case loader of None \<Rightarrow> default
         | Some load \<Rightarrow>
             (case load kind of None \<Rightarrow> default
              | Some cfg \<Rightarrow>
                  (let spec = (case kc_Spec cfg of None \<Rightarrow> empty_Spec | Some spec \<Rightarrow> spec);
                       cfg = cfg\<lparr>kc_Spec := Some spec\<rparr>
                   in if length (specBrokers (Some cfg)) = 0
                      then cfg\<lparr>kc_Spec := Some (spec\<lparr>ks_Brokers := fallbackBrokers env manifestBrokers\<rparr>)\<rparr>
                      else cfg)))"

definition BrokersFromLoader ::
  "string \<Rightarrow> (string \<Rightarrow> KafkaConfig option) option \<Rightarrow> string \<Rightarrow> string list \<Rightarrow> string list" where
  "BrokersFromLoader env loader kind manifestBrokers =
     Brokers (Some (ConfigFromLoader env loader kind manifestBrokers))"

section \<open>Sarama configuration\<close>

text \<open>The part of \<open>sarama.Config\<close> that the code sets.\<close>

record 't sarama_Config =
  sc_ClientID :: string
  sc_RequiredAcks :: string
  sc_ReturnSuccesses :: bool
  sc_Partitioner :: string
  sc_ReturnErrors :: bool
  sc_TLS :: "'t option"

definition producerConfig :: "'t sarama_Config \<Rightarrow> string \<Rightarrow> 't option \<Rightarrow> 't sarama_Config" where
  "producerConfig NewConfig clientID clientTLS =
     (let cfg = NewConfig\<lparr>sc_ClientID := ''zengo-platform-producer''\<rparr>;
          cfg = (if clientID \<noteq> [] then cfg\<lparr>sc_ClientID := clientID\<rparr> else cfg);
          cfg = cfg\<lparr>sc_RequiredAcks := ''WaitForLocal'', sc_ReturnSuccesses := True,
                    sc_Partitioner := ''RoundRobin''\<rparr>
      in case clientTLS of None \<Rightarrow> cfg | Some t \<Rightarrow> cfg\<lparr>sc_TLS := Some t\<rparr>)"

definition consumerConfig :: "'t sarama_Config \<Rightarrow> string \<Rightarrow> string \<Rightarrow> 't option \<Rightarrow> 't sarama_Config" where
  "consumerConfig NewConfig grp clientID clientTLS =
     (let cfg = NewConfig\<lparr>sc_ClientID := ''zengo-platform-consumer''\<rparr>;
          cfg = (if clientID \<noteq> [] then cfg\<lparr>sc_ClientID := clientID\<rparr> else cfg);
          cfg = (if grp \<noteq> [] then cfg\<lparr>sc_ClientID := ''zengo-platform-consumer-'' @ grp\<rparr> else cfg);
          cfg = cfg\<lparr>sc_ReturnErrors := True\<rparr>
      in case clientTLS of None \<Rightarrow> cfg | Some t \<Rightarrow> cfg\<lparr>sc_TLS := Some t\<rparr>)"

definition kafkaTLSConfig ::
  "('e, 'pool, 'cert) tls_env \<Rightarrow> Spec option \<Rightarrow> 'e tls_error + ('pool, 'cert) tls_Config option" where
  "kafkaTLSConfig env spec =
     (case spec of None \<Rightarrow> Inr None
      | Some s \<Rightarrow> ClientConfig env (ClientOptionsFromProto (ks_Tls s)))"

section \<open>Producer\<close>

type_synonym producer_id = nat

record ('t) Producer =
  pr_producers :: "(string \<times> producer_id) list"
  pr_defaultBrokers :: "string list"
  pr_saramaConfig :: "'t sarama_Config"

record message =
  msg_Topic :: string
  msg_Key :: string
  msg_Value :: string

text \<open>What a producer needs of its surroundings: a connection to brokers or an error, the encoder
  of an envelope, and the answer of \<open>SendMessage\<close>; \<open>w_sent\<close> is the log of what was sent.\<close>

record 't producer_env =
  newSyncProducer :: "string list \<Rightarrow> 't sarama_Config \<Rightarrow> go_err + producer_id"
  json_Marshal :: "EventEnvelope \<Rightarrow> go_err + string"
  SendMessage :: "producer_id \<Rightarrow> message \<Rightarrow> go_err option"

definition newProducerWithConfig :: "string list \<Rightarrow> 't sarama_Config \<Rightarrow> 't Producer" where
  "newProducerWithConfig brokers cfg =
     \<lparr>pr_producers = [], pr_defaultBrokers = normalizeBrokers brokers, pr_saramaConfig = cfg\<rparr>"

definition NewProducer :: "'t sarama_Config \<Rightarrow> string list \<Rightarrow> 't Producer" where
  "NewProducer NewConfig brokers = newProducerWithConfig brokers (producerConfig NewConfig [] None)"

definition NewProducerFromConfig ::
  "('e, 'pool, 'cert) tls_env \<Rightarrow> ('pool, 'cert) tls_Config sarama_Config \<Rightarrow> KafkaConfig option
     \<Rightarrow> 'e tls_error + ('pool, 'cert) tls_Config Producer" where
  "NewProducerFromConfig env NewConfig cfg =
     (let spec = (case cfg of None \<Rightarrow> None | Some c \<Rightarrow> kc_Spec c)
      in bind_err (kafkaTLSConfig env spec) (\<lambda>tlsCfg.
           let clientID = (case spec of None \<Rightarrow> [] | Some s \<Rightarrow> ks_ClientId s)
           in Inr (newProducerWithConfig (Brokers cfg) (producerConfig NewConfig clientID tlsCfg))))"

definition get_producer ::
  "'t producer_env \<Rightarrow> 't Producer \<Rightarrow> string list \<Rightarrow> go_err + ('t Producer \<times> producer_id)" where
  "get_producer env p brokers =
     (let key = join '','' brokers
      in case map_of (pr_producers p) key of
           Some producer \<Rightarrow> Inr (p, producer)
         | None \<Rightarrow>
             (case newSyncProducer env brokers (pr_saramaConfig p) of
                Inl e \<Rightarrow> Inl e
              | Inr producer \<Rightarrow> Inr (p\<lparr>pr_producers := (key, producer) # pr_producers p\<rparr>, producer)))"

definition effectiveBrokers :: "'t Producer \<Rightarrow> string list \<Rightarrow> string list" where
  "effectiveBrokers p brokers =
     (let brokers = normalizeBrokers brokers
      in if 0 < length brokers then brokers
         else if 0 < length (pr_defaultBrokers p) then pr_defaultBrokers p
         else [defaultBroker])"

text \<open>\<open>Publish\<close> returns the producer, the messages that were accepted and the error.\<close>

definition Publish ::
  "'t producer_env \<Rightarrow> 't Producer \<Rightarrow> string list \<Rightarrow> string \<Rightarrow> string \<Rightarrow> string \<Rightarrow> string
     \<Rightarrow> 't Producer \<times> (producer_id \<times> message) list \<times> go_err option" where
  "Publish env p brokers topic apiVersion kind payload =
     (let brokers = effectiveBrokers p brokers;
          e = NewEventEnvelope apiVersion kind payload
      in case Envelope_Validate e of Some err \<Rightarrow> (p, [], Some err)
         | None \<Rightarrow>
             (case json_Marshal env e of
                Inl err \<Rightarrow> (p, [], Some (WrapErr ''marshal event envelope'' err))
              | Inr body \<Rightarrow>
                  (case get_producer env p brokers of
                     Inl err \<Rightarrow> (p, [], Some (WrapErr ''create kafka producer'' err))
                   | Inr (p, producer) \<Rightarrow>
                       (let msg = \<lparr>msg_Topic = topic, msg_Key = kind, msg_Value = body\<rparr>
                        in case SendMessage env producer msg of
                             None \<Rightarrow> (p, [(producer, msg)], None)
                           | Some err \<Rightarrow> (p, [], Some err)))))"

text \<open>\<open>Close\<close> visits the producers in the iteration order of the map.\<close>

definition Producer_Close :: "(producer_id \<Rightarrow> go_err option) \<Rightarrow> 't Producer \<Rightarrow> 't Producer \<times> go_err option" where
  "Producer_Close close p =
     (p\<lparr>pr_producers := []\<rparr>,
      foldl (\<lambda>first (key, producer).
          case close producer of None \<Rightarrow> first
          | Some err \<Rightarrow> (case first of None \<Rightarrow> Some (WrapErr (''close producer '' @ key) err) | Some f \<Rightarrow> Some f))
        None (pr_producers p))"

section \<open>Consumer\<close>

type_synonym group_id = nat

record 't Consumer =
  cn_groups :: "group_id list"
  cn_defaultGroup :: string
  cn_baseConfig :: "'t sarama_Config option"

type_synonym 's kafka_handler = "EventEnvelope \<Rightarrow> 's operation"

record 's ConsumeSpec =
  sp_Topic :: string
  sp_Group :: string
  sp_Brokers :: "string list"
  sp_Handler :: "'s kafka_handler option"
  sp_Policy :: Options

definition NewConsumer :: "'t sarama_Config \<Rightarrow> string \<Rightarrow> 't Consumer" where
  "NewConsumer NewConfig grp =
     \<lparr>cn_groups = [], cn_defaultGroup = grp,
      cn_baseConfig = Some (consumerConfig NewConfig grp [] None)\<rparr>"

definition NewConsumerFromConfig ::
  "('e, 'pool, 'cert) tls_env \<Rightarrow> ('pool, 'cert) tls_Config sarama_Config \<Rightarrow> string \<Rightarrow> KafkaConfig option
     \<Rightarrow> 'e tls_error + ('pool, 'cert) tls_Config Consumer" where
  "NewConsumerFromConfig env NewConfig grp cfg =
     (let spec = (case cfg of None \<Rightarrow> None | Some c \<Rightarrow> kc_Spec c)
      in bind_err (kafkaTLSConfig env spec) (\<lambda>tlsCfg.
           let clientID = (case spec of None \<Rightarrow> [] | Some s \<Rightarrow> ks_ClientId s);
               defaultGroup = (case spec of None \<Rightarrow> grp
                               | Some s \<Rightarrow> if grp = [] then ks_GroupId s else grp)
           in Inr \<lparr>cn_groups = [], cn_defaultGroup = defaultGroup,
                   cn_baseConfig = Some (consumerConfig NewConfig defaultGroup clientID tlsCfg)\<rparr>))"

definition Consumer_config :: "'t sarama_Config \<Rightarrow> 't Consumer \<Rightarrow> string \<Rightarrow> 't sarama_Config" where
  "Consumer_config NewConfig c grp =
     (let base = (case cn_baseConfig c of None \<Rightarrow> consumerConfig NewConfig grp [] None | Some b \<Rightarrow> b)
      in if grp \<noteq> [] then base\<lparr>sc_ClientID := ''zengo-platform-consumer-'' @ grp\<rparr> else base)"

text \<open>\<open>Register\<close> returns the consumer, and the group and its id that the two background loops
  serve.\<close>

definition Register ::
  "'t sarama_Config \<Rightarrow> (string list \<Rightarrow> string \<Rightarrow> 't sarama_Config \<Rightarrow> go_err + group_id)
     \<Rightarrow> 't Consumer option \<Rightarrow> 's ConsumeSpec \<Rightarrow> go_err + ('t Consumer \<times> group_id \<times> string)" where
  "Register NewConfig newConsumerGroup c spec =
     (case c of None \<Rightarrow> Inl (PlainErr ''kafka consumer is nil'')
      | Some c \<Rightarrow>
          if sp_Topic spec = [] then Inl (PlainErr ''kafka consumer topic is required'')
          else if sp_Handler spec = None then Inl (PlainErr ''kafka consumer handler is required'')
          else (let groupID = sp_Group spec;
                    groupID = (if groupID = [] then cn_defaultGroup c else groupID)
                in if groupID = [] then Inl (PlainErr ''kafka consumer group is required'')
                   else (let brokers = normalizeBrokers (sp_Brokers spec);
                             brokers = (if length brokers = 0 then [defaultBroker] else brokers)
                         in case newConsumerGroup brokers groupID (Consumer_config NewConfig c groupID) of
                              Inl err \<Rightarrow> Inl (WrapErr ''create kafka consumer group'' err)
                            | Inr gid \<Rightarrow> Inr (c\<lparr>cn_groups := cn_groups c @ [gid]\<rparr>, gid, groupID))))"

definition Consumer_Close :: "(group_id \<Rightarrow> go_err option) \<Rightarrow> 't Consumer option \<Rightarrow> go_err option" where
  "Consumer_Close close c =
     (case c of None \<Rightarrow> None
      | Some c \<Rightarrow>
          foldl (\<lambda>closeErr gid. case close gid of None \<Rightarrow> closeErr
                   | Some err \<Rightarrow> errors_Join [closeErr, Some err]) None (cn_groups c))"

section \<open>Consuming a claim\<close>

record kafka_message =
  km_Offset :: nat
  km_Value :: string

datatype claim_event = RootDone | SessionDone | ChannelClosed | Message kafka_message Do_env

text \<open>The state of a claim: the executor of the handler (\<open>None\<close> when nil), the state of the
  handler and the offsets that were marked, in order.\<close>

type_synonym 's claim_state = "Executor option \<times> 's \<times> nat list"

definition consumeMessage ::
  "rounding \<Rightarrow> grpc_env \<Rightarrow> (string \<Rightarrow> go_err + EventEnvelope) \<Rightarrow> 's kafka_handler
     \<Rightarrow> kafka_message \<Rightarrow> Do_env \<Rightarrow> 's claim_state \<Rightarrow> 's claim_state \<times> go_err option" where
  "consumeMessage fl g json_Unmarshal handler msg env st =
     (case st of (hexec, s, marks) \<Rightarrow>
        (case json_Unmarshal (km_Value msg) of
           Inl err \<Rightarrow> ((hexec, s, marks @ [km_Offset msg]), None)
         | Inr e \<Rightarrow>
             (let exec = (case hexec of None \<Rightarrow> Some (NewExecutor fl zero_Options (now_limit env))
                          | Some x \<Rightarrow> Some x)
              in case Do fl g env exec (handler e) s of
                   (exec', s', err) \<Rightarrow>
                     (let hexec' = (case hexec of None \<Rightarrow> None | Some x \<Rightarrow> exec')
                      in case err of Some err \<Rightarrow> ((hexec', s', marks), Some err)
                         | None \<Rightarrow> ((hexec', s', marks @ [km_Offset msg]), None)))))"

fun ConsumeClaim ::
  "rounding \<Rightarrow> grpc_env \<Rightarrow> (string \<Rightarrow> go_err + EventEnvelope) \<Rightarrow> 's kafka_handler
     \<Rightarrow> claim_event list \<Rightarrow> 's claim_state \<Rightarrow> 's claim_state \<times> go_err option" where
  "ConsumeClaim fl g json_Unmarshal handler [] st = (st, None)"
| "ConsumeClaim fl g json_Unmarshal handler (RootDone # es) st = (st, None)"
| "ConsumeClaim fl g json_Unmarshal handler (SessionDone # es) st = (st, None)"
| "ConsumeClaim fl g json_Unmarshal handler (ChannelClosed # es) st = (st, None)"
| "ConsumeClaim fl g json_Unmarshal handler (Message msg env # es) st =
     (case consumeMessage fl g json_Unmarshal handler msg env st of
        (st', Some err) \<Rightarrow> (st', Some err)
      | (st', None) \<Rightarrow> ConsumeClaim fl g json_Unmarshal handler es st')"

text \<open>The background loop of a group.  An iteration says what \<open>c.ctx.Err()\<close> answers before and
  after \<open>Consume\<close>, what \<open>Consume\<close> returns, and whether the context ends during the second that
  follows a failure.  The result is the number of calls of \<open>Consume\<close> and whether the loop has
  returned.\<close>

record consume_iteration =
  ci_ctxErr :: bool
  ci_result :: "go_err option"
  ci_ctxErr_after :: bool
  ci_done_in_wait :: bool

fun consume :: "consume_iteration list \<Rightarrow> nat \<times> bool" where
  "consume [] = (0, False)"
| "consume (i # is) =
     (if ci_ctxErr i then (0, True)
      else (case ci_result i of
              None \<Rightarrow> (case consume is of (n, r) \<Rightarrow> (n + 1, r))
            | Some err \<Rightarrow>
                if IsCanceled err \<or> ci_ctxErr_after i then (1, True)
                else if ci_done_in_wait i then (1, True)
                else (case consume is of (n, r) \<Rightarrow> (n + 1, r))))"

end
