(* ===== verification/KafkaFacts.thy ===== *)
theory KafkaFacts
  imports Kafka PolicyFacts
begin

text \<open>
  What the Kafka transport guarantees: no message is committed before its handler has completed,
  over any sequence of sessions; a published event is the one that is consumed; the brokers that
  are used.
\<close>

section \<open>Messages are marked after they are handled\<close>

text \<open>A handler that records the events it has completed.\<close>

definition recording :: "'s kafka_handler \<Rightarrow> ('s \<times> EventEnvelope list) kafka_handler" where
  "recording h e t st =
     (case h e t (fst st) of
        (s', None) \<Rightarrow> ((s', snd st @ [e]), None)
      | (s', Some err) \<Rightarrow> ((s', snd st), Some err))"

lemma iterate_recording:
  "iterate_op (recording h e) t n st = (st', rs) \<Longrightarrow>
     set (snd st) \<subseteq> set (snd st') \<and> (rs \<noteq> [] \<and> last rs = None \<longrightarrow> e \<in> set (snd st'))"
proof (induction n arbitrary: st rs)
  case (Suc n)
  obtain s1 r where c: "recording h e t st = (s1, r)" by (metis surj_pair)
  obtain rs1 where i: "iterate_op (recording h e) t n s1 = (st', rs1)" and rs: "rs = r # rs1"
    using Suc.prems c by (auto split: prod.splits)
  have s1: "set (snd st) \<subseteq> set (snd s1)" "r = None \<longrightarrow> e \<in> set (snd s1)"
    using c by (auto simp add: recording_def split: prod.splits option.splits)
  from Suc.IH [OF i] s1 rs show ?case by (cases rs1) auto
qed auto

lemma finish_opts [simp]: "ex_opts (finish env res e) = ex_opts e"
  by (simp add: finish_sel)

text \<open>A run of the executor keeps its options, never forgets a completed event, and when it
  succeeds the event is completed.\<close>

lemma Do_recording:
  assumes "ex_opts e = normalize opts"
    and "Do fl g env (Some e) (recording h ev) st = (exec', st', res)"
  obtains e' where "exec' = Some e'" "ex_opts e' = normalize opts"
    "set (snd st) \<subseteq> set (snd st')" "res = None \<longrightarrow> ev \<in> set (snd st')"
proof -
  obtain e1 r where a: "admit fl env e = (e1, r)" by force
  have o1: "ex_opts e1 = normalize opts" using admit_opts [OF a] assms(1) by simp
  show ?thesis
  proof (cases r)
    case (Some err)
    then show ?thesis using assms(2) a o1 that by (auto simp add: Do_def)
  next
    case None
    define n where "n = nat (rt_Attempts (po_Retry (ex_opts e1)))"
    obtain k where k: "n = Suc k" using not0_implies_Suc [of n] o1 by (auto simp add: n_def)
    obtain s2 res2 where l: "attempt_loop g (ex_opts e1) env (recording h ev) 0 n None st = (s2, res2)"
      by (metis surj_pair)
    then have eq: "exec' = Some (finish env res e1)" "s2 = st'" "res2 = res"
      using assms(2) a None by (auto simp add: Do_def n_def)
    from attempt_loop_run [OF l [unfolded k]] eq obtain rs
      where rs: "iterate_op (recording h ev) (op_timeout (ex_opts e1)) (length rs) st = (st', rs)"
        "attempts_ok g (ex_opts e1) (Suc k) rs res" by auto
    have "rs \<noteq> []" "res = None \<longrightarrow> last rs = None" using rs(2) by (auto simp add: attempts_ok_def)
    then show ?thesis using iterate_recording [OF rs(1)] o1 eq(1) that by auto
  qed
qed

text \<open>A partition is the list of the values of its messages; \<open>claim_of c envs\<close> delivers the
  messages from offset \<open>c\<close> on, one for each element of \<open>envs\<close>, and then the session ends.\<close>

definition claim_of :: "string list \<Rightarrow> nat \<Rightarrow> Do_env list \<Rightarrow> claim_event list" where
  "claim_of part c envs =
     map (\<lambda>(i, env). Message \<lparr>km_Offset = i, km_Value = part ! i\<rparr> env) (zip [c..<c + length envs] envs) @
     [SessionDone]"

definition processed :: "(string \<Rightarrow> go_err + EventEnvelope) \<Rightarrow> string \<Rightarrow> EventEnvelope list \<Rightarrow> bool" where
  "processed json_Unmarshal value completed \<longleftrightarrow>
     (case json_Unmarshal value of Inl err \<Rightarrow> True | Inr e \<Rightarrow> e \<in> set completed)"

lemma processed_mono:
  "processed u v d \<Longrightarrow> set d \<subseteq> set d' \<Longrightarrow> processed u v d'"
  by (auto simp add: processed_def split: sum.splits)

lemma claim_of_Cons:
  "claim_of part c (env # envs) =
     Message \<lparr>km_Offset = c, km_Value = part ! c\<rparr> env # claim_of part (Suc c) envs"
  by (simp add: claim_of_def upt_conv_Cons del: upt_Suc)

lemma consumeMessage_recording:
  assumes "ex_opts e = normalize opts"
    and "consumeMessage fl g u (recording h) msg env (Some e, st, marks) = ((exec', st', marks'), err)"
  obtains e' where "exec' = Some e'" "ex_opts e' = normalize opts" "set (snd st) \<subseteq> set (snd st')"
    "err = None \<Longrightarrow> marks' = marks @ [km_Offset msg] \<and> processed u (km_Value msg) (snd st')"
    "err \<noteq> None \<Longrightarrow> marks' = marks"
proof (cases "u (km_Value msg)")
  case (Inl x)
  then show ?thesis using assms that by (auto simp add: consumeMessage_def processed_def)
next
  case (Inr ev)
  obtain exec2 st2 res where d: "Do fl g env (Some e) (recording h ev) st = (exec2, st2, res)"
    by (metis prod_cases3)
  from Do_recording [OF assms(1) d] obtain e' where e': "exec2 = Some e'" "ex_opts e' = normalize opts"
    "set (snd st) \<subseteq> set (snd st2)" "res = None \<longrightarrow> ev \<in> set (snd st2)" by blast
  then show ?thesis using assms(2) d Inr that
    by (cases res) (auto simp add: consumeMessage_def processed_def)
qed

lemma ConsumeClaim_recording:
  assumes "ex_opts e = normalize opts"
    and "ConsumeClaim fl g u (recording h) (claim_of part c envs) (Some e, st, marks) = ((exec', st', marks'), err)"
  shows "\<exists>k e'. exec' = Some e' \<and> ex_opts e' = normalize opts \<and> set (snd st) \<subseteq> set (snd st') \<and>
    marks' = marks @ [c..<c + k] \<and> (\<forall>i. c \<le> i \<and> i < c + k \<longrightarrow> processed u (part ! i) (snd st')) \<and>
    (if err = None then k = length envs else k < length envs)"
  using assms
proof (induction envs arbitrary: c e st marks)
  case Nil
  then show ?case by (auto simp add: claim_of_def)
next
  case (Cons env envs)
  define msg where "msg = \<lparr>km_Offset = c, km_Value = part ! c\<rparr>"
  obtain exec1 st1 marks1 err1 where m:
    "consumeMessage fl g u (recording h) msg env (Some e, st, marks) = ((exec1, st1, marks1), err1)"
    by (metis prod_cases3 surj_pair)
  from consumeMessage_recording [OF Cons.prems(1) m] obtain e1 where e1: "exec1 = Some e1"
    "ex_opts e1 = normalize opts" "set (snd st) \<subseteq> set (snd st1)"
    "err1 = None \<Longrightarrow> marks1 = marks @ [c] \<and> processed u (part ! c) (snd st1)"
    "err1 \<noteq> None \<Longrightarrow> marks1 = marks" by (auto simp add: msg_def)
  show ?case
  proof (cases err1)
    case (Some x)
    then show ?thesis using Cons.prems(2) m e1
      by (intro exI [of _ 0]) (auto simp add: claim_of_Cons msg_def)
  next
    case None
    have "ConsumeClaim fl g u (recording h) (claim_of part (Suc c) envs) (Some e1, st1, marks @ [c]) =
        ((exec', st', marks'), err)"
      using Cons.prems(2) m e1(1,4) None by (simp add: claim_of_Cons msg_def)
    from Cons.IH [OF e1(2) this] obtain k e' where k: "exec' = Some e'" "ex_opts e' = normalize opts"
      "set (snd st1) \<subseteq> set (snd st')" "marks' = (marks @ [c]) @ [Suc c..<Suc c + k]"
      "\<forall>i. Suc c \<le> i \<and> i < Suc c + k \<longrightarrow> processed u (part ! i) (snd st')"
      "if err = None then k = length envs else k < length envs" by blast
    have "marks' = marks @ [c..<c + Suc k]" using k(4) by (simp add: upt_rec [of c])
    moreover have "processed u (part ! i) (snd st')" if "c \<le> i" "i < c + Suc k" for i
    proof (cases "i = c")
      case True
      then show ?thesis using e1(4) [OF None] k(3) processed_mono by blast
    qed (use that k(5) in simp)
    ultimately show ?thesis using k e1(3)
      by (intro exI [of _ "Suc k"] exI [of _ e']) (auto split: if_splits)
  qed
qed

text \<open>In a session, the offsets that are marked are exactly the consecutive ones from the first
  delivered message up to the first whose handler fails: every marked message was either
  malformed or its event completed by the handler, the failing message is not marked, its error
  ends the claim, and nothing after it is touched.\<close>

theorem claim_marks_handled:
  assumes "ConsumeClaim fl g u (recording h) (claim_of part c envs)
      (Some (NewExecutor fl opts now), (s, []), []) = ((exec', (s', completed), marks), err)"
  shows "\<exists>k. marks = [c..<c + k] \<and> (\<forall>i \<in> set marks. processed u (part ! i) completed) \<and>
    (if err = None then k = length envs else k < length envs)"
proof -
  have "ex_opts (NewExecutor fl opts now) = normalize opts" by (simp add: NewExecutor_def Let_def)
  from ConsumeClaim_recording [OF this assms] show ?thesis by auto
qed

text \<open>A consumer over its sessions: each resumes at the committed offset, with the executor and the
  state that the last one left; marking a message commits the offset after it.\<close>

fun sessions ::
  "rounding \<Rightarrow> grpc_env \<Rightarrow> (string \<Rightarrow> go_err + EventEnvelope) \<Rightarrow> 's kafka_handler \<Rightarrow> string list
     \<Rightarrow> Do_env list list \<Rightarrow> nat \<times> Executor option \<times> 's \<Rightarrow> nat \<times> Executor option \<times> 's" where
  "sessions fl g u h part [] x = x"
| "sessions fl g u h part (envs # rest) (c, exec, s) =
     (case ConsumeClaim fl g u h (claim_of part c (take (length part - c) envs)) (exec, s, []) of
        ((exec', s', marks), err) \<Rightarrow>
          sessions fl g u h part rest (foldl (\<lambda>c m. max c (m + 1)) c marks, exec', s'))"

lemma commit_upt: "foldl (\<lambda>c m. max c (Suc m)) c [c..<c + k] = c + k"
  by (induction k) simp_all

lemma sessions_invariant:
  assumes "ex_opts e = normalize opts" and "\<forall>i < c. i < length part \<and> processed u (part ! i) (snd st)"
    and "sessions fl g u (recording h) part runs (c, Some e, st) = (c', exec', st')"
  shows "\<forall>i < c'. i < length part \<and> processed u (part ! i) (snd st')"
  using assms
proof (induction runs arbitrary: c e st)
  case (Cons envs runs)
  obtain exec1 st1 marks err where m: "ConsumeClaim fl g u (recording h)
      (claim_of part c (take (length part - c) envs)) (Some e, st, []) = ((exec1, st1, marks), err)"
    by (metis prod_cases3 surj_pair)
  from ConsumeClaim_recording [OF Cons.prems(1) m] obtain k e1 where k: "exec1 = Some e1"
    "ex_opts e1 = normalize opts" "set (snd st) \<subseteq> set (snd st1)" "marks = [c..<c + k]"
    "\<forall>i. c \<le> i \<and> i < c + k \<longrightarrow> processed u (part ! i) (snd st1)"
    "k \<le> length (take (length part - c) envs)" by (auto split: if_splits)
  have "sessions fl g u (recording h) part runs (c + k, Some e1, st1) = (c', exec', st')"
    using Cons.prems(3) m k(1,4) by (simp add: commit_upt)
  moreover have "\<forall>i < c + k. i < length part \<and> processed u (part ! i) (snd st1)"
  proof (intro allI impI)
    fix i assume i: "i < c + k"
    show "i < length part \<and> processed u (part ! i) (snd st1)"
    proof (cases "i < c")
      case True
      then show ?thesis using Cons.prems(2) processed_mono [OF _ k(3)] by blast
    next
      case False
      then show ?thesis using i k(5,6) by auto
    qed
  qed
  ultimately show ?case using Cons.IH [OF k(2)] by blast
qed simp


section \<open>Publishing\<close>

text \<open>Every cached producer was made for brokers with the key under which it is cached.\<close>

definition cache_ok :: "'t producer_env \<Rightarrow> 't Producer \<Rightarrow> bool" where
  "cache_ok env p \<longleftrightarrow>
     (\<forall>(key, pid) \<in> set (pr_producers p). \<exists>bs. key = join '','' bs \<and>
        bs \<noteq> [] \<and> (\<forall>b \<in> set bs. b \<noteq> []) \<and> newSyncProducer env bs (pr_saramaConfig p) = Inr pid)"

lemma normalizeBrokers_trimmed: "b \<in> set (normalizeBrokers bs) \<Longrightarrow> b \<noteq> [] \<and> trim_space b = b"
  by (auto simp add: normalizeBrokers_def)

definition good_brokers :: "string list \<Rightarrow> bool" where
  "good_brokers bs \<longleftrightarrow> bs \<noteq> [] \<and> (\<forall>b \<in> set bs. b \<noteq> [] \<and> trim_space b = b)"

lemma good_normalized: "normalizeBrokers bs \<noteq> [] \<Longrightarrow> good_brokers (normalizeBrokers bs)"
  using normalizeBrokers_trimmed by (auto simp add: good_brokers_def)

lemma good_default: "good_brokers [defaultBroker]"
  by (simp add: good_brokers_def defaultBroker_def trim_space_def trim_func_def is_space_def)

lemma effectiveBrokers_good:
  "pr_defaultBrokers p = normalizeBrokers bs \<Longrightarrow> good_brokers (effectiveBrokers p brokers)"
  using good_normalized good_default by (auto simp add: effectiveBrokers_def Let_def)

lemma get_producer_cache:
  assumes "cache_ok env p" and "good_brokers brokers" and "get_producer env p brokers = Inr (p', pid)"
  shows "cache_ok env p' \<and> pr_saramaConfig p' = pr_saramaConfig p \<and>
    pr_defaultBrokers p' = pr_defaultBrokers p \<and>
    (\<exists>bs. join '','' bs = join '','' brokers \<and> newSyncProducer env bs (pr_saramaConfig p) = Inr pid)"
proof (cases "map_of (pr_producers p) (join '','' brokers)")
  case None
  then have n: "newSyncProducer env brokers (pr_saramaConfig p) = Inr pid"
    "p' = p\<lparr>pr_producers := (join '','' brokers, pid) # pr_producers p\<rparr>"
    using assms(3) by (auto simp add: get_producer_def Let_def split: sum.splits)
  then show ?thesis using assms(1,2) by (auto simp add: cache_ok_def good_brokers_def)
next
  case (Some x)
  then have "p' = p" "(join '','' brokers, pid) \<in> set (pr_producers p)"
    using assms(3) by (auto simp add: get_producer_def Let_def dest: map_of_SomeD)
  then show ?thesis using assms(1) by (fastforce simp add: cache_ok_def)
qed

text \<open>What is published is what is consumed.  When \<open>Publish\<close> succeeds it has sent one message,
  keyed by the event's kind, over a connection to the effective brokers (which are never empty or
  blank), and consuming that message runs the handler with the same version, kind and payload, if
  JSON decodes what it encoded.  An event without version or kind is refused before anything is
  sent.\<close>

theorem published_event_is_consumed:
  assumes "Publish env p brokers topic v k payload = (p', sent, None)"
    and "cache_ok env p" and "pr_defaultBrokers p = normalizeBrokers bs"
    and "\<forall>e body. json_Marshal env e = Inr body \<longrightarrow> u body = Inr e"
  shows "\<exists>pid msg. sent = [(pid, msg)] \<and> msg_Topic msg = topic \<and> msg_Key msg = k \<and> v \<noteq> [] \<and> k \<noteq> [] \<and>
    good_brokers (effectiveBrokers p brokers) \<and> cache_ok env p' \<and>
    (\<exists>bs. join '','' bs = join '','' (effectiveBrokers p brokers) \<and>
       newSyncProducer env bs (pr_saramaConfig p) = Inr pid) \<and>
    (\<forall>off. consumeMessage fl g u h \<lparr>km_Offset = off, km_Value = msg_Value msg\<rparr> denv (Some x, s, marks) =
       (case Do fl g denv (Some x) (h (NewEventEnvelope v k payload)) s of
          (x', s', Some err) \<Rightarrow> ((x', s', marks), Some err)
        | (x', s', None) \<Rightarrow> ((x', s', marks @ [off]), None)))"
proof -
  define e where "e = NewEventEnvelope v k payload"
  note good = effectiveBrokers_good [OF assms(3), of brokers]
  from assms(1) obtain body p1 pid msg where m: "json_Marshal env e = Inr body"
      "get_producer env p (effectiveBrokers p brokers) = Inr (p1, pid)" "p' = p1"
      "msg = \<lparr>msg_Topic = topic, msg_Key = k, msg_Value = body\<rparr>" "sent = [(pid, msg)]"
      "Envelope_Validate e = None"
    by (auto simp add: Publish_def Let_def e_def split: option.splits sum.splits)
  have "v \<noteq> []" "k \<noteq> []"
    using m(6) by (auto simp add: e_def Envelope_Validate_def NewEventEnvelope_def split: if_splits)
  moreover have "u body = Inr e" using assms(4) m(1) by blast
  moreover note get_producer_cache [OF assms(2) good m(2)]
  ultimately show ?thesis
    using m(3-5) good by (auto simp add: consumeMessage_def e_def split: option.splits prod.splits)
qed

section \<open>Choice of brokers\<close>

text \<open>The brokers of a service are never empty, and none is blank or padded.  They are those of
  the configuration file if it names any, else those of the manifest, else those of the
  environment, else the local default.\<close>

theorem BrokersFromLoader_choice:
  "good_brokers (BrokersFromLoader env loader kind manifestBrokers) \<and>
   BrokersFromLoader env loader kind manifestBrokers =
     (let ondisk = (case loader of None \<Rightarrow> []
                  | Some load \<Rightarrow> specBrokers (load (if kind = [] then ''kafka'' else kind)))
      in if ondisk \<noteq> [] then ondisk
         else if normalizeBrokers manifestBrokers \<noteq> [] then normalizeBrokers manifestBrokers
         else if env \<noteq> [] \<and> splitBrokers env \<noteq> [] then splitBrokers env
         else [defaultBroker])"
proof -
  have idem: "normalizeBrokers (normalizeBrokers bs) = normalizeBrokers bs" for bs
  proof -
    have "map trim_space (normalizeBrokers bs) = normalizeBrokers bs"
      using normalizeBrokers_trimmed by (intro map_idI) auto
    then show ?thesis unfolding normalizeBrokers_def [of "normalizeBrokers bs"]
      using normalizeBrokers_trimmed by (auto intro!: filter_True)
  qed
  have dflt: "normalizeBrokers [defaultBroker] = [defaultBroker]"
    using good_default by (simp add: good_brokers_def normalizeBrokers_def)
  have split: "normalizeBrokers (splitBrokers env) = splitBrokers env"
    by (simp add: splitBrokers_def idem)
  define kd where "kd = (if kind = [] then ''kafka'' else kind)"
  define ondisk where "ondisk = (case loader of None \<Rightarrow> [] | Some load \<Rightarrow> specBrokers (load kd))"
  have fb: "(if normalizeBrokers (fallbackBrokers env manifestBrokers) \<noteq> []
       then normalizeBrokers (fallbackBrokers env manifestBrokers) else [defaultBroker]) =
     (if normalizeBrokers manifestBrokers \<noteq> [] then normalizeBrokers manifestBrokers
      else if env \<noteq> [] \<and> splitBrokers env \<noteq> [] then splitBrokers env else [defaultBroker])"
    by (simp add: fallbackBrokers_def Let_def idem split dflt)
  have eq: "BrokersFromLoader env loader kind manifestBrokers =
     (if ondisk \<noteq> [] then ondisk
      else if normalizeBrokers manifestBrokers \<noteq> [] then normalizeBrokers manifestBrokers
      else if env \<noteq> [] \<and> splitBrokers env \<noteq> [] then splitBrokers env else [defaultBroker])"
  proof (cases "ondisk = []")
    case True
    have "BrokersFromLoader env loader kind manifestBrokers =
       (if normalizeBrokers (fallbackBrokers env manifestBrokers) \<noteq> []
        then normalizeBrokers (fallbackBrokers env manifestBrokers) else [defaultBroker])"
      using True by (auto simp add: BrokersFromLoader_def ConfigFromLoader_def Brokers_def specBrokers_def
          Let_def ondisk_def kd_def [symmetric] empty_Spec_def normalizeBrokers_def
          split: option.splits)
    then show ?thesis using True fb by simp
  next
    case False
    then obtain load cfg spec where l: "loader = Some load" "load kd = Some cfg" "kc_Spec cfg = Some spec"
        "normalizeBrokers (ks_Brokers spec) = ondisk"
      by (auto simp add: ondisk_def specBrokers_def split: option.splits)
    then show ?thesis using False
      by (simp add: BrokersFromLoader_def ConfigFromLoader_def Brokers_def specBrokers_def Let_def
          kd_def [symmetric])
  qed
  have "good_brokers ondisk" if "ondisk \<noteq> []"
    using that good_normalized by (auto simp add: ondisk_def specBrokers_def split: option.splits)
  then have g: "good_brokers (BrokersFromLoader env loader kind manifestBrokers)"
    unfolding eq using good_normalized good_default by (auto simp add: splitBrokers_def)
  show ?thesis
    unfolding kd_def [symmetric] ondisk_def [symmetric] Let_def by (rule conjI [OF g eq])
qed

text \<open>A configured client id is not used by a consumer: the id of the group replaces it.\<close>

lemma consumer_client_id:
  "gid \<noteq> [] \<Longrightarrow> sc_ClientID (Consumer_config NewConfig c gid) = ''zengo-platform-consumer-'' @ gid"
  by (simp add: Consumer_config_def Let_def)

section \<open>A concrete consumer and producer\<close>

definition demo_event :: "string \<Rightarrow> EventEnvelope" where
  "demo_event v = NewEventEnvelope ''v1'' v v"

definition demo_decode :: "string \<Rightarrow> go_err + EventEnvelope" where
  "demo_decode v = (if v = ''?'' then Inl (PlainErr ''bad json'') else Inr (demo_event v))"

text \<open>The handler fails at its second call.\<close>

definition demo_consumer :: "nat kafka_handler" where
  "demo_consumer e t n = (n + 1, if n = 1 then Some (PlainErr ''db is down'') else None)"

lemma demo_zero_executor:
  "NewExecutor exact zero_Options 0 =
     \<lparr>ex_opts = zero_Options\<lparr>po_Retry := \<lparr>rt_Attempts = 1, rt_Backoff = 0\<rparr>\<rparr>, ex_limiter = None,
      ex_breaker = None, ex_sem = None\<rparr>"
  by (simp add: NewExecutor_def zero_Options_def normalize_def)

lemma demo_Do_zero:
  "Do exact g env (Some (NewExecutor exact zero_Options 0)) fn s =
     (Some (NewExecutor exact zero_Options 0), fn None s)"
proof -
  obtain s' r where "fn None s = (s', r)" by (metis surj_pair)
  then show ?thesis
    unfolding demo_zero_executor
    by (cases r) (simp_all add: Do_def admit_def zero_Options_def finish_def)
qed

lemma demo_claim:
  "ConsumeClaim exact demo_grpc demo_decode (recording demo_consumer)
     (claim_of [''a'', ''?'', ''b'', ''c''] 0 [demo_Do_env, demo_Do_env, demo_Do_env, demo_Do_env])
     (Some (NewExecutor exact zero_Options 0), (0, []), []) =
   ((Some (NewExecutor exact zero_Options 0), (2, [demo_event ''a'']), [0, 1]), Some (PlainErr ''db is down''))"
  by (simp add: claim_of_Cons consumeMessage_def demo_decode_def demo_Do_zero recording_def
      demo_consumer_def)

theorem claim_marks_handled_witness: "\<exists>k. [0, 1] = [0..<0 + k] \<and> k < (4::nat)"
  using claim_marks_handled [OF demo_claim] by auto

lemma demo_sessions:
  "sessions exact demo_grpc demo_decode (recording demo_consumer) [''a'', ''?'', ''b'']
     [[demo_Do_env, demo_Do_env, demo_Do_env], [demo_Do_env]]
     (0, Some (NewExecutor exact zero_Options 0), (0, [])) =
   (3, Some (NewExecutor exact zero_Options 0), (3, [demo_event ''a'', demo_event ''b'']))"
  by (simp add: claim_of_Cons consumeMessage_def demo_decode_def demo_Do_zero recording_def
      demo_consumer_def) (simp add: claim_of_def)


definition demo_producer_env :: "unit producer_env" where
  "demo_producer_env = \<lparr>newSyncProducer = (\<lambda>bs cfg. Inr (length bs)),
     json_Marshal = (\<lambda>e. if e = demo_event (ev_Kind e) \<and> ev_Kind e \<noteq> ''?'' then Inr (ev_Kind e)
        else Inl (PlainErr ''unsupported'')),
     SendMessage = (\<lambda>pid msg. None)\<rparr>"

definition demo_sarama :: "unit sarama_Config" where
  "demo_sarama = \<lparr>sc_ClientID = [], sc_RequiredAcks = [], sc_ReturnSuccesses = False,
     sc_Partitioner = [], sc_ReturnErrors = False, sc_TLS = None\<rparr>"

lemma demo_Publish:
  "\<exists>p' sent. Publish demo_producer_env (NewProducer demo_sarama [''k:9092'']) [] ''users'' ''v1'' ''a'' ''a''
     = (p', sent, None)"
  by (simp add: Publish_def NewProducer_def newProducerWithConfig_def effectiveBrokers_def
      Envelope_Validate_def NewEventEnvelope_def demo_producer_env_def demo_event_def get_producer_def
      Let_def)

theorem published_event_is_consumed_witness:
  "\<exists>p' pid msg. Publish demo_producer_env (NewProducer demo_sarama [''k:9092'']) [] ''users'' ''v1'' ''a'' ''a''
     = (p', [(pid, msg)], None) \<and> msg_Topic msg = ''users''"
proof -
  obtain p' sent where p: "Publish demo_producer_env (NewProducer demo_sarama [''k:9092''])
      [] ''users'' ''v1'' ''a'' ''a'' = (p', sent, None)" using demo_Publish by blast
  have c: "cache_ok demo_producer_env (NewProducer demo_sarama [''k:9092''])"
    "pr_defaultBrokers (NewProducer demo_sarama [''k:9092'']) = normalizeBrokers [''k:9092'']"
    by (simp_all add: cache_ok_def NewProducer_def newProducerWithConfig_def)
  have u: "\<forall>e body. json_Marshal demo_producer_env e = Inr body \<longrightarrow> demo_decode body = Inr e"
    by (auto simp add: demo_producer_env_def demo_decode_def split: if_splits)
  show ?thesis 
    using published_event_is_consumed [OF p c u, where fl = exact and g = demo_grpc and
        h = demo_consumer and denv = demo_Do_env and x = "NewExecutor exact zero_Options 0" and
        s = 0 and marks = "[]"] p by blast
qed

end
