(* ===== verification/Health.thy ===== *)
theory Health
  imports GoError
begin

text \<open>
  Kubernetes probes (\<open>sdk/health/health.go\<close>).

  A check is a function from the moment at which it runs to its error; a map of checks is the
  list of its entries, without repeated names, in iteration order.  The two atomic flags are the
  state of a handler.
\<close>

section \<open>Model\<close>

type_synonym 'c Check = "'c \<Rightarrow> go_err option"

record 'c HealthOptions =
  ho_Liveness :: "(string \<times> 'c Check) list"
  ho_Readiness :: "(string \<times> 'c Check) list"
  ho_Startup :: "(string \<times> 'c Check) list"

record 'c Handler =
  hd_liveness :: "(string \<times> 'c Check) list"
  hd_readiness :: "(string \<times> 'c Check) list"
  hd_startup :: "(string \<times> 'c Check) list"
  hd_shuttingDown :: bool
  hd_startupComplete :: bool

record probeState =
  ps_ShuttingDown :: bool
  ps_StartupComplete :: bool

record probeResponse =
  pr_Probe :: string
  pr_Status :: string
  pr_State :: probeState
  pr_Checks :: "string \<rightharpoonup> string"

definition cloneChecks :: "(string \<times> 'c Check) list \<Rightarrow> (string \<times> 'c Check) list" where
  "cloneChecks src = (if length src = 0 then [] else map (\<lambda>(name, check). (name, check)) src)"

definition New_Handler :: "'c HealthOptions \<Rightarrow> 'c Handler" where
  "New_Handler opts =
     \<lparr>hd_liveness = cloneChecks (ho_Liveness opts), hd_readiness = cloneChecks (ho_Readiness opts),
      hd_startup = cloneChecks (ho_Startup opts), hd_shuttingDown = False, hd_startupComplete = False\<rparr>"

definition MarkShuttingDown :: "'c Handler \<Rightarrow> 'c Handler" where
  "MarkShuttingDown h = h\<lparr>hd_shuttingDown := True\<rparr>"

fun runChecks ::
  "grpc_env \<Rightarrow> 'c \<Rightarrow> (string \<times> 'c Check) list \<Rightarrow> (string \<rightharpoonup> string) \<Rightarrow> int \<Rightarrow> (string \<rightharpoonup> string) \<times> int" where
  "runChecks g ctx [] results status = (results, status)"
| "runChecks g ctx ((name, check) # checks) results status =
     (case check ctx of
        Some err \<Rightarrow> runChecks g ctx checks (results(name \<mapsto> Error_text g err)) 503
      | None \<Rightarrow> runChecks g ctx checks (results(name \<mapsto> ''ok'')) status)"

text \<open>\<open>serve\<close> returns the handler, the HTTP status and the body; the body of an unknown probe is
  \<open>None\<close>.\<close>

definition serve ::
  "grpc_env \<Rightarrow> 'c \<Rightarrow> string \<Rightarrow> 'c Handler \<Rightarrow> 'c Handler \<times> int \<times> probeResponse option" where
  "serve g ctx probe h =
     (let resp = \<lparr>pr_Probe = probe, pr_Status = [],
            pr_State = \<lparr>ps_ShuttingDown = hd_shuttingDown h, ps_StartupComplete = hd_startupComplete h\<rparr>,
            pr_Checks = Map.empty\<rparr>;
          reply = (\<lambda>h status resp.
            (h, status, Some (resp\<lparr>pr_Status := (if status = 200 then ''ok'' else ''failed'')\<rparr>)))
      in if probe = ''liveness''
         then (case runChecks g ctx (hd_liveness h) Map.empty 200 of
                 (checks, status) \<Rightarrow> reply h status (resp\<lparr>pr_Checks := checks\<rparr>))
         else if probe = ''readiness''
         then (case runChecks g ctx (hd_readiness h) Map.empty 200 of
                 (checks, status) \<Rightarrow>
                   reply h (if ps_ShuttingDown (pr_State resp) then 503 else status)
                     (resp\<lparr>pr_Checks := checks\<rparr>))
         else if probe = ''startup''
         then (if ps_StartupComplete (pr_State resp) then (h, 200, Some (resp\<lparr>pr_Status := ''ok''\<rparr>))
               else (let checks = hd_startup h;
                         checks = (if length checks = 0 then hd_readiness h else checks)
                     in case runChecks g ctx checks Map.empty 200 of
                          (results, status) \<Rightarrow>
                            if status = 200
                            then reply (h\<lparr>hd_startupComplete := True\<rparr>) status
                                   (resp\<lparr>pr_Checks := results,
                                         pr_State := (pr_State resp)\<lparr>ps_StartupComplete := True\<rparr>\<rparr>)
                            else reply h status (resp\<lparr>pr_Checks := results\<rparr>)))
         else (h, 404, None))"

text \<open>The handlers that \<open>Register\<close> mounts.\<close>

definition Register_routes :: "grpc_env \<Rightarrow> (string \<times> ('c \<Rightarrow> 'c Handler \<Rightarrow> 'c Handler \<times> int \<times> probeResponse option)) list" where
  "Register_routes g =
     [(''/livez'', \<lambda>ctx. serve g ctx ''liveness''), (''/readyz'', \<lambda>ctx. serve g ctx ''readiness''),
      (''/startupz'', \<lambda>ctx. serve g ctx ''startup'')]"

section \<open>Properties\<close>

definition all_pass :: "'c \<Rightarrow> (string \<times> 'c Check) list \<Rightarrow> bool" where
  "all_pass ctx checks \<longleftrightarrow> (\<forall>(name, check) \<in> set checks. check ctx = None)"

definition check_results :: "grpc_env \<Rightarrow> 'c \<Rightarrow> (string \<times> 'c Check) list \<Rightarrow> (string \<times> string) list" where
  "check_results g ctx checks =
     map (\<lambda>(name, check). (name, case check ctx of None \<Rightarrow> ''ok'' | Some err \<Rightarrow> Error_text g err)) checks"

lemma upd_map_add: "k \<notin> dom m \<Longrightarrow> f(k \<mapsto> v) ++ m = (f ++ m)(k \<mapsto> v)"
  by (rule ext) (auto simp add: map_add_def split: option.splits)

lemma runChecks_result:
  "distinct (map fst checks) \<Longrightarrow>
     runChecks g ctx checks results status =
       (results ++ map_of (check_results g ctx checks), if all_pass ctx checks then status else 503)"
proof (induction checks arbitrary: results status)
  case (Cons c checks)
  obtain name check where c: "c = (name, check)" by force
  define v where "v = (case check ctx of None \<Rightarrow> ''ok'' | Some err \<Rightarrow> Error_text g err)"
  have "dom (map_of (check_results g ctx checks)) = fst ` set checks"
    by (simp add: dom_map_of_conv_image_fst check_results_def image_image case_prod_beta)
  then have n: "name \<notin> dom (map_of (check_results g ctx checks))" using Cons.prems c by simp
  have r: "map_of (check_results g ctx (c # checks)) = (map_of (check_results g ctx checks))(name \<mapsto> v)"
    unfolding check_results_def list.map c prod.case map_of.simps fst_conv snd_conv v_def ..
  have step: "runChecks g ctx (c # checks) results status =
      runChecks g ctx checks (results(name \<mapsto> v)) (if check ctx = None then status else 503)"
    by (cases "check ctx") (simp_all add: c v_def)
  have d: "distinct (map fst checks)" using Cons.prems by simp
  have ap: "all_pass ctx (c # checks) = (check ctx = None \<and> all_pass ctx checks)"
    by (simp add: all_pass_def c)
  show ?case
    unfolding step r Cons.IH [OF d] upd_map_add [OF n] map_add_upd ap
    by (cases "check ctx = None"; cases "all_pass ctx checks")
      (simp_all only: if_True if_False simp_thms)
qed (simp add: all_pass_def check_results_def)

lemma cloneChecks_id [simp]: "cloneChecks cs = cs"
  by (simp add: cloneChecks_def)

text \<open>The history of a handler: probes with the moment at which they run, and the beginning of the
  shutdown.\<close>

datatype 'c health_event = Probe string 'c | Shutdown

fun health_step :: "grpc_env \<Rightarrow> 'c Handler \<Rightarrow> 'c health_event \<Rightarrow> 'c Handler" where
  "health_step g h (Probe probe ctx) = fst (serve g ctx probe h)"
| "health_step g h Shutdown = MarkShuttingDown h"

definition startup_checks :: "'c HealthOptions \<Rightarrow> (string \<times> 'c Check) list" where
  "startup_checks opts = (if ho_Startup opts = [] then ho_Readiness opts else ho_Startup opts)"

definition wf_checks :: "'c HealthOptions \<Rightarrow> bool" where
  "wf_checks opts \<longleftrightarrow> distinct (map fst (ho_Liveness opts)) \<and> distinct (map fst (ho_Readiness opts)) \<and>
     distinct (map fst (ho_Startup opts))"

text \<open>The flags that a history should have set.\<close>

definition started :: "'c HealthOptions \<Rightarrow> 'c health_event list \<Rightarrow> bool" where
  "started opts es \<longleftrightarrow> (\<exists>ctx. Probe ''startup'' ctx \<in> set es \<and> all_pass ctx (startup_checks opts))"

lemma serve_flags:
  assumes "wf_checks opts" and "h = (New_Handler opts)\<lparr>hd_shuttingDown := sd, hd_startupComplete := sc\<rparr>"
  shows "fst (serve g ctx probe h) = h\<lparr>hd_startupComplete :=
      sc \<or> probe = ''startup'' \<and> all_pass ctx (startup_checks opts)\<rparr>"
  using assms
  by (simp add: serve_def New_Handler_def runChecks_result wf_checks_def startup_checks_def Let_def)

lemma health_run:
  assumes "wf_checks opts"
  shows "foldl (health_step g) (New_Handler opts) es =
    (New_Handler opts)\<lparr>hd_shuttingDown := Shutdown \<in> set es, hd_startupComplete := started opts es\<rparr>"
proof (induction es rule: rev_induct)
  case Nil
  then show ?case by (simp add: New_Handler_def started_def)
next
  case (snoc e es)
  show ?case
  proof (cases e)
    case (Probe probe ctx)
    have "started opts (es @ [e]) = (started opts es \<or> probe = ''startup'' \<and> all_pass ctx (startup_checks opts))"
      using Probe by (auto simp add: started_def)
    then show ?thesis
      using serve_flags [OF assms refl, where sd = "Shutdown \<in> set es" and sc = "started opts es" and
          g = g and ctx = ctx and probe = probe] snoc Probe
      by simp
  next
    case Shutdown
    then show ?thesis using snoc by (auto simp add: MarkShuttingDown_def started_def)
  qed
qed

text \<open>What a probe answers depends on the history in exactly one way.  After any history, the
  liveness probe succeeds if and only if all liveness checks pass now, also during shutdown; the
  readiness probe if and only if no shutdown has begun and all readiness checks pass now; and the
  startup probe if and only if its checks (the readiness checks when there are none) pass now or
  have passed at any earlier startup probe.\<close>

theorem probe_answers:
  fixes g :: grpc_env and es :: "'c health_event list"
  assumes "wf_checks opts"
  defines "h \<equiv> foldl (health_step g) (New_Handler opts) es"
  shows "(fst (snd (serve g ctx ''liveness'' h)) = 200) = all_pass ctx (ho_Liveness opts) \<and>
    (fst (snd (serve g ctx ''readiness'' h)) = 200) =
       (Shutdown \<notin> set es \<and> all_pass ctx (ho_Readiness opts)) \<and>
    (fst (snd (serve g ctx ''startup'' h)) = 200) =
       (all_pass ctx (startup_checks opts) \<or>
        (\<exists>c. Probe ''startup'' c \<in> set es \<and> all_pass c (startup_checks opts)))"
  using assms unfolding h_def health_run [OF assms(1)]
  by (simp add: serve_def New_Handler_def runChecks_result wf_checks_def startup_checks_def
      started_def Let_def)

definition demo_health :: "nat HealthOptions" where
  "demo_health = \<lparr>ho_Liveness = [],
     ho_Readiness = [(''db'', \<lambda>t. if t < 5 then Some (PlainErr ''down'') else None)], ho_Startup = []\<rparr>"

theorem probe_answers_witness:
  "\<forall>g. fst (snd (serve g 3 ''startup'' (foldl (health_step g) (New_Handler demo_health)
     [Probe ''startup'' 7, Shutdown]))) = 200 \<and>
   fst (snd (serve g 9 ''readiness'' (foldl (health_step g) (New_Handler demo_health)
     [Probe ''startup'' 7, Shutdown]))) \<noteq> 200"
proof
  fix g
  have wf: "wf_checks demo_health" by (simp add: wf_checks_def demo_health_def)
  have "all_pass 7 (startup_checks demo_health)"
    by (simp add: all_pass_def startup_checks_def demo_health_def)
  then show "fst (snd (serve g 3 ''startup'' (foldl (health_step g) (New_Handler demo_health)
     [Probe ''startup'' 7, Shutdown]))) = 200 \<and>
   fst (snd (serve g 9 ''readiness'' (foldl (health_step g) (New_Handler demo_health)
     [Probe ''startup'' 7, Shutdown]))) \<noteq> 200"
    using probe_answers [OF wf, of g 3 "[Probe ''startup'' 7, Shutdown]"]
      probe_answers [OF wf, of g 9 "[Probe ''startup'' 7, Shutdown]"] by auto
qed

end
