(* ===== verification/AppLifecycle.thy ===== *)
theory AppLifecycle
  imports GoError
begin

text \<open>
  The lifecycle of an application (\<open>app/app.go\<close>): it runs its components until one exits or the
  context ends, and shuts everything down in order.

  A hook, a component's \<open>Shutdown\<close> and a cleanup read and change a state and may fail.  What the
  goroutines of the components do is input: the first event of the \<open>select\<close>, whether all
  components stop before the deadline, and the results still in the channel, in order.
\<close>

section \<open>Model\<close>

type_synonym 's step = "'s \<Rightarrow> 's \<times> go_err option"

record 's NamedComponent =
  nc_Name :: string
  nc_Shutdown :: "'s step"

record 's App =
  app_components :: "'s NamedComponent list"
  app_beforeShutdown :: "'s step list"
  app_cleanups :: "'s step list"
  app_ShutdownTimeout :: int

definition New_App :: "int \<Rightarrow> 's App" where
  "New_App timeout =
     (let timeout = (if timeout = 0 then 15000000000 else timeout)
      in \<lparr>app_components = [], app_beforeShutdown = [], app_cleanups = [], app_ShutdownTimeout = timeout\<rparr>)"

definition AddCleanup :: "'s step \<Rightarrow> 's App \<Rightarrow> 's App" where
  "AddCleanup fn a = a\<lparr>app_cleanups := app_cleanups a @ [fn]\<rparr>"

definition AddBeforeShutdown :: "'s step \<Rightarrow> 's App \<Rightarrow> 's App" where
  "AddBeforeShutdown fn a = a\<lparr>app_beforeShutdown := app_beforeShutdown a @ [fn]\<rparr>"

definition AddComponent :: "string \<Rightarrow> 's step \<Rightarrow> 's App \<Rightarrow> 's App" where
  "AddComponent name c a =
     a\<lparr>app_components := app_components a @ [\<lparr>nc_Name = name, nc_Shutdown = c\<rparr>]\<rparr>"

text \<open>One iteration of the three loops of \<open>shutdown\<close>: run the step and join its error, wrapped.\<close>

definition shutdown_step ::
  "string \<Rightarrow> 's step \<Rightarrow> 's \<times> go_err option \<Rightarrow> 's \<times> go_err option" where
  "shutdown_step what fn acc =
     (case acc of (s, shutdownErr) \<Rightarrow>
        (case fn s of
           (s', None) \<Rightarrow> (s', shutdownErr)
         | (s', Some err) \<Rightarrow> (s', errors_Join [shutdownErr, Some (WrapErr what err)])))"

fun run_hooks :: "nat \<Rightarrow> 's step list \<Rightarrow> 's \<times> go_err option \<Rightarrow> 's \<times> go_err option" where
  "run_hooks i [] acc = acc"
| "run_hooks i (hook # hooks) acc =
     run_hooks (i + 1) hooks (shutdown_step (''before shutdown hook '' @ itoa (int i)) hook acc)"

fun run_components :: "'s NamedComponent list \<Rightarrow> 's \<times> go_err option \<Rightarrow> 's \<times> go_err option" where
  "run_components [] acc = acc"
| "run_components (c # cs) acc =
     run_components cs (shutdown_step (''shutdown component '' @ nc_Name c) (nc_Shutdown c) acc)"

text \<open>\<open>run_cleanups fns i\<close> runs the cleanups \<open>i - 1, \<dots>, 0\<close>.\<close>

fun run_cleanups :: "'s step list \<Rightarrow> nat \<Rightarrow> 's \<times> go_err option \<Rightarrow> 's \<times> go_err option" where
  "run_cleanups fns 0 acc = acc"
| "run_cleanups fns (Suc i) acc =
     run_cleanups fns i (shutdown_step (''cleanup hook '' @ itoa (int i)) (fns ! i) acc)"

definition shutdown :: "'s App \<Rightarrow> 's step" where
  "shutdown a s =
     run_cleanups (app_cleanups a) (length (app_cleanups a))
       (run_components (app_components a) (run_hooks 0 (app_beforeShutdown a) (s, None)))"

datatype first_event = ComponentExit "go_err option" | ContextDone

definition ErrServerClosed :: go_err where
  "ErrServerClosed = SentinelErr ''http: Server closed''"

definition Is_ServerClosed :: "go_err \<Rightarrow> bool" where
  "Is_ServerClosed err = err_Is (\<lambda>x. x = ErrServerClosed) err"

text \<open>\<open>Run\<close>: \<open>allStopped\<close> is the branch of the second \<open>select\<close>, \<open>ctxErr\<close> the error of the
  shutdown context when it ended first, \<open>rest\<close> what is left in the closed channel.\<close>

definition Run ::
  "first_event \<Rightarrow> bool \<Rightarrow> go_err \<Rightarrow> go_err option list \<Rightarrow> 's App \<Rightarrow> 's step" where
  "Run first allStopped ctxErr rest a s =
     (let runErr = (case first of
            ComponentExit (Some err) \<Rightarrow> if \<not> Is_ServerClosed err then Some err else None
          | _ \<Rightarrow> None)
      in case shutdown a s of (s', shutdownErr) \<Rightarrow>
         (let shutdownErr = (if allStopped then shutdownErr
                else errors_Join [shutdownErr, Some (WrapErr ''wait for components'' ctxErr)]);
              runErr = (if allStopped
                then foldl (\<lambda>runErr err. case err of
                         Some e \<Rightarrow> if \<not> Is_ServerClosed e then errors_Join [runErr, Some e] else runErr
                       | None \<Rightarrow> runErr) runErr rest
                else runErr)
          in (s', errors_Join [runErr, shutdownErr])))"

section \<open>Properties\<close>

text \<open>The steps of a shutdown in the order in which they should run.\<close>

definition shutdown_order :: "'s App \<Rightarrow> 's step list" where
  "shutdown_order a =
     app_beforeShutdown a @ map nc_Shutdown (app_components a) @ rev (app_cleanups a)"

text \<open>Running steps one after the other, each on the state that the last one left, collecting the
  errors.\<close>

fun run_all :: "'s step list \<Rightarrow> 's \<Rightarrow> 's \<times> go_err list" where
  "run_all [] s = (s, [])"
| "run_all (f # fs) s =
     (case f s of (s', r) \<Rightarrow> (case run_all fs s' of (s'', es) \<Rightarrow>
        (s'', (case r of None \<Rightarrow> es | Some e \<Rightarrow> e # es))))"

text \<open>An error carries others when \<open>errors.Is\<close> finds in it whatever it finds in one of them, and
  there is one only if there is another.\<close>

definition carries :: "go_err option \<Rightarrow> go_err list \<Rightarrow> bool" where
  "carries r es \<longleftrightarrow>
     (r = None \<longleftrightarrow> es = []) \<and>
     (\<forall>p e. e \<in> set es \<and> err_Is p e \<longrightarrow> (case r of None \<Rightarrow> False | Some x \<Rightarrow> err_Is p x))"

lemma carries_None [simp]: "carries None []"
  by (simp add: carries_def)

lemma carries_Join:
  "carries a es \<Longrightarrow> carries b fs \<Longrightarrow> carries (errors_Join [a, b]) (es @ fs)"
  unfolding carries_def errors_Join_def
  by (cases a; cases b) (auto simp add: map_filter_simps)

lemma carries_Wrap: "carries (Some (WrapErr t e)) [e]"
  by (simp add: carries_def)

lemma carries_Some: "carries (Some e) [e]"
  by (simp add: carries_def)

lemma shutdown_step_carries:
  assumes "carries (snd acc) es"
  shows "shutdown_step what f acc = (fst (f (fst acc)), snd (shutdown_step what f acc)) \<and>
    carries (snd (shutdown_step what f acc))
      (es @ (case snd (f (fst acc)) of None \<Rightarrow> [] | Some e \<Rightarrow> [e]))"
  using assms carries_Join [OF assms carries_Wrap]
  by (cases acc) (auto simp add: shutdown_step_def split: prod.splits option.splits)

lemma run_all_append:
  "run_all (fs @ gs) s =
     (fst (run_all gs (fst (run_all fs s))), snd (run_all fs s) @ snd (run_all gs (fst (run_all fs s))))"
  by (induction fs arbitrary: s) (auto split: prod.splits option.splits)

definition folds :: "'s step list \<Rightarrow> ('s \<times> go_err option \<Rightarrow> 's \<times> go_err option) \<Rightarrow> bool" where
  "folds fs run \<longleftrightarrow>
     (\<forall>acc es. carries (snd acc) es \<longrightarrow>
        fst (run acc) = fst (run_all fs (fst acc)) \<and> carries (snd (run acc)) (es @ snd (run_all fs (fst acc))))"

lemma folds_Nil: "folds [] (\<lambda>acc. acc)"
  by (simp add: folds_def)

lemma folds_Cons:
  assumes "folds fs run"
  shows "folds (f # fs) (\<lambda>acc. run (shutdown_step what f acc))"
  unfolding folds_def
proof (intro allI impI)
  fix acc :: "'a \<times> go_err option" and es assume c: "carries (snd acc) es"
  obtain s1 r where f: "f (fst acc) = (s1, r)" by force
  have s: "fst (shutdown_step what f acc) = s1"
    "carries (snd (shutdown_step what f acc)) (es @ (case r of None \<Rightarrow> [] | Some e \<Rightarrow> [e]))"
    using shutdown_step_carries [OF c, of what f] f by (metis fst_conv, simp)
  from assms s(2) have "fst (run (shutdown_step what f acc)) = fst (run_all fs s1) \<and>
      carries (snd (run (shutdown_step what f acc)))
        ((es @ (case r of None \<Rightarrow> [] | Some e \<Rightarrow> [e])) @ snd (run_all fs s1))"
    unfolding folds_def s(1) [symmetric] by blast
  then show "fst (run (shutdown_step what f acc)) = fst (run_all (f # fs) (fst acc)) \<and>
      carries (snd (run (shutdown_step what f acc))) (es @ snd (run_all (f # fs) (fst acc)))"
    using f by (auto split: prod.splits option.splits)
qed

lemma folds_comp: "folds fs run \<Longrightarrow> folds gs run' \<Longrightarrow> folds (fs @ gs) (\<lambda>acc. run' (run acc))"
  unfolding folds_def
proof (intro allI impI)
  fix acc :: "'a \<times> go_err option" and es
  assume a: "\<forall>acc es. carries (snd acc) es \<longrightarrow> fst (run acc) = fst (run_all fs (fst acc)) \<and>
      carries (snd (run acc)) (es @ snd (run_all fs (fst acc)))"
    and b: "\<forall>acc es. carries (snd acc) es \<longrightarrow> fst (run' acc) = fst (run_all gs (fst acc)) \<and>
      carries (snd (run' acc)) (es @ snd (run_all gs (fst acc)))"
    and c: "carries (snd acc) es"
  from a c have r: "fst (run acc) = fst (run_all fs (fst acc))"
    "carries (snd (run acc)) (es @ snd (run_all fs (fst acc)))" by blast+
  from b r(2) have "fst (run' (run acc)) = fst (run_all gs (fst (run acc))) \<and>
      carries (snd (run' (run acc))) ((es @ snd (run_all fs (fst acc))) @ snd (run_all gs (fst (run acc))))"
    by blast
  then show "fst (run' (run acc)) = fst (run_all (fs @ gs) (fst acc)) \<and>
      carries (snd (run' (run acc))) (es @ snd (run_all (fs @ gs) (fst acc)))"
    unfolding run_all_append fst_conv snd_conv r(1) append_assoc .
qed

lemma folds_hooks: "folds hooks (run_hooks i hooks)"
proof (induction hooks arbitrary: i)
  case (Cons h hooks)
  show ?case using folds_Cons [OF Cons.IH [of "i + 1"]] by simp
qed (simp add: folds_def)

lemma folds_components: "folds (map nc_Shutdown cs) (run_components cs)"
proof (induction cs)
  case (Cons c cs)
  show ?case using folds_Cons [OF Cons.IH] by simp
qed (simp add: folds_def)

lemma folds_cleanups: "i \<le> length fns \<Longrightarrow> folds (rev (take i fns)) (run_cleanups fns i)"
proof (induction i)
  case (Suc i)
  then show ?case using folds_Cons [OF Suc.IH] by (simp add: take_Suc_conv_app_nth)
qed (simp add: folds_def)

lemma shutdown_runs_all:
  "fst (shutdown a s) = fst (run_all (shutdown_order a) s) \<and>
   carries (snd (shutdown a s)) (snd (run_all (shutdown_order a) s))"
proof -
  have "folds (shutdown_order a) (\<lambda>acc. run_cleanups (app_cleanups a) (length (app_cleanups a))
      (run_components (app_components a) (run_hooks 0 (app_beforeShutdown a) acc)))"
    unfolding shutdown_order_def append_assoc [symmetric]
    using folds_comp [OF folds_comp [OF folds_hooks folds_components] folds_cleanups]
    by (metis append_assoc order_refl take_all)
  then show ?thesis unfolding folds_def shutdown_def by (metis append_Nil carries_None fst_conv snd_conv)
qed

text \<open>The failures of components that count: an HTTP server that was closed is not one.\<close>

definition component_failures :: "go_err option list \<Rightarrow> go_err list" where
  "component_failures rs = filter (\<lambda>e. \<not> Is_ServerClosed e) (List.map_filter (\<lambda>r. r) rs)"

lemma drain_carries:
  "carries runErr es \<Longrightarrow>
     carries (foldl (\<lambda>runErr err. case err of
         Some e \<Rightarrow> if \<not> Is_ServerClosed e then errors_Join [runErr, Some e] else runErr
       | None \<Rightarrow> runErr) runErr rest) (es @ component_failures rest)"
proof (induction rest arbitrary: runErr es)
  case (Cons r rest)
  show ?case
  proof (cases r)
    case None
    then show ?thesis using Cons by (simp add: component_failures_def map_filter_simps)
  next
    case (Some e)
    then show ?thesis
      using Cons.IH [OF Cons.prems] Cons.IH [OF carries_Join [OF Cons.prems carries_Some [of e]]]
      by (simp add: component_failures_def map_filter_simps)
  qed
qed (simp add: component_failures_def map_filter_simps)


end
