(* ===== verification/Versioning.thy ===== *)
theory Versioning
  imports Naming "HOL-Library.AList" "HOL-Library.List_Lexorder" "HOL-Library.Char_ord"
begin

text \<open>
  The compatibility planner of \<open>internal/versioning\<close>: the schema types (\<open>types.go\<close>), the comparison
  of hub and legacy (\<open>classify.go\<close>), the lookup of manual converters (\<open>manual.go\<close>), the directory
  layout (\<open>discover.go\<close>) and the selection and cleanup steps of \<open>generate.go\<close>.

  A Go map is an association list with distinct keys in the order in which \<open>range\<close> visits it, so a
  statement about every such list is a statement about every iteration order.  Directory listings and
  \<open>os.Stat\<close> are functions.
\<close>

section \<open>Schemas\<close>

record Schema_Field =
  sf_Name :: string
  sf_LegacyName :: string
  sf_Number :: int
  sf_Type :: string
  sf_Repeated :: bool

record Schema_Message =
  sm_Name :: string
  sm_Fields :: "Schema_Field list"
  sm_File :: string

record RPC =
  rpc_Name :: string
  rpc_RequestType :: string
  rpc_ResponseType :: string
  rpc_Service :: string
  rpc_File :: string

record Schema_Service =
  sv_Name :: string
  sv_RPCs :: "RPC list"
  sv_File :: string

record Schema =
  sc_Package :: string
  sc_Messages :: "(string \<times> Schema_Message) list"
  sc_Services :: "Schema_Service list"
  sc_Files :: "string list"

section \<open>Plans\<close>

datatype Mode = AUTO | MANUAL | UNIMPLEMENTED

record FieldMapping =
  fm_HubField :: string
  fm_LegacyField :: string
  fm_HubType :: string
  fm_LegacyType :: string
  fm_Repeated :: bool
  fm_Auto :: bool
  fm_Reason :: string

record MessageConversion =
  mc_HubMessage :: string
  mc_LegacyMessage :: string
  mc_Mode :: Mode
  mc_Reason :: string
  mc_Fields :: "FieldMapping list"

record RPCConversion =
  rc_HubRPC :: RPC
  rc_LegacyRPC :: RPC
  rc_Mode :: Mode
  rc_Reason :: string

record ManualRequired =
  mr_Version :: string
  mr_HubMessage :: string
  mr_LegacyMessage :: string
  mr_Reason :: string
  mr_ManualPath :: string

record ConversionPlan =
  cp_Version :: string
  cp_Messages :: "MessageConversion list"
  cp_RPCs :: "RPCConversion list"
  cp_Errors :: "ManualRequired list"

definition zero_mapping :: FieldMapping where
  "zero_mapping = \<lparr>fm_HubField = [], fm_LegacyField = [], fm_HubType = [], fm_LegacyType = [],
     fm_Repeated = False, fm_Auto = False, fm_Reason = []\<rparr>"

definition zero_RPC :: RPC where
  "zero_RPC = \<lparr>rpc_Name = [], rpc_RequestType = [], rpc_ResponseType = [], rpc_Service = [],
     rpc_File = []\<rparr>"

section \<open>Comparing hub and legacy\<close>

text \<open>A map filled by \<open>m[key x] = x\<close> in order.\<close>

definition index_by :: "('a \<Rightarrow> 'k) \<Rightarrow> 'a list \<Rightarrow> ('k \<times> 'a) list" where
  "index_by key xs = fold (\<lambda>x. AList.update (key x) x) xs []"

text \<open>The hub field of a legacy field: by name, else the first one that declares it as its legacy
  name.\<close>

definition hub_field :: "Schema_Message \<Rightarrow> Schema_Field \<Rightarrow> Schema_Field option" where
  "hub_field hub lf =
     (case map_of (index_by sf_Name (sm_Fields hub)) (sf_Name lf) of
        Some hf \<Rightarrow> Some hf
      | None \<Rightarrow> find (\<lambda>h. sf_LegacyName h = sf_Name lf) (sm_Fields hub))"

definition compare_field ::
  "Schema_Message \<Rightarrow> MessageConversion \<Rightarrow> Schema_Field \<Rightarrow> MessageConversion" where
  "compare_field hub conv lf =
     (case hub_field hub lf of
        None \<Rightarrow>
          conv\<lparr>mc_Fields := mc_Fields conv @
            [zero_mapping\<lparr>fm_LegacyField := sf_Name lf, fm_LegacyType := sf_Type lf, fm_Auto := True\<rparr>]\<rparr>
      | Some hf \<Rightarrow>
          (let m = zero_mapping\<lparr>fm_HubField := sf_Name hf, fm_LegacyField := sf_Name lf,
                     fm_HubType := sf_Type hf, fm_LegacyType := sf_Type lf,
                     fm_Repeated := sf_Repeated hf \<or> sf_Repeated lf\<rparr>
           in if sf_Type hf \<noteq> sf_Type lf \<or> sf_Repeated hf \<noteq> sf_Repeated lf
              then conv\<lparr>mc_Mode := MANUAL,
                     mc_Reason := ''field '' @ go_quote (sf_Name lf) @ '' type changed ('' @ sf_Type lf @
                                  '' -> '' @ sf_Type hf @ '')'',
                     mc_Fields := mc_Fields conv @ [m\<lparr>fm_Auto := False\<rparr>]\<rparr>
              else conv\<lparr>mc_Fields := mc_Fields conv @ [m\<lparr>fm_Auto := True\<rparr>]\<rparr>))"

definition added_field ::
  "Schema_Message \<Rightarrow> MessageConversion \<Rightarrow> Schema_Field \<Rightarrow> MessageConversion" where
  "added_field legacy conv hf =
     (if map_of (index_by sf_Name (sm_Fields legacy)) (sf_Name hf) = None
      then conv\<lparr>mc_Fields := mc_Fields conv @
             [zero_mapping\<lparr>fm_HubField := sf_Name hf, fm_HubType := sf_Type hf, fm_Auto := True\<rparr>]\<rparr>
      else conv)"

definition compareMessages :: "Schema_Message \<Rightarrow> Schema_Message \<Rightarrow> MessageConversion" where
  "compareMessages hub legacy =
     (let conv = \<lparr>mc_HubMessage = sm_Name hub, mc_LegacyMessage = sm_Name legacy, mc_Mode = AUTO,
                  mc_Reason = [], mc_Fields = []\<rparr>;
          conv = foldl (compare_field hub) conv (sm_Fields legacy)
      in foldl (added_field legacy) conv (sm_Fields hub))"

definition schema_rpcs :: "Schema \<Rightarrow> (string \<times> RPC) list" where
  "schema_rpcs s = index_by rpc_Name (concat (map sv_RPCs (sc_Services s)))"

definition compare_rpc :: "(string \<times> RPC) list \<Rightarrow> string \<times> RPC \<Rightarrow> RPCConversion" where
  "compare_rpc hubRPCs e =
     (case e of (name, lr) \<Rightarrow>
        (case map_of hubRPCs name of
           None \<Rightarrow> \<lparr>rc_HubRPC = zero_RPC, rc_LegacyRPC = lr, rc_Mode = UNIMPLEMENTED,
                    rc_Reason = ''rpc removed from hub''\<rparr>
         | Some hr \<Rightarrow>
             (if rpc_RequestType hr \<noteq> rpc_RequestType lr \<or> rpc_ResponseType hr \<noteq> rpc_ResponseType lr
              then \<lparr>rc_HubRPC = hr, rc_LegacyRPC = lr, rc_Mode = MANUAL,
                    rc_Reason = ''rpc '' @ go_quote name @ '' request/response types differ''\<rparr>
              else \<lparr>rc_HubRPC = hr, rc_LegacyRPC = lr, rc_Mode = AUTO, rc_Reason = []\<rparr>)))"

text \<open>\<open>ord\<close> is the order in which \<open>range\<close> visits the map of the legacy RPCs.\<close>

definition compareRPCs ::
  "((string \<times> RPC) list \<Rightarrow> (string \<times> RPC) list) \<Rightarrow> Schema \<Rightarrow> Schema \<Rightarrow> RPCConversion list" where
  "compareRPCs ord hub legacy =
     (let legacyRPCs = schema_rpcs legacy; hubRPCs = schema_rpcs hub
      in map (compare_rpc hubRPCs) (ord legacyRPCs))"

definition manualPath :: "string \<Rightarrow> string \<Rightarrow> string" where
  "manualPath version name =
     (let safe = to_lower name;
          safe = map (\<lambda>c. if c = CHR ''.'' then CHR ''_'' else c) safe
      in ''internal/convert/'' @ version @ ''/'' @ safe @ ''.go'')"

definition plan_message ::
  "string \<Rightarrow> Schema \<Rightarrow> ConversionPlan \<Rightarrow> string \<times> Schema_Message \<Rightarrow> ConversionPlan" where
  "plan_message version hub plan e =
     (case e of (legacyName, legacyMsg) \<Rightarrow>
        (case map_of (sc_Messages hub) legacyName of
           None \<Rightarrow>
             plan\<lparr>cp_Errors := cp_Errors plan @
               [\<lparr>mr_Version = version, mr_HubMessage = [], mr_LegacyMessage = legacyName,
                 mr_Reason = ''message removed from hub'', mr_ManualPath = manualPath version legacyName\<rparr>]\<rparr>
         | Some hubMsg \<Rightarrow>
             (let conv = compareMessages hubMsg legacyMsg;
                  plan = (if mc_Mode conv = MANUAL
                          then plan\<lparr>cp_Errors := cp_Errors plan @
                                 [\<lparr>mr_Version = version, mr_HubMessage = sm_Name hubMsg,
                                   mr_LegacyMessage = sm_Name legacyMsg, mr_Reason = mc_Reason conv,
                                   mr_ManualPath = manualPath version legacyName\<rparr>]\<rparr>
                          else plan)
              in plan\<lparr>cp_Messages := cp_Messages plan @ [conv]\<rparr>)))"

definition rpc_errors :: "string \<Rightarrow> RPCConversion \<Rightarrow> ManualRequired list" where
  "rpc_errors version rpc =
     (let name = rpc_Name (rc_LegacyRPC rpc); stem = rpc_Service (rc_LegacyRPC rpc) @ ''_'' @ name
      in case rc_Mode rpc of
           MANUAL \<Rightarrow> [\<lparr>mr_Version = version, mr_HubMessage = name, mr_LegacyMessage = [],
                        mr_Reason = rc_Reason rpc, mr_ManualPath = manualPath version stem\<rparr>]
         | UNIMPLEMENTED \<Rightarrow> [\<lparr>mr_Version = version, mr_HubMessage = name, mr_LegacyMessage = [],
                        mr_Reason = rc_Reason rpc,
                        mr_ManualPath = manualPath version (stem @ ''_removed'')\<rparr>]
         | AUTO \<Rightarrow> [])"

definition BuildPlan ::
  "((string \<times> RPC) list \<Rightarrow> (string \<times> RPC) list) \<Rightarrow> string \<Rightarrow> Schema \<Rightarrow> Schema \<Rightarrow> ConversionPlan" where
  "BuildPlan ord version hub legacy =
     (let plan = \<lparr>cp_Version = version, cp_Messages = [], cp_RPCs = [], cp_Errors = []\<rparr>;
          plan = foldl (plan_message version hub) plan (sc_Messages legacy);
          plan = plan\<lparr>cp_RPCs := compareRPCs ord hub legacy\<rparr>
      in plan\<lparr>cp_Errors := cp_Errors plan @ concat (map (rpc_errors version) (cp_RPCs plan))\<rparr>)"

section \<open>Manual converters\<close>

text \<open>A directory entry is its name and whether it is a directory.\<close>

type_synonym entry = "string \<times> bool"

datatype listing = Entries "entry list" | NotExist | ReadFailed

definition manualConvertersDir :: "string \<Rightarrow> string \<Rightarrow> string" where
  "manualConvertersDir internal version = path_join (path_join internal ''convert'') version"

definition converter_file :: "string \<Rightarrow> entry \<Rightarrow> bool" where
  "converter_file safe e =
     (\<not> snd e \<and> has_suffix (fst e) ''.go'' \<and>
      (let name = trim_suffix (fst e) ''.go'' in name = safe \<or> contains name safe))"

definition hasManualConverter :: "(string \<Rightarrow> listing) \<Rightarrow> string \<Rightarrow> string \<Rightarrow> string \<Rightarrow> bool" where
  "hasManualConverter readDir internal version message =
     (case readDir (manualConvertersDir internal version) of
        Entries entries \<Rightarrow> (let safe = to_lower message in list_ex (converter_file safe) entries)
      | _ \<Rightarrow> False)"

definition manual_pending ::
  "(string \<Rightarrow> bool) \<Rightarrow> (string \<Rightarrow> listing) \<Rightarrow> string \<Rightarrow> ConversionPlan \<Rightarrow> ManualRequired list" where
  "manual_pending exists readDir internal plan =
     filter (\<lambda>e. \<not> (exists (mr_ManualPath e) \<or>
                    hasManualConverter readDir internal (cp_Version plan) (mr_LegacyMessage e)))
       (cp_Errors plan)"

definition formatManualErrors :: "ManualRequired list \<Rightarrow> string" where
  "formatManualErrors errs =
     ''version conversion requires manual implementation:'' @ [CHR 0x0A] @
     concat (map (\<lambda>e. [CHR 0x0A] @ ''- ['' @ mr_Version e @ ''] '' @ mr_LegacyMessage e @ [CHR 0x0A] @
                      ''  reason: '' @ mr_Reason e @ [CHR 0x0A] @
                      ''  action: create '' @ mr_ManualPath e @ [CHR 0x0A]) errs)"

definition checkManualRequired ::
  "(string \<Rightarrow> bool) \<Rightarrow> (string \<Rightarrow> listing) \<Rightarrow> string \<Rightarrow> ConversionPlan \<Rightarrow> string option" where
  "checkManualRequired exists readDir internal plan =
     (let pending = manual_pending exists readDir internal plan
      in if pending \<noteq> [] then Some (formatManualErrors pending) else None)"

section \<open>The layout of the API directory\<close>

text \<open>\<open>legacyDirPattern\<close>, the regular expression \<open>^v[0-9]+$\<close>.\<close>

definition legacyDirPattern :: "string \<Rightarrow> bool" where
  "legacyDirPattern s =
     (case s of [] \<Rightarrow> False | c # ds \<Rightarrow> c = CHR ''v'' \<and> ds \<noteq> [] \<and> list_all is_digit ds)"

record Layout =
  ly_APIRoot :: string
  ly_Hub :: string
  ly_Legacy :: "string list"

datatype gen_error =
    APIRootFailed string | APIRootNotDirectory string | HubMissing string | ListFailed string
  | NoPackages string | PackageNotFound string | SegmentNotLoaded string | NoGRPCService
  | HubPathFailed | RemoveFailed string | RenderFailed string | ManualPending string
  | VersionInvalid string | VersionExists string

definition stringsHasPrefixDot :: "string \<Rightarrow> bool" where
  "stringsHasPrefixDot name = (case name of [] \<Rightarrow> False | c # _ \<Rightarrow> c = CHR ''.'')"

text \<open>\<open>os.Stat\<close> of a path: \<open>None\<close> when it fails, else whether it is a directory.\<close>

definition Discover ::
  "(string \<Rightarrow> bool option) \<Rightarrow> (string \<Rightarrow> listing) \<Rightarrow> string \<Rightarrow> gen_error + Layout" where
  "Discover stat readDir apiRoot =
     (case stat apiRoot of
        None \<Rightarrow> Inl (APIRootFailed apiRoot)
      | Some False \<Rightarrow> Inl (APIRootNotDirectory apiRoot)
      | Some True \<Rightarrow>
          (let hubPath = path_join apiRoot ''hub''
           in if stat hubPath \<noteq> Some True then Inl (HubMissing hubPath)
              else (case readDir apiRoot of
                 Entries entries \<Rightarrow>
                   (let legacy = map fst (filter (\<lambda>e. \<not> (\<not> snd e \<or> fst e = ''hub'' \<or>
                                     stringsHasPrefixDot (fst e)) \<and> legacyDirPattern (fst e)) entries)
                    in Inr \<lparr>ly_APIRoot = apiRoot, ly_Hub = hubPath, ly_Legacy = sort legacy\<rparr>)
               | _ \<Rightarrow> Inl (ListFailed apiRoot))))"

text \<open>\<open>CompatibilityMode\<close> is a Go string with three constants.\<close>

definition CompatibilityAuto :: string where "CompatibilityAuto = []"
definition CompatibilityDisabled :: string where "CompatibilityDisabled = ''disabled''"
definition CompatibilityEnabled :: string where "CompatibilityEnabled = ''enabled''"

definition legacyVersionsForMode :: "string list \<Rightarrow> string \<Rightarrow> string list" where
  "legacyVersionsForMode legacy mode =
     (if mode = CompatibilityDisabled then []
      else if mode = CompatibilityEnabled \<or> mode = CompatibilityAuto then legacy
      else legacy)"

end
