(* ===== verification/VersioningLoader.thy ===== *)
theory VersioningLoader
  imports Versioning "HOL-Library.Product_Lexorder"
begin

text \<open>
  The schema loader of \<open>internal/versioning\<close> (\<open>loader.go\<close>, \<open>gengo_schema.go\<close>, \<open>meta.go\<close>): from the
  types that gengo reports for the generated packages to the schema of a segment, the metadata of the
  hub, and the process-wide cache of loaders.

  gengo, the protobuf descriptors and the file system are a \<open>loader_env\<close>.
\<close>

section \<open>What gengo reports\<close>

datatype gkind = KBuiltin | KStruct | KAlias | KPointer | KSlice | KInterface | KOther

text \<open>A type: its kind, its name, its \<open>String()\<close> and the element of a pointer or slice.\<close>

datatype gtype = GType (g_Kind: gkind) (g_Name: string) (g_String: string) (g_Elem: "gtype option")

record gmember =
  gm_Name :: string
  gm_Embedded :: bool
  gm_Type :: gtype

record gsignature =
  gs_Parameters :: "gtype list"
  gs_Results :: "gtype list"

record gdecl =
  gd_Kind :: gkind
  gd_Name :: string
  gd_Members :: "gmember list"
  gd_Methods :: "(string \<times> gsignature option) list"

record gpackage =
  gp_SourcePath :: string
  gp_Types :: "(string \<times> gdecl option) list"

text \<open>A file descriptor: the fields of its messages with their \<open>field_map.legacy_name\<close>, and the
  methods of its services with the topic and group of their \<open>consume\<close> option.\<close>

record descriptor =
  ds_Messages :: "(string \<times> (string \<times> string) list) list"
  ds_Services :: "(string \<times> (string \<times> (string \<times> string)) list) list"

text \<open>\<open>le_walk\<close> is \<open>filepath.WalkDir\<close>: the directories in the order of the visit, with their
  entries.  \<open>le_wdrel\<close> is \<open>filepath.Rel\<close> of an absolute path to the working directory; \<open>le_hubrel\<close>
  the slash form of \<open>filepath.Rel\<close> of a hub package to the hub root.  \<open>le_universe\<close> is the universe
  that gengo finds for the added directories; \<open>le_rawDesc\<close> the raw descriptor in a directory and
  \<open>le_newFile\<close> its decoding by \<open>protodesc.NewFile\<close> without a resolver.\<close>

record 'raw loader_env =
  le_stat :: "string \<Rightarrow> bool option"
  le_walk :: "string \<Rightarrow> (string \<times> entry list) list option"
  le_wdrel :: "string \<Rightarrow> string option"
  le_hubrel :: "string \<Rightarrow> string option"
  le_universe :: "string list \<Rightarrow> (string \<Rightarrow> gpackage option) option"
  le_rawDesc :: "string \<Rightarrow> 'raw option"
  le_newFile :: "'raw \<Rightarrow> descriptor option"

section \<open>Types and members\<close>

fun gengoTypeName :: "gtype option \<Rightarrow> string" where
  "gengoTypeName None = []"
| "gengoTypeName (Some (GType kind name str elem)) =
     (case kind of
        KBuiltin \<Rightarrow> name
      | KStruct \<Rightarrow> name
      | KAlias \<Rightarrow> name
      | KPointer \<Rightarrow> gengoTypeName elem
      | KSlice \<Rightarrow> gengoTypeName elem
      | _ \<Rightarrow> (if name \<noteq> [] then name else str))"

definition isProtoMessage :: "gdecl \<Rightarrow> bool" where
  "isProtoMessage t =
     (if gd_Kind t \<noteq> KStruct then False else map_of (gd_Methods t) ''ProtoReflect'' \<noteq> None)"

definition isGRPCServerInterface :: "gdecl \<Rightarrow> bool" where
  "isGRPCServerInterface t =
     (if gd_Kind t \<noteq> KInterface then False
      else if \<not> has_suffix (gd_Name t) ''Server'' then False
      else if has_prefix (gd_Name t) ''Unimplemented'' \<or> has_prefix (gd_Name t) ''Unsafe'' then False
      else gd_Methods t \<noteq> [])"

definition skipProtoMember :: "string \<Rightarrow> bool" where
  "skipProtoMember name \<longleftrightarrow> name \<in> {''state'', ''unknownFields'', ''sizeCache''}"

definition memberToField :: "gmember \<Rightarrow> Schema_Field" where
  "memberToField m =
     (let f = \<lparr>sf_Name = gm_Name m, sf_LegacyName = [], sf_Number = 0, sf_Type = [],
               sf_Repeated = False\<rparr>
      in case g_Kind (gm_Type m) of
           KSlice \<Rightarrow> f\<lparr>sf_Repeated := True, sf_Type := gengoTypeName (g_Elem (gm_Type m))\<rparr>
         | KPointer \<Rightarrow> f\<lparr>sf_Type := gengoTypeName (g_Elem (gm_Type m))\<rparr>
         | _ \<Rightarrow> f\<lparr>sf_Type := gengoTypeName (Some (gm_Type m))\<rparr>)"

definition methodRequestResponse :: "gsignature option \<Rightarrow> string \<times> string" where
  "methodRequestResponse mt =
     (case mt of
        None \<Rightarrow> ([], [])
      | Some sig \<Rightarrow>
          (if length (gs_Parameters sig) < 2 then ([], [])
           else (gengoTypeName (Some (gs_Parameters sig ! 1)),
                 case gs_Results sig of [] \<Rightarrow> [] | r # _ \<Rightarrow> gengoTypeName (Some r))))"

definition interfaceToService :: "string \<Rightarrow> gdecl \<Rightarrow> Schema_Service" where
  "interfaceToService importPath t =
     (let svc = trim_suffix (gd_Name t) ''Server'';
          names = filter (\<lambda>name. \<not> has_prefix name ''mustEmbed'') (sort (map fst (gd_Methods t)))
      in \<lparr>sv_Name = svc,
          sv_RPCs = map (\<lambda>name.
            (let rr = methodRequestResponse (case map_of (gd_Methods t) name of None \<Rightarrow> None | Some mt \<Rightarrow> mt)
             in \<lparr>rpc_Name = name, rpc_RequestType = fst rr, rpc_ResponseType = snd rr,
                 rpc_Service = svc, rpc_File = importPath\<rparr>)) names,
          sv_File = importPath\<rparr>)"

section \<open>Import paths\<close>

definition gengoPath :: "'raw loader_env \<Rightarrow> string \<Rightarrow> string" where
  "gengoPath env path =
     (let path = (if has_prefix path ''/''
                  then (case le_wdrel env path of None \<Rightarrow> path | Some rel \<Rightarrow> rel) else path)
      in if \<not> has_prefix path ''.'' then ''./'' @ path else path)"

definition has_go_file :: "entry list \<Rightarrow> bool" where
  "has_go_file entries \<longleftrightarrow> list_ex (\<lambda>e. \<not> (snd e \<or> \<not> has_suffix (fst e) ''.go'')) entries"

definition listGenImportPaths :: "'raw loader_env \<Rightarrow> string \<Rightarrow> string \<Rightarrow> gen_error + string list" where
  "listGenImportPaths env genDir segment =
     (let root = path_join (path_join genDir ''api'') segment
      in case le_stat env root of
           None \<Rightarrow> Inl (APIRootFailed root)
         | Some False \<Rightarrow> Inl (APIRootNotDirectory root)
         | Some True \<Rightarrow>
             (case le_walk env root of
                None \<Rightarrow> Inl (ListFailed root)
              | Some dirs \<Rightarrow>
                  (let paths = map (\<lambda>d. gengoPath env (fst d)) (filter (\<lambda>d. has_go_file (snd d)) dirs)
                   in if paths = [] then Inl (NoPackages root) else Inr (sort paths))))"

section \<open>The loader\<close>

record Loader =
  ld_module :: string
  ld_genDir :: string
  ld_importPaths :: "string list"
  ld_sourceDir :: "(string \<times> string) list"
  ld_schemas :: "(string \<times> Schema) list"

text \<open>\<open>Loader.fileDescriptor\<close> and \<open>Loader.rawDescBytes\<close>.  Both keep what they found; the model reads
  again, with the same result.\<close>

definition rawDescBytes :: "'raw loader_env \<Rightarrow> Loader \<Rightarrow> string \<Rightarrow> 'raw option" where
  "rawDescBytes env l importPath =
     (case map_of (ld_sourceDir l) importPath of
        None \<Rightarrow> None
      | Some dir \<Rightarrow> (if dir = [] then None else le_rawDesc env dir))"

definition fileDescriptor :: "'raw loader_env \<Rightarrow> Loader \<Rightarrow> string \<Rightarrow> descriptor option" where
  "fileDescriptor env l importPath =
     (case rawDescBytes env l importPath of None \<Rightarrow> None | Some raw \<Rightarrow> le_newFile env raw)"

definition messageDescriptor ::
  "'raw loader_env \<Rightarrow> Loader \<Rightarrow> string \<Rightarrow> string \<Rightarrow> (string \<times> string) list option" where
  "messageDescriptor env l importPath messageName =
     (case fileDescriptor env l importPath of
        None \<Rightarrow> None | Some fd \<Rightarrow> map_of (ds_Messages fd) messageName)"

definition fieldMapLegacyName ::
  "'raw loader_env \<Rightarrow> Loader \<Rightarrow> string \<Rightarrow> string \<Rightarrow> string \<Rightarrow> string option" where
  "fieldMapLegacyName env l importPath messageName goFieldName =
     (case messageDescriptor env l importPath messageName of
        None \<Rightarrow> None
      | Some fs \<Rightarrow>
          (case find (\<lambda>f. goName (fst f) = goFieldName) fs of
             None \<Rightarrow> None
           | Some f \<Rightarrow> (if snd f = [] then None else Some (snd f))))"

definition rpcKafkaConsume ::
  "'raw loader_env \<Rightarrow> Loader \<Rightarrow> string \<Rightarrow> string \<Rightarrow> string \<Rightarrow> (string \<times> string) option" where
  "rpcKafkaConsume env l importPath serviceName rpcName =
     (case fileDescriptor env l importPath of
        None \<Rightarrow> None
      | Some fd \<Rightarrow>
          (case find (\<lambda>m. fst m = rpcName)
                  (concat (map snd (filter (\<lambda>s. fst s = serviceName) (ds_Services fd)))) of
             None \<Rightarrow> None
           | Some (_, topic, grp) \<Rightarrow> (if topic = [] then None else Some (topic, grp))))"

definition structToMessage :: "'raw loader_env \<Rightarrow> Loader \<Rightarrow> string \<Rightarrow> gdecl \<Rightarrow> Schema_Message" where
  "structToMessage env l importPath t =
     \<lparr>sm_Name = gd_Name t,
      sm_Fields = map (\<lambda>m. (let f = memberToField m
                            in case fieldMapLegacyName env l importPath (gd_Name t) (gm_Name m) of
                                 None \<Rightarrow> f | Some legacy \<Rightarrow> f\<lparr>sf_LegacyName := legacy\<rparr>))
                    (filter (\<lambda>m. \<not> (gm_Embedded m \<or> skipProtoMember (gm_Name m))) (gd_Members t)),
      sm_File = importPath\<rparr>"

definition add_decl ::
  "'raw loader_env \<Rightarrow> Loader \<Rightarrow> string \<Rightarrow> gpackage \<Rightarrow> string \<Rightarrow> Schema \<Rightarrow> Schema" where
  "add_decl env l importPath pkg name schema =
     (case map_of (gp_Types pkg) name of
        Some (Some t) \<Rightarrow>
          (if isProtoMessage t
           then schema\<lparr>sc_Messages := AList.update (gd_Name t) (structToMessage env l importPath t)
                                          (sc_Messages schema)\<rparr>
           else if isGRPCServerInterface t
           then schema\<lparr>sc_Services := sc_Services schema @ [interfaceToService importPath t]\<rparr>
           else schema)
      | _ \<Rightarrow> schema)"

definition schemaFromPackage ::
  "'raw loader_env \<Rightarrow> (string \<Rightarrow> gpackage option) \<Rightarrow> Loader \<Rightarrow> string \<Rightarrow> gen_error + Schema" where
  "schemaFromPackage env universe l importPath =
     (case universe importPath of
        None \<Rightarrow> Inl (PackageNotFound importPath)
      | Some pkg \<Rightarrow>
          Inr (fold (add_decl env l importPath pkg) (sort (map fst (gp_Types pkg)))
                 \<lparr>sc_Package = importPath, sc_Messages = [], sc_Services = [], sc_Files = [importPath]\<rparr>))"

fun merge_packages ::
  "'raw loader_env \<Rightarrow> (string \<Rightarrow> gpackage option) \<Rightarrow> Loader \<Rightarrow> string list \<Rightarrow> Schema
     \<Rightarrow> gen_error + Schema" where
  "merge_packages env universe l [] schema = Inr schema"
| "merge_packages env universe l (imp # imps) schema =
     bind_err (schemaFromPackage env universe l imp) (\<lambda>part.
       merge_packages env universe l imps
         \<lparr>sc_Package = (if sc_Package schema = [] then sc_Package part else sc_Package schema),
          sc_Messages = fold (\<lambda>(n, m). AList.update n m) (sc_Messages part) (sc_Messages schema),
          sc_Services = sc_Services schema @ sc_Services part,
          sc_Files = sc_Files schema @ sc_Files part\<rparr>)"

definition buildSegmentSchema ::
  "'raw loader_env \<Rightarrow> (string \<Rightarrow> gpackage option) \<Rightarrow> string \<Rightarrow> Loader \<Rightarrow> gen_error + Loader" where
  "buildSegmentSchema env universe segment l =
     bind_err (listGenImportPaths env (ld_genDir l) segment) (\<lambda>paths.
       if paths = [] then Inl (NoPackages segment)
       else bind_err (merge_packages env universe l paths
                        \<lparr>sc_Package = [], sc_Messages = [], sc_Services = [], sc_Files = []\<rparr>)
              (\<lambda>schema.
                 (let schema = schema\<lparr>sc_Services := sort_key (\<lambda>s. (sv_Name s, sv_File s)) (sc_Services schema),
                                      sc_Files := sort (sc_Files schema)\<rparr>
                  in Inr (l\<lparr>ld_schemas := AList.update segment schema (ld_schemas l)\<rparr>))))"

fun build_segments ::
  "'raw loader_env \<Rightarrow> (string \<Rightarrow> gpackage option) \<Rightarrow> string list \<Rightarrow> Loader \<Rightarrow> gen_error + Loader" where
  "build_segments env universe [] l = Inr l"
| "build_segments env universe (seg # segs) l =
     bind_err (buildSegmentSchema env universe seg l) (build_segments env universe segs)"

fun list_segments :: "'raw loader_env \<Rightarrow> string \<Rightarrow> string list \<Rightarrow> gen_error + string list" where
  "list_segments env genDir [] = Inr []"
| "list_segments env genDir (seg # segs) =
     bind_err (listGenImportPaths env genDir seg) (\<lambda>paths.
       bind_err (list_segments env genDir segs) (\<lambda>rest. Inr (paths @ rest)))"

fun source_dirs ::
  "(string \<Rightarrow> gpackage option) \<Rightarrow> string list \<Rightarrow> (string \<times> string) list
     \<Rightarrow> gen_error + (string \<times> string) list" where
  "source_dirs universe [] dirs = Inr dirs"
| "source_dirs universe (imp # imps) dirs =
     (case universe imp of
        None \<Rightarrow> Inl (PackageNotFound imp)
      | Some pkg \<Rightarrow> source_dirs universe imps (AList.update imp (gp_SourcePath pkg) dirs))"

definition loadGengo ::
  "'raw loader_env \<Rightarrow> Loader \<Rightarrow> gen_error + (string \<Rightarrow> gpackage option) \<times> Loader" where
  "loadGengo env l =
     (case le_universe env (ld_importPaths l) of
        None \<Rightarrow> Inl (PackageNotFound (join '','' (ld_importPaths l)))
      | Some universe \<Rightarrow>
          bind_err (source_dirs universe (ld_importPaths l) (ld_sourceDir l)) (\<lambda>dirs.
            Inr (universe, l\<lparr>ld_sourceDir := dirs\<rparr>)))"

text \<open>The process-wide cache of loaders, by key.\<close>

type_synonym loader_cache = "(string \<times> Loader) list"

definition cacheKey :: "string \<Rightarrow> string \<Rightarrow> string list \<Rightarrow> string" where
  "cacheKey module genDir paths = module @ [CHR 0x00] @ genDir @ [CHR 0x00] @ join '','' paths"

definition NewLoader ::
  "'raw loader_env \<Rightarrow> string \<Rightarrow> string \<Rightarrow> string list \<Rightarrow> loader_cache
     \<Rightarrow> loader_cache \<times> (gen_error + Loader)" where
  "NewLoader env module genDir legacyVersions cache =
     (let segments = ''hub'' # legacyVersions
      in case list_segments env genDir segments of
           Inl e \<Rightarrow> (cache, Inl e)
         | Inr allPaths \<Rightarrow>
             (if allPaths = [] then (cache, Inl (NoPackages genDir))
              else (let key = cacheKey module genDir allPaths
                    in case map_of cache key of
                         Some loader \<Rightarrow> (cache, Inr loader)
                       | None \<Rightarrow>
                           (let l = \<lparr>ld_module = module, ld_genDir = genDir, ld_importPaths = allPaths,
                                     ld_sourceDir = [], ld_schemas = []\<rparr>
                            in case bind_err (loadGengo env l) (\<lambda>(universe, l).
                                      build_segments env universe segments l) of
                                 Inl e \<Rightarrow> (cache, Inl e)
                               | Inr l \<Rightarrow> (AList.update key l cache, Inr l)))))"

definition Loader_Schema :: "Loader \<Rightarrow> string \<Rightarrow> gen_error + Schema" where
  "Loader_Schema l segment =
     (case map_of (ld_schemas l) segment of
        None \<Rightarrow> Inl (SegmentNotLoaded segment) | Some s \<Rightarrow> Inr s)"

section \<open>Hub metadata\<close>

record HubMeta =
  hm_GoImport :: string
  hm_RelativePath :: string
  hm_PackageSuffix :: string
  hm_PrimaryService :: string
  hm_EventService :: string

definition meta_service :: "Schema_Service \<Rightarrow> HubMeta \<Rightarrow> HubMeta" where
  "meta_service svc meta =
     (if has_prefix (sv_Name svc) ''Unsafe'' then meta
      else if has_suffix (sv_Name svc) ''EventHandler''
      then (if hm_EventService meta = [] then meta\<lparr>hm_EventService := sv_Name svc\<rparr> else meta)
      else if hm_PrimaryService meta = [] then meta\<lparr>hm_PrimaryService := sv_Name svc\<rparr> else meta)"

definition Loader_HubMeta :: "'raw loader_env \<Rightarrow> Loader \<Rightarrow> gen_error + HubMeta" where
  "Loader_HubMeta env l =
     bind_err (listGenImportPaths env (ld_genDir l) ''hub'') (\<lambda>paths.
       case paths of
         [] \<Rightarrow> Inl (NoPackages (ld_genDir l))
       | p # _ \<Rightarrow>
           (case le_hubrel env p of
              None \<Rightarrow> Inl HubPathFailed
            | Some rel \<Rightarrow>
                (let root = rel = ''.'' \<or> rel = [];
                     meta = \<lparr>hm_GoImport = ld_module l @ ''/gen/api/hub'' @ (if root then [] else ''/'' @ rel),
                             hm_RelativePath = (if root then ''.'' else rel), hm_PackageSuffix = ''hub'',
                             hm_PrimaryService = [], hm_EventService = []\<rparr>
                 in bind_err (Loader_Schema l ''hub'') (\<lambda>schema.
                      let meta = fold meta_service (sc_Services schema) meta
                      in if hm_PrimaryService meta = [] then Inl NoGRPCService else Inr meta))))"

definition hubImportPath :: "string \<Rightarrow> HubMeta \<Rightarrow> string" where
  "hubImportPath module meta =
     (if hm_GoImport meta \<noteq> [] \<and> has_prefix (hm_GoImport meta) module then hm_GoImport meta
      else module @ ''/gen/api/hub/'' @ hm_RelativePath meta)"

definition legacyImportPath :: "string \<Rightarrow> string \<Rightarrow> HubMeta \<Rightarrow> string" where
  "legacyImportPath module version meta =
     module @ ''/gen/api/'' @ version @ ''/'' @ hm_RelativePath meta"

end
