(* ===== verification/VersioningGen.thy ===== *)
theory VersioningGen
  imports VersioningLoader
begin

text \<open>
  \<open>Generate\<close> of \<open>internal/versioning\<close> (\<open>generate.go\<close> and the files
  \<open>generate_*.go\<close> for the conversions, adapters, events, wiring and runtime): the template data of every generated file and the order of
  the removals and renderings.

  What the generator does to the disk is a trace of effects; a directory listing, an \<open>os.Stat\<close> and
  the failure of an effect are functions of the effects done before.  (Removing a file that does not
  exist is not a failure for \<open>generateWire\<close>.)
\<close>

section \<open>Template data\<close>

record convertTemplateData =
  ct_Version :: string
  ct_HubImport :: string
  ct_LegacyImport :: string
  ct_Messages :: "MessageConversion list"

record adapterRPCData =
  ar_Name :: string
  ar_RequestType :: string
  ar_ResponseType :: string
  ar_Mode :: "Mode option"
  ar_Reason :: string
  ar_IsEmptyRequest :: bool
  ar_HasRepeatedMessageResponse :: bool
  ar_ListField :: string
  ar_ElemType :: string

record adapterTemplateData =
  ad_Version :: string
  ad_Service :: string
  ad_TypeName :: string
  ad_HubImport :: string
  ad_LegacyImport :: string
  ad_ConvertImport :: string
  ad_NeedsStatus :: bool
  ad_RPCs :: "adapterRPCData list"

text \<open>\<open>er_Consume\<close> is the pointer to the topic and the group.\<close>

record eventRPCData =
  er_Name :: string
  er_RequestType :: string
  er_Consume :: "(string \<times> string) option"

record eventAdapterTemplateData =
  ev_Version :: string
  ev_VersionUC :: string
  ev_EventService :: string
  ev_HubImport :: string
  ev_LegacyImport :: string
  ev_ConvertImport :: string
  ev_RegistrarName :: string
  ev_RPCs :: "eventRPCData list"

record legacyWireVersionData =
  lw_Version :: string
  lw_AdapterAlias :: string
  lw_AdapterImport :: string
  lw_LegacyAlias :: string
  lw_LegacyImport :: string
  lw_TypeName :: string
  lw_RegisterFunc :: string

record legacyWireTemplateData =
  lt_HubImport :: string
  lt_Service :: string
  lt_Versions :: "legacyWireVersionData list"

record runtimeLegacyVersionData =
  rl_Version :: string
  rl_RegisterFunc :: string
  rl_GatewayFunc :: string
  rl_AdapterAlias :: string
  rl_AdapterImport :: string
  rl_TypeName :: string

record runtimeTemplateData =
  rt_HubImport :: string
  rt_Service :: string
  rt_HubRegisterFunc :: string
  rt_HubGatewayFunc :: string
  rt_LegacyVersions :: "runtimeLegacyVersionData list"
  rt_HasEventService :: bool
  rt_KafkaHubRegistrar :: string

datatype template_data =
    ConvertData convertTemplateData
  | AdapterData adapterTemplateData
  | EventData eventAdapterTemplateData
  | WireData legacyWireTemplateData
  | RuntimeData runtimeTemplateData

section \<open>Effects\<close>

datatype effect = RemoveAll string | Remove string | Render template_data string

fun effect_path :: "effect \<Rightarrow> string" where
  "effect_path (RemoveAll p) = p"
| "effect_path (Remove p) = p"
| "effect_path (Render _ p) = p"

fun effect_error :: "effect \<Rightarrow> gen_error" where
  "effect_error (RemoveAll p) = RemoveFailed p"
| "effect_error (Remove p) = RemoveFailed p"
| "effect_error (Render _ p) = RenderFailed p"

record 'raw gen_env =
  ge_loader :: "'raw loader_env"
  ge_order :: "(string \<times> RPC) list \<Rightarrow> (string \<times> RPC) list"
  ge_readDir :: "effect list \<Rightarrow> string \<Rightarrow> listing"
  ge_exists :: "effect list \<Rightarrow> string \<Rightarrow> bool"
  ge_readFile :: "effect list \<Rightarrow> string \<Rightarrow> string option"
  ge_fails :: "effect list \<Rightarrow> effect \<Rightarrow> bool"

text \<open>A step extends the trace and may return an error; \<open>steps\<close> runs steps until one fails.\<close>

type_synonym gen_step = "effect list \<Rightarrow> effect list \<times> gen_error option"

definition perform :: "'raw gen_env \<Rightarrow> effect \<Rightarrow> gen_step" where
  "perform env eff tr = (if ge_fails env tr eff then (tr, Some (effect_error eff)) else (tr @ [eff], None))"

fun steps :: "gen_step list \<Rightarrow> gen_step" where
  "steps [] tr = (tr, None)"
| "steps (f # fs) tr = (case f tr of (tr', None) \<Rightarrow> steps fs tr' | (tr', Some e) \<Rightarrow> (tr', Some e))"

record GenerateOptions =
  go_Module :: string
  go_APIRoot :: string
  go_GenDir :: string
  go_Internal :: string
  go_HubMeta :: HubMeta
  go_Legacy :: string

definition gen_dir :: "GenerateOptions \<Rightarrow> string \<Rightarrow> string \<Rightarrow> string" where
  "gen_dir opts sub version = path_join (path_join (path_join (go_GenDir opts) ''zengo'') sub) version"

section \<open>Cleanup\<close>

definition stale_version :: "Layout \<Rightarrow> entry \<Rightarrow> bool" where
  "stale_version layout e \<longleftrightarrow>
     \<not> (\<not> snd e \<or> \<not> legacyDirPattern (fst e)) \<and> fst e \<notin> set (ly_Legacy layout)"

definition cleanup_sub :: "'raw gen_env \<Rightarrow> Layout \<Rightarrow> GenerateOptions \<Rightarrow> string \<Rightarrow> gen_step" where
  "cleanup_sub env layout opts sub tr =
     (let root = path_join (path_join (go_GenDir opts) ''zengo'') sub
      in case ge_readDir env tr root of
           NotExist \<Rightarrow> (tr, None)
         | ReadFailed \<Rightarrow> (tr, Some (ListFailed root))
         | Entries entries \<Rightarrow>
             steps (map (\<lambda>e. perform env (RemoveAll (path_join root (fst e))))
                      (filter (stale_version layout) entries)) tr)"

definition cleanupStaleVersions :: "'raw gen_env \<Rightarrow> Layout \<Rightarrow> GenerateOptions \<Rightarrow> gen_step" where
  "cleanupStaleVersions env layout opts =
     steps (map (cleanup_sub env layout opts) [''convert'', ''adapters''])"

definition adapter_keep :: "HubMeta \<Rightarrow> string list" where
  "adapter_keep meta =
     adapterFileName (hm_PrimaryService meta) #
     (if hm_EventService meta \<noteq> [] then [eventAdapterFileName (hm_EventService meta)] else [])"

definition cleanupStaleAdapterFiles :: "'raw gen_env \<Rightarrow> string \<Rightarrow> GenerateOptions \<Rightarrow> gen_step" where
  "cleanupStaleAdapterFiles env version opts tr =
     (let dir = gen_dir opts ''adapters'' version; keep = adapter_keep (go_HubMeta opts)
      in case ge_readDir env tr dir of
           NotExist \<Rightarrow> (tr, None)
         | ReadFailed \<Rightarrow> (tr, Some (ListFailed dir))
         | Entries entries \<Rightarrow>
             steps (map (\<lambda>e. perform env (Remove (path_join dir (fst e))))
                      (filter (\<lambda>e. \<not> (snd e \<or> \<not> has_suffix (fst e) ''_gen.go'') \<and> fst e \<notin> set keep)
                         entries)) tr)"

section \<open>Conversions and adapters\<close>

definition convert_data :: "string \<Rightarrow> ConversionPlan \<Rightarrow> GenerateOptions \<Rightarrow> convertTemplateData" where
  "convert_data version plan opts =
     \<lparr>ct_Version = version, ct_HubImport = hubImportPath (go_Module opts) (go_HubMeta opts),
      ct_LegacyImport = legacyImportPath (go_Module opts) version (go_HubMeta opts),
      ct_Messages = sort_key mc_LegacyMessage (filter (\<lambda>msg. \<not> mc_Mode msg \<noteq> AUTO) (cp_Messages plan))\<rparr>"

definition generateConvert ::
  "'raw gen_env \<Rightarrow> string \<Rightarrow> ConversionPlan \<Rightarrow> GenerateOptions \<Rightarrow> gen_step" where
  "generateConvert env version plan opts =
     perform env (Render (ConvertData (convert_data version plan opts))
       (path_join (gen_dir opts ''convert'' version) ''messages_gen.go''))"

definition repeatedMessageField :: "Schema \<Rightarrow> string \<Rightarrow> (string \<times> string) option" where
  "repeatedMessageField schema messageName =
     (case map_of (sc_Messages schema) messageName of
        None \<Rightarrow> None
      | Some msg \<Rightarrow>
          map_option (\<lambda>f. (sf_Name f, sf_Type f))
            (find (\<lambda>f. \<not> \<not> sf_Repeated f \<and> \<not> IsScalarType (sf_Type f)) (sm_Fields msg)))"

definition adapter_rpc :: "Schema \<Rightarrow> (string \<times> Mode) list \<Rightarrow> RPC \<Rightarrow> adapterRPCData" where
  "adapter_rpc legacy rpcModes rpc =
     (let d = \<lparr>ar_Name = rpc_Name rpc, ar_RequestType = rpc_RequestType rpc,
               ar_ResponseType = rpc_ResponseType rpc, ar_Mode = map_of rpcModes (rpc_Name rpc),
               ar_Reason = [], ar_IsEmptyRequest = (rpc_RequestType rpc = ''Empty''),
               ar_HasRepeatedMessageResponse = False, ar_ListField = [], ar_ElemType = []\<rparr>;
          d = (if ar_Mode d = Some UNIMPLEMENTED
               then d\<lparr>ar_Reason := rpc_Name rpc @ '' removed from hub''\<rparr> else d)
      in case repeatedMessageField legacy (rpc_ResponseType rpc) of
           Some (listField, elemType) \<Rightarrow>
             (if rpc_RequestType rpc = ''Empty''
              then d\<lparr>ar_HasRepeatedMessageResponse := True, ar_ListField := listField,
                     ar_ElemType := elemType\<rparr>
              else d)
         | None \<Rightarrow> d)"

definition adapter_data ::
  "string \<Rightarrow> ConversionPlan \<Rightarrow> Schema \<Rightarrow> GenerateOptions \<Rightarrow> adapterTemplateData" where
  "adapter_data version plan legacy opts =
     (let meta = go_HubMeta opts; service = hm_PrimaryService meta;
          rpcModes = fold (\<lambda>rpc. AList.update (rpc_Name (rc_LegacyRPC rpc)) (rc_Mode rpc)) (cp_RPCs plan) [];
          rpcs = map (adapter_rpc legacy rpcModes)
                   (concat (map sv_RPCs (filter (\<lambda>svc. \<not> (sv_Name svc = hm_EventService meta \<or>
                      has_suffix (sv_Name svc) ''EventHandler'')) (sc_Services legacy))))
      in \<lparr>ad_Version = version, ad_Service = service, ad_TypeName = adapterTypeName service version,
          ad_HubImport = hubImportPath (go_Module opts) meta,
          ad_LegacyImport = legacyImportPath (go_Module opts) version meta,
          ad_ConvertImport = go_Module opts @ ''/gen/zengo/convert/'' @ version,
          ad_NeedsStatus = list_ex (\<lambda>r. ar_Mode r = Some UNIMPLEMENTED) rpcs, ad_RPCs = rpcs\<rparr>)"

definition generateAdapters ::
  "'raw gen_env \<Rightarrow> string \<Rightarrow> ConversionPlan \<Rightarrow> Schema \<Rightarrow> GenerateOptions \<Rightarrow> gen_step" where
  "generateAdapters env version plan legacy opts =
     perform env (Render (AdapterData (adapter_data version plan legacy opts))
       (path_join (gen_dir opts ''adapters'' version) (adapterFileName (hm_PrimaryService (go_HubMeta opts)))))"

definition legacyWireEventName :: "string \<Rightarrow> string \<Rightarrow> string" where
  "legacyWireEventName service version = ''RegisterLegacy'' @ service @ UcFirst version"

definition event_data ::
  "'raw gen_env \<Rightarrow> Loader \<Rightarrow> string \<Rightarrow> Schema_Service \<Rightarrow> GenerateOptions \<Rightarrow> eventAdapterTemplateData" where
  "event_data env l version eventSvc opts =
     (let meta = go_HubMeta opts; legacyImport = legacyImportPath (go_Module opts) version meta
      in \<lparr>ev_Version = version, ev_VersionUC = UcFirst version, ev_EventService = hm_EventService meta,
          ev_HubImport = hubImportPath (go_Module opts) meta, ev_LegacyImport = legacyImport,
          ev_ConvertImport = go_Module opts @ ''/gen/zengo/convert/'' @ version,
          ev_RegistrarName = legacyWireEventName (hm_EventService meta) version,
          ev_RPCs = map (\<lambda>rpc. \<lparr>er_Name = rpc_Name rpc, er_RequestType = rpc_RequestType rpc,
            er_Consume = rpcKafkaConsume (ge_loader env) l legacyImport (sv_Name eventSvc) (rpc_Name rpc)\<rparr>)
            (sv_RPCs eventSvc)\<rparr>)"

definition generateEventAdapters ::
  "'raw gen_env \<Rightarrow> Loader \<Rightarrow> string \<Rightarrow> Schema \<Rightarrow> GenerateOptions \<Rightarrow> gen_step" where
  "generateEventAdapters env l version legacy opts tr =
     (let meta = go_HubMeta opts
      in if hm_EventService meta = [] then (tr, None)
         else (case find (\<lambda>s. sv_Name s = hm_EventService meta) (sc_Services legacy) of
            None \<Rightarrow> (tr, None)
          | Some eventSvc \<Rightarrow>
              perform env (Render (EventData (event_data env l version eventSvc opts))
                (path_join (gen_dir opts ''adapters'' version)
                   (eventAdapterFileName (hm_EventService meta)))) tr))"

section \<open>Wiring and runtime\<close>

definition wire_version :: "GenerateOptions \<Rightarrow> string \<Rightarrow> legacyWireVersionData" where
  "wire_version opts v =
     (let service = hm_PrimaryService (go_HubMeta opts)
      in \<lparr>lw_Version = v, lw_AdapterAlias = ''adapter'' @ v,
          lw_AdapterImport = go_Module opts @ ''/gen/zengo/adapters/'' @ v,
          lw_LegacyAlias = ''legacy'' @ v,
          lw_LegacyImport = legacyImportPath (go_Module opts) v (go_HubMeta opts),
          lw_TypeName = adapterTypeName service v, lw_RegisterFunc = legacyWireGRPCName service v\<rparr>)"

definition generateWire :: "'raw gen_env \<Rightarrow> Layout \<Rightarrow> GenerateOptions \<Rightarrow> gen_step" where
  "generateWire env layout opts =
     (let path = path_join (path_join (go_GenDir opts) ''zengo'') ''legacy_wire_gen.go''
      in if ly_Legacy layout = [] then perform env (Remove path)
         else perform env (Render (WireData
                \<lparr>lt_HubImport = hubImportPath (go_Module opts) (go_HubMeta opts),
                 lt_Service = hm_PrimaryService (go_HubMeta opts),
                 lt_Versions = map (wire_version opts) (ly_Legacy layout)\<rparr>) path))"

definition registrar_line :: "string \<Rightarrow> string option" where
  "registrar_line line =
     (let line = trim_space line
      in if has_prefix line ''func Register'' \<and> contains line ''Hub(consumer *kafka.Consumer''
         then (let name = trim_prefix line ''func ''; stem = takeWhile (\<lambda>c. c \<noteq> CHR ''('') name
               in if CHR ''('' \<in> set name \<and> stem \<noteq> [] then Some stem else None)
         else None)"

definition kafkaHubRegistrarName :: "'raw gen_env \<Rightarrow> effect list \<Rightarrow> GenerateOptions \<Rightarrow> string" where
  "kafkaHubRegistrarName env tr opts =
     (let fallback = ''Register'' @ hm_EventService (go_HubMeta opts) @ ''Hub''
      in case ge_readFile env tr
                (path_join (path_join (go_GenDir opts) ''zengo'') ''register_hub.pb.go'') of
           None \<Rightarrow> fallback
         | Some data \<Rightarrow>
             (case List.map_filter registrar_line (split_on (CHR 0x0A) data) of
                [] \<Rightarrow> fallback | name # _ \<Rightarrow> name))"

definition runtime_version :: "GenerateOptions \<Rightarrow> string \<Rightarrow> runtimeLegacyVersionData" where
  "runtime_version opts v =
     (let service = hm_PrimaryService (go_HubMeta opts)
      in \<lparr>rl_Version = v, rl_RegisterFunc = legacyWireGRPCName service v,
          rl_GatewayFunc = gatewayRegisterName service v, rl_AdapterAlias = ''adapter'' @ v,
          rl_AdapterImport = go_Module opts @ ''/gen/zengo/adapters/'' @ v,
          rl_TypeName = adapterTypeName service v\<rparr>)"

definition generateRuntime :: "'raw gen_env \<Rightarrow> Layout \<Rightarrow> GenerateOptions \<Rightarrow> gen_step" where
  "generateRuntime env layout opts tr =
     (let meta = go_HubMeta opts; service = hm_PrimaryService meta; events = hm_EventService meta \<noteq> []
      in perform env (Render (RuntimeData
           \<lparr>rt_HubImport = hubImportPath (go_Module opts) meta, rt_Service = service,
            rt_HubRegisterFunc = registerGRPCName service ''hub'',
            rt_HubGatewayFunc = gatewayRegisterName service ''hub'',
            rt_LegacyVersions = map (runtime_version opts) (ly_Legacy layout),
            rt_HasEventService = events,
            rt_KafkaHubRegistrar = (if events then kafkaHubRegistrarName env tr opts else [])\<rparr>)
           (path_join (path_join (go_GenDir opts) ''zengo'') ''runtime_gen.go'')) tr)"

section \<open>Generate\<close>

definition check_step :: "'raw gen_env \<Rightarrow> GenerateOptions \<Rightarrow> ConversionPlan \<Rightarrow> gen_step" where
  "check_step env opts plan tr =
     (tr, map_option ManualPending
            (checkManualRequired (ge_exists env tr) (ge_readDir env tr) (go_Internal opts) plan))"

definition generate_version ::
  "'raw gen_env \<Rightarrow> Loader \<Rightarrow> Schema \<Rightarrow> GenerateOptions \<Rightarrow> string \<Rightarrow> gen_step" where
  "generate_version env loader hubSchema opts version tr =
     (case Loader_Schema loader version of
        Inl e \<Rightarrow> (tr, Some e)
      | Inr legacySchema \<Rightarrow>
          (let plan = BuildPlan (ge_order env) version hubSchema legacySchema
           in steps [check_step env opts plan,
                     generateConvert env version plan opts,
                     generateAdapters env version plan legacySchema opts,
                     generateEventAdapters env loader version legacySchema opts,
                     cleanupStaleAdapterFiles env version opts] tr))"

definition generate_loaded ::
  "'raw gen_env \<Rightarrow> Layout \<Rightarrow> Loader \<Rightarrow> GenerateOptions \<Rightarrow> gen_step" where
  "generate_loaded env layout loader opts tr =
     (case Loader_HubMeta (ge_loader env) loader of
        Inl e \<Rightarrow> (tr, Some e)
      | Inr hubMeta \<Rightarrow>
          (let opts = opts\<lparr>go_HubMeta := hubMeta\<rparr>
           in case Loader_Schema loader ''hub'' of
                Inl e \<Rightarrow> (tr, Some e)
              | Inr hubSchema \<Rightarrow>
                  steps (map (generate_version env loader hubSchema opts) (ly_Legacy layout) @
                         [generateWire env layout opts, generateRuntime env layout opts]) tr))"

text \<open>The trace starts empty; the loader cache is the process's.\<close>

definition Generate ::
  "'raw gen_env \<Rightarrow> GenerateOptions \<Rightarrow> loader_cache \<Rightarrow> loader_cache \<times> effect list \<times> gen_error option" where
  "Generate env opts cache =
     (case Discover (le_stat (ge_loader env)) (ge_readDir env []) (go_APIRoot opts) of
        Inl e \<Rightarrow> (cache, [], Some e)
      | Inr layout \<Rightarrow>
          (let layout = layout\<lparr>ly_Legacy := legacyVersionsForMode (ly_Legacy layout) (go_Legacy opts)\<rparr>
           in case cleanupStaleVersions env layout opts [] of
                (tr, Some e) \<Rightarrow> (cache, tr, Some e)
              | (tr, None) \<Rightarrow>
                  (case NewLoader (ge_loader env) (go_Module opts) (go_GenDir opts) (ly_Legacy layout) cache of
                     (cache', Inl e) \<Rightarrow> (cache', tr, Some e)
                   | (cache', Inr loader) \<Rightarrow> (cache', generate_loaded env layout loader opts tr))))"

end
