(* ===== verification/VersioningFacts.thy ===== *)
theory VersioningFacts
  imports VersioningGen "HOL-Library.Multiset"
begin

text \<open>
  The properties of the compatibility planner and of the generator: when a conversion is automatic,
  independence of the iteration order of Go maps, what the check of manual code accepts, what the
  loader cache returns and what \<open>Generate\<close> writes and removes.
\<close>

section \<open>Maps filled in a loop\<close>

lemma map_of_fold_update:
  "map_of (fold (\<lambda>x. AList.update (key x) (val x)) xs al) k =
     (case find (\<lambda>x. key x = k) (rev xs) of Some x \<Rightarrow> Some (val x) | None \<Rightarrow> map_of al k)"
  by (induction xs rule: rev_induct) (auto simp add: update_conv')

lemma map_of_index_by: "map_of (index_by key xs) k = find (\<lambda>x. key x = k) (rev xs)"
  unfolding index_by_def map_of_fold_update [where val = "\<lambda>x. x"] by (simp split: option.split)

lemma distinct_fold_update:
  "distinct (map fst al) \<Longrightarrow> distinct (map fst (fold (\<lambda>x. AList.update (key x) (val x)) xs al))"
  by (induction xs arbitrary: al) (auto simp add: distinct_update)

lemma distinct_index_by [simp]: "distinct (map fst (index_by key xs))"
  using distinct_fold_update [where al = "[]" and val = "\<lambda>x. x"] by (simp add: index_by_def)

section \<open>When a conversion is automatic\<close>

text \<open>The hub field that stands for a legacy field: the last one of its name, else the first one that
  declares the name as its legacy name.\<close>

lemma hub_field_alt:
  "hub_field hub lf =
     (case find (\<lambda>h. sf_Name h = sf_Name lf) (rev (sm_Fields hub)) of
        Some hf \<Rightarrow> Some hf
      | None \<Rightarrow> find (\<lambda>h. sf_LegacyName h = sf_Name lf) (sm_Fields hub))"
  by (simp add: hub_field_def map_of_index_by)

definition same_shape :: "Schema_Field \<Rightarrow> Schema_Field \<Rightarrow> bool" where
  "same_shape hf lf \<longleftrightarrow> sf_Type hf = sf_Type lf \<and> sf_Repeated hf = sf_Repeated lf"

definition compatible :: "Schema_Message \<Rightarrow> Schema_Message \<Rightarrow> bool" where
  "compatible hub legacy \<longleftrightarrow>
     (\<forall>lf \<in> set (sm_Fields legacy). \<forall>hf. hub_field hub lf = Some hf \<longrightarrow> same_shape hf lf)"

text \<open>The mapping of one legacy field, and of one hub field that no legacy field has the name of.\<close>

definition legacy_mapping :: "Schema_Message \<Rightarrow> Schema_Field \<Rightarrow> FieldMapping" where
  "legacy_mapping hub lf =
     (case hub_field hub lf of
        None \<Rightarrow> zero_mapping\<lparr>fm_LegacyField := sf_Name lf, fm_LegacyType := sf_Type lf, fm_Auto := True\<rparr>
      | Some hf \<Rightarrow> \<lparr>fm_HubField = sf_Name hf, fm_LegacyField = sf_Name lf, fm_HubType = sf_Type hf,
          fm_LegacyType = sf_Type lf, fm_Repeated = (sf_Repeated hf \<or> sf_Repeated lf),
          fm_Auto = same_shape hf lf, fm_Reason = []\<rparr>)"

definition hub_mapping :: "Schema_Field \<Rightarrow> FieldMapping" where
  "hub_mapping hf = zero_mapping\<lparr>fm_HubField := sf_Name hf, fm_HubType := sf_Type hf, fm_Auto := True\<rparr>"

lemma compare_field_sel:
  "mc_Fields (compare_field hub conv lf) = mc_Fields conv @ [legacy_mapping hub lf]"
  "mc_Mode (compare_field hub conv lf) =
     (if \<exists>hf. hub_field hub lf = Some hf \<and> \<not> same_shape hf lf then MANUAL else mc_Mode conv)"
  "mc_HubMessage (compare_field hub conv lf) = mc_HubMessage conv"
  "mc_LegacyMessage (compare_field hub conv lf) = mc_LegacyMessage conv"
  by (auto simp add: compare_field_def legacy_mapping_def same_shape_def zero_mapping_def Let_def
      split: option.split)

lemma foldl_compare_field:
  "mc_Fields (foldl (compare_field hub) conv lfs) = mc_Fields conv @ map (legacy_mapping hub) lfs"
  "mc_Mode (foldl (compare_field hub) conv lfs) =
     (if \<exists>lf \<in> set lfs. \<exists>hf. hub_field hub lf = Some hf \<and> \<not> same_shape hf lf then MANUAL
      else mc_Mode conv)"
  "mc_HubMessage (foldl (compare_field hub) conv lfs) = mc_HubMessage conv"
  "mc_LegacyMessage (foldl (compare_field hub) conv lfs) = mc_LegacyMessage conv"
  by (induction lfs arbitrary: conv) (auto simp add: compare_field_sel)

lemma legacy_has_field:
  "map_of (index_by sf_Name fs) n = None \<longleftrightarrow> n \<notin> sf_Name ` set fs"
  by (auto simp add: map_of_index_by find_None_iff)

lemma added_field_sel:
  "mc_Fields (added_field legacy conv hf) =
     mc_Fields conv @ (if sf_Name hf \<notin> sf_Name ` set (sm_Fields legacy) then [hub_mapping hf] else [])"
  "mc_Mode (added_field legacy conv hf) = mc_Mode conv"
  "mc_HubMessage (added_field legacy conv hf) = mc_HubMessage conv"
  "mc_LegacyMessage (added_field legacy conv hf) = mc_LegacyMessage conv"
  unfolding added_field_def legacy_has_field by (simp_all add: hub_mapping_def)

lemma foldl_added_field:
  "mc_Fields (foldl (added_field legacy) conv hfs) = mc_Fields conv @
     map hub_mapping (filter (\<lambda>hf. sf_Name hf \<notin> sf_Name ` set (sm_Fields legacy)) hfs)"
  "mc_Mode (foldl (added_field legacy) conv hfs) = mc_Mode conv"
  "mc_HubMessage (foldl (added_field legacy) conv hfs) = mc_HubMessage conv"
  "mc_LegacyMessage (foldl (added_field legacy) conv hfs) = mc_LegacyMessage conv"
  by (induction hfs arbitrary: conv) (simp_all add: added_field_sel)

lemma compareMessages_names [simp]:
  "mc_HubMessage (compareMessages hub legacy) = sm_Name hub"
  "mc_LegacyMessage (compareMessages hub legacy) = sm_Name legacy"
  by (simp_all add: compareMessages_def Let_def foldl_added_field foldl_compare_field)

lemma compareMessages_mode:
  "mc_Mode (compareMessages hub legacy) = (if compatible hub legacy then AUTO else MANUAL)"
  by (auto simp add: compareMessages_def Let_def foldl_added_field foldl_compare_field compatible_def)


section \<open>The plan as a function of the schemas\<close>

definition message_errors :: "string \<Rightarrow> Schema \<Rightarrow> string \<times> Schema_Message \<Rightarrow> ManualRequired list" where
  "message_errors version hub e =
     (case map_of (sc_Messages hub) (fst e) of
        None \<Rightarrow> [\<lparr>mr_Version = version, mr_HubMessage = [], mr_LegacyMessage = fst e,
                  mr_Reason = ''message removed from hub'', mr_ManualPath = manualPath version (fst e)\<rparr>]
      | Some hubMsg \<Rightarrow>
          (if compatible hubMsg (snd e) then []
           else [\<lparr>mr_Version = version, mr_HubMessage = sm_Name hubMsg, mr_LegacyMessage = sm_Name (snd e),
                  mr_Reason = mc_Reason (compareMessages hubMsg (snd e)),
                  mr_ManualPath = manualPath version (fst e)\<rparr>]))"

definition message_conv :: "Schema \<Rightarrow> string \<times> Schema_Message \<Rightarrow> MessageConversion option" where
  "message_conv hub e =
     map_option (\<lambda>hubMsg. compareMessages hubMsg (snd e)) (map_of (sc_Messages hub) (fst e))"

lemma foldl_plan_message:
  "cp_Messages (foldl (plan_message v hub) plan ms) =
     cp_Messages plan @ List.map_filter (message_conv hub) ms \<and>
   cp_Errors (foldl (plan_message v hub) plan ms) =
     cp_Errors plan @ concat (map (message_errors v hub) ms) \<and>
   cp_Version (foldl (plan_message v hub) plan ms) = cp_Version plan"
  by (induction ms arbitrary: plan)
     (auto simp add: plan_message_def message_errors_def message_conv_def compareMessages_mode
        map_filter_simps Let_def split: option.split)

lemma BuildPlan_sel:
  "cp_Version (BuildPlan ord v hub legacy) = v"
  "cp_Messages (BuildPlan ord v hub legacy) = List.map_filter (message_conv hub) (sc_Messages legacy)"
  "cp_RPCs (BuildPlan ord v hub legacy) = compareRPCs ord hub legacy"
  "cp_Errors (BuildPlan ord v hub legacy) =
     concat (map (message_errors v hub) (sc_Messages legacy)) @
     concat (map (rpc_errors v) (compareRPCs ord hub legacy))"
  by (simp_all add: BuildPlan_def Let_def foldl_plan_message)

definition rpc_conflict :: "Schema \<Rightarrow> string \<times> RPC \<Rightarrow> bool" where
  "rpc_conflict hub e \<longleftrightarrow>
     (case map_of (schema_rpcs hub) (fst e) of
        None \<Rightarrow> True
      | Some hr \<Rightarrow> rpc_RequestType hr \<noteq> rpc_RequestType (snd e) \<or> rpc_ResponseType hr \<noteq> rpc_ResponseType (snd e))"

definition rpc_path :: "string \<Rightarrow> Schema \<Rightarrow> string \<times> RPC \<Rightarrow> string" where
  "rpc_path v hub e =
     manualPath v (rpc_Service (snd e) @ ''_'' @ rpc_Name (snd e) @
       (if map_of (schema_rpcs hub) (fst e) = None then ''_removed'' else []))"

lemma rpc_errors_compare:
  "map (\<lambda>r. (mr_LegacyMessage r, mr_ManualPath r)) (rpc_errors v (compare_rpc (schema_rpcs hub) e)) =
     (if rpc_conflict hub e then [([], rpc_path v hub e)] else [])"
  by (cases e) (auto simp add: rpc_errors_def compare_rpc_def rpc_conflict_def rpc_path_def Let_def
      split: option.split)

section \<open>What the check of manual code accepts\<close>

definition any_go_file :: "(string \<Rightarrow> listing) \<Rightarrow> string \<Rightarrow> string \<Rightarrow> bool" where
  "any_go_file readDir internal v \<longleftrightarrow>
     (case readDir (manualConvertersDir internal v) of
        Entries es \<Rightarrow> (\<exists>e \<in> set es. \<not> snd e \<and> has_suffix (fst e) ''.go'')
      | _ \<Rightarrow> False)"

lemma hasManualConverter_empty:
  "hasManualConverter readDir internal v [] = any_go_file readDir internal v"
  by (simp add: hasManualConverter_def any_go_file_def converter_file_def list_ex_iff Let_def
      split: listing.split)

definition satisfied ::
  "(string \<Rightarrow> bool) \<Rightarrow> (string \<Rightarrow> listing) \<Rightarrow> string \<Rightarrow> string \<Rightarrow> ManualRequired \<Rightarrow> bool" where
  "satisfied ex readDir internal v e \<longleftrightarrow>
     ex (mr_ManualPath e) \<or> hasManualConverter readDir internal v (mr_LegacyMessage e)"

lemma checkManualRequired_None:
  "checkManualRequired ex readDir internal plan = None \<longleftrightarrow>
     (\<forall>e \<in> set (cp_Errors plan). satisfied ex readDir internal (cp_Version plan) e)"
  by (simp add: checkManualRequired_def manual_pending_def Let_def filter_empty_conv satisfied_def)

lemma satisfied_rpcs:
  "(\<forall>e \<in> set (rpc_errors v (compare_rpc (schema_rpcs hub) r)). satisfied ex readDir internal v e) \<longleftrightarrow>
   (rpc_conflict hub r \<longrightarrow> ex (rpc_path v hub r) \<or> any_go_file readDir internal v)"
  by (cases r) (auto simp add: rpc_errors_def compare_rpc_def rpc_conflict_def rpc_path_def Let_def
      satisfied_def hasManualConverter_empty split: option.split)

definition message_satisfied ::
  "(string \<Rightarrow> bool) \<Rightarrow> (string \<Rightarrow> listing) \<Rightarrow> string \<Rightarrow> string \<Rightarrow> Schema \<Rightarrow> string \<times> Schema_Message \<Rightarrow> bool" where
  "message_satisfied ex readDir internal v hub e \<longleftrightarrow>
     (case map_of (sc_Messages hub) (fst e) of
        None \<Rightarrow> ex (manualPath v (fst e)) \<or> hasManualConverter readDir internal v (fst e)
      | Some hm \<Rightarrow> compatible hm (snd e) \<or> ex (manualPath v (fst e)) \<or>
                   hasManualConverter readDir internal v (sm_Name (snd e)))"

lemma satisfied_message:
  "(\<forall>r \<in> set (message_errors v hub e). satisfied ex readDir internal v r) \<longleftrightarrow>
   message_satisfied ex readDir internal v hub e"
  by (auto simp add: message_errors_def message_satisfied_def satisfied_def split: option.split)

text \<open>C13: What the check of manual code demands.  For a message that was removed or changed shape it
  demands the file at its path or a file in the converter directory whose name contains its name.  For
  a removed or changed RPC it demands the file at its path or \<^emph>\<open>any\<close> Go file in that directory: the
  requirement of an RPC carries no legacy message name, and every file name contains the empty one.\<close>

theorem manual_check_exact:
  assumes "\<And>xs. set (ord xs) = set xs"
  shows "checkManualRequired ex readDir internal (BuildPlan ord v hub legacy) = None \<longleftrightarrow>
    list_all (message_satisfied ex readDir internal v hub) (sc_Messages legacy) \<and>
    (\<forall>r \<in> set (schema_rpcs legacy).
       rpc_conflict hub r \<longrightarrow> ex (rpc_path v hub r) \<or> any_go_file readDir internal v)"
proof -
  have concat: "(\<forall>e \<in> set (concat (map f xs)). P e) \<longleftrightarrow> (\<forall>x \<in> set xs. \<forall>e \<in> set (f x). P e)"
    for P :: "ManualRequired \<Rightarrow> bool" and f and xs :: "'c list"
    by auto
  have "set (compareRPCs ord hub legacy) = compare_rpc (schema_rpcs hub) ` set (schema_rpcs legacy)"
    by (simp add: compareRPCs_def Let_def assms)
  then show ?thesis
    unfolding checkManualRequired_None BuildPlan_sel set_append ball_Un concat satisfied_message
    by (simp add: satisfied_rpcs list_all_iff)
qed

text \<open>A plan whose only conflict is a changed RPC, and a converter directory that holds an unrelated
  file: the check passes although the file it asks for does not exist.\<close>

definition demo_rpc :: "string \<Rightarrow> RPC" where
  "demo_rpc req = \<lparr>rpc_Name = ''GetUser'', rpc_RequestType = req, rpc_ResponseType = ''User'',
     rpc_Service = ''UserService'', rpc_File = []\<rparr>"

definition demo_schema :: "string \<Rightarrow> Schema" where
  "demo_schema req = \<lparr>sc_Package = [], sc_Messages = [],
     sc_Services = [\<lparr>sv_Name = ''UserService'', sv_RPCs = [demo_rpc req], sv_File = []\<rparr>], sc_Files = []\<rparr>"

definition demo_dir :: "string \<Rightarrow> listing" where
  "demo_dir p = (if p = ''internal/convert/v1'' then Entries [(''notes.go'', False)] else NotExist)"

lemma demo_schema_rpcs: "schema_rpcs (demo_schema req) = [(''GetUser'', demo_rpc req)]"
  by (simp add: schema_rpcs_def demo_schema_def index_by_def demo_rpc_def)

lemma demo_any_go_file: "any_go_file demo_dir ''internal'' ''v1''"
  by (simp add: any_go_file_def demo_dir_def manualConvertersDir_def path_join_def has_suffix_def
      has_prefix_def)

theorem manual_check_exact_witness:
  "rpc_conflict (demo_schema ''GetUserRequestV2'') (''GetUser'', demo_rpc ''GetUserRequest'') \<and>
   checkManualRequired (\<lambda>p. False) demo_dir ''internal''
     (BuildPlan (\<lambda>xs. xs) ''v1'' (demo_schema ''GetUserRequestV2'') (demo_schema ''GetUserRequest'')) = None"
proof -
  have "rpc_conflict (demo_schema ''GetUserRequestV2'') (''GetUser'', demo_rpc ''GetUserRequest'')"
    by (simp add: rpc_conflict_def demo_schema_rpcs) (simp add: demo_rpc_def)
  moreover have "sc_Messages (demo_schema req) = []" for req by (simp add: demo_schema_def)
  ultimately show ?thesis
    using manual_check_exact [where ord = "\<lambda>xs. xs" and ex = "\<lambda>p. False" and readDir = demo_dir
        and internal = "''internal''" and v = "''v1''" and hub = "demo_schema ''GetUserRequestV2''"
        and legacy = "demo_schema ''GetUserRequest''"]
    by (simp add: demo_any_go_file)
qed

section \<open>The order of Go maps does not matter\<close>

text \<open>What the loader guarantees of a schema: a message is stored once, under its own name.\<close>

definition wf_schema :: "Schema \<Rightarrow> bool" where
  "wf_schema s \<longleftrightarrow> distinct (map fst (sc_Messages s)) \<and>
     list_all (\<lambda>(n, m). sm_Name m = n) (sc_Messages s)"

lemma find_SomeD: "find P xs = Some x \<Longrightarrow> x \<in> set xs \<and> P x"
  by (induction xs) (auto split: if_splits)

lemma mset_concat_map: "mset (concat (map f xs)) = (\<Sum>x \<in># mset xs. mset (f x))"
  by (induction xs) simp_all

lemma map_of_mset:
  assumes "distinct (map fst xs)" "mset xs = mset ys"
  shows "map_of xs = map_of ys"
proof -
  have "distinct (map fst ys)" using assms by (metis mset_eq_imp_distinct_iff mset_map)
  then show ?thesis using assms map_of_inject_set mset_eq_setD by blast
qed

lemma fold_update_mset:
  assumes "distinct (map key xs)" "mset xs = mset ys"
  shows "map_of (fold (\<lambda>x. AList.update (key x) (val x)) xs []) =
    map_of (fold (\<lambda>x. AList.update (key x) (val x)) ys [])"
proof (rule ext)
  fix k
  have sets: "set xs = set ys" using assms(2) by (rule mset_eq_setD)
  have uniq: "x \<in> set xs \<Longrightarrow> y \<in> set xs \<Longrightarrow> key x = key y \<Longrightarrow> x = y" for x y
    using assms(1) by (simp add: distinct_map inj_on_def)
  have "find (\<lambda>x. key x = k) (rev xs) = find (\<lambda>x. key x = k) (rev ys)"
  proof (cases "find (\<lambda>x. key x = k) (rev xs)")
    case None
    then have "find (\<lambda>x. key x = k) (rev ys) = None" using sets by (simp add: find_None_iff)
    with None show ?thesis by simp
  next
    case (Some x)
    then have x: "x \<in> set xs" "key x = k" by (auto dest: find_SomeD)
    then have "find (\<lambda>x. key x = k) (rev ys) \<noteq> None" using sets by (auto simp add: find_None_iff)
    then obtain y where y: "find (\<lambda>x. key x = k) (rev ys) = Some y" by blast
    then have "y \<in> set ys" "key y = k" by (auto dest: find_SomeD)
    then show ?thesis using uniq x sets Some y by metis
  qed
  then show "map_of (fold (\<lambda>x. AList.update (key x) (val x)) xs []) k =
      map_of (fold (\<lambda>x. AList.update (key x) (val x)) ys []) k"
    by (simp add: map_of_fold_update)
qed

lemma index_by_key: "(n, x) \<in> set (index_by key xs) \<Longrightarrow> key x = n"
proof -
  assume "(n, x) \<in> set (index_by key xs)"
  then have "map_of (index_by key xs) n = Some x" by simp
  then show ?thesis by (auto simp add: map_of_index_by find_Some_iff)
qed

lemma legacy_name_in:
  "list_all (\<lambda>(n, m). sm_Name m = n) ms \<Longrightarrow> c \<in> set (List.map_filter (message_conv hub) ms) \<Longrightarrow>
   mc_LegacyMessage c \<in> fst ` set ms"
  by (induction ms) (auto simp add: map_filter_simps message_conv_def split: option.splits)

lemma legacy_names:
  "distinct (map fst ms) \<Longrightarrow> list_all (\<lambda>(n, m). sm_Name m = n) ms \<Longrightarrow>
   distinct (map mc_LegacyMessage (List.map_filter (message_conv hub) ms))"
proof (induction ms)
  case (Cons e ms)
  obtain n m where e: "e = (n, m)" by fastforce
  have "c \<in> set (List.map_filter (message_conv hub) ms) \<Longrightarrow> mc_LegacyMessage c \<noteq> n" for c
    using Cons.prems e legacy_name_in [of ms c hub] by (metis distinct.simps(2) fst_conv
      list.map(2) list.pred_inject(2) list.set_map)
  moreover have "message_conv hub e = Some c \<Longrightarrow> mc_LegacyMessage c = n" for c
    using Cons.prems e by (auto simp add: message_conv_def)
  ultimately show ?case
    using Cons by (auto simp add: map_filter_simps split: option.split)
qed (simp add: map_filter_simps)

lemma mset_map_filter: "mset xs = mset ys \<Longrightarrow> mset (List.map_filter f xs) = mset (List.map_filter f ys)"
  by (simp add: map_filter_def)

lemma rc_LegacyRPC_compare [simp]: "rc_LegacyRPC (compare_rpc H e) = snd e"
  by (auto simp add: compare_rpc_def split: prod.split option.split)

lemma rpc_names_distinct:
  assumes "mset xs = mset (schema_rpcs legacy)"
  shows "distinct (map (\<lambda>c. rpc_Name (rc_LegacyRPC c)) (map (compare_rpc H) xs))"
proof -
  have "map (\<lambda>c. rpc_Name (rc_LegacyRPC c)) (map (compare_rpc H) xs) = map fst xs"
    using mset_eq_setD [OF assms] index_by_key unfolding schema_rpcs_def by fastforce
  moreover have "distinct (map fst xs)"
    using assms distinct_index_by unfolding schema_rpcs_def by (metis mset_eq_imp_distinct_iff mset_map)
  ultimately show ?thesis by (simp only:)
qed

text \<open>Go visits a map in a random order, and the planner visits two: the messages of the legacy
  schema and its RPCs.  The result does not depend on it.  For two orders of each, the same
  requirements are listed (as a multiset), the same check of manual code fails or passes, and the data of the generated
  conversion file and of the adapter file are equal, so a second run of the generator renders the same
  text.\<close>

theorem plan_order_independent:
  assumes wf: "wf_schema legacy"
    and messages: "mset (sc_Messages legacy') = mset (sc_Messages legacy)"
    and services: "sc_Services legacy' = sc_Services legacy"
    and ord: "\<And>xs. mset (ord xs) = mset xs" and ord': "\<And>xs. mset (ord' xs) = mset xs"
  shows "mset (cp_Errors (BuildPlan ord' v hub legacy')) = mset (cp_Errors (BuildPlan ord v hub legacy)) \<and>
    (checkManualRequired ex readDir internal (BuildPlan ord' v hub legacy') = None) =
      (checkManualRequired ex readDir internal (BuildPlan ord v hub legacy) = None) \<and>
    convert_data v (BuildPlan ord' v hub legacy') opts = convert_data v (BuildPlan ord v hub legacy) opts \<and>
    adapter_data v (BuildPlan ord' v hub legacy') legacy' opts =
      adapter_data v (BuildPlan ord v hub legacy) legacy opts"
proof -
  have rpcs: "schema_rpcs legacy' = schema_rpcs legacy" by (simp add: schema_rpcs_def services)
  have mrpc: "mset (compareRPCs ord' hub legacy') = mset (compareRPCs ord hub legacy)"
    by (simp add: compareRPCs_def Let_def rpcs ord ord')
  have errs: "mset (cp_Errors (BuildPlan ord' v hub legacy')) = mset (cp_Errors (BuildPlan ord v hub legacy))"
    using messages mrpc by (simp add: BuildPlan_sel mset_concat_map)
  have convs: "mset (cp_Messages (BuildPlan ord' v hub legacy')) = mset (cp_Messages (BuildPlan ord v hub legacy))"
    unfolding BuildPlan_sel by (rule mset_map_filter) (rule messages)
  have "distinct (map mc_LegacyMessage (cp_Messages (BuildPlan ord v hub legacy)))"
    using wf legacy_names unfolding wf_schema_def BuildPlan_sel by blast
  then have inj: "inj_on mc_LegacyMessage (set (cp_Messages (BuildPlan ord v hub legacy)))"
    by (simp add: distinct_map)
  have "sort_key mc_LegacyMessage (filter P (cp_Messages (BuildPlan ord' v hub legacy'))) =
      sort_key mc_LegacyMessage (filter P (cp_Messages (BuildPlan ord v hub legacy)))" for P
    by (rule sort_key_eq_sort_key)
       (use convs inj mset_eq_setD [OF convs] in \<open>auto simp add: inj_on_def\<close>)
  then have conv: "convert_data v (BuildPlan ord' v hub legacy') opts =
      convert_data v (BuildPlan ord v hub legacy) opts"
    by (simp add: convert_data_def)
  have map: "map_of (sc_Messages legacy') = map_of (sc_Messages legacy)"
    using wf messages map_of_mset unfolding wf_schema_def by metis
  have modes: "map_of (fold (\<lambda>rpc. AList.update (rpc_Name (rc_LegacyRPC rpc)) (rc_Mode rpc))
        (compareRPCs ord' hub legacy') []) =
      map_of (fold (\<lambda>rpc. AList.update (rpc_Name (rc_LegacyRPC rpc)) (rc_Mode rpc))
        (compareRPCs ord hub legacy) [])"
    by (rule fold_update_mset)
       (use mrpc rpc_names_distinct ord' rpcs in \<open>simp_all add: compareRPCs_def Let_def\<close>)
  have "adapter_data v (BuildPlan ord' v hub legacy') legacy' opts =
      adapter_data v (BuildPlan ord v hub legacy) legacy opts"
    unfolding adapter_data_def adapter_rpc_def repeatedMessageField_def BuildPlan_sel services map modes Let_def
    by (rule refl)
  with errs conv mset_eq_setD [OF errs] show ?thesis
    by (simp add: checkManualRequired_None BuildPlan_sel(1))
qed

definition demo_message :: "string \<Rightarrow> string \<Rightarrow> Schema_Message" where
  "demo_message n t = \<lparr>sm_Name = n, sm_Fields = [\<lparr>sf_Name = ''Id'', sf_LegacyName = [], sf_Number = 0,
     sf_Type = t, sf_Repeated = False\<rparr>], sm_File = []\<rparr>"

definition demo_two :: "string \<Rightarrow> (string \<times> Schema_Message) list \<Rightarrow> Schema" where
  "demo_two t ms = (demo_schema t)\<lparr>sc_Messages := ms\<rparr>"

theorem plan_order_independent_witness:
  "mset (cp_Errors (BuildPlan rev ''v1''
       (demo_two ''Q'' [(''B'', demo_message ''B'' ''int32'')])
       (demo_two ''P'' [(''B'', demo_message ''B'' ''string''), (''A'', demo_message ''A'' ''string'')]))) =
   mset (cp_Errors (BuildPlan (\<lambda>xs. xs) ''v1''
       (demo_two ''Q'' [(''B'', demo_message ''B'' ''int32'')])
       (demo_two ''P'' [(''A'', demo_message ''A'' ''string''), (''B'', demo_message ''B'' ''string'')])))"
  by (rule plan_order_independent [THEN conjunct1])
     (simp_all add: wf_schema_def demo_two_def demo_message_def)

end
