(* ===== verification/VersioningGenFacts.thy ===== *)
theory VersioningGenFacts
  imports VersioningGen
begin

text \<open>
  The properties of the loader and of \<open>Generate\<close>: what the process-wide cache returns, why the event
  adapters of legacy versions register no consumer, which fields the generated converters take for
  messages, and what a run may write and remove.
\<close>

section \<open>The loader cache\<close>

lemma NewLoader_cached:
  assumes "NewLoader env module genDir versions cache = (cache', Inr l)"
  shows "\<exists>paths. list_segments env genDir (''hub'' # versions) = Inr paths \<and> paths \<noteq> [] \<and>
    map_of cache' (cacheKey module genDir paths) = Some l"
  using assms
  by (simp add: NewLoader_def Let_def update_conv' del: list_segments.simps build_segments.simps
      split: sum.splits option.splits if_splits) (auto simp add: update_conv')

text \<open>A loader is cached under the module, the directory and the import paths only.  Once one was
  built, every later \<open>NewLoader\<close> of the process with the same paths returns it, whatever gengo and the
  descriptors would report now: the schemas are those of the first run.  (\<open>zengo dev\<close> regenerates in
  one process, so a change of the API is planned against the schemas from before the change.)\<close>

theorem NewLoader_stale:
  assumes "NewLoader env module genDir versions cache = (cache', Inr l)"
    and "list_segments env' genDir (''hub'' # versions) = list_segments env genDir (''hub'' # versions)"
  shows "NewLoader env' module genDir versions cache' = (cache', Inr l)"
  using NewLoader_cached [OF assms(1)] assms(2)
  by (auto simp add: NewLoader_def Let_def simp del: list_segments.simps)

section \<open>The consume options of legacy services\<close>

lemma gengoPath_dot: "has_prefix (gengoPath env path) ''.''"
  by (simp add: gengoPath_def Let_def has_prefix_def)

lemma listGenImportPaths_dot:
  "listGenImportPaths env genDir segment = Inr paths \<Longrightarrow> p \<in> set paths \<Longrightarrow> has_prefix p ''.''"
  by (auto simp add: listGenImportPaths_def Let_def gengoPath_dot
      split: option.splits bool.splits if_splits)

lemma list_segments_dot:
  "list_segments env genDir segs = Inr paths \<Longrightarrow> p \<in> set paths \<Longrightarrow> has_prefix p ''.''"
  by (induction segs arbitrary: paths) (auto dest: listGenImportPaths_dot)

lemma source_dirs_dom:
  "source_dirs u imps dirs = Inr dirs' \<Longrightarrow> fst ` set dirs' \<subseteq> fst ` set dirs \<union> set imps"
proof (induction imps arbitrary: dirs)
  case (Cons imp imps)
  from Cons.prems obtain pkg :: gpackage where "source_dirs u imps (AList.update imp (gp_SourcePath pkg) dirs) = Inr dirs'"
    by (auto split: option.splits)
  from Cons.IH [OF this] show ?case by (auto simp add: dom_update)
qed simp

lemma values_update: "x \<in> snd ` set (AList.update k v al) \<Longrightarrow> x = v \<or> x \<in> snd ` set al"
  by (induction al) (auto split: if_splits)

lemma buildSegmentSchema_sourceDir:
  "buildSegmentSchema env u seg l = Inr l' \<Longrightarrow> ld_sourceDir l' = ld_sourceDir l"
  by (auto simp add: buildSegmentSchema_def Let_def split: if_splits)

lemma build_segments_sourceDir:
  "build_segments env u segs l = Inr l' \<Longrightarrow> ld_sourceDir l' = ld_sourceDir l"
  by (induction segs arbitrary: l) (auto dest: buildSegmentSchema_sourceDir)

text \<open>Every loader knows only source directories of relative import paths.\<close>

definition dotted :: "Loader \<Rightarrow> bool" where
  "dotted l \<longleftrightarrow> (\<forall>p \<in> fst ` set (ld_sourceDir l). has_prefix p ''.'')"

lemma loadGengo_dom:
  "loadGengo env l = Inr (u, l') \<Longrightarrow> ld_sourceDir l = [] \<Longrightarrow>
   fst ` set (ld_sourceDir l') \<subseteq> set (ld_importPaths l)"
  by (auto simp add: loadGengo_def split: option.splits dest!: source_dirs_dom) force

lemma NewLoader_dotted:
  assumes cache: "\<forall>x \<in> snd ` set cache. dotted x"
    and new: "NewLoader env module genDir versions cache = (cache', r)"
  shows "(\<forall>x \<in> snd ` set cache'. dotted x) \<and> (\<forall>l. r = Inr l \<longrightarrow> dotted l)"
proof (cases "list_segments env genDir (''hub'' # versions)")
  case (Inr paths)
  let ?key = "cacheKey module genDir paths"
  let ?l = "\<lparr>ld_module = module, ld_genDir = genDir, ld_importPaths = paths, ld_sourceDir = [], ld_schemas = []\<rparr>"
  let ?r = "bind_err (loadGengo env ?l) (\<lambda>(u, l). build_segments env u (''hub'' # versions) l)"
  have built: "dotted l" if "?r = Inr l" for l
  proof -
    obtain u l' where l': "loadGengo env ?l = Inr (u, l')" "build_segments env u (''hub'' # versions) l' = Inr l"
      using \<open>?r = Inr l\<close> by (auto simp del: build_segments.simps)
    have "fst ` set (ld_sourceDir l) \<subseteq> set paths"
      using loadGengo_dom [OF l'(1)] build_segments_sourceDir [OF l'(2)] by simp
    then show ?thesis using list_segments_dot [OF Inr] by (auto simp add: dotted_def)
  qed
  have hit: "map_of cache ?key = Some l \<Longrightarrow> dotted l" for l
    using cache by (force dest: map_of_SomeD)
  have upd: "dotted l \<Longrightarrow> \<forall>x \<in> snd ` set (AList.update ?key l cache). dotted x" for l
    using cache by (intro ballI) (drule values_update, elim disjE, simp, erule bspec)
  have split: "(cache', r) =
      (if paths = [] then (cache, Inl (NoPackages genDir))
       else case map_of cache ?key of
              Some l \<Rightarrow> (cache, Inr l)
            | None \<Rightarrow> (case ?r of Inl e \<Rightarrow> (cache, Inl e) | Inr l \<Rightarrow> (AList.update ?key l cache, Inr l)))"
    using new unfolding NewLoader_def Let_def Inr sum.case by (rule sym)
  show ?thesis
  proof (cases "paths = []")
    case False
    show ?thesis
    proof (cases "map_of cache ?key")
      case None
      show ?thesis
      proof (cases ?r)
        case (Inl e)
        then show ?thesis using split False None cache by (simp del: build_segments.simps)
      next
        case (Inr l)
        then have "cache' = AList.update ?key l cache" "r = Inr l" using split False None
          unfolding Inr by simp_all
        then show ?thesis using upd built [OF Inr] by simp
      qed
    next
      case (Some l) then show ?thesis using split False cache hit by simp
    qed
  qed (use split cache in simp)
qed (use assms in \<open>auto simp add: NewLoader_def Let_def simp del: list_segments.simps\<close>)

text \<open>The cache after a series of calls of \<open>NewLoader\<close>, from the empty one of a new process.\<close>

definition cache_after ::
  "('raw loader_env \<times> string \<times> string \<times> string list) list \<Rightarrow> loader_cache" where
  "cache_after runs = fold (\<lambda>(env, module, genDir, versions) cache.
     fst (NewLoader env module genDir versions cache)) runs []"

lemma cache_after_dotted: "\<forall>x \<in> snd ` set (cache_after runs). dotted x"
proof (induction runs rule: rev_induct)
  case (snoc run runs)
  obtain env module genDir versions where run: "run = (env, module, genDir, versions)"
    by (metis prod_cases4)
  have "cache_after (runs @ [run]) = fst (NewLoader env module genDir versions (cache_after runs))"
    by (simp add: cache_after_def run)
  then show ?case using snoc NewLoader_dotted by (metis prod.collapse)
qed (simp add: cache_after_def)

text \<open>The event adapter of a legacy version looks up the \<open>consume\<close> options under the Go import
  path of the legacy package, but the loader keeps its packages under paths relative to the working
  directory.  So for every module path that does not start with a dot, no option is ever found: every RPC of
  a legacy event adapter is rendered without a consumer, and the generated registrar registers
  nothing, whatever the protobuf files declare.\<close>

theorem legacy_consume_lost:
  assumes "NewLoader env module genDir versions (cache_after runs) = (cache', Inr l)"
    and "go_Module opts = module" "module \<noteq> []" "\<not> has_prefix module ''.''"
  shows "list_all (\<lambda>r. er_Consume r = None) (ev_RPCs (event_data genv l version eventSvc opts))"
proof -
  have "dotted l" using NewLoader_dotted [OF cache_after_dotted assms(1)] by blast
  moreover have "\<not> has_prefix (legacyImportPath module version meta) ''.''" for meta
    using assms(3,4) by (cases module) (simp_all add: legacyImportPath_def has_prefix_def)
  ultimately have "map_of (ld_sourceDir l) (legacyImportPath module version meta) = None" for meta
    by (force simp add: dotted_def map_of_eq_None_iff)
  then have "rpcKafkaConsume (ge_loader genv) l (legacyImportPath module version meta) s n = None"
    for meta s n by (simp add: rpcKafkaConsume_def fileDescriptor_def rawDescBytes_def)
  then show ?thesis using assms(2) by (simp add: event_data_def Let_def list_all_iff)
qed

section \<open>Scalar fields that the generator takes for messages\<close>

text \<open>The loader reads field types from the generated Go code, but \<open>IsScalarType\<close> knows the names of
  protobuf: a \<open>bytes\<close> field, a \<open>[]byte\<close> in Go, is a repeated field of a message type \<open>byte\<close>, and a
  list of \<open>float64\<close> a list of messages.\<close>

lemma go_scalars_are_messages:
  assumes "t \<in> {''byte'', ''uint8'', ''float32'', ''float64''}"
  shows "repeatedMessageField (s\<lparr>sc_Messages := [(n, \<lparr>sm_Name = n, sm_Fields = [memberToField
      \<lparr>gm_Name = f, gm_Embedded = False,
       gm_Type = GType KSlice [] [] (Some (GType KBuiltin t t None))\<rparr>], sm_File = p\<rparr>)]\<rparr>) n = Some (f, t)"
  using assms by (auto simp add: repeatedMessageField_def memberToField_def Let_def IsScalarType_def)

section \<open>What a run writes and removes\<close>

text \<open>\<open>emits P f\<close>: the step \<open>f\<close> only appends effects that satisfy \<open>P\<close>.\<close>

definition emits :: "(effect \<Rightarrow> bool) \<Rightarrow> gen_step \<Rightarrow> bool" where
  "emits P f \<longleftrightarrow> (\<forall>tr tr' e. f tr = (tr', e) \<longrightarrow> (\<exists>new. tr' = tr @ new \<and> list_all P new))"

named_theorems emits_intros

lemma emits_nothing: "(\<And>tr. fst (f tr) = tr) \<Longrightarrow> emits P f"
  unfolding emits_def by (metis append_Nil2 fst_conv list.pred_inject(1))

lemma emits_perform [emits_intros]: "P eff \<Longrightarrow> emits P (perform env eff)"
  by (auto simp add: emits_def perform_def)

lemma emits_steps [emits_intros]: "(\<And>f. f \<in> set fs \<Longrightarrow> emits P f) \<Longrightarrow> emits P (steps fs)"
proof (induction fs)
  case (Cons f fs)
  then have f: "emits P f" and fs: "emits P (steps fs)" by simp_all
  show ?case unfolding emits_def
  proof (intro allI impI)
    fix tr tr' e assume run: "steps (f # fs) tr = (tr', e)"
    obtain tr1 e1 where f1: "f tr = (tr1, e1)" by fastforce
    obtain new1 where new1: "tr1 = tr @ new1" "list_all P new1" using f f1 unfolding emits_def by blast
    show "\<exists>new. tr' = tr @ new \<and> list_all P new"
    proof (cases e1)
      case None
      then have "steps fs tr1 = (tr', e)" using run f1 by simp
      then obtain new2 where "tr' = tr1 @ new2" "list_all P new2" using fs unfolding emits_def by blast
      then show ?thesis using new1 by auto
    qed (use run f1 new1 in auto)
  qed
qed (simp add: emits_nothing)

definition gen_root :: "GenerateOptions \<Rightarrow> string" where
  "gen_root opts = path_join (go_GenDir opts) ''zengo'' @ ''/''"

lemma gen_root_path:
  "path_join (path_join (go_GenDir opts) ''zengo'') sub = gen_root opts @ sub"
  by (auto simp add: path_join_def gen_root_def)

lemma gen_dir_path:
  "sub \<noteq> [] \<Longrightarrow> last sub \<noteq> CHR ''/'' \<Longrightarrow> v \<noteq> [] \<Longrightarrow> last v \<noteq> CHR ''/'' \<Longrightarrow>
   path_join (gen_dir opts sub v) name = gen_root opts @ sub @ ''/'' @ v @ ''/'' @ name"
  by (simp add: gen_dir_def gen_root_path) (simp add: path_join_def gen_root_def)

lemma has_prefix_gen_root [simp]: "has_prefix (gen_root opts @ p) (gen_root opts)"
  by simp

text \<open>What a run may do below the output directory, for the legacy versions \<open>vs\<close> it keeps.\<close>

definition allowed_effect :: "GenerateOptions \<Rightarrow> string list \<Rightarrow> effect \<Rightarrow> bool" where
  "allowed_effect opts vs eff \<longleftrightarrow>
     has_prefix (effect_path eff) (gen_root opts) \<and>
     (case eff of
        RemoveAll p \<Rightarrow> (\<exists>sub \<in> {''convert'', ''adapters''}. \<exists>v. legacyDirPattern v \<and> v \<notin> set vs \<and>
                          p = gen_root opts @ sub @ ''/'' @ v)
      | Remove p \<Rightarrow> (\<exists>name. has_suffix name ''_gen.go'' \<and>
                        (p = gen_root opts @ name \<or>
                         (\<exists>v \<in> set vs. p = gen_root opts @ ''adapters/'' @ v @ ''/'' @ name)))
      | Render d p \<Rightarrow> True)"

lemma gen_root_has_prefix: "has_prefix (gen_root opts @ p) (gen_root opts)" by simp

lemma cleanupStaleVersions_emits:
  "emits (allowed_effect opts (ly_Legacy layout)) (cleanupStaleVersions env layout opts)"
proof -
  have "emits (allowed_effect opts (ly_Legacy layout)) (cleanup_sub env layout opts sub)"
    if "sub \<in> {''convert'', ''adapters''}" for sub
  proof -
    let ?P = "allowed_effect opts (ly_Legacy layout)" let ?root = "path_join (path_join (go_GenDir opts) ''zengo'') sub"
    have path: "path_join ?root v = gen_root opts @ sub @ ''/'' @ v" for v
      using that unfolding gen_root_path by (auto simp add: path_join_def)
    have step: "emits ?P (perform env (RemoveAll (path_join ?root (fst e))))" if "stale_version layout e" for e
      using that \<open>sub \<in> _\<close> unfolding path
      by (intro emits_perform) (auto simp add: allowed_effect_def stale_version_def)
    have "emits ?P (steps (map (\<lambda>e. perform env (RemoveAll (path_join ?root (fst e))))
        (filter (stale_version layout) es)))" for es
      by (rule emits_steps) (auto intro: step)
    then show ?thesis
      unfolding cleanup_sub_def emits_def Let_def by (auto split: listing.splits)
  qed
  then show ?thesis unfolding cleanupStaleVersions_def by (intro emits_steps) auto
qed

lemma legacyDir_path: "legacyDirPattern v \<Longrightarrow> v \<noteq> [] \<and> last v \<noteq> CHR ''/''"
proof -
  assume v: "legacyDirPattern v"
  then obtain ds where ds: "v = CHR ''v'' # ds" "ds \<noteq> []" "list_all is_digit ds"
    by (auto simp add: legacyDirPattern_def split: list.splits)
  then have "is_digit (last ds)" by (simp add: list_all_iff)
  then have "last ds \<noteq> CHR ''/''" by (auto simp add: is_digit_def)
  with ds show ?thesis by simp
qed

lemma emits_render [emits_intros]:
  "has_prefix p (gen_root opts) \<Longrightarrow> emits (allowed_effect opts vs) (perform env (Render d p))"
  by (intro emits_perform) (simp add: allowed_effect_def)

definition kept_version :: "string list \<Rightarrow> string \<Rightarrow> bool" where
  "kept_version vs v \<longleftrightarrow> v \<in> set vs \<and> legacyDirPattern v"

lemma version_path:
  assumes "kept_version vs v"
  shows "path_join (gen_dir opts ''convert'' v) name = gen_root opts @ ''convert/'' @ v @ ''/'' @ name"
    and "path_join (gen_dir opts ''adapters'' v) name = gen_root opts @ ''adapters/'' @ v @ ''/'' @ name"
  using legacyDir_path assms by (simp_all add: gen_dir_path kept_version_def)

lemma generateConvert_emits:
  "kept_version vs v \<Longrightarrow> emits (allowed_effect opts vs) (generateConvert env v plan opts)"
  by (auto simp add: generateConvert_def version_path intro: emits_render)

lemma generateAdapters_emits:
  "kept_version vs v \<Longrightarrow> emits (allowed_effect opts vs) (generateAdapters env v plan s opts)"
  by (auto simp add: generateAdapters_def version_path intro: emits_render)

lemma generateEventAdapters_emits:
  assumes "kept_version vs v"
  shows "emits (allowed_effect opts vs) (generateEventAdapters env l v s opts)"
proof -
  have "emits (allowed_effect opts vs) (perform env (Render d (path_join (gen_dir opts ''adapters'' v) n)))"
    for d n unfolding version_path [OF assms] by (intro emits_render gen_root_has_prefix)
  then show ?thesis
    unfolding generateEventAdapters_def emits_def Let_def by (auto split: option.splits if_splits)
qed

lemma cleanupStaleAdapterFiles_emits:
  assumes v: "kept_version vs v"
  shows "emits (allowed_effect opts vs) (cleanupStaleAdapterFiles env v opts)"
proof -
  have step: "emits (allowed_effect opts vs) (perform env (Remove (path_join (gen_dir opts ''adapters'' v) n)))"
    if "has_suffix n ''_gen.go''" for n
    using that v unfolding version_path [OF v]
    by (intro emits_perform) (auto simp add: allowed_effect_def kept_version_def)
  have "emits (allowed_effect opts vs) (steps (map (\<lambda>e. perform env
      (Remove (path_join (gen_dir opts ''adapters'' v) (fst e))))
      (filter (\<lambda>e. \<not> (snd e \<or> \<not> has_suffix (fst e) ''_gen.go'') \<and> fst e \<notin> set keep) es)))" for keep es
    by (rule emits_steps) (auto intro: step)
  then show ?thesis
    unfolding cleanupStaleAdapterFiles_def emits_def Let_def by (auto split: listing.splits)
qed

lemma check_step_emits: "emits (allowed_effect opts vs) (check_step env opts plan)"
  by (rule emits_nothing) (simp add: check_step_def)

lemma version_steps_emit:
  "kept_version vs v \<Longrightarrow> f \<in> set [check_step env opts plan, generateConvert env v plan opts,
      generateAdapters env v plan s opts, generateEventAdapters env l v s opts,
      cleanupStaleAdapterFiles env v opts] \<Longrightarrow> emits (allowed_effect opts vs) f"
  using check_step_emits generateConvert_emits generateAdapters_emits generateEventAdapters_emits
    cleanupStaleAdapterFiles_emits by auto

lemma generate_version_emits:
  assumes "kept_version vs v"
  shows "emits (allowed_effect opts vs) (generate_version env l hub opts v)"
proof -
  have "emits (allowed_effect opts vs) (steps [check_step env opts plan,
      generateConvert env v plan opts, generateAdapters env v plan s opts,
      generateEventAdapters env l v s opts, cleanupStaleAdapterFiles env v opts])" for plan s
    by (rule emits_steps) (rule version_steps_emit [OF assms])
  then show ?thesis
    unfolding generate_version_def emits_def Let_def by (auto simp del: steps.simps split: sum.splits)
qed

lemma generateWire_emits: "emits (allowed_effect opts vs) (generateWire env layout opts)"
proof -
  have gen: "has_suffix ''legacy_wire_gen.go'' ''_gen.go''" by (simp add: has_suffix_def has_prefix_def)
  have "allowed_effect opts vs (Remove (gen_root opts @ ''legacy_wire_gen.go''))"
    unfolding allowed_effect_def using gen by (simp del: append.simps) blast
  then have "emits (allowed_effect opts vs) (perform env (Remove (gen_root opts @ ''legacy_wire_gen.go'')))"
    by (rule emits_perform)
  then show ?thesis
    unfolding generateWire_def gen_root_path Let_def
    by (cases "ly_Legacy layout = []") (auto simp del: append.simps intro!: emits_render gen_root_has_prefix)
qed

lemma generateRuntime_emits: "emits (allowed_effect opts vs) (generateRuntime env layout opts)"
  unfolding generateRuntime_def gen_root_path Let_def emits_def
  using emits_render [OF gen_root_has_prefix] unfolding emits_def by blast

lemma allowed_effect_meta: "allowed_effect (opts\<lparr>go_HubMeta := m\<rparr>) = allowed_effect opts"
  by (intro ext) (simp add: allowed_effect_def gen_root_def split: effect.split)

lemma generate_loaded_emits:
  assumes "\<forall>v \<in> set (ly_Legacy layout). legacyDirPattern v"
  shows "emits (allowed_effect opts (ly_Legacy layout)) (generate_loaded env layout loader opts)"
proof -
  let ?vs = "ly_Legacy layout"
  have "emits (allowed_effect opts ?vs) (steps (map (generate_version env loader hub (opts\<lparr>go_HubMeta := m\<rparr>)) ?vs @
      [generateWire env layout (opts\<lparr>go_HubMeta := m\<rparr>), generateRuntime env layout (opts\<lparr>go_HubMeta := m\<rparr>)]))"
    for hub m
  proof (rule emits_steps)
    fix f assume f: "f \<in> set (map (generate_version env loader hub (opts\<lparr>go_HubMeta := m\<rparr>)) ?vs @
      [generateWire env layout (opts\<lparr>go_HubMeta := m\<rparr>), generateRuntime env layout (opts\<lparr>go_HubMeta := m\<rparr>)])"
    have "emits (allowed_effect (opts\<lparr>go_HubMeta := m\<rparr>) ?vs) f"
      using f assms
      by (auto simp add: kept_version_def
          intro: generate_version_emits generateWire_emits generateRuntime_emits)
    then show "emits (allowed_effect opts ?vs) f" unfolding allowed_effect_meta .
  qed
  then show ?thesis
    unfolding generate_loaded_def emits_def Let_def by (auto simp del: steps.simps split: sum.splits)
qed

lemma Discover_versions:
  "Discover st rd root = Inr layout \<Longrightarrow> v \<in> set (ly_Legacy layout) \<Longrightarrow> legacyDirPattern v"
  by (auto simp add: Discover_def Let_def split: option.splits bool.splits listing.splits if_splits)

lemma legacyVersionsForMode_alt:
  "legacyVersionsForMode vs mode = (if mode = CompatibilityDisabled then [] else vs)"
  by (simp add: legacyVersionsForMode_def)

text \<open>The legacy versions that a run keeps.\<close>

definition kept_versions :: "Layout \<Rightarrow> GenerateOptions \<Rightarrow> string list" where
  "kept_versions layout opts = legacyVersionsForMode (ly_Legacy layout) (go_Legacy opts)"

text \<open>C14: What a run of the generator may do to the disk, whatever the file system answers and wherever
  it stops.  Everything it writes or removes is below \<open>gen/zengo\<close>.  A directory is removed only under
  \<open>convert\<close> or \<open>adapters\<close>, only when its name is that of a legacy version and only when the run does
  not keep that version; a single file only when its name ends in \<open>_gen.go\<close>, directly below
  \<open>gen/zengo\<close> or among the adapters of a kept version.  Without an API directory nothing is done.\<close>

theorem Generate_effects:
  assumes "Generate env opts cache = (cache', tr, err)"
  shows "case Discover (le_stat (ge_loader env)) (ge_readDir env []) (go_APIRoot opts) of
      Inl e \<Rightarrow> tr = [] \<and> err = Some e
    | Inr layout \<Rightarrow> list_all (allowed_effect opts (kept_versions layout opts)) tr"
proof (cases "Discover (le_stat (ge_loader env)) (ge_readDir env []) (go_APIRoot opts)")
  case (Inl e) then show ?thesis using assms by (simp add: Generate_def)
next
  case (Inr layout)
  let ?vs = "kept_versions layout opts" let ?ly = "layout\<lparr>ly_Legacy := ?vs\<rparr>"
  have vs: "\<forall>v \<in> set (ly_Legacy ?ly). legacyDirPattern v"
    using Discover_versions [OF Inr] by (simp add: kept_versions_def legacyVersionsForMode_alt)
  have clean: "emits (allowed_effect opts ?vs) (cleanupStaleVersions env ?ly opts)"
    using cleanupStaleVersions_emits [where layout = ?ly] by simp
  have load: "emits (allowed_effect opts ?vs) (generate_loaded env ?ly l opts)" for l
    using generate_loaded_emits [OF vs] by simp
  obtain tr1 e1 where c: "cleanupStaleVersions env ?ly opts [] = (tr1, e1)" by fastforce
  then have tr1: "list_all (allowed_effect opts ?vs) tr1" using clean unfolding emits_def by fastforce
  obtain c2 r2 where l: "NewLoader (ge_loader env) (go_Module opts) (go_GenDir opts) ?vs cache = (c2, r2)"
    by fastforce
  show ?thesis
  proof (cases "\<exists>l. e1 = None \<and> r2 = Inr l")
    case True
    then obtain ld where "generate_loaded env ?ly ld opts tr1 = (tr, err)"
      using assms Inr c l by (auto simp add: Generate_def kept_versions_def Let_def)
    then obtain new where "tr = tr1 @ new" "list_all (allowed_effect opts ?vs) new"
      using load unfolding emits_def by blast
    then show ?thesis using tr1 Inr by simp
  next
    case False
    then have "tr = tr1" using assms Inr c l
      by (auto simp add: Generate_def kept_versions_def Let_def split: option.splits sum.splits)
    then show ?thesis using tr1 Inr by simp
  qed
qed

section \<open>What a successful run has done\<close>

text \<open>A step that only extends the trace.\<close>

abbreviation extends :: "gen_step \<Rightarrow> bool" where
  "extends f \<equiv> emits (\<lambda>_. True) f"

lemma emits_extends: "emits P f \<Longrightarrow> extends f"
  unfolding emits_def by (metis list_all_iff)

lemma extends_prefix: "extends f \<Longrightarrow> f tr = (tr', e) \<Longrightarrow> prefix tr tr'"
  unfolding emits_def prefix_def by blast

lemma steps_success:
  assumes "steps fs tr = (tr', None)" "f \<in> set fs" "\<And>g. g \<in> set fs \<Longrightarrow> extends g"
  shows "\<exists>t t'. f t = (t', None) \<and> prefix t' tr'"
  using assms
proof (induction fs arbitrary: tr)
  case (Cons g fs)
  obtain t1 e1 where g: "g tr = (t1, e1)" by fastforce
  with Cons.prems(1) have e1: "e1 = None" and rest: "steps fs t1 = (tr', None)"
    by (auto split: option.splits)
  have "extends (steps fs)" by (rule emits_steps) (simp add: Cons.prems(3))
  then have "prefix t1 tr'" using rest by (rule extends_prefix)
  moreover have "f \<in> set fs \<Longrightarrow> ?case" using Cons.IH [OF rest] Cons.prems(3) by simp
  ultimately show ?case using Cons.prems(2) g e1 by auto
qed simp

lemma perform_success: "perform env eff t = (t', None) \<Longrightarrow> eff \<in> set t'"
  by (auto simp add: perform_def split: if_splits)

text \<open>What was rendered for a version, and that the check of manual code had passed.\<close>

definition version_done ::
  "'raw gen_env \<Rightarrow> Loader \<Rightarrow> GenerateOptions \<Rightarrow> effect list \<Rightarrow> string \<Rightarrow> bool" where
  "version_done env l opts tr v \<longleftrightarrow>
     (\<exists>hub legacy before.
        Loader_Schema l ''hub'' = Inr hub \<and> Loader_Schema l v = Inr legacy \<and> prefix before tr \<and>
        checkManualRequired (ge_exists env before) (ge_readDir env before) (go_Internal opts)
          (BuildPlan (ge_order env) v hub legacy) = None \<and>
        Render (ConvertData (convert_data v (BuildPlan (ge_order env) v hub legacy) opts))
          (gen_root opts @ ''convert/'' @ v @ ''/messages_gen.go'') \<in> set tr \<and>
        Render (AdapterData (adapter_data v (BuildPlan (ge_order env) v hub legacy) legacy opts))
          (gen_root opts @ ''adapters/'' @ v @ ''/'' @ adapterFileName (hm_PrimaryService (go_HubMeta opts)))
          \<in> set tr)"

lemma generate_version_done:
  assumes v: "kept_version vs v" and hub: "Loader_Schema l ''hub'' = Inr hub"
    and run: "generate_version env l hub opts v t = (t', None)" and "prefix t' tr"
  shows "version_done env l opts tr v"
proof -
  obtain legacy where legacy: "Loader_Schema l v = Inr legacy"
    using run by (auto simp add: generate_version_def split: sum.splits)
  let ?plan = "BuildPlan (ge_order env) v hub legacy"
  let ?fs = "[check_step env opts ?plan, generateConvert env v ?plan opts,
     generateAdapters env v ?plan legacy opts, generateEventAdapters env l v legacy opts,
     cleanupStaleAdapterFiles env v opts]"
  have run': "steps ?fs t = (t', None)"
    using run legacy by (simp add: generate_version_def Let_def del: steps.simps)
  have ext: "g \<in> set ?fs \<Longrightarrow> extends g" for g
    using version_steps_emit [OF v] emits_extends by blast
  have mono: "x \<in> set t'' \<Longrightarrow> prefix t'' t' \<Longrightarrow> x \<in> set tr" for x t''
    using \<open>prefix t' tr\<close> set_mono_prefix by blast
  obtain b b' where b: "check_step env opts ?plan b = (b', None)" "prefix b' t'"
    using steps_success [OF run' _ ext, of "check_step env opts ?plan"] by auto
  obtain c c' where c: "generateConvert env v ?plan opts c = (c', None)" "prefix c' t'"
    using steps_success [OF run' _ ext, of "generateConvert env v ?plan opts"] by auto
  obtain a a' where a: "generateAdapters env v ?plan legacy opts a = (a', None)" "prefix a' t'"
    using steps_success [OF run' _ ext, of "generateAdapters env v ?plan legacy opts"] by auto
  have "checkManualRequired (ge_exists env b) (ge_readDir env b) (go_Internal opts) ?plan = None"
    and "prefix b tr" using b \<open>prefix t' tr\<close> by (auto simp add: check_step_def)
  moreover have "Render (ConvertData (convert_data v ?plan opts))
      (gen_root opts @ ''convert/'' @ v @ ''/messages_gen.go'') \<in> set tr"
    using c perform_success mono unfolding generateConvert_def version_path [OF v] by fastforce
  moreover have "Render (AdapterData (adapter_data v ?plan legacy opts))
      (gen_root opts @ ''adapters/'' @ v @ ''/'' @ adapterFileName (hm_PrimaryService (go_HubMeta opts)))
      \<in> set tr"
    using a perform_success mono unfolding generateAdapters_def version_path [OF v] by fastforce
  ultimately show ?thesis unfolding version_done_def using hub legacy by blast
qed

text \<open>C15: A run that returns no error is complete.  For every legacy version it keeps, the check of
  manual code passed, and the conversion file and the adapter were rendered from the plan of the loaded schemas; the runtime file
  was rendered and lists exactly the kept versions, none when compatibility is disabled.\<close>

theorem Generate_complete:
  assumes "Generate env opts cache = (cache', tr, None)"
  shows "\<exists>layout l meta d.
    Discover (le_stat (ge_loader env)) (ge_readDir env []) (go_APIRoot opts) = Inr layout \<and>
    NewLoader (ge_loader env) (go_Module opts) (go_GenDir opts) (kept_versions layout opts) cache =
      (cache', Inr l) \<and>
    list_all (version_done env l (opts\<lparr>go_HubMeta := meta\<rparr>) tr) (kept_versions layout opts) \<and>
    Render (RuntimeData d) (gen_root opts @ ''runtime_gen.go'') \<in> set tr \<and>
    map rl_Version (rt_LegacyVersions d) = kept_versions layout opts"
proof -
  obtain layout where layout:
      "Discover (le_stat (ge_loader env)) (ge_readDir env []) (go_APIRoot opts) = Inr layout"
    using assms by (auto simp add: Generate_def split: sum.splits)
  let ?vs = "kept_versions layout opts" let ?ly = "layout\<lparr>ly_Legacy := ?vs\<rparr>"
  obtain tr1 l where tr1: "cleanupStaleVersions env ?ly opts [] = (tr1, None)"
    and l: "NewLoader (ge_loader env) (go_Module opts) (go_GenDir opts) ?vs cache = (cache', Inr l)"
    and run: "generate_loaded env ?ly l opts tr1 = (tr, None)"
    using assms layout
    by (auto simp add: Generate_def kept_versions_def Let_def split: sum.splits option.splits prod.splits)
  obtain meta hub where hub: "Loader_Schema l ''hub'' = Inr hub"
    and steps: "steps (map (generate_version env l hub (opts\<lparr>go_HubMeta := meta\<rparr>)) ?vs @
      [generateWire env ?ly (opts\<lparr>go_HubMeta := meta\<rparr>), generateRuntime env ?ly (opts\<lparr>go_HubMeta := meta\<rparr>)]) tr1
      = (tr, None)"
    using run by (auto simp add: generate_loaded_def Let_def simp del: steps.simps split: sum.splits)
  let ?opts = "opts\<lparr>go_HubMeta := meta\<rparr>"
  let ?fs = "map (generate_version env l hub ?opts) ?vs @ [generateWire env ?ly ?opts, generateRuntime env ?ly ?opts]"
  have kept: "v \<in> set ?vs \<Longrightarrow> kept_version ?vs v" for v
    using Discover_versions [OF layout] by (auto simp add: kept_version_def kept_versions_def
        legacyVersionsForMode_alt split: if_splits)
  have ext: "extends g" if "g \<in> set ?fs" for g
    using that kept by (auto intro!: emits_extends [OF generate_version_emits] 
        emits_extends [OF generateWire_emits] emits_extends [OF generateRuntime_emits])
  have "version_done env l ?opts tr v" if "v \<in> set ?vs" for v
    using steps_success [OF steps, of "generate_version env l hub ?opts v"] that ext
      generate_version_done [OF kept [OF that] hub] by fastforce
  moreover obtain t t' where t: "generateRuntime env ?ly ?opts t = (t', None)" "prefix t' tr"
    using steps_success [OF steps _ ext, of "generateRuntime env ?ly ?opts"] by auto
  have path: "path_join (path_join (go_GenDir ?opts) ''zengo'') ''runtime_gen.go'' =
      gen_root opts @ ''runtime_gen.go''" using gen_root_path by simp
  obtain d where "Render (RuntimeData d) (gen_root opts @ ''runtime_gen.go'') \<in> set t'"
    "map rl_Version (rt_LegacyVersions d) = ?vs"
    using t(1) unfolding generateRuntime_def Let_def path
    by (auto simp add: runtime_version_def o_def Let_def dest!: perform_success)
  then have "Render (RuntimeData d) (gen_root opts @ ''runtime_gen.go'') \<in> set tr"
    "map rl_Version (rt_LegacyVersions d) = ?vs" using t(2) set_mono_prefix by blast+
  ultimately show ?thesis using layout l by (fastforce simp add: list_all_iff)
qed

section \<open>A concrete service\<close>

text \<open>A module \<open>m\<close> with a hub and a version \<open>v1\<close>, each one package with an event handler or a service,
  whose descriptor declares a topic.\<close>

definition demo_type :: "string \<Rightarrow> gtype" where
  "demo_type n = GType KPointer [] [] (Some (GType KStruct n n None))"

definition demo_interface :: "string \<Rightarrow> string \<Rightarrow> string \<Rightarrow> gdecl" where
  "demo_interface name rpc req = \<lparr>gd_Kind = KInterface, gd_Name = name @ ''Server'', gd_Members = [],
     gd_Methods = [(rpc, Some \<lparr>gs_Parameters = [demo_type ''Context'', demo_type req],
       gs_Results = [demo_type ''User'']\<rparr>)]\<rparr>"

definition demo_loader :: "string \<Rightarrow> unit loader_env" where
  "demo_loader req =
     \<lparr>le_stat = (\<lambda>p. if p \<in> {''api'', ''api/hub'', ''gen/api/hub'', ''gen/api/v1''} then Some True else None),
      le_walk = (\<lambda>p. Some [(p @ ''/user'', [(''user.pb.go'', False)])]),
      le_wdrel = (\<lambda>p. None), le_hubrel = (\<lambda>p. Some ''user''),
      le_universe = (\<lambda>paths. Some (\<lambda>p. Some \<lparr>gp_SourcePath = p,
        gp_Types = [(''T'', Some (demo_interface ''UserService'' ''GetUser'' req))]\<rparr>)),
      le_rawDesc = (\<lambda>dir. Some ()),
      le_newFile = (\<lambda>raw. Some \<lparr>ds_Messages = [],
        ds_Services = [(''UserEventHandler'', [(''OnUserCreated'', ''user.events'', ''user'')])]\<rparr>)\<rparr>"

definition demo_gen :: "unit gen_env" where
  "demo_gen = \<lparr>ge_loader = demo_loader ''GetUserRequest'', ge_order = (\<lambda>xs. xs),
     ge_readDir = (\<lambda>tr p. if p = ''api'' then Entries [(''hub'', True), (''v1'', True)]
        else if p = ''gen/zengo/convert'' then Entries [(''v0'', True), (''notes'', True)] else NotExist),
     ge_exists = (\<lambda>tr p. False), ge_readFile = (\<lambda>tr p. None), ge_fails = (\<lambda>tr e. False)\<rparr>"

definition demo_opts :: GenerateOptions where
  "demo_opts = \<lparr>go_Module = ''m'', go_APIRoot = ''api'', go_GenDir = ''gen'', go_Internal = ''internal'',
     go_HubMeta = \<lparr>hm_GoImport = [], hm_RelativePath = [], hm_PackageSuffix = [], hm_PrimaryService = [],
       hm_EventService = []\<rparr>, go_Legacy = []\<rparr>"

lemma demo_Discover:
  "Discover (le_stat (ge_loader demo_gen)) (ge_readDir demo_gen []) (go_APIRoot demo_opts) =
     Inr \<lparr>ly_APIRoot = ''api'', ly_Hub = ''api/hub'', ly_Legacy = [''v1'']\<rparr>"
  by (simp add: demo_gen_def demo_loader_def demo_opts_def Discover_def path_join_def
      legacyDirPattern_def stringsHasPrefixDot_def is_digit_def)

lemma demo_list:
  "listGenImportPaths (demo_loader req) ''gen'' ''hub'' = Inr [''./gen/api/hub/user'']"
  "listGenImportPaths (demo_loader req) ''gen'' ''v1'' = Inr [''./gen/api/v1/user'']"
  by (simp_all add: listGenImportPaths_def demo_loader_def path_join_def has_go_file_def
      has_suffix_def has_prefix_def gengoPath_def Let_def)

definition demo_seg :: "string \<Rightarrow> string \<Rightarrow> Schema" where
  "demo_seg imp req = \<lparr>sc_Package = imp, sc_Messages = [], sc_Services = [\<lparr>sv_Name = ''UserService'',
     sv_RPCs = [\<lparr>rpc_Name = ''GetUser'', rpc_RequestType = req, rpc_ResponseType = ''User'',
       rpc_Service = ''UserService'', rpc_File = imp\<rparr>], sv_File = imp\<rparr>], sc_Files = [imp]\<rparr>"

definition demo_Loader :: "string \<Rightarrow> Loader" where
  "demo_Loader req = \<lparr>ld_module = ''m'', ld_genDir = ''gen'',
     ld_importPaths = [''./gen/api/hub/user'', ''./gen/api/v1/user''],
     ld_sourceDir = [(''./gen/api/hub/user'', ''./gen/api/hub/user''), (''./gen/api/v1/user'', ''./gen/api/v1/user'')],
     ld_schemas = [(''hub'', demo_seg ''./gen/api/hub/user'' req), (''v1'', demo_seg ''./gen/api/v1/user'' req)]\<rparr>"

lemma demo_service:
  "interfaceToService imp (demo_interface ''UserService'' ''GetUser'' req) = hd (sc_Services (demo_seg imp req))"
  by (simp add: interfaceToService_def demo_interface_def demo_seg_def methodRequestResponse_def demo_type_def
      trim_suffix_def has_suffix_def has_prefix_def Let_def)

lemma demo_schemaFromPackage:
  "schemaFromPackage (demo_loader req) (\<lambda>p. Some \<lparr>gp_SourcePath = p,
      gp_Types = [(''T'', Some (demo_interface ''UserService'' ''GetUser'' req))]\<rparr>) l imp =
   Inr (demo_seg imp req)"
proof -
  have "isGRPCServerInterface (demo_interface ''UserService'' ''GetUser'' req)"
    "\<not> isProtoMessage (demo_interface ''UserService'' ''GetUser'' req)"
    by (simp_all add: isGRPCServerInterface_def isProtoMessage_def demo_interface_def has_suffix_def
        has_prefix_def)
  then show ?thesis
    by (simp add: schemaFromPackage_def add_decl_def demo_service) (simp add: demo_seg_def)
qed

lemma demo_NewLoader:
  "NewLoader (demo_loader req) ''m'' ''gen'' [''v1''] [] =
     ([(cacheKey ''m'' ''gen'' [''./gen/api/hub/user'', ''./gen/api/v1/user''], demo_Loader req)],
      Inr (demo_Loader req))"
proof -
  have u: "le_universe (demo_loader req) ps = Some (\<lambda>p. Some \<lparr>gp_SourcePath = p,
      gp_Types = [(''T'', Some (demo_interface ''UserService'' ''GetUser'' req))]\<rparr>)" for ps
    by (simp add: demo_loader_def)
  show ?thesis
    by (simp add: NewLoader_def demo_list loadGengo_def u buildSegmentSchema_def demo_schemaFromPackage Let_def)
       (simp add: demo_Loader_def demo_seg_def)
qed

theorem NewLoader_stale_witness:
  "NewLoader (demo_loader ''GetUserRequestV2'') ''m'' ''gen'' [''v1'']
     (fst (NewLoader (demo_loader ''GetUserRequest'') ''m'' ''gen'' [''v1''] [])) =
   (fst (NewLoader (demo_loader ''GetUserRequest'') ''m'' ''gen'' [''v1''] []), Inr (demo_Loader ''GetUserRequest''))"
  unfolding demo_NewLoader fst_conv
  by (rule NewLoader_stale [OF demo_NewLoader]) (simp add: demo_list)

theorem legacy_consume_lost_witness:
  "list_all (\<lambda>r. er_Consume r = None) (ev_RPCs (event_data demo_gen (demo_Loader ''GetUserRequest'') ''v1''
     \<lparr>sv_Name = ''UserEventHandler'', sv_RPCs = [\<lparr>rpc_Name = ''OnUserCreated'', rpc_RequestType = ''UserCreated'',
        rpc_ResponseType = ''Empty'', rpc_Service = ''UserEventHandler'', rpc_File = []\<rparr>], sv_File = []\<rparr>
     (demo_opts\<lparr>go_HubMeta := \<lparr>hm_GoImport = [], hm_RelativePath = ''user'', hm_PackageSuffix = ''hub'',
        hm_PrimaryService = ''UserService'', hm_EventService = ''UserEventHandler''\<rparr>\<rparr>)))"
proof (rule legacy_consume_lost [where module = "''m''" and runs = "[]" and env = "demo_loader ''GetUserRequest''"])
  show "NewLoader (demo_loader ''GetUserRequest'') ''m'' ''gen'' [''v1''] (cache_after []) =
      ([(cacheKey ''m'' ''gen'' [''./gen/api/hub/user'', ''./gen/api/v1/user''], demo_Loader ''GetUserRequest'')],
       Inr (demo_Loader ''GetUserRequest''))"
    by (simp add: cache_after_def demo_NewLoader)
qed (simp_all add: demo_opts_def has_prefix_def)

lemma demo_HubMeta:
  "Loader_HubMeta (demo_loader req) (demo_Loader req) =
     Inr \<lparr>hm_GoImport = ''m/gen/api/hub/user'', hm_RelativePath = ''user'', hm_PackageSuffix = ''hub'',
          hm_PrimaryService = ''UserService'', hm_EventService = []\<rparr>"
proof -
  have "Loader_Schema (demo_Loader req) ''hub'' = Inr (demo_seg ''./gen/api/hub/user'' req)"
    by (simp add: Loader_Schema_def demo_Loader_def)
  moreover have "le_hubrel (demo_loader req) p = Some ''user''" for p by (simp add: demo_loader_def)
  moreover have "ld_genDir (demo_Loader req) = ''gen''" "ld_module (demo_Loader req) = ''m''"
    by (simp_all add: demo_Loader_def)
  ultimately show ?thesis
    by (simp add: Loader_HubMeta_def demo_list)
       (simp add: demo_seg_def meta_service_def has_prefix_def has_suffix_def)
qed

lemma demo_check:
  "cp_Errors (BuildPlan (\<lambda>xs. xs) ''v1'' (demo_seg p req) (demo_seg p' req)) = []"
  by (simp add: BuildPlan_def compareRPCs_def schema_rpcs_def index_by_def demo_seg_def compare_rpc_def
      rpc_errors_def Let_def)

lemma demo_steps:
  "ge_fails demo_gen tr e = False" "ge_order demo_gen = (\<lambda>xs. xs)"
  "ge_loader demo_gen = demo_loader ''GetUserRequest''" "ge_exists demo_gen tr = (\<lambda>p. False)"
  "Loader_Schema (demo_Loader req) ''hub'' = Inr (demo_seg ''./gen/api/hub/user'' req)"
  "Loader_Schema (demo_Loader req) ''v1'' = Inr (demo_seg ''./gen/api/v1/user'' req)"
  "ge_readDir demo_gen tr ''gen/zengo/convert'' = Entries [(''v0'', True), (''notes'', True)]"
  "ge_readDir demo_gen tr ''gen/zengo/adapters'' = NotExist"
  "ge_readDir demo_gen tr ''gen/zengo/adapters/v1'' = NotExist"
  by (simp_all add: demo_gen_def Loader_Schema_def demo_Loader_def)

lemma demo_opts_sel [simp]:
  "go_Module demo_opts = ''m''" "go_GenDir demo_opts = ''gen''" "go_APIRoot demo_opts = ''api''"
  "go_Internal demo_opts = ''internal''" "go_Legacy demo_opts = []"
  by (simp_all add: demo_opts_def)

lemma demo_clean:
  "cleanupStaleVersions demo_gen \<lparr>ly_APIRoot = a, ly_Hub = h, ly_Legacy = [''v1'']\<rparr> demo_opts [] =
     ([RemoveAll ''gen/zengo/convert/v0''], None)"
  by (simp add: cleanupStaleVersions_def cleanup_sub_def path_join_def demo_steps stale_version_def
      legacyDirPattern_def is_digit_def perform_def)

lemma demo_version:
  "hm_EventService m = [] \<Longrightarrow>
   \<exists>tr'. generate_version demo_gen (demo_Loader ''GetUserRequest'') (demo_seg ''./gen/api/hub/user'' ''GetUserRequest'')
     (demo_opts\<lparr>go_HubMeta := m\<rparr>) ''v1'' tr = (tr', None)"
  by (simp add: generate_version_def demo_steps check_step_def checkManualRequired_def manual_pending_def
      demo_check Let_def generateConvert_def generateAdapters_def generateEventAdapters_def
      cleanupStaleAdapterFiles_def gen_dir_def path_join_def perform_def)

lemma demo_kept:
  "kept_versions \<lparr>ly_APIRoot = a, ly_Hub = h, ly_Legacy = [''v1'']\<rparr> demo_opts = [''v1'']"
  by (simp add: kept_versions_def legacyVersionsForMode_def CompatibilityDisabled_def)

lemma demo_Generate: "\<exists>cache' tr. Generate demo_gen demo_opts [] = (cache', tr, None)"
proof -
  let ?m = "\<lparr>hm_GoImport = ''m/gen/api/hub/user'', hm_RelativePath = ''user'', hm_PackageSuffix = ''hub'',
          hm_PrimaryService = ''UserService'', hm_EventService = []\<rparr>"
  have "hm_EventService ?m = []" by simp
  then obtain tr where tr: "generate_version demo_gen (demo_Loader ''GetUserRequest'')
      (demo_seg ''./gen/api/hub/user'' ''GetUserRequest'') (demo_opts\<lparr>go_HubMeta := ?m\<rparr>) ''v1''
      [RemoveAll ''gen/zengo/convert/v0''] = (tr, None)" using demo_version by metis
  have load: "\<exists>t. generate_loaded demo_gen \<lparr>ly_APIRoot = ''api'', ly_Hub = ''api/hub'', ly_Legacy = [''v1'']\<rparr>
      (demo_Loader ''GetUserRequest'') demo_opts [RemoveAll ''gen/zengo/convert/v0''] = (t, None)"
    by (simp add: generate_loaded_def demo_steps demo_HubMeta Let_def tr generateWire_def
        generateRuntime_def perform_def)
  have mode: "legacyVersionsForMode [''v1''] [] = [''v1'']"
    by (simp add: legacyVersionsForMode_def CompatibilityDisabled_def)
  show ?thesis
    using load demo_Discover by (auto simp add: Generate_def Let_def mode demo_clean demo_steps demo_NewLoader)
qed

theorem Generate_effects_witness:
  "\<exists>cache' tr. Generate demo_gen demo_opts [] = (cache', tr, None) \<and> list_all (allowed_effect demo_opts [''v1'']) tr"
proof -
  obtain cache' tr where run: "Generate demo_gen demo_opts [] = (cache', tr, None)" using demo_Generate by blast
  show ?thesis using Generate_effects [OF run] run unfolding demo_Discover by (simp add: demo_kept)
qed

theorem Generate_complete_witness:
  "\<exists>cache' tr d. Generate demo_gen demo_opts [] = (cache', tr, None) \<and>
     Render (RuntimeData d) (gen_root demo_opts @ ''runtime_gen.go'') \<in> set tr \<and>
     map rl_Version (rt_LegacyVersions d) = [''v1'']"
proof -
  obtain cache' tr where run: "Generate demo_gen demo_opts [] = (cache', tr, None)" using demo_Generate by blast
  show ?thesis using Generate_complete [OF run] run unfolding demo_Discover by (auto simp add: demo_kept)
qed

end
