(* ===== verification/FileTree.thy ===== *)
theory FileTree
  imports GoError "HOL-Library.AList" "HOL-Library.List_Lexorder" "HOL-Library.Char_ord"
begin

text \<open>
  A file system and the file helpers of \<open>cmd/zengo/helpers.go\<close> (\<open>copyDir\<close>, \<open>writeFile\<close>,
  \<open>treeEntries\<close>, \<open>compareDirTrees\<close>).

  A path is the list of its components.  A tree is an association list from paths to nodes; the
  operations of package \<open>os\<close> are functions on it that fail as documented, and also on the operations
  that the parameter \<open>io\<close> declares failed.  Links, permissions and times are left out.
\<close>

section \<open>Trees\<close>

type_synonym path = "string list"

datatype node = Dir | File string

type_synonym tree = "(path \<times> node) list"

datatype io_op =
  OpStat path | OpRead path | OpMkdir path | OpWrite path | OpRemove path | OpWalk path

definition io_error :: "string \<Rightarrow> path \<Rightarrow> go_err" where
  "io_error what p = PlainErr (what @ '' '' @ join ''/'' p)"

definition is_file :: "tree \<Rightarrow> path \<Rightarrow> bool" where
  "is_file t p = (case map_of t p of Some (File _) \<Rightarrow> True | _ \<Rightarrow> False)"

text \<open>The two ways in which \<open>os.Stat\<close> fails; below a file it fails with \<open>ENOTDIR\<close>, which is not
  \<open>fs.ErrNotExist\<close>.\<close>

datatype stat_result = Found node | NotExist | StatFailed go_err

definition os_Stat :: "(io_op \<Rightarrow> bool) \<Rightarrow> tree \<Rightarrow> path \<Rightarrow> stat_result" where
  "os_Stat io t p =
     (if io (OpStat p) then StatFailed (io_error ''stat'' p)
      else case map_of t p of
        Some n \<Rightarrow> Found n
      | None \<Rightarrow> if list_ex (is_file t) (prefixes p) then StatFailed (io_error ''stat'' p) else NotExist)"

definition os_ReadFile :: "(io_op \<Rightarrow> bool) \<Rightarrow> tree \<Rightarrow> path \<Rightarrow> go_err + string" where
  "os_ReadFile io t p =
     (if io (OpRead p) then Inl (io_error ''read'' p)
      else case map_of t p of Some (File d) \<Rightarrow> Inr d | _ \<Rightarrow> Inl (io_error ''read'' p))"

text \<open>A read fails with an error that \<open>os.IsNotExist\<close> recognises.\<close>

definition file_missing :: "(io_op \<Rightarrow> bool) \<Rightarrow> tree \<Rightarrow> path \<Rightarrow> bool" where
  "file_missing io t p \<longleftrightarrow>
     \<not> io (OpRead p) \<and> map_of t p = None \<and> \<not> list_ex (is_file t) (prefixes p)"

definition add_dir :: "path \<Rightarrow> tree \<Rightarrow> tree" where
  "add_dir p t = (if map_of t p = None then AList.update p Dir t else t)"

text \<open>An operation that changes the tree returns the new tree and an error.\<close>

type_synonym 's action = "'s \<Rightarrow> 's \<times> go_err option"

definition seq_run :: "'s \<times> go_err option \<Rightarrow> 's action \<Rightarrow> 's \<times> go_err option" where
  "seq_run r f = (case r of (s, None) \<Rightarrow> f s | (s, Some e) \<Rightarrow> (s, Some e))"

definition os_MkdirAll :: "(io_op \<Rightarrow> bool) \<Rightarrow> path \<Rightarrow> tree action" where
  "os_MkdirAll io p t =
     (if io (OpMkdir p) \<or> list_ex (is_file t) (prefixes p) then (t, Some (io_error ''mkdir'' p))
      else (fold add_dir (prefixes p) t, None))"

definition os_WriteFile :: "(io_op \<Rightarrow> bool) \<Rightarrow> path \<Rightarrow> string \<Rightarrow> tree action" where
  "os_WriteFile io p data t =
     (if io (OpWrite p) \<or> p = [] \<or> map_of t (butlast p) \<noteq> Some Dir \<or> map_of t p = Some Dir
      then (t, Some (io_error ''open'' p)) else (AList.update p (File data) t, None))"

definition os_RemoveAll :: "(io_op \<Rightarrow> bool) \<Rightarrow> path \<Rightarrow> tree action" where
  "os_RemoveAll io p t =
     (if io (OpRemove p) then (t, Some (io_error ''remove'' p))
      else (filter (\<lambda>e. \<not> prefix p (fst e)) t, None))"

text \<open>\<open>filepath.WalkDir\<close>: the entries below the root, the root included, in lexical order, with their
  paths relative to the root; an error when the root does not exist.\<close>

definition walk :: "(io_op \<Rightarrow> bool) \<Rightarrow> tree \<Rightarrow> path \<Rightarrow> go_err + (path \<times> node) list" where
  "walk io t root =
     (if io (OpWalk root) \<or> map_of t root = None then Inl (io_error ''lstat'' root)
      else Inr (map (\<lambda>p. (drop (length root) p, the (map_of t p)))
                  (sort (filter (prefix root) (remdups (map fst t))))))"

text \<open>The names that \<open>os.ReadDir\<close> and \<open>filepath.Glob\<close> find in a directory, sorted.\<close>

definition dir_names :: "tree \<Rightarrow> path \<Rightarrow> string list" where
  "dir_names t dir =
     sort (remdups (List.map_filter (\<lambda>e. if prefix dir (fst e) \<and> length (fst e) = Suc (length dir)
                                        then Some (last (fst e)) else None) t))"

section \<open>The helpers\<close>

definition writeFile :: "(io_op \<Rightarrow> bool) \<Rightarrow> path \<Rightarrow> string \<Rightarrow> tree action" where
  "writeFile io p data t = seq_run (os_MkdirAll io (butlast p) t) (os_WriteFile io p data)"

text \<open>\<open>copy_entries io f src dst es\<close> is the callback of \<open>copyDir\<close> on the entries \<open>es\<close>; \<open>f\<close> changes the
  content of a file, given its path below \<open>src\<close>, before it is written.\<close>

fun copy_entries ::
  "(io_op \<Rightarrow> bool) \<Rightarrow> (path \<Rightarrow> string \<Rightarrow> string) \<Rightarrow> path \<Rightarrow> path \<Rightarrow> (path \<times> node) list \<Rightarrow> tree action" where
  "copy_entries io f src dst [] t = (t, None)"
| "copy_entries io f src dst ((rel, n) # es) t =
     (let target = dst @ rel
      in if n = Dir
         then seq_run (os_MkdirAll io target t) (copy_entries io f src dst es)
         else (case os_ReadFile io t (src @ rel) of
                 Inl e \<Rightarrow> (t, Some e)
               | Inr data \<Rightarrow> seq_run (writeFile io target (f rel data) t) (copy_entries io f src dst es)))"

definition copyDir :: "(io_op \<Rightarrow> bool) \<Rightarrow> path \<Rightarrow> path \<Rightarrow> tree action" where
  "copyDir io src dst t =
     (case walk io t src of Inl e \<Rightarrow> (t, Some e) | Inr es \<Rightarrow> copy_entries io (\<lambda>_ data. data) src dst es t)"

text \<open>\<open>treeEntries\<close>: a map from relative paths to entries.\<close>

record treeEntry =
  te_dir :: bool
  te_data :: string

fun tree_entries ::
  "(io_op \<Rightarrow> bool) \<Rightarrow> tree \<Rightarrow> path \<Rightarrow> (path \<times> node) list \<Rightarrow> (path \<times> treeEntry) list
     \<Rightarrow> go_err + (path \<times> treeEntry) list" where
  "tree_entries io t root [] entries = Inr entries"
| "tree_entries io t root ((rel, n) # es) entries =
     (if n = Dir
      then tree_entries io t root es (AList.update rel \<lparr>te_dir = True, te_data = []\<rparr> entries)
      else bind_err (os_ReadFile io t (root @ rel)) (\<lambda>data.
             tree_entries io t root es (AList.update rel \<lparr>te_dir = False, te_data = data\<rparr> entries)))"

definition treeEntries :: "(io_op \<Rightarrow> bool) \<Rightarrow> tree \<Rightarrow> path \<Rightarrow> go_err + (path \<times> treeEntry) list" where
  "treeEntries io t root = bind_err (walk io t root) (\<lambda>es. tree_entries io t root es [])"

definition entry_differs :: "(path \<times> treeEntry) list \<Rightarrow> path \<times> treeEntry \<Rightarrow> bool" where
  "entry_differs b e =
     (case map_of b (fst e) of
        None \<Rightarrow> True
      | Some r \<Rightarrow> te_dir (snd e) \<noteq> te_dir r \<or> (\<not> te_dir (snd e) \<and> te_data (snd e) \<noteq> te_data r))"

definition compareDirTrees :: "(io_op \<Rightarrow> bool) \<Rightarrow> tree \<Rightarrow> path \<Rightarrow> path \<Rightarrow> go_err + bool" where
  "compareDirTrees io t src dst =
     bind_err (treeEntries io t src) (\<lambda>a.
       bind_err (treeEntries io t dst) (\<lambda>b.
         if length a \<noteq> length b then Inr True else Inr (list_ex (entry_differs b) a)))"

end
