(* ===== verification/FileTreeFacts.thy ===== *)
theory FileTreeFacts
  imports FileTree
begin

text \<open>
  What the file helpers do to a tree: the lookup after each operation, well-formedness, and the copy
  and the comparison of subtrees.
\<close>

section \<open>Well-formed trees\<close>

definition wf_tree :: "tree \<Rightarrow> bool" where
  "wf_tree t \<longleftrightarrow> list_all (\<lambda>e. list_all (\<lambda>q. q = fst e \<or> map_of t q = Some Dir) (prefixes (fst e))) t"

lemma wf_tree_iff:
  "wf_tree t \<longleftrightarrow> (\<forall>p q. map_of t p \<noteq> None \<longrightarrow> strict_prefix q p \<longrightarrow> map_of t q = Some Dir)"
  unfolding wf_tree_def list_all_iff
proof (intro iffI allI impI ballI)
  fix p q assume "\<forall>e \<in> set t. \<forall>q \<in> set (prefixes (fst e)). q = fst e \<or> map_of t q = Some Dir"
    and "map_of t p \<noteq> None" and "strict_prefix q p"
  moreover from \<open>map_of t p \<noteq> None\<close> obtain n where "(p, n) \<in> set t"
    by (meson map_of_SomeD not_None_eq)
  ultimately show "map_of t q = Some Dir" by (fastforce simp add: strict_prefix_def)
next
  fix e q assume "\<forall>p q. map_of t p \<noteq> None \<longrightarrow> strict_prefix q p \<longrightarrow> map_of t q = Some Dir"
    and "e \<in> set t" and "q \<in> set (prefixes (fst e))"
  then show "q = fst e \<or> map_of t q = Some Dir"
    by (auto simp add: strict_prefix_def map_of_eq_None_iff)
qed

lemma wf_treeD: "wf_tree t \<Longrightarrow> map_of t p \<noteq> None \<Longrightarrow> strict_prefix q p \<Longrightarrow> map_of t q = Some Dir"
  by (simp add: wf_tree_iff)

lemma wf_tree_below_file: "wf_tree t \<Longrightarrow> map_of t p \<noteq> Some Dir \<Longrightarrow> r \<noteq> [] \<Longrightarrow> map_of t (p @ r) = None"
  by (metis append_self_conv prefixI strict_prefix_def wf_treeD)

text \<open>Two subtrees that hold the same nodes.\<close>

definition same_tree :: "tree \<Rightarrow> path \<Rightarrow> tree \<Rightarrow> path \<Rightarrow> bool" where
  "same_tree t p t' p' \<longleftrightarrow> (\<forall>r. map_of t (p @ r) = map_of t' (p' @ r))"

lemma same_tree_refl [simp]: "same_tree t p t p"
  by (simp add: same_tree_def)

lemma same_tree_sym: "same_tree t p t' p' \<Longrightarrow> same_tree t' p' t p"
  by (simp add: same_tree_def)

lemma same_tree_trans: "same_tree t p t' p' \<Longrightarrow> same_tree t' p' t'' p'' \<Longrightarrow> same_tree t p t'' p''"
  by (simp add: same_tree_def)

lemma same_tree_root: "same_tree t p t' p' \<Longrightarrow> map_of t p = map_of t' p'"
  unfolding same_tree_def by (metis append_Nil2)

text \<open>The tree \<open>t'\<close> comes from \<open>t\<close> by changes below \<open>p\<close> and by new directories above it.\<close>

definition changed_at :: "path \<Rightarrow> tree \<Rightarrow> tree \<Rightarrow> bool" where
  "changed_at p t t' \<longleftrightarrow> (\<forall>q. \<not> prefix p q \<longrightarrow>
     map_of t' q = map_of t q \<or> (strict_prefix q p \<and> map_of t q = None \<and> map_of t' q = Some Dir))"

lemma changed_at_refl [simp]: "changed_at p t t"
  by (simp add: changed_at_def)

lemma changed_at_trans: "changed_at p t t' \<Longrightarrow> changed_at p t' t'' \<Longrightarrow> changed_at p t t''"
  unfolding changed_at_def by (metis option.distinct(1))

lemma changed_at_parallel: "changed_at p t t' \<Longrightarrow> p \<parallel> p' \<Longrightarrow> same_tree t p' t' p'"
proof -
  assume ch: "changed_at p t t'" and par: "p \<parallel> p'"
  have "\<not> prefix p (p' @ r)" for r using par prefix_same_cases [of p "p' @ r" p'] by auto
  moreover have "\<not> strict_prefix (p' @ r) p" for r
    using par append_prefixD [of p' r p] by (auto simp add: strict_prefix_def)
  ultimately show ?thesis using ch unfolding changed_at_def same_tree_def by metis
qed

lemma parallel_below: "p \<parallel> q \<Longrightarrow> p \<parallel> q @ r"
  using prefix_same_cases [of p "q @ r" q] append_prefixD [of q r p] by auto

section \<open>The operations\<close>

lemma map_of_add_dirs:
  "map_of (fold add_dir qs t) q = (if map_of t q = None \<and> q \<in> set qs then Some Dir else map_of t q)"
  by (induction qs arbitrary: t) (auto simp add: add_dir_def update_conv')

lemma MkdirAll_lookup:
  assumes "os_MkdirAll io p t = (t', None)"
  shows "map_of t' q = (if map_of t q = None \<and> prefix q p then Some Dir else map_of t q)"
    and "prefix q p \<Longrightarrow> map_of t' q = Some Dir"
proof -
  from assms have no: "\<not> list_ex (is_file t) (prefixes p)" and t': "t' = fold add_dir (prefixes p) t"
    by (auto simp add: os_MkdirAll_def split: if_splits)
  show l: "map_of t' q = (if map_of t q = None \<and> prefix q p then Some Dir else map_of t q)"
    by (simp add: t' map_of_add_dirs)
  assume "prefix q p"
  then have "\<not> is_file t q" using no by (simp add: list_ex_iff)
  then show "map_of t' q = Some Dir" using \<open>prefix q p\<close>
    by (auto simp add: l is_file_def split: option.splits node.splits)
qed

lemma MkdirAll_wf: "os_MkdirAll io p t = (t', None) \<Longrightarrow> wf_tree t \<Longrightarrow> wf_tree t'"
  unfolding wf_tree_iff
  by (metis MkdirAll_lookup(1,2) prefix_order.less_le_trans prefix_order.less_imp_le)

lemma writeFile_lookup:
  assumes "writeFile io p data t = (t', None)"
  shows "map_of t' q = (if q = p then Some (File data)
      else if map_of t q = None \<and> strict_prefix q p then Some Dir else map_of t q)"
    and "strict_prefix q p \<Longrightarrow> map_of t' q = Some Dir"
    and "map_of t p \<noteq> Some Dir"
proof -
  obtain t1 where mk: "os_MkdirAll io (butlast p) t = (t1, None)"
    and wr: "os_WriteFile io p data t1 = (t', None)"
    using assms by (auto simp add: writeFile_def seq_run_def split: prod.splits option.splits)
  from wr have p: "p \<noteq> []" "map_of t1 p \<noteq> Some Dir" and t': "t' = AList.update p (File data) t1"
    by (auto simp add: os_WriteFile_def split: if_splits)
  have pre: "prefix q (butlast p) \<longleftrightarrow> strict_prefix q p" for q
    using p(1) by (cases p rule: rev_cases) (auto simp add: strict_prefix_def dest: prefix_length_le)
  show "map_of t' q = (if q = p then Some (File data)
      else if map_of t q = None \<and> strict_prefix q p then Some Dir else map_of t q)"
    using MkdirAll_lookup(1) [OF mk] by (simp add: t' update_conv' pre)
  show "strict_prefix q p \<Longrightarrow> map_of t' q = Some Dir"
    using MkdirAll_lookup(2) [OF mk] by (auto simp add: t' update_conv' pre)
  show "map_of t p \<noteq> Some Dir"
    using p(2) MkdirAll_lookup(1) [OF mk] by (metis option.distinct(1))
qed

lemma writeFile_wf:
  assumes wr: "writeFile io p data t = (t', None)" and wf: "wf_tree t"
  shows "wf_tree t'"
  unfolding wf_tree_iff
proof (intro allI impI)
  fix x q assume x: "map_of t' x \<noteq> None" and q: "strict_prefix q x"
  show "map_of t' q = Some Dir"
  proof (cases "map_of t x = None")
    case True
    then have "prefix x p" using x by (auto simp add: writeFile_lookup(1) [OF wr] split: if_splits)
    then show ?thesis using q writeFile_lookup(2) [OF wr] by (meson prefix_order.less_le_trans)
  next
    case False
    then have d: "map_of t q = Some Dir" using wf q by (meson wf_treeD)
    then have "q \<noteq> p" using writeFile_lookup(3) [OF wr] by blast
    then show ?thesis using d by (simp add: writeFile_lookup(1) [OF wr])
  qed
qed

lemma map_of_filter_prefix:
  "map_of (filter (\<lambda>e. \<not> prefix p (fst e)) t) q = (if prefix p q then None else map_of t q)"
  by (induction t) auto

lemma RemoveAll_lookup:
  "os_RemoveAll io p t = (t', None) \<Longrightarrow> map_of t' q = (if prefix p q then None else map_of t q)"
  by (auto simp add: os_RemoveAll_def map_of_filter_prefix split: if_splits)

lemma RemoveAll_wf: "os_RemoveAll io p t = (t', None) \<Longrightarrow> wf_tree t \<Longrightarrow> wf_tree t'"
  unfolding wf_tree_iff
  by (metis RemoveAll_lookup prefix_order.less_imp_le prefix_order.trans)

lemma changed_at_ops:
  "os_MkdirAll io (p @ r) t = (t', None) \<Longrightarrow> changed_at p t t'"
  "writeFile io (p @ r) data t = (t', None) \<Longrightarrow> changed_at p t t'"
  "os_RemoveAll io p t = (t', None) \<Longrightarrow> changed_at p t t'"
  unfolding changed_at_def
    apply (metis MkdirAll_lookup(1) prefix_append prefix_order.dual_order.refl
      prefix_same_cases prefixI strict_prefix_def)
   apply (metis writeFile_lookup(1) prefix_same_cases prefixI strict_prefix_def)
  by (metis RemoveAll_lookup)

lemma dir_names_mem: "n \<in> set (dir_names t dir) \<longleftrightarrow> map_of t (dir @ [n]) \<noteq> None"
proof -
  have "prefix dir p \<and> length p = Suc (length dir) \<longleftrightarrow> (\<exists>n. p = dir @ [n])" for p
    by (auto simp add: prefix_def length_Suc_conv_rev)
  then have "n \<in> set (dir_names t dir) \<longleftrightarrow> dir @ [n] \<in> fst ` set t"
    by (force simp add: dir_names_def List.map_filter_def split: if_splits)
  then show ?thesis by (simp add: map_of_eq_None_iff)
qed

section \<open>Walking and copying\<close>

lemma walk_entries:
  assumes "walk io t root = Inr es"
  shows "(r, n) \<in> set es \<longleftrightarrow> map_of t (root @ r) = Some n"
    and "distinct (map fst es)"
proof -
  let ?ps = "sort (filter (prefix root) (remdups (map fst t)))"
  have es: "es = map (\<lambda>p. (drop (length root) p, the (map_of t p))) ?ps"
    using assms by (auto simp add: walk_def split: if_splits)
  have ps: "p \<in> set ?ps \<longleftrightarrow> prefix root p \<and> map_of t p \<noteq> None" for p
    by (auto simp add: map_of_eq_None_iff)
  have "(r, n) \<in> set es \<longleftrightarrow> (\<exists>p \<in> set ?ps. r = drop (length root) p \<and> n = the (map_of t p))"
    unfolding es by auto
  also have "\<dots> \<longleftrightarrow> map_of t (root @ r) = Some n"
    unfolding Bex_def ps by (auto simp add: prefix_def)
  finally show "(r, n) \<in> set es \<longleftrightarrow> map_of t (root @ r) = Some n" .
  have "inj_on (drop (length root)) (set ?ps)"
    unfolding inj_on_def Ball_def ps by (auto simp add: prefix_def)
  then show "distinct (map fst es)" unfolding es by (simp add: o_def distinct_map)
qed

text \<open>A directory that is being filled from a source: what it holds, it holds like the source, with the
  contents changed by \<open>f\<close>.\<close>

fun map_node :: "(string \<Rightarrow> string) \<Rightarrow> node \<Rightarrow> node" where
  "map_node f Dir = Dir"
| "map_node f (File d) = File (f d)"

lemma map_node_Dir [simp]: "map_node f n = Dir \<longleftrightarrow> n = Dir"
  by (cases n) simp_all

lemma map_node_id [simp]: "map_node (\<lambda>d. d) = (\<lambda>n. n)"
proof
  fix n show "map_node (\<lambda>d. d) n = n" by (cases n) simp_all
qed

definition partial_copy :: "(path \<Rightarrow> string \<Rightarrow> string) \<Rightarrow> (path \<Rightarrow> node option) \<Rightarrow> tree \<Rightarrow> path \<Rightarrow> bool" where
  "partial_copy f m t dst \<longleftrightarrow>
     (\<forall>r. map_of t (dst @ r) = None \<or> map_of t (dst @ r) = map_option (map_node (f r)) (m r))"

text \<open>One entry.\<close>

lemma copy_entry_ok:
  assumes "copy_entries io f src dst ((rel, n) # es) t = (t', None)" and "wf_tree t" and "m rel = Some n"
    and "\<forall>r. map_of t (src @ r) = m r" and "partial_copy f m t dst"
  obtains t1 where "wf_tree t1" "changed_at dst t t1" "partial_copy f m t1 dst" "map_of t1 (dst @ rel) \<noteq> None"
    "\<forall>r. map_of t (dst @ r) \<noteq> None \<longrightarrow> map_of t1 (dst @ r) \<noteq> None" "copy_entries io f src dst es t1 = (t', None)"
proof (cases "n = Dir")
  case True
  have closed: "m r = Some Dir" if "strict_prefix r rel" for r
    using wf_treeD [OF assms(2), of "src @ rel" "src @ r"] that assms(3,4) by (simp add: strict_prefix_def)
  obtain t1 where mk: "os_MkdirAll io (dst @ rel) t = (t1, None)" and rest: "copy_entries io f src dst es t1 = (t', None)"
    using assms(1) True by (auto simp add: seq_run_def Let_def split: prod.splits option.splits)
  have l: "map_of t1 (dst @ r) = (if map_of t (dst @ r) = None \<and> prefix r rel then Some Dir
      else map_of t (dst @ r))" for r
    using MkdirAll_lookup(1) [OF mk] by simp
  have "partial_copy f m t1 dst" unfolding partial_copy_def
  proof
    fix r show "map_of t1 (dst @ r) = None \<or> map_of t1 (dst @ r) = map_option (map_node (f r)) (m r)"
      using assms(5) closed [of r] assms(3) True unfolding partial_copy_def l
      by (cases "r = rel") (auto simp add: strict_prefix_def)
  qed
  then show thesis using that [of t1] rest l MkdirAll_wf [OF mk assms(2)] changed_at_ops(1) [OF mk] by simp
next
  case False
  have closed: "m r = Some Dir" if "strict_prefix r rel" for r
    using wf_treeD [OF assms(2), of "src @ rel" "src @ r"] that assms(3,4) by (simp add: strict_prefix_def)
  have src: "map_of t (src @ rel) = Some n" using assms(3,4) by simp
  with False obtain data where n: "n = File data" by (cases n) auto
  then obtain t1 where wr: "writeFile io (dst @ rel) (f rel data) t = (t1, None)"
    and rest: "copy_entries io f src dst es t1 = (t', None)"
    using assms(1) False src by (auto simp add: seq_run_def Let_def os_ReadFile_def split: prod.splits option.splits if_splits)
  have l: "map_of t1 (dst @ r) = (if r = rel then Some (File (f rel data))
      else if map_of t (dst @ r) = None \<and> strict_prefix r rel then Some Dir else map_of t (dst @ r))" for r
    using writeFile_lookup(1) [OF wr, of "dst @ r"] by (simp add: strict_prefix_def)
  have "partial_copy f m t1 dst" unfolding partial_copy_def
  proof
    fix r show "map_of t1 (dst @ r) = None \<or> map_of t1 (dst @ r) = map_option (map_node (f r)) (m r)"
      using assms(3,5) closed [of r] n unfolding partial_copy_def l by (cases "r = rel") auto
  qed
  then show thesis using that [of t1] rest l writeFile_wf [OF wr assms(2)] changed_at_ops(2) [OF wr] by simp
qed

lemma copy_entries_ok:
  assumes "copy_entries io f src dst es t = (t', None)" and par: "src \<parallel> dst" and "wf_tree t"
    and "\<forall>(r, n) \<in> set es. m r = Some n" and "\<forall>r. map_of t (src @ r) = m r" and "partial_copy f m t dst"
  shows "wf_tree t' \<and> changed_at dst t t' \<and> partial_copy f m t' dst \<and>
    (\<forall>(r, n) \<in> set es. map_of t' (dst @ r) \<noteq> None) \<and>
    (\<forall>r. map_of t (dst @ r) \<noteq> None \<longrightarrow> map_of t' (dst @ r) \<noteq> None)"
  using assms(1,3-)
proof (induction es arbitrary: t)
  case Nil then show ?case by simp
next
  case (Cons e es)
  obtain rel n where e: "e = (rel, n)" by fastforce
  have m: "m rel = Some n" using Cons.prems e by simp
  obtain t1 where step: "wf_tree t1" "changed_at dst t t1" "partial_copy f m t1 dst"
      "map_of t1 (dst @ rel) \<noteq> None" "\<forall>r. map_of t (dst @ r) \<noteq> None \<longrightarrow> map_of t1 (dst @ r) \<noteq> None"
    and rest: "copy_entries io f src dst es t1 = (t', None)"
    using copy_entry_ok [OF Cons.prems(1) [unfolded e] Cons.prems(2) m Cons.prems(4,5)] by blast
  have "\<forall>r. map_of t1 (src @ r) = m r"
    using changed_at_parallel [OF step(2)] par Cons.prems(4)
    by (metis parallel_commute same_tree_def)
  then have IH: "wf_tree t' \<and> changed_at dst t1 t' \<and> partial_copy f m t' dst \<and>
      (\<forall>(r, n) \<in> set es. map_of t' (dst @ r) \<noteq> None) \<and>
      (\<forall>r. map_of t1 (dst @ r) \<noteq> None \<longrightarrow> map_of t' (dst @ r) \<noteq> None)"
    using Cons.IH [OF rest step(1)] Cons.prems(3) step(3) by simp
  then have "changed_at dst t t'" using step(2) changed_at_trans by blast
  with IH step(4,5) show ?case unfolding e by auto
qed

text \<open>A copy into an absent directory leaves the subtree there with its contents changed by \<open>f\<close>, and changes
  nothing else but for new directories above it.\<close>

lemma copy_walk_ok:
  assumes "walk io t src = Inr es" and "copy_entries io f src dst es t = (t', None)" and "src \<parallel> dst"
    and "wf_tree t" and "\<forall>r. map_of t (dst @ r) = None"
  shows "wf_tree t' \<and> changed_at dst t t' \<and>
    (\<forall>r. map_of t' (dst @ r) = map_option (map_node (f r)) (map_of t (src @ r)))"
proof -
  let ?m = "\<lambda>r. map_of t (src @ r)"
  have ok: "wf_tree t' \<and> changed_at dst t t' \<and> partial_copy f ?m t' dst \<and>
      (\<forall>(r, n) \<in> set es. map_of t' (dst @ r) \<noteq> None)"
    using copy_entries_ok [OF assms(2-4), of ?m] walk_entries(1) [OF assms(1)] assms(5)
    by (auto simp add: partial_copy_def)
  have "map_of t' (dst @ r) = map_option (map_node (f r)) (?m r)" for r
  proof (cases "?m r")
    case None then show ?thesis using ok unfolding partial_copy_def by (metis option.map(1))
  next
    case (Some n)
    then have "map_of t' (dst @ r) \<noteq> None" using ok walk_entries(1) [OF assms(1)] by blast
    then show ?thesis using ok unfolding partial_copy_def by metis
  qed
  then show ?thesis using ok by simp
qed

lemma copyDir_ok:
  assumes "copyDir io src dst t = (t', None)" and "src \<parallel> dst" and "wf_tree t"
    and "\<forall>r. map_of t (dst @ r) = None"
  shows "wf_tree t' \<and> changed_at dst t t' \<and> same_tree t src t' dst"
proof -
  obtain es where w: "walk io t src = Inr es" and c: "copy_entries io (\<lambda>_ data. data) src dst es t = (t', None)"
    using assms(1) by (auto simp add: copyDir_def split: sum.splits)
  show ?thesis using copy_walk_ok [OF w c assms(2-4)] by (simp add: same_tree_def option.map_ident)
qed

text \<open>A run that fails also changes nothing outside.\<close>

lemma MkdirAll_changed:
  assumes "os_MkdirAll io q t = (t', r)" and "prefix q (p @ x)"
  shows "changed_at p t t'"
proof (cases r)
  case None
  show ?thesis unfolding changed_at_def
    using MkdirAll_lookup(1) [OF assms(1) [unfolded None]] assms(2)
    by (metis prefix_order.trans prefix_same_cases prefixI strict_prefix_def)
qed (use assms(1) in \<open>auto simp add: os_MkdirAll_def split: if_splits\<close>)

lemma writeFile_changed:
  assumes "writeFile io (p @ x) data t = (t', r)"
  shows "changed_at p t t'"
proof (cases r)
  case None
  then show ?thesis using changed_at_ops(2) assms by blast
next
  case (Some e)
  have "prefix (butlast (p @ x)) (p @ x)" by (rule prefixeq_butlast)
  then show ?thesis using assms Some MkdirAll_changed
    by (fastforce simp add: writeFile_def seq_run_def os_WriteFile_def split: prod.splits option.splits if_splits)
qed

lemma copy_entries_changed: "copy_entries io f src dst es t = (t', r) \<Longrightarrow> changed_at dst t t'"
proof (induction es arbitrary: t)
  case (Cons e es)
  obtain rel n where e: "e = (rel, n)" by fastforce
  have step: "changed_at dst t t'" if "changed_at dst t t1"
      "seq_run (t1, r1) (copy_entries io f src dst es) = (t', r)" for t1 r1
    using that Cons.IH [of t1] changed_at_trans by (cases r1) (auto simp add: seq_run_def)
  show ?case
  proof (cases "n = Dir")
    case True
    obtain t1 r1 where mk: "os_MkdirAll io (dst @ rel) t = (t1, r1)" by force
    then show ?thesis using step [OF MkdirAll_changed [OF mk prefix_order.refl], of r1] Cons.prems e True
      by (simp add: Let_def)
  next
    case False
    show ?thesis
    proof (cases "os_ReadFile io t (src @ rel)")
      case (Inr data)
      obtain t1 r1 where wr: "writeFile io (dst @ rel) (f rel data) t = (t1, r1)" by force
      then show ?thesis using step [OF writeFile_changed [OF wr], of r1] Cons.prems e False Inr by (simp add: Let_def)
    qed (use Cons.prems e False in \<open>simp add: Let_def\<close>)
  qed
qed simp

section \<open>Comparing subtrees\<close>

definition entry_of :: "node \<Rightarrow> treeEntry" where
  "entry_of n = (case n of Dir \<Rightarrow> \<lparr>te_dir = True, te_data = []\<rparr> | File d \<Rightarrow> \<lparr>te_dir = False, te_data = d\<rparr>)"

lemma entry_of_inj: "entry_of a = entry_of b \<longleftrightarrow> a = b"
  by (auto simp add: entry_of_def split: node.splits)

lemma tree_entries_lookup:
  "tree_entries io t root es acc = Inr out \<Longrightarrow> \<forall>(r, n) \<in> set es. map_of t (root @ r) = Some n \<Longrightarrow>
   distinct (map fst es) \<Longrightarrow> fst ` set es \<inter> fst ` set acc = {} \<Longrightarrow> distinct (map fst acc) \<Longrightarrow>
   distinct (map fst out) \<and>
   map_of out r = (case map_of es r of Some n \<Rightarrow> Some (entry_of n) | None \<Rightarrow> map_of acc r)"
proof (induction es arbitrary: acc)
  case (Cons e es)
  obtain rel n where e: "e = (rel, n)" by fastforce
  have "tree_entries io t root es (AList.update rel (entry_of n) acc) = Inr out"
    using Cons.prems(1,2) e
    by (cases n) (auto simp add: entry_of_def os_ReadFile_def split: if_splits)
  from Cons.IH [OF this] have "distinct (map fst out) \<and> map_of out r =
      (case map_of es r of Some n \<Rightarrow> Some (entry_of n) | None \<Rightarrow> map_of (AList.update rel (entry_of n) acc) r)"
    using Cons.prems e by (auto simp add: dom_update distinct_update)
  moreover have "map_of es rel = None" using Cons.prems(3) e by (auto simp add: map_of_eq_None_iff)
  ultimately show ?case unfolding e by (auto simp add: update_conv' split: option.split)
qed auto

lemma treeEntries_lookup:
  assumes "treeEntries io t root = Inr out"
  shows "distinct (map fst out)" and "map_of out r = map_option entry_of (map_of t (root @ r))"
proof -
  obtain es where w: "walk io t root = Inr es" and te: "tree_entries io t root es [] = Inr out"
    using assms by (auto simp add: treeEntries_def)
  have es: "map_of es r = map_of t (root @ r)" for r
    using walk_entries [OF w] by (metis map_of_SomeD map_of_eq_Some_iff not_None_eq)
  have pre: "\<forall>(r, n) \<in> set es. map_of t (root @ r) = Some n" using walk_entries(1) [OF w] by blast
  show "distinct (map fst out)" "map_of out r = map_option entry_of (map_of t (root @ r))"
    using tree_entries_lookup [OF te pre walk_entries(2) [OF w], of r]
    by (simp_all add: es split: option.splits)
qed

lemma compareDirTrees_ok:
  assumes "compareDirTrees io t src dst = Inr changed"
  shows "changed \<longleftrightarrow> \<not> same_tree t src t dst"
proof -
  obtain a b where a: "treeEntries io t src = Inr a" and b: "treeEntries io t dst = Inr b"
    and ch: "changed \<longleftrightarrow> length a \<noteq> length b \<or> list_ex (entry_differs b) a"
    using assms by (auto simp add: compareDirTrees_def split: if_splits)
  note la = treeEntries_lookup [OF a] and lb = treeEntries_lookup [OF b]
  have same: "same_tree t src t dst \<longleftrightarrow> map_of a = map_of b"
    unfolding same_tree_def fun_eq_iff la(2) lb(2)
    by (metis entry_of_inj option.inj_map_strong)
  have eq: "te_dir x = te_dir y \<and> (te_dir x \<or> te_data x = te_data y) \<longleftrightarrow> x = y"
    if "x \<in> range entry_of" "y \<in> range entry_of" for x y
    using that by (auto simp add: entry_of_def split: node.splits)
  have range: "map_of a r = Some x \<Longrightarrow> x \<in> range entry_of" "map_of b r = Some x \<Longrightarrow> x \<in> range entry_of" for r x
    using la(2) lb(2) by auto
  have differs: "entry_differs b (r, x) \<longleftrightarrow> map_of b r \<noteq> Some x" if "map_of a r = Some x" for r x
  proof (cases "map_of b r")
    case (Some y)
    then show ?thesis using eq [OF range(1) [OF that] range(2) [OF Some]]
      by (auto simp add: entry_differs_def)
  qed (simp add: entry_differs_def)
  have sub: "\<not> list_ex (entry_differs b) a \<longleftrightarrow> map_of a \<subseteq>\<^sub>m map_of b"
    using la(1) differs by (auto simp add: list_ex_iff map_le_def dom_def)
  have len: "length a = card (dom (map_of a))" "length b = card (dom (map_of b))"
    using la(1) lb(1) by (metis card_length distinct_card dom_map_of_conv_image_fst length_map list.set_map)+
  have "map_of a = map_of b" if l: "length a = length b" and le: "map_of a \<subseteq>\<^sub>m map_of b"
  proof (rule ext)
    fix r
    have "dom (map_of a) = dom (map_of b)"
      using l le len by (simp add: card_subset_eq finite_dom_map_of map_le_implies_dom_le)
    then show "map_of a r = map_of b r"
      using le unfolding map_le_def by (metis domIff)
  qed
  moreover have "length a = length b \<and> map_of a \<subseteq>\<^sub>m map_of b" if "map_of a = map_of b"
    using that len by simp
  ultimately show ?thesis using ch sub same by blast
qed

end
