(* ===== verification/FreshCheck.thy ===== *)
theory FreshCheck
  imports FileTree
begin

text \<open>
  \<open>zengo check\<close>, the freshness check of the generated code (\<open>cmd/zengo/helpers.go\<close>): snapshot the
  generated targets, run the generator, compare, and put the targets back.

  The generator is an arbitrary action on the tree; \<open>os.MkdirTemp\<close>, the manifest and the state of the
  migration are parameters.
\<close>

record generatedPlan =
  gp_targets :: "string list"
  gp_forceMain :: bool
  gp_rootDir :: path
  gp_manifestPath :: string

record generatedSnapshot =
  gs_displayPath :: string
  gs_path :: path
  gs_backupPath :: path
  gs_exists :: bool
  gs_isDir :: bool

definition generatedMainHeader :: string where
  "generatedMainHeader = ''// Code generated by zengo gen. DO NOT EDIT.''"

definition staticGeneratedTargets :: "string list" where
  "staticGeneratedTargets =
     [''gen/api'', ''gen/zengo'', ''gen/db'', ''gen/cql'', ''.cursor/rules'', ''docs/PROTO_REGISTRY.md'']"

definition shouldTrackGeneratedMain :: "(io_op \<Rightarrow> bool) \<Rightarrow> tree \<Rightarrow> path \<Rightarrow> bool" where
  "shouldTrackGeneratedMain io t p =
     (if file_missing io t p then True
      else (case os_ReadFile io t p of Inl e \<Rightarrow> False | Inr data \<Rightarrow> has_prefix data generatedMainHeader))"

text \<open>The path of a display path below the root.\<close>

definition target_path :: "path \<Rightarrow> string \<Rightarrow> path" where
  "target_path root displayPath = root @ split_on CHR ''/'' displayPath"

text \<open>\<open>paths\<close> is the result of \<open>resolveServicePaths\<close>, \<open>hasREST\<close> whether the loaded manifest has the
  REST transport, \<open>track\<close> the result of \<open>ShouldTrackPostgresMigrationAt\<close>.\<close>

definition generatedTargetsIn ::
  "(io_op \<Rightarrow> bool) \<Rightarrow> tree \<Rightarrow> go_err + path \<times> string \<Rightarrow> go_err + bool \<Rightarrow> go_err + bool
     \<Rightarrow> go_err + generatedPlan" where
  "generatedTargetsIn io t paths hasREST track =
     bind_err paths (\<lambda>(rootDir, manifestPath).
       let forceMain = shouldTrackGeneratedMain io t (rootDir @ [''cmd'', ''main.go'']);
           targets = staticGeneratedTargets @ (if forceMain then [''cmd/main.go''] else [])
       in case hasREST of
            Inl e \<Rightarrow> Inl (WrapErr ''manifest load'' e)
          | Inr rest \<Rightarrow>
              (let targets = targets @ (if rest then [''gen/openapi''] else [])
               in case track of
                    Inl e \<Rightarrow> Inl (WrapErr ''postgres migration tracking'' e)
                  | Inr migration \<Rightarrow>
                      Inr \<lparr>gp_targets = targets @ (if migration then [''migrations/001_init.sql''] else []),
                           gp_forceMain = forceMain, gp_rootDir = rootDir, gp_manifestPath = manifestPath\<rparr>))"

text \<open>\<open>fmt.Sprintf("%03d", i)\<close>.\<close>

definition pad3 :: "nat \<Rightarrow> string" where
  "pad3 i = replicate (3 - length (nat_digits i)) CHR ''0'' @ nat_digits i"

definition snapshot_target ::
  "(io_op \<Rightarrow> bool) \<Rightarrow> path \<Rightarrow> path \<Rightarrow> nat \<Rightarrow> string \<Rightarrow> tree \<Rightarrow> tree \<times> (go_err + generatedSnapshot)" where
  "snapshot_target io root bak i displayPath t =
     (let p = target_path root displayPath;
          snap = \<lparr>gs_displayPath = displayPath, gs_path = p, gs_backupPath = bak @ [pad3 i],
                  gs_exists = False, gs_isDir = False\<rparr>
      in case os_Stat io t p of
           NotExist \<Rightarrow> (t, Inr snap)
         | StatFailed e \<Rightarrow> (t, Inl e)
         | Found Dir \<Rightarrow>
             (case copyDir io p (gs_backupPath snap) t of
                (t', Some e) \<Rightarrow> (t', Inl e)
              | (t', None) \<Rightarrow> (t', Inr (snap\<lparr>gs_exists := True, gs_isDir := True\<rparr>)))
         | Found (File _) \<Rightarrow>
             (case os_ReadFile io t p of
                Inl e \<Rightarrow> (t, Inl e)
              | Inr data \<Rightarrow>
                  (case writeFile io (gs_backupPath snap) data t of
                     (t', Some e) \<Rightarrow> (t', Inl e)
                   | (t', None) \<Rightarrow> (t', Inr (snap\<lparr>gs_exists := True\<rparr>)))))"

fun snapshot_targets ::
  "(io_op \<Rightarrow> bool) \<Rightarrow> path \<Rightarrow> path \<Rightarrow> nat \<Rightarrow> string list \<Rightarrow> tree
     \<Rightarrow> tree \<times> (go_err + generatedSnapshot list)" where
  "snapshot_targets io root bak i [] t = (t, Inr [])"
| "snapshot_targets io root bak i (d # ds) t =
     (case snapshot_target io root bak i d t of
        (t', Inl e) \<Rightarrow> (t', Inl e)
      | (t', Inr snap) \<Rightarrow>
          (case snapshot_targets io root bak (i + 1) ds t' of
             (t'', Inl e) \<Rightarrow> (t'', Inl e)
           | (t'', Inr snaps) \<Rightarrow> (t'', Inr (snap # snaps))))"

definition snapshotGeneratedTargetsIn ::
  "(io_op \<Rightarrow> bool) \<Rightarrow> path \<Rightarrow> string list \<Rightarrow> path \<Rightarrow> tree \<Rightarrow> tree \<times> (go_err + generatedSnapshot list)" where
  "snapshotGeneratedTargetsIn io root targets bak t = snapshot_targets io root bak 0 targets t"

definition snapshotChanged :: "(io_op \<Rightarrow> bool) \<Rightarrow> tree \<Rightarrow> generatedSnapshot \<Rightarrow> go_err + bool" where
  "snapshotChanged io t snap =
     (let info = os_Stat io t (gs_path snap)
      in if \<not> gs_exists snap
         then (case info of NotExist \<Rightarrow> Inr False | StatFailed e \<Rightarrow> Inl e | Found _ \<Rightarrow> Inr True)
         else (case info of
                 NotExist \<Rightarrow> Inr True
               | StatFailed e \<Rightarrow> Inl e
               | Found n \<Rightarrow>
                   (if (n = Dir) \<noteq> gs_isDir snap then Inr True
                    else if gs_isDir snap then compareDirTrees io t (gs_path snap) (gs_backupPath snap)
                    else bind_err (os_ReadFile io t (gs_path snap)) (\<lambda>a.
                           bind_err (os_ReadFile io t (gs_backupPath snap)) (\<lambda>b. Inr (a \<noteq> b))))))"

fun diffGeneratedTargets ::
  "(io_op \<Rightarrow> bool) \<Rightarrow> tree \<Rightarrow> generatedSnapshot list \<Rightarrow> go_err + string list" where
  "diffGeneratedTargets io t [] = Inr []"
| "diffGeneratedTargets io t (snap # snaps) =
     bind_err (snapshotChanged io t snap) (\<lambda>dirty.
       bind_err (diffGeneratedTargets io t snaps) (\<lambda>stale.
         Inr (if dirty then gs_displayPath snap # stale else stale)))"

definition restore_target :: "(io_op \<Rightarrow> bool) \<Rightarrow> generatedSnapshot \<Rightarrow> tree action" where
  "restore_target io snap t =
     seq_run (os_RemoveAll io (gs_path snap) t) (\<lambda>t.
       if \<not> gs_exists snap then (t, None)
       else if gs_isDir snap then copyDir io (gs_backupPath snap) (gs_path snap) t
       else (case os_ReadFile io t (gs_backupPath snap) of
               Inl e \<Rightarrow> (t, Some e) | Inr data \<Rightarrow> writeFile io (gs_path snap) data t))"

fun restoreGeneratedTargets :: "(io_op \<Rightarrow> bool) \<Rightarrow> generatedSnapshot list \<Rightarrow> tree action" where
  "restoreGeneratedTargets io [] t = (t, None)"
| "restoreGeneratedTargets io (snap # snaps) t =
     seq_run (restore_target io snap t) (restoreGeneratedTargets io snaps)"

text \<open>The generator: \<open>runGenerateAll\<close> with its two options, an action on the tree.\<close>

type_synonym generator = "bool \<Rightarrow> bool \<Rightarrow> tree action"

definition run_generator :: "generator \<Rightarrow> bool \<Rightarrow> bool \<Rightarrow> tree action" where
  "run_generator gen skipBuf forceMain t =
     seq_run (gen skipBuf forceMain t) (\<lambda>t. if \<not> skipBuf then gen True forceMain t else (t, None))"

text \<open>The part of \<open>checkGenFreshIn\<close> after the snapshots: the tree it leaves, and the errors of the
  generator, the comparison and the restore; then the error that it returns for them.\<close>

definition check_snapshots ::
  "(io_op \<Rightarrow> bool) \<Rightarrow> generator \<Rightarrow> bool \<Rightarrow> bool \<Rightarrow> generatedSnapshot list \<Rightarrow> tree
     \<Rightarrow> tree \<times> go_err option \<times> (go_err + string list) \<times> go_err option" where
  "check_snapshots io gen skipBuf forceMain snapshots t =
     (case run_generator gen skipBuf forceMain t of (t1, genErr) \<Rightarrow>
        (let diff = diffGeneratedTargets io t1 snapshots
         in case restoreGeneratedTargets io snapshots t1 of (t2, restoreErr) \<Rightarrow>
              (t2, genErr, diff, restoreErr)))"

definition with_restore :: "go_err \<Rightarrow> go_err option \<Rightarrow> go_err option" where
  "with_restore e restoreErr =
     (case restoreErr of
        Some r \<Rightarrow> errors_Join [Some e, Some (WrapErr ''restore generated targets'' r)]
      | None \<Rightarrow> Some e)"

definition check_error ::
  "go_err option \<Rightarrow> go_err + string list \<Rightarrow> go_err option \<Rightarrow> go_err option" where
  "check_error genErr diff restoreErr =
     (case genErr of
        Some e \<Rightarrow> with_restore e restoreErr
      | None \<Rightarrow>
          (case diff of
             Inl e \<Rightarrow> with_restore e restoreErr
           | Inr stale \<Rightarrow>
               (case restoreErr of
                  Some r \<Rightarrow> Some r
                | None \<Rightarrow>
                    (if stale \<noteq> []
                     then Some (PlainErr (''generated code is stale ('' @ join '', '' stale @
                                          ''); run: zengo gen''))
                     else None))))"

definition checkGenFreshIn ::
  "(io_op \<Rightarrow> bool) \<Rightarrow> (tree \<Rightarrow> go_err + path \<times> tree) \<Rightarrow> generator \<Rightarrow> bool \<Rightarrow> go_err + generatedPlan
     \<Rightarrow> tree action" where
  "checkGenFreshIn io mkTemp gen skipBuf plan t =
     (case plan of
        Inl e \<Rightarrow> (t, Some e)
      | Inr plan \<Rightarrow>
          (case mkTemp t of
             Inl e \<Rightarrow> (t, Some e)
           | Inr (bakRoot, t) \<Rightarrow>
               (case (case snapshotGeneratedTargetsIn io (gp_rootDir plan) (gp_targets plan) bakRoot t of
                        (t, Inl e) \<Rightarrow> (t, Some e)
                      | (t, Inr snapshots) \<Rightarrow>
                          (case check_snapshots io gen skipBuf (gp_forceMain plan) snapshots t of
                             (t, genErr, diff, restoreErr) \<Rightarrow> (t, check_error genErr diff restoreErr))) of
                  (t, retErr) \<Rightarrow>
                    (case os_RemoveAll io bakRoot t of
                       (t, rmErr) \<Rightarrow> (t, errors_Join [retErr, rmErr])))))"

end
