(* ===== verification/FreshCheckFacts.thy ===== *)
theory FreshCheckFacts
  imports FreshCheck FileTreeFacts
begin

text \<open>
  The freshness check restores what it found: after a run that reports no restore error, every
  generated target is as it was, and the list of stale targets is exact.
\<close>

section \<open>Backup names\<close>

definition digits_value :: "string \<Rightarrow> nat" where
  "digits_value = foldl (\<lambda>a c. 10 * a + (of_char c - 48)) 0"

lemma digits_value_snoc: "digits_value (s @ [c]) = 10 * digits_value s + (of_char c - 48)"
  by (simp add: digits_value_def)

lemma digits_value_nat: "digits_value (nat_digits n) = n"
proof (induction n rule: nat_digits.induct)
  case (1 n)
  show ?case
  proof (cases "n < 10")
    case True
    then show ?thesis by (simp add: nat_digits.simps [of n] digits_value_def)
  next
    case False
    then have "nat_digits n = nat_digits (n div 10) @ [char_of (48 + n mod 10)]"
      by (subst nat_digits.simps) simp
    then show ?thesis using 1 [OF False] by (simp add: digits_value_snoc)
  qed
qed

lemma digits_value_zeros: "digits_value (replicate k CHR ''0'' @ s) = digits_value s"
  by (induction k) (simp_all add: digits_value_def)

lemma pad3_inj: "pad3 i = pad3 j \<longleftrightarrow> i = j"
  by (metis digits_value_nat digits_value_zeros pad3_def)

lemma parallel_backups: "i \<noteq> j \<Longrightarrow> bak @ [pad3 i] \<parallel> bak @ [pad3 j]"
  by (auto simp add: parallel_def pad3_inj)

section \<open>Snapshots\<close>

text \<open>What a snapshot says of a tree \<open>t0\<close>, with the backup in a tree \<open>t\<close>.\<close>

definition snapshot_of :: "tree \<Rightarrow> tree \<Rightarrow> generatedSnapshot \<Rightarrow> bool" where
  "snapshot_of t0 t s \<longleftrightarrow>
     (if gs_exists s
      then same_tree t0 (gs_path s) t (gs_backupPath s) \<and>
           (gs_isDir s \<longleftrightarrow> map_of t0 (gs_path s) = Some Dir) \<and> map_of t0 (gs_path s) \<noteq> None
      else \<forall>r. map_of t0 (gs_path s @ r) = None)"

lemma snapshot_of_cong:
  "snapshot_of t0 t s \<Longrightarrow> same_tree t (gs_backupPath s) t' (gs_backupPath s) \<Longrightarrow> snapshot_of t0 t' s"
  unfolding snapshot_of_def by (metis same_tree_trans)

lemma snapshot_of_cong0:
  "snapshot_of t0 t s \<Longrightarrow> same_tree t0 (gs_path s) t0' (gs_path s) \<Longrightarrow> snapshot_of t0' t s"
  unfolding snapshot_of_def same_tree_def by (metis append_Nil2)

lemma same_tree_file:
  assumes "wf_tree t" "wf_tree t'" "map_of t p = Some (File a)" "map_of t' p' = Some (File b)"
  shows "same_tree t p t' p' \<longleftrightarrow> a = b"
proof
  assume "a = b"
  have "map_of t (p @ r) = map_of t' (p' @ r)" for r
    using assms \<open>a = b\<close> wf_tree_below_file [of t p r] wf_tree_below_file [of t' p' r] by (cases "r = []") auto
  then show "same_tree t p t' p'" by (simp add: same_tree_def)
qed (use assms same_tree_root in fastforce)

lemma snapshot_target_ok:
  assumes "snapshot_target io root bak i d t = (t', Inr s)" and "wf_tree t"
    and "target_path root d \<parallel> bak" and "\<forall>r. map_of t (bak @ [pad3 i] @ r) = None"
  shows "wf_tree t' \<and> changed_at (bak @ [pad3 i]) t t' \<and> gs_displayPath s = d \<and>
    gs_path s = target_path root d \<and> gs_backupPath s = bak @ [pad3 i] \<and> snapshot_of t t' s"
proof -
  let ?p = "target_path root d" let ?b = "bak @ [pad3 i]"
  have par: "?p \<parallel> ?b" using assms(3) by (rule parallel_below)
  show ?thesis
  proof (cases "os_Stat io t ?p")
    case NotExist
    then have none: "map_of t ?p = None" by (auto simp add: os_Stat_def split: if_splits option.splits)
    have "map_of t (?p @ r) = None" for r
      using none wf_tree_below_file [OF assms(2), of ?p r] by (cases "r = []") auto
    then show ?thesis using assms(1,2) NotExist
      by (auto simp add: snapshot_target_def Let_def snapshot_of_def)
  next
    case (StatFailed e) then show ?thesis using assms(1) by (simp add: snapshot_target_def Let_def)
  next
    case (Found n)
    then have n: "map_of t ?p = Some n" by (auto simp add: os_Stat_def split: if_splits option.splits)
    show ?thesis
    proof (cases n)
      case Dir
      then have c: "copyDir io ?p ?b t = (t', None)"
        and s: "gs_exists s" "gs_isDir s" "gs_path s = ?p" "gs_backupPath s = ?b" "gs_displayPath s = d"
        using assms(1) Found
        by (auto simp add: snapshot_target_def Let_def split: prod.splits option.splits)
      from copyDir_ok [OF c par assms(2)] assms(4) s n Dir show ?thesis
        by (simp add: snapshot_of_def)
    next
      case (File data)
      then have w: "writeFile io ?b data t = (t', None)"
        and s: "gs_exists s" "\<not> gs_isDir s" "gs_path s = ?p" "gs_backupPath s = ?b" "gs_displayPath s = d"
        using assms(1) Found n
        by (auto simp add: snapshot_target_def Let_def os_ReadFile_def
            split: prod.splits option.splits sum.splits if_splits)
      have "wf_tree t'" using writeFile_wf [OF w assms(2)] .
      moreover have "map_of t' ?b = Some (File data)" by (simp add: writeFile_lookup(1) [OF w])
      ultimately have "same_tree t ?p t' ?b" using same_tree_file assms(2) n File by blast
      then show ?thesis using changed_at_ops(2) [where p = "?b" and r = "[]" and io = io and t = t] w s n File
          writeFile_wf [OF w assms(2)] by (simp add: snapshot_of_def)
    qed
  qed
qed

text \<open>The targets of a plan: apart from one another and from the directory of the backups.\<close>

definition apart :: "path \<Rightarrow> path \<Rightarrow> string list \<Rightarrow> bool" where
  "apart root bak ds \<longleftrightarrow> distinct ds \<and> (\<forall>d \<in> set ds. target_path root d \<parallel> bak) \<and>
     (\<forall>d \<in> set ds. \<forall>d' \<in> set ds. d \<noteq> d' \<longrightarrow> target_path root d \<parallel> target_path root d')"

lemma snapshot_targets_ok:
  assumes "snapshot_targets io root bak i ds t = (t', Inr ss)" and "wf_tree t" and "apart root bak ds"
    and "\<forall>k r. k \<ge> i \<longrightarrow> map_of t (bak @ [pad3 k] @ r) = None"
  shows "wf_tree t' \<and> changed_at bak t t' \<and> map gs_displayPath ss = ds \<and>
    (\<forall>k < i. same_tree t (bak @ [pad3 k]) t' (bak @ [pad3 k])) \<and>
    (\<forall>s \<in> set ss. gs_path s = target_path root (gs_displayPath s) \<and> snapshot_of t t' s \<and>
       (\<exists>k \<ge> i. gs_backupPath s = bak @ [pad3 k]))"
  using assms
proof (induction ds arbitrary: i t ss)
  case (Cons d ds)
  obtain t1 s ss' where s: "snapshot_target io root bak i d t = (t1, Inr s)"
    and rest: "snapshot_targets io root bak (i + 1) ds t1 = (t', Inr ss')" and ss: "ss = s # ss'"
    using Cons.prems(1) by (auto split: prod.splits sum.splits)
  let ?b = "bak @ [pad3 i]"
  have ok: "wf_tree t1 \<and> changed_at ?b t t1 \<and> gs_displayPath s = d \<and>
    gs_path s = target_path root d \<and> gs_backupPath s = ?b \<and> snapshot_of t t1 s"
    using snapshot_target_ok [OF s Cons.prems(2)] Cons.prems(3,4) by (auto simp add: apart_def)
  have other: "same_tree t (bak @ [pad3 k]) t1 (bak @ [pad3 k])" if "k \<noteq> i" for k
    using ok changed_at_parallel parallel_backups that by metis
  have fresh: "\<forall>k r. k \<ge> i + 1 \<longrightarrow> map_of t1 (bak @ [pad3 k] @ r) = None"
  proof (intro allI impI)
    fix k r assume "i + 1 \<le> k"
    then have "same_tree t (bak @ [pad3 k]) t1 (bak @ [pad3 k])" "i \<le> k" using other by auto
    then show "map_of t1 (bak @ [pad3 k] @ r) = None"
      using Cons.prems(4) unfolding same_tree_def by (metis append_assoc)
  qed
  have IH: "wf_tree t' \<and> changed_at bak t1 t' \<and> map gs_displayPath ss' = ds \<and>
    (\<forall>k < i + 1. same_tree t1 (bak @ [pad3 k]) t' (bak @ [pad3 k])) \<and>
    (\<forall>s \<in> set ss'. gs_path s = target_path root (gs_displayPath s) \<and> snapshot_of t1 t' s \<and>
       (\<exists>k \<ge> i + 1. gs_backupPath s = bak @ [pad3 k]))"
    using Cons.IH [OF rest] ok fresh Cons.prems(3) by (auto simp add: apart_def)
  have b1: "changed_at bak t t1"
    using ok Cons.prems(2) unfolding changed_at_def
    by (metis prefix_append prefix_order.dual_order.strict_trans2 prefix_same_cases prefixI
        strict_prefix_def prefix_snoc)
  have "snapshot_of t t' s" using snapshot_of_cong ok IH by (metis less_add_one)
  moreover have "snapshot_of t t' s'" if "s' \<in> set ss'" for s'
  proof -
    have "gs_displayPath s' \<in> set ds" using IH that by force
    then have "target_path root (gs_displayPath s') \<parallel> ?b"
      using Cons.prems(3) by (auto simp add: apart_def intro: parallel_below)
    then have "same_tree t1 (gs_path s') t (gs_path s')"
      using ok IH that changed_at_parallel parallel_commute same_tree_sym by metis
    then show ?thesis using IH that snapshot_of_cong0 by blast
  qed
  moreover have "same_tree t (bak @ [pad3 k]) t' (bak @ [pad3 k])" if "k < i" for k
    using other [of k] IH that by (metis less_add_one less_trans nat_less_le same_tree_trans)
  moreover have "\<exists>k \<ge> i. gs_backupPath s' = bak @ [pad3 k]" if "s' \<in> set ss'" for s'
    using IH that by (metis add_leD1)
  moreover have "changed_at bak t t'" using changed_at_trans [OF b1] IH by blast
  moreover have "\<exists>k \<ge> i. gs_backupPath s = bak @ [pad3 k]" using ok by blast
  ultimately show ?case using IH ok unfolding ss by simp
qed simp

section \<open>Comparing and restoring\<close>

lemma snapshotChanged_ok:
  assumes "snapshotChanged io t s = Inr dirty" and s: "snapshot_of t0 t s" and "wf_tree t" and "wf_tree t0"
  shows "dirty \<longleftrightarrow> \<not> same_tree t0 (gs_path s) t (gs_path s)"
proof (cases "gs_exists s")
  case False
  then have none: "\<forall>r. map_of t0 (gs_path s @ r) = None" using s by (simp add: snapshot_of_def)
  have "same_tree t0 (gs_path s) t (gs_path s) \<longleftrightarrow> map_of t (gs_path s) = None"
    unfolding same_tree_def using none wf_tree_below_file [OF assms(3)]
    by (metis append_Nil2 option.distinct(1))
  then show ?thesis using assms(1) False
    by (auto simp add: snapshotChanged_def os_Stat_def Let_def split: if_splits option.splits)
next
  case True
  let ?p = "gs_path s" let ?b = "gs_backupPath s"
  have bak: "same_tree t0 ?p t ?b" and dir: "gs_isDir s \<longleftrightarrow> map_of t0 ?p = Some Dir"
    and ex: "map_of t0 ?p \<noteq> None" using s True by (simp_all add: snapshot_of_def)
  have same: "same_tree t0 ?p t ?p \<longleftrightarrow> same_tree t ?p t ?b"
    using bak unfolding same_tree_def by auto
  show ?thesis
  proof (cases "map_of t ?p")
    case None
    then have "dirty" using assms(1) True
      by (auto simp add: snapshotChanged_def os_Stat_def Let_def split: if_splits)
    moreover have "\<not> same_tree t0 ?p t ?p" using ex None same_tree_root by metis
    ultimately show ?thesis by simp
  next
    case (Some n)
    show ?thesis
    proof (cases "(n = Dir) = gs_isDir s")
      case False
      then have "dirty" using assms(1) True Some
        by (auto simp add: snapshotChanged_def os_Stat_def Let_def split: if_splits)
      moreover have "\<not> same_tree t0 ?p t ?p" using False dir Some same_tree_root by fastforce
      ultimately show ?thesis by simp
    next
      case eq: True
      show ?thesis
      proof (cases "n = Dir")
        case True
        then have "compareDirTrees io t ?p ?b = Inr dirty" using assms(1) \<open>gs_exists s\<close> Some eq
          by (auto simp add: snapshotChanged_def os_Stat_def Let_def split: if_splits)
        then show ?thesis using compareDirTrees_ok same by blast
      next
        case False
        then obtain a where a: "n = File a" by (cases n) auto
        from False eq ex dir obtain b where b: "map_of t0 ?p = Some (File b)"
          by (cases "the (map_of t0 ?p)") auto
        then have "map_of t ?b = Some (File b)" using bak same_tree_root by metis
        then have "dirty \<longleftrightarrow> a \<noteq> b" using assms(1) \<open>gs_exists s\<close> Some a eq
          by (auto simp add: snapshotChanged_def os_Stat_def os_ReadFile_def Let_def split: if_splits)
        moreover have "same_tree t0 ?p t ?p \<longleftrightarrow> b = a" using same_tree_file assms(3,4) b Some a by blast
        ultimately show ?thesis by auto
      qed
    qed
  qed
qed

lemma diffGeneratedTargets_ok:
  assumes "diffGeneratedTargets io t ss = Inr stale" and "\<forall>s \<in> set ss. snapshot_of t0 t s"
    and "wf_tree t" and "wf_tree t0"
  shows "stale = map gs_displayPath (filter (\<lambda>s. \<not> same_tree t0 (gs_path s) t (gs_path s)) ss)"
  using assms
proof (induction ss arbitrary: stale)
  case (Cons s ss)
  then obtain dirty rest where d: "snapshotChanged io t s = Inr dirty"
    and r: "diffGeneratedTargets io t ss = Inr rest" and st: "stale = (if dirty then gs_displayPath s # rest else rest)"
    by auto
  have "dirty \<longleftrightarrow> \<not> same_tree t0 (gs_path s) t (gs_path s)"
    using snapshotChanged_ok [OF d] Cons.prems by simp
  then show ?case using Cons.IH [OF r] Cons.prems st by simp
qed simp

lemma restore_target_ok:
  assumes "restore_target io s t = (t', None)" and s: "snapshot_of t0 t s" and wf: "wf_tree t" "wf_tree t0"
    and par: "gs_path s \<parallel> gs_backupPath s"
  shows "wf_tree t' \<and> changed_at (gs_path s) t t' \<and> same_tree t0 (gs_path s) t' (gs_path s)"
proof -
  let ?p = "gs_path s" let ?b = "gs_backupPath s"
  obtain t1 where rm: "os_RemoveAll io ?p t = (t1, None)"
    and rest: "(if \<not> gs_exists s then (t1, None)
       else if gs_isDir s then copyDir io ?b ?p t1
       else (case os_ReadFile io t1 ?b of Inl e \<Rightarrow> (t1, Some e) | Inr data \<Rightarrow> writeFile io ?p data t1)) = (t', None)"
    using assms(1) by (auto simp add: restore_target_def seq_run_def split: prod.splits option.splits)
  have wf1: "wf_tree t1" and ch1: "changed_at ?p t t1"
    using RemoveAll_wf [OF rm] wf changed_at_ops(3) [OF rm] by auto
  have gone: "\<forall>r. map_of t1 (?p @ r) = None" by (simp add: RemoveAll_lookup [OF rm])
  have s1: "snapshot_of t0 t1 s"
    using snapshot_of_cong [OF s] changed_at_parallel [OF ch1 par] .
  show ?thesis
  proof (cases "gs_exists s")
    case False
    then show ?thesis using rest wf1 ch1 gone s by (auto simp add: snapshot_of_def same_tree_def)
  next
    case True
    then have bak: "same_tree t0 ?p t1 ?b" and dir: "gs_isDir s \<longleftrightarrow> map_of t0 ?p = Some Dir"
      and ex: "map_of t0 ?p \<noteq> None" using s1 by (simp_all add: snapshot_of_def)
    show ?thesis
    proof (cases "gs_isDir s")
      case True
      then have "copyDir io ?b ?p t1 = (t', None)" using rest \<open>gs_exists s\<close> by simp
      then show ?thesis
        using copyDir_ok [OF _ parallel_commute [THEN iffD1, OF par] wf1 gone] ch1 bak
          changed_at_trans same_tree_trans by blast
    next
      case False
      with dir ex obtain b where b: "map_of t0 ?p = Some (File b)" by (cases "the (map_of t0 ?p)") auto
      then have "map_of t1 ?b = Some (File b)" using bak same_tree_root by metis
      then have wr: "writeFile io ?p b t1 = (t', None)" using rest False \<open>gs_exists s\<close>
        by (auto simp add: os_ReadFile_def split: if_splits)
      have "map_of t' ?p = Some (File b)" by (simp add: writeFile_lookup(1) [OF wr])
      then show ?thesis using writeFile_wf [OF wr wf1] same_tree_file [OF wf(2) _ b]
          changed_at_trans [OF ch1] changed_at_ops(2) [where p = ?p and r = "[]"] wr by simp
    qed
  qed
qed

lemma restoreGeneratedTargets_ok:
  assumes "restoreGeneratedTargets io ss t = (t', None)" and "\<forall>s \<in> set ss. snapshot_of t0 t s"
    and "wf_tree t" "wf_tree t0"
    and "\<forall>s \<in> set ss. \<forall>s' \<in> set ss. gs_path s \<parallel> gs_backupPath s'"
    and "distinct (map gs_path ss)"
    and "\<forall>s \<in> set ss. \<forall>s' \<in> set ss. gs_path s \<noteq> gs_path s' \<longrightarrow> gs_path s \<parallel> gs_path s'"
  shows "(\<forall>s \<in> set ss. same_tree t0 (gs_path s) t' (gs_path s)) \<and>
    (\<forall>p. (\<forall>s \<in> set ss. gs_path s \<parallel> p) \<longrightarrow> same_tree t p t' p)"
  using assms
proof (induction ss arbitrary: t)
  case (Cons s ss)
  obtain t1 where r: "restore_target io s t = (t1, None)"
    and rest: "restoreGeneratedTargets io ss t1 = (t', None)"
    using Cons.prems(1) by (auto simp add: seq_run_def split: prod.splits option.splits)
  have ok: "wf_tree t1 \<and> changed_at (gs_path s) t t1 \<and> same_tree t0 (gs_path s) t1 (gs_path s)"
    using restore_target_ok [OF r, where ?t0.0 = t0] Cons.prems by simp
  have "snapshot_of t0 t1 s'" if "s' \<in> set ss" for s'
    using Cons.prems that ok changed_at_parallel snapshot_of_cong by (metis list.set_intros(1,2))
  then have IH: "(\<forall>s \<in> set ss. same_tree t0 (gs_path s) t' (gs_path s)) \<and>
    (\<forall>p. (\<forall>s \<in> set ss. gs_path s \<parallel> p) \<longrightarrow> same_tree t1 p t' p)"
    using Cons.IH [OF rest] Cons.prems ok by simp
  have "\<forall>s' \<in> set ss. gs_path s' \<parallel> gs_path s"
    using Cons.prems(6,7) by (auto simp add: image_iff)
  then have "same_tree t1 (gs_path s) t' (gs_path s)" using IH by blast
  then have "same_tree t0 (gs_path s) t' (gs_path s)" using ok same_tree_trans by blast
  moreover have "same_tree t p t' p" if "\<forall>s' \<in> set (s # ss). gs_path s' \<parallel> p" for p
  proof -
    have "gs_path s \<parallel> p" using that by simp
    then have "same_tree t p t1 p" using ok changed_at_parallel by blast
    moreover have "same_tree t1 p t' p" using IH that by simp
    ultimately show ?thesis by (rule same_tree_trans)
  qed
  ultimately show ?case using IH by simp
qed simp

section \<open>The check\<close>

text \<open>What the check relies on: the directory of the backups is new and away from the targets, and the
  generator leaves it alone and leaves a tree.\<close>

definition new_backup :: "tree \<Rightarrow> path \<Rightarrow> bool" where
  "new_backup t bak \<longleftrightarrow> wf_tree t \<and> (\<forall>r. r \<noteq> [] \<longrightarrow> map_of t (bak @ r) = None)"

definition keeps_backup :: "generator \<Rightarrow> path \<Rightarrow> bool" where
  "keeps_backup gen bak \<longleftrightarrow>
     (\<forall>s f t. wf_tree t \<longrightarrow> wf_tree (fst (gen s f t)) \<and> same_tree t bak (fst (gen s f t)) bak)"

lemma run_generator_keeps:
  assumes "keeps_backup gen bak" "run_generator gen skipBuf force t = (t', e)" "wf_tree t"
  shows "wf_tree t' \<and> same_tree t bak t' bak"
proof -
  obtain t1 e1 where g: "gen skipBuf force t = (t1, e1)" by fastforce
  then have one: "wf_tree t1 \<and> same_tree t bak t1 bak" using assms(1,3) unfolding keeps_backup_def
    by (metis fst_conv)
  show ?thesis
  proof (cases "e1 = None \<and> \<not> skipBuf")
    case True
    then have "gen True force t1 = (t', e)" using assms(2) g by (simp add: run_generator_def seq_run_def)
    then have "wf_tree t' \<and> same_tree t1 bak t' bak" using assms(1) one unfolding keeps_backup_def
      by (metis fst_conv)
    then show ?thesis using one same_tree_trans by blast
  next
    case False
    then show ?thesis using assms(2) g one
      by (auto simp add: run_generator_def seq_run_def split: option.splits)
  qed
qed

lemma same_tree_below: "same_tree t p t' p \<Longrightarrow> same_tree t (p @ r) t' (p @ r)"
  unfolding same_tree_def by (metis append_assoc)

text \<open>C6: The check puts the project back.  Let the generator do anything to the tree outside the
  backups.  If the snapshots succeeded and the restore reported no error, then every generated target, file or directory with all below it, is exactly as it was
  before the generator ran, also when the generator failed half-way; and when the comparison
  succeeded, the list of stale targets is exact: those that the generator had left different, in the
  order of the plan.\<close>

theorem check_restores:
  assumes "snapshotGeneratedTargetsIn io root targets bak t = (t1, Inr ss)"
    and "check_snapshots io gen skipBuf force ss t1 = (t3, genErr, diff, None)"
    and "new_backup t bak" and "apart root bak targets" and "keeps_backup gen bak"
  shows "(\<forall>d \<in> set targets. same_tree t (target_path root d) t3 (target_path root d)) \<and>
    (\<forall>stale. diff = Inr stale \<longrightarrow> stale = filter (\<lambda>d. \<not> same_tree t (target_path root d)
       (fst (run_generator gen skipBuf force t1)) (target_path root d)) targets)"
proof -
  have wf: "wf_tree t" using assms(3) by (simp add: new_backup_def)
  have ok: "wf_tree t1 \<and> changed_at bak t t1 \<and> map gs_displayPath ss = targets \<and>
    (\<forall>s \<in> set ss. gs_path s = target_path root (gs_displayPath s) \<and> snapshot_of t t1 s \<and>
       (\<exists>k \<ge> 0. gs_backupPath s = bak @ [pad3 k]))"
    using snapshot_targets_ok [OF assms(1) [unfolded snapshotGeneratedTargetsIn_def] wf assms(4)] assms(3)
    by (simp add: new_backup_def)
  obtain t2 where g: "run_generator gen skipBuf force t1 = (t2, genErr)"
    and diff: "diff = diffGeneratedTargets io t2 ss" and r: "restoreGeneratedTargets io ss t2 = (t3, None)"
    using assms(2) by (auto simp add: check_snapshots_def Let_def split: prod.splits)
  have t2: "wf_tree t2 \<and> same_tree t1 bak t2 bak" using run_generator_keeps [OF assms(5) g] ok by blast
  have s2: "\<forall>s \<in> set ss. snapshot_of t t2 s"
    using ok t2 same_tree_below snapshot_of_cong by metis
  have disp: "gs_displayPath s \<in> set targets" if "s \<in> set ss" for s using ok that by force
  have bak: "\<forall>s \<in> set ss. \<forall>s' \<in> set ss. gs_path s \<parallel> gs_backupPath s'"
    using ok disp assms(4) parallel_below unfolding apart_def by metis
  have apart: "\<forall>s \<in> set ss. \<forall>s' \<in> set ss. gs_path s \<noteq> gs_path s' \<longrightarrow> gs_path s \<parallel> gs_path s'"
    using ok disp assms(4) unfolding apart_def by metis
  have paths: "map gs_path ss = map (target_path root) targets" using ok by (auto simp add: map_eq_conv[symmetric])
  have "inj_on (target_path root) (set targets)"
    using assms(4) unfolding apart_def inj_on_def by (metis parallel_def prefix_order.refl)
  then have dist: "distinct (map gs_path ss)"
    unfolding paths using assms(4) by (simp add: apart_def distinct_map)
  have restored: "\<forall>s \<in> set ss. same_tree t (gs_path s) t3 (gs_path s)"
    using restoreGeneratedTargets_ok [OF r s2] t2 wf bak dist apart by blast
  then have "\<forall>d \<in> set targets. same_tree t (target_path root d) t3 (target_path root d)"
    using ok by (metis (no_types, lifting) imageE list.set_map)
  moreover have "stale = filter (\<lambda>d. \<not> same_tree t (target_path root d) t2 (target_path root d)) targets"
    if "diff = Inr stale" for stale
  proof -
    have "stale = map gs_displayPath (filter (\<lambda>s. \<not> same_tree t (gs_path s) t2 (gs_path s)) ss)"
      using diffGeneratedTargets_ok [OF diff [symmetric, unfolded that] s2] t2 wf by blast
    also have "filter (\<lambda>s. \<not> same_tree t (gs_path s) t2 (gs_path s)) ss =
        filter ((\<lambda>d. \<not> same_tree t (target_path root d) t2 (target_path root d)) \<circ> gs_displayPath) ss"
      by (rule filter_cong) (use ok in auto)
    also have "map gs_displayPath \<dots> = filter (\<lambda>d. \<not> same_tree t (target_path root d) t2 (target_path root d))
        (map gs_displayPath ss)" by (simp only: filter_map)
    finally show ?thesis using ok by simp
  qed
  ultimately show ?thesis using g by simp
qed

text \<open>A check that returns no error is a proof of freshness: the generator ran without an error, it left every
  generated target as the check found it, and the check left them so too.\<close>

definition fresh_targets :: "generator \<Rightarrow> (tree \<Rightarrow> go_err + path \<times> tree) \<Rightarrow> bool \<Rightarrow> generatedPlan \<Rightarrow> tree \<Rightarrow> tree \<Rightarrow> bool" where
  "fresh_targets gen mkTemp skipBuf plan t t' \<longleftrightarrow>
     (\<exists>bak t0 t1 t2. mkTemp t = Inr (bak, t0) \<and>
        run_generator gen skipBuf (gp_forceMain plan) t1 = (t2, None) \<and>
        list_all (\<lambda>d. same_tree t0 (target_path (gp_rootDir plan) d) t2 (target_path (gp_rootDir plan) d) \<and>
                       same_tree t0 (target_path (gp_rootDir plan) d) t' (target_path (gp_rootDir plan) d))
          (gp_targets plan))"

lemma fresh_check_passes:
  assumes "checkGenFreshIn io mkTemp gen skipBuf (Inr plan) t = (t', None)"
    and "\<And>bak t0. mkTemp t = Inr (bak, t0) \<Longrightarrow> new_backup t0 bak \<and>
      apart (gp_rootDir plan) bak (gp_targets plan) \<and> keeps_backup gen bak"
  shows "fresh_targets gen mkTemp skipBuf plan t t'"
proof -
  obtain bak t0 where mk: "mkTemp t = Inr (bak, t0)"
    using assms(1) by (auto simp add: checkGenFreshIn_def split: sum.splits)
  have hyps: "new_backup t0 bak" "apart (gp_rootDir plan) bak (gp_targets plan)" "keeps_backup gen bak"
    using assms(2) [OF mk] by blast+
  have join: "errors_Join [a, b] = None \<longleftrightarrow> a = None \<and> b = None" for a b
    by (cases a; cases b) (simp_all add: errors_Join_def map_filter_simps)
  obtain t1 ss t3 genErr diff restoreErr where
      sn: "snapshotGeneratedTargetsIn io (gp_rootDir plan) (gp_targets plan) bak t0 = (t1, Inr ss)"
    and ck: "check_snapshots io gen skipBuf (gp_forceMain plan) ss t1 = (t3, genErr, diff, restoreErr)"
    and err: "check_error genErr diff restoreErr = None" and rm: "os_RemoveAll io bak t3 = (t', None)"
    using assms(1) mk by (auto simp add: checkGenFreshIn_def join split: prod.splits sum.splits)
  have out: "genErr = None" "restoreErr = None" "diff = Inr []"
    using err by (auto simp add: check_error_def with_restore_def errors_Join_def map_filter_simps
        split: option.splits sum.splits if_splits)
  obtain t2 where g: "run_generator gen skipBuf (gp_forceMain plan) t1 = (t2, None)"
    using ck out by (auto simp add: check_snapshots_def Let_def split: prod.splits)
  have res: "(\<forall>d \<in> set (gp_targets plan). same_tree t0 (target_path (gp_rootDir plan) d) t3 (target_path (gp_rootDir plan) d)) \<and>
      [] = filter (\<lambda>d. \<not> same_tree t0 (target_path (gp_rootDir plan) d) t2 (target_path (gp_rootDir plan) d)) (gp_targets plan)"
    using check_restores [OF sn ck [unfolded out] hyps] g by auto
  have "same_tree t3 (target_path (gp_rootDir plan) d) t' (target_path (gp_rootDir plan) d)"
    if "d \<in> set (gp_targets plan)" for d
    using hyps(2) that changed_at_ops(3) [OF rm] changed_at_parallel parallel_commute
    unfolding apart_def by blast
  then have "list_all (\<lambda>d. same_tree t0 (target_path (gp_rootDir plan) d) t2 (target_path (gp_rootDir plan) d) \<and>
                   same_tree t0 (target_path (gp_rootDir plan) d) t' (target_path (gp_rootDir plan) d))
      (gp_targets plan)"
    using res same_tree_trans by (auto simp add: list_all_iff filter_empty_conv eq_commute [of "[]"])
  then show ?thesis using mk g unfolding fresh_targets_def by blast
qed

section \<open>A concrete check\<close>

text \<open>A project with one generated directory and no main file, and a generator that deletes the
  directory.\<close>

definition demo_tree :: tree where
  "demo_tree = [([], Dir), ([''svc''], Dir), ([''svc'', ''gen''], Dir), ([''svc'', ''gen'', ''api''], Dir),
     ([''svc'', ''gen'', ''api'', ''a.go''], File ''package a''), ([''tmp''], Dir)]"

definition demo_generator :: generator where
  "demo_generator skipBuf force t = os_RemoveAll (\<lambda>_. False) [''svc'', ''gen'', ''api''] t"

definition demo_targets :: "string list" where
  "demo_targets = [''gen/api'', ''cmd/main.go'']"

lemma demo_paths:
  "target_path [''svc''] ''gen/api'' = [''svc'', ''gen'', ''api'']"
  "target_path [''svc''] ''cmd/main.go'' = [''svc'', ''cmd'', ''main.go'']"
  by (simp_all add: target_path_def)

lemma demo_new_backup: "new_backup demo_tree [''tmp'']"
  by (auto simp add: new_backup_def wf_tree_def demo_tree_def)

lemma demo_apart: "apart [''svc''] [''tmp''] demo_targets"
  by (auto simp add: apart_def demo_targets_def demo_paths)

lemma demo_keeps_backup: "keeps_backup demo_generator [''tmp'']"
proof -
  have "os_RemoveAll (\<lambda>_. False) [''svc'', ''gen'', ''api''] t =
      (fst (demo_generator s f t), None)" for s f t
    by (simp add: demo_generator_def os_RemoveAll_def)
  note rm = this
  have "wf_tree t \<Longrightarrow> wf_tree (fst (demo_generator s f t))" for s f t by (rule RemoveAll_wf [OF rm])
  moreover have "same_tree t [''tmp''] (fst (demo_generator s f t)) [''tmp'']" for s f t
    by (rule changed_at_parallel [OF changed_at_ops(3) [OF rm]]) auto
  ultimately show ?thesis by (simp add: keeps_backup_def)
qed

definition demo_backed_up :: "tree \<times> (go_err + generatedSnapshot list)" where
  "demo_backed_up = snapshotGeneratedTargetsIn (\<lambda>_. False) [''svc''] demo_targets [''tmp''] demo_tree"

definition demo_snapshots :: "generatedSnapshot list" where
  "demo_snapshots = (case snd demo_backed_up of Inr ss \<Rightarrow> ss | Inl _ \<Rightarrow> [])"

lemma demo_snapshot_ok:
  "snapshotGeneratedTargetsIn (\<lambda>_. False) [''svc''] demo_targets [''tmp''] demo_tree =
     (fst demo_backed_up, Inr demo_snapshots)"
  by code_simp

lemma demo_check_ok:
  "(case check_snapshots (\<lambda>_. False) demo_generator False False demo_snapshots (fst demo_backed_up) of
      (t, g, d, r) \<Rightarrow> g = None \<and> d = Inr [''gen/api''] \<and> r = None)"
  by code_simp

theorem check_restores_witness:
  "\<exists>t3. check_snapshots (\<lambda>_. False) demo_generator False False demo_snapshots (fst demo_backed_up) =
       (t3, None, Inr [''gen/api''], None) \<and>
     map_of t3 [''svc'', ''gen'', ''api'', ''a.go''] = Some (File ''package a'')"
proof -
  obtain t3 where run: "check_snapshots (\<lambda>_. False) demo_generator False False demo_snapshots
      (fst demo_backed_up) = (t3, None, Inr [''gen/api''], None)"
    using demo_check_ok by (cases "check_snapshots (\<lambda>_. False) demo_generator False False demo_snapshots
      (fst demo_backed_up)") auto
  have "same_tree demo_tree [''svc'', ''gen'', ''api''] t3 [''svc'', ''gen'', ''api'']"
    using check_restores [OF demo_snapshot_ok run demo_new_backup demo_apart demo_keeps_backup]
    by (simp add: demo_targets_def demo_paths)
  then have "map_of demo_tree ([''svc'', ''gen'', ''api''] @ [''a.go'']) = map_of t3 ([''svc'', ''gen'', ''api''] @ [''a.go''])"
    unfolding same_tree_def by blast
  then show ?thesis using run by (simp add: demo_tree_def)
qed

definition demo_plan :: generatedPlan where
  "demo_plan = \<lparr>gp_targets = [''cmd/main.go''], gp_forceMain = True, gp_rootDir = [''svc''], gp_manifestPath = []\<rparr>"

lemma demo_check_passes:
  "snd (checkGenFreshIn (\<lambda>_. False) (\<lambda>t. Inr ([''tmp''], t)) demo_generator True (Inr demo_plan) demo_tree) = None"
  by code_simp

end
