(* ===== verification/Pipeline.thy ===== *)
theory Pipeline
  imports FileTree Manifest Versioning
begin

text \<open>
  The generation pipeline of the command line (\<open>cmd/zengo/helpers.go\<close>, \<open>internal/versioning/module.go\<close>):
  which stages \<open>zengo gen\<close> runs, in which order, for which options.

  A stage is an action on the state of the project; running one is the parameter \<open>ce_run\<close>.  Paths are
  Go strings; \<open>filepath.Abs\<close>, the manifest and \<open>os.Stat\<close> are parameters.
\<close>

section \<open>Stages\<close>

datatype stage =
    BufGenerate string | SplitOpenAPI string | VersionGenerate string string string string string
  | PostgresMigration string Manifest | SQLCGenerate string | CQLGenerate string string
  | GenerateMain Manifest string | CursorRules string string | RegistryDoc string string

record genOptions =
  go_skipBuf :: bool
  go_protoOnly :: bool
  go_wireOnly :: bool
  go_skipSQLC :: bool
  go_skipCQL :: bool
  go_skipMain :: bool
  go_forceMain :: bool
  go_quietMain :: bool

record servicePaths =
  sp_rootDir :: string
  sp_manifestPath :: string

record 's cmd_env =
  ce_abs :: "string \<Rightarrow> go_err + string"
  ce_findPath :: "'s \<Rightarrow> string \<Rightarrow> go_err + string"
  ce_load :: "'s \<Rightarrow> string \<Rightarrow> go_err + Manifest"
  ce_readFile :: "'s \<Rightarrow> string \<Rightarrow> string option"
  ce_exists :: "'s \<Rightarrow> string \<Rightarrow> bool"
  ce_trackMain :: "'s \<Rightarrow> string \<Rightarrow> bool"
  ce_fromWorkingDir :: "string \<Rightarrow> string"
  ce_run :: "stage \<Rightarrow> 's action"

text \<open>\<open>filepath.Dir\<close> of a clean absolute path.\<close>

definition path_dir :: "string \<Rightarrow> string" where
  "path_dir p = (let d = rev (drop 1 (dropWhile (\<lambda>c. c \<noteq> CHR ''/'') (rev p)))
                 in if d = [] then ''/'' else d)"

section \<open>Resolving paths\<close>

definition resolveRootDir :: "'s cmd_env \<Rightarrow> string \<Rightarrow> string \<Rightarrow> go_err + string" where
  "resolveRootDir env rootDir manifestPath =
     (if manifestPath \<noteq> []
      then bind_err (ce_abs env manifestPath) (\<lambda>absManifest. Inr (path_dir absManifest))
      else (let rootDir = (if rootDir = [] then ''.'' else rootDir) in ce_abs env rootDir))"

definition resolveServicePaths :: "'s cmd_env \<Rightarrow> 's \<Rightarrow> string \<Rightarrow> string \<Rightarrow> go_err + servicePaths" where
  "resolveServicePaths env s rootDir manifestPath =
     (if manifestPath \<noteq> []
      then bind_err (ce_abs env manifestPath) (\<lambda>absManifest.
             Inr \<lparr>sp_rootDir = path_dir absManifest, sp_manifestPath = absManifest\<rparr>)
      else bind_err (resolveRootDir env rootDir []) (\<lambda>absRoot.
             bind_err (ce_findPath env s absRoot) (\<lambda>resolvedManifest.
               Inr \<lparr>sp_rootDir = absRoot, sp_manifestPath = resolvedManifest\<rparr>)))"

definition isServiceRootAt :: "'s cmd_env \<Rightarrow> 's \<Rightarrow> string \<Rightarrow> bool" where
  "isServiceRootAt env s dir =
     (if list_ex (\<lambda>name. ce_exists env s (path_join dir name))
           [''zengo.yaml'', ''zengo.yml'', ''zengo.textproto'', ''zengo.pbtxt''] then True
      else ce_exists env s (path_join dir ''buf.gen.yaml'') \<and> ce_exists env s (path_join dir ''api''))"

text \<open>\<open>ReadModuleAt\<close>: the first line of \<open>go.mod\<close> that starts with \<open>module\<close>.  A file that cannot be
  opened gives the empty string, and the scanner stops at a line of \<open>64 KB\<close>.\<close>

definition module_line :: "string \<Rightarrow> string option" where
  "module_line text =
     (let line = trim_space text
      in if has_prefix line ''module '' then Some (trim_space (trim_prefix line ''module '')) else None)"

definition ReadModuleAt :: "string option \<Rightarrow> string" where
  "ReadModuleAt content =
     (case content of
        None \<Rightarrow> []
      | Some text \<Rightarrow>
          (case List.map_filter module_line (takeWhile (\<lambda>l. length l < 65536) (split_on (CHR 0x0A) text)) of [] \<Rightarrow> [] | m # _ \<Rightarrow> m))"

definition versioningCompatibilityMode :: "Manifest option \<Rightarrow> string" where
  "versioningCompatibilityMode m =
     (if m = None \<or> \<not> LegacyCompatibilityConfigured m then Versioning.CompatibilityAuto
      else if LegacyCompatibilityEnabled m then Versioning.CompatibilityEnabled
      else Versioning.CompatibilityDisabled)"

section \<open>The pipeline\<close>

definition run_wrapped :: "'s cmd_env \<Rightarrow> string \<Rightarrow> stage \<Rightarrow> 's action" where
  "run_wrapped env what st s =
     (case ce_run env st s of (s', e) \<Rightarrow> (s', map_option (WrapErr what) e))"

definition run_buf :: "'s cmd_env \<Rightarrow> string \<Rightarrow> 's action" where
  "run_buf env root = run_wrapped env ''buf generate'' (BufGenerate root)"

definition run_split :: "'s cmd_env \<Rightarrow> string \<Rightarrow> 's action" where
  "run_split env root = run_wrapped env ''openapi split'' (SplitOpenAPI root)"

text \<open>The wire stage: the legacy adapters and the managed migration.\<close>

definition run_wire :: "'s cmd_env \<Rightarrow> string \<Rightarrow> string \<Rightarrow> string \<Rightarrow> 's action" where
  "run_wire env rootDir manifestPath resolvedRoot s =
     (case resolveServicePaths env s rootDir manifestPath of
        Inl e \<Rightarrow> (s, Some e)
      | Inr paths \<Rightarrow>
          (case ce_load env s (sp_manifestPath paths) of
             Inl e \<Rightarrow> (s, Some (WrapErr ''manifest load'' e))
           | Inr m \<Rightarrow>
               (let module = ReadModuleAt (ce_readFile env s (path_join resolvedRoot ''go.mod''))
                in if module = [] then (s, Some (PlainErr ''could not read module from go.mod''))
                   else seq_run (run_wrapped env ''version generate''
                          (VersionGenerate module
                             (ce_fromWorkingDir env (path_join resolvedRoot ''api''))
                             (ce_fromWorkingDir env (path_join resolvedRoot ''gen''))
                             (ce_fromWorkingDir env (path_join resolvedRoot ''internal''))
                             (versioningCompatibilityMode (Some m))) s)
                        (run_wrapped env ''postgres migration generation'' (PostgresMigration resolvedRoot m)))))"

definition run_sqlc :: "'s cmd_env \<Rightarrow> string \<Rightarrow> 's action" where
  "run_sqlc env root s =
     (if ce_exists env s (path_join root ''sqlc.yaml'')
      then run_wrapped env ''sqlc generate'' (SQLCGenerate root) s else (s, None))"

definition run_cql :: "'s cmd_env \<Rightarrow> string \<Rightarrow> 's action" where
  "run_cql env root s =
     (if ce_exists env s (path_join root ''cql'') \<or> ce_exists env s (path_join root ''cqlc.yaml'')
      then run_wrapped env ''cql generate''
             (CQLGenerate root (path_join (path_join root ''gen'') ''cql'')) s
      else (s, None))"

definition when_run :: "bool \<Rightarrow> 's action \<Rightarrow> 's action" where
  "when_run b f s = (if b then f s else (s, None))"

definition runGenerateOptsIn :: "'s cmd_env \<Rightarrow> string \<Rightarrow> string \<Rightarrow> genOptions \<Rightarrow> 's action" where
  "runGenerateOptsIn env rootDir manifestPath opts s =
     (case resolveRootDir env rootDir manifestPath of
        Inl e \<Rightarrow> (s, Some e)
      | Inr root \<Rightarrow>
          (if go_protoOnly opts then seq_run (run_buf env root s) (run_split env root)
           else
             seq_run
               (if \<not> go_skipBuf opts \<and> \<not> go_wireOnly opts then seq_run (run_buf env root s) (run_split env root)
                else if go_skipBuf opts \<and> \<not> go_wireOnly opts then run_split env root s
                else (s, None)) (\<lambda>s.
             seq_run (when_run (go_wireOnly opts \<or> \<not> go_protoOnly opts)
                        (run_wire env rootDir manifestPath root) s) (\<lambda>s.
             seq_run (when_run (\<not> go_skipSQLC opts \<and> \<not> go_wireOnly opts) (run_sqlc env root) s)
               (when_run (\<not> go_skipCQL opts \<and> \<not> go_wireOnly opts) (run_cql env root))))))"

definition run_main :: "'s cmd_env \<Rightarrow> genOptions \<Rightarrow> string \<Rightarrow> Manifest \<Rightarrow> 's action" where
  "run_main env opts root m s =
     (let mainPath = path_join (path_join root ''cmd'') ''main.go'';
          trackMain = ce_trackMain env s mainPath
      in if ce_exists env s mainPath \<and> \<not> go_forceMain opts \<and> \<not> trackMain then (s, None)
         else run_wrapped env ''main generation'' (GenerateMain m mainPath) s)"

definition runGenerateMainOptsIn :: "'s cmd_env \<Rightarrow> string \<Rightarrow> string \<Rightarrow> genOptions \<Rightarrow> 's action" where
  "runGenerateMainOptsIn env rootDir manifestPath opts s =
     (case resolveServicePaths env s rootDir manifestPath of
        Inl e \<Rightarrow> (s, Some e)
      | Inr paths \<Rightarrow>
          (case ce_load env s (sp_manifestPath paths) of
             Inl e \<Rightarrow> (s, Some (WrapErr ''manifest load'' e))
           | Inr m \<Rightarrow>
               (let root = sp_rootDir paths; name = Manifest.sv_Name (m_Service m)
                in seq_run (when_run (\<not> go_skipMain opts) (run_main env opts root m) s) (\<lambda>s.
                   seq_run (run_wrapped env ''cursor rules generation'' (CursorRules root name) s)
                     (run_wrapped env ''proto registry doc generation'' (RegistryDoc root name))))))"

definition runGenerateAll :: "'s cmd_env \<Rightarrow> string \<Rightarrow> string \<Rightarrow> genOptions \<Rightarrow> 's action" where
  "runGenerateAll env rootDir manifestPath opts s =
     seq_run (runGenerateOptsIn env rootDir manifestPath opts s) (\<lambda>s.
       if go_protoOnly opts \<or> go_wireOnly opts then (s, None)
       else runGenerateMainOptsIn env rootDir manifestPath opts s)"

end
