(* ===== verification/PipelineFacts.thy ===== *)
theory PipelineFacts
  imports Pipeline
begin

text \<open>
  The order of the generation pipeline: the stages run one after another in the documented order, each at
  most once, nothing runs after a failure, and the options leave out what they name.
\<close>

section \<open>A log of the stages\<close>

text \<open>The environment whose state also records the stages that ran, with their failures.\<close>

type_synonym 's logged = "'s \<times> (stage \<times> bool) list"

definition log_run :: "(stage \<Rightarrow> 's action) \<Rightarrow> stage \<Rightarrow> 's logged action" where
  "log_run run st s =
     (case run st (fst s) of (w, e) \<Rightarrow> ((w, snd s @ [(st, e = None)]), e))"

definition with_log :: "'s cmd_env \<Rightarrow> 's logged cmd_env" where
  "with_log env =
     \<lparr>ce_abs = ce_abs env, ce_findPath = ce_findPath env \<circ> fst, ce_load = ce_load env \<circ> fst,
      ce_readFile = ce_readFile env \<circ> fst, ce_exists = ce_exists env \<circ> fst,
      ce_trackMain = ce_trackMain env \<circ> fst, ce_fromWorkingDir = ce_fromWorkingDir env,
      ce_run = log_run (ce_run env)\<rparr>"

fun stage_rank :: "stage \<Rightarrow> nat" where
  "stage_rank (BufGenerate _) = 0"
| "stage_rank (SplitOpenAPI _) = 1"
| "stage_rank (VersionGenerate _ _ _ _ _) = 2"
| "stage_rank (PostgresMigration _ _) = 3"
| "stage_rank (SQLCGenerate _) = 4"
| "stage_rank (CQLGenerate _ _) = 5"
| "stage_rank (GenerateMain _ _) = 6"
| "stage_rank (CursorRules _ _) = 7"
| "stage_rank (RegistryDoc _ _) = 8"

definition rank :: "stage \<times> bool \<Rightarrow> nat" where
  "rank e = stage_rank (fst e)"

text \<open>What a run adds to the log: ascending ranks in \<open>A\<close>; every stage but the last one succeeded, and
  the last one also when the run succeeds; the ranks \<open>R\<close> are there when the run succeeds.\<close>

definition good_log :: "nat set \<Rightarrow> nat set \<Rightarrow> bool \<Rightarrow> (stage \<times> bool) list \<Rightarrow> bool" where
  "good_log A R ok es \<longleftrightarrow>
     sorted_wrt (<) (map rank es) \<and> rank ` set es \<subseteq> A \<and> list_all snd (butlast es) \<and>
     (ok \<longrightarrow> list_all snd es \<and> R \<subseteq> rank ` set es)"

text \<open>The logged action \<open>f\<close> does what \<open>f'\<close> does and adds such a log.\<close>

definition logs :: "nat set \<Rightarrow> nat set \<Rightarrow> 's logged action \<Rightarrow> 's action \<Rightarrow> bool" where
  "logs A R f f' \<longleftrightarrow>
     (\<forall>w l. \<exists>es. f (w, l) = ((fst (f' w), l @ es), snd (f' w)) \<and> good_log A R (snd (f' w) = None) es)"

lemma logsE:
  assumes "logs A R f f'"
  obtains es where "f (w, l) = ((fst (f' w), l @ es), snd (f' w))" "good_log A R (snd (f' w) = None) es"
  using assms unfolding logs_def by blast

lemma good_log_append:
  assumes "good_log A R1 True es1" and "good_log B R2 ok es2" and "\<And>a b. a \<in> A \<Longrightarrow> b \<in> B \<Longrightarrow> a < b"
  shows "good_log (A \<union> B) (R1 \<union> R2) ok (es1 @ es2)"
proof -
  have "\<forall>x \<in> set es1. \<forall>y \<in> set es2. rank x < rank y"
    using assms unfolding good_log_def by blast
  then show ?thesis
    using assms(1,2) unfolding good_log_def
    by (auto simp add: sorted_wrt_append butlast_append list_all_iff dest: in_set_butlastD)
qed

lemma good_log_weaken:
  "good_log A R ok es \<Longrightarrow> A \<subseteq> A' \<Longrightarrow> (ok' \<Longrightarrow> ok \<and> R' \<subseteq> R) \<Longrightarrow> good_log A' R' ok' es"
  unfolding good_log_def by (meson order_trans)

lemma logs_seq:
  assumes f: "logs A R1 f f'" and g: "logs B R2 g g'" and "\<And>a b. a \<in> A \<Longrightarrow> b \<in> B \<Longrightarrow> a < b"
  shows "logs (A \<union> B) (R1 \<union> R2) (\<lambda>s. seq_run (f s) g) (\<lambda>w. seq_run (f' w) g')"
  unfolding logs_def
proof (intro allI)
  fix w l
  obtain es1 where es1: "f (w, l) = ((fst (f' w), l @ es1), snd (f' w))" "good_log A R1 (snd (f' w) = None) es1"
    using logsE [OF f] .
  show "\<exists>es. seq_run (f (w, l)) g = ((fst (seq_run (f' w) g'), l @ es), snd (seq_run (f' w) g')) \<and>
      good_log (A \<union> B) (R1 \<union> R2) (snd (seq_run (f' w) g') = None) es"
  proof (cases "f' w")
    case (Pair w1 e1)
    show ?thesis
    proof (cases e1)
      case None
      obtain es2 where es2: "g (w1, l @ es1) = ((fst (g' w1), (l @ es1) @ es2), snd (g' w1))"
          "good_log B R2 (snd (g' w1) = None) es2"
        using logsE [OF g] .
      have "good_log A R1 True es1" using es1(2) Pair None by simp
      from good_log_append [OF this es2(2) assms(3)] show ?thesis
        using es1(1) es2(1) Pair None by (auto simp add: seq_run_def)
    next
      case (Some e)
      then have "good_log (A \<union> B) (R1 \<union> R2) False es1" using good_log_weaken [OF es1(2)] by simp
      then show ?thesis using es1(1) Some Pair by (auto simp add: seq_run_def)
    qed
  qed
qed

lemma logs_skip: "logs A {} (\<lambda>s. (s, None)) (\<lambda>w. (w, None))"
  by (simp add: logs_def good_log_def)

lemma logs_fail: "logs A R (\<lambda>s. (s, Some e)) (\<lambda>w. (w, Some e))"
  by (simp add: logs_def good_log_def)

lemma logs_weaken: "logs A R f f' \<Longrightarrow> A \<subseteq> A' \<Longrightarrow> R' \<subseteq> R \<Longrightarrow> logs A' R' f f'"
  unfolding logs_def using good_log_weaken by metis

text \<open>A body that depends on the state.\<close>

lemma logs_by_state:
  "(\<And>w. \<exists>g g'. (\<forall>l. f (w, l) = g (w, l)) \<and> f' w = g' w \<and> logs A R g g') \<Longrightarrow> logs A R f f'"
  unfolding logs_def by metis

lemma logs_wrapped:
  "stage_rank st = k \<Longrightarrow> logs {k} {k} (run_wrapped (with_log env) what st) (run_wrapped env what st)"
  by (auto simp add: logs_def good_log_def run_wrapped_def with_log_def log_run_def rank_def split: prod.splits)

lemma with_log_simps [simp]:
  "ce_abs (with_log env) = ce_abs env" "ce_findPath (with_log env) s = ce_findPath env (fst s)"
  "ce_load (with_log env) s = ce_load env (fst s)" "ce_readFile (with_log env) s = ce_readFile env (fst s)"
  "ce_exists (with_log env) s = ce_exists env (fst s)" "ce_trackMain (with_log env) s = ce_trackMain env (fst s)"
  "ce_fromWorkingDir (with_log env) = ce_fromWorkingDir env"
  by (simp_all add: with_log_def)

lemma resolve_with_log [simp]:
  "resolveRootDir (with_log env) = resolveRootDir env"
  "resolveServicePaths (with_log env) s = resolveServicePaths env (fst s)"
  by (simp_all add: resolveRootDir_def resolveServicePaths_def fun_eq_iff)

section \<open>The pipeline\<close>

lemma logs_buf_split:
  "logs {0, 1} {0, 1} (\<lambda>s. seq_run (run_buf (with_log env) root s) (run_split (with_log env) root))
     (\<lambda>w. seq_run (run_buf env root w) (run_split env root))"
  unfolding run_buf_def run_split_def
  by (rule logs_weaken [OF logs_seq [OF logs_wrapped logs_wrapped]]) (auto split: if_splits)

lemma logs_split: "logs {1} {1} (run_split (with_log env) root) (run_split env root)"
  unfolding run_split_def by (rule logs_wrapped) simp

lemma logs_wire:
  "logs {2, 3} {2, 3} (run_wire (with_log env) rd mp root) (run_wire env rd mp root)"
proof (rule logs_by_state)
  fix w
  show "\<exists>g g'. (\<forall>l. run_wire (with_log env) rd mp root (w, l) = g (w, l)) \<and> run_wire env rd mp root w = g' w \<and>
      logs {2, 3} {2, 3} g g'"
  proof (cases "resolveServicePaths env w rd mp")
    case (Inl e)
    then show ?thesis
      by (intro exI [of _ "\<lambda>s. (s, Some e)"] exI [of _ "\<lambda>w. (w, Some e)"]) (simp add: run_wire_def logs_fail)
  next
    case paths: (Inr paths)
    show ?thesis
    proof (cases "ce_load env w (sp_manifestPath paths)")
      case (Inl e)
      let ?e = "WrapErr ''manifest load'' e"
      show ?thesis using paths Inl
        by (intro exI [of _ "\<lambda>s. (s, Some ?e)"] exI [of _ "\<lambda>w. (w, Some ?e)"]) (simp add: run_wire_def logs_fail)
    next
      case (Inr m)
      let ?module = "ReadModuleAt (ce_readFile env w (path_join root ''go.mod''))"
      let ?e = "PlainErr ''could not read module from go.mod''"
      let ?v = "\<lambda>env. run_wrapped env ''version generate'' (VersionGenerate ?module
        (ce_fromWorkingDir env (path_join root ''api'')) (ce_fromWorkingDir env (path_join root ''gen''))
        (ce_fromWorkingDir env (path_join root ''internal'')) (versioningCompatibilityMode (Some m)))"
      let ?p = "\<lambda>env. run_wrapped env ''postgres migration generation'' (PostgresMigration root m)"
      show ?thesis
      proof (cases "?module = []")
        case True
        then show ?thesis using paths Inr
          by (intro exI [of _ "\<lambda>s. (s, Some ?e)"] exI [of _ "\<lambda>w. (w, Some ?e)"]) (simp add: run_wire_def logs_fail)
      next
        case False
        have "logs {2, 3} {2, 3} (\<lambda>s. seq_run (?v (with_log env) s) (?p (with_log env)))
            (\<lambda>w. seq_run (?v env w) (?p env))"
          unfolding with_log_simps by (rule logs_weaken [OF logs_seq [OF logs_wrapped logs_wrapped]]) auto
        then show ?thesis using paths Inr False
          by (intro exI [of _ "\<lambda>s. seq_run (?v (with_log env) s) (?p (with_log env))"]
              exI [of _ "\<lambda>w. seq_run (?v env w) (?p env)"]) (simp add: run_wire_def Let_def)
      qed
    qed
  qed
qed

text \<open>A stage that runs when a condition on the state holds, or when an option is set.\<close>

lemma logs_if:
  assumes "logs A R f f'" and "\<And>w l. b (w, l) = b' w"
  shows "logs A {} (\<lambda>s. if b s then f s else (s, None)) (\<lambda>w. if b' w then f' w else (w, None))"
proof (rule logs_by_state)
  fix w
  have "logs A {} f f'" by (rule logs_weaken [OF assms(1)]) simp_all
  then show "\<exists>g g'. (\<forall>l. (if b (w, l) then f (w, l) else ((w, l), None)) = g (w, l)) \<and>
      (if b' w then f' w else (w, None)) = g' w \<and> logs A {} g g'"
    using logs_skip [of A] assms(2) by (cases "b' w") auto
qed

lemma logs_when:
  "logs A R f f' \<Longrightarrow> logs (if b then A else {}) (if b then R else {}) (when_run b f) (when_run b f')"
  by (simp add: when_run_def [abs_def] logs_skip)

lemma logs_sqlc: "logs {4} {} (run_sqlc (with_log env) root) (run_sqlc env root)"
  unfolding run_sqlc_def [abs_def] by (rule logs_if [OF logs_wrapped]) simp_all

lemma logs_cql: "logs {5} {} (run_cql (with_log env) root) (run_cql env root)"
  unfolding run_cql_def [abs_def] by (rule logs_if [OF logs_wrapped]) simp_all

lemma run_main_if:
  "run_main env opts root m =
     (let mainPath = path_join (path_join root ''cmd'') ''main.go''
      in (\<lambda>s. if ce_exists env s mainPath \<longrightarrow> go_forceMain opts \<or> ce_trackMain env s mainPath
             then run_wrapped env ''main generation'' (GenerateMain m mainPath) s else (s, None)))"
  by (auto simp add: run_main_def Let_def fun_eq_iff)

lemma logs_main: "logs {6} {} (run_main (with_log env) opts root m) (run_main env opts root m)"
  unfolding run_main_if Let_def by (rule logs_if [OF logs_wrapped]) simp_all

text \<open>The ranks that the options allow, and those that a successful run must reach.\<close>

definition opts_allowed :: "genOptions \<Rightarrow> nat set" where
  "opts_allowed opts =
     (if go_protoOnly opts then {0, 1}
      else if go_wireOnly opts then {2, 3}
      else (if go_skipBuf opts then {} else {0}) \<union> {1, 2, 3} \<union> (if go_skipSQLC opts then {} else {4}) \<union>
        (if go_skipCQL opts then {} else {5}) \<union> (if go_skipMain opts then {} else {6}) \<union> {7, 8})"

definition opts_required :: "genOptions \<Rightarrow> nat set" where
  "opts_required opts = opts_allowed opts - {4, 5, 6}"

lemma logs_opts:
  "logs (opts_allowed opts \<inter> {0..5}) (opts_required opts \<inter> {0..5})
     (runGenerateOptsIn (with_log env) rd mp opts) (runGenerateOptsIn env rd mp opts)"
proof (cases "resolveRootDir env rd mp")
  case (Inl e)
  then show ?thesis by (simp add: runGenerateOptsIn_def [abs_def] logs_fail)
next
  case (Inr root)
  let ?first = "\<lambda>env s. if \<not> go_skipBuf opts \<and> \<not> go_wireOnly opts then seq_run (run_buf env root s) (run_split env root)
                else if go_skipBuf opts \<and> \<not> go_wireOnly opts then run_split env root s else (s, None)"
  show ?thesis
  proof (cases "go_protoOnly opts")
    case True
    have "logs (opts_allowed opts \<inter> {0..5}) (opts_required opts \<inter> {0..5})
        (\<lambda>s. seq_run (run_buf (with_log env) root s) (run_split (with_log env) root))
        (\<lambda>w. seq_run (run_buf env root w) (run_split env root))"
      by (rule logs_weaken [OF logs_buf_split]) (auto simp add: opts_allowed_def opts_required_def True)
    then show ?thesis by (simp add: runGenerateOptsIn_def [abs_def] Inr True)
  next
    case False
    have "logs (if go_wireOnly opts then {} else if go_skipBuf opts then {1} else {0, 1})
        (if go_wireOnly opts then {} else if go_skipBuf opts then {1} else {0, 1}) (?first (with_log env)) (?first env)"
      using logs_buf_split [of env root] logs_split [of env root] by (simp add: logs_skip)
    note seq = logs_seq [OF this logs_seq [OF logs_when [OF logs_wire]
          logs_seq [OF logs_when [OF logs_sqlc] logs_when [OF logs_cql]]]]
    have "logs (opts_allowed opts \<inter> {0..5}) (opts_required opts \<inter> {0..5})
        (\<lambda>s. seq_run (?first (with_log env) s) (\<lambda>s.
           seq_run (when_run (go_wireOnly opts \<or> \<not> go_protoOnly opts) (run_wire (with_log env) rd mp root) s) (\<lambda>s.
           seq_run (when_run (\<not> go_skipSQLC opts \<and> \<not> go_wireOnly opts) (run_sqlc (with_log env) root) s)
             (when_run (\<not> go_skipCQL opts \<and> \<not> go_wireOnly opts) (run_cql (with_log env) root)))))
        (\<lambda>s. seq_run (?first env s) (\<lambda>s.
           seq_run (when_run (go_wireOnly opts \<or> \<not> go_protoOnly opts) (run_wire env rd mp root) s) (\<lambda>s.
           seq_run (when_run (\<not> go_skipSQLC opts \<and> \<not> go_wireOnly opts) (run_sqlc env root) s)
             (when_run (\<not> go_skipCQL opts \<and> \<not> go_wireOnly opts) (run_cql env root)))))"
      by (rule logs_weaken [OF seq])
         (auto simp add: opts_allowed_def opts_required_def False split: if_splits)
    then show ?thesis by (simp add: runGenerateOptsIn_def [abs_def] Inr False)
  qed
qed

lemma logs_main_opts:
  "logs ((if go_skipMain opts then {} else {6}) \<union> {7, 8}) {7, 8}
     (runGenerateMainOptsIn (with_log env) rd mp opts) (runGenerateMainOptsIn env rd mp opts)"
proof (rule logs_by_state)
  fix w
  show "\<exists>g g'. (\<forall>l. runGenerateMainOptsIn (with_log env) rd mp opts (w, l) = g (w, l)) \<and>
      runGenerateMainOptsIn env rd mp opts w = g' w \<and> logs ((if go_skipMain opts then {} else {6}) \<union> {7, 8}) {7, 8} g g'"
  proof (cases "resolveServicePaths env w rd mp")
    case (Inl e)
    then show ?thesis
      by (intro exI [of _ "\<lambda>s. (s, Some e)"] exI [of _ "\<lambda>w. (w, Some e)"]) (simp add: runGenerateMainOptsIn_def logs_fail)
  next
    case paths: (Inr paths)
    show ?thesis
    proof (cases "ce_load env w (sp_manifestPath paths)")
      case (Inl e)
      let ?e = "WrapErr ''manifest load'' e"
      show ?thesis using paths Inl
        by (intro exI [of _ "\<lambda>s. (s, Some ?e)"] exI [of _ "\<lambda>w. (w, Some ?e)"]) (simp add: runGenerateMainOptsIn_def logs_fail)
    next
      case (Inr m)
      let ?root = "sp_rootDir paths" and ?name = "Manifest.sv_Name (m_Service m)"
      have "logs ((if go_skipMain opts then {} else {6}) \<union> {7, 8}) {7, 8}
          (\<lambda>s. seq_run (when_run (\<not> go_skipMain opts) (run_main (with_log env) opts ?root m) s) (\<lambda>s.
             seq_run (run_wrapped (with_log env) ''cursor rules generation'' (CursorRules ?root ?name) s)
               (run_wrapped (with_log env) ''proto registry doc generation'' (RegistryDoc ?root ?name))))
          (\<lambda>s. seq_run (when_run (\<not> go_skipMain opts) (run_main env opts ?root m) s) (\<lambda>s.
             seq_run (run_wrapped env ''cursor rules generation'' (CursorRules ?root ?name) s)
               (run_wrapped env ''proto registry doc generation'' (RegistryDoc ?root ?name))))"
        by (rule logs_weaken [OF logs_seq [OF logs_when [OF logs_main] logs_seq [OF logs_wrapped logs_wrapped]]])
           (auto split: if_splits)
      then show ?thesis using paths Inr
        by (intro exI conjI allI) (auto simp add: runGenerateMainOptsIn_def Let_def)
    qed
  qed
qed

lemma runGenerateAll_when:
  "runGenerateAll env rd mp opts = (\<lambda>s. seq_run (runGenerateOptsIn env rd mp opts s)
     (when_run (\<not> (go_protoOnly opts \<or> go_wireOnly opts)) (runGenerateMainOptsIn env rd mp opts)))"
  by (intro ext) (auto simp add: runGenerateAll_def when_run_def seq_run_def split: prod.split option.split)

lemma logs_all:
  "logs (opts_allowed opts) (opts_required opts) (runGenerateAll (with_log env) rd mp opts) (runGenerateAll env rd mp opts)"
  unfolding runGenerateAll_when
  by (rule logs_weaken [OF logs_seq [OF logs_opts logs_when [OF logs_main_opts]]])
     (auto simp add: opts_allowed_def opts_required_def split: if_splits)


end
