(* ===== verification/OpenAPI.thy ===== *)
theory OpenAPI
  imports FileTree Versioning
begin

text \<open>
  The split of the generated OpenAPI document into one document per API version
  (\<open>internal/generator/openapi.go\<close>).

  A JSON value is a \<open>json\<close>, a number in the canonical notation of its \<open>float64\<close>; a Go map is an association list with distinct keys in the order in which
  \<open>range\<close> visits it.  Decoding and encoding JSON are parameters.
\<close>

section \<open>JSON values\<close>

datatype json =
    JNull | JBool bool | JNum string | JStr string | JArr "json list" | JObj "(string \<times> json) list"

text \<open>A document is a \<open>map[string]any\<close>; a missing key reads as \<open>nil\<close>.\<close>

type_synonym doc = "(string \<times> json) list"

definition get_key :: "doc \<Rightarrow> string \<Rightarrow> json" where
  "get_key d k = (case map_of d k of None \<Rightarrow> JNull | Some v \<Rightarrow> v)"

definition readOpenAPIMap :: "json \<Rightarrow> doc" where
  "readOpenAPIMap raw = (case raw of JObj kvs \<Rightarrow> kvs | _ \<Rightarrow> [])"

definition readOpenAPIPaths :: "doc \<Rightarrow> doc" where
  "readOpenAPIPaths d = readOpenAPIMap (get_key d ''paths'')"

definition readOpenAPITags :: "json \<Rightarrow> json list" where
  "readOpenAPITags raw = (case raw of JArr xs \<Rightarrow> xs | _ \<Rightarrow> [])"

text \<open>\<open>deepClone\<close> rebuilds maps and arrays.\<close>

fun deepClone :: "json \<Rightarrow> json" and clone_members :: "doc \<Rightarrow> doc" and clone_items :: "json list \<Rightarrow> json list" where
  "deepClone (JObj kvs) = JObj (clone_members kvs)"
| "deepClone (JArr xs) = JArr (clone_items xs)"
| "deepClone v = v"
| "clone_members [] = []"
| "clone_members ((k, v) # kvs) = (k, deepClone v) # clone_members kvs"
| "clone_items [] = []"
| "clone_items (x # xs) = deepClone x # clone_items xs"

definition cloneDocument :: "doc \<Rightarrow> doc" where
  "cloneDocument src = clone_members (filter (\<lambda>e. fst e \<notin> {''paths'', ''definitions'', ''tags''}) src)"

definition rewriteInfo :: "doc \<Rightarrow> string \<Rightarrow> doc" where
  "rewriteInfo info grp =
     (let out = clone_members info;
          title = (case map_of out ''title'' of Some (JStr t) \<Rightarrow> t | _ \<Rightarrow> []);
          title = (if title = [] then ''openapi'' else title)
      in AList.update ''title'' (JStr (title @ '' ('' @ grp @ '')'')) out)"

section \<open>Groups and paths\<close>

text \<open>The patterns \<open>^/(v[0-9]+)(?:/|$)\<close> and \<open>\.(v[0-9]+)\.\<close>.\<close>

definition version_prefix :: "string \<Rightarrow> string option" where
  "version_prefix p =
     (case p of
        [] \<Rightarrow> None
      | c # cs \<Rightarrow> (let seg = takeWhile (\<lambda>c. c \<noteq> CHR ''/'') cs
                  in if c = CHR ''/'' \<and> legacyDirPattern seg then Some seg else None))"

fun version_rpc :: "string \<Rightarrow> string option" where
  "version_rpc [] = None"
| "version_rpc (c # cs) =
     (let v = takeWhile (\<lambda>c. c \<noteq> CHR ''.'') cs
      in if c = CHR ''.'' \<and> legacyDirPattern v \<and> drop (length v) cs \<noteq> [] then Some v
         else version_rpc cs)"

definition openAPIGroupForPath :: "string \<Rightarrow> string" where
  "openAPIGroupForPath p =
     (case version_prefix p of
        Some v \<Rightarrow> v
      | None \<Rightarrow> (case version_rpc p of Some v \<Rightarrow> v | None \<Rightarrow> ''hub''))"

definition rewriteOpenAPIPath :: "string \<Rightarrow> string \<Rightarrow> string" where
  "rewriteOpenAPIPath grp p =
     (if grp \<noteq> ''hub'' then p
      else if has_prefix p ''/hub/'' \<or> p = ''/hub'' then p else ''/hub'' @ p)"

section \<open>The definitions that paths refer to\<close>

definition ref_prefix :: string where
  "ref_prefix = ''#/definitions/''"

definition object_ref :: "doc \<Rightarrow> string list" where
  "object_ref kvs =
     (case map_of kvs ''$ref'' of
        Some (JStr ref) \<Rightarrow> (if has_prefix ref ref_prefix then [trim_prefix ref ref_prefix] else [])
      | _ \<Rightarrow> [])"

text \<open>The set \<open>refs\<close> is a list without repetitions, in the order of insertion.\<close>

definition add_ref :: "string \<Rightarrow> string list \<Rightarrow> string list" where
  "add_ref r refs = (if r \<in> set refs then refs else refs @ [r])"

fun collectDefinitionRefs :: "json \<Rightarrow> string list \<Rightarrow> string list"
  and collect_members :: "doc \<Rightarrow> string list \<Rightarrow> string list"
  and collect_items :: "json list \<Rightarrow> string list \<Rightarrow> string list" where
  "collectDefinitionRefs (JObj kvs) refs = collect_members kvs (fold add_ref (object_ref kvs) refs)"
| "collectDefinitionRefs (JArr xs) refs = collect_items xs refs"
| "collectDefinitionRefs v refs = refs"
| "collect_members [] refs = refs"
| "collect_members ((k, v) # kvs) refs = collect_members kvs (collectDefinitionRefs v refs)"
| "collect_items [] refs = refs"
| "collect_items (x # xs) refs = collect_items xs (collectDefinitionRefs x refs)"

text \<open>The references in a value, as a list.\<close>

fun refs_of :: "json \<Rightarrow> string list"
  and refs_of_members :: "doc \<Rightarrow> string list"
  and refs_of_items :: "json list \<Rightarrow> string list" where
  "refs_of (JObj kvs) = object_ref kvs @ refs_of_members kvs"
| "refs_of (JArr xs) = refs_of_items xs"
| "refs_of v = []"
| "refs_of_members [] = []"
| "refs_of_members ((k, v) # kvs) = refs_of v @ refs_of_members kvs"
| "refs_of_items [] = []"
| "refs_of_items (x # xs) = refs_of x @ refs_of_items xs"

lemma add_ref_set [simp]: "set (add_ref r refs) = insert r (set refs)"
  by (auto simp add: add_ref_def)

lemma add_ref_distinct: "distinct refs \<Longrightarrow> distinct (add_ref r refs)"
  by (simp add: add_ref_def)

lemma fold_add_ref:
  "set (fold add_ref rs refs) = set refs \<union> set rs"
  "distinct refs \<Longrightarrow> distinct (fold add_ref rs refs)"
  by (induction rs arbitrary: refs) (auto simp add: add_ref_distinct)

lemma collect_set:
  "set (collectDefinitionRefs v refs) = set refs \<union> set (refs_of v)"
  "set (collect_members kvs refs) = set refs \<union> set (refs_of_members kvs)"
  "set (collect_items xs refs) = set refs \<union> set (refs_of_items xs)"
  by (induction v refs and kvs refs and xs refs
      rule: collectDefinitionRefs_collect_members_collect_items.induct) (auto simp add: fold_add_ref)

lemma collect_distinct:
  "distinct refs \<Longrightarrow> distinct (collectDefinitionRefs v refs)"
  "distinct refs \<Longrightarrow> distinct (collect_members kvs refs)"
  "distinct refs \<Longrightarrow> distinct (collect_items xs refs)"
  by (induction v refs and kvs refs and xs refs
      rule: collectDefinitionRefs_collect_members_collect_items.induct) (auto simp add: fold_add_ref)

text \<open>A collection appends the references that are new.\<close>

definition extends_by :: "string list \<Rightarrow> string list \<Rightarrow> string set \<Rightarrow> bool" where
  "extends_by refs out A \<longleftrightarrow> (\<exists>new. out = refs @ new \<and> set new \<inter> set refs = {} \<and> set new \<subseteq> A)"

lemma extends_by_refl: "extends_by refs refs A"
  by (simp add: extends_by_def)

lemma extends_by_trans: "extends_by r1 r2 A \<Longrightarrow> extends_by r2 r3 B \<Longrightarrow> extends_by r1 r3 (A \<union> B)"
  unfolding extends_by_def by fastforce

lemma extends_by_mono: "extends_by r1 r2 A \<Longrightarrow> A \<subseteq> B \<Longrightarrow> extends_by r1 r2 B"
  unfolding extends_by_def by blast

lemma fold_add_ref_extends: "extends_by refs (fold add_ref rs refs) (set rs)"
proof (induction rs arbitrary: refs)
  case (Cons r rs)
  have "extends_by refs (add_ref r refs) {r}" by (simp add: extends_by_def add_ref_def)
  from extends_by_trans [OF this Cons] show ?case by simp
qed (simp add: extends_by_refl)

lemma collect_extends:
  "extends_by refs (collectDefinitionRefs v refs) (set (refs_of v))"
  "extends_by refs (collect_members kvs refs) (set (refs_of_members kvs))"
  "extends_by refs (collect_items xs refs) (set (refs_of_items xs))"
proof (induction v refs and kvs refs and xs refs
    rule: collectDefinitionRefs_collect_members_collect_items.induct)
  case (1 kvs refs)
  show ?case using extends_by_trans [OF fold_add_ref_extends 1] by simp
next
  case (5 k v kvs refs)
  show ?case using extends_by_trans [OF 5] by simp
next
  case (7 x xs refs)
  show ?case using extends_by_trans [OF 7] by simp
qed (simp_all add: extends_by_refl)

lemma refs_of_members_mem: "(k, v) \<in> set kvs \<Longrightarrow> set (refs_of v) \<subseteq> set (refs_of_members kvs)"
  by (induction kvs) auto

text \<open>The worklist of \<open>filterDefinitions\<close>.  \<open>ord\<close> is the order in which \<open>range\<close> visits the set of the
  needed names.\<close>

function closure_loop ::
  "(string list \<Rightarrow> string list) \<Rightarrow> doc \<Rightarrow> string list \<Rightarrow> string list \<Rightarrow> string list" where
  "closure_loop ord definitions needed [] = needed"
| "closure_loop ord definitions needed (name # queue) =
     (case map_of definitions name of
        None \<Rightarrow> closure_loop ord definitions needed queue
      | Some definition \<Rightarrow>
          (let needed' = collectDefinitionRefs definition needed
           in if length needed' = length needed then closure_loop ord definitions needed' queue
              else closure_loop ord definitions needed'
                     (queue @ filter (\<lambda>c. c \<notin> set queue) (ord needed'))))"
  by pat_completeness auto

text \<open>It ends: a round adds a name that the definitions mention and that was not needed before, or it
  shortens the queue.\<close>

termination
proof (relation "measures [\<lambda>(ord, definitions, needed, queue). card (set (refs_of_members definitions) - set needed),
    \<lambda>(ord, definitions, needed, queue). length queue]", goal_cases)
  case (3 ord definitions needed name queue def needed')
  then have "needed' = needed" using collect_extends(1) [of needed def] by (auto simp add: extends_by_def)
  then show ?case by simp
next
  case (4 ord definitions needed name queue def needed')
  obtain new where new: "needed' = needed @ new" "set new \<inter> set needed = {}"
      "set new \<subseteq> set (refs_of_members definitions)"
    using collect_extends(1) [of needed def] 4(2) refs_of_members_mem [OF map_of_SomeD [OF 4(1)]]
    by (auto simp add: extends_by_def)
  then obtain x where "x \<in> set new" using 4(3) by (cases new) auto
  then have "set (refs_of_members definitions) - set needed' \<subset> set (refs_of_members definitions) - set needed"
    using new by auto
  then show ?case by (simp add: psubset_card_mono)
qed simp_all

definition filterDefinitions :: "(string list \<Rightarrow> string list) \<Rightarrow> json \<Rightarrow> doc \<Rightarrow> doc" where
  "filterDefinitions ord raw paths =
     (let definitions = readOpenAPIMap raw
      in if definitions = [] then []
         else (let needed = collectDefinitionRefs (JObj paths) [];
                   needed = closure_loop ord definitions needed (ord needed)
               in List.map_filter (\<lambda>name. map_option (\<lambda>d. (name, deepClone d)) (map_of definitions name))
                    needed))"

section \<open>Tags\<close>

definition operation_tags :: "json \<Rightarrow> string list" where
  "operation_tags raw =
     (case raw of
        JObj operation \<Rightarrow>
          (case map_of operation ''tags'' of
             Some (JArr xs) \<Rightarrow> List.map_filter (\<lambda>t. case t of JStr name \<Rightarrow> Some name | _ \<Rightarrow> None) xs
           | _ \<Rightarrow> [])
      | _ \<Rightarrow> [])"

definition collectUsedTags :: "doc \<Rightarrow> string list" where
  "collectUsedTags paths =
     concat (map (\<lambda>e. case snd e of JObj methods \<Rightarrow> concat (map (\<lambda>m. operation_tags (snd m)) methods)
                                | _ \<Rightarrow> []) paths)"

definition tag_name :: "doc \<Rightarrow> string" where
  "tag_name tag = (case map_of tag ''name'' of Some (JStr n) \<Rightarrow> n | _ \<Rightarrow> [])"

definition filterTags :: "json \<Rightarrow> doc \<Rightarrow> json list" where
  "filterTags raw paths =
     (let tags = readOpenAPITags raw
      in if tags = [] then []
         else (let used = collectUsedTags paths
               in if used = [] then []
                  else List.map_filter (\<lambda>item. case item of
                         JObj tag \<Rightarrow> (if tag_name tag \<in> set used then Some (deepClone item) else None)
                       | _ \<Rightarrow> None) tags))"

section \<open>Merging documents\<close>

text \<open>\<open>reflect.DeepEqual\<close> of two decoded values: maps are equal up to the order of their entries.\<close>

fun deepEqual :: "json \<Rightarrow> json \<Rightarrow> bool"
  and equal_members :: "doc \<Rightarrow> doc \<Rightarrow> bool"
  and equal_items :: "json list \<Rightarrow> json list \<Rightarrow> bool" where
  "deepEqual (JObj a) v = (case v of JObj b \<Rightarrow> length a = length b \<and> equal_members a b | _ \<Rightarrow> False)"
| "deepEqual (JArr a) v = (case v of JArr b \<Rightarrow> equal_items a b | _ \<Rightarrow> False)"
| "deepEqual u v = (u = v)"
| "equal_members [] b = True"
| "equal_members ((k, v) # a) b =
     ((case map_of b k of None \<Rightarrow> False | Some w \<Rightarrow> deepEqual v w) \<and> equal_members a b)"
| "equal_items [] ys = (ys = [])"
| "equal_items (x # xs) ys = (case ys of [] \<Rightarrow> False | y # ys' \<Rightarrow> deepEqual x y \<and> equal_items xs ys')"

definition merge_conflict :: "string \<Rightarrow> go_err" where
  "merge_conflict key = PlainErr (''openapi merge conflict for '' @ go_quote key)"

definition mergeOpenAPIMember :: "doc \<Rightarrow> string \<Rightarrow> json \<Rightarrow> go_err + doc" where
  "mergeOpenAPIMember dst key value =
     (let cloned = deepClone value
      in case map_of dst key of
           Some existing \<Rightarrow> (if \<not> deepEqual existing cloned then Inl (merge_conflict key) else Inr dst)
         | None \<Rightarrow> Inr (AList.update key cloned dst))"

fun merge_all :: "(string \<Rightarrow> string) \<Rightarrow> doc \<Rightarrow> doc \<Rightarrow> go_err + doc" where
  "merge_all rename [] dst = Inr dst"
| "merge_all rename ((key, item) # kvs) dst =
     bind_err (mergeOpenAPIMember dst (rename key) item) (merge_all rename kvs)"

definition merge_tag :: "json list \<times> string list \<Rightarrow> json \<Rightarrow> json list \<times> string list" where
  "merge_tag acc item =
     (case acc of (tags, names) \<Rightarrow>
        (case item of
           JObj tag \<Rightarrow>
             (let name = tag_name tag
              in if name = [] \<or> name \<in> set names then (tags, names)
                 else (tags @ [deepClone item], names @ [name]))
         | _ \<Rightarrow> (tags, names)))"

fun merge_docs :: "string \<Rightarrow> doc list \<Rightarrow> doc \<times> doc \<times> json list \<times> string list
    \<Rightarrow> go_err + doc \<times> doc \<times> json list \<times> string list" where
  "merge_docs grp [] acc = Inr acc"
| "merge_docs grp (d # ds) (paths, definitions, tags, names) =
     bind_err (merge_all (rewriteOpenAPIPath grp) (readOpenAPIPaths d) paths) (\<lambda>paths.
       bind_err (merge_all (\<lambda>k. k) (readOpenAPIMap (get_key d ''definitions'')) definitions) (\<lambda>definitions.
         merge_docs grp ds (case foldl merge_tag (tags, names) (readOpenAPITags (get_key d ''tags'')) of
           (tags, names) \<Rightarrow> (paths, definitions, tags, names))))"

text \<open>Set a key to a value, or delete it when there is nothing to set.\<close>

definition set_or_delete :: "string \<Rightarrow> bool \<Rightarrow> json \<Rightarrow> doc \<Rightarrow> doc" where
  "set_or_delete k keep v d = (if keep then AList.update k v d else AList.delete k d)"

definition finish_doc :: "string \<Rightarrow> doc \<Rightarrow> doc \<Rightarrow> json list \<Rightarrow> doc \<Rightarrow> doc" where
  "finish_doc grp paths definitions tags out =
     (let out = AList.update ''paths'' (JObj paths) out;
          out = set_or_delete ''definitions'' (definitions \<noteq> []) (JObj definitions) out;
          out = set_or_delete ''tags'' (tags \<noteq> []) (JArr tags) out
      in case map_of out ''info'' of
           Some (JObj info) \<Rightarrow> AList.update ''info'' (JObj (rewriteInfo info grp)) out
         | _ \<Rightarrow> out)"

definition mergeOpenAPIDocs :: "(string list \<Rightarrow> string list) \<Rightarrow> string \<Rightarrow> doc list \<Rightarrow> go_err + doc" where
  "mergeOpenAPIDocs ord grp docs =
     (case docs of
        [] \<Rightarrow> Inr []
      | d # _ \<Rightarrow>
          bind_err (merge_docs grp docs ([], [], [], [])) (\<lambda>(paths, definitions, tags, names).
            Inr (finish_doc grp paths (filterDefinitions ord (JObj definitions) paths) tags (cloneDocument d))))"

section \<open>Splitting a combined document\<close>

text \<open>The paths of a group, renamed; a later path overwrites an earlier one of the same new name.\<close>

definition group_paths :: "string \<Rightarrow> doc \<Rightarrow> doc" where
  "group_paths grp paths =
     fold (\<lambda>(p, item). AList.update (rewriteOpenAPIPath grp p) (deepClone item))
       (filter (\<lambda>e. openAPIGroupForPath (fst e) = grp) paths) []"

definition split_group :: "(string list \<Rightarrow> string list) \<Rightarrow> doc \<Rightarrow> string \<Rightarrow> doc" where
  "split_group ord d grp =
     (let gp = group_paths grp (readOpenAPIPaths d)
      in finish_doc grp gp (filterDefinitions ord (get_key d ''definitions'') gp)
           (filterTags (get_key d ''tags'') gp) (cloneDocument d))"

definition split_docs :: "(string list \<Rightarrow> string list) \<Rightarrow> doc \<Rightarrow> (string \<times> doc) list" where
  "split_docs ord d =
     map (\<lambda>grp. (grp, split_group ord d grp))
       (remdups (map (\<lambda>e. openAPIGroupForPath (fst e)) (readOpenAPIPaths d)))"

section \<open>Reading and rewriting the directory\<close>

text \<open>\<open>dec\<close> and \<open>enc\<close> are \<open>json.Unmarshal\<close> into a document and \<open>json.MarshalIndent\<close>.\<close>

record codec_env =
  json_dec :: "string \<Rightarrow> go_err + doc"
  json_enc :: "doc \<Rightarrow> go_err + string"

definition readOpenAPIDoc :: "(io_op \<Rightarrow> bool) \<Rightarrow> codec_env \<Rightarrow> tree \<Rightarrow> path \<Rightarrow> go_err + doc" where
  "readOpenAPIDoc io cod t p = bind_err (os_ReadFile io t p) (json_dec cod)"

text \<open>The JSON files below the root, as paths relative to it; \<open>None\<close> when the root does not exist.\<close>

definition collectSwaggerFiles ::
  "(io_op \<Rightarrow> bool) \<Rightarrow> tree \<Rightarrow> path \<Rightarrow> go_err + path list option" where
  "collectSwaggerFiles io t root =
     (case os_Stat io t root of
        stat_result.NotExist \<Rightarrow> Inr None
      | StatFailed e \<Rightarrow> Inl e
      | Found (File _) \<Rightarrow> Inl (PlainErr (join ''/'' root @ '' is not a directory''))
      | Found Dir \<Rightarrow>
          bind_err (walk io t root) (\<lambda>es.
            Inr (Some (sort_key (join ''/'') (map fst (filter (\<lambda>e. \<not> (snd e = Dir \<or>
              \<not> has_suffix (join ''/'' (root @ fst e)) ''.swagger.json'')) es))))))"

definition swagger_group :: "path \<Rightarrow> string option" where
  "swagger_group rel =
     (if length rel < 2 then None
      else if hd rel \<noteq> ''hub'' \<and> \<not> legacyDirPattern (hd rel) then None else Some (hd rel))"

definition add_group :: "string \<Rightarrow> doc \<Rightarrow> (string \<times> doc list) list \<Rightarrow> (string \<times> doc list) list" where
  "add_group grp d grouped =
     AList.update grp ((case map_of grouped grp of None \<Rightarrow> [] | Some ds \<Rightarrow> ds) @ [d]) grouped"

fun collect_groups ::
  "(io_op \<Rightarrow> bool) \<Rightarrow> codec_env \<Rightarrow> tree \<Rightarrow> path \<Rightarrow> path list \<Rightarrow> (string \<times> doc list) list
     \<Rightarrow> go_err + (string \<times> doc list) list" where
  "collect_groups io cod t root [] grouped = Inr grouped"
| "collect_groups io cod t root (rel # rels) grouped =
     (case swagger_group rel of
        None \<Rightarrow> collect_groups io cod t root rels grouped
      | Some grp \<Rightarrow>
          bind_err (readOpenAPIDoc io cod t (root @ rel)) (\<lambda>d.
            collect_groups io cod t root rels
              (if readOpenAPIPaths d = [] then grouped else add_group grp d grouped)))"

definition collectGeneratedOpenAPIGroups ::
  "(io_op \<Rightarrow> bool) \<Rightarrow> codec_env \<Rightarrow> tree \<Rightarrow> path \<Rightarrow> go_err + (string \<times> doc list) list" where
  "collectGeneratedOpenAPIGroups io cod t dir =
     (let apiRoot = dir @ [''api'']
      in bind_err (collectSwaggerFiles io t apiRoot) (\<lambda>files.
           case files of
             None \<Rightarrow> Inr []
           | Some rels \<Rightarrow> collect_groups io cod t apiRoot rels []))"

fun remove_entries :: "(io_op \<Rightarrow> bool) \<Rightarrow> path \<Rightarrow> string list \<Rightarrow> tree action" where
  "remove_entries io dir [] t = (t, None)"
| "remove_entries io dir (n # ns) t =
     seq_run (os_RemoveAll io (dir @ [n]) t) (remove_entries io dir ns)"

definition clearDirectory :: "(io_op \<Rightarrow> bool) \<Rightarrow> path \<Rightarrow> tree action" where
  "clearDirectory io dir t =
     seq_run (os_MkdirAll io dir t) (\<lambda>t.
       if io (OpWalk dir) then (t, Some (io_error ''open'' dir))
       else remove_entries io dir (dir_names t dir) t)"

fun write_docs :: "(io_op \<Rightarrow> bool) \<Rightarrow> codec_env \<Rightarrow> path \<Rightarrow> (string \<times> doc) list \<Rightarrow> tree action" where
  "write_docs io cod dir [] t = (t, None)"
| "write_docs io cod dir ((grp, d) # ds) t =
     (case json_enc cod d of
        Inl e \<Rightarrow> (t, Some e)
      | Inr body \<Rightarrow>
          seq_run (os_WriteFile io (dir @ [grp @ ''.swagger.json'']) (body @ [CHR 0x0A]) t)
            (write_docs io cod dir ds))"

fun merge_groups ::
  "(string list \<Rightarrow> string list) \<Rightarrow> (string \<times> doc list) list \<Rightarrow> go_err + (string \<times> doc) list" where
  "merge_groups ord [] = Inr []"
| "merge_groups ord ((grp, items) # gs) =
     bind_err (mergeOpenAPIDocs ord grp items) (\<lambda>d.
       bind_err (merge_groups ord gs) (\<lambda>ds. Inr ((grp, d) # ds)))"

text \<open>The two dynamic types that \<open>rewriteOpenAPIDir\<close> accepts for its argument.\<close>

datatype grouped = GroupDocs "(string \<times> doc) list" | GroupItems "(string \<times> doc list) list"

definition rewriteOpenAPIDir ::
  "(io_op \<Rightarrow> bool) \<Rightarrow> codec_env \<Rightarrow> (string list \<Rightarrow> string list) \<Rightarrow> path \<Rightarrow> grouped \<Rightarrow> tree action" where
  "rewriteOpenAPIDir io cod ord dir grouped t =
     (case (case grouped of GroupDocs ds \<Rightarrow> Inr ds | GroupItems gs \<Rightarrow> merge_groups ord gs) of
        Inl e \<Rightarrow> (t, Some e)
      | Inr docs \<Rightarrow>
          seq_run (clearDirectory io dir t) (write_docs io cod dir (sort_key fst docs)))"

definition splitCombinedOpenAPI ::
  "(io_op \<Rightarrow> bool) \<Rightarrow> codec_env \<Rightarrow> (string list \<Rightarrow> string list) \<Rightarrow> path \<Rightarrow> tree action" where
  "splitCombinedOpenAPI io cod ord dir t =
     (let combinedPath = dir @ [''openapi.swagger.json'']
      in if file_missing io t combinedPath then (t, None)
         else (case readOpenAPIDoc io cod t combinedPath of
            Inl e \<Rightarrow> (t, Some e)
          | Inr d \<Rightarrow>
              (if readOpenAPIPaths d = [] then (t, None)
               else rewriteOpenAPIDir io cod ord dir (GroupDocs (split_docs ord d)) t)))"

definition SplitOpenAPIAt ::
  "(io_op \<Rightarrow> bool) \<Rightarrow> codec_env \<Rightarrow> (string list \<Rightarrow> string list) \<Rightarrow> path \<Rightarrow> tree action" where
  "SplitOpenAPIAt io cod ord root t =
     (let dir = root @ [''gen'', ''openapi'']
      in case collectGeneratedOpenAPIGroups io cod t dir of
           Inl e \<Rightarrow> (t, Some e)
         | Inr grouped \<Rightarrow>
             (if grouped \<noteq> [] then rewriteOpenAPIDir io cod ord dir (GroupItems grouped) t
              else splitCombinedOpenAPI io cod ord dir t))"

end
