(* ===== verification/OpenAPIFacts.thy ===== *)
theory OpenAPIFacts
  imports OpenAPI FileTreeFacts
begin

text \<open>
  The properties of the OpenAPI split: the kept definitions are the reachable ones, the merge loses and
  overwrites nothing, and a failed merge leaves the directory alone.
\<close>

section \<open>Cloning\<close>

lemma deepClone_id [simp]: "deepClone v = v" and clone_members_id [simp]: "clone_members kvs = kvs"
  and clone_items_id [simp]: "clone_items xs = xs"
  by (induction v and kvs and xs rule: deepClone_clone_members_clone_items.induct) simp_all

section \<open>Reachable definitions\<close>

text \<open>The names that a document reaches: those its paths refer to, and those that a reached definition
  refers to.\<close>

inductive reached :: "doc \<Rightarrow> doc \<Rightarrow> string \<Rightarrow> bool" for definitions paths where
  path_ref: "n \<in> set (refs_of (JObj paths)) \<Longrightarrow> reached definitions paths n"
| def_ref: "reached definitions paths m \<Longrightarrow> map_of definitions m = Some d \<Longrightarrow> n \<in> set (refs_of d) \<Longrightarrow>
    reached definitions paths n"

inductive_cases reachedE: "reached definitions paths n"

text \<open>A set of names is closed up to a queue when the definitions of its other names refer into it.\<close>

definition closed_upto :: "doc \<Rightarrow> string set \<Rightarrow> string set \<Rightarrow> bool" where
  "closed_upto definitions Q N \<longleftrightarrow>
     (\<forall>m \<in> N - Q. \<forall>d. map_of definitions m = Some d \<longrightarrow> set (refs_of d) \<subseteq> N)"

lemma closed_upto_next:
  assumes "closed_upto definitions (insert name Q) N"
    and "\<And>d. map_of definitions name = Some d \<Longrightarrow> set (refs_of d) \<subseteq> N"
  shows "closed_upto definitions Q N"
  unfolding closed_upto_def
proof (intro ballI allI impI)
  fix m d assume "m \<in> N - Q" "map_of definitions m = Some d"
  then show "set (refs_of d) \<subseteq> N"
    using assms unfolding closed_upto_def by (cases "m = name") blast+
qed

lemma closure_loop_closed:
  assumes "\<And>xs. set (ord xs) = set xs"
  shows "closed_upto definitions (set queue) (set needed) \<Longrightarrow>
    set needed \<subseteq> set (closure_loop ord definitions needed queue) \<and>
    closed_upto definitions {} (set (closure_loop ord definitions needed queue))"
  using assms
proof (induction ord definitions needed queue rule: closure_loop.induct)
  case (2 ord definitions needed name queue)
  show ?case
  proof (cases "map_of definitions name")
    case None
    then have "closed_upto definitions (set queue) (set needed)"
      using closed_upto_next 2(4) by (metis list.simps(15) option.distinct(1))
    then show ?thesis using 2(1) [OF None _ 2(5)] None by simp
  next
    case (Some d)
    let ?n = "collectDefinitionRefs d needed"
    have sub: "set needed \<subseteq> set ?n" by (simp add: collect_set)
    show ?thesis
    proof (cases "length ?n = length needed")
      case True
      then have eq: "?n = needed" using collect_extends(1) [of needed d] by (auto simp add: extends_by_def)
      then have "set (refs_of d) \<subseteq> set needed" using collect_set(1) [of d needed] by auto
      then have "closed_upto definitions (set queue) (set ?n)"
        using closed_upto_next 2(4) Some eq by (metis list.simps(15) option.inject)
      then show ?thesis using 2(2) [OF Some refl True _ 2(5)] sub Some True by auto
    next
      case False
      have "closed_upto definitions (set (queue @ filter (\<lambda>c. c \<notin> set queue) (ord ?n))) (set ?n)"
        using 2(5) by (auto simp add: closed_upto_def)
      from 2(3) [OF Some refl False this 2(5)] show ?thesis using sub Some False by (auto simp add: Let_def)
    qed
  qed
qed simp

text \<open>It collects only reached names.\<close>

lemma closure_loop_reached:
  "\<forall>n \<in> set needed. reached definitions paths n \<Longrightarrow> set queue \<subseteq> set needed \<Longrightarrow>
    (\<And>xs. set (ord xs) = set xs) \<Longrightarrow>
    \<forall>n \<in> set (closure_loop ord definitions needed queue). reached definitions paths n"
proof (induction ord definitions needed queue rule: closure_loop.induct)
  case (2 ord definitions needed name queue)
  show ?case
  proof (cases "map_of definitions name")
    case None
    then show ?thesis using 2(1) [OF None 2(4) _ 2(6)] 2(5) by simp
  next
    case (Some d)
    let ?n = "collectDefinitionRefs d needed"
    have "reached definitions paths name" using 2(4,5) by simp
    then have r: "\<forall>n \<in> set ?n. reached definitions paths n"
      using 2(4) def_ref [OF _ Some] by (auto simp add: collect_set)
    have sub: "set queue \<subseteq> set ?n" using 2(5) by (auto simp add: collect_set)
    show ?thesis
    proof (cases "length ?n = length needed")
      case True
      then show ?thesis using 2(2) [OF Some refl True r sub 2(6)] Some by simp
    next
      case False
      have "set (queue @ filter (\<lambda>c. c \<notin> set queue) (ord ?n)) \<subseteq> set ?n" using sub 2(6) by auto
      from 2(3) [OF Some refl False r this 2(6)] show ?thesis using Some False by (simp add: Let_def)
    qed
  qed
qed simp

lemma map_of_kept:
  "map_of (List.map_filter (\<lambda>name. map_option (\<lambda>d. (name, d)) (f name)) names) n =
     (if n \<in> set names then f n else None)"
  by (induction names) (auto simp add: List.map_filter_simps split: option.splits)

text \<open>Of the definitions exactly those are kept, unchanged, that the paths of the
  group reach by references, directly or through the definitions they reach; the loop that collects them
  ends whatever the references are, cyclic ones included.\<close>

lemma filterDefinitions_exact:
  assumes "\<And>xs. set (ord xs) = set xs"
  shows "map_of (filterDefinitions ord (JObj definitions) paths) n =
    (if reached definitions paths n then map_of definitions n else None)"
proof -
  let ?s = "collectDefinitionRefs (JObj paths) []"
  let ?c = "closure_loop ord definitions ?s (ord ?s)"
  have s: "set ?s = set (refs_of (JObj paths))" by (simp only: collect_set) simp
  have "closed_upto definitions (set (ord ?s)) (set ?s)" using assms by (simp add: closed_upto_def)
  from closure_loop_closed [OF assms this]
  have c: "set ?s \<subseteq> set ?c" "closed_upto definitions {} (set ?c)" by simp_all
  have "\<forall>n \<in> set ?c. reached definitions paths n"
    by (rule closure_loop_reached) (use s assms path_ref in auto)
  moreover have "reached definitions paths n \<Longrightarrow> n \<in> set ?c" for n
  proof (induction rule: reached.induct)
    case (path_ref n)
    then show ?case using s c(1) by blast
  next
    case (def_ref m d n)
    then show ?case using c(2) by (auto simp add: closed_upto_def)
  qed
  ultimately have "n \<in> set ?c \<longleftrightarrow> reached definitions paths n" by blast
  then show ?thesis
    by (auto simp add: filterDefinitions_def readOpenAPIMap_def Let_def map_of_kept)
qed

section \<open>Equality of decoded values\<close>

text \<open>Values as a decoder builds them: the keys of a map are distinct.\<close>

fun wf_json :: "json \<Rightarrow> bool" and wf_members :: "doc \<Rightarrow> bool" and wf_items :: "json list \<Rightarrow> bool" where
  "wf_json (JObj kvs) \<longleftrightarrow> distinct (map fst kvs) \<and> wf_members kvs"
| "wf_json (JArr xs) \<longleftrightarrow> wf_items xs"
| "wf_json v \<longleftrightarrow> True"
| "wf_members [] \<longleftrightarrow> True"
| "wf_members ((k, v) # kvs) \<longleftrightarrow> wf_json v \<and> wf_members kvs"
| "wf_items [] \<longleftrightarrow> True"
| "wf_items (x # xs) \<longleftrightarrow> wf_json x \<and> wf_items xs"

lemma wf_members_mem: "wf_members kvs \<Longrightarrow> (k, v) \<in> set kvs \<Longrightarrow> wf_json v"
  by (induction kvs) auto

lemma deepEqual_refl:
  "wf_json v \<Longrightarrow> deepEqual v v"
  "wf_members kvs \<Longrightarrow> distinct (map fst b) \<Longrightarrow> set kvs \<subseteq> set b \<Longrightarrow> equal_members kvs b"
  "wf_items xs \<Longrightarrow> equal_items xs xs"
  by (induction v and kvs and xs arbitrary: and b and rule: wf_json_wf_members_wf_items.induct) auto

section \<open>Merging\<close>

text \<open>The members of all documents in the order of the merge, and the keys whose members differ.\<close>

definition all_paths :: "string \<Rightarrow> doc list \<Rightarrow> doc" where
  "all_paths grp docs =
     concat (map (\<lambda>d. map (\<lambda>(p, i). (rewriteOpenAPIPath grp p, i)) (readOpenAPIPaths d)) docs)"

definition all_definitions :: "doc list \<Rightarrow> doc" where
  "all_definitions docs = concat (map (\<lambda>d. readOpenAPIMap (get_key d ''definitions'')) docs)"

definition conflict :: "doc \<Rightarrow> string \<Rightarrow> bool" where
  "conflict kvs k \<longleftrightarrow> (\<exists>v w. (k, v) \<in> set kvs \<and> map_of kvs k = Some w \<and> \<not> deepEqual w v)"

lemma conflict_append: "conflict pre k \<Longrightarrow> conflict (pre @ ms) k"
  by (auto simp add: conflict_def)

lemma conflict_snoc:
  "wf_json v \<Longrightarrow> conflict (pre @ [(k, v)]) k' \<longleftrightarrow>
     conflict pre k' \<or> (k' = k \<and> (\<exists>w. map_of pre k = Some w \<and> \<not> deepEqual w v))"
  by (cases "map_of pre k") (auto simp add: conflict_def deepEqual_refl(1) dest: weak_map_of_SomeI)

lemma merge_all_spec:
  assumes "map_of dst = map_of pre" "\<forall>k. \<not> conflict pre k" "\<forall>e \<in> set kvs. wf_json (snd e)"
  shows "case merge_all rename kvs dst of
      Inl e \<Rightarrow> \<exists>k. e = merge_conflict k \<and> conflict (pre @ map (\<lambda>(k, v). (rename k, v)) kvs) k
    | Inr dst' \<Rightarrow> map_of dst' = map_of (pre @ map (\<lambda>(k, v). (rename k, v)) kvs) \<and>
        (\<forall>k. \<not> conflict (pre @ map (\<lambda>(k, v). (rename k, v)) kvs) k)"
  using assms
proof (induction kvs arbitrary: dst pre)
  case (Cons e kvs)
  obtain k v where e: "e = (k, v)" by (cases e)
  have wf: "wf_json v" using Cons.prems(3) e by simp
  let ?pre = "pre @ [(rename k, v)]"
  show ?case
  proof (cases "conflict ?pre (rename k)")
    case True
    then obtain w where "map_of pre (rename k) = Some w" "\<not> deepEqual w v"
      using Cons.prems(2) wf conflict_snoc by blast
    then have m: "merge_all rename (e # kvs) dst = Inl (merge_conflict (rename k))"
      by (simp add: e mergeOpenAPIMember_def Let_def Cons.prems(1))
    from conflict_append [OF True] show ?thesis unfolding m by (auto simp add: e)
  next
    case False
    have "\<not> conflict ?pre k'" for k'
      using False Cons.prems(2) by (cases "k' = rename k") (simp_all add: conflict_snoc [OF wf])
    then have ok: "\<forall>k. \<not> conflict ?pre k" by simp
    obtain dst' where d: "mergeOpenAPIMember dst (rename k) v = Inr dst'" "map_of dst' = map_of ?pre"
    proof (cases "map_of pre (rename k)")
      case None
      then have "map_of (AList.update (rename k) v dst) = map_of ?pre"
        by (intro ext) (simp add: update_conv' Cons.prems(1) map_add_def split: option.splits)
      moreover have "mergeOpenAPIMember dst (rename k) v = Inr (AList.update (rename k) v dst)"
        using None by (simp add: mergeOpenAPIMember_def Let_def Cons.prems(1))
      ultimately show ?thesis using that by blast
    next
      case (Some w)
      have "map_of dst = map_of ?pre"
        using Some by (intro ext) (simp add: Cons.prems(1) map_add_def split: option.splits)
      moreover have "deepEqual w v" using False Some by (auto simp add: conflict_def)
      then have "mergeOpenAPIMember dst (rename k) v = Inr dst"
        using Some by (simp add: mergeOpenAPIMember_def Let_def Cons.prems(1))
      ultimately show ?thesis using that by blast
    qed
    have m: "merge_all rename (e # kvs) dst = merge_all rename kvs dst'" by (simp add: e d(1))
    have eq: "pre @ map (\<lambda>(k, v). (rename k, v)) (e # kvs) = ?pre @ map (\<lambda>(k, v). (rename k, v)) kvs"
      by (simp add: e)
    have "\<forall>e \<in> set kvs. wf_json (snd e)" using Cons.prems(3) by simp
    from Cons.IH [OF d(2) ok this] show ?thesis unfolding m eq .
  qed
qed simp

lemma wf_doc_members:
  assumes "wf_json (JObj d)" "e \<in> set (readOpenAPIMap (get_key d k))"
  shows "wf_json (snd e)"
proof -
  obtain kvs where kvs: "map_of d k = Some (JObj kvs)" "readOpenAPIMap (get_key d k) = kvs"
    using assms(2) by (auto simp add: readOpenAPIMap_def get_key_def split: option.splits json.splits)
  have "wf_json (JObj kvs)"
    using wf_members_mem [OF _ map_of_SomeD [OF kvs(1)]] assms(1) by simp
  then show ?thesis using assms(2) kvs(2) wf_members_mem by (cases e) auto
qed

lemma all_paths_Cons:
  "all_paths grp (d # ds) = map (\<lambda>(k, v). (rewriteOpenAPIPath grp k, v)) (readOpenAPIPaths d) @ all_paths grp ds"
  by (simp add: all_paths_def)

lemma all_definitions_Cons:
  "all_definitions (d # ds) = map (\<lambda>(k, v). (k, v)) (readOpenAPIMap (get_key d ''definitions'')) @ all_definitions ds"
  by (simp add: all_definitions_def)

lemma merge_docs_spec:
  assumes "map_of ps = map_of pp" "\<forall>k. \<not> conflict pp k" "map_of defs = map_of dp" "\<forall>k. \<not> conflict dp k"
    and "\<forall>d \<in> set docs. wf_json (JObj d)"
  shows "case merge_docs grp docs (ps, defs, tags, names) of
      Inl e \<Rightarrow> \<exists>k. e = merge_conflict k \<and> (conflict (pp @ all_paths grp docs) k \<or> conflict (dp @ all_definitions docs) k)
    | Inr (ps', defs', tags', names') \<Rightarrow>
        map_of ps' = map_of (pp @ all_paths grp docs) \<and> map_of defs' = map_of (dp @ all_definitions docs) \<and>
        (\<forall>k. \<not> conflict (pp @ all_paths grp docs) k \<and> \<not> conflict (dp @ all_definitions docs) k)"
  using assms
proof (induction docs arbitrary: ps pp defs dp tags names)
  case Nil
  then show ?case by (simp add: all_paths_def all_definitions_def)
next
  case (Cons d docs)
  let ?p = "map (\<lambda>(k, v). (rewriteOpenAPIPath grp k, v)) (readOpenAPIPaths d)"
  let ?d = "map (\<lambda>(k, v). (k, v)) (readOpenAPIMap (get_key d ''definitions''))"
  have wf: "\<forall>e \<in> set (readOpenAPIMap (get_key d k)). wf_json (snd e)" for k
    using Cons.prems(5) wf_doc_members [of d] by (metis list.set_intros(1))
  note p = merge_all_spec [OF Cons.prems(1,2) wf [of "''paths''"], of "rewriteOpenAPIPath grp",
    folded readOpenAPIPaths_def]
  note q = merge_all_spec [OF Cons.prems(3,4) wf [of "''definitions''"], of "\<lambda>k. k"]
  show ?case
  proof (cases "merge_all (rewriteOpenAPIPath grp) (readOpenAPIPaths d) ps")
    case (Inl e)
    then obtain k where "e = merge_conflict k" "conflict (pp @ ?p) k" using p by auto
    then show ?thesis using Inl conflict_append [of "pp @ ?p" k "all_paths grp docs"]
      by (auto simp add: all_paths_Cons)
  next
    case (Inr ps1)
    then have p1: "map_of ps1 = map_of (pp @ ?p)" "\<forall>k. \<not> conflict (pp @ ?p) k" using p by simp_all
    show ?thesis
    proof (cases "merge_all (\<lambda>k. k) (readOpenAPIMap (get_key d ''definitions'')) defs")
      case (Inl e)
      then obtain k where "e = merge_conflict k" "conflict (dp @ ?d) k" using q by auto
      then show ?thesis using Inl Inr conflict_append [of "dp @ ?d" k "all_definitions docs"]
        by (auto simp add: all_definitions_Cons)
    next
      case (Inr defs1)
      then have d1: "map_of defs1 = map_of (dp @ ?d)" "\<forall>k. \<not> conflict (dp @ ?d) k" using q by simp_all
      obtain tags1 names1 where
        tn: "foldl merge_tag (tags, names) (readOpenAPITags (get_key d ''tags'')) = (tags1, names1)"
        by fastforce
      have m: "merge_docs grp (d # docs) (ps, defs, tags, names) = merge_docs grp docs (ps1, defs1, tags1, names1)"
        using \<open>merge_all (rewriteOpenAPIPath grp) (readOpenAPIPaths d) ps = Inr ps1\<close> Inr tn by simp
      have "\<forall>d \<in> set docs. wf_json (JObj d)" using Cons.prems(5) by simp
      from Cons.IH [OF p1 d1 this] show ?thesis unfolding m all_paths_Cons all_definitions_Cons append_assoc .
    qed
  qed
qed

lemma reached_mono: "reached d1 paths n \<Longrightarrow> map_of d1 = map_of d2 \<Longrightarrow> reached d2 paths n"
proof (induction rule: reached.induct)
  case (def_ref m d n)
  then show ?case by (intro reached.def_ref [of d2 paths m d n]) simp_all
qed (simp add: path_ref)

lemma reached_cong: "map_of d1 = map_of d2 \<Longrightarrow> reached d1 paths n \<longleftrightarrow> reached d2 paths n"
  using reached_mono [of d1 paths n d2] reached_mono [of d2 paths n d1] by auto

lemma get_key_simps:
  "get_key (AList.update k v d) k' = (if k' = k then v else get_key d k')"
  "get_key (set_or_delete k keep v d) k' = (if k' = k then if keep then v else JNull else get_key d k')"
  by (simp_all add: get_key_def set_or_delete_def update_conv' delete_conv')

lemma finish_doc_lookup:
  "get_key (finish_doc grp paths definitions tags out) ''paths'' = JObj paths"
  "get_key (finish_doc grp paths definitions tags out) ''definitions'' =
     (if definitions = [] then JNull else JObj definitions)"
proof -
  let ?o = "set_or_delete ''tags'' (tags \<noteq> []) (JArr tags)
    (set_or_delete ''definitions'' (definitions \<noteq> []) (JObj definitions) (AList.update ''paths'' (JObj paths) out))"
  have "(case m of Some (JObj info) \<Rightarrow> AList.update ''info'' (f info) d | _ \<Rightarrow> d) = d \<or>
      (\<exists>v. (case m of Some (JObj info) \<Rightarrow> AList.update ''info'' (f info) d | _ \<Rightarrow> d) = AList.update ''info'' v d)"
    for m f and d :: doc by (auto split: option.split json.split)
  then have "finish_doc grp paths definitions tags out = ?o \<or>
      (\<exists>v. finish_doc grp paths definitions tags out = AList.update ''info'' v ?o)"
    unfolding finish_doc_def Let_def .
  then show "get_key (finish_doc grp paths definitions tags out) ''paths'' = JObj paths"
    "get_key (finish_doc grp paths definitions tags out) ''definitions'' =
       (if definitions = [] then JNull else JObj definitions)"
    by (auto simp add: get_key_simps)
qed

lemma finish_doc_definitions:
  "readOpenAPIMap (get_key (finish_doc grp paths definitions tags out) ''definitions'') = definitions"
  by (simp add: finish_doc_lookup readOpenAPIMap_def)

text \<open>C24: merging the documents of a group keeps every path and every definition of every
  document, the first one of each name, or it fails; it fails exactly when two documents give one path (after
  the hub prefix) or one definition with different contents, so that nothing is silently overwritten; and of
  the merged definitions it keeps those that the merged paths reach.\<close>

theorem mergeOpenAPIDocs_exact:
  assumes "\<And>xs. set (ord xs) = set xs" and "docs \<noteq> []" and "\<forall>d \<in> set docs. wf_json (JObj d)"
  shows "case mergeOpenAPIDocs ord grp docs of
      Inl e \<Rightarrow> \<exists>k. e = merge_conflict k \<and> (conflict (all_paths grp docs) k \<or> conflict (all_definitions docs) k)
    | Inr out \<Rightarrow> \<exists>ps. get_key out ''paths'' = JObj ps \<and> map_of ps = map_of (all_paths grp docs) \<and>
        (\<forall>n. map_of (readOpenAPIMap (get_key out ''definitions'')) n =
          (if reached (all_definitions docs) ps n then map_of (all_definitions docs) n else None)) \<and>
        (\<forall>k. \<not> conflict (all_paths grp docs) k \<and> \<not> conflict (all_definitions docs) k)"
proof -
  obtain d ds where docs: "docs = d # ds" using assms(2) by (cases docs) auto
  have nil: "\<forall>k. \<not> conflict [] k" by (simp add: conflict_def)
  note m = merge_docs_spec [OF refl nil refl nil assms(3), of grp "[]" "[]", simplified append_Nil]
  show ?thesis
  proof (cases "merge_docs grp docs ([], [], [], [])")
    case (Inl e)
    then show ?thesis using m by (auto simp add: mergeOpenAPIDocs_def docs simp del: merge_docs.simps)
  next
    case (Inr r)
    obtain ps defs tags names where r: "r = (ps, defs, tags, names)" by (cases r)
    let ?f = "filterDefinitions ord (JObj defs) ps"
    let ?out = "finish_doc grp ps ?f tags (cloneDocument d)"
    have out: "mergeOpenAPIDocs ord grp docs = Inr ?out" using Inr r by (simp add: mergeOpenAPIDocs_def docs del: merge_docs.simps)
    have eqs: "map_of ps = map_of (all_paths grp docs)" "map_of defs = map_of (all_definitions docs)"
        "\<forall>k. \<not> conflict (all_paths grp docs) k \<and> \<not> conflict (all_definitions docs) k"
      using m Inr r by simp_all
    have "readOpenAPIMap (get_key ?out ''definitions'') = ?f"
      by (rule finish_doc_definitions)
    moreover have "map_of ?f n = (if reached (all_definitions docs) ps n then map_of (all_definitions docs) n else None)"
        for n
      using filterDefinitions_exact [OF assms(1), where definitions = defs] reached_cong [OF eqs(2)] eqs(2) by simp
    ultimately show ?thesis
      unfolding out sum.case by (intro exI [of _ ps]) (simp add: finish_doc_lookup(1) eqs)
  qed
qed

section \<open>The directory\<close>

lemma seq_run_None: "seq_run r f = (t', None) \<longleftrightarrow> (\<exists>t1. r = (t1, None) \<and> f t1 = (t', None))"
  by (auto simp add: seq_run_def split: prod.splits option.splits)

lemma remove_entries_lookup:
  "remove_entries io dir ns t = (t', None) \<Longrightarrow>
     map_of t' q = (if list_ex (\<lambda>n. prefix (dir @ [n]) q) ns then None else map_of t q)"
proof (induction ns arbitrary: t)
  case (Cons n ns)
  then obtain t1 where "os_RemoveAll io (dir @ [n]) t = (t1, None)" "remove_entries io dir ns t1 = (t', None)"
    by (auto simp add: seq_run_None)
  then show ?case using Cons.IH [of t1] RemoveAll_lookup [of io "dir @ [n]" t t1 q] by simp
qed simp

lemma clearDirectory_ok:
  assumes "clearDirectory io dir t = (t', None)" and wf: "wf_tree t"
  shows "map_of t' (dir @ r) = (if r = [] then Some Dir else None)" and "changed_at dir t t'"
proof -
  obtain t1 where mk: "os_MkdirAll io dir t = (t1, None)"
    and rm: "remove_entries io dir (dir_names t1 dir) t1 = (t', None)"
    using assms(1) by (auto simp add: clearDirectory_def seq_run_None split: if_splits)
  note l = remove_entries_lookup [OF rm]
  have wf1: "wf_tree t1" by (rule MkdirAll_wf [OF mk wf])
  have root: "map_of t1 dir = Some Dir" by (rule MkdirAll_lookup(2) [OF mk]) simp
  show "map_of t' (dir @ r) = (if r = [] then Some Dir else None)"
  proof (cases r)
    case Nil
    then show ?thesis using root by (simp add: l list_ex_iff)
  next
    case (Cons n ns)
    have "map_of t1 (dir @ n # ns) = None" if "n \<notin> set (dir_names t1 dir)"
      using wf_tree_below_file [OF wf1, of "dir @ [n]" ns] that by (cases ns) (auto simp add: dir_names_mem)
    then show ?thesis using Cons by (auto simp add: l list_ex_iff)
  qed
  have "changed_at dir t t1" using changed_at_ops(1) [of io dir "[]"] mk by simp
  moreover have "changed_at dir t1 t'"
    unfolding changed_at_def by (auto simp add: l list_ex_iff dest: append_prefixD)
  ultimately show "changed_at dir t t'" by (rule changed_at_trans)
qed

definition doc_file :: "string \<Rightarrow> string" where
  "doc_file grp = grp @ ''.swagger.json''"

lemma write_docs_ok:
  "write_docs io cod dir docs t = (t', None) \<Longrightarrow> distinct (map fst docs) \<Longrightarrow>
    (\<forall>(grp, d) \<in> set docs. \<exists>body. json_enc cod d = Inr body \<and>
       map_of t' (dir @ [doc_file grp]) = Some (File (body @ [CHR 0x0A]))) \<and>
    (\<forall>q. q \<notin> (\<lambda>e. dir @ [doc_file (fst e)]) ` set docs \<longrightarrow> map_of t' q = map_of t q)"
proof (induction docs arbitrary: t)
  case (Cons e docs)
  obtain grp d where e: "e = (grp, d)" by (cases e)
  obtain body where b: "json_enc cod d = Inr body" using Cons.prems(1) e by (auto split: sum.splits)
  let ?p = "dir @ [doc_file grp]"
  obtain t1 where w: "os_WriteFile io ?p (body @ [CHR 0x0A]) t = (t1, None)"
    and r: "write_docs io cod dir docs t1 = (t', None)"
    using Cons.prems(1) e b by (auto simp add: seq_run_None doc_file_def)
  from w have t1: "t1 = AList.update ?p (File (body @ [CHR 0x0A])) t"
    by (auto simp add: os_WriteFile_def split: if_splits)
  note ih = Cons.IH [OF r]
  have "?p \<notin> (\<lambda>e. dir @ [doc_file (fst e)]) ` set docs"
    using Cons.prems(2) e by (force simp add: doc_file_def)
  then have "map_of t' ?p = Some (File (body @ [CHR 0x0A]))"
    using ih Cons.prems(2) by (simp add: t1 update_conv')
  then show ?case using ih Cons.prems(2) by (auto simp add: e b t1 update_conv')
qed simp

text \<open>The contents of the directory after the rewrite: one file for each document.\<close>

definition doc_node :: "codec_env \<Rightarrow> (string \<times> doc) list \<Rightarrow> path \<Rightarrow> node option" where
  "doc_node cod docs r =
     (if r = [] then Some Dir
      else case find (\<lambda>(grp, d). r = [doc_file grp]) docs of
             None \<Rightarrow> None
           | Some (grp, d) \<Rightarrow> (case json_enc cod d of Inr body \<Rightarrow> Some (File (body @ [CHR 0x0A])) | Inl _ \<Rightarrow> None))"

lemma write_docs_node:
  assumes w: "write_docs io cod dir docs t = (t', None)" and d: "distinct (map fst docs)"
    and t: "\<And>r. map_of t (dir @ r) = (if r = [] then Some Dir else None)"
  shows "map_of t' (dir @ r) = doc_node cod docs r"
proof (cases "find (\<lambda>(grp, d). r = [doc_file grp]) docs")
  case None
  then have "dir @ r \<notin> (\<lambda>e. dir @ [doc_file (fst e)]) ` set docs" by (auto simp add: find_None_iff)
  then have "map_of t' (dir @ r) = map_of t (dir @ r)" using write_docs_ok [OF w d] by blast
  then show ?thesis using None by (simp add: doc_node_def t)
next
  case (Some e)
  obtain grp doc where e: "e = (grp, doc)" by (cases e)
  have "(grp, doc) \<in> set docs" "r = [doc_file grp]"
    using Some e by (auto simp add: find_Some_iff) (metis nth_mem)
  then show ?thesis using write_docs_ok [OF w d] Some e by (fastforce simp add: doc_node_def)
qed

lemma write_docs_changed:
  "write_docs io cod dir docs t = (t', None) \<Longrightarrow> distinct (map fst docs) \<Longrightarrow> changed_at dir t t'"
  unfolding changed_at_def using write_docs_ok by (metis (no_types, lifting) imageE prefixI)

text \<open>Without an I/O failure the rewrite fails only while it merges.\<close>

lemma remove_entries_total: "\<forall>op. \<not> io op \<Longrightarrow> snd (remove_entries io dir ns t) = None"
  by (induction ns arbitrary: t) (simp_all add: seq_run_def os_RemoveAll_def)

lemma clearDirectory_total:
  "\<forall>op. \<not> io op \<Longrightarrow> \<not> list_ex (is_file t) (prefixes dir) \<Longrightarrow> snd (clearDirectory io dir t) = None"
  by (simp add: clearDirectory_def seq_run_def os_MkdirAll_def remove_entries_total)

lemma write_docs_total:
  "\<forall>op. \<not> io op \<Longrightarrow> (\<And>d. \<exists>body. json_enc cod d = Inr body) \<Longrightarrow> map_of t dir = Some Dir \<Longrightarrow>
    (\<And>f. map_of t (dir @ [f]) \<noteq> Some Dir) \<Longrightarrow> snd (write_docs io cod dir docs t) = None"
proof (induction docs arbitrary: t)
  case (Cons e docs)
  obtain grp d body where e: "e = (grp, d)" "json_enc cod d = Inr body" using Cons.prems(2) by (metis surj_pair)
  let ?p = "dir @ [doc_file grp]" and ?n = "File (body @ [CHR 0x0A])"
  have "os_WriteFile io ?p (body @ [CHR 0x0A]) t = (AList.update ?p ?n t, None)"
    using Cons.prems by (simp add: os_WriteFile_def)
  moreover have "snd (write_docs io cod dir docs (AList.update ?p ?n t)) = None"
    by (rule Cons.IH) (use Cons.prems in \<open>simp_all add: update_conv'\<close>)
  ultimately show ?case by (simp add: e seq_run_def doc_file_def)
qed simp

lemma merge_groups_keys: "merge_groups ord gs = Inr ds \<Longrightarrow> map fst ds = map fst gs"
  by (induction ord gs arbitrary: ds rule: merge_groups.induct) (auto split: sum.splits)

lemma collect_groups_keys:
  "collect_groups io cod t root rels grouped = Inr gs \<Longrightarrow> distinct (map fst grouped) \<Longrightarrow> distinct (map fst gs)"
  by (induction rels arbitrary: grouped)
     (auto simp add: add_group_def distinct_update split: option.splits sum.splits if_splits)

lemma rewriteOpenAPIDir_outcome:
  assumes wf: "wf_tree t" and dir: "\<not> list_ex (is_file t) (prefixes dir)"
    and enc: "\<And>d. \<exists>body. json_enc cod d = Inr body"
    and docs: "(case g of GroupDocs ds \<Rightarrow> Inr ds | GroupItems gs \<Rightarrow> merge_groups ord gs) = Inr docs"
    and dist: "distinct (map fst docs)"
  shows "case rewriteOpenAPIDir io cod ord dir g t of
      (t', None) \<Rightarrow> changed_at dir t t' \<and> (\<forall>r. map_of t' (dir @ r) = doc_node cod (sort_key fst docs) r)
    | (t', Some e) \<Rightarrow> \<exists>op. io op"
proof -
  let ?docs = "sort_key fst docs"
  have run: "rewriteOpenAPIDir io cod ord dir g t = seq_run (clearDirectory io dir t) (write_docs io cod dir ?docs)"
    using docs by (simp add: rewriteOpenAPIDir_def)
  have d: "distinct (map fst ?docs)" using dist by (simp add: distinct_map inj_on_def)
  show ?thesis
  proof (cases "rewriteOpenAPIDir io cod ord dir g t")
    case (Pair t' r)
    show ?thesis
    proof (cases r)
      case None
      then obtain t1 where c: "clearDirectory io dir t = (t1, None)" and w: "write_docs io cod dir ?docs t1 = (t', None)"
        using Pair run by (auto simp add: seq_run_None)
      note c' = clearDirectory_ok [OF c wf]
      show ?thesis unfolding Pair None prod.case option.case
        using write_docs_node [OF w d c'(1)] changed_at_trans [OF c'(2) write_docs_changed [OF w d]] by blast
    next
      case (Some e)
      have False if no: "\<forall>op. \<not> io op"
      proof -
        obtain t1 where c: "clearDirectory io dir t = (t1, None)"
          using clearDirectory_total [OF no dir] by (metis prod.collapse)
        note c' = clearDirectory_ok(1) [OF c wf]
        have "snd (write_docs io cod dir ?docs t1) = None"
          by (rule write_docs_total [OF no enc]) (use c' [of "[]"] c' in simp_all)
        then show False using Pair Some c run by (simp add: seq_run_def)
      qed
      then show ?thesis using Pair Some by auto
    qed
  qed
qed

text \<open>What a run may write into \<open>dir\<close>: the merges of the generated groups, or the parts of the combined
  document.\<close>

definition split_source ::
  "(io_op \<Rightarrow> bool) \<Rightarrow> codec_env \<Rightarrow> (string list \<Rightarrow> string list) \<Rightarrow> path \<Rightarrow> tree \<Rightarrow> (string \<times> doc) list \<Rightarrow> bool" where
  "split_source io cod ord dir t docs \<longleftrightarrow>
     (\<exists>gs. collectGeneratedOpenAPIGroups io cod t dir = Inr gs \<and> merge_groups ord gs = Inr docs) \<or>
     (\<exists>d. readOpenAPIDoc io cod t (dir @ [''openapi.swagger.json'']) = Inr d \<and> docs = split_docs ord d)"

definition split_outcome ::
  "(io_op \<Rightarrow> bool) \<Rightarrow> codec_env \<Rightarrow> (string list \<Rightarrow> string list) \<Rightarrow> path \<Rightarrow> tree \<Rightarrow> tree \<times> go_err option \<Rightarrow> bool" where
  "split_outcome io cod ord dir t r \<longleftrightarrow>
     (case r of
        (t', None) \<Rightarrow> t' = t \<or> (\<exists>docs. split_source io cod ord dir t docs \<and> changed_at dir t t' \<and>
          (\<forall>r. map_of t' (dir @ r) = doc_node cod (sort_key fst docs) r))
      | (t', Some e) \<Rightarrow> (\<exists>op. io op) \<or> t' = t)"

lemma split_outcome_same [simp]: "split_outcome io cod ord dir t (t, r)"
  by (simp add: split_outcome_def split: option.split)

lemma split_outcome_rewrite:
  assumes "wf_tree t" and "\<not> list_ex (is_file t) (prefixes dir)" and "\<And>d. \<exists>body. json_enc cod d = Inr body"
    and "(case g of GroupDocs ds \<Rightarrow> Inr ds | GroupItems gs \<Rightarrow> merge_groups ord gs) = Inr docs"
    and "distinct (map fst docs)" and "split_source io cod ord dir t docs"
  shows "split_outcome io cod ord dir t (rewriteOpenAPIDir io cod ord dir g t)"
proof (cases "rewriteOpenAPIDir io cod ord dir g t")
  case (Pair t' r)
  show ?thesis
    using rewriteOpenAPIDir_outcome [OF assms(1-5), where io = io, unfolded Pair] assms(6)
    unfolding Pair split_outcome_def by (cases r) (simp, blast, simp)
qed

lemma splitCombinedOpenAPI_outcome:
  assumes "wf_tree t" and "\<not> list_ex (is_file t) (prefixes dir)" and "\<And>d. \<exists>body. json_enc cod d = Inr body"
  shows "split_outcome io cod ord dir t (splitCombinedOpenAPI io cod ord dir t)"
proof (cases "readOpenAPIDoc io cod t (dir @ [''openapi.swagger.json''])")
  case (Inr d)
  have "split_source io cod ord dir t (split_docs ord d)" unfolding split_source_def using Inr by blast
  then have "split_outcome io cod ord dir t (rewriteOpenAPIDir io cod ord dir (GroupDocs (split_docs ord d)) t)"
    by (rule split_outcome_rewrite [OF assms, rotated 2]) (auto simp add: split_docs_def comp_def)
  then show ?thesis using Inr by (simp add: splitCombinedOpenAPI_def Let_def)
qed (simp add: splitCombinedOpenAPI_def Let_def)

lemma generated_groups_outcome:
  assumes "wf_tree t" and "\<not> list_ex (is_file t) (prefixes dir)" and "\<And>d. \<exists>body. json_enc cod d = Inr body"
    and "collectGeneratedOpenAPIGroups io cod t dir = Inr gs"
  shows "split_outcome io cod ord dir t (rewriteOpenAPIDir io cod ord dir (GroupItems gs) t)"
proof (cases "merge_groups ord gs")
  case (Inl e)
  then show ?thesis by (simp add: rewriteOpenAPIDir_def)
next
  case (Inr docs)
  have "distinct (map fst gs)"
    using assms(4) collect_groups_keys
    by (auto simp add: collectGeneratedOpenAPIGroups_def Let_def split: sum.splits option.splits)
  then have "distinct (map fst docs)" using merge_groups_keys [OF Inr] by simp
  moreover have "split_source io cod ord dir t docs" unfolding split_source_def using assms(4) Inr by blast
  ultimately show ?thesis by (intro split_outcome_rewrite [OF assms(1-3)]) (simp_all add: Inr)
qed

text \<open>C25: a run that succeeds leaves \<open>gen/openapi\<close> alone or rewrites it so that it holds
  exactly one file for each group, the encoded merge of the group's generated documents or its part of the
  combined document, and nothing else there or outside changes (but for missing directories above).  A run
  that fails although every file operation works, which is one that cannot decode or merge the documents,
  changes nothing at all.\<close>

theorem SplitOpenAPIAt_outcome:
  assumes "wf_tree t" and "\<not> list_ex (is_file t) (prefixes (root @ [''gen'', ''openapi'']))"
    and "\<And>d. \<exists>body. json_enc cod d = Inr body"
  shows "case SplitOpenAPIAt io cod ord root t of
      (t', None) \<Rightarrow> t' = t \<or>
        (\<exists>docs. split_source io cod ord (root @ [''gen'', ''openapi'']) t docs \<and>
           changed_at (root @ [''gen'', ''openapi'']) t t' \<and>
           (\<forall>r. map_of t' ((root @ [''gen'', ''openapi'']) @ r) = doc_node cod (sort_key fst docs) r))
    | (t', Some e) \<Rightarrow> (\<exists>op. io op) \<or> t' = t"
proof -
  let ?dir = "root @ [''gen'', ''openapi'']"
  have "split_outcome io cod ord ?dir t (SplitOpenAPIAt io cod ord root t)"
    using splitCombinedOpenAPI_outcome [OF assms] generated_groups_outcome [OF assms]
    by (cases "collectGeneratedOpenAPIGroups io cod t ?dir") (simp_all add: SplitOpenAPIAt_def Let_def)
  then show ?thesis unfolding split_outcome_def .
qed

section \<open>Witnesses\<close>

text \<open>Two documents that share a definition; it refers to itself through another one.\<close>

definition demo_ref :: "string \<Rightarrow> json" where
  "demo_ref n = JObj [(''$ref'', JStr (''#/definitions/'' @ n))]"

definition demo_defs :: doc where
  "demo_defs = [(''Node'', JObj [(''next'', demo_ref ''Link'')]), (''Link'', demo_ref ''Node''), (''Unused'', JNull)]"

definition demo_doc :: "string \<Rightarrow> doc" where
  "demo_doc p = [(''info'', JObj []), (''paths'', JObj [(p, JArr [demo_ref ''Node''])]), (''definitions'', JObj demo_defs)]"

theorem mergeOpenAPIDocs_exact_witness:
  "\<exists>ps out. mergeOpenAPIDocs rev ''hub'' [demo_doc ''/a'', demo_doc ''/b''] = Inr out \<and> get_key out ''paths'' = JObj ps \<and>
    map_of ps = map_of (all_paths ''hub'' [demo_doc ''/a'', demo_doc ''/b'']) \<and> map_of ps ''/hub/b'' \<noteq> None"
proof -
  let ?docs = "[demo_doc ''/a'', demo_doc ''/b'']"
  have "\<not> isl (mergeOpenAPIDocs rev ''hub'' ?docs)" by code_simp
  then obtain out where out: "mergeOpenAPIDocs rev ''hub'' ?docs = Inr out" using sum.collapse(2) by metis
  have "list_all (\<lambda>d. wf_json (JObj d)) ?docs" by code_simp
  then have wf: "\<forall>d \<in> set ?docs. wf_json (JObj d)" by (simp only: list_all_iff)
  have "map_of (all_paths ''hub'' ?docs) ''/hub/b'' \<noteq> None" by code_simp
  then show ?thesis using mergeOpenAPIDocs_exact [of rev ?docs "''hub''"] wf out by auto
qed

definition demo_codec :: codec_env where
  "demo_codec = \<lparr>json_dec = \<lambda>s. Inr (demo_doc s), json_enc = \<lambda>d. Inr ''{}''\<rparr>"

definition demo_tree :: tree where
  "demo_tree = [([], Dir), ([''gen''], Dir), ([''gen'', ''openapi''], Dir), ([''gen'', ''openapi'', ''api''], Dir),
     ([''gen'', ''openapi'', ''api'', ''v1''], Dir),
     ([''gen'', ''openapi'', ''api'', ''v1'', ''a.swagger.json''], File ''/v1/a''),
     ([''gen'', ''openapi'', ''old.json''], File [])]"

theorem SplitOpenAPIAt_outcome_witness:
  "\<exists>t' docs. SplitOpenAPIAt (\<lambda>_. False) demo_codec rev [] demo_tree = (t', None) \<and> t' \<noteq> demo_tree \<and>
    changed_at [''gen'', ''openapi''] demo_tree t' \<and>
    map_of t' [''gen'', ''openapi'', ''v1.swagger.json''] = doc_node demo_codec (sort_key fst docs) [''v1.swagger.json'']"
proof -
  let ?r = "SplitOpenAPIAt (\<lambda>_. False) demo_codec rev [] demo_tree"
  have "snd ?r = None \<and> map_of (fst ?r) [''gen'', ''openapi'', ''old.json''] \<noteq> map_of demo_tree [''gen'', ''openapi'', ''old.json'']"
    by code_simp
  then obtain t' where run: "?r = (t', None)" and new: "t' \<noteq> demo_tree" by (metis prod.collapse)
  have wf: "wf_tree demo_tree" by code_simp
  have "\<not> list_ex (is_file demo_tree) (prefixes ([] @ [''gen'', ''openapi'']))" by code_simp
  moreover have "\<exists>b. json_enc demo_codec d = Inr b" for d by (simp add: demo_codec_def)
  ultimately have "case ?r of (t', None) \<Rightarrow> t' = demo_tree \<or> (\<exists>docs. changed_at ([] @ [''gen'', ''openapi'']) demo_tree t' \<and>
      (\<forall>r. map_of t' (([] @ [''gen'', ''openapi'']) @ r) = doc_node demo_codec (sort_key fst docs) r)) | (_, Some e) \<Rightarrow> True"
    using SplitOpenAPIAt_outcome [OF wf, of "[]" demo_codec "\<lambda>_. False" rev] by (auto split: prod.splits option.splits)
  then show ?thesis unfolding run using new by auto
qed

end
