(* ===== verification/PluginSchema.thy ===== *)
theory PluginSchema
  imports GoError "HOL-Library.List_Lexorder" "HOL-Library.Char_ord"
begin

text \<open>
  The repository schemas that the \<open>protoc\<close> plugin collects from the hub protobuf files
  (\<open>cmd/protoc-gen-zengo/schema.go\<close>, the shared helpers of \<open>cmd/protoc-gen-zengo/main.go\<close>, the data of
  \<open>internal/generator/schema.go\<close>).

  The descriptors of package \<open>protogen\<close> are records of what the plugin reads of them; an extension is an
  option.
\<close>

section \<open>Descriptors\<close>

datatype kind =
    BoolKind | EnumKind | Int32Kind | Sint32Kind | Uint32Kind | Int64Kind | Sint64Kind | Uint64Kind
  | Sfixed32Kind | Fixed32Kind | FloatKind | Sfixed64Kind | Fixed64Kind | DoubleKind | StringKind
  | BytesKind | MessageKind | GroupKind | OtherKind string

record Column =
  co_Ignore :: bool
  co_Name :: string
  co_SqlType :: string
  co_PrimaryKey :: bool
  co_Nullable :: bool
  co_Unique :: bool
  co_DefaultSql :: string

record Repository =
  re_Entity :: string
  re_Table :: string
  re_Model :: string

record proto_field =
  pf_Name :: string
  pf_GoName :: string
  pf_IsMap :: bool
  pf_Repeated :: bool
  pf_Kind :: kind
  pf_Message :: "string option"
  pf_Column :: "Column option"

datatype proto_message =
  ProtoMessage (msg_Name: string) (msg_GoName: string) (msg_FullName: string)
    (msg_Fields: "proto_field list") (msg_Messages: "proto_message list")

record KafkaProduce =
  kp_Topic :: string
  kp_Event :: string

record KafkaConsume =
  kc_Topic :: string
  kc_Group :: string

record proto_method =
  md_GoName :: string
  md_Produce :: "KafkaProduce option"
  md_Consume :: "KafkaConsume option"

record proto_service =
  srv_GoName :: string
  srv_Methods :: "proto_method list"
  srv_Repository :: "Repository option"

record proto_file =
  fi_Path :: string
  fi_Package :: string
  fi_GoImportPath :: string
  fi_Generate :: bool
  fi_Messages :: "proto_message list"
  fi_Services :: "proto_service list"

section \<open>Versions and kinds of service\<close>

definition isHubVersion :: "string \<Rightarrow> bool" where
  "isHubVersion version \<longleftrightarrow> version = ''hub''"

definition versionFromPackage :: "string \<Rightarrow> string" where
  "versionFromPackage pkg =
     (if has_suffix pkg ''.hub'' then ''hub''
      else if CHR ''.'' \<notin> set pkg then ''v0''
      else (let v = last (split_on CHR ''.'' pkg) in if has_prefix v ''v'' then v else ''v0''))"

definition isOptionsFile :: "proto_file \<Rightarrow> bool" where
  "isOptionsFile file \<longleftrightarrow> has_prefix (fi_Package file) ''zengo.options''"

definition isEventService :: "proto_service \<Rightarrow> bool" where
  "isEventService svc \<longleftrightarrow> has_suffix (srv_GoName svc) ''EventHandler''"

section \<open>The schema\<close>

record RepositoryColumn =
  rc_ProtoField :: string
  rc_Name :: string
  rc_SQLType :: string
  rc_PrimaryKey :: bool
  rc_Nullable :: bool
  rc_Unique :: bool
  rc_DefaultSQL :: string

record RepositorySchema =
  rs_File :: string
  rs_Package :: string
  rs_Service :: string
  rs_Entity :: string
  rs_Table :: string
  rs_Model :: string
  rs_Columns :: "RepositoryColumn list"

text \<open>\<open>toSnakeCase\<close>: the Boolean is \<open>index > 0\<close>.\<close>

fun snake_loop :: "bool \<Rightarrow> string \<Rightarrow> string" where
  "snake_loop inner [] = []"
| "snake_loop inner (r # rs) =
     (if is_upper r then (if inner then [CHR ''_''] else []) @ [lower_char r] else [r]) @ snake_loop True rs"

definition toSnakeCase :: "string \<Rightarrow> string" where
  "toSnakeCase value = snake_loop False value"

text \<open>\<open>kind_text\<close> is the text of a kind that the switch does not name.\<close>

definition kind_text :: "kind \<Rightarrow> string" where
  "kind_text k = (case k of OtherKind t \<Rightarrow> t | _ \<Rightarrow> [])"

definition inferPostgresType :: "proto_field \<Rightarrow> go_err + string" where
  "inferPostgresType field =
     (if pf_IsMap field then Inl (PlainErr ''map fields require zengo.options.column.sql_type'')
      else if pf_Repeated field then Inl (PlainErr ''repeated fields require zengo.options.column.sql_type'')
      else let k = pf_Kind field
           in if k = StringKind then Inr ''TEXT''
              else if k = BoolKind then Inr ''BOOLEAN''
              else if k \<in> {Int32Kind, Sint32Kind, Uint32Kind, Fixed32Kind, Sfixed32Kind} then Inr ''INTEGER''
              else if k \<in> {Int64Kind, Sint64Kind, Uint64Kind, Fixed64Kind, Sfixed64Kind} then Inr ''BIGINT''
              else if k = FloatKind then Inr ''REAL''
              else if k = DoubleKind then Inr ''DOUBLE PRECISION''
              else if k = BytesKind then Inr ''BYTEA''
              else if k = EnumKind then Inl (PlainErr ''enum fields require zengo.options.column.sql_type'')
              else if k \<in> {MessageKind, GroupKind}
              then (if pf_Message field = Some ''google.protobuf.Timestamp'' then Inr ''TIMESTAMPTZ''
                    else Inl (PlainErr ''message fields require zengo.options.column.sql_type''))
              else Inl (PlainErr (''unsupported field kind '' @ kind_text k @
                                  '' requires zengo.options.column.sql_type'')))"

text \<open>\<open>buildRepositoryColumn\<close>: \<open>None\<close> when the field is skipped.\<close>

definition buildRepositoryColumn :: "proto_field \<Rightarrow> go_err + RepositoryColumn option" where
  "buildRepositoryColumn field =
     (case pf_Column field of
        Some co \<Rightarrow>
          (if co_Ignore co then Inr None
           else (let name = trim_space (co_Name co);
                     columnName = (if name \<noteq> [] then name else toSnakeCase (pf_Name field));
                     sqlType = trim_space (co_SqlType co)
                 in bind_err (if sqlType = [] then inferPostgresType field else Inr sqlType) (\<lambda>sqlType.
                      Inr (Some \<lparr>rc_ProtoField = pf_Name field, rc_Name = columnName, rc_SQLType = sqlType,
                                 rc_PrimaryKey = co_PrimaryKey co, rc_Nullable = co_Nullable co,
                                 rc_Unique = co_Unique co, rc_DefaultSQL = co_DefaultSql co\<rparr>))))
      | None \<Rightarrow>
          bind_err (inferPostgresType field) (\<lambda>sqlType.
            Inr (Some \<lparr>rc_ProtoField = pf_Name field, rc_Name = toSnakeCase (pf_Name field), rc_SQLType = sqlType,
                       rc_PrimaryKey = False, rc_Nullable = False, rc_Unique = False, rc_DefaultSQL = []\<rparr>)))"

fun build_columns :: "string \<Rightarrow> string \<Rightarrow> proto_field list \<Rightarrow> go_err + RepositoryColumn list" where
  "build_columns path model [] = Inr []"
| "build_columns path model (field # rest) =
     (case buildRepositoryColumn field of
        Inl e \<Rightarrow> Inl (WrapErr (path @ '': model '' @ model @ '' field '' @ pf_GoName field) e)
      | Inr None \<Rightarrow> build_columns path model rest
      | Inr (Some column) \<Rightarrow>
          bind_err (build_columns path model rest) (\<lambda>columns. Inr (column # columns)))"

definition buildRepositorySchema ::
  "proto_file \<Rightarrow> proto_service \<Rightarrow> Repository \<Rightarrow> proto_message \<Rightarrow> go_err + RepositorySchema" where
  "buildRepositorySchema file svc repository model =
     bind_err (build_columns (fi_Path file) (msg_GoName model) (msg_Fields model)) (\<lambda>columns.
       let primaryKeys = length (filter rc_PrimaryKey columns)
       in if primaryKeys = 0
          then Inl (PlainErr (fi_Path file @ '': model '' @ msg_GoName model @ '' must declare exactly one primary key''))
          else if primaryKeys > 1
          then Inl (PlainErr (fi_Path file @ '': model '' @ msg_GoName model @ '' declares multiple primary keys''))
          else Inr \<lparr>rs_File = fi_Path file, rs_Package = fi_Package file, rs_Service = srv_GoName svc,
                    rs_Entity = re_Entity repository, rs_Table = re_Table repository,
                    rs_Model = msg_GoName model, rs_Columns = columns\<rparr>)"

text \<open>The index of the messages by their three names; later entries replace earlier ones.\<close>

fun indexMessages :: "proto_message list \<Rightarrow> (string \<rightharpoonup> proto_message) \<Rightarrow> (string \<rightharpoonup> proto_message)" where
  "indexMessages [] index = index"
| "indexMessages (ProtoMessage n g f fs nested # ms) index =
     (let m = ProtoMessage n g f fs nested
      in indexMessages ms (indexMessages nested (index(n \<mapsto> m, g \<mapsto> m, f \<mapsto> m))))"

definition service_schema ::
  "proto_file \<Rightarrow> (string \<rightharpoonup> proto_message) \<Rightarrow> proto_service \<Rightarrow> Repository \<Rightarrow> go_err + RepositorySchema" where
  "service_schema file index svc repository =
     (let modelName = trim_space (re_Model repository)
      in if modelName = []
         then Inl (PlainErr (fi_Path file @ '': service '' @ srv_GoName svc @ '': repository.model is required''))
         else (case index modelName of
                 None \<Rightarrow> Inl (PlainErr (fi_Path file @ '': service '' @ srv_GoName svc @ '': repository.model '' @
                                       go_quote modelName @ '' was not found in the same proto file''))
               | Some model \<Rightarrow> buildRepositorySchema file svc repository model))"

fun collect_services ::
  "proto_file \<Rightarrow> (string \<rightharpoonup> proto_message) \<Rightarrow> proto_service list \<Rightarrow> go_err + RepositorySchema list" where
  "collect_services file index [] = Inr []"
| "collect_services file index (svc # svcs) =
     (if isEventService svc then collect_services file index svcs
      else case srv_Repository svc of
             None \<Rightarrow> collect_services file index svcs
           | Some repository \<Rightarrow>
               bind_err (service_schema file index svc repository) (\<lambda>schema.
                 bind_err (collect_services file index svcs) (\<lambda>schemas. Inr (schema # schemas))))"

definition collectFileRepositorySchemas :: "proto_file \<Rightarrow> go_err + RepositorySchema list" where
  "collectFileRepositorySchemas file =
     collect_services file (indexMessages (fi_Messages file) Map.empty) (fi_Services file)"

text \<open>The inner loop of \<open>collectRepositorySchemas\<close>: the owners of the tables so far and the schemas.\<close>

fun add_schemas ::
  "RepositorySchema list \<Rightarrow> (string \<rightharpoonup> string) \<times> RepositorySchema list
     \<Rightarrow> go_err + (string \<rightharpoonup> string) \<times> RepositorySchema list" where
  "add_schemas [] acc = Inr acc"
| "add_schemas (repository # repositories) (tables, out) =
     (case tables (rs_Table repository) of
        Some owner \<Rightarrow>
          Inl (PlainErr (''duplicate repository table '' @ go_quote (rs_Table repository) @ '' declared by '' @
                         owner @ '' and '' @ rs_Service repository))
      | None \<Rightarrow>
          add_schemas repositories (tables(rs_Table repository \<mapsto> rs_Service repository), out @ [repository]))"

fun collect_files ::
  "proto_file list \<Rightarrow> (string \<rightharpoonup> string) \<times> RepositorySchema list
     \<Rightarrow> go_err + (string \<rightharpoonup> string) \<times> RepositorySchema list" where
  "collect_files [] acc = Inr acc"
| "collect_files (file # files) acc =
     (if \<not> fi_Generate file \<or> isOptionsFile file then collect_files files acc
      else let version = versionFromPackage (fi_Package file)
           in if \<not> isHubVersion version then collect_files files acc
              else bind_err (collectFileRepositorySchemas file) (\<lambda>repositories.
                     bind_err (add_schemas repositories acc) (collect_files files)))"

text \<open>The schemas, sorted by table and service.\<close>

definition collectRepositorySchemas :: "proto_file list \<Rightarrow> go_err + RepositorySchema list" where
  "collectRepositorySchemas files =
     bind_err (collect_files files (Map.empty, [])) (\<lambda>(tables, out).
       Inr (sort_key (\<lambda>r. [rs_Table r, rs_Service r]) out))"

end
