(* ===== verification/PluginSchemaFacts.thy ===== *)
theory PluginSchemaFacts
  imports PluginSchema
begin

text \<open>
  What the collected schemas are: exactly one for each repository that the hub files declare, each with one
  primary key and typed columns, no table twice, in the order of the tables.
\<close>

section \<open>Columns\<close>

lemma inferPostgresType_nonempty: "inferPostgresType field = Inr t \<Longrightarrow> t \<noteq> []"
  by (auto simp add: inferPostgresType_def Let_def split: if_splits)

lemma buildRepositoryColumn_typed: "buildRepositoryColumn field = Inr (Some c) \<Longrightarrow> rc_SQLType c \<noteq> []"
  by (auto simp add: buildRepositoryColumn_def Let_def inferPostgresType_nonempty
      split: option.splits if_splits)

lemma build_columns_typed: "build_columns path model fs = Inr cs \<Longrightarrow> list_all (\<lambda>c. rc_SQLType c \<noteq> []) cs"
  by (induction fs arbitrary: cs)
     (auto dest: buildRepositoryColumn_typed split: sum.splits option.splits)

definition wf_schema :: "RepositorySchema \<Rightarrow> bool" where
  "wf_schema r \<longleftrightarrow> length (filter rc_PrimaryKey (rs_Columns r)) = 1 \<and> list_all (\<lambda>c. rc_SQLType c \<noteq> []) (rs_Columns r)"

lemma single_iff: "length xs = Suc 0 \<longleftrightarrow> xs \<noteq> [] \<and> \<not> Suc 0 < length xs"
  by (cases xs) auto

lemma service_schema_wf: "service_schema file index svc repository = Inr r \<Longrightarrow> wf_schema r"
  by (auto simp add: service_schema_def buildRepositorySchema_def Let_def wf_schema_def single_iff
      dest: build_columns_typed split: option.splits if_splits)

lemma service_schema_sel:
  "service_schema file index svc repository = Inr r \<Longrightarrow>
     rs_Table r = re_Table repository \<and> rs_Service r = srv_GoName svc \<and> rs_File r = fi_Path file"
  by (auto simp add: service_schema_def buildRepositorySchema_def Let_def split: option.splits if_splits)

section \<open>Declarations\<close>

text \<open>The repositories that the files declare, with the file and the service of each.\<close>

definition is_hub_input :: "proto_file \<Rightarrow> bool" where
  "is_hub_input file \<longleftrightarrow>
     fi_Generate file \<and> \<not> isOptionsFile file \<and> isHubVersion (versionFromPackage (fi_Package file))"

definition file_declarations :: "proto_file \<Rightarrow> (proto_file \<times> proto_service \<times> Repository) list" where
  "file_declarations file =
     concat (map (\<lambda>svc. if isEventService svc then []
       else case srv_Repository svc of None \<Rightarrow> [] | Some r \<Rightarrow> [(file, svc, r)]) (fi_Services file))"

definition declarations :: "proto_file list \<Rightarrow> (proto_file \<times> proto_service \<times> Repository) list" where
  "declarations files = concat (map file_declarations (filter is_hub_input files))"

definition declared_schema :: "proto_file \<times> proto_service \<times> Repository \<Rightarrow> go_err + RepositorySchema" where
  "declared_schema d =
     (case d of (file, svc, r) \<Rightarrow> service_schema file (indexMessages (fi_Messages file) Map.empty) svc r)"

lemma collect_services_iff:
  "collect_services file (indexMessages (fi_Messages file) Map.empty) svcs = Inr rs \<longleftrightarrow>
     map declared_schema (concat (map (\<lambda>svc. if isEventService svc then []
       else case srv_Repository svc of None \<Rightarrow> [] | Some r \<Rightarrow> [(file, svc, r)]) svcs)) = map Inr rs"
  by (induction svcs arbitrary: rs)
     (auto simp add: declared_schema_def Cons_eq_map_conv split: option.splits)

lemma collectFile_iff:
  "collectFileRepositorySchemas file = Inr rs \<longleftrightarrow> map declared_schema (file_declarations file) = map Inr rs"
  unfolding collectFileRepositorySchemas_def file_declarations_def by (rule collect_services_iff)

lemma add_schemas_iff:
  "dom tables = set (map rs_Table out) \<Longrightarrow> distinct (map rs_Table out) \<Longrightarrow>
    (\<exists>tables'. add_schemas rs (tables, out) = Inr (tables', out')) \<longleftrightarrow>
      out' = out @ rs \<and> distinct (map rs_Table (out @ rs))"
proof (induction rs arbitrary: tables out)
  case (Cons r rs)
  show ?case
  proof (cases "tables (rs_Table r)")
    case None
    then have "rs_Table r \<notin> set (map rs_Table out)" using Cons.prems(1) by blast
    moreover have "dom (tables(rs_Table r \<mapsto> rs_Service r)) = set (map rs_Table (out @ [r]))"
      using Cons.prems(1) by simp
    ultimately show ?thesis using None Cons.IH [of "tables(rs_Table r \<mapsto> rs_Service r)" "out @ [r]"] Cons.prems
      by (simp del: fun_upd_apply)
  next
    case (Some owner)
    then have "rs_Table r \<in> set (map rs_Table out)" using Cons.prems(1) by blast
    then show ?thesis using Some by auto
  qed
qed auto

lemma add_schemas_dom:
  "add_schemas rs (tables, out) = Inr (tables', out') \<Longrightarrow> dom tables = set (map rs_Table out) \<Longrightarrow>
     dom tables' = set (map rs_Table out')"
  by (induction rs arbitrary: tables out) (auto split: option.splits)

lemma collect_files_iff:
  "dom tables = set (map rs_Table out) \<Longrightarrow> distinct (map rs_Table out) \<Longrightarrow>
    (\<exists>tables'. collect_files files (tables, out) = Inr (tables', out')) \<longleftrightarrow>
      (\<exists>rs. map declared_schema (declarations files) = map Inr rs \<and> out' = out @ rs \<and>
        distinct (map rs_Table (out @ rs)))"
proof (induction files arbitrary: tables out)
  case Nil
  then show ?case by (auto simp add: declarations_def)
next
  case (Cons f files)
  show ?case
  proof (cases "is_hub_input f")
    case False
    then show ?thesis using Cons by (auto simp add: declarations_def is_hub_input_def Let_def)
  next
    case True
    have run: "collect_files (f # files) (tables, out) =
        bind_err (collectFileRepositorySchemas f) (\<lambda>rs. bind_err (add_schemas rs (tables, out)) (collect_files files))"
      using True by (simp add: is_hub_input_def Let_def)
    have decl: "declarations (f # files) = file_declarations f @ declarations files"
      using True by (simp add: declarations_def)
    show ?thesis (is "?l \<longleftrightarrow> ?r")
    proof
      assume ?l
      then obtain rs tables1 out1 tables' where col: "collectFileRepositorySchemas f = Inr rs"
        and a: "add_schemas rs (tables, out) = Inr (tables1, out1)"
        and c: "collect_files files (tables1, out1) = Inr (tables', out')"
        unfolding run by auto
      have o1: "out1 = out @ rs" "distinct (map rs_Table (out @ rs))"
        using a add_schemas_iff [OF Cons.prems] by blast+
      have "dom tables1 = set (map rs_Table out1)" using add_schemas_dom [OF a Cons.prems(1)] .
      from Cons.IH [OF this] c o1 obtain rs2 where "map declared_schema (declarations files) = map Inr rs2"
          "out' = (out @ rs) @ rs2" "distinct (map rs_Table ((out @ rs) @ rs2))" by auto
      then show ?r using col unfolding collectFile_iff decl by (intro exI [of _ "rs @ rs2"]) simp
    next
      assume ?r
      then obtain rss where m: "map declared_schema (file_declarations f @ declarations files) = map Inr rss"
        and o: "out' = out @ rss" "distinct (map rs_Table (out @ rss))" unfolding decl by blast
      then obtain rs rs2 where rs: "rss = rs @ rs2" "map declared_schema (file_declarations f) = map Inr rs"
          "map declared_schema (declarations files) = map Inr rs2"
        by (auto simp add: map_eq_append_conv append_eq_map_conv)
      have col: "collectFileRepositorySchemas f = Inr rs" using rs(2) by (simp add: collectFile_iff)
      have d: "distinct (map rs_Table (out @ rs))" using o(2) rs(1) by auto
      then obtain tables1 where a: "add_schemas rs (tables, out) = Inr (tables1, out @ rs)"
        using add_schemas_iff [OF Cons.prems] by blast
      have "\<exists>tables'. collect_files files (tables1, out @ rs) = Inr (tables', out')"
        using Cons.IH [OF add_schemas_dom [OF a Cons.prems(1)] d] rs o by auto
      then show ?l unfolding run using col a by auto
    qed
  qed
qed

lemma sort_by_table:
  assumes "distinct (map rs_Table rs)"
  shows "sort_key (\<lambda>r. [rs_Table r, rs_Service r]) rs = sort_key rs_Table rs"
proof (rule map_sorted_distinct_set_unique [of rs_Table])
  let ?s = "sort_key (\<lambda>r. [rs_Table r, rs_Service r]) rs"
  show "inj_on rs_Table (set ?s \<union> set (sort_key rs_Table rs))" using assms by (simp add: distinct_map)
  have "sorted (map (\<lambda>r. [rs_Table r, rs_Service r]) ?s)" by (rule sorted_sort_key)
  then have "sorted_wrt (\<lambda>a b. [rs_Table a, rs_Service a] \<le> [rs_Table b, rs_Service b]) ?s" by (simp only: sorted_map)
  then show "sorted (map rs_Table ?s)"
    unfolding sorted_map by (rule sorted_wrt_mono_rel [rotated]) (auto intro: less_imp_le)
  show "distinct (map rs_Table ?s)" "distinct (map rs_Table (sort_key rs_Table rs))"
    using assms by (simp_all add: distinct_map inj_on_def)
qed simp_all

lemma collect_iff:
  "collectRepositorySchemas files = Inr out \<longleftrightarrow>
     (\<exists>schemas. map declared_schema (declarations files) = map Inr schemas \<and>
        distinct (map rs_Table schemas) \<and> out = sort_key rs_Table schemas)"
proof -
  have c: "(\<exists>tables. collect_files files (Map.empty, []) = Inr (tables, rs)) \<longleftrightarrow>
      map declared_schema (declarations files) = map Inr rs \<and> distinct (map rs_Table rs)" for rs
    using collect_files_iff [of Map.empty "[]" files rs] by simp
  have "collectRepositorySchemas files = Inr out \<longleftrightarrow>
      (\<exists>rs tables. collect_files files (Map.empty, []) = Inr (tables, rs) \<and>
        sort_key (\<lambda>r. [rs_Table r, rs_Service r]) rs = out)"
    by (auto simp add: collectRepositorySchemas_def)
  also have "\<dots> \<longleftrightarrow> (\<exists>rs. map declared_schema (declarations files) = map Inr rs \<and>
      distinct (map rs_Table rs) \<and> sort_key (\<lambda>r. [rs_Table r, rs_Service r]) rs = out)"
    using c by blast
  finally show ?thesis using sort_by_table by auto
qed

text \<open>The plugin collects exactly one schema for each repository that the generated hub files
  declare, and it succeeds exactly when each of them is valid and no two share a table.  The order of the
  files does not matter to the result, which is sorted by table.\<close>

theorem collectRepositorySchemas_exact:
  "collectRepositorySchemas files = Inr out \<longleftrightarrow>
     (\<exists>schemas. map declared_schema (declarations files) = map Inr schemas \<and>
        distinct (map rs_Table schemas) \<and> out = sort_key rs_Table schemas)"
  by (rule collect_iff)

text \<open>C40: the collected schemas are well formed: their tables are strictly ascending, so no table is
  declared twice, and each has exactly one primary key and a type for every column.\<close>

theorem collected_schemas_wf:
  assumes "collectRepositorySchemas files = Inr out"
  shows "sorted_wrt (<) (map rs_Table out) \<and> list_all wf_schema out"
proof -
  obtain tables schemas where c: "collect_files files (Map.empty, []) = Inr (tables, schemas)"
    and out: "out = sort_key (\<lambda>r. [rs_Table r, rs_Service r]) schemas"
    using assms by (auto simp add: collectRepositorySchemas_def)
  have m: "map declared_schema (declarations files) = map Inr schemas" and d: "distinct (map rs_Table schemas)"
    using c collect_files_iff [of Map.empty "[]" files schemas] by auto
  have "wf_schema r" if "r \<in> set schemas" for r
  proof -
    have "Inr r \<in> set (map declared_schema (declarations files))" unfolding m using that by simp
    then show ?thesis by (auto simp add: declared_schema_def dest: service_schema_wf [OF sym])
  qed
  moreover have "out = sort_key rs_Table schemas" using out sort_by_table [OF d] by simp
  ultimately show ?thesis using d
    by (simp add: strict_sorted_iff distinct_map inj_on_def list_all_iff)
qed

section \<open>Witness\<close>

definition demo_field :: "string \<Rightarrow> Column option \<Rightarrow> proto_field" where
  "demo_field n co = \<lparr>pf_Name = n, pf_GoName = n, pf_IsMap = False, pf_Repeated = False, pf_Kind = StringKind,
     pf_Message = None, pf_Column = co\<rparr>"

definition demo_pk :: Column where
  "demo_pk = \<lparr>co_Ignore = False, co_Name = [], co_SqlType = ''UUID'', co_PrimaryKey = True, co_Nullable = False,
     co_Unique = False, co_DefaultSql = []\<rparr>"

definition demo_model :: "string \<Rightarrow> proto_message" where
  "demo_model n = ProtoMessage n n n [demo_field ''id'' (Some demo_pk), demo_field ''displayName'' None] []"

definition demo_proto_service :: "string \<Rightarrow> string \<Rightarrow> proto_service" where
  "demo_proto_service n tab = \<lparr>srv_GoName = n @ ''Service'', srv_Methods = [],
     srv_Repository = Some \<lparr>re_Entity = n, re_Table = tab, re_Model = n\<rparr>\<rparr>"

definition demo_proto_file :: proto_file where
  "demo_proto_file = \<lparr>fi_Path = ''user.proto'', fi_Package = ''api.user.hub'', fi_GoImportPath = ''m/gen/api/hub'', fi_Generate = True,
     fi_Messages = [demo_model ''User'', demo_model ''Account''],
     fi_Services = [demo_proto_service ''User'' ''users'', demo_proto_service ''Account'' ''accounts'']\<rparr>"

theorem collected_schemas_wf_witness:
  "\<exists>out. collectRepositorySchemas [demo_proto_file] = Inr out \<and> map rs_Table out = [''accounts'', ''users''] \<and>
    list_all wf_schema out"
proof -
  have c: "case collectRepositorySchemas [demo_proto_file] of Inr rs \<Rightarrow> map rs_Table rs = [''accounts'', ''users''] | Inl _ \<Rightarrow> False"
    by code_simp
  then obtain out where "collectRepositorySchemas [demo_proto_file] = Inr out" by (auto split: sum.splits)
  with c collected_schemas_wf [OF this] show ?thesis by auto
qed

end
