(* ===== verification/Migration.thy ===== *)
theory Migration
  imports PluginSchema FileTree Manifest
begin

text \<open>
  The schema metadata file and the managed Postgres migration (\<open>internal/generator/schema.go\<close>,
  \<open>internal/generator/migration.go\<close>, \<open>generateSchemaMetadata\<close> of \<open>cmd/protoc-gen-zengo/schema.go\<close>).

  The JSON encoder and decoder are parameters.
\<close>

section \<open>The metadata\<close>

record schema_codec =
  sc_Encode :: "RepositorySchema list \<Rightarrow> go_err + string"
  sc_Decode :: "string \<Rightarrow> go_err + RepositorySchema list"

definition EncodeRepositorySchema :: "schema_codec \<Rightarrow> RepositorySchema list \<Rightarrow> go_err + string" where
  "EncodeRepositorySchema cod rs = wrap_err (WrapErr ''encode repository schema'') (sc_Encode cod rs)"

text \<open>The content that the plugin writes to \<open>zengo/schema_gen.json\<close>.\<close>

definition generateSchemaMetadata :: "schema_codec \<Rightarrow> proto_file list \<Rightarrow> go_err + string" where
  "generateSchemaMetadata cod files = bind_err (collectRepositorySchemas files) (EncodeRepositorySchema cod)"

definition RepositorySchemaPathAt :: "path \<Rightarrow> path" where
  "RepositorySchemaPathAt root = root @ [''gen'', ''zengo'', ''schema_gen.json'']"

definition ReadRepositorySchemaAt ::
  "(io_op \<Rightarrow> bool) \<Rightarrow> schema_codec \<Rightarrow> tree \<Rightarrow> path \<Rightarrow> go_err + RepositorySchema list" where
  "ReadRepositorySchemaAt io cod t root =
     bind_err (os_ReadFile io t (RepositorySchemaPathAt root)) (\<lambda>data.
       wrap_err (WrapErr ''decode repository schema'') (sc_Decode cod data))"

definition HasRepositorySchemasAt ::
  "(io_op \<Rightarrow> bool) \<Rightarrow> schema_codec \<Rightarrow> tree \<Rightarrow> path \<Rightarrow> go_err + bool" where
  "HasRepositorySchemasAt io cod t root =
     (if file_missing io t (RepositorySchemaPathAt root) then Inr False
      else bind_err (ReadRepositorySchemaAt io cod t root) (\<lambda>rs. Inr (rs \<noteq> [])))"

section \<open>Rendering\<close>

definition generatedPostgresMigrationHeader :: string where
  "generatedPostgresMigrationHeader = ''-- Code generated by zengo gen. DO NOT EDIT.''"

definition newline :: string where
  "newline = [CHR 0x0A]"

definition renderPostgresColumn :: "RepositoryColumn \<Rightarrow> string" where
  "renderPostgresColumn column =
     join '' '' ([rc_Name column, rc_SQLType column] @
       (if rc_PrimaryKey column then [''PRIMARY KEY'']
        else (if \<not> rc_Nullable column then [''NOT NULL''] else []) @
             (if rc_Unique column then [''UNIQUE''] else [])) @
       (if rc_DefaultSQL column \<noteq> [] then [''DEFAULT'', rc_DefaultSQL column] else []))"

fun render_columns :: "RepositoryColumn list \<Rightarrow> string" where
  "render_columns [] = []"
| "render_columns (column # columns) =
     ''    '' @ renderPostgresColumn column @ (if columns \<noteq> [] then '','' else []) @ newline @
     render_columns columns"

definition render_table :: "RepositorySchema \<Rightarrow> string" where
  "render_table r =
     ''CREATE TABLE IF NOT EXISTS '' @ rs_Table r @ '' ('' @ newline @
     render_columns (rs_Columns r) @ '');'' @ newline"

fun render_tables :: "bool \<Rightarrow> RepositorySchema list \<Rightarrow> string" where
  "render_tables first [] = []"
| "render_tables first (r # rs) = (if first then [] else newline) @ render_table r @ render_tables False rs"

text \<open>The order of schemas that share a table, which the plugin rejects, is that of a stable sort.\<close>

definition renderPostgresMigration :: "RepositorySchema list \<Rightarrow> string" where
  "renderPostgresMigration repositories =
     generatedPostgresMigrationHeader @ newline @ newline @ render_tables True (sort_key rs_Table repositories)"

section \<open>The managed file\<close>

definition PostgresMigrationPathAt :: "path \<Rightarrow> path" where
  "PostgresMigrationPathAt root = root @ [''migrations'', ''001_init.sql'']"

text \<open>Whether the file exists, and whether it is managed.\<close>

definition postgresMigrationState :: "(io_op \<Rightarrow> bool) \<Rightarrow> tree \<Rightarrow> path \<Rightarrow> go_err + bool \<times> bool" where
  "postgresMigrationState io t p =
     (if file_missing io t p then Inr (False, True)
      else bind_err (os_ReadFile io t p) (\<lambda>data. Inr (True, has_prefix data generatedPostgresMigrationHeader)))"

definition has_postgres :: "Manifest option \<Rightarrow> bool" where
  "has_postgres m \<longleftrightarrow>
     (case m of None \<Rightarrow> False
      | Some m \<Rightarrow> (case m_DB m of None \<Rightarrow> False | Some db \<Rightarrow> db_Postgres db \<noteq> None))"

definition GeneratePostgresMigrationAt ::
  "(io_op \<Rightarrow> bool) \<Rightarrow> schema_codec \<Rightarrow> path \<Rightarrow> Manifest option \<Rightarrow> tree action" where
  "GeneratePostgresMigrationAt io cod root m t =
     (if \<not> has_postgres m then (t, None)
      else case ReadRepositorySchemaAt io cod t root of
             Inl e \<Rightarrow> (t, Some (WrapErr ''read repository schema'' e))
           | Inr repositories \<Rightarrow>
               (if repositories = [] then (t, None)
                else let p = PostgresMigrationPathAt root
                     in case postgresMigrationState io t p of
                          Inl e \<Rightarrow> (t, Some e)
                        | Inr (exists, managed) \<Rightarrow>
                            (if exists \<and> \<not> managed then (t, None)
                             else seq_run (os_MkdirAll io (butlast p) t)
                                    (os_WriteFile io p (renderPostgresMigration repositories)))))"

definition ShouldTrackPostgresMigrationAt ::
  "(io_op \<Rightarrow> bool) \<Rightarrow> schema_codec \<Rightarrow> tree \<Rightarrow> path \<Rightarrow> Manifest option \<Rightarrow> go_err + bool" where
  "ShouldTrackPostgresMigrationAt io cod t root m =
     (if \<not> has_postgres m then Inr False
      else bind_err (postgresMigrationState io t (PostgresMigrationPathAt root)) (\<lambda>(exists, managed).
             if exists then Inr managed else HasRepositorySchemasAt io cod t root))"

end
