(* ===== verification/MigrationFacts.thy ===== *)
theory MigrationFacts
  imports Migration PluginSchemaFacts FileTreeFacts
begin

text \<open>
  The managed migration: what it says, when it is written, and that the freshness check tracks it exactly
  when the generator manages it.
\<close>

section \<open>The lines of the migration\<close>

definition plain :: "string \<Rightarrow> bool" where
  "plain s \<longleftrightarrow> CHR 0x0A \<notin> set s"

definition plain_column :: "RepositoryColumn \<Rightarrow> bool" where
  "plain_column c \<longleftrightarrow> plain (rc_Name c) \<and> plain (rc_SQLType c) \<and> plain (rc_DefaultSQL c)"

definition plain_schema :: "RepositorySchema \<Rightarrow> bool" where
  "plain_schema r \<longleftrightarrow> plain (rs_Table r) \<and> list_all plain_column (rs_Columns r)"

definition unlines :: "string list \<Rightarrow> string" where
  "unlines ls = concat (map (\<lambda>l. l @ newline) ls)"

lemma unlines_simps [simp]: "unlines [] = []" "unlines (l # ls) = l @ newline @ unlines ls"
  "unlines (ls @ ls') = unlines ls @ unlines ls'"
  by (simp_all add: unlines_def)

lemma split_on_plain: "plain l \<Longrightarrow> split_on (CHR 0x0A) (l @ CHR 0x0A # s) = l # split_on (CHR 0x0A) s"
  by (induction l) (auto simp add: plain_def split: list.splits)

lemma split_unlines: "list_all plain ls \<Longrightarrow> split_on (CHR 0x0A) (unlines ls) = ls @ [[]]"
  by (induction ls) (simp_all add: split_on_plain newline_def)

fun column_lines :: "RepositoryColumn list \<Rightarrow> string list" where
  "column_lines [] = []"
| "column_lines (c # cs) = (''    '' @ renderPostgresColumn c @ (if cs \<noteq> [] then '','' else [])) # column_lines cs"

definition table_lines :: "RepositorySchema \<Rightarrow> string list" where
  "table_lines r = (''CREATE TABLE IF NOT EXISTS '' @ rs_Table r @ '' ('') # column_lines (rs_Columns r) @ ['');'']"

fun tables_lines :: "bool \<Rightarrow> RepositorySchema list \<Rightarrow> string list" where
  "tables_lines first [] = []"
| "tables_lines first (r # rs) = (if first then [] else [[]]) @ table_lines r @ tables_lines False rs"

lemma render_columns_lines: "render_columns cs = unlines (column_lines cs)"
  by (induction cs) simp_all

lemma render_tables_lines: "render_tables first rs = unlines (tables_lines first rs)"
  by (induction first rs rule: render_tables.induct)
     (simp_all add: render_table_def table_lines_def render_columns_lines)

lemma plain_simps [simp]: "plain []" "plain (a @ b) \<longleftrightarrow> plain a \<and> plain b" "plain (c # s) \<longleftrightarrow> c \<noteq> CHR 0x0A \<and> plain s"
  by (auto simp add: plain_def)

lemma plain_join: "plain sep \<Longrightarrow> list_all plain xs \<Longrightarrow> plain (join sep xs)"
  by (induction sep xs rule: join.induct) simp_all

lemma column_lines_plain: "list_all plain_column cs \<Longrightarrow> list_all plain (column_lines cs)"
  by (induction cs) (auto simp add: renderPostgresColumn_def plain_column_def intro!: plain_join)

lemma tables_lines_plain: "list_all plain_schema rs \<Longrightarrow> list_all plain (tables_lines first rs)"
  by (induction first rs rule: tables_lines.induct)
     (auto simp add: table_lines_def plain_schema_def column_lines_plain)

text \<open>The table of a line that opens one.\<close>

definition created_table :: "string \<Rightarrow> string option" where
  "created_table line =
     (if has_prefix line ''CREATE TABLE IF NOT EXISTS ''
      then Some (trim_suffix (trim_prefix line ''CREATE TABLE IF NOT EXISTS '') '' ('') else None)"

lemma map_filter_append: "List.map_filter f (xs @ ys) = List.map_filter f xs @ List.map_filter f ys"
  by (simp add: List.map_filter_def)

lemma created_table_open: "created_table (''CREATE TABLE IF NOT EXISTS '' @ n @ '' ('') = Some n"
  by (simp add: created_table_def has_prefix_def trim_prefix_def trim_suffix_def has_suffix_def)

lemma column_lines_created: "List.map_filter created_table (column_lines cs) = []"
  by (induction cs) (simp_all add: List.map_filter_simps created_table_def has_prefix_def)

lemma tables_lines_created: "List.map_filter created_table (tables_lines first rs) = map rs_Table rs"
  by (induction first rs rule: tables_lines.induct)
     (simp_all add: List.map_filter_simps map_filter_append table_lines_def column_lines_created
       created_table_open del: append_Cons append_Nil, simp_all add: List.map_filter_simps created_table_def has_prefix_def)

lemma render_lines:
  "renderPostgresMigration rs =
     unlines (generatedPostgresMigrationHeader # [] # tables_lines True (sort_key rs_Table rs))"
  by (simp add: renderPostgresMigration_def render_tables_lines)

lemma render_tables_created:
  assumes "list_all plain_schema rs"
  shows "List.map_filter created_table (split_on (CHR 0x0A) (renderPostgresMigration rs)) =
    map rs_Table (sort_key rs_Table rs)"
proof -
  let ?ls = "generatedPostgresMigrationHeader # [] # tables_lines True (sort_key rs_Table rs)"
  have "list_all plain_schema (sort_key rs_Table rs)" using assms by (simp add: list_all_iff)
  then have "list_all plain ?ls"
    by (simp add: tables_lines_plain generatedPostgresMigrationHeader_def)
  then have "split_on (CHR 0x0A) (renderPostgresMigration rs) = ?ls @ [[]]"
    unfolding render_lines by (rule split_unlines)
  moreover have "List.map_filter created_table (?ls @ [[]]) = map rs_Table (sort_key rs_Table rs)"
    by (simp add: map_filter_append List.map_filter_simps tables_lines_created created_table_def
        has_prefix_def generatedPostgresMigrationHeader_def)
  ultimately show ?thesis by simp
qed

section \<open>The managed file\<close>

lemma render_managed: "has_prefix (renderPostgresMigration rs) generatedPostgresMigrationHeader"
  by (simp add: renderPostgresMigration_def has_prefix_def)

lemma read_file: "os_ReadFile io t p = Inr data \<Longrightarrow> map_of t p = Some (File data)"
  by (auto simp add: os_ReadFile_def split: if_splits option.splits node.splits)

lemma read_missing: "file_missing io t p \<Longrightarrow> \<not> io (OpRead p) \<and> map_of t p = None"
  by (simp add: file_missing_def)

lemma write_migration:
  assumes "seq_run (os_MkdirAll io (butlast p) t) (os_WriteFile io p data) = (t', None)"
  shows "map_of t' p = Some (File data) \<and> changed_at p t t'"
proof -
  have "writeFile io p data t = (t', None)" using assms by (simp add: writeFile_def)
  then show ?thesis using writeFile_lookup(1) changed_at_ops(2) [of io p "[]"] by auto
qed

lemma GenerateE:
  assumes "GeneratePostgresMigrationAt io cod root m t = (t', None)" and "has_postgres m"
    and "ReadRepositorySchemaAt io cod t root = Inr rs" and "rs \<noteq> []"
  obtains (unmanaged) data where "os_ReadFile io t (PostgresMigrationPathAt root) = Inr data"
      "\<not> has_prefix data generatedPostgresMigrationHeader" "t' = t"
  | (managed) "map_of t' (PostgresMigrationPathAt root) = Some (File (renderPostgresMigration rs))"
      "changed_at (PostgresMigrationPathAt root) t t'" "\<not> io (OpRead (PostgresMigrationPathAt root))"
      "file_missing io t (PostgresMigrationPathAt root) \<or>
       (\<exists>data. os_ReadFile io t (PostgresMigrationPathAt root) = Inr data \<and> has_prefix data generatedPostgresMigrationHeader)"
proof -
  let ?p = "PostgresMigrationPathAt root"
  have run: "GeneratePostgresMigrationAt io cod root m t =
      (case postgresMigrationState io t ?p of
         Inl e \<Rightarrow> (t, Some e)
       | Inr (exists, managed) \<Rightarrow>
           (if exists \<and> \<not> managed then (t, None)
            else seq_run (os_MkdirAll io (butlast ?p) t) (os_WriteFile io ?p (renderPostgresMigration rs))))"
    using assms(2-4) by (simp add: GeneratePostgresMigrationAt_def Let_def)
  obtain ex mg where st: "postgresMigrationState io t ?p = Inr (ex, mg)"
    using assms(1) run by (cases "postgresMigrationState io t ?p") auto
  show ?thesis
  proof (cases "ex \<and> \<not> mg")
    case True
    then have "t' = t" using assms(1) run st by simp
    moreover obtain data where "os_ReadFile io t ?p = Inr data" "\<not> has_prefix data generatedPostgresMigrationHeader"
      using st True by (auto simp add: postgresMigrationState_def split: if_splits)
    ultimately show ?thesis using unmanaged by blast
  next
    case False
    then have "seq_run (os_MkdirAll io (butlast ?p) t) (os_WriteFile io ?p (renderPostgresMigration rs)) = (t', None)"
      using assms(1) run st by auto
    note w = write_migration [OF this]
    have "\<not> io (OpRead ?p)" and "file_missing io t ?p \<or>
       (\<exists>data. os_ReadFile io t ?p = Inr data \<and> has_prefix data generatedPostgresMigrationHeader)"
      using st False by (auto simp add: postgresMigrationState_def os_ReadFile_def file_missing_def split: if_splits)
    then show ?thesis using managed w by blast
  qed
qed

text \<open>When the generator succeeds on a service with Postgres and repositories, the freshness check
  tracks the migration exactly if it is managed (absent, or with the generated header).  A managed migration
  is then the rendering of the schemas and nothing else has changed, and it stays tracked; one that the user
  has taken over is left alone.\<close>

theorem migration_tracked_iff_managed:
  assumes "GeneratePostgresMigrationAt io cod root m t = (t', None)" and "has_postgres m"
    and "ReadRepositorySchemaAt io cod t root = Inr rs" and "rs \<noteq> []"
    and "ShouldTrackPostgresMigrationAt io cod t root m = Inr tracked"
  shows "if tracked
    then map_of t' (PostgresMigrationPathAt root) = Some (File (renderPostgresMigration rs)) \<and>
      changed_at (PostgresMigrationPathAt root) t t' \<and> ShouldTrackPostgresMigrationAt io cod t' root m = Inr True
    else t' = t \<and> (\<exists>data. map_of t (PostgresMigrationPathAt root) = Some (File data) \<and>
      \<not> has_prefix data generatedPostgresMigrationHeader)"
  using assms(1-4)
proof (cases rule: GenerateE)
  case (unmanaged data)
  then have "map_of t (PostgresMigrationPathAt root) = Some (File data)"
    by (auto simp add: os_ReadFile_def split: if_splits option.splits node.splits)
  moreover from this have "tracked = False"
    using assms(2,5) unmanaged
    by (auto simp add: ShouldTrackPostgresMigrationAt_def postgresMigrationState_def file_missing_def)
  ultimately show ?thesis using unmanaged by auto
next
  case managed
  have has: "HasRepositorySchemasAt io cod t root = Inr True"
    using assms(3,4) by (auto simp add: HasRepositorySchemasAt_def ReadRepositorySchemaAt_def os_ReadFile_def
        file_missing_def split: if_splits option.splits)
  have "tracked = True"
    using assms(2,5) managed(4) has
    by (auto simp add: ShouldTrackPostgresMigrationAt_def postgresMigrationState_def file_missing_def os_ReadFile_def
        split: if_splits option.splits)
  moreover have "ShouldTrackPostgresMigrationAt io cod t' root m = Inr True"
    using assms(2) managed(1,3) render_managed
    by (simp add: ShouldTrackPostgresMigrationAt_def postgresMigrationState_def file_missing_def os_ReadFile_def)
  ultimately show ?thesis using managed(1,2) by simp
qed

lemma map_sort_twice: "distinct (map f xs) \<Longrightarrow> map f (sort_key f (sort_key f xs)) = sort (map f xs)"
  by (intro sorted_distinct_set_unique) (simp_all add: distinct_map inj_on_def)

text \<open>C23: from the protobuf files to the database: if the plugin has written the metadata of the
  hub files and no migration exists yet, a successful generation writes one that creates exactly the tables
  that the repositories declare, each once, in alphabetical order.\<close>

theorem hub_repositories_migrated:
  assumes "generateSchemaMetadata cod files = Inr data"
    and "\<And>rs d. sc_Encode cod rs = Inr d \<Longrightarrow> sc_Decode cod d = Inr rs"
    and "map_of t (RepositorySchemaPathAt root) = Some (File data)"
    and "GeneratePostgresMigrationAt io cod root m t = (t', None)" and "has_postgres m"
    and "file_missing io t (PostgresMigrationPathAt root)" and "declarations files \<noteq> []"
    and "\<forall>d \<in> set (declarations files). \<forall>r. declared_schema d = Inr r \<longrightarrow> plain_schema r"
  shows "\<exists>text. map_of t' (PostgresMigrationPathAt root) = Some (File text) \<and>
    List.map_filter created_table (split_on (CHR 0x0A) text) = sort (map (\<lambda>(f, s, r). re_Table r) (declarations files))"
proof -
  obtain rs where rs: "collectRepositorySchemas files = Inr rs" "sc_Encode cod rs = Inr data"
    using assms(1) by (auto simp add: generateSchemaMetadata_def EncodeRepositorySchema_def)
  then obtain schemas where m: "map declared_schema (declarations files) = map Inr schemas"
    and dist: "distinct (map rs_Table schemas)" and rs': "rs = sort_key rs_Table schemas"
    using collect_iff by blast
  have read: "ReadRepositorySchemaAt io cod t root = Inr rs"
  proof -
    have "\<exists>rs. ReadRepositorySchemaAt io cod t root = Inr rs"
      using assms(4,5) by (auto simp add: GeneratePostgresMigrationAt_def split: sum.splits)
    then show ?thesis using assms(2) [OF rs(2)] assms(3)
      by (auto simp add: ReadRepositorySchemaAt_def os_ReadFile_def split: if_splits)
  qed
  have "schemas \<noteq> []" using m assms(7) by auto
  then have "rs \<noteq> []" unfolding rs' by (metis set_empty set_sort)
  have written: "map_of t' (PostgresMigrationPathAt root) = Some (File (renderPostgresMigration rs))"
    using GenerateE [OF assms(4,5) read \<open>rs \<noteq> []\<close>] assms(6)
    by (metis file_missing_def option.distinct(1) read_file)
  have schema: "Inr r \<in> set (map declared_schema (declarations files))" if "r \<in> set schemas" for r
    unfolding m using that by simp
  then have "list_all plain_schema rs"
    using assms(8) by (fastforce simp add: rs' list_all_iff)
  then have lines: "List.map_filter created_table (split_on (CHR 0x0A) (renderPostgresMigration rs)) =
      map rs_Table (sort_key rs_Table rs)" by (rule render_tables_created)
  have "map rs_Table schemas = map (\<lambda>(f, s, r). re_Table r) (declarations files)"
  proof -
    have "declared_schema d = Inr r \<Longrightarrow> rs_Table r = (case d of (f, s, r) \<Rightarrow> re_Table r)" for d r
      by (cases d) (auto simp add: declared_schema_def dest: service_schema_sel)
    then show ?thesis using m
      by (intro nth_equalityI) (auto simp add: list_eq_iff_nth_eq)
  qed
  then have "map rs_Table (sort_key rs_Table rs) = sort (map (\<lambda>(f, s, r). re_Table r) (declarations files))"
    using map_sort_twice [OF dist] by (simp only: rs')
  with written lines show ?thesis by (intro exI [of _ "renderPostgresMigration rs"]) simp
qed

section \<open>Witnesses\<close>

definition demo_schemas :: "RepositorySchema list" where
  "demo_schemas = (case collectRepositorySchemas [demo_proto_file] of Inr rs \<Rightarrow> rs | Inl _ \<Rightarrow> [])"

definition demo_schema_codec :: schema_codec where
  "demo_schema_codec =
     \<lparr>sc_Encode = (\<lambda>rs. if rs = demo_schemas then Inr ''S'' else Inl (PlainErr [])),
      sc_Decode = (\<lambda>d. if d = ''S'' then Inr demo_schemas else Inl (PlainErr []))\<rparr>"

definition demo_project :: tree where
  "demo_project = [([], Dir), ([''gen''], Dir), ([''gen'', ''zengo''], Dir),
     ([''gen'', ''zengo'', ''schema_gen.json''], File ''S'')]"

definition demo_db_manifest :: Manifest where
  "demo_db_manifest = \<lparr>m_Service = \<lparr>sv_Name = ''user-service'', sv_Module = ''example.com/user''\<rparr>,
     m_Transports = \<lparr>t_GRPC = None, t_REST = None\<rparr>,
     m_Observability = \<lparr>ob_Metrics = False, ob_Tracing = False, ob_Health = False, ob_TracingConfigFrom = [],
       ob_LoggingConfigFrom = []\<rparr>,
     m_Auth = None, m_DB = Some \<lparr>db_Postgres = Some \<lparr>pg_ConfigFrom = [], pg_Queries = []\<rparr>,
       db_Cassandra = None, db_Oracle = None\<rparr>,
     m_Queue = None, m_Cache = None, m_Storage = None, m_Compatibility = None\<rparr>"

lemma demo_generated:
  "snd (GeneratePostgresMigrationAt (\<lambda>_. False) demo_schema_codec [] (Some demo_db_manifest) demo_project) = None"
  "has_postgres (Some demo_db_manifest)"
  "demo_schemas \<noteq> []"
  "ReadRepositorySchemaAt (\<lambda>_. False) demo_schema_codec demo_project [] = Inr demo_schemas"
  by code_simp+

theorem migration_tracked_iff_managed_witness:
  "\<exists>t'. GeneratePostgresMigrationAt (\<lambda>_. False) demo_schema_codec [] (Some demo_db_manifest) demo_project = (t', None) \<and>
    map_of t' [''migrations'', ''001_init.sql''] = Some (File (renderPostgresMigration demo_schemas)) \<and>
    ShouldTrackPostgresMigrationAt (\<lambda>_. False) demo_schema_codec t' [] (Some demo_db_manifest) = Inr True"
proof -
  let ?g = "GeneratePostgresMigrationAt (\<lambda>_. False) demo_schema_codec [] (Some demo_db_manifest) demo_project"
  obtain t' where g: "?g = (t', None)" using demo_generated(1) by (metis prod.collapse)
  have "ShouldTrackPostgresMigrationAt (\<lambda>_. False) demo_schema_codec demo_project [] (Some demo_db_manifest) = Inr True"
    by code_simp
  from migration_tracked_iff_managed [OF g demo_generated(2,4,3) this] show ?thesis
    using g by (simp add: PostgresMigrationPathAt_def)
qed

theorem hub_repositories_migrated_witness:
  "\<exists>t' text. GeneratePostgresMigrationAt (\<lambda>_. False) demo_schema_codec [] (Some demo_db_manifest) demo_project = (t', None) \<and>
    map_of t' [''migrations'', ''001_init.sql''] = Some (File text) \<and>
    List.map_filter created_table (split_on (CHR 0x0A) text) = [''accounts'', ''users'']"
proof -
  let ?g = "GeneratePostgresMigrationAt (\<lambda>_. False) demo_schema_codec [] (Some demo_db_manifest) demo_project"
  obtain t' where g: "?g = (t', None)" using demo_generated(1) by (metis prod.collapse)
  have meta: "generateSchemaMetadata demo_schema_codec [demo_proto_file] = Inr ''S''" by code_simp
  have codec: "sc_Encode demo_schema_codec rs = Inr d \<Longrightarrow> sc_Decode demo_schema_codec d = Inr rs" for rs d
    by (auto simp add: demo_schema_codec_def split: if_splits)
  have data: "map_of demo_project (RepositorySchemaPathAt []) = Some (File ''S'')" by code_simp
  have new: "file_missing (\<lambda>_. False) demo_project (PostgresMigrationPathAt [])" by code_simp
  have tabs: "sort (map (\<lambda>(f, s, r). re_Table r) (declarations [demo_proto_file])) = [''accounts'', ''users'']" by code_simp
  then have decl: "declarations [demo_proto_file] \<noteq> []" by auto
  have "list_all (\<lambda>d. case declared_schema d of Inr r \<Rightarrow> plain_schema r | Inl _ \<Rightarrow> True) (declarations [demo_proto_file])"
    by code_simp
  then have "\<forall>d \<in> set (declarations [demo_proto_file]). \<forall>r. declared_schema d = Inr r \<longrightarrow> plain_schema r"
    by (auto simp add: list_all_iff split: sum.splits)
  from hub_repositories_migrated [OF meta codec data g demo_generated(2) new decl this] show ?thesis
    using g tabs by (simp add: PostgresMigrationPathAt_def)
qed

end
