(* ===== verification/Gateway.thy ===== *)
theory Gateway
  imports TLSConfig Policy "HOL-Library.AList"
begin

text \<open>
  The constructors of the two managed transports: the HTTP gateway (\<open>sdk/gateway/gateway.go\<close>) and the
  gRPC server (\<open>sdk/transport/grpc/server.go\<close>).

  Listeners are numbers, and the state is the list of those that are open.  A grpc-gateway mux is a
  value of \<open>'m\<close> that registration functions change.  The patterns of the root mux are plain paths, for
  which \<open>http.ServeMux.Handle\<close> panics exactly on a repeated or an empty one.
\<close>

section \<open>Environment\<close>

datatype start_error = Panic string | Failed go_err

type_synonym listener = nat

record ('pool, 'cert) net_env =
  ne_tls :: "(go_err, 'pool, 'cert) tls_env"
  ne_tlsError :: "go_err tls_error \<Rightarrow> go_err"
  ne_listen :: "listener list \<Rightarrow> string \<Rightarrow> go_err + listener"

text \<open>Calls of \<open>ServerConfig\<close> and \<open>ClientConfig\<close> with options, their errors as Go errors.\<close>

definition server_tls :: "('pool, 'cert) net_env \<Rightarrow> ServerOptions \<Rightarrow> go_err + ('pool, 'cert) tls_Config option" where
  "server_tls env opts = wrap_err (ne_tlsError env) (ServerConfig (ne_tls env) (Some opts))"

definition client_tls :: "('pool, 'cert) net_env \<Rightarrow> ClientOptions \<Rightarrow> go_err + ('pool, 'cert) tls_Config option" where
  "client_tls env opts = wrap_err (ne_tlsError env) (ClientConfig (ne_tls env) (Some opts))"

definition fail_with :: "string \<Rightarrow> go_err + 'a \<Rightarrow> start_error + 'a" where
  "fail_with what r = wrap_err (\<lambda>e. Failed (WrapErr what e)) r"

section \<open>The gateway\<close>

datatype ('pool, 'cert) dial_option = InsecureCreds | TLSCreds "('pool, 'cert) tls_Config option" | TracingDial

type_synonym ('pool, 'cert, 'm) RegisterFunc =
  "string \<Rightarrow> ('pool, 'cert) dial_option list \<Rightarrow> 'm \<Rightarrow> go_err + 'm"

record ('pool, 'cert, 'm) RouteGroup =
  rg_Prefix :: string
  rg_GRPCAddr :: string
  rg_Register :: "('pool, 'cert, 'm) RegisterFunc list"

record ('pool, 'cert, 'm, 'h) GatewayOptions =
  go_Addr :: string
  go_GRPCAddr :: string
  go_GRPCTLS :: "ClientOptions option"
  go_TLS :: "ServerOptions option"
  go_Register :: "('pool, 'cert, 'm) RegisterFunc list"
  go_Groups :: "('pool, 'cert, 'm) RouteGroup list"
  go_ExtraHandlers :: "(string \<times> 'h) list"
  go_EnableTracing :: bool
  go_Policy :: Options
  go_ReadHeaderTimeout :: int

text \<open>A handler of the root mux: a group behind the prefix that it strips, or an extra handler.\<close>

datatype ('m, 'h) route = GroupRoute string 'm | ExtraRoute 'h

type_synonym ('m, 'h) root_mux = "(string \<times> ('m, 'h) route) list"

definition mux_Handle :: "string \<Rightarrow> ('m, 'h) route \<Rightarrow> ('m, 'h) root_mux \<Rightarrow> start_error + ('m, 'h) root_mux" where
  "mux_Handle pattern r rmux =
     (if pattern = [] \<or> map_of rmux pattern \<noteq> None then Inl (Panic pattern) else Inr (rmux @ [(pattern, r)]))"

definition normalizeGroups :: "('pool, 'cert, 'm, 'h) GatewayOptions \<Rightarrow> ('pool, 'cert, 'm) RouteGroup list" where
  "normalizeGroups opts =
     (if go_Register opts \<noteq> []
      then [\<lparr>rg_Prefix = [], rg_GRPCAddr = go_GRPCAddr opts, rg_Register = go_Register opts\<rparr>] else []) @
     map (\<lambda>grp. if rg_GRPCAddr grp = [] then grp\<lparr>rg_GRPCAddr := go_GRPCAddr opts\<rparr> else grp) (go_Groups opts)"

fun register_all ::
  "string \<Rightarrow> ('pool, 'cert) dial_option list \<Rightarrow> ('pool, 'cert, 'm) RegisterFunc list \<Rightarrow> 'm \<Rightarrow> start_error + 'm" where
  "register_all endpoint dialOpts [] mux = Inr mux"
| "register_all endpoint dialOpts (register # registers) mux =
     bind_err (fail_with ''register gateway handler'' (register endpoint dialOpts mux))
       (register_all endpoint dialOpts registers)"

definition newGroupMux ::
  "('pool, 'cert) net_env \<Rightarrow> 'm \<Rightarrow> ('pool, 'cert, 'm) RouteGroup \<Rightarrow> ('pool, 'cert, 'm, 'h) GatewayOptions
     \<Rightarrow> start_error + 'm" where
  "newGroupMux env newMux grp opts =
     (let endpoint = rg_GRPCAddr grp
      in bind_err (case go_GRPCTLS opts of
                     None \<Rightarrow> Inr [InsecureCreds]
                   | Some tls \<Rightarrow>
                       bind_err (fail_with ''gateway grpc client tls'' (client_tls env tls)) (\<lambda>tlsCfg.
                         Inr [TLSCreds tlsCfg])) (\<lambda>dialOpts.
           let dialOpts = dialOpts @ (if go_EnableTracing opts then [TracingDial] else [])
           in if rg_Register grp \<noteq> [] \<and> endpoint = []
              then Inl (Failed (PlainErr ''gateway grpc address is required''))
              else register_all endpoint dialOpts (rg_Register grp) newMux))"

definition normalizePrefix :: "string \<Rightarrow> string" where
  "normalizePrefix pfx =
     (let pfx = ''/'' @ trim_func (\<lambda>c. c = CHR ''/'') pfx in if pfx = ''/'' then [] else pfx)"

definition mountGroup :: "('m, 'h) root_mux \<Rightarrow> string \<Rightarrow> 'm \<Rightarrow> start_error + ('m, 'h) root_mux" where
  "mountGroup rmux pfx mux =
     (if pfx = [] \<or> pfx = ''/'' then mux_Handle ''/'' (GroupRoute [] mux) rmux
      else let pfx = normalizePrefix pfx in mux_Handle (pfx @ ''/'') (GroupRoute pfx mux) rmux)"

fun mount_groups ::
  "('pool, 'cert) net_env \<Rightarrow> 'm \<Rightarrow> ('pool, 'cert, 'm, 'h) GatewayOptions \<Rightarrow> ('pool, 'cert, 'm) RouteGroup list
     \<Rightarrow> ('m, 'h) root_mux \<times> 'm option \<Rightarrow> start_error + ('m, 'h) root_mux \<times> 'm option" where
  "mount_groups env newMux opts [] acc = Inr acc"
| "mount_groups env newMux opts (grp # groups) (rmux, defaultMux) =
     bind_err (newGroupMux env newMux grp opts) (\<lambda>mux.
       bind_err (mountGroup rmux (rg_Prefix grp) mux) (\<lambda>rmux.
         mount_groups env newMux opts groups
           (rmux, (case defaultMux of None \<Rightarrow> Some mux | Some m \<Rightarrow> Some m))))"

fun mount_extra :: "(string \<times> 'h) list \<Rightarrow> ('m, 'h) root_mux \<Rightarrow> start_error + ('m, 'h) root_mux" where
  "mount_extra [] rmux = Inr rmux"
| "mount_extra ((pattern, h) # hs) rmux = bind_err (mux_Handle pattern (ExtraRoute h) rmux) (mount_extra hs)"

text \<open>The middleware around the root mux, the outermost first.\<close>

datatype middleware = TracingMiddleware string | PolicyMiddleware Options

record ('pool, 'cert, 'm, 'h) GatewayServer =
  gs_mux :: 'm
  gs_root :: "('m, 'h) root_mux"
  gs_middleware :: "middleware list"
  gs_readHeaderTimeout :: int
  gs_listener :: listener
  gs_tls :: "('pool, 'cert) tls_Config option option"
  gs_addr :: string

definition gateway_handlers ::
  "('pool, 'cert) net_env \<Rightarrow> 'm \<Rightarrow> ('pool, 'cert, 'm, 'h) GatewayOptions \<Rightarrow> start_error + ('m, 'h) root_mux \<times> 'm" where
  "gateway_handlers env newMux opts =
     bind_err (mount_groups env newMux opts (normalizeGroups opts) ([], None)) (\<lambda>(rmux, defaultMux).
       bind_err (case defaultMux of
                   Some m \<Rightarrow> Inr (rmux, m)
                 | None \<Rightarrow> bind_err (mux_Handle ''/'' (GroupRoute [] newMux) rmux) (\<lambda>rmux. Inr (rmux, newMux)))
         (\<lambda>(rmux, m). bind_err (mount_extra (go_ExtraHandlers opts) rmux) (\<lambda>rmux. Inr (rmux, m))))"

definition New_gateway ::
  "('pool, 'cert) net_env \<Rightarrow> 'm \<Rightarrow> ('pool, 'cert, 'm, 'h) GatewayOptions \<Rightarrow> listener list
     \<Rightarrow> listener list \<times> (start_error + ('pool, 'cert, 'm, 'h) GatewayServer)" where
  "New_gateway env newMux opts opened =
     (case gateway_handlers env newMux opts of
        Inl e \<Rightarrow> (opened, Inl e)
      | Inr (rmux, defaultMux) \<Rightarrow>
          (let middleware = (if go_EnableTracing opts then [TracingMiddleware ''rest''] else []) @
                 (if Enabled (go_Policy opts) then [PolicyMiddleware (go_Policy opts)] else [])
           in case ne_listen env opened (go_Addr opts) of
                Inl e \<Rightarrow> (opened, Inl (Failed (WrapErr (''listen '' @ go_Addr opts) e)))
              | Inr lis \<Rightarrow>
                  (let server = (\<lambda>tls. \<lparr>gs_mux = defaultMux, gs_root = rmux, gs_middleware = middleware,
                         gs_readHeaderTimeout = (if go_ReadHeaderTimeout opts \<le> 0 then 5000000000
                                                 else go_ReadHeaderTimeout opts),
                         gs_listener = lis, gs_tls = tls, gs_addr = go_Addr opts\<rparr>)
                   in case go_TLS opts of
                        None \<Rightarrow> (lis # opened, Inr (server None))
                      | Some tls \<Rightarrow>
                          (case server_tls env tls of
                             Inl e \<Rightarrow> (remove1 lis (lis # opened), Inl (Failed (WrapErr ''gateway server tls'' e)))
                           | Inr tlsCfg \<Rightarrow> (lis # opened, Inr (server (Some tlsCfg)))))))"

section \<open>The gRPC server\<close>

text \<open>A server is \<open>'g\<close>; \<open>newServer\<close> is \<open>grpc.NewServer\<close> with optional credentials.\<close>

record 'g TransportOptions =
  to_Addr :: string
  to_Server :: "'g option"
  to_TLS :: "ServerOptions option"
  to_EnableReflection :: bool

record 'g TransportServer =
  ts_grpc :: 'g
  ts_reflection :: bool
  ts_listener :: listener
  ts_addr :: string

definition transport_server ::
  "('pool, 'cert) net_env \<Rightarrow> (('pool, 'cert) tls_Config option option \<Rightarrow> 'g) \<Rightarrow> 'g TransportOptions
     \<Rightarrow> start_error + 'g" where
  "transport_server env newServer opts =
     (case to_Server opts of
        None \<Rightarrow>
          (case to_TLS opts of
             None \<Rightarrow> Inr (newServer None)
           | Some tls \<Rightarrow>
               bind_err (fail_with ''grpc server tls'' (server_tls env tls)) (\<lambda>tlsCfg. Inr (newServer (Some tlsCfg))))
      | Some srv \<Rightarrow>
          (if to_TLS opts \<noteq> None
           then Inl (Failed (PlainErr ''grpc tls must be configured when constructing the provided grpc.Server''))
           else Inr srv))"

definition New_transport ::
  "('pool, 'cert) net_env \<Rightarrow> (('pool, 'cert) tls_Config option option \<Rightarrow> 'g) \<Rightarrow> 'g TransportOptions \<Rightarrow> listener list
     \<Rightarrow> listener list \<times> (start_error + 'g TransportServer)" where
  "New_transport env newServer opts opened =
     (case transport_server env newServer opts of
        Inl e \<Rightarrow> (opened, Inl e)
      | Inr srv \<Rightarrow>
          (case ne_listen env opened (to_Addr opts) of
             Inl e \<Rightarrow> (opened, Inl (Failed (WrapErr (''listen '' @ to_Addr opts) e)))
           | Inr lis \<Rightarrow>
               (lis # opened, Inr \<lparr>ts_grpc = srv, ts_reflection = to_EnableReflection opts, ts_listener = lis,
                                 ts_addr = to_Addr opts\<rparr>)))"

text \<open>\<open>Shutdown\<close>: \<open>ctxErr\<close> is the error of the context when it is done before the graceful stop.\<close>

datatype stop_op = GracefulStop | Stop

definition Shutdown_transport :: "go_err option \<Rightarrow> stop_op list \<times> go_err option" where
  "Shutdown_transport ctxErr =
     (case ctxErr of Some e \<Rightarrow> ([GracefulStop, Stop], Some e) | None \<Rightarrow> ([GracefulStop], None))"

end
