(* ===== verification/GatewayFacts.thy ===== *)
theory GatewayFacts
  imports Gateway
begin

text \<open>
  The gateway serves every group and every extra handler at a pattern of its own or does not start, and no
  listener stays open when it does not.
\<close>

definition group_pattern :: "string \<Rightarrow> string" where
  "group_pattern p = (if p = [] \<or> p = ''/'' then ''/'' else normalizePrefix p @ ''/'')"

lemma mux_Handle_Inr:
  "mux_Handle p r m = Inr m' \<longleftrightarrow> p \<noteq> [] \<and> p \<notin> set (map fst m) \<and> m' = m @ [(p, r)]"
  by (auto simp add: mux_Handle_def map_of_eq_None_iff)

lemma mountGroup_Inr:
  "mountGroup m p mux = Inr m' \<Longrightarrow>
     (\<exists>r. m' = m @ [(group_pattern p, GroupRoute r mux)]) \<and> group_pattern p \<notin> set (map fst m)"
  by (auto simp add: mountGroup_def group_pattern_def mux_Handle_Inr Let_def split: if_splits)

text \<open>The mux of a group: the functions of the group, run in order on a new mux.\<close>

lemma mount_groups_Inr:
  "mount_groups env newMux opts groups (m, d) = Inr (m', d') \<Longrightarrow>
     map fst m' = map fst m @ map (group_pattern \<circ> rg_Prefix) groups \<and>
     (distinct (map fst m) \<longrightarrow> distinct (map fst m')) \<and> (d' = None \<longleftrightarrow> d = None \<and> groups = []) \<and>
     list_all (\<lambda>grp. \<exists>r mux. newGroupMux env newMux grp opts = Inr mux \<and>
       (group_pattern (rg_Prefix grp), GroupRoute r mux) \<in> set m') groups \<and> set m \<subseteq> set m'"
proof (induction groups arbitrary: m d)
  case (Cons grp groups)
  obtain mux m1 where n: "newGroupMux env newMux grp opts = Inr mux"
    and mt: "mountGroup m (rg_Prefix grp) mux = Inr m1"
    and r: "mount_groups env newMux opts groups (m1, case d of None \<Rightarrow> Some mux | Some m \<Rightarrow> Some m) = Inr (m', d')"
    using Cons.prems by auto
  obtain pre where m1: "m1 = m @ [(group_pattern (rg_Prefix grp), GroupRoute pre mux)]"
      "group_pattern (rg_Prefix grp) \<notin> set (map fst m)"
    using mountGroup_Inr [OF mt] by blast
  note ih = Cons.IH [OF r]
  have "(group_pattern (rg_Prefix grp), GroupRoute pre mux) \<in> set m'" using ih m1(1) by auto
  moreover have "distinct (map fst m) \<longrightarrow> distinct (map fst m1)" using m1 by auto
  moreover have "map fst m' = map fst m @ map (group_pattern \<circ> rg_Prefix) (grp # groups)" using ih m1(1) by simp
  moreover have "d' \<noteq> None" using ih by (auto split: option.splits)
  moreover have "set m \<subseteq> set m'" using ih m1(1) by auto
  moreover have "list_all (\<lambda>grp. \<exists>r mux. newGroupMux env newMux grp opts = Inr mux \<and>
      (group_pattern (rg_Prefix grp), GroupRoute r mux) \<in> set m') groups" using ih by blast
  ultimately show ?case using ih n unfolding list.pred_inject(2) by blast
qed auto

lemma mount_extra_Inr:
  "mount_extra hs m = Inr m' \<Longrightarrow> m' = m @ map (\<lambda>(p, h). (p, ExtraRoute h)) hs \<and>
     (distinct (map fst m) \<longrightarrow> distinct (map fst m'))"
proof (induction hs arbitrary: m)
  case (Cons e hs)
  obtain p h where e: "e = (p, h)" by (cases e)
  have m: "p \<notin> set (map fst m)" "mount_extra hs (m @ [(p, ExtraRoute h)]) = Inr m'"
    using Cons.prems by (auto simp add: e mux_Handle_Inr)
  have "distinct (map fst m) \<longrightarrow> distinct (map fst (m @ [(p, ExtraRoute h)]))" using m(1) by auto
  then have "distinct (map fst m) \<longrightarrow> distinct (map fst m')" using Cons.IH [OF m(2)] by blast
  moreover have "m' = (m @ [(p, ExtraRoute h)]) @ map (\<lambda>(p, h). (p, ExtraRoute h)) hs" using Cons.IH [OF m(2)] by blast
  ultimately show ?case unfolding e by simp
qed simp

text \<open>The patterns that a configuration asks for.\<close>

definition wanted_patterns :: "('pool, 'cert, 'm, 'h) GatewayOptions \<Rightarrow> string list" where
  "wanted_patterns opts =
     (if normalizeGroups opts = [] then [''/''] else map (group_pattern \<circ> rg_Prefix) (normalizeGroups opts)) @
     map fst (go_ExtraHandlers opts)"

lemma gateway_handlers_Inr:
  assumes "gateway_handlers env newMux opts = Inr (m, d)"
  shows "map fst m = wanted_patterns opts" and "distinct (wanted_patterns opts)"
    and "set (map (\<lambda>(p, h). (p, ExtraRoute h)) (go_ExtraHandlers opts)) \<subseteq> set m"
    and "list_all (\<lambda>grp. \<exists>r mux. newGroupMux env newMux grp opts = Inr mux \<and>
      (group_pattern (rg_Prefix grp), GroupRoute r mux) \<in> set m) (normalizeGroups opts)"
proof -
  obtain m1 d1 m2 where g: "mount_groups env newMux opts (normalizeGroups opts) ([], None) = Inr (m1, d1)"
    and s: "(case d1 of Some m \<Rightarrow> Inr (m1, m)
        | None \<Rightarrow> bind_err (mux_Handle ''/'' (GroupRoute [] newMux) m1) (\<lambda>m. Inr (m, newMux))) = Inr (m2, d)"
    and x: "mount_extra (go_ExtraHandlers opts) m2 = Inr m"
    using assms unfolding gateway_handlers_def by auto
  note g' = mount_groups_Inr [OF g]
  have m2: "map fst m2 = (if normalizeGroups opts = [] then [''/''] else map fst m1) \<and> set m1 \<subseteq> set m2 \<and>
      distinct (map fst m2)"
    using s g' by (cases d1) (auto simp add: mux_Handle_Inr)
  note x' = mount_extra_Inr [OF x]
  show p: "map fst m = wanted_patterns opts"
    using x' m2 g' by (auto simp add: wanted_patterns_def comp_def split_def)
  show "distinct (wanted_patterns opts)" using x' m2 unfolding p [symmetric] by blast
  show "set (map (\<lambda>(p, h). (p, ExtraRoute h)) (go_ExtraHandlers opts)) \<subseteq> set m" using x' by simp
  show "list_all (\<lambda>grp. \<exists>r mux. newGroupMux env newMux grp opts = Inr mux \<and>
      (group_pattern (rg_Prefix grp), GroupRoute r mux) \<in> set m) (normalizeGroups opts)"
    using g' m2 x' by (fastforce simp add: list_all_iff)
qed

text \<open>C38: a gateway that starts holds one listener and serves what its options ask for: a route
  for every group, by a mux on which all the group's functions have been registered, and for every extra
  handler, at patterns that are pairwise different.  One that does not start, because of a registration, two
  equal patterns, the address or the TLS material, leaves no listener open.\<close>

theorem gateway_starts_complete_or_clean:
  "case New_gateway env newMux opts opened of
     (opened', Inl e) \<Rightarrow> opened' = opened
   | (opened', Inr srv) \<Rightarrow>
       opened' = gs_listener srv # opened \<and> ne_listen env opened (go_Addr opts) = Inr (gs_listener srv) \<and>
       (gs_tls srv = None) = (go_TLS opts = None) \<and>
       map fst (gs_root srv) = wanted_patterns opts \<and> distinct (wanted_patterns opts) \<and>
       set (map (\<lambda>(p, h). (p, ExtraRoute h)) (go_ExtraHandlers opts)) \<subseteq> set (gs_root srv) \<and>
       list_all (\<lambda>grp. \<exists>r mux. newGroupMux env newMux grp opts = Inr mux \<and>
         (group_pattern (rg_Prefix grp), GroupRoute r mux) \<in> set (gs_root srv)) (normalizeGroups opts)"
proof (cases "gateway_handlers env newMux opts")
  case (Inl e)
  then show ?thesis by (simp add: New_gateway_def)
next
  case (Inr r)
  obtain m d where r: "r = (m, d)" by (cases r)
  note h = gateway_handlers_Inr [OF Inr [unfolded r]]
  show ?thesis
    using Inr r h by (simp add: New_gateway_def Let_def split: sum.split option.split)
qed

end
