(* ===== verification/ServerChain.thy ===== *)
theory ServerChain
  imports Gateway ErrxFacts PolicyFacts AuthInterceptor
begin

text \<open>
  The construction of a gRPC server with its interceptors (\<open>NewGRPCServer\<close> and
  \<open>NewGRPCServerWithOptions\<close> of \<open>sdk/service/service.go\<close>), what the chain of interceptors does to a call,
  and the properties of the chain: it composes the policies of \<open>Policy\<close> with the errors of \<open>Errx\<close>.
\<close>

section \<open>Construction\<close>

datatype 'i interceptor = ErrxUnary | PolicyUnary Options | UserUnary 'i

text \<open>The options of \<open>grpc.NewServer\<close>: those of the user and the tracing options are opaque, and bring no
  unary interceptor of their own.\<close>

datatype ('pool, 'cert, 'o, 'i) server_option =
    OtherOption 'o
  | TracingOption
  | CredsOption "('pool, 'cert) tls_Config option"
  | UnaryInterceptorOption "'i interceptor"
  | ChainUnaryInterceptorOption "'i interceptor list"

record ('o, 'i) GRPCServerOptions =
  gso_EnableTracing :: bool
  gso_TLS :: "ServerOptions option"
  gso_Policy :: Options
  gso_UnaryInterceptors :: "'i option list"
  gso_ServerOptions :: "'o list"

definition compactUnaryInterceptors :: "'i option list \<Rightarrow> 'i list" where
  "compactUnaryInterceptors src = List.map_filter (\<lambda>i. i) src"

definition chain_of :: "('o, 'i) GRPCServerOptions \<Rightarrow> 'i interceptor list" where
  "chain_of opts =
     (let interceptors = map UserUnary (compactUnaryInterceptors (gso_UnaryInterceptors opts));
          interceptors = (if Enabled (gso_Policy opts) then [PolicyUnary (gso_Policy opts)] @ interceptors
                          else interceptors)
      in [ErrxUnary] @ interceptors)"

definition chain_options :: "'i interceptor list \<Rightarrow> ('pool, 'cert, 'o, 'i) server_option list" where
  "chain_options interceptors =
     (case interceptors of
        [] \<Rightarrow> []
      | [i] \<Rightarrow> [UnaryInterceptorOption i]
      | _ \<Rightarrow> [ChainUnaryInterceptorOption interceptors])"

text \<open>The options that the constructed server gets.\<close>

definition NewGRPCServerWithOptions ::
  "('pool, 'cert) net_env \<Rightarrow> ('o, 'i) GRPCServerOptions \<Rightarrow> go_err + ('pool, 'cert, 'o, 'i) server_option list" where
  "NewGRPCServerWithOptions env opts =
     bind_err (case gso_TLS opts of
                 None \<Rightarrow> Inr (map OtherOption (gso_ServerOptions opts))
               | Some tls \<Rightarrow>
                   bind_err (wrap_err (WrapErr ''build grpc server tls'') (server_tls env tls)) (\<lambda>tlsCfg.
                     Inr (map OtherOption (gso_ServerOptions opts) @ [CredsOption tlsCfg]))) (\<lambda>serverOpts.
       Inr ((if gso_EnableTracing opts then [TracingOption] else []) @ serverOpts @ chain_options (chain_of opts)))"

definition NewGRPCServer ::
  "('pool, 'cert) net_env \<Rightarrow> bool \<Rightarrow> 'o list \<Rightarrow> go_err + ('pool, 'cert, 'o, 'i) server_option list" where
  "NewGRPCServer env enableTracing opts =
     NewGRPCServerWithOptions env
       \<lparr>gso_EnableTracing = enableTracing, gso_TLS = None, gso_Policy = zero_Options, gso_UnaryInterceptors = [],
        gso_ServerOptions = opts\<rparr>"

section \<open>A call through the chain\<close>

text \<open>grpc-go runs the interceptors of a chain from the outside in, the first being the outermost.\<close>

fun unary_chain :: "('pool, 'cert, 'o, 'i) server_option list \<Rightarrow> 'i interceptor list" where
  "unary_chain [] = []"
| "unary_chain (UnaryInterceptorOption i # os) = i # unary_chain os"
| "unary_chain (ChainUnaryInterceptorOption ics # os) = ics @ unary_chain os"
| "unary_chain (_ # os) = unary_chain os"

text \<open>A call has an optional timeout and reads and changes the executor of the policy and the state of the
  application; it answers with a response and an error.  The executor belongs to the policy: what is inside
  the policy changes the application only.\<close>

type_synonym ('s, 'r) call = "Duration option \<Rightarrow> Executor \<times> 's \<Rightarrow> (Executor \<times> 's) \<times> 'r option \<times> go_err option"

record ('i, 's, 'r) chain_env =
  ch_rounding :: rounding
  ch_grpc :: grpc_env
  ch_callers :: callers
  ch_do :: Do_env
  ch_user :: "'i \<Rightarrow> ('s, 'r) call \<Rightarrow> ('s, 'r) call"

fun intercept :: "('i, 's, 'r) chain_env \<Rightarrow> 'i interceptor \<Rightarrow> ('s, 'r) call \<Rightarrow> ('s, 'r) call" where
  "intercept env ErrxUnary next timeout st =
     (case next timeout st of
        (st', resp, err) \<Rightarrow> (st', errx_UnaryServerInterceptor (ch_grpc env) (ch_callers env) (resp, err)))"
| "intercept env (PolicyUnary opts) next timeout (x, s) =
     (case GRPCUnaryServerInterceptor (ch_rounding env) (ch_grpc env) (ch_do env) x
             (\<lambda>timeout s. case next timeout (x, s) of ((_, s'), resp, err) \<Rightarrow> (s', resp, err)) s of
        (x', s', resp, err) \<Rightarrow> ((x', s'), (case resp of None \<Rightarrow> None | Some r \<Rightarrow> r), err))"
| "intercept env (UserUnary i) next timeout st = ch_user env i next timeout st"

definition serve_call :: "('i, 's, 'r) chain_env \<Rightarrow> 'i interceptor list \<Rightarrow> ('s, 'r) call \<Rightarrow> ('s, 'r) call" where
  "serve_call env chain handler = foldr (intercept env) chain handler"

section \<open>Properties\<close>

lemma unary_chain_append: "unary_chain (a @ b) = unary_chain a @ unary_chain b"
  by (induction a rule: unary_chain.induct) simp_all

lemma unary_chain_other: "unary_chain (map OtherOption os) = []"
  by (induction os) simp_all

lemma unary_chain_options: "unary_chain (chain_options ics) = ics"
  by (simp add: chain_options_def split: list.split)

lemma server_chain: "NewGRPCServerWithOptions env opts = Inr os \<Longrightarrow> unary_chain os = chain_of opts"
  by (auto simp add: NewGRPCServerWithOptions_def unary_chain_append unary_chain_other unary_chain_options
      split: option.splits)

text \<open>Every server that the SDK constructs has the error interceptor outermost: whatever the
  handler, the interceptors of the user and the policy do, a call that fails answers with an application
  error, whose gRPC status is the public view of the error that the rest of the chain gave, and the rest of
  the answer is theirs.\<close>

theorem constructed_server_hides_errors:
  assumes "NewGRPCServerWithOptions env opts = Inr os"
  shows "case serve_call ce (unary_chain os) handler timeout st of
      (st', resp, None) \<Rightarrow> serve_call ce (tl (unary_chain os)) handler timeout st = (st', resp, None)
    | (st', resp, Some e) \<Rightarrow>
        \<exists>inner a. serve_call ce (tl (unary_chain os)) handler timeout st = (st', resp, Some inner) \<and> e = AppErr a \<and>
          GRPCStatus (ch_grpc ce) (Some a) = wire_status (ch_grpc ce) (public_view (ch_grpc ce) inner)"
proof -
  obtain ics where chain: "unary_chain os = ErrxUnary # ics"
    using server_chain [OF assms] by (simp add: chain_of_def Let_def)
  obtain st' resp err where inner: "serve_call ce ics handler timeout st = (st', resp, err)" by (metis surj_pair)
  then have run: "serve_call ce (ErrxUnary # ics) handler timeout st =
      (st', errx_UnaryServerInterceptor (ch_grpc ce) (ch_callers ce) (resp, err))"
    by (simp add: serve_call_def)
  show ?thesis
  proof (cases err)
    case None
    then show ?thesis unfolding chain run list.sel using inner by (simp add: errx_UnaryServerInterceptor_def)
  next
    case (Some e)
    obtain a where a: "serverError (ch_grpc ce) (ch_callers ce) (Some e) = Some a"
        "(normalizeCode (e_code a), e_publicMessage a) = public_view (ch_grpc ce) e"
      using serverError_view by blast
    then show ?thesis unfolding chain run list.sel using inner Some
      by (auto simp add: errx_UnaryServerInterceptor_def GRPCStatus_wire)
  qed
qed

text \<open>The policy inside the error interceptor.\<close>

lemma intercept_policy:
  assumes "ex_opts x = normalize (serverOptions opts)"
    and "intercept ce (PolicyUnary opts) next timeout (x, s) = ((x', s'), resp, err)"
  shows "s' = s \<and> resp = None \<and> (\<exists>c t. c \<in> {ResourceExhausted, Unavailable} \<and>
        err = Some (StatusErr \<lparr>st_Code = c, st_Message = t, st_Details = []\<rparr>)) \<or>
    (\<exists>x0 resp0 err0. next (op_timeout opts) (x, s) = ((x0, s'), resp0, err0) \<and>
       resp = (if err0 = None then resp0 else None) \<and> err = map_option (grpcError (ch_grpc ce)) err0)"
proof -
  let ?h = "\<lambda>timeout s. case next timeout (x, s) of ((_, s'), resp, err) \<Rightarrow> (s', resp, err)"
  obtain x1 s1 r1 e1 where g: "GRPCUnaryServerInterceptor (ch_rounding ce) (ch_grpc ce) (ch_do ce) x ?h s = (x1, s1, r1, e1)"
    by (metis prod_cases4)
  have eqs: "s' = s1" "resp = (case r1 of None \<Rightarrow> None | Some r \<Rightarrow> r)" "err = e1" using assms(2) g by simp_all
  obtain x0 s0 resp0 err0 where n: "next (op_timeout opts) (x, s) = ((x0, s0), resp0, err0)"
    by (metis surj_pair)
  have h: "?h (op_timeout opts) s = (s0, resp0, err0)" by (simp add: n)
  show ?thesis using grpc_handler_once [OF assms(1) g] unfolding h eqs n by auto
qed

lemma serve_call_Cons: "serve_call ce (i # ics) handler = intercept ce i (serve_call ce ics handler)"
  by (simp add: serve_call_def fun_eq_iff)

text \<open>C2: one call to a server with an enabled policy.  Either the policy rejects it: then no
  interceptor of the user and no handler runs, nothing changes, and the client sees
  \<open>ResourceExhausted\<close> or \<open>Unavailable\<close>.  Or the interceptors of the user and the handler run exactly once,
  under the timeout of the policy, whatever \<open>Retry\<close> says: the state and the success of the call are theirs, and
  a failed call carries no response.\<close>

theorem server_call_once:
  assumes "NewGRPCServerWithOptions env opts = Inr os" and "Enabled (gso_Policy opts)"
    and "ex_opts x = normalize (serverOptions (gso_Policy opts))" and "grpc_documented (ch_grpc ce)"
    and "serve_call ce (unary_chain os) handler timeout (x, s) = ((x', s'), resp, err)"
  shows "(s' = s \<and> resp = None \<and>
      (\<exists>a. err = Some (AppErr a) \<and>
         st_Code (GRPCStatus (ch_grpc ce) (Some a)) \<in> {ResourceExhausted, Unavailable})) \<or>
    (\<exists>x0 resp0 err0. serve_call ce (map UserUnary (compactUnaryInterceptors (gso_UnaryInterceptors opts))) handler
         (op_timeout (gso_Policy opts)) (x, s) = ((x0, s'), resp0, err0) \<and>
       resp = (if err0 = None then resp0 else None) \<and> (err = None) = (err0 = None))"
proof -
  let ?users = "map UserUnary (compactUnaryInterceptors (gso_UnaryInterceptors opts))"
  have chain: "unary_chain os = ErrxUnary # PolicyUnary (gso_Policy opts) # ?users"
    using server_chain [OF assms(1)] assms(2) by (simp add: chain_of_def Let_def)
  obtain resp1 err1 where p: "intercept ce (PolicyUnary (gso_Policy opts)) (serve_call ce ?users handler) timeout (x, s) =
      ((x', s'), resp1, err1)" and e: "(resp, err) = errx_UnaryServerInterceptor (ch_grpc ce) (ch_callers ce) (resp1, err1)"
    using assms(5) unfolding chain serve_call_Cons by (auto split: prod.splits)
  have ok: "resp = resp1 \<and> (err = None) = (err1 = None)"
    using e serverError_view [of "ch_grpc ce" "ch_callers ce"]
    by (cases err1) (fastforce simp add: errx_UnaryServerInterceptor_def split: option.splits)+
  from intercept_policy [OF assms(3) p] show ?thesis
  proof
    assume rej: "s' = s \<and> resp1 = None \<and> (\<exists>c t. c \<in> {ResourceExhausted, Unavailable} \<and>
        err1 = Some (StatusErr \<lparr>st_Code = c, st_Message = t, st_Details = []\<rparr>))"
    then obtain c t where c: "c \<in> {ResourceExhausted, Unavailable}"
        "err1 = Some (StatusErr \<lparr>st_Code = c, st_Message = t, st_Details = []\<rparr>)" by blast
    obtain a where a: "serverError (ch_grpc ce) (ch_callers ce) err1 = Some a"
        "(normalizeCode (e_code a), e_publicMessage a) =
           public_view (ch_grpc ce) (StatusErr \<lparr>st_Code = c, st_Message = t, st_Details = []\<rparr>)"
      unfolding c(2) using serverError_view by blast
    have "err = Some (AppErr a)" using e a(1) c(2) by (simp add: errx_UnaryServerInterceptor_def)
    moreover have "normalizeCode (e_code a) = c"
      using a(2) c(1) assms(4) by (auto simp add: public_view_def grpc_documented_def normalizeCode_def)
    then have "st_Code (GRPCStatus (ch_grpc ce) (Some a)) = c"
      by (simp add: GRPCStatus_wire wire_status_documented(1) [OF assms(4)])
    ultimately show ?thesis using rej ok c(1) by auto
  next
    assume "\<exists>x0 resp0 err0. serve_call ce ?users handler (op_timeout (gso_Policy opts)) (x, s) = ((x0, s'), resp0, err0) \<and>
       resp1 = (if err0 = None then resp0 else None) \<and> err1 = map_option (grpcError (ch_grpc ce)) err0"
    then show ?thesis using ok by fastforce
  qed
qed

section \<open>Concrete servers\<close>

definition demo_server_options :: "Options \<Rightarrow> (unit, unit) GRPCServerOptions" where
  "demo_server_options p =
     \<lparr>gso_EnableTracing = False, gso_TLS = None, gso_Policy = p, gso_UnaryInterceptors = [Some (), None],
      gso_ServerOptions = []\<rparr>"

definition demo_chain_env :: "(unit, nat, string) chain_env" where
  "demo_chain_env =
     \<lparr>ch_rounding = exact, ch_grpc = demo_grpc, ch_callers = (\<lambda>_. []), ch_do = demo_Do_env,
      ch_user = (\<lambda>_ next. next)\<rparr>"

definition demo_call :: "(nat, string) call" where
  "demo_call timeout st = ((fst st, snd st + 1), Some ''partial'', Some (PlainErr ''dial db-1''))"

lemma demo_server:
  "NewGRPCServerWithOptions env (demo_server_options p) = Inr (chain_options (chain_of (demo_server_options p)))"
  by (simp add: NewGRPCServerWithOptions_def demo_server_options_def)

theorem constructed_server_hides_errors_witness:
  "\<forall>x. \<exists>a. serve_call demo_chain_env (unary_chain (chain_options (chain_of (demo_server_options zero_Options) ::
       unit interceptor list) :: (unit, unit, unit, unit) server_option list)) demo_call None (x, 0) =
       ((x, 1), Some ''partial'', Some (AppErr a)) \<and>
     GRPCStatus demo_grpc (Some a) = wire_status demo_grpc (Internal, defaultPublicMessage Internal)"
proof
  fix x
  let ?os = "chain_options (chain_of (demo_server_options zero_Options)) :: (unit, unit, unit, unit) server_option list"
  have chain: "unary_chain ?os = [ErrxUnary, UserUnary ()]"
    by (simp add: unary_chain_options chain_of_def demo_server_options_def compactUnaryInterceptors_def
        List.map_filter_simps Enabled_def zero_Options_def)
  have inner: "serve_call demo_chain_env [UserUnary ()] demo_call None (x, 0) =
      ((x, 1), Some ''partial'', Some (PlainErr ''dial db-1''))"
    by (simp add: serve_call_def demo_chain_env_def demo_call_def)
  have view: "public_view demo_grpc (PlainErr ''dial db-1'') = (Internal, defaultPublicMessage Internal)"
    by (simp add: public_view_def demo_grpc_def codeFromError_def IsCanceled_def)
  have os: "NewGRPCServerWithOptions env (demo_server_options zero_Options) = Inr ?os" for env :: "(unit, unit) net_env"
    by (rule demo_server)
  show "\<exists>a. serve_call demo_chain_env (unary_chain ?os) demo_call None (x, 0) =
       ((x, 1), Some ''partial'', Some (AppErr a)) \<and>
     GRPCStatus demo_grpc (Some a) = wire_status demo_grpc (Internal, defaultPublicMessage Internal)"
    using constructed_server_hides_errors [OF os, where ce = demo_chain_env and
        handler = demo_call and timeout = None and st = "(x, 0)"] inner view
    unfolding chain list.sel inner by (auto simp add: demo_chain_env_def split: prod.splits option.splits)
qed

theorem server_call_once_witness:
  "\<exists>x' err. serve_call demo_chain_env (unary_chain (chain_options (chain_of (demo_server_options demo_opts) ::
       unit interceptor list) :: (unit, unit, unit, unit) server_option list)) demo_call None (demo_server_executor, 0) =
     ((x', 1), None, err) \<and> err \<noteq> None"
proof -
  let ?os = "chain_options (chain_of (demo_server_options demo_opts)) :: (unit, unit, unit, unit) server_option list"
  obtain x' s' resp err where r:
    "serve_call demo_chain_env (unary_chain ?os) demo_call None (demo_server_executor, 0) = ((x', s'), resp, err)"
    by (metis surj_pair)
  have inner: "serve_call demo_chain_env (map UserUnary (compactUnaryInterceptors [Some (), None])) demo_call t st =
      demo_call t st" for t st
    by (simp add: serve_call_def demo_chain_env_def compactUnaryInterceptors_def List.map_filter_simps)
  have "s' = 1"
    using r by (simp add: unary_chain_options chain_of_def demo_server_options_def Enabled_def demo_opts_def
        serve_call_Cons inner GRPCUnaryServerInterceptor_def Do_def demo_server_executor_def admit_def demo_call_def
        serverOptions_def normalize_def split: prod.splits)
  moreover have "resp = None \<and> err \<noteq> None"
    using server_call_once [OF demo_server _ _ _ r] inner \<open>s' = 1\<close>
    by (auto simp add: demo_server_options_def demo_opts_def demo_server_executor_def Enabled_def
        demo_chain_env_def demo_grpc_documented demo_call_def)
  ultimately show ?thesis using r by blast
qed

end
