(* ===== verification/ServiceRuntime.thy ===== *)
theory ServiceRuntime
  imports Gateway Health AppLifecycle
begin

text \<open>
  The managed runtime of a service (\<open>sdk/service/service.go\<close>) and its build information
  (\<open>sdk/buildinfo/buildinfo.go\<close>): how the probes, the transports, the hooks and the telemetry are put
  together, and the chain of the gRPC interceptors.

  The state of the application is the health handler and a world \<open>'w\<close> that hooks and servers change.
\<close>

section \<open>Build information\<close>

record Info =
  in_Service :: string
  in_Module :: string
  in_Version :: string
  in_Branch :: string
  in_Commit :: string
  in_Time :: string
  in_Dirty :: bool
  in_GoVersion :: string

text \<open>What the sources read of \<open>debug.BuildInfo\<close>.\<close>

record BuildInfo =
  bi_MainPath :: string
  bi_MainVersion :: string
  bi_GoVersion :: string
  bi_Settings :: "(string \<times> string) list"

definition buildSettings :: "(string \<times> string) list \<Rightarrow> (string \<rightharpoonup> string)" where
  "buildSettings settings = fold (\<lambda>(k, v) out. out(k \<mapsto> v)) settings Map.empty"

definition setting :: "(string \<rightharpoonup> string) \<Rightarrow> string \<Rightarrow> string" where
  "setting m k = (case m k of None \<Rightarrow> [] | Some v \<Rightarrow> v)"

text \<open>\<open>strconv.ParseBool\<close>, where an error leaves \<open>false\<close>.\<close>

definition ParseBool :: "string \<Rightarrow> bool" where
  "ParseBool s \<longleftrightarrow> s \<in> {''1'', ''t'', ''T'', ''TRUE'', ''true'', ''True''}"

text \<open>\<open>Version\<close> and \<open>Branch\<close> are the variables set by the linker.\<close>

definition currentFrom :: "string \<Rightarrow> string \<Rightarrow> string \<Rightarrow> BuildInfo option \<Rightarrow> Info" where
  "currentFrom Version Branch service bi =
     (let info = \<lparr>in_Service = service, in_Module = [], in_Version = [], in_Branch = [], in_Commit = [],
            in_Time = [], in_Dirty = False, in_GoVersion = []\<rparr>
      in case bi of
           None \<Rightarrow> info\<lparr>in_Version := Version, in_Branch := Branch\<rparr>
         | Some bi \<Rightarrow>
             (let settings = buildSettings (bi_Settings bi)
              in info\<lparr>in_Module := bi_MainPath bi, in_GoVersion := bi_GoVersion bi,
                   in_Version := (if Version \<noteq> [] then Version
                     else if bi_MainVersion bi \<noteq> [] \<and> bi_MainVersion bi \<noteq> ''(devel)'' then bi_MainVersion bi
                     else []),
                   in_Branch := Branch, in_Commit := setting settings ''vcs.revision'',
                   in_Time := setting settings ''vcs.time'',
                   in_Dirty := (case settings ''vcs.modified'' of Some d \<Rightarrow> ParseBool d | None \<Rightarrow> False)\<rparr>))"

section \<open>Options\<close>

record 'g ServiceGRPC =
  sg_Addr :: string
  sg_Server :: "'g option"
  sg_TLS :: "ServerOptions option"
  sg_EnableReflection :: bool

record ('pool, 'cert, 'm, 'h) ServiceREST =
  sr_Addr :: string
  sr_GRPCAddr :: string
  sr_GRPCClientTLS :: "ClientOptions option"
  sr_TLS :: "ServerOptions option"
  sr_Register :: "('pool, 'cert, 'm) RegisterFunc list"
  sr_Groups :: "('pool, 'cert, 'm) RouteGroup list"
  sr_ExtraHandlers :: "(string \<times> 'h) list"

record TransportPolicies =
  tp_GRPC :: Options
  tp_REST :: Options
  tp_Kafka :: Options

text \<open>\<open>Logging\<close> is not read, and \<open>TracingCfg\<close> only goes to \<open>observability.Init\<close>, a parameter below.\<close>

record ('pool, 'cert, 'm, 'h, 'g, 'c, 'w) ServiceOptions =
  se_Name :: string
  se_ShutdownTimeout :: int
  se_Metrics :: bool
  se_Tracing :: bool
  se_GRPC :: "'g ServiceGRPC option"
  se_REST :: "('pool, 'cert, 'm, 'h) ServiceREST option"
  se_Liveness :: "(string \<times> ('c \<Rightarrow> go_err option)) list"
  se_Readiness :: "(string \<times> ('c \<Rightarrow> go_err option)) list"
  se_Startup :: "(string \<times> ('c \<Rightarrow> go_err option)) list"
  se_Policies :: TransportPolicies
  se_BeforeShutdown :: "'w step option list"
  se_Cleanup :: "'w step option list"

text \<open>The handlers of the operational endpoints, beside those of the user.\<close>

datatype 'h endpoint = UserHandler 'h | Buildz string | Livez | Readyz | Startupz | MetricsEndpoint

text \<open>What \<open>New\<close> calls: the network, \<open>observability.Init\<close> with the shutdown function that it returns,
  and the \<open>Shutdown\<close> of the two servers.\<close>

record ('pool, 'cert, 'm, 'h, 'g, 'w) runtime_env =
  rt_net :: "('pool, 'cert) net_env"
  rt_newMux :: 'm
  rt_newServer :: "('pool, 'cert) tls_Config option option \<Rightarrow> 'g"
  rt_obsInit :: "string \<Rightarrow> bool \<Rightarrow> bool \<Rightarrow> go_err + 'w step"
  rt_stopGRPC :: "'g TransportServer \<Rightarrow> 'w step"
  rt_stopREST :: "('pool, 'cert, 'm, 'h endpoint) GatewayServer \<Rightarrow> 'w step"

section \<open>The runtime\<close>

text \<open>A step of the world, run in the application.\<close>

definition on_world :: "'w step \<Rightarrow> ('c Handler \<times> 'w) step" where
  "on_world f s = (case f (snd s) of (w, e) \<Rightarrow> ((fst s, w), e))"

definition mark_step :: "('c Handler \<times> 'w) step" where
  "mark_step s = ((MarkShuttingDown (fst s), snd s), None)"

definition cloneHandlers :: "(string \<times> 'h) list \<Rightarrow> (string \<times> 'h endpoint) list" where
  "cloneHandlers src = map (\<lambda>(p, h). (p, UserHandler h)) src"

definition extra_handlers ::
  "('pool, 'cert, 'm, 'h, 'g, 'c, 'w) ServiceOptions \<Rightarrow> (string \<times> 'h) list \<Rightarrow> (string \<times> 'h endpoint) list" where
  "extra_handlers opts src =
     (let hs = cloneHandlers src;
          hs = AList.update ''/buildz'' (Buildz (se_Name opts)) hs;
          hs = AList.update ''/livez'' Livez hs;
          hs = AList.update ''/readyz'' Readyz hs;
          hs = AList.update ''/startupz'' Startupz hs
      in if se_Metrics opts then AList.update ''/metrics'' MetricsEndpoint hs else hs)"

definition gateway_options ::
  "('pool, 'cert, 'm, 'h, 'g, 'c, 'w) ServiceOptions \<Rightarrow> ('pool, 'cert, 'm, 'h) ServiceREST
     \<Rightarrow> ('pool, 'cert, 'm, 'h endpoint) GatewayOptions" where
  "gateway_options opts rest =
     \<lparr>go_Addr = sr_Addr rest, go_GRPCAddr = sr_GRPCAddr rest, go_GRPCTLS = sr_GRPCClientTLS rest,
      go_TLS = sr_TLS rest, go_Register = sr_Register rest, go_Groups = sr_Groups rest,
      go_ExtraHandlers = extra_handlers opts (sr_ExtraHandlers rest), go_EnableTracing = se_Tracing opts,
      go_Policy = tp_REST (se_Policies opts), go_ReadHeaderTimeout = 0\<rparr>"

definition start_grpc ::
  "('pool, 'cert, 'm, 'h, 'g, 'w) runtime_env \<Rightarrow> 'g ServiceGRPC option \<Rightarrow> listener list
     \<Rightarrow> ('c Handler \<times> 'w) App \<Rightarrow> listener list \<times> (start_error + ('c Handler \<times> 'w) App)" where
  "start_grpc env grpc opened managed =
     (case grpc of
        None \<Rightarrow> (opened, Inr managed)
      | Some grpc \<Rightarrow>
          (case New_transport (rt_net env) (rt_newServer env)
                  \<lparr>to_Addr = sg_Addr grpc, to_Server = sg_Server grpc, to_TLS = sg_TLS grpc,
                   to_EnableReflection = sg_EnableReflection grpc\<rparr> opened of
             (opened, Inl e) \<Rightarrow> (opened, Inl e)
           | (opened, Inr srv) \<Rightarrow> (opened, Inr (AddComponent ''grpc'' (on_world (rt_stopGRPC env srv)) managed))))"

definition start_rest ::
  "('pool, 'cert, 'm, 'h, 'g, 'w) runtime_env \<Rightarrow> ('pool, 'cert, 'm, 'h, 'g, 'c, 'w) ServiceOptions \<Rightarrow> listener list
     \<Rightarrow> ('c Handler \<times> 'w) App \<Rightarrow> listener list \<times> (start_error + ('c Handler \<times> 'w) App)" where
  "start_rest env opts opened managed =
     (case se_REST opts of
        None \<Rightarrow> (opened, Inr managed)
      | Some rest \<Rightarrow>
          (case New_gateway (rt_net env) (rt_newMux env) (gateway_options opts rest) opened of
             (opened, Inl e) \<Rightarrow> (opened, Inl e)
           | (opened, Inr srv) \<Rightarrow> (opened, Inr (AddComponent ''rest'' (on_world (rt_stopREST env srv)) managed))))"

definition add_hooks ::
  "('s step \<Rightarrow> 's App \<Rightarrow> 's App) \<Rightarrow> ('w step \<Rightarrow> 's step) \<Rightarrow> 'w step option list \<Rightarrow> 's App \<Rightarrow> 's App" where
  "add_hooks add lift hooks a =
     foldl (\<lambda>a hook. case hook of None \<Rightarrow> a | Some h \<Rightarrow> add (lift h) a) a hooks"

text \<open>\<open>service.New\<close>: the runtime is the application with the initial health handler.\<close>

definition New_service ::
  "('pool, 'cert, 'm, 'h, 'g, 'w) runtime_env \<Rightarrow> ('pool, 'cert, 'm, 'h, 'g, 'c, 'w) ServiceOptions \<Rightarrow> listener list
     \<Rightarrow> listener list \<times> (start_error + ('c Handler \<times> 'w) App \<times> 'c Handler)" where
  "New_service env opts opened =
     (if se_Name opts = [] then (opened, Inl (Failed (PlainErr ''service name is required'')))
      else
        let managed = New_App (se_ShutdownTimeout opts)
        in case (if se_Metrics opts \<or> se_Tracing opts
                 then (case rt_obsInit env (se_Name opts) (se_Metrics opts) (se_Tracing opts) of
                         Inl e \<Rightarrow> Inl (Failed e)
                       | Inr shutdownObs \<Rightarrow> Inr (AddCleanup (on_world shutdownObs) managed))
                 else Inr managed) of
             Inl e \<Rightarrow> (opened, Inl e)
           | Inr managed \<Rightarrow>
               (let managed = add_hooks AddCleanup on_world (se_Cleanup opts) managed;
                    handler = New_Handler \<lparr>ho_Liveness = se_Liveness opts, ho_Readiness = se_Readiness opts,
                                           ho_Startup = se_Startup opts\<rparr>;
                    managed = AddBeforeShutdown mark_step managed;
                    managed = add_hooks AddBeforeShutdown on_world (se_BeforeShutdown opts) managed
                in case start_grpc env (se_GRPC opts) opened managed of
                     (opened, Inl e) \<Rightarrow> (opened, Inl e)
                   | (opened, Inr managed) \<Rightarrow>
                       (case start_rest env opts opened managed of
                          (opened, Inl e) \<Rightarrow> (opened, Inl e)
                        | (opened, Inr managed) \<Rightarrow> (opened, Inr (managed, handler)))))"

end
