(* ===== verification/ServiceRuntimeFacts.thy ===== *)
theory ServiceRuntimeFacts
  imports ServiceRuntime GatewayFacts
begin

text \<open>
  The runtime as a whole: what a shutdown of a constructed service does and in which order, and what a
  failed construction leaves behind.
\<close>

section \<open>Hooks\<close>

definition present :: "'a option list \<Rightarrow> 'a list" where
  "present xs = List.map_filter (\<lambda>x. x) xs"

lemma present_simps [simp]: "present [] = []" "present (None # xs) = present xs" "present (Some x # xs) = x # present xs"
  by (simp_all add: present_def List.map_filter_simps)

lemma add_cleanups_sel:
  "app_cleanups (add_hooks AddCleanup on_world hooks a) = app_cleanups a @ map on_world (present hooks) \<and>
   app_beforeShutdown (add_hooks AddCleanup on_world hooks a) = app_beforeShutdown a \<and>
   app_components (add_hooks AddCleanup on_world hooks a) = app_components a"
  by (induction hooks arbitrary: a) (auto simp add: add_hooks_def AddCleanup_def split: option.split)

lemma add_befores_sel:
  "app_beforeShutdown (add_hooks AddBeforeShutdown on_world hooks a) =
     app_beforeShutdown a @ map on_world (present hooks) \<and>
   app_cleanups (add_hooks AddBeforeShutdown on_world hooks a) = app_cleanups a \<and>
   app_components (add_hooks AddBeforeShutdown on_world hooks a) = app_components a"
  by (induction hooks arbitrary: a) (auto simp add: add_hooks_def AddBeforeShutdown_def split: option.split)

text \<open>A transport adds at most one component.\<close>

lemma start_grpc_sel:
  "start_grpc env grpc opened a = (opened', Inr a') \<Longrightarrow>
     \<exists>gs. app_components a' =
         app_components a @ map (\<lambda>srv. \<lparr>nc_Name = ''grpc'', nc_Shutdown = on_world (rt_stopGRPC env srv)\<rparr>) gs \<and>
       length gs = (if grpc = None then 0 else 1) \<and> opened' = map ts_listener gs @ opened \<and>
       app_beforeShutdown a' = app_beforeShutdown a \<and> app_cleanups a' = app_cleanups a"
  by (cases grpc) (auto simp add: start_grpc_def AddComponent_def New_transport_def Let_def
      split: prod.splits sum.splits intro: exI [of _ "[_]"])

lemma New_gateway_listener: "New_gateway env newMux opts opened = (opened', Inr srv) \<Longrightarrow> opened' = gs_listener srv # opened"
  by (auto simp add: New_gateway_def Let_def split: sum.splits option.splits prod.splits)

lemma start_rest_sel:
  "start_rest env opts opened a = (opened', Inr a') \<Longrightarrow>
     \<exists>rs. app_components a' =
         app_components a @ map (\<lambda>srv. \<lparr>nc_Name = ''rest'', nc_Shutdown = on_world (rt_stopREST env srv)\<rparr>) rs \<and>
       length rs = (if se_REST opts = None then 0 else 1) \<and> opened' = map gs_listener rs @ opened \<and>
       app_beforeShutdown a' = app_beforeShutdown a \<and> app_cleanups a' = app_cleanups a"
  by (cases "se_REST opts") (auto simp add: start_rest_def AddComponent_def Let_def dest!: New_gateway_listener
      split: prod.splits sum.splits intro: exI [of _ "[_]"])

section \<open>Shutdown\<close>

text \<open>The steps of the world in the shutdown of a service, with the gRPC and REST servers that it has
  started and the shutdown functions of its telemetry.\<close>

definition world_steps ::
  "('pool, 'cert, 'm, 'h, 'g, 'w) runtime_env \<Rightarrow> ('pool, 'cert, 'm, 'h, 'g, 'c, 'w) ServiceOptions
     \<Rightarrow> 'g TransportServer list \<Rightarrow> ('pool, 'cert, 'm, 'h endpoint) GatewayServer list \<Rightarrow> 'w step list \<Rightarrow> 'w step list" where
  "world_steps env opts gs rs obs =
     present (se_BeforeShutdown opts) @ map (rt_stopGRPC env) gs @ map (rt_stopREST env) rs @
     rev (present (se_Cleanup opts)) @ obs"

text \<open>The servers and the telemetry are those that the options ask for, and the servers are behind the
  listeners that the construction has opened.\<close>

definition started ::
  "('pool, 'cert, 'm, 'h, 'g, 'w) runtime_env \<Rightarrow> ('pool, 'cert, 'm, 'h, 'g, 'c, 'w) ServiceOptions \<Rightarrow> listener list
     \<Rightarrow> listener list \<Rightarrow> 'g TransportServer list \<Rightarrow> ('pool, 'cert, 'm, 'h endpoint) GatewayServer list
     \<Rightarrow> 'w step list \<Rightarrow> bool" where
  "started env opts opened opened' gs rs obs \<longleftrightarrow>
     length gs = (if se_GRPC opts = None then 0 else 1) \<and> length rs = (if se_REST opts = None then 0 else 1) \<and>
     opened' = map gs_listener rs @ map ts_listener gs @ opened \<and>
     (if se_Metrics opts \<or> se_Tracing opts
      then \<exists>f. rt_obsInit env (se_Name opts) (se_Metrics opts) (se_Tracing opts) = Inr f \<and> obs = [f] else obs = [])"

lemma New_service_order:
  assumes "New_service env opts opened = (opened', Inr (app, h))"
  obtains gs rs obs where "shutdown_order app = mark_step # map on_world (world_steps env opts gs rs obs)"
    "started env opts opened opened' gs rs obs"
proof -
  obtain a0 obs where a0: "app_components a0 = []" "app_beforeShutdown a0 = []" "app_cleanups a0 = map on_world obs"
    and obs: "if se_Metrics opts \<or> se_Tracing opts
     then \<exists>f. rt_obsInit env (se_Name opts) (se_Metrics opts) (se_Tracing opts) = Inr f \<and> obs = [f] else obs = []"
    and run: "New_service env opts opened =
      (let managed = add_hooks AddBeforeShutdown on_world (se_BeforeShutdown opts)
             (AddBeforeShutdown mark_step (add_hooks AddCleanup on_world (se_Cleanup opts) a0));
           handler = New_Handler \<lparr>ho_Liveness = se_Liveness opts, ho_Readiness = se_Readiness opts,
                                  ho_Startup = se_Startup opts\<rparr>
       in case start_grpc env (se_GRPC opts) opened managed of
            (opened, Inl e) \<Rightarrow> (opened, Inl e)
          | (opened, Inr managed) \<Rightarrow>
              (case start_rest env opts opened managed of
                 (opened, Inl e) \<Rightarrow> (opened, Inl e)
               | (opened, Inr managed) \<Rightarrow> (opened, Inr (managed, handler))))"
  proof (cases "se_Metrics opts \<or> se_Tracing opts")
    case False
    then show ?thesis using assms that [of "New_App (se_ShutdownTimeout opts)" "[]"]
      by (auto simp add: New_service_def New_App_def Let_def split: if_splits)
  next
    case True
    then obtain f where f: "rt_obsInit env (se_Name opts) (se_Metrics opts) (se_Tracing opts) = Inr f"
      using assms by (auto simp add: New_service_def Let_def split: if_splits sum.splits)
    then show ?thesis using True assms that [of "AddCleanup (on_world f) (New_App (se_ShutdownTimeout opts))" "[f]"]
      by (auto simp add: New_service_def New_App_def AddCleanup_def Let_def split: if_splits)
  qed
  let ?m = "add_hooks AddBeforeShutdown on_world (se_BeforeShutdown opts)
    (AddBeforeShutdown mark_step (add_hooks AddCleanup on_world (se_Cleanup opts) a0))"
  obtain o1 a1 where g: "start_grpc env (se_GRPC opts) opened ?m = (o1, Inr a1)"
    and r: "start_rest env opts o1 a1 = (opened', Inr app)"
    and h: "h = New_Handler \<lparr>ho_Liveness = se_Liveness opts, ho_Readiness = se_Readiness opts, ho_Startup = se_Startup opts\<rparr>"
    using assms unfolding run by (auto simp add: Let_def split: prod.splits sum.splits)
  obtain sg where sg: "app_components a1 =
        app_components ?m @ map (\<lambda>srv. \<lparr>nc_Name = ''grpc'', nc_Shutdown = on_world (rt_stopGRPC env srv)\<rparr>) sg"
      "length sg = (if se_GRPC opts = None then 0 else 1)" "o1 = map ts_listener sg @ opened"
      "app_beforeShutdown a1 = app_beforeShutdown ?m" "app_cleanups a1 = app_cleanups ?m"
    using start_grpc_sel [OF g] by blast
  obtain sr where sr: "app_components app =
        app_components a1 @ map (\<lambda>srv. \<lparr>nc_Name = ''rest'', nc_Shutdown = on_world (rt_stopREST env srv)\<rparr>) sr"
      "length sr = (if se_REST opts = None then 0 else 1)" "opened' = map gs_listener sr @ o1"
      "app_beforeShutdown app = app_beforeShutdown a1" "app_cleanups app = app_cleanups a1"
    using start_rest_sel [OF r] by blast
  have "rev obs = obs" using obs by (auto split: if_splits)
  then have "shutdown_order app = mark_step # map on_world (world_steps env opts sg sr obs)"
    using a0 sg sr by (simp add: shutdown_order_def world_steps_def add_cleanups_sel add_befores_sel
        AddBeforeShutdown_def rev_map comp_def)
  moreover have "started env opts opened opened' sg sr obs"
    unfolding started_def sr(3) sg(3) using sg(2) sr(2) obs by blast
  ultimately show ?thesis by (rule that)
qed

lemma run_all_world:
  "run_all (map on_world fs) (h, w) = ((h, fst (run_all fs w)), snd (run_all fs w))"
  by (induction fs arbitrary: w) (auto simp add: on_world_def split: prod.splits option.splits)

lemma run_all_marked:
  "run_all (mark_step # map on_world fs) (h, w) = ((MarkShuttingDown h, fst (run_all fs w)), snd (run_all fs w))"
  by (simp add: mark_step_def run_all_world)

lemma readiness_marked: "fst (snd (serve g ctx ''readiness'' (MarkShuttingDown h))) = 503"
  by (simp add: serve_def MarkShuttingDown_def Let_def split: prod.split)

lemma Run_state: "fst (Run first allStopped ctxErr rest a s) = fst (shutdown a s)"
  by (simp add: Run_def Let_def split: prod.split)

text \<open>C27: the shutdown of a constructed service, whatever ends it and whatever fails: readiness is
  withdrawn before anything else happens and stays withdrawn at every later step, so that no probe sends
  traffic to a server that stops; then the hooks of the user run in order, the gRPC server and then the
  gateway stop, which are the servers behind the listeners that the construction has opened, the cleanups of
  the user run in reverse, and the telemetry is shut down last, each exactly once.\<close>

theorem runtime_shutdown_order:
  assumes "New_service env opts opened = (opened', Inr (app, h))"
  shows "\<exists>gs rs obs. started env opts opened opened' gs rs obs \<and>
    fst (Run first allStopped ctxErr rest app (h, w)) =
      (MarkShuttingDown h, fst (run_all (world_steps env opts gs rs obs) w)) \<and>
    (\<forall>k. fst (snd (serve g ctx ''readiness''
       (fst (fst (run_all (take (Suc k) (shutdown_order app)) (h, w)))))) = 503)"
proof -
  obtain gs rs obs where o: "shutdown_order app = mark_step # map on_world (world_steps env opts gs rs obs)"
    and st: "started env opts opened opened' gs rs obs"
    using New_service_order [OF assms] .
  have "fst (Run first allStopped ctxErr rest app (h, w)) =
      (MarkShuttingDown h, fst (run_all (world_steps env opts gs rs obs) w))"
    unfolding Run_state using shutdown_runs_all [of app "(h, w)"] unfolding o run_all_marked by simp
  moreover have "fst (fst (run_all (take (Suc k) (shutdown_order app)) (h, w))) = MarkShuttingDown h" for k
    unfolding o take_Suc_Cons take_map run_all_marked by simp
  ultimately show ?thesis using st readiness_marked by metis
qed

text \<open>A construction whose gateway fails after the gRPC transport has been bound returns the
  error but leaves the gRPC listener open, and the shutdown function of the telemetry that it has started is
  dropped.\<close>

theorem failed_start_leaves_listener:
  assumes "se_Name opts \<noteq> []" and "se_GRPC opts = Some grpc" and "se_REST opts = Some rest"
    and "\<exists>f. rt_obsInit env (se_Name opts) (se_Metrics opts) (se_Tracing opts) = Inr f"
    and "New_transport (rt_net env) (rt_newServer env) \<lparr>to_Addr = sg_Addr grpc, to_Server = sg_Server grpc,
      to_TLS = sg_TLS grpc, to_EnableReflection = sg_EnableReflection grpc\<rparr> opened = (opened1, Inr srv)"
    and "New_gateway (rt_net env) (rt_newMux env) (gateway_options opts rest) opened1 = (opened2, Inl e)"
  shows "New_service env opts opened = (ts_listener srv # opened, Inl e)"
proof -
  have o1: "opened1 = ts_listener srv # opened"
    using assms(5) by (auto simp add: New_transport_def split: sum.splits)
  have o2: "opened2 = opened1"
  proof (cases "gateway_handlers (rt_net env) (rt_newMux env) (gateway_options opts rest)")
    case (Inr r)
    then show ?thesis using assms(6)
      by (auto simp add: New_gateway_def Let_def split: sum.splits option.splits prod.splits)
  qed (use assms(6) in \<open>simp add: New_gateway_def\<close>)
  show ?thesis using assms o1 o2
    by (auto simp add: New_service_def start_grpc_def start_rest_def Let_def)
qed

section \<open>Concrete services\<close>

definition log_step :: "string \<Rightarrow> string list step" where
  "log_step what w = (w @ [what], None)"

definition demo_runtime_env :: "(unit, unit, unit, unit, unit, string list) runtime_env" where
  "demo_runtime_env =
     \<lparr>rt_net = \<lparr>ne_tls = \<lparr>env_ReadFile = (\<lambda>p. Inl (PlainErr p)), env_CertsFromPEM = (\<lambda>_. None),
                          env_X509KeyPair = (\<lambda>_ _. Inr ())\<rparr>,
                ne_tlsError = (\<lambda>_. PlainErr ''tls''),
                ne_listen = (\<lambda>opened addr. if addr = '':80'' then Inl (PlainErr ''permission denied'')
                                        else Inr (length opened))\<rparr>,
      rt_newMux = (), rt_newServer = (\<lambda>_. ()), rt_obsInit = (\<lambda>_ _ _. Inr (log_step ''telemetry'')),
      rt_stopGRPC = (\<lambda>_. log_step ''grpc''), rt_stopREST = (\<lambda>_. log_step ''rest'')\<rparr>"

definition demo_grpc_server :: "unit ServiceGRPC" where
  "demo_grpc_server = \<lparr>sg_Addr = '':9000'', sg_Server = None, sg_TLS = None, sg_EnableReflection = False\<rparr>"

definition demo_rest :: "string \<Rightarrow> (unit, unit, unit, unit) ServiceREST" where
  "demo_rest addr = \<lparr>sr_Addr = addr, sr_GRPCAddr = '':9000'', sr_GRPCClientTLS = None, sr_TLS = None,
     sr_Register = [], sr_Groups = [], sr_ExtraHandlers = []\<rparr>"

definition demo_service :: "string \<Rightarrow> (unit, unit, unit, unit, unit, unit, string list) ServiceOptions" where
  "demo_service addr =
     \<lparr>se_Name = ''users'', se_ShutdownTimeout = 0, se_Metrics = True, se_Tracing = False,
      se_GRPC = Some demo_grpc_server, se_REST = Some (demo_rest addr), se_Liveness = [], se_Readiness = [],
      se_Startup = [], se_Policies = \<lparr>tp_GRPC = zero_Options, tp_REST = zero_Options, tp_Kafka = zero_Options\<rparr>, se_BeforeShutdown = [Some (log_step ''drain''), None],
      se_Cleanup = [Some (log_step ''db''), Some (log_step ''cache'')]\<rparr>"

lemma demo_sel [simp]:
  "se_Name (demo_service addr) = ''users''" "se_Metrics (demo_service addr)" "\<not> se_Tracing (demo_service addr)"
  "se_GRPC (demo_service addr) = Some demo_grpc_server" "se_REST (demo_service addr) = Some (demo_rest addr)"
  "rt_obsInit demo_runtime_env name metrics tracing = Inr (log_step ''telemetry'')"
  by (simp_all add: demo_service_def demo_runtime_env_def)

lemma demo_transport:
  "New_transport (rt_net demo_runtime_env) (rt_newServer demo_runtime_env)
     \<lparr>to_Addr = sg_Addr demo_grpc_server, to_Server = sg_Server demo_grpc_server,
      to_TLS = sg_TLS demo_grpc_server, to_EnableReflection = sg_EnableReflection demo_grpc_server\<rparr> [] =
   ([0], Inr \<lparr>ts_grpc = (), ts_reflection = False, ts_listener = 0, ts_addr = '':9000''\<rparr>)"
  by (simp add: New_transport_def transport_server_def demo_runtime_env_def demo_grpc_server_def)

lemma demo_handlers:
  "\<exists>m. gateway_handlers (rt_net demo_runtime_env) (rt_newMux demo_runtime_env)
     (gateway_options (demo_service addr) (demo_rest addr)) = Inr (m, ())"
  by (simp add: gateway_handlers_def gateway_options_def demo_rest_def normalizeGroups_def mux_Handle_def
      extra_handlers_def cloneHandlers_def demo_service_def Let_def)

lemma demo_gateway_ok:
  "\<exists>srv. New_gateway (rt_net demo_runtime_env) (rt_newMux demo_runtime_env)
     (gateway_options (demo_service '':8080'') (demo_rest '':8080'')) [0] = ([1, 0], Inr srv)"
  using demo_handlers [of "'':8080''"]
  by (auto simp add: New_gateway_def gateway_options_def demo_rest_def demo_runtime_env_def Let_def)

lemma demo_gateway_fails:
  "New_gateway (rt_net demo_runtime_env) (rt_newMux demo_runtime_env)
     (gateway_options (demo_service '':80'') (demo_rest '':80'')) [0] =
   ([0], Inl (Failed (WrapErr ''listen :80'' (PlainErr ''permission denied''))))"
  using demo_handlers [of "'':80''"]
  by (auto simp add: New_gateway_def gateway_options_def demo_rest_def demo_runtime_env_def Let_def)

theorem runtime_shutdown_order_witness:
  "\<exists>app h. New_service demo_runtime_env (demo_service '':8080'') [] = ([1, 0], Inr (app, h)) \<and>
     snd (fst (Run ContextDone True ContextCanceled [] app (h, []))) =
       [''drain'', ''grpc'', ''rest'', ''cache'', ''db'', ''telemetry'']"
proof -
  obtain app h where n: "New_service demo_runtime_env (demo_service '':8080'') [] = ([1, 0], Inr (app, h))"
    using demo_gateway_ok demo_transport
    by (auto simp add: New_service_def start_grpc_def start_rest_def Let_def)
  obtain gs rs obs where s: "started demo_runtime_env (demo_service '':8080'') [] [1, 0] gs rs obs"
    and r: "fst (Run ContextDone True ContextCanceled [] app (h, [])) =
      (MarkShuttingDown h, fst (run_all (world_steps demo_runtime_env (demo_service '':8080'') gs rs obs) []))"
    using runtime_shutdown_order [OF n] by metis
  have "length gs = 1" "length rs = 1" "obs = [log_step ''telemetry'']"
    using s by (auto simp add: started_def)
  then show ?thesis using n r
    by (auto simp add: world_steps_def demo_service_def demo_runtime_env_def log_step_def length_Suc_conv)
qed

theorem failed_start_leaves_listener_witness:
  "New_service demo_runtime_env (demo_service '':80'') [] =
     ([0], Inl (Failed (WrapErr ''listen :80'' (PlainErr ''permission denied''))))"
  using failed_start_leaves_listener [OF _ _ _ _ demo_transport demo_gateway_fails]
  by simp

end
