(* ===== verification/DevLoop.thy ===== *)
theory DevLoop
  imports Pipeline ManifestStore "HOL-Library.AList"
begin

text \<open>
  The development loop \<open>zengo dev\<close> (\<open>cmd/zengo/dev.go\<close>): it watches the inputs of a service, and
  regenerates and restarts the service when a modification time changes.

  A project is a state \<open>'s\<close>; the watched part of its file system is read by \<open>de_fs\<close>, generation is the
  pipeline of \<open>Pipeline\<close>, and \<open>go run\<close> is a parameter.  \<open>reload\<close> is only called from the loop, so its mutex
  and its flag \<open>running\<close> never turn a call away; it is split into a generation and a restart, since edits of
  the project happen between the two.
\<close>

section \<open>Modification times\<close>

type_synonym mod_time = int

type_synonym snapshot = "(string \<times> mod_time) list"

text \<open>\<open>os.Stat\<close> (a directory or not, and the time) and the entries that \<open>filepath.WalkDir\<close> visits, each a
  directory or not with the time that \<open>Info\<close> gives; an entry may be \<open>nil\<close>, and \<open>Info\<close> may fail.\<close>

record dev_fs =
  df_stat :: "string \<Rightarrow> (bool \<times> mod_time) option"
  df_walk :: "string \<Rightarrow> (string \<times> (bool \<times> mod_time option) option) list"

definition devWatchRoots :: "dev_fs \<Rightarrow> string \<Rightarrow> string list" where
  "devWatchRoots fs rootDir =
     filter (\<lambda>path. df_stat fs path \<noteq> None)
       (map (path_join rootDir) [''api'', ''internal'', ''queries'', ''cql'', ''configs'']) @
     filter (\<lambda>path. df_stat fs path \<noteq> None)
       (map (path_join rootDir) [''zengo.yaml'', ''zengo.yml'', ''zengo.textproto'', ''zengo.pbtxt'', ''sqlc.yaml'',
          ''cqlc.yaml'', ''buf.gen.yaml'', ''buf.yaml''])"

definition supportedExts :: "string list" where
  "supportedExts = [''.go'', ''.proto'', ''.yaml'', ''.yml'', ''.sql'', ''.textproto'', ''.pbtxt'']"

definition walk_file :: "snapshot \<Rightarrow> string \<times> (bool \<times> mod_time option) option \<Rightarrow> snapshot" where
  "walk_file out entry =
     (case entry of
        (path, Some (False, Some t)) \<Rightarrow> if Ext path \<in> set supportedExts then AList.update path t out else out
      | _ \<Rightarrow> out)"

definition snapshotModTimes :: "dev_fs \<Rightarrow> string list \<Rightarrow> snapshot" where
  "snapshotModTimes fs roots =
     foldl (\<lambda>out root. case df_stat fs root of
         None \<Rightarrow> out
       | Some (isDir, t) \<Rightarrow> if \<not> isDir then AList.update root t out else foldl walk_file out (df_walk fs root)) [] roots"

definition diffModTimes :: "snapshot \<Rightarrow> snapshot \<Rightarrow> string" where
  "diffModTimes before after =
     (case find (\<lambda>(path, t). case map_of before path of None \<Rightarrow> True | Some prev \<Rightarrow> prev < t) after of
        Some (path, _) \<Rightarrow> path
      | None \<Rightarrow>
          (case find (\<lambda>(path, _). map_of after path = None) before of
             Some (path, _) \<Rightarrow> path @ '' (removed)''
           | None \<Rightarrow> []))"

section \<open>The loop\<close>

text \<open>The parameters of the environment: \<open>de_start\<close> is the error of starting \<open>go run\<close> on a project, and
  \<open>de_stops\<close> whether a service started on a project ends when it is interrupted, so that \<open>Wait\<close> returns.\<close>

record 's dev_env =
  de_cmd :: "'s cmd_env"
  de_fs :: "'s \<Rightarrow> dev_fs"
  de_start :: "'s \<Rightarrow> go_err option"
  de_stops :: "'s \<Rightarrow> bool"

record dev_config =
  dc_paths :: servicePaths
  dc_skipBuf :: bool
  dc_roots :: "string list"

text \<open>The loop waits for a tick, is about to generate, is about to restart the service after the
  generation on a project, has ended the process with an exit code, or has returned.\<close>

datatype 's dev_phase = Idle | Reloading | Restarting 's | Exited int | Returned

text \<open>\<open>dv_proc\<close> is the running service: the project that the last generation before its start has read, which
  the program does not keep, and the project that \<open>go run\<close> was started on.\<close>

record 's dev_state =
  dv_world :: 's
  dv_snap :: snapshot
  dv_phase :: "'s dev_phase"
  dv_proc :: "('s \<times> 's) option"

definition dev_snapshot :: "'s dev_env \<Rightarrow> dev_config \<Rightarrow> 's \<Rightarrow> snapshot" where
  "dev_snapshot env cfg s = snapshotModTimes (de_fs env s) (dc_roots cfg)"

definition dev_generate :: "'s dev_env \<Rightarrow> dev_config \<Rightarrow> 's action" where
  "dev_generate env cfg =
     runGenerateAll (de_cmd env) (sp_rootDir (dc_paths cfg)) (sp_manifestPath (dc_paths cfg))
       \<lparr>go_skipBuf = dc_skipBuf cfg, go_protoOnly = False, go_wireOnly = False, go_skipSQLC = False,
        go_skipCQL = False, go_skipMain = False, go_forceMain = False, go_quietMain = True\<rparr>"

text \<open>The start of \<open>executeDev\<close>, up to its first \<open>reload\<close>.\<close>

definition dev_init ::
  "'s dev_env \<Rightarrow> string \<Rightarrow> string \<Rightarrow> bool \<Rightarrow> 's \<Rightarrow> dev_config option \<times> 's dev_state" where
  "dev_init env dir manifestPath skipBuf s =
     (case resolveServicePaths (de_cmd env) s dir manifestPath of
        Inl e \<Rightarrow> (None, \<lparr>dv_world = s, dv_snap = [], dv_phase = Exited 1, dv_proc = None\<rparr>)
      | Inr paths \<Rightarrow>
          (let cfg = \<lparr>dc_paths = paths, dc_skipBuf = skipBuf, dc_roots = devWatchRoots (de_fs env s) (sp_rootDir paths)\<rparr>
           in (Some cfg, \<lparr>dv_world = s, dv_snap = dev_snapshot env cfg s, dv_phase = Reloading, dv_proc = None\<rparr>)))"

definition dev_tick :: "'s dev_env \<Rightarrow> dev_config \<Rightarrow> 's dev_state \<Rightarrow> 's dev_state" where
  "dev_tick env cfg st =
     (let nxt = dev_snapshot env cfg (dv_world st); changed = diffModTimes (dv_snap st) nxt
      in if changed \<noteq> [] then st\<lparr>dv_snap := nxt, dv_phase := Reloading\<rparr> else st)"

definition reload_generate :: "'s dev_env \<Rightarrow> dev_config \<Rightarrow> 's dev_state \<Rightarrow> 's dev_state" where
  "reload_generate env cfg st =
     (case dev_generate env cfg (dv_world st) of
        (s, Some e) \<Rightarrow> st\<lparr>dv_world := s, dv_phase := Exited 1\<rparr>
      | (s, None) \<Rightarrow> st\<lparr>dv_world := s, dv_phase := Restarting (dv_world st)\<rparr>)"

text \<open>The old service is interrupted and waited for; a service that does not end keeps the loop here.\<close>

definition reload_restart :: "'s dev_env \<Rightarrow> 's \<Rightarrow> 's dev_state \<Rightarrow> 's dev_state" where
  "reload_restart env input st =
     (if (case dv_proc st of None \<Rightarrow> False | Some (g, p) \<Rightarrow> \<not> de_stops env p) then st
      else (case de_start env (dv_world st) of
              Some e \<Rightarrow> st\<lparr>dv_proc := None, dv_phase := Exited 1\<rparr>
            | None \<Rightarrow> st\<lparr>dv_proc := Some (input, dv_world st), dv_phase := Idle\<rparr>))"

definition dev_next :: "'s dev_env \<Rightarrow> dev_config \<Rightarrow> 's dev_state \<Rightarrow> 's dev_state" where
  "dev_next env cfg st =
     (case dv_phase st of
        Idle \<Rightarrow> dev_tick env cfg st
      | Reloading \<Rightarrow> reload_generate env cfg st
      | Restarting input \<Rightarrow> reload_restart env input st
      | Exited code \<Rightarrow> st
      | Returned \<Rightarrow> st)"

text \<open>The program's steps, the edits of the user between them, and the end of the context, which the loop
  sees while it waits.\<close>

inductive dev_step :: "'s dev_env \<Rightarrow> dev_config \<Rightarrow> ('s \<Rightarrow> 's \<Rightarrow> bool) \<Rightarrow> 's dev_state \<Rightarrow> 's dev_state \<Rightarrow> bool"
  for env cfg edit where
  program: "dev_step env cfg edit st (dev_next env cfg st)"
| edited: "edit (dv_world st) s \<Longrightarrow> dev_step env cfg edit st (st\<lparr>dv_world := s\<rparr>)"
| canceled: "dv_phase st = Idle \<Longrightarrow> dev_step env cfg edit st (st\<lparr>dv_phase := Returned, dv_proc := None\<rparr>)"

inductive dev_reach :: "'s dev_env \<Rightarrow> dev_config \<Rightarrow> ('s \<Rightarrow> 's \<Rightarrow> bool) \<Rightarrow> 's dev_state \<Rightarrow> 's dev_state \<Rightarrow> bool"
  for env cfg edit start where
  init: "dev_reach env cfg edit start start"
| step: "dev_reach env cfg edit start st \<Longrightarrow> dev_step env cfg edit st st' \<Longrightarrow> dev_reach env cfg edit start st'"

end
