(* ===== verification/DevLoopFacts.thy ===== *)
theory DevLoopFacts
  imports DevLoop
begin

text \<open>
  Properties of the development loop: what a difference of snapshots says, that a tick that sees none finds a
  service built from the present sources, and that the loop settles once the user stops editing.
\<close>

section \<open>Snapshots\<close>

lemma distinct_snapshot: "distinct (map fst (snapshotModTimes fs roots))"
proof -
  have walk: "distinct (map fst out) \<Longrightarrow> distinct (map fst (foldl walk_file out es))" for out es
    by (induction es arbitrary: out)
       (auto simp add: walk_file_def distinct_update split: prod.splits option.splits bool.splits if_splits)
  have "distinct (map fst out) \<Longrightarrow> distinct (map fst (foldl (\<lambda>out root. case df_stat fs root of
         None \<Rightarrow> out
       | Some (isDir, t) \<Rightarrow> if \<not> isDir then AList.update root t out else foldl walk_file out (df_walk fs root)) out roots))"
    for out
    by (induction roots arbitrary: out) (auto simp add: walk distinct_update split: option.split)
  then show ?thesis by (simp add: snapshotModTimes_def)
qed

lemma find_None_map_of:
  "distinct (map fst xs) \<Longrightarrow> find P xs = None \<longleftrightarrow> (\<forall>k v. map_of xs k = Some v \<longrightarrow> \<not> P (k, v))"
  by (auto simp add: find_None_iff map_of_eq_Some_iff)

text \<open>The order of snapshots: files stay, and their times do not go back.\<close>

definition snap_le :: "snapshot \<Rightarrow> snapshot \<Rightarrow> bool" where
  "snap_le a b \<longleftrightarrow> (\<forall>p t. map_of a p = Some t \<longrightarrow> (\<exists>u. map_of b p = Some u \<and> t \<le> u))"

lemma snap_le_refl: "snap_le a a"
  by (simp add: snap_le_def)

lemma snap_le_trans: "snap_le a b \<Longrightarrow> snap_le b c \<Longrightarrow> snap_le a c"
  unfolding snap_le_def by (meson order_trans)

lemma snap_le_antisym:
  assumes "snap_le a b" and "snap_le b a"
  shows "map_of a = map_of b"
proof
  fix p
  show "map_of a p = map_of b p"
    using assms unfolding snap_le_def
    by (cases "map_of a p"; cases "map_of b p") (fastforce intro: antisym)+
qed

text \<open>No difference is reported exactly when no file is new or younger and none is gone.\<close>

lemma diffModTimes_Nil:
  assumes "distinct (map fst before)" and "distinct (map fst after)" and "[] \<notin> set (map fst after)"
  shows "diffModTimes before after = [] \<longleftrightarrow>
    snap_le after before \<and> dom (map_of before) \<subseteq> dom (map_of after)"
proof -
  define new where "new = (\<lambda>(path, t). case map_of before path of None \<Rightarrow> True | Some prev \<Rightarrow> prev < t)"
  define gone where "gone = (\<lambda>(path, _ :: mod_time). map_of after path = None)"
  have n: "find new after = None \<longleftrightarrow> snap_le after before"
    unfolding find_None_map_of [OF assms(2)] snap_le_def new_def by (fastforce split: option.splits)
  have g: "find gone before = None \<longleftrightarrow> dom (map_of before) \<subseteq> dom (map_of after)"
    unfolding find_None_map_of [OF assms(1)] gone_def by (auto simp add: dom_def)
  have d: "diffModTimes before after = (case find new after of Some (path, _) \<Rightarrow> path
      | None \<Rightarrow> (case find gone before of Some (path, _) \<Rightarrow> path @ '' (removed)'' | None \<Rightarrow> []))"
    unfolding diffModTimes_def new_def gone_def ..
  show ?thesis
  proof (cases "find new after")
    case None
    then show ?thesis using n g unfolding d by (auto split: option.split)
  next
    case (Some e)
    then have "e \<in> set after" by (auto simp add: find_Some_iff)
    then have "fst e \<noteq> []" using assms(3) by (metis image_eqI list.set_map)
    then show ?thesis using Some n unfolding d by (cases e) simp
  qed
qed

section \<open>Projects whose changes show\<close>

text \<open>What \<open>sources\<close> reads of a project is watched: an edit removes no watched file, gives the files that
  it touches a later time and touches one when it changes the sources; and generation leaves the watched
  files alone.\<close>

definition watched ::
  "'s dev_env \<Rightarrow> dev_config \<Rightarrow> ('s \<Rightarrow> 's \<Rightarrow> bool) \<Rightarrow> ('s \<Rightarrow> 'src) \<Rightarrow> bool" where
  "watched env cfg edit sources \<longleftrightarrow>
     (\<forall>s s'. edit s s' \<longrightarrow> snap_le (dev_snapshot env cfg s) (dev_snapshot env cfg s') \<and>
        (map_of (dev_snapshot env cfg s) = map_of (dev_snapshot env cfg s') \<longrightarrow> sources s' = sources s)) \<and>
     (\<forall>s. map_of (dev_snapshot env cfg (fst (dev_generate env cfg s))) = map_of (dev_snapshot env cfg s) \<and>
        sources (fst (dev_generate env cfg s)) = sources s) \<and>
     (\<forall>s. [] \<notin> set (map fst (dev_snapshot env cfg s)))"

definition later :: "'s dev_env \<Rightarrow> dev_config \<Rightarrow> ('s \<Rightarrow> 'src) \<Rightarrow> 's \<Rightarrow> 's \<Rightarrow> bool" where
  "later env cfg sources s s' \<longleftrightarrow>
     snap_le (dev_snapshot env cfg s) (dev_snapshot env cfg s') \<and>
     (map_of (dev_snapshot env cfg s) = map_of (dev_snapshot env cfg s') \<longrightarrow> sources s' = sources s)"

lemma later_refl: "later env cfg sources s s"
  by (simp add: later_def snap_le_refl)

lemma snap_le_cong: "map_of a = map_of b \<Longrightarrow> snap_le a c = snap_le b c \<and> snap_le c a = snap_le c b"
  by (simp add: snap_le_def)

lemma later_sandwich:
  assumes "later env cfg sources a b" and "later env cfg sources b c"
    and "map_of (dev_snapshot env cfg a) = map_of (dev_snapshot env cfg c)"
  shows "sources b = sources a \<and> sources c = sources a"
proof -
  have "map_of (dev_snapshot env cfg a) = map_of (dev_snapshot env cfg b)"
    using assms snap_le_cong [OF assms(3)] unfolding later_def by (metis snap_le_antisym)
  then show ?thesis using assms unfolding later_def by simp
qed

lemma later_trans:
  assumes "later env cfg sources a b" and "later env cfg sources b c"
  shows "later env cfg sources a c"
  using later_sandwich [OF assms] assms snap_le_trans unfolding later_def by metis

lemma later_edit: "watched env cfg edit sources \<Longrightarrow> edit s s' \<Longrightarrow> later env cfg sources s s'"
  unfolding watched_def later_def by blast

lemma later_generate: "watched env cfg edit sources \<Longrightarrow> later env cfg sources s (fst (dev_generate env cfg s))"
  unfolding watched_def later_def by (simp add: snap_le_def)

section \<open>The invariant\<close>

text \<open>The snapshot was taken of a project before the input of the last generation, which is before the start of
  the service.\<close>

definition dev_inv :: "'s dev_env \<Rightarrow> dev_config \<Rightarrow> ('s \<Rightarrow> 'src) \<Rightarrow> 's dev_state \<Rightarrow> bool" where
  "dev_inv env cfg sources st \<longleftrightarrow>
     (\<exists>w. dv_snap st = dev_snapshot env cfg w \<and>
        (case dv_phase st of
           Idle \<Rightarrow> (\<exists>g p. dv_proc st = Some (g, p) \<and> later env cfg sources w g \<and> later env cfg sources g p \<and>
             later env cfg sources p (dv_world st))
         | Reloading \<Rightarrow> later env cfg sources w (dv_world st)
         | Restarting g \<Rightarrow> later env cfg sources w g \<and> later env cfg sources g (dv_world st)
         | _ \<Rightarrow> True))"

lemma dev_inv_next:
  assumes "watched env cfg edit sources" and "dev_inv env cfg sources st"
  shows "dev_inv env cfg sources (dev_next env cfg st)"
proof (cases "dv_phase st")
  case Idle
  then show ?thesis using assms(2)
    by (auto simp add: dev_inv_def dev_next_def dev_tick_def Let_def intro: later_refl)
next
  case Reloading
  obtain s r where g: "dev_generate env cfg (dv_world st) = (s, r)" by force
  have "later env cfg sources (dv_world st) s" using later_generate [OF assms(1), of "dv_world st"] g by simp
  then show ?thesis using assms(2) Reloading g
    by (cases r) (auto simp add: dev_inv_def dev_next_def reload_generate_def)
next
  case (Restarting g)
  then show ?thesis using assms(2)
    by (auto simp add: dev_inv_def dev_next_def reload_restart_def intro: later_refl split: option.splits)
qed (use assms(2) in \<open>simp_all add: dev_next_def\<close>)

lemma dev_inv_step:
  assumes "watched env cfg edit sources" and "dev_step env cfg edit st st'" and "dev_inv env cfg sources st"
  shows "dev_inv env cfg sources st'"
  using assms(2)
proof cases
  case (edited s)
  note l = later_edit [OF assms(1) edited(2)]
  show ?thesis using assms(3) unfolding edited(1)
    by (auto simp add: dev_inv_def split: dev_phase.splits intro: later_trans [OF _ l])
next
  case canceled
  then show ?thesis using assms(3) by (auto simp add: dev_inv_def)
qed (use dev_inv_next [OF assms(1,3)] in simp)

lemma dev_inv_reach:
  assumes "watched env cfg edit sources" and "dev_init env dir manifestPath skipBuf s = (Some cfg, start)"
    and "dev_reach env cfg edit start st"
  shows "dev_inv env cfg sources st"
  using assms(3)
proof induction
  case init
  have "dv_snap start = dev_snapshot env cfg s \<and> dv_world start = s \<and> dv_phase start = Reloading"
    using assms(2) by (auto simp add: dev_init_def Let_def split: sum.splits)
  then show ?case using later_refl unfolding dev_inv_def by fastforce
next
  case (step st st')
  then show ?case using dev_inv_step [OF assms(1)] by blast
qed

lemma no_difference:
  assumes "watched env cfg edit sources" and "dv_snap st = dev_snapshot env cfg w" and "later env cfg sources w (dv_world st)"
  shows "diffModTimes (dv_snap st) (dev_snapshot env cfg (dv_world st)) = [] \<longleftrightarrow>
    map_of (dev_snapshot env cfg w) = map_of (dev_snapshot env cfg (dv_world st))"
proof -
  have "[] \<notin> set (map fst (dev_snapshot env cfg (dv_world st)))" using assms(1) unfolding watched_def by blast
  moreover have "distinct (map fst (dev_snapshot env cfg s))" for s by (simp add: dev_snapshot_def distinct_snapshot)
  ultimately have "diffModTimes (dv_snap st) (dev_snapshot env cfg (dv_world st)) = [] \<longleftrightarrow>
      snap_le (dev_snapshot env cfg (dv_world st)) (dev_snapshot env cfg w) \<and>
      dom (map_of (dev_snapshot env cfg w)) \<subseteq> dom (map_of (dev_snapshot env cfg (dv_world st)))"
    unfolding assms(2) by (intro diffModTimes_Nil)
  moreover have le: "snap_le (dev_snapshot env cfg w) (dev_snapshot env cfg (dv_world st))"
    using assms(3) unfolding later_def by blast
  then have "dom (map_of (dev_snapshot env cfg w)) \<subseteq> dom (map_of (dev_snapshot env cfg (dv_world st)))"
    unfolding snap_le_def by blast
  ultimately show ?thesis using snap_le_antisym [OF le] snap_le_cong snap_le_refl by metis
qed

text \<open>A service that was started without a later change is built from the present sources.\<close>

lemma idle_fresh:
  assumes "watched env cfg edit sources" and "dev_inv env cfg sources st" and "dv_phase st = Idle"
    and "diffModTimes (dv_snap st) (dev_snapshot env cfg (dv_world st)) = []"
  shows "\<exists>g p. dv_proc st = Some (g, p) \<and> sources g = sources (dv_world st) \<and> sources p = sources (dv_world st)"
proof -
  obtain w g p where w: "dv_snap st = dev_snapshot env cfg w" and p: "dv_proc st = Some (g, p)"
    and l: "later env cfg sources w g" "later env cfg sources g p" "later env cfg sources p (dv_world st)"
    using assms(2,3) by (auto simp add: dev_inv_def)
  note wp = later_trans [OF l(1,2)] and gw = later_trans [OF l(2,3)]
  have eq: "map_of (dev_snapshot env cfg w) = map_of (dev_snapshot env cfg (dv_world st))"
    using assms(4) unfolding no_difference [OF assms(1) w later_trans [OF wp l(3)]] .
  show ?thesis using p later_sandwich [OF l(1) gw eq] later_sandwich [OF wp l(3) eq] by simp
qed


section \<open>Convergence\<close>

text \<open>A state in which the loop waits for good, with a service built from the given sources.\<close>

definition settled :: "'s dev_env \<Rightarrow> dev_config \<Rightarrow> ('s \<Rightarrow> 'src) \<Rightarrow> 'src \<Rightarrow> 's dev_state \<Rightarrow> bool" where
  "settled env cfg sources src st \<longleftrightarrow>
     dv_phase st = Idle \<and> dev_next env cfg st = st \<and>
     (\<exists>g p. dv_proc st = Some (g, p) \<and> sources g = src \<and> sources p = src)"

text \<open>The environment lets a reload through.\<close>

definition reload_succeeds :: "'s dev_env \<Rightarrow> dev_config \<Rightarrow> bool" where
  "reload_succeeds env cfg \<longleftrightarrow>
     (\<forall>s. snd (dev_generate env cfg s) = None) \<and> (\<forall>s. de_start env s = None) \<and> (\<forall>s. de_stops env s)"

lemma settle_idle:
  assumes "watched env cfg edit sources" and "dev_inv env cfg sources st" and "dv_phase st = Idle"
    and "diffModTimes (dv_snap st) (dev_snapshot env cfg (dv_world st)) = []"
  shows "settled env cfg sources (sources (dv_world st)) st"
  using idle_fresh [OF assms] assms(3,4) by (simp add: settled_def dev_next_def dev_tick_def Let_def)

lemma generate_step:
  assumes "watched env cfg edit sources" and "reload_succeeds env cfg" and "dv_phase st = Reloading"
  shows "\<exists>s. dev_next env cfg st = st\<lparr>dv_world := s, dv_phase := Restarting (dv_world st)\<rparr> \<and>
    map_of (dev_snapshot env cfg s) = map_of (dev_snapshot env cfg (dv_world st)) \<and> sources s = sources (dv_world st)"
proof -
  obtain s where g: "dev_generate env cfg (dv_world st) = (s, None)"
    using assms(2) unfolding reload_succeeds_def by (metis prod.collapse)
  have "map_of (dev_snapshot env cfg (fst (dev_generate env cfg (dv_world st)))) = map_of (dev_snapshot env cfg (dv_world st)) \<and>
      sources (fst (dev_generate env cfg (dv_world st))) = sources (dv_world st)"
    using assms(1) unfolding watched_def by blast
  then show ?thesis using g assms(3) by (intro exI [of _ s]) (simp add: dev_next_def reload_generate_def)
qed

lemma restart_step:
  assumes "reload_succeeds env cfg" and "dv_phase st = Restarting g"
  shows "dev_next env cfg st = st\<lparr>dv_proc := Some (g, dv_world st), dv_phase := Idle\<rparr>"
  using assms by (auto simp add: reload_succeeds_def dev_next_def reload_restart_def split: option.split)

lemma reload_settles:
  assumes "watched env cfg edit sources" and "reload_succeeds env cfg" and "dev_inv env cfg sources st"
    and "dv_phase st = Restarting g" and "map_of (dv_snap st) = map_of (dev_snapshot env cfg (dv_world st))"
  shows "settled env cfg sources (sources (dv_world st)) (dev_next env cfg st)"
proof -
  note n = restart_step [OF assms(2,4)]
  obtain w where w: "dv_snap st = dev_snapshot env cfg w" and l: "later env cfg sources w g"
      "later env cfg sources g (dv_world st)"
    using assms(3,4) by (auto simp add: dev_inv_def)
  have "diffModTimes (dv_snap st) (dev_snapshot env cfg (dv_world st)) = []"
    unfolding no_difference [OF assms(1) w later_trans [OF l]] using assms(5) w by simp
  then show ?thesis
    using settle_idle [OF assms(1) dev_inv_next [OF assms(1,3)]] by (simp add: n)
qed

lemma changed_settles:
  assumes "watched env cfg edit sources" and "reload_succeeds env cfg" and "dev_inv env cfg sources st"
    and "dv_phase st = Reloading" and "map_of (dv_snap st) = map_of (dev_snapshot env cfg (dv_world st))"
  shows "settled env cfg sources (sources (dv_world st)) (dev_next env cfg (dev_next env cfg st))"
proof -
  obtain s where n: "dev_next env cfg st = st\<lparr>dv_world := s, dv_phase := Restarting (dv_world st)\<rparr>"
    and s: "map_of (dev_snapshot env cfg s) = map_of (dev_snapshot env cfg (dv_world st))" "sources s = sources (dv_world st)"
    using generate_step [OF assms(1,2,4)] by blast
  show ?thesis
    using reload_settles [OF assms(1,2) dev_inv_next [OF assms(1,3)]] assms(5) s unfolding n by simp
qed

lemma idle_settles:
  assumes "watched env cfg edit sources" and "reload_succeeds env cfg" and "dev_inv env cfg sources st"
    and "dv_phase st = Idle"
  shows "\<exists>k \<le> 3. settled env cfg sources (sources (dv_world st)) ((dev_next env cfg ^^ k) st)"
proof (cases "diffModTimes (dv_snap st) (dev_snapshot env cfg (dv_world st)) = []")
  case True
  then show ?thesis using settle_idle [OF assms(1,3,4)] by (intro exI [of _ 0]) simp
next
  case False
  then have n: "dev_next env cfg st = st\<lparr>dv_snap := dev_snapshot env cfg (dv_world st), dv_phase := Reloading\<rparr>"
    using assms(4) by (simp add: dev_next_def dev_tick_def Let_def)
  have "settled env cfg sources (sources (dv_world st)) (dev_next env cfg (dev_next env cfg (dev_next env cfg st)))"
    using changed_settles [OF assms(1,2) dev_inv_next [OF assms(1,3)]] unfolding n by simp
  then show ?thesis by (intro exI [of _ 3]) (simp add: eval_nat_numeral)
qed


section \<open>A concrete loop\<close>

text \<open>A project is the version of its one proto file, which is also its modification time.\<close>

definition demo_cmd :: "nat cmd_env" where
  "demo_cmd = \<lparr>ce_abs = Inr, ce_findPath = (\<lambda>_ _. Inr ''/p/zengo.yaml''), ce_load = (\<lambda>_ _. Inr demo_manifest),
     ce_readFile = (\<lambda>_ _. Some ''module example''), ce_exists = (\<lambda>_ _. False), ce_trackMain = (\<lambda>_ _. False),
     ce_fromWorkingDir = (\<lambda>p. p), ce_run = (\<lambda>_ s. (s, None))\<rparr>"

definition demo_dev :: "nat dev_env" where
  "demo_dev = \<lparr>de_cmd = demo_cmd,
     de_fs = (\<lambda>s. \<lparr>df_stat = (\<lambda>p. if p = ''/p/api'' then Some (True, 0) else None),
                    df_walk = (\<lambda>_. [(''/p/api'', Some (True, Some 0)), (''/p/api/a.proto'', Some (False, Some (int s)))])\<rparr>),
     de_start = (\<lambda>_. None), de_stops = (\<lambda>_. True)\<rparr>"

definition demo_cfg :: dev_config where
  "demo_cfg = \<lparr>dc_paths = \<lparr>sp_rootDir = ''/p'', sp_manifestPath = ''/p/zengo.yaml''\<rparr>, dc_skipBuf = False,
     dc_roots = [''/p/api'']\<rparr>"

definition demo_start :: "nat \<Rightarrow> nat dev_state" where
  "demo_start s = \<lparr>dv_world = s, dv_snap = [(''/p/api/a.proto'', int s)], dv_phase = Reloading, dv_proc = None\<rparr>"

lemma demo_dev_sel [simp]:
  "de_cmd demo_dev = demo_cmd" "de_start demo_dev s = None" "de_stops demo_dev s"
  "df_stat (de_fs demo_dev s) p = (if p = ''/p/api'' then Some (True, 0) else None)"
  "df_walk (de_fs demo_dev s) p = [(''/p/api'', Some (True, Some 0)), (''/p/api/a.proto'', Some (False, Some (int s)))]"
  by (simp_all add: demo_dev_def)

lemma demo_cmd_sel [simp]:
  "ce_abs demo_cmd p = Inr p" "ce_findPath demo_cmd s p = Inr ''/p/zengo.yaml''" "ce_load demo_cmd s p = Inr demo_manifest"
  "ce_readFile demo_cmd s p = Some ''module example''" "\<not> ce_exists demo_cmd s p" "\<not> ce_trackMain demo_cmd s p"
  "ce_run demo_cmd stg s = (s, None)"
  by (simp_all add: demo_cmd_def)

lemma demo_snapshot: "dev_snapshot demo_dev demo_cfg s = [(''/p/api/a.proto'', int s)]"
  by (simp add: dev_snapshot_def snapshotModTimes_def demo_cfg_def walk_file_def Ext_def supportedExts_def)

lemma demo_roots: "devWatchRoots (de_fs demo_dev s) ''/p'' = [''/p/api'']"
  by (auto simp add: devWatchRoots_def path_join_def)

lemma dev_demo_paths: "resolveServicePaths demo_cmd s ''/p'' [] = Inr (dc_paths demo_cfg)"
  by (simp add: resolveServicePaths_def resolveRootDir_def demo_cfg_def)

lemma demo_cfg_eq: "\<lparr>dc_paths = dc_paths demo_cfg, dc_skipBuf = False, dc_roots = [''/p/api'']\<rparr> = demo_cfg"
  and demo_root: "sp_rootDir (dc_paths demo_cfg) = ''/p''"
  by (simp_all add: demo_cfg_def)

lemma demo_init: "dev_init demo_dev ''/p'' [] False s = (Some demo_cfg, demo_start s)"
  by (simp add: dev_init_def dev_demo_paths demo_roots demo_root demo_cfg_eq demo_snapshot demo_start_def Let_def)

lemma demo_wrapped: "run_wrapped demo_cmd what stg s = (s, None)"
  by (simp add: run_wrapped_def)

lemma demo_resolve_manifest: "resolveServicePaths demo_cmd s r ''/p/zengo.yaml'' = Inr (dc_paths demo_cfg)"
  "resolveRootDir demo_cmd r ''/p/zengo.yaml'' = Inr ''/p''"
  by (simp_all add: resolveServicePaths_def resolveRootDir_def path_dir_def demo_cfg_def Let_def)

lemma demo_wire: "run_wire demo_cmd r ''/p/zengo.yaml'' p s = (s, None)"
proof -
  have "ReadModuleAt (Some ''module example'') \<noteq> []"
    by (simp add: ReadModuleAt_def module_line_def List.map_filter_simps has_prefix_def trim_prefix_def trim_space_def
        trim_func_def is_space_def Let_def)
  then show ?thesis by (simp add: run_wire_def demo_resolve_manifest demo_wrapped seq_run_def Let_def)
qed

lemma demo_dev_generate: "dev_generate demo_dev demo_cfg s = (s, None)"
proof -
  have c: "sp_manifestPath (dc_paths demo_cfg) = ''/p/zengo.yaml''" "\<not> dc_skipBuf demo_cfg" by (simp_all add: demo_cfg_def)
  have "runGenerateOptsIn demo_cmd r ''/p/zengo.yaml'' opts s = (s, None)" for r opts
    by (simp add: runGenerateOptsIn_def demo_resolve_manifest demo_wire demo_wrapped run_buf_def run_split_def
        run_sqlc_def run_cql_def when_run_def seq_run_def)
  moreover have "runGenerateMainOptsIn demo_cmd r ''/p/zengo.yaml'' opts s = (s, None)" for r opts
    by (simp add: runGenerateMainOptsIn_def demo_resolve_manifest demo_wrapped run_main_def when_run_def seq_run_def Let_def)
  ultimately show ?thesis by (simp add: dev_generate_def runGenerateAll_def seq_run_def c)
qed

lemma demo_watched: "watched demo_dev demo_cfg (<) (\<lambda>s. s)"
  by (auto simp add: watched_def demo_snapshot demo_dev_generate snap_le_def dest: fun_cong [of _ _ "''/p/api/a.proto''"])

lemma demo_reload: "reload_succeeds demo_dev demo_cfg"
  by (simp add: reload_succeeds_def demo_dev_generate)

text \<open>An edit during the first reload is noticed, and the service is then built from it.\<close>

lemma demo_edited: "dev_reach demo_dev demo_cfg (<) (demo_start 1) ((demo_start 1)\<lparr>dv_world := 2\<rparr>)"
  using dev_reach.step [OF dev_reach.init dev_step.edited [of "(<)" "demo_start 1" 2]] by (simp add: demo_start_def)

lemma demo_run:
  "(dev_next demo_dev demo_cfg ^^ 2) (demo_start s) =
     (demo_start s)\<lparr>dv_phase := Idle, dv_proc := Some (s, s)\<rparr>"
  by (simp add: eval_nat_numeral dev_next_def reload_generate_def reload_restart_def demo_dev_generate demo_start_def)



end
