(* ===== verification/GoStrings.thy ===== *)
theory GoStrings
  imports Zengo_Prelude
begin

text \<open>
  Replacing in strings: the functions of package \<open>strings\<close> that rewrite text.
\<close>

text \<open>\<open>strings.Replace\<close> with \<open>n = 1\<close>, and \<open>strings.ReplaceAll\<close> for a non-empty \<open>old\<close>; the number counts the
  characters still to skip.\<close>

fun replace_first :: "string \<Rightarrow> string \<Rightarrow> string \<Rightarrow> string" where
  "replace_first old new [] = (if old = [] then new else [])"
| "replace_first old new (c # cs) =
     (if has_prefix (c # cs) old then new @ drop (length old) (c # cs) else c # replace_first old new cs)"

fun replace_skip :: "string \<Rightarrow> string \<Rightarrow> nat \<Rightarrow> string \<Rightarrow> string" where
  "replace_skip old new k [] = []"
| "replace_skip old new (Suc k) (c # cs) = replace_skip old new k cs"
| "replace_skip old new 0 (c # cs) =
     (if has_prefix (c # cs) old then new @ replace_skip old new (length old - 1) cs
      else c # replace_skip old new 0 cs)"

definition ReplaceAll :: "string \<Rightarrow> string \<Rightarrow> string \<Rightarrow> string" where
  "ReplaceAll s old new = replace_skip old new 0 s"

text \<open>\<open>strings.Index\<close>: the position of the first occurrence.\<close>

fun Index :: "string \<Rightarrow> string \<Rightarrow> nat option" where
  "Index [] sub = (if sub = [] then Some 0 else None)"
| "Index (c # cs) sub = (if has_prefix (c # cs) sub then Some 0 else map_option Suc (Index cs sub))"

text \<open>Splitting what was joined.\<close>

lemma split_on_fresh: "c \<notin> set w \<Longrightarrow> split_on c w = [w]"
  by (induction w) auto

lemma split_on_sep: "c \<notin> set w \<Longrightarrow> split_on c (w @ c # s) = w # split_on c s"
  by (induction w) auto

lemma split_on_join: "ls \<noteq> [] \<Longrightarrow> list_all (\<lambda>l. c \<notin> set l) ls \<Longrightarrow> split_on c (join [c] ls) = ls"
proof (induction ls)
  case (Cons l ls)
  then show ?case by (cases ls) (simp_all add: split_on_fresh split_on_sep)
qed simp

end
