(* ===== verification/Freeze.thy ===== *)
theory Freeze
  imports FileTree VersioningLoader Naming GoStrings
begin

text \<open>
  Freezing the hub API into a legacy version (\<open>internal/versioning/freeze.go\<close>, \<open>freeze_proto.go\<close>,
  \<open>meta.go\<close>): the text transformation of a proto file, with its regular expressions written out as
  matchers, and the copy of the tree.
\<close>

section \<open>Regular expressions\<close>

text \<open>The class \<open>\s\<close> of package \<open>regexp\<close>, and \<open>[\w\.]\<close>.\<close>

definition re_space :: "char \<Rightarrow> bool" where
  "re_space c \<longleftrightarrow> c = CHR '' '' \<or> c = CHR 0x09 \<or> c = CHR 0x0A \<or> c = CHR 0x0C \<or> c = CHR 0x0D"

definition package_char :: "char \<Rightarrow> bool" where
  "package_char c \<longleftrightarrow> is_letter c \<or> is_digit c \<or> c = CHR ''_'' \<or> c = CHR ''.''"

text \<open>\<open>eat p s\<close> is what follows the literal \<open>p\<close>; \<open>span p s\<close> splits off the longest part of a class.\<close>

definition eat :: "string \<Rightarrow> string \<Rightarrow> string option" where
  "eat p s = (if has_prefix s p then Some (drop (length p) s) else None)"

definition skip_space :: "string \<Rightarrow> string" where
  "skip_space s = dropWhile re_space s"

text \<open>\<open>packageRe\<close>, \<open>^package\s+([\w\.]+)\s*;\<close>, at the start of a line: the text of the match and the
  group.  The classes are disjoint from what follows them, so the longest match is the only one.\<close>

definition match_package :: "string \<Rightarrow> (string \<times> string) option" where
  "match_package s =
     Option.bind (eat ''package'' s) (\<lambda>s1.
       let s2 = skip_space s1; name = takeWhile package_char s2
       in if s2 = s1 \<or> name = [] then None
          else Option.bind (eat '';'' (skip_space (drop (length name) s2))) (\<lambda>rest.
                 Some (take (length s - length rest) s, name)))"

text \<open>\<open>goPackageRe\<close>, \<open>^option\s+go_package\s*=\s*"([^";]+)\<close>: the group.\<close>

definition match_go_package :: "string \<Rightarrow> string option" where
  "match_go_package s =
     Option.bind (eat ''option'' s) (\<lambda>s1.
       if skip_space s1 = s1 then None
       else Option.bind (eat ''go_package'' (skip_space s1)) (\<lambda>s2.
              Option.bind (eat ''='' (skip_space s2)) (\<lambda>s3.
                Option.bind (eat [CHR 0x22] (skip_space s3)) (\<lambda>s4.
                  let g = takeWhile (\<lambda>c. c \<noteq> CHR 0x22 \<and> c \<noteq> CHR '';'') s4
                  in if g = [] then None else Some g))))"

text \<open>\<open>FindStringSubmatch\<close> of an expression that starts with \<open>(?m)^\<close>: the flag says whether a line starts
  here.\<close>

fun find_line :: "(string \<Rightarrow> 'a option) \<Rightarrow> bool \<Rightarrow> string \<Rightarrow> 'a option" where
  "find_line m bol [] = (if bol then m [] else None)"
| "find_line m bol (c # cs) =
     (case (if bol then m (c # cs) else None) of
        Some r \<Rightarrow> Some r | None \<Rightarrow> find_line m (c = CHR 0x0A) cs)"

text \<open>\<open>httpPathRe\<close>, \<open>(get|post|put|patch|delete):\s*"([^"]+)"\<close>: the method, the white space and the
  path.\<close>

definition http_methods :: "string list" where
  "http_methods = [''get'', ''post'', ''put'', ''patch'', ''delete'']"

definition match_http :: "string \<Rightarrow> (string \<times> string \<times> string) option" where
  "match_http s =
     (case find (\<lambda>m. has_prefix s (m @ '':'')) http_methods of
        None \<Rightarrow> None
      | Some m \<Rightarrow>
          (let s1 = drop (length m + 1) s; ws = takeWhile re_space s1
           in Option.bind (eat [CHR 0x22] (skip_space s1)) (\<lambda>s2.
                let p = takeWhile (\<lambda>c. c \<noteq> CHR 0x22) s2
                in if p = [] \<or> drop (length p) s2 = [] then None else Some (m, ws, p))))"

definition http_text :: "string \<Rightarrow> string \<Rightarrow> string \<Rightarrow> string" where
  "http_text m ws p = m @ '':'' @ ws @ [CHR 0x22] @ p @ [CHR 0x22]"

definition frozen_route :: "string \<Rightarrow> string \<Rightarrow> string \<Rightarrow> string \<Rightarrow> string" where
  "frozen_route version m ws p =
     (if has_prefix p (''/'' @ version @ ''/'') \<or> has_prefix p ''/v'' then http_text m ws p
      else http_text m '' '' (''/'' @ version @ p))"

text \<open>\<open>ReplaceAllStringFunc\<close>: a match is replaced and skipped.\<close>

fun freeze_routes :: "string \<Rightarrow> nat \<Rightarrow> string \<Rightarrow> string" where
  "freeze_routes version k [] = []"
| "freeze_routes version (Suc k) (c # cs) = freeze_routes version k cs"
| "freeze_routes version 0 (c # cs) =
     (case match_http (c # cs) of
        None \<Rightarrow> c # freeze_routes version 0 cs
      | Some (m, ws, p) \<Rightarrow>
          frozen_route version m ws p @ freeze_routes version (length (http_text m ws p) - 1) cs)"

section \<open>A frozen proto file\<close>

definition freeze_package :: "string \<Rightarrow> string \<Rightarrow> string \<Rightarrow> string" where
  "freeze_package hubPkg version content =
     (case find_line match_package True content of
        None \<Rightarrow> content
      | Some (pkg, name) \<Rightarrow>
          replace_first pkg (''package '' @ trim_suffix name (''.'' @ hubPkg) @ ''.'' @ version @ '';'') content)"

definition freeze_go_package :: "string \<Rightarrow> string \<Rightarrow> HubMeta \<Rightarrow> string \<Rightarrow> string" where
  "freeze_go_package hubPkg version meta content =
     (case find_line match_go_package True content of
        None \<Rightarrow> content
      | Some old \<Rightarrow>
          (let newImport = replace_first ''/hub/'' (''/'' @ version @ ''/'') old;
               newImport = replace_first ('';'' @ hubPkg)
                 ('';'' @ version @ to_lower (serviceBaseName (hm_PrimaryService meta))) newImport
           in replace_first old newImport content))"

definition transformFrozenProto :: "string \<Rightarrow> string \<Rightarrow> HubMeta \<Rightarrow> string" where
  "transformFrozenProto content version meta =
     (let hubPkg = (if hm_PackageSuffix meta = [] then ''hub'' else hm_PackageSuffix meta);
          content = freeze_package hubPkg version content;
          content = ReplaceAll content ''/api/hub/'' (''/api/'' @ version @ ''/'');
          content = freeze_go_package hubPkg version meta content
      in freeze_routes version 0 content)"

section \<open>Freezing\<close>

text \<open>\<open>DiscoverHubMeta\<close>: \<open>active\<close> is the loader of a running \<open>Generate\<close>.\<close>

definition DiscoverHubMeta ::
  "'raw loader_env \<Rightarrow> Loader option \<Rightarrow> string \<Rightarrow> string \<Rightarrow> loader_cache \<Rightarrow> loader_cache \<times> (gen_error + HubMeta)" where
  "DiscoverHubMeta env active module genDir cache =
     (case active of
        Some l \<Rightarrow> (cache, Loader_HubMeta env l)
      | None \<Rightarrow>
          (case NewLoader env module genDir [] cache of
             (cache, r) \<Rightarrow> (cache, bind_err r (Loader_HubMeta env))))"

datatype freeze_error = BadVersion string | NoHubMeta gen_error | VersionExists path | FreezeFailed go_err

definition frozen_content :: "string \<Rightarrow> HubMeta \<Rightarrow> path \<Rightarrow> string \<Rightarrow> string" where
  "frozen_content version meta p data =
     (if has_suffix (last p) ''.proto'' then transformFrozenProto data version meta else data)"

text \<open>\<open>Freeze\<close>, with the result of \<open>DiscoverHubMeta\<close>.  The walk of the hub is read before the first write:
  the target is beside the hub, so that the writes do not show in it.\<close>

definition Freeze ::
  "(io_op \<Rightarrow> bool) \<Rightarrow> gen_error + HubMeta \<Rightarrow> path \<Rightarrow> string \<Rightarrow> tree \<Rightarrow> tree \<times> freeze_error option" where
  "Freeze io hubMeta apiRoot version t =
     (if \<not> legacyDirPattern version then (t, Some (BadVersion version))
      else let hub = apiRoot @ [''hub'']
           in case hubMeta of
                Inl e \<Rightarrow> (t, Some (NoHubMeta e))
              | Inr meta \<Rightarrow>
                  (let target = apiRoot @ [version]
                   in case os_Stat io t target of
                        Found _ \<Rightarrow> (t, Some (VersionExists target))
                      | _ \<Rightarrow>
                          (case walk io t hub of
                             Inl e \<Rightarrow> (t, Some (FreezeFailed e))
                           | Inr es \<Rightarrow>
                               (case copy_entries io (\<lambda>rel. frozen_content version meta (hub @ rel)) hub target es t of
                                  (t, e) \<Rightarrow> (t, map_option FreezeFailed e)))))"

end
