(* ===== verification/FreezeFacts.thy ===== *)
theory FreezeFacts
  imports Freeze FileTreeFacts
begin

text \<open>
  Properties of freezing: the frozen version is a copy of the hub with its proto files transformed and
  nothing else changes, and every HTTP route of a frozen file is versioned exactly once.
\<close>

section \<open>The tree\<close>

lemma legacyDirPattern_not_hub: "legacyDirPattern v \<Longrightarrow> v \<noteq> ''hub''"
  by (auto simp add: legacyDirPattern_def)

text \<open>A freeze that succeeds creates \<open>api/vN\<close>, which was not there, with exactly the
  directories and files of \<open>api/hub\<close>, the proto files transformed and the others as they are; the hub and every
  other file stay as they were (but for missing directories above).  One that fails changes nothing outside
  \<open>api/vN\<close>, and nothing at all when the version is not valid, is already there or the hub cannot be analysed.\<close>

theorem Freeze_snapshot:
  assumes "wf_tree t" and "\<not> io (OpStat (apiRoot @ [version]))"
  shows "case Freeze io hubMeta apiRoot version t of
      (t', None) \<Rightarrow> (\<exists>meta. hubMeta = Inr meta \<and> legacyDirPattern version \<and>
        map_of t (apiRoot @ [version]) = None \<and> changed_at (apiRoot @ [version]) t t' \<and>
        (\<forall>r. map_of t' ((apiRoot @ [version]) @ r) =
           map_option (map_node (frozen_content version meta ((apiRoot @ [''hub'']) @ r)))
             (map_of t ((apiRoot @ [''hub'']) @ r))))
    | (t', Some (FreezeFailed e)) \<Rightarrow> changed_at (apiRoot @ [version]) t t'
    | (t', Some e) \<Rightarrow> t' = t"
proof (cases "legacyDirPattern version \<and> \<not> isl hubMeta \<and> (\<forall>n. os_Stat io t (apiRoot @ [version]) \<noteq> Found n)")
  case False
  then show ?thesis by (cases hubMeta) (auto simp add: Freeze_def Let_def split: stat_result.split)
next
  case True
  let ?hub = "apiRoot @ [''hub'']" and ?target = "apiRoot @ [version]"
  obtain meta where meta: "hubMeta = Inr meta" using True by (cases hubMeta) simp_all
  let ?f = "\<lambda>rel. frozen_content version meta (?hub @ rel)"
  have par: "?hub \<parallel> ?target" using legacyDirPattern_not_hub [of version] True by (simp add: not_equal_is_parallel)
  have free: "map_of t ?target = None"
    using True assms(2) by (auto simp add: os_Stat_def split: option.splits)
  then have absent: "\<forall>r. map_of t (?target @ r) = None"
    using wf_tree_below_file [OF assms(1), of ?target] by (metis append_Nil2 option.distinct(1))
  have run: "Freeze io hubMeta apiRoot version t =
      (case walk io t ?hub of Inl e \<Rightarrow> (t, Some (FreezeFailed e))
       | Inr es \<Rightarrow> (case copy_entries io ?f ?hub ?target es t of (t, e) \<Rightarrow> (t, map_option FreezeFailed e)))"
    using True by (auto simp add: Freeze_def meta Let_def split: stat_result.split)
  show ?thesis
  proof (cases "walk io t ?hub")
    case (Inr es)
    obtain t' r where c: "copy_entries io ?f ?hub ?target es t = (t', r)" by force
    show ?thesis
    proof (cases r)
      case None
      show ?thesis using copy_walk_ok [OF Inr c [unfolded None] par assms(1) absent] True free
        unfolding run Inr sum.case c prod.case None option.map option.case by (auto simp add: meta)
    next
      case (Some e)
      show ?thesis using copy_entries_changed [OF c]
        unfolding run Inr sum.case c prod.case Some option.map option.case freeze_error.case .
    qed
  qed (simp add: run)
qed

section \<open>Routes\<close>

text \<open>The HTTP paths that a proto file declares, as the expression finds them.\<close>

fun http_paths :: "nat \<Rightarrow> string \<Rightarrow> (string \<times> string) list" where
  "http_paths k [] = []"
| "http_paths (Suc k) (c # cs) = http_paths k cs"
| "http_paths 0 (c # cs) =
     (case match_http (c # cs) of
        None \<Rightarrow> http_paths 0 cs
      | Some (m, ws, p) \<Rightarrow> (m, p) # http_paths (length (http_text m ws p) - 1) cs)"

definition versioned :: "string \<Rightarrow> string \<Rightarrow> string" where
  "versioned version p = (if has_prefix p ''/v'' then p else ''/'' @ version @ p)"

lemma freeze_routes_drop: "freeze_routes v k s = freeze_routes v 0 (drop k s)"
  by (induction v k s rule: freeze_routes.induct) simp_all

lemma http_paths_drop: "http_paths k s = http_paths 0 (drop k s)"
  by (induction k s rule: http_paths.induct) simp_all

lemma takeWhile_stop: "\<forall>c \<in> set xs. P c \<Longrightarrow> \<not> P y \<Longrightarrow> takeWhile P (xs @ y # ys) = xs"
  by simp

lemma dropWhile_stop: "\<forall>c \<in> set xs. P c \<Longrightarrow> \<not> P y \<Longrightarrow> dropWhile P (xs @ y # ys) = y # ys"
  by simp

lemma http_methods_first:
  "m \<in> set http_methods \<Longrightarrow> find (\<lambda>m'. has_prefix (m @ '':'' @ r) (m' @ '':'')) http_methods = Some m"
  unfolding http_methods_def list.set insert_iff empty_iff
  by (elim disjE; simp add: has_prefix_def)

text \<open>What the expression matches.\<close>

lemma match_http_Some:
  "match_http s = Some (m, ws, p) \<longleftrightarrow>
     m \<in> set http_methods \<and> (\<forall>c \<in> set ws. re_space c) \<and> p \<noteq> [] \<and> CHR 0x22 \<notin> set p \<and> (\<exists>r. s = http_text m ws p @ r)"
  (is "?l \<longleftrightarrow> ?r")
proof
  assume ?l
  then obtain s2 where m: "find (\<lambda>m. has_prefix s (m @ '':'')) http_methods = Some m"
    and ws: "ws = takeWhile re_space (drop (length m + 1) s)"
    and e: "eat [CHR 0x22] (skip_space (drop (length m + 1) s)) = Some s2"
    and p: "p = takeWhile (\<lambda>c. c \<noteq> CHR 0x22) s2" "p \<noteq> []" "drop (length p) s2 \<noteq> []"
    by (auto simp add: match_http_def Let_def bind_eq_Some_conv split: option.splits if_splits)
  have mem: "m \<in> set http_methods" and pre: "has_prefix s (m @ '':'')" using m by (auto simp add: find_Some_iff)
  have s1: "s = m @ '':'' @ drop (length m + 1) s" using pre by (auto simp add: has_prefix_iff)
  have "dropWhile re_space (drop (length m + 1) s) = CHR 0x22 # s2"
    using e by (auto simp add: eat_def has_prefix_iff skip_space_def split: if_splits)
  then have s2: "drop (length m + 1) s = ws @ CHR 0x22 # s2" using ws by (metis takeWhile_dropWhile_id)
  have d: "s2 = p @ dropWhile (\<lambda>c. c \<noteq> CHR 0x22) s2" using p(1) by simp
  then have "dropWhile (\<lambda>c. c \<noteq> CHR 0x22) s2 \<noteq> []" using p(3) by (metis append_Nil2 drop_all order.refl)
  then obtain r where "s2 = p @ CHR 0x22 # r" using d hd_dropWhile [of "\<lambda>c. c \<noteq> CHR 0x22" s2]
    by (metis (mono_tags, lifting) list.collapse)
  then have "s = http_text m ws p @ r" using s1 s2 by (simp add: http_text_def)
  moreover have "\<forall>c \<in> set ws. re_space c" using ws by (auto dest: set_takeWhileD)
  moreover have "CHR 0x22 \<notin> set p" using p(1) by (auto dest: set_takeWhileD)
  ultimately show ?r using mem p(2) by blast
next
  assume ?r
  then obtain r where r: "m \<in> set http_methods" "\<forall>c \<in> set ws. re_space c" "p \<noteq> []" "CHR 0x22 \<notin> set p"
    and s: "s = http_text m ws p @ r" by blast
  have q: "\<not> re_space (CHR 0x22)" by (simp add: re_space_def)
  have "find (\<lambda>m'. has_prefix s (m' @ '':'')) http_methods = Some m"
    using http_methods_first [OF r(1)] unfolding s http_text_def by simp
  moreover have "takeWhile re_space (drop (length m + 1) s) = ws" "skip_space (drop (length m + 1) s) = CHR 0x22 # p @ CHR 0x22 # r"
    using takeWhile_stop [OF r(2) q] dropWhile_stop [OF r(2) q] unfolding s http_text_def skip_space_def by simp_all
  moreover have "takeWhile (\<lambda>c. c \<noteq> CHR 0x22) (p @ CHR 0x22 # r) = p"
    using r(4) by (intro takeWhile_stop) auto
  ultimately show ?l using r(3) by (simp add: match_http_def Let_def eat_def has_prefix_def)
qed

lemma match_http_text:
  "m \<in> set http_methods \<Longrightarrow> \<forall>c \<in> set ws. re_space c \<Longrightarrow> p \<noteq> [] \<Longrightarrow> CHR 0x22 \<notin> set p \<Longrightarrow>
     match_http (http_text m ws p @ r) = Some (m, ws, p)"
  unfolding match_http_Some by blast

lemma match_http_found:
  assumes "match_http s \<noteq> None"
  obtains m ws p r where "m \<in> set http_methods" "\<forall>c \<in> set ws. re_space c" "p \<noteq> []" "CHR 0x22 \<notin> set p"
    "s = http_text m ws p @ r"
proof -
  obtain m ws p where "match_http s = Some (m, ws, p)" using assms by (cases "match_http s") auto
  then show thesis using that unfolding match_http_Some by blast
qed

lemma method_chars:
  "m \<in> set http_methods \<Longrightarrow> \<exists>c m'. m = c # m' \<and> c \<in> {CHR ''g'', CHR ''p'', CHR ''d''} \<and>
     set m' \<inter> {CHR ''g'', CHR ''p'', CHR ''d''} = {}"
  unfolding http_methods_def list.set insert_iff empty_iff by (elim disjE; simp)

text \<open>The step of a scan at a match.\<close>

lemma scan_match:
  assumes "m \<in> set http_methods" and "\<forall>c \<in> set ws. re_space c" and "p \<noteq> []" and "CHR 0x22 \<notin> set p"
  shows "freeze_routes v 0 (http_text m ws p @ r) = frozen_route v m ws p @ freeze_routes v 0 r"
    and "http_paths 0 (http_text m ws p @ r) = (m, p) # http_paths 0 r"
proof -
  obtain c cs where c: "http_text m ws p @ r = c # cs" using method_chars [OF assms(1)] by (auto simp add: http_text_def)
  have "0 < length (http_text m ws p)" by (simp add: http_text_def)
  moreover have "drop (length (http_text m ws p)) (c # cs) = r" unfolding c [symmetric] by simp
  ultimately have "drop (length (http_text m ws p) - 1) cs = r" by (simp add: drop_Cons')
  then show "freeze_routes v 0 (http_text m ws p @ r) = frozen_route v m ws p @ freeze_routes v 0 r"
    "http_paths 0 (http_text m ws p @ r) = (m, p) # http_paths 0 r"
    using match_http_text [OF assms, of r] unfolding c
    by (simp_all add: freeze_routes_drop [of v "length (http_text m ws p) - Suc 0" cs]
        http_paths_drop [of "length (http_text m ws p) - Suc 0" cs])
qed

text \<open>The scan keeps the characters that cannot start a method.\<close>

lemma frozen_route_method:
  "\<exists>ws' p'. frozen_route v m ws p = http_text m ws' p' \<and> (ws' = ws \<or> ws' = '' '') \<and>
     p' = (if has_prefix p (''/'' @ v @ ''/'') \<or> has_prefix p ''/v'' then p else ''/'' @ v @ p)"
  by (auto simp add: frozen_route_def)

lemma freeze_routes_keeps_char:
  assumes "freeze_routes v 0 s = c # y" and "c \<notin> {CHR ''g'', CHR ''p'', CHR ''d''}"
  shows "\<exists>x. s = c # x \<and> freeze_routes v 0 x = y"
proof (cases s)
  case (Cons c' cs)
  show ?thesis
  proof (cases "match_http (c' # cs)")
    case (Some r)
    obtain m ws p where r: "r = (m, ws, p)" by (cases r)
    then have "m \<in> set http_methods" using Some unfolding r match_http_Some by blast
    moreover obtain ws' p' where f: "frozen_route v m ws p = http_text m ws' p'" using frozen_route_method by blast
    have "c # y = m @ '':'' @ ws' @ [CHR 0x22] @ p' @ [CHR 0x22] @ freeze_routes v (length (http_text m ws p) - 1) cs"
      using assms(1) Some by (simp add: Cons r f) (simp add: http_text_def)
    ultimately show ?thesis using assms(2) method_chars by fastforce
  qed (use assms(1) Cons in simp)
qed (use assms(1) in simp)

lemma freeze_routes_keeps:
  "freeze_routes v 0 s = w @ y \<Longrightarrow> set w \<inter> {CHR ''g'', CHR ''p'', CHR ''d''} = {} \<Longrightarrow>
     \<exists>x. s = w @ x \<and> freeze_routes v 0 x = y"
proof (induction w arbitrary: s)
  case (Cons c w)
  obtain x where x: "s = c # x" "freeze_routes v 0 x = w @ y"
    using freeze_routes_keeps_char [of v s c "w @ y"] Cons.prems by auto
  then show ?case using Cons.IH [OF x(2)] Cons.prems(2) by auto
qed simp

lemma freeze_routes_quote: "CHR 0x22 \<in> set (freeze_routes v 0 s) \<Longrightarrow> CHR 0x22 \<in> set s"
proof (induction s)
  case (Cons c cs)
  show ?case
  proof (cases "match_http (c # cs)")
    case (Some r)
    obtain m ws p where r: "r = (m, ws, p)" by (cases r)
    then obtain z where "c # cs = http_text m ws p @ z" using Some unfolding r match_http_Some by blast
    then show ?thesis by (simp add: http_text_def)
  qed (use Cons in auto)
qed simp

text \<open>A route that is not there does not appear when what follows is frozen.\<close>

lemma freeze_routes_no_match:
  assumes "match_http (c # cs) = None"
  shows "match_http (c # freeze_routes v 0 cs) = None"
proof (rule ccontr)
  assume "match_http (c # freeze_routes v 0 cs) \<noteq> None"
  then obtain m ws p r where m: "m \<in> set http_methods" "\<forall>c \<in> set ws. re_space c" "p \<noteq> []" "CHR 0x22 \<notin> set p"
    and s: "c # freeze_routes v 0 cs = http_text m ws p @ r"
    by (rule match_http_found)
  obtain m' where m': "m = c # m'" "set m' \<inter> {CHR ''g'', CHR ''p'', CHR ''d''} = {}"
  proof -
    obtain d m1 where d: "m = d # m1" "set m1 \<inter> {CHR ''g'', CHR ''p'', CHR ''d''} = {}" using method_chars [OF m(1)] by blast
    moreover have "c = d" using s unfolding d(1) http_text_def by simp
    ultimately show thesis using that by blast
  qed
  let ?w = "m' @ '':'' @ ws @ [CHR 0x22]"
  have "\<not> re_space (CHR ''g'') \<and> \<not> re_space (CHR ''p'') \<and> \<not> re_space (CHR ''d'')" by (simp add: re_space_def)
  then have "set ws \<inter> {CHR ''g'', CHR ''p'', CHR ''d''} = {}" using m(2) by blast
  then have w: "set ?w \<inter> {CHR ''g'', CHR ''p'', CHR ''d''} = {}"
    using m'(2) unfolding set_append Int_Un_distrib2 by simp
  have out: "freeze_routes v 0 cs = ?w @ p @ CHR 0x22 # r" using s m'(1) by (simp add: http_text_def)
  obtain x where x: "cs = ?w @ x" "freeze_routes v 0 x = p @ CHR 0x22 # r"
    using freeze_routes_keeps [OF out w] by (elim exE conjE)
  have "CHR 0x22 \<in> set x" using freeze_routes_quote [of v x] x(2) by simp
  then obtain p' r' where p': "x = p' @ CHR 0x22 # r'" "CHR 0x22 \<notin> set p'" by (meson split_list_first)
  have "p' \<noteq> []"
  proof
    assume "p' = []"
    then have "x = CHR 0x22 # r'" using p' by simp
    moreover have "match_http (CHR 0x22 # r') = None"
    proof (rule ccontr)
      assume "match_http (CHR 0x22 # r') \<noteq> None"
      then obtain m ws p z where "m \<in> set http_methods" "CHR 0x22 # r' = http_text m ws p @ z"
        by (rule match_http_found)
      then show False using method_chars [of m] unfolding http_text_def by fastforce
    qed
    ultimately show False using x(2) m(3,4) by (cases p) simp_all
  qed
  moreover have "c # cs = http_text m ws p' @ r'" using x(1) p'(1) m'(1) by (simp add: http_text_def)
  ultimately have "match_http (c # cs) = Some (m, ws, p')" using m p' unfolding match_http_Some by blast
  then show False using assms by simp
qed

text \<open>The frozen route is one that the expression finds, and its path is left alone from then on.\<close>

lemma versioned_route:
  assumes "legacyDirPattern v" and "m \<in> set http_methods" and "\<forall>c \<in> set ws. re_space c" and "p \<noteq> []"
    and "CHR 0x22 \<notin> set p"
  obtains ws' where "frozen_route v m ws p = http_text m ws' (versioned v p)" "\<forall>c \<in> set ws'. re_space c"
    "versioned v p \<noteq> []" "CHR 0x22 \<notin> set (versioned v p)" "frozen_route v m ws' (versioned v p) = http_text m ws' (versioned v p)"
proof -
  obtain ds where v: "v = CHR ''v'' # ds" "list_all is_digit ds"
    using assms(1) by (auto simp add: legacyDirPattern_def split: list.splits)
  have "\<not> is_digit (CHR 0x22)" by (simp add: is_digit_def)
  then have q: "CHR 0x22 \<notin> set (versioned v p)" using assms(5) v by (auto simp add: versioned_def list_all_iff)
  have vp: "has_prefix (versioned v p) ''/v''" by (auto simp add: versioned_def v(1) has_prefix_def)
  have same: "has_prefix p (''/'' @ v @ ''/'') \<or> has_prefix p ''/v'' \<longleftrightarrow> has_prefix p ''/v''"
    by (auto simp add: v(1) has_prefix_iff)
  show thesis
  proof (cases "has_prefix p ''/v''")
    case True
    then show ?thesis using that [of ws] assms(3,4) q vp by (simp add: frozen_route_def versioned_def)
  next
    case False
    have "\<forall>c \<in> set '' ''. re_space c" by (simp add: re_space_def)
    then show ?thesis using that [of "'' ''"] q vp False same by (simp add: frozen_route_def versioned_def)
  qed
qed


section \<open>A concrete freeze\<close>

definition demo_proto :: string where
  "demo_proto = ''package users.hub;'' @ [CHR 0x0A] @ ''get:'' @ [CHR 0x22] @ ''/users'' @ [CHR 0x22]"

definition demo_api :: tree where
  "demo_api = [([], Dir), ([''api''], Dir), ([''api'', ''hub''], Dir), ([''api'', ''hub'', ''u.proto''], File demo_proto),
     ([''api'', ''hub'', ''notes''], File ''package a;'')]"

definition demo_meta :: HubMeta where
  "demo_meta = \<lparr>hm_GoImport = ''m/gen/api/hub'', hm_RelativePath = ''.'', hm_PackageSuffix = ''hub'',
     hm_PrimaryService = ''UsersService'', hm_EventService = []\<rparr>"

theorem Freeze_snapshot_witness:
  "\<exists>t'. Freeze (\<lambda>_. False) (Inr demo_meta) [''api''] ''v1'' demo_api = (t', None) \<and>
     map_of t' [''api'', ''v1'', ''u.proto''] = Some (File (''package users.v1;'' @ [CHR 0x0A] @ ''get: '' @ [CHR 0x22] @
       ''/v1/users'' @ [CHR 0x22])) \<and>
     map_of t' [''api'', ''v1'', ''notes''] = Some (File ''package a;'') \<and>
     map_of t' [''api'', ''hub'', ''u.proto''] = Some (File demo_proto)"
proof -
  let ?r = "Freeze (\<lambda>_. False) (Inr demo_meta) [''api''] ''v1'' demo_api"
  have "snd ?r = None" by code_simp
  then obtain t' where run: "?r = (t', None)" by (metis prod.collapse)
  have wf: "wf_tree demo_api" by code_simp
  have t: "changed_at [''api'', ''v1''] demo_api t'"
    "\<forall>r. map_of t' ([''api'', ''v1''] @ r) = map_option (map_node (frozen_content ''v1'' demo_meta ([''api'', ''hub''] @ r)))
       (map_of demo_api ([''api'', ''hub''] @ r))"
    using Freeze_snapshot [OF wf, of "\<lambda>_. False" "[''api'']" "''v1''" "Inr demo_meta"] by (auto simp add: run)
  have "map_of t' [''api'', ''hub'', ''u.proto''] = map_of demo_api [''api'', ''hub'', ''u.proto'']"
    using t(1) [unfolded changed_at_def, rule_format, of "[''api'', ''hub'', ''u.proto'']"] by (auto simp add: strict_prefix_def)
  moreover have "map_of demo_api [''api'', ''hub'', ''u.proto''] = Some (File demo_proto)"
    "map_of demo_api [''api'', ''hub'', ''notes''] = Some (File ''package a;'')" by (simp_all add: demo_api_def)
  moreover have "frozen_content ''v1'' demo_meta [''api'', ''hub'', ''u.proto''] demo_proto =
      ''package users.v1;'' @ [CHR 0x0A] @ ''get: '' @ [CHR 0x22] @ ''/v1/users'' @ [CHR 0x22]" by code_simp
  moreover have "frozen_content ''v1'' demo_meta [''api'', ''hub'', ''notes''] d = d" for d
    by (simp add: frozen_content_def has_suffix_def has_prefix_def)
  ultimately show ?thesis using run spec [OF t(2), of "[''u.proto'']"] spec [OF t(2), of "[''notes'']"] by simp
qed

definition demo_routes :: string where
  "demo_routes = ''get:'' @ [CHR 0x22] @ ''/users'' @ [CHR 0x22] @ '' put: '' @ [CHR 0x22] @ ''/v2/x'' @ [CHR 0x22]"


end
