(* ===== verification/ConfigStore.thy ===== *)
theory ConfigStore
  imports ManifestStore FileTree
begin

text \<open>
  Configuration files: the local storage (\<open>pkg/sdk/config/storage/local/storage.go\<close>), which finds the file
  of a kind, and the typed loader over it (\<open>sdk/config/config.go\<close>, \<open>kinds.go\<close>).

  A configuration message of type \<open>'m\<close> and the metadata of a file, of which only the kind is read, are
  decoded by the formats of \<open>ManifestStore\<close>.
\<close>

section \<open>The storage\<close>

datatype 'e config_error =
    ErrNotFound | MultipleFiles string "path list" | ReadFailed go_err
  | BadMetadata path "'e fmt_error" | BadConfig "'e fmt_error"

definition file_name :: "path \<Rightarrow> string" where
  "file_name p = join ''/'' p"

text \<open>\<open>filepath.Glob\<close> of \<open>dir/*ext\<close>, which ignores errors of the file system.\<close>

definition Glob :: "tree \<Rightarrow> path \<Rightarrow> string \<Rightarrow> path list" where
  "Glob t dir ext = map (\<lambda>n. dir @ [n]) (filter (\<lambda>n. has_suffix n ext) (dir_names t dir))"

type_synonym kind_index = "(string \<times> path list) list"

definition lookupKind :: "kind_index \<Rightarrow> string \<Rightarrow> path list" where
  "lookupKind index kind = (case map_of index kind of None \<Rightarrow> [] | Some fs \<Rightarrow> fs)"

fun index_paths ::
  "(io_op \<Rightarrow> bool) \<Rightarrow> ('e, string) fmt_env \<Rightarrow> tree \<Rightarrow> path list \<Rightarrow> kind_index \<Rightarrow> 'e config_error + kind_index" where
  "index_paths io menv t [] byKind = Inr byKind"
| "index_paths io menv t (p # ps) byKind =
     bind_err (wrap_err ReadFailed (os_ReadFile io t p)) (\<lambda>data.
       bind_err (wrap_err (BadMetadata p) (fmt_Unmarshal menv (file_name p) data)) (\<lambda>kind.
         index_paths io menv t ps
           (if kind = [] then byKind else AList.update kind (lookupKind byKind kind @ [p]) byKind)))"

definition indexFiles ::
  "(io_op \<Rightarrow> bool) \<Rightarrow> ('e, string) fmt_env \<Rightarrow> tree \<Rightarrow> path \<Rightarrow> 'e config_error + kind_index" where
  "indexFiles io menv t dir = index_paths io menv t (concat (map (Glob t dir) SupportedExtensions)) []"

definition Storage_Get ::
  "(io_op \<Rightarrow> bool) \<Rightarrow> ('e, string) fmt_env \<Rightarrow> ('e, 'm) fmt_env \<Rightarrow> tree \<Rightarrow> path \<Rightarrow> string \<Rightarrow> 'e config_error + 'm" where
  "Storage_Get io menv cenv t dir kind =
     bind_err (indexFiles io menv t dir) (\<lambda>index.
       let fs = lookupKind index kind
       in case fs of
            [] \<Rightarrow> Inl ErrNotFound
          | [f] \<Rightarrow> bind_err (wrap_err ReadFailed (os_ReadFile io t f)) (\<lambda>data.
                     wrap_err BadConfig (fmt_Unmarshal cenv (file_name f) data))
          | _ \<Rightarrow> Inl (MultipleFiles kind fs))"

section \<open>The loader\<close>

datatype 'e load_error = LoadConfigKind string "'e config_error"

record 'e config_loader =
  cl_io :: "io_op \<Rightarrow> bool"
  cl_meta :: "('e, string) fmt_env"
  cl_tree :: tree
  cl_path :: path

definition Loader_Get :: "'e config_loader \<Rightarrow> ('e, 'm) fmt_env \<Rightarrow> string \<Rightarrow> 'e load_error + 'm" where
  "Loader_Get l cenv kind =
     wrap_err (LoadConfigKind kind) (Storage_Get (cl_io l) (cl_meta l) cenv (cl_tree l) (cl_path l) kind)"

text \<open>The loaders of one kind of message: a message that failed to load is not returned.\<close>

definition Loader_Postgres :: "'e config_loader \<Rightarrow> ('e, 'm) fmt_env \<Rightarrow> string \<Rightarrow> 'e load_error + 'm" where
  "Loader_Postgres l cenv kind = (case Loader_Get l cenv kind of Inl e \<Rightarrow> Inl e | Inr cfg \<Rightarrow> Inr cfg)"

definition Loader_Logging :: "'e config_loader \<Rightarrow> ('e, 'm) fmt_env \<Rightarrow> string \<Rightarrow> 'e load_error + 'm" where
  "Loader_Logging l cenv kind = (case Loader_Get l cenv kind of Inl e \<Rightarrow> Inl e | Inr cfg \<Rightarrow> Inr cfg)"

definition Loader_Tracing :: "'e config_loader \<Rightarrow> ('e, 'm) fmt_env \<Rightarrow> string \<Rightarrow> 'e load_error + 'm" where
  "Loader_Tracing l cenv kind = (case Loader_Get l cenv kind of Inl e \<Rightarrow> Inl e | Inr cfg \<Rightarrow> Inr cfg)"

definition Loader_Kafka :: "'e config_loader \<Rightarrow> ('e, 'm) fmt_env \<Rightarrow> string \<Rightarrow> 'e load_error + 'm" where
  "Loader_Kafka l cenv kind = (case Loader_Get l cenv kind of Inl e \<Rightarrow> Inl e | Inr cfg \<Rightarrow> Inr cfg)"

definition Loader_Cassandra :: "'e config_loader \<Rightarrow> ('e, 'm) fmt_env \<Rightarrow> string \<Rightarrow> 'e load_error + 'm" where
  "Loader_Cassandra l cenv kind = (case Loader_Get l cenv kind of Inl e \<Rightarrow> Inl e | Inr cfg \<Rightarrow> Inr cfg)"

definition Loader_Redis :: "'e config_loader \<Rightarrow> ('e, 'm) fmt_env \<Rightarrow> string \<Rightarrow> 'e load_error + 'm" where
  "Loader_Redis l cenv kind = (case Loader_Get l cenv kind of Inl e \<Rightarrow> Inl e | Inr cfg \<Rightarrow> Inr cfg)"

definition Loader_Nats :: "'e config_loader \<Rightarrow> ('e, 'm) fmt_env \<Rightarrow> string \<Rightarrow> 'e load_error + 'm" where
  "Loader_Nats l cenv kind = (case Loader_Get l cenv kind of Inl e \<Rightarrow> Inl e | Inr cfg \<Rightarrow> Inr cfg)"

definition Loader_S3 :: "'e config_loader \<Rightarrow> ('e, 'm) fmt_env \<Rightarrow> string \<Rightarrow> 'e load_error + 'm" where
  "Loader_S3 l cenv kind = (case Loader_Get l cenv kind of Inl e \<Rightarrow> Inl e | Inr cfg \<Rightarrow> Inr cfg)"

definition Loader_Oracle :: "'e config_loader \<Rightarrow> ('e, 'm) fmt_env \<Rightarrow> string \<Rightarrow> 'e load_error + 'm" where
  "Loader_Oracle l cenv kind = (case Loader_Get l cenv kind of Inl e \<Rightarrow> Inl e | Inr cfg \<Rightarrow> Inr cfg)"

definition Loader_RabbitMQ :: "'e config_loader \<Rightarrow> ('e, 'm) fmt_env \<Rightarrow> string \<Rightarrow> 'e load_error + 'm" where
  "Loader_RabbitMQ l cenv kind = (case Loader_Get l cenv kind of Inl e \<Rightarrow> Inl e | Inr cfg \<Rightarrow> Inr cfg)"

end
