(* ===== verification/ConfigStoreFacts.thy ===== *)
theory ConfigStoreFacts
  imports ConfigStore FileTreeFacts
begin

text \<open>
  Properties of the configuration storage: which file a kind is loaded from.
\<close>

text \<open>The files of the directory that are looked at, and the kind that a file declares.\<close>

definition config_files :: "tree \<Rightarrow> path \<Rightarrow> path list" where
  "config_files t dir = concat (map (Glob t dir) SupportedExtensions)"

definition declared_kind :: "(io_op \<Rightarrow> bool) \<Rightarrow> ('e, string) fmt_env \<Rightarrow> tree \<Rightarrow> path \<Rightarrow> string option" where
  "declared_kind io menv t p =
     (case os_ReadFile io t p of Inl e \<Rightarrow> None
      | Inr data \<Rightarrow> (case fmt_Unmarshal menv (file_name p) data of Inl e \<Rightarrow> None | Inr kind \<Rightarrow> Some kind))"

definition config_at :: "(io_op \<Rightarrow> bool) \<Rightarrow> ('e, 'm) fmt_env \<Rightarrow> tree \<Rightarrow> path \<Rightarrow> 'e config_error + 'm" where
  "config_at io cenv t f =
     bind_err (wrap_err ReadFailed (os_ReadFile io t f)) (\<lambda>data. wrap_err BadConfig (fmt_Unmarshal cenv (file_name f) data))"

lemma lookupKind_update:
  "lookupKind (AList.update k v idx) k' = (if k' = k then v else lookupKind idx k')"
  by (simp add: lookupKind_def update_conv')

lemma index_paths_lookup:
  assumes "list_all (\<lambda>p. declared_kind io menv t p \<noteq> None) ps"
  shows "\<exists>idx. index_paths io menv t ps idx0 = Inr idx \<and>
    (\<forall>kind. kind \<noteq> [] \<longrightarrow> lookupKind idx kind = lookupKind idx0 kind @ filter (\<lambda>p. declared_kind io menv t p = Some kind) ps) \<and>
    lookupKind idx [] = lookupKind idx0 []"
  using assms
proof (induction ps arbitrary: idx0)
  case (Cons p ps)
  obtain data kind where p: "os_ReadFile io t p = Inr data" "fmt_Unmarshal menv (file_name p) data = Inr kind"
      "declared_kind io menv t p = Some kind"
    using Cons.prems by (auto simp add: declared_kind_def split: sum.splits)
  let ?idx1 = "if kind = [] then idx0 else AList.update kind (lookupKind idx0 kind @ [p]) idx0"
  have "list_all (\<lambda>p. declared_kind io menv t p \<noteq> None) ps" using Cons.prems by simp
  from Cons.IH [OF this, of ?idx1] obtain idx where idx: "index_paths io menv t ps ?idx1 = Inr idx"
      "\<forall>k. k \<noteq> [] \<longrightarrow> lookupKind idx k = lookupKind ?idx1 k @ filter (\<lambda>p. declared_kind io menv t p = Some k) ps"
      "lookupKind idx [] = lookupKind ?idx1 []"
    by (elim exE conjE)
  have "index_paths io menv t (p # ps) idx0 = Inr idx" using idx(1) p by simp
  moreover have "\<forall>k. k \<noteq> [] \<longrightarrow> lookupKind idx k =
      lookupKind idx0 k @ filter (\<lambda>p. declared_kind io menv t p = Some k) (p # ps)"
    using idx(2) p(3) by (simp add: lookupKind_update)
  moreover have "lookupKind idx [] = lookupKind idx0 []" using idx(3) by (simp add: lookupKind_update)
  ultimately show ?case by blast
qed simp

lemma index_paths_broken:
  assumes "\<not> list_all (\<lambda>p. declared_kind io menv t p \<noteq> None) ps"
  shows "\<exists>e. index_paths io menv t ps idx0 = Inl e \<and> e \<noteq> ErrNotFound"
  using assms
proof (induction ps arbitrary: idx0)
  case (Cons p ps)
  show ?case
  proof (cases "declared_kind io menv t p")
    case None
    then show ?thesis by (auto simp add: declared_kind_def split: sum.splits)
  next
    case (Some kind)
    then show ?thesis using Cons by (auto simp add: declared_kind_def split: sum.splits)
  qed
qed simp

text \<open>A kind is loaded from the one configuration file that declares it: the file is decoded
  when there is exactly one, none gives \<open>ErrNotFound\<close>, and several give an error that names them all.  One
  file of the directory whose metadata cannot be read makes the load of every kind fail, with an error other
  than \<open>ErrNotFound\<close>, so that no optional configuration is taken for absent.\<close>

theorem Storage_Get_exact:
  "(if list_all (\<lambda>p. declared_kind io menv t p \<noteq> None) (config_files t dir)
    then Storage_Get io menv cenv t dir kind =
      (case filter (\<lambda>p. kind \<noteq> [] \<and> declared_kind io menv t p = Some kind) (config_files t dir) of
         [] \<Rightarrow> Inl ErrNotFound
       | [f] \<Rightarrow> config_at io cenv t f
       | fs \<Rightarrow> Inl (MultipleFiles kind fs))
    else \<exists>e. Storage_Get io menv cenv t dir kind = Inl e \<and> e \<noteq> ErrNotFound) \<and>
   (p \<in> set (config_files t dir) \<longleftrightarrow>
      (\<exists>n. p = dir @ [n] \<and> map_of t p \<noteq> None \<and> list_ex (has_suffix n) SupportedExtensions))"
proof (rule conjI)
  show "if list_all (\<lambda>p. declared_kind io menv t p \<noteq> None) (config_files t dir)
    then Storage_Get io menv cenv t dir kind =
      (case filter (\<lambda>p. kind \<noteq> [] \<and> declared_kind io menv t p = Some kind) (config_files t dir) of
         [] \<Rightarrow> Inl ErrNotFound
       | [f] \<Rightarrow> config_at io cenv t f
       | fs \<Rightarrow> Inl (MultipleFiles kind fs))
    else \<exists>e. Storage_Get io menv cenv t dir kind = Inl e \<and> e \<noteq> ErrNotFound"
  proof (cases "list_all (\<lambda>p. declared_kind io menv t p \<noteq> None) (config_files t dir)")
    case True
    obtain idx where idx: "indexFiles io menv t dir = Inr idx"
      "\<forall>k. k \<noteq> [] \<longrightarrow> lookupKind idx k = filter (\<lambda>p. declared_kind io menv t p = Some k) (config_files t dir)"
      "lookupKind idx [] = []"
      using index_paths_lookup [OF True, of "[]"] by (auto simp add: indexFiles_def config_files_def lookupKind_def)
    have "lookupKind idx kind = filter (\<lambda>p. kind \<noteq> [] \<and> declared_kind io menv t p = Some kind) (config_files t dir)"
      using idx(2,3) by (cases "kind = []") simp_all
    then show ?thesis using True idx(1) by (simp add: Storage_Get_def config_at_def Let_def split: list.split)
  next
    case False
    then show ?thesis using index_paths_broken [OF False, of "[]"]
      by (auto simp add: Storage_Get_def indexFiles_def config_files_def)
  qed
  show "p \<in> set (config_files t dir) \<longleftrightarrow>
      (\<exists>n. p = dir @ [n] \<and> map_of t p \<noteq> None \<and> list_ex (has_suffix n) SupportedExtensions)"
    by (auto simp add: config_files_def Glob_def dir_names_mem list_ex_iff)
qed

end
