(* ===== verification/ScaffoldInit.thy ===== *)
theory ScaffoldInit
  imports ScaffoldAdd FileTree GoStrings
begin

text \<open>
  \<open>zengo init\<close> (\<open>internal/scaffold/scaffold.go\<close>): the creation of a service repository from the
  embedded templates, on the file tree of \<open>FileTree\<close>.

  The embedded templates are a tree below \<open>templates\<close>; paths are relative to it.  The calls that relate
  the target to the working directory give \<open>platformReplace\<close> or an error.
\<close>

section \<open>Options\<close>

datatype ManifestFormat = ManifestFormatUnset | ManifestFormatTextproto | ManifestFormatYAML

definition ParseManifestFormat :: "string \<Rightarrow> go_err + ManifestFormat" where
  "ParseManifestFormat raw =
     (let f = to_lower (trim_space raw)
      in if f = [] \<or> f = ''textproto'' then Inr ManifestFormatTextproto
         else if f = ''yaml'' \<or> f = ''yml'' then Inr ManifestFormatYAML
         else Inl (PlainErr (''unsupported manifest format '' @ go_quote raw @ '' (expected textproto or yaml)'')))"

section \<open>Templates\<close>

definition template_path :: "path \<Rightarrow> string" where
  "template_path rel = join ''/'' (''templates'' # rel)"

definition skipTemplatePath :: "ManifestFormat \<Rightarrow> path \<Rightarrow> bool \<Rightarrow> bool" where
  "skipTemplatePath manifestFormat rel isDir =
     (let path = template_path rel
      in if isDir \<and> has_prefix path ''templates/third_party'' then True
         else if isDir \<and> path = ''templates/api/v1'' then True
         else if has_prefix path ''templates/third_party/'' then True
         else if manifestFormat = ManifestFormatTextproto \<and> path = ''templates/zengo.yaml'' then True
         else if manifestFormat = ManifestFormatYAML \<and> path = ''templates/zengo.textproto.tmpl'' then True
         else path = ''templates/api/hub/_handler_/_handler_.proto.tmpl'' \<or> has_prefix path ''templates/api/v1/'')"

record init_context =
  ic_targetDir :: path
  ic_format :: ManifestFormat
  ic_handlerPkg :: string
  ic_replacer :: "(string \<times> string) list"

text \<open>The target of a template: placeholders in its path are replaced, and \<open>filepath.Join\<close> drops empty
  elements; the suffix \<open>.tmpl\<close> of a file is cut off.\<close>

definition template_target :: "init_context \<Rightarrow> path \<Rightarrow> path" where
  "template_target c rel =
     ic_targetDir c @
     filter (\<lambda>s. s \<noteq> []) (split_on (CHR ''/'')
       (Replace (ic_replacer c) (ReplaceAll (join ''/'' rel) ''_handler_'' (ic_handlerPkg c))))"

definition file_target :: "init_context \<Rightarrow> path \<Rightarrow> path" where
  "file_target c rel =
     (let target = template_target c rel
      in if has_suffix (last rel) ''.tmpl'' \<and> target \<noteq> []
         then butlast target @ [trim_suffix (last target) ''.tmpl''] else target)"

definition write_template :: "(io_op \<Rightarrow> bool) \<Rightarrow> init_context \<Rightarrow> path \<Rightarrow> string \<Rightarrow> tree action" where
  "write_template io c rel data t =
     (let target = file_target c rel
      in seq_run (os_MkdirAll io (butlast target) t) (\<lambda>t.
           case os_WriteFile io target (Replace (ic_replacer c) data) t of
             (t, e) \<Rightarrow> (t, map_option (WrapErr (''write '' @ join ''/'' target)) e)))"

text \<open>The callback of \<open>fs.WalkDir\<close>; \<open>skipped\<close> are the directories that returned \<open>SkipDir\<close>.\<close>

fun init_entries :: "(io_op \<Rightarrow> bool) \<Rightarrow> init_context \<Rightarrow> path list \<Rightarrow> (path \<times> node) list \<Rightarrow> tree action" where
  "init_entries io c skipped [] t = (t, None)"
| "init_entries io c skipped ((rel, n) # es) t =
     (if list_ex (\<lambda>d. prefix d rel) skipped then init_entries io c skipped es t
      else if skipTemplatePath (ic_format c) rel (n = Dir)
      then init_entries io c (if n = Dir then rel # skipped else skipped) es t
      else (case n of
              Dir \<Rightarrow> seq_run (os_MkdirAll io (template_target c rel) t) (init_entries io c skipped es)
            | File data \<Rightarrow> seq_run (write_template io c rel data t) (init_entries io c skipped es)))"

section \<open>Creating a service\<close>

definition init_context_of :: "string \<Rightarrow> path \<Rightarrow> ManifestFormat \<Rightarrow> string \<Rightarrow> init_context" where
  "init_context_of name targetDir fmt platformReplace =
     (let handlerPkg = HandlerPackage name
      in \<lparr>ic_targetDir = targetDir,
          ic_format = (if fmt = ManifestFormatUnset then ManifestFormatTextproto else fmt),
          ic_handlerPkg = handlerPkg,
          ic_replacer = [(''{{SERVICE_NAME}}'', name), (''{{MODULE}}'', ''github.com/zengo/'' @ name),
            (''{{HANDLER_PKG}}'', handlerPkg), (''{{HANDLER_TITLE}}'', HandlerTitle handlerPkg),
            (''{{PLATFORM_REPLACE}}'', platformReplace)]\<rparr>)"

text \<open>\<open>os.ReadDir\<close>: the names, or the error and whether it says that the directory does not exist.\<close>

datatype read_dir = Names "string list" | ReadNotExist | ReadDirFailed go_err

definition os_ReadDir :: "(io_op \<Rightarrow> bool) \<Rightarrow> tree \<Rightarrow> path \<Rightarrow> read_dir" where
  "os_ReadDir io t dir =
     (if io (OpWalk dir) then ReadDirFailed (io_error ''open'' dir)
      else case map_of t dir of
             Some Dir \<Rightarrow> Names (dir_names t dir)
           | Some (File _) \<Rightarrow> ReadDirFailed (io_error ''readdirent'' dir)
           | None \<Rightarrow> if list_ex (is_file t) (prefixes dir) then ReadDirFailed (io_error ''open'' dir) else ReadNotExist)"

definition InitService ::
  "(io_op \<Rightarrow> bool) \<Rightarrow> go_err + string \<Rightarrow> (path \<times> node) list \<Rightarrow> string \<Rightarrow> path \<Rightarrow> ManifestFormat \<Rightarrow> tree action" where
  "InitService io platform templates name targetDir fmt t =
     (case platform of
        Inl e \<Rightarrow> (t, Some e)
      | Inr platformReplace \<Rightarrow>
          (let run = init_entries io (init_context_of name targetDir fmt platformReplace) [] templates
           in case os_ReadDir io t targetDir of
                ReadDirFailed e \<Rightarrow> (t, Some (WrapErr (''inspect init target '' @ go_quote (join ''/'' targetDir)) e))
              | ReadNotExist \<Rightarrow> run t
              | Names entries \<Rightarrow>
                  if entries \<noteq> []
                  then (t, Some (PlainErr (''init target '' @ go_quote (join ''/'' targetDir) @ '' is not empty'')))
                  else run t))"

end
