(* ===== verification/ScaffoldInitFacts.thy ===== *)
theory ScaffoldInitFacts
  imports ScaffoldInit FileTreeFacts
begin

text \<open>
  Properties of \<open>zengo init\<close>: what a new service repository holds, and that an existing one is left alone.
\<close>

section \<open>The templates that are rendered\<close>

fun kept :: "ManifestFormat \<Rightarrow> path list \<Rightarrow> (path \<times> node) list \<Rightarrow> (path \<times> node) list" where
  "kept fmt skipped [] = []"
| "kept fmt skipped ((rel, n) # es) =
     (if list_ex (\<lambda>d. prefix d rel) skipped then kept fmt skipped es
      else if skipTemplatePath fmt rel (n = Dir) then kept fmt (if n = Dir then rel # skipped else skipped) es
      else (rel, n) # kept fmt skipped es)"

definition target_of :: "init_context \<Rightarrow> path \<times> node \<Rightarrow> path" where
  "target_of c e = (case snd e of Dir \<Rightarrow> template_target c (fst e) | File d \<Rightarrow> file_target c (fst e))"

definition rendered :: "init_context \<Rightarrow> node \<Rightarrow> node" where
  "rendered c = map_node (Replace (ic_replacer c))"

text \<open>No two templates have the same target, and no file has the target directory itself.\<close>

definition templates_ok :: "init_context \<Rightarrow> (path \<times> node) list \<Rightarrow> bool" where
  "templates_ok c es \<longleftrightarrow>
     distinct (map (target_of c) es) \<and>
     list_all (\<lambda>e. snd e = Dir \<or> template_target c (fst e) \<noteq> ic_targetDir c) es"

definition render :: "(io_op \<Rightarrow> bool) \<Rightarrow> init_context \<Rightarrow> path \<times> node \<Rightarrow> tree action" where
  "render io c e = (case e of (rel, Dir) \<Rightarrow> os_MkdirAll io (template_target c rel)
                            | (rel, File d) \<Rightarrow> write_template io c rel d)"

fun render_all :: "(io_op \<Rightarrow> bool) \<Rightarrow> init_context \<Rightarrow> (path \<times> node) list \<Rightarrow> tree action" where
  "render_all io c [] t = (t, None)"
| "render_all io c (e # es) t = seq_run (render io c e t) (render_all io c es)"

lemma init_entries_render: "init_entries io c skipped es t = render_all io c (kept (ic_format c) skipped es) t"
proof (induction io c skipped es t rule: init_entries.induct)
  case (2 io c skipped rel n es t)
  show ?case
  proof (cases "list_ex (\<lambda>d. prefix d rel) skipped \<or> skipTemplatePath (ic_format c) rel (n = Dir)")
    case True
    then show ?thesis using 2 by auto
  next
    case False
    have "init_entries io c skipped es t1 = render_all io c (kept (ic_format c) skipped es) t1"
      if "render io c (rel, n) t = (t1, None)" for t1
      using 2(3-) False that by (cases n) (auto simp add: render_def)
    then show ?thesis using False
      by (cases n; cases "render io c (rel, n) t") (auto simp add: render_def seq_run_def split: option.split)
  qed
qed simp

section \<open>One template\<close>

lemma write_template_writeFile:
  "write_template io c rel data t = (t', r) \<Longrightarrow>
     \<exists>r'. writeFile io (file_target c rel) (Replace (ic_replacer c) data) t = (t', r') \<and> (r' = None) = (r = None)"
  by (auto simp add: write_template_def writeFile_def seq_run_def Let_def split: prod.splits option.splits)

lemma template_target_below: "\<exists>r. template_target c rel = ic_targetDir c @ r"
  by (simp add: template_target_def)

lemma file_target_below:
  assumes "template_target c rel \<noteq> ic_targetDir c"
  shows "\<exists>r. file_target c rel = ic_targetDir c @ r"
proof -
  obtain r where r: "template_target c rel = ic_targetDir c @ r" using template_target_below by blast
  then have "r \<noteq> []" using assms by auto
  then show ?thesis by (simp add: file_target_def Let_def r butlast_append)
qed

lemma render_changed:
  assumes "render io c (rel, n) t = (t', r)" and "n = Dir \<or> template_target c rel \<noteq> ic_targetDir c"
  shows "changed_at (ic_targetDir c) t t'"
proof (cases n)
  case Dir
  obtain x where "template_target c rel = ic_targetDir c @ x" using template_target_below by blast
  then show ?thesis using assms(1) MkdirAll_changed [of io "template_target c rel" t t' r "ic_targetDir c" x]
    by (simp add: render_def Dir)
next
  case (File d)
  obtain x where x: "file_target c rel = ic_targetDir c @ x" using file_target_below assms(2) File by blast
  have "write_template io c rel d t = (t', r)" using assms(1) by (simp add: render_def File)
  then obtain r' where "writeFile io (file_target c rel) (Replace (ic_replacer c) d) t = (t', r')"
    using write_template_writeFile by blast
  then show ?thesis using writeFile_changed unfolding x by blast
qed

text \<open>After a template is rendered: its node is there, other nodes stay, and new ones lie on its path.\<close>

lemma render_ok:
  assumes "render io c e t = (t', None)" and "wf_tree t"
  shows "wf_tree t' \<and> map_of t' (target_of c e) = Some (rendered c (snd e)) \<and>
    (\<forall>q. q \<noteq> target_of c e \<longrightarrow> map_of t q \<noteq> None \<longrightarrow> map_of t' q = map_of t q) \<and>
    (\<forall>q. map_of t q = None \<longrightarrow> map_of t' q \<noteq> None \<longrightarrow> prefix q (target_of c e))"
proof -
  obtain rel n where e: "e = (rel, n)" by fastforce
  show ?thesis
  proof (cases n)
    case Dir
    then have mk: "os_MkdirAll io (template_target c rel) t = (t', None)" using assms(1) by (simp add: e render_def)
    show ?thesis using MkdirAll_wf [OF mk assms(2)] MkdirAll_lookup [OF mk]
      by (auto simp add: e target_of_def rendered_def Dir)
  next
    case (File d)
    then have "write_template io c rel d t = (t', None)" using assms(1) by (simp add: e render_def)
    then have wr: "writeFile io (file_target c rel) (Replace (ic_replacer c) d) t = (t', None)"
      using write_template_writeFile by blast
    show ?thesis using writeFile_wf [OF wr assms(2)] writeFile_lookup(1) [OF wr]
      by (auto simp add: e target_of_def rendered_def File strict_prefix_def)
  qed
qed

section \<open>All templates\<close>

lemma render_all_changed:
  "render_all io c es t = (t', r) \<Longrightarrow> list_all (\<lambda>e. snd e = Dir \<or> template_target c (fst e) \<noteq> ic_targetDir c) es \<Longrightarrow>
     changed_at (ic_targetDir c) t t'"
proof (induction es arbitrary: t)
  case (Cons e es)
  obtain t1 r1 where s: "render io c e t = (t1, r1)" by force
  have "changed_at (ic_targetDir c) t t1" using render_changed [of io c "fst e" "snd e" t t1 r1] s Cons.prems(2) by simp
  then show ?case using Cons s changed_at_trans by (cases r1) (auto simp add: seq_run_def)
qed simp

lemma render_all_ok:
  "render_all io c es t = (t', None) \<Longrightarrow> wf_tree t \<Longrightarrow> distinct (map (target_of c) es) \<Longrightarrow>
     wf_tree t' \<and> list_all (\<lambda>e. map_of t' (target_of c e) = Some (rendered c (snd e))) es \<and>
     (\<forall>q. q \<notin> set (map (target_of c) es) \<longrightarrow> map_of t q \<noteq> None \<longrightarrow> map_of t' q = map_of t q) \<and>
     (\<forall>q. map_of t q = None \<longrightarrow> map_of t' q \<noteq> None \<longrightarrow> list_ex (\<lambda>e. prefix q (target_of c e)) es)"
proof (induction es arbitrary: t)
  case (Cons e es)
  obtain t1 where s: "render io c e t = (t1, None)" and rest: "render_all io c es t1 = (t', None)"
    using Cons.prems(1) by (auto simp add: seq_run_def split: prod.splits option.splits)
  note one = render_ok [OF s Cons.prems(2)]
  note ih = Cons.IH [OF rest conjunct1 [OF one]]
  have d: "distinct (map (target_of c) es)" "target_of c e \<notin> set (map (target_of c) es)" using Cons.prems(3) by simp_all
  note ih1 = ih [OF d(1)]
  have "map_of t' (target_of c e) = map_of t1 (target_of c e)" using ih1 one d(2) by blast
  then have "map_of t' (target_of c e) = Some (rendered c (snd e))" using one by simp
  moreover have "map_of t' q = map_of t q" if "q \<notin> set (map (target_of c) (e # es))" "map_of t q \<noteq> None" for q
  proof -
    have "map_of t1 q = map_of t q" using one that by simp
    then show ?thesis using ih1 that by simp
  qed
  moreover have "list_ex (\<lambda>e. prefix q (target_of c e)) (e # es)" if "map_of t q = None" "map_of t' q \<noteq> None" for q
    using one ih1 that by (cases "map_of t1 q = None") simp_all
  ultimately show ?case using ih1 by simp
qed simp

lemma below_target:
  assumes "wf_tree t" and "list_all (\<lambda>e. map_of t (target_of c e) = Some (rendered c (snd e))) es"
    and "list_ex (\<lambda>e. prefix q (target_of c e)) es"
  shows "map_of t q \<noteq> None"
proof -
  obtain e where e: "e \<in> set es" "prefix q (target_of c e)" using assms(3) by (auto simp add: list_ex_iff)
  then have m: "map_of t (target_of c e) \<noteq> None" using assms(2) by (simp add: list_all_iff)
  show ?thesis
  proof (cases "q = target_of c e")
    case False
    then show ?thesis using wf_treeD [OF assms(1) m, of q] e(2) by (simp add: strict_prefix_def)
  qed (simp add: m)
qed

section \<open>Creating a service\<close>

definition init_plan :: "init_context \<Rightarrow> (path \<times> node) list \<Rightarrow> (path \<times> node) list" where
  "init_plan c templates = kept (ic_format c) [] templates"

text \<open>In a tree nothing lies below a directory that has no names.\<close>

lemma dir_names_Nil:
  assumes "wf_tree t" and "dir_names t dir = []" and "strict_prefix dir q"
  shows "map_of t q = None"
proof -
  obtain x r where q: "q = dir @ x # r" using assms(3) by (rule strict_prefixE')
  have "x \<notin> set (dir_names t dir)" by (simp add: assms(2))
  then have none: "map_of t (dir @ [x]) = None" by (simp add: dir_names_mem)
  show ?thesis
  proof (cases "r = []")
    case True then show ?thesis using none q by simp
  next
    case False
    then have "strict_prefix (dir @ [x]) q" by (simp add: q strict_prefix_def)
    then show ?thesis using wf_treeD [OF assms(1), of q "dir @ [x]"] none by force
  qed
qed

lemma ReadNotExist_Nil: "os_ReadDir io t dir = ReadNotExist \<Longrightarrow> wf_tree t \<Longrightarrow> dir_names t dir = []"
proof -
  assume r: "os_ReadDir io t dir = ReadNotExist" and wf: "wf_tree t"
  have none: "map_of t dir = None" using r by (auto simp add: os_ReadDir_def split: if_splits option.splits node.splits)
  have "map_of t (dir @ [n]) = None" for n
    using wf_treeD [OF wf, of "dir @ [n]" dir] none
    by (cases "map_of t (dir @ [n])") (simp_all add: strict_prefix_def)
  then have "n \<notin> set (dir_names t dir)" for n by (simp add: dir_names_mem)
  then show ?thesis using last_in_set by blast
qed

lemma ReadNames: "os_ReadDir io t dir = Names ns \<Longrightarrow> ns = dir_names t dir"
  by (auto simp add: os_ReadDir_def split: if_splits option.splits node.splits)

text \<open>Either nothing is done, or the plan is rendered into a target where nothing was.\<close>

lemma InitService_cases:
  assumes "InitService io (Inr pr) templates name targetDir fmt t = (t', r)" and "wf_tree t"
  obtains "t' = t" and "r \<noteq> None"
  | "dir_names t targetDir = []"
    and "render_all io (init_context_of name targetDir fmt pr)
           (init_plan (init_context_of name targetDir fmt pr) templates) t = (t', r)"
proof (cases "os_ReadDir io t targetDir")
  case (Names ns)
  then show thesis using that assms(1) ReadNames [OF Names]
    by (cases "ns = []") (auto simp add: InitService_def Let_def init_entries_render init_plan_def)
next
  case ReadNotExist
  then show thesis using that(2) assms(1) ReadNotExist_Nil [OF ReadNotExist assms(2)]
    by (simp add: InitService_def Let_def init_entries_render init_plan_def)
next
  case (ReadDirFailed e)
  then show thesis using that(1) assms(1) by (auto simp add: InitService_def Let_def)
qed

text \<open>\<open>zengo init\<close> that succeeds found nothing in the target directory, and leaves there exactly
  the templates of the chosen manifest format: for each one the directory, or the file with its placeholders
  replaced, and besides these only the directories on their paths; nothing outside changes (but for missing
  directories above).  On an error nothing outside the target changes, and a directory that is not empty is
  left as it is.\<close>

theorem InitService_outcome:
  assumes "wf_tree t" and "templates_ok (init_context_of name targetDir fmt pr) (init_plan (init_context_of name targetDir fmt pr) templates)"
  shows "case InitService io (Inr pr) templates name targetDir fmt t of
      (t', None) \<Rightarrow>
        dir_names t targetDir = [] \<and> changed_at targetDir t t' \<and>
        list_all (\<lambda>e. map_of t' (target_of (init_context_of name targetDir fmt pr) e) =
            Some (rendered (init_context_of name targetDir fmt pr) (snd e)))
          (init_plan (init_context_of name targetDir fmt pr) templates) \<and>
        (\<forall>q. strict_prefix targetDir q \<and> map_of t' q \<noteq> None \<longleftrightarrow> strict_prefix targetDir q \<and>
           list_ex (\<lambda>e. prefix q (target_of (init_context_of name targetDir fmt pr) e))
             (init_plan (init_context_of name targetDir fmt pr) templates))
    | (t', Some e) \<Rightarrow> changed_at targetDir t t' \<and> (dir_names t targetDir = [] \<or> t' = t)"
proof -
  let ?c = "init_context_of name targetDir fmt pr" and ?p = "init_plan (init_context_of name targetDir fmt pr) templates"
  obtain t' r where run: "InitService io (Inr pr) templates name targetDir fmt t = (t', r)" by fastforce
  have ok: "distinct (map (target_of ?c) ?p)" "list_all (\<lambda>e. snd e = Dir \<or> template_target ?c (fst e) \<noteq> ic_targetDir ?c) ?p"
    using assms(2) by (simp_all add: templates_ok_def)
  have dir: "ic_targetDir ?c = targetDir" by (simp add: init_context_of_def Let_def)
  show ?thesis using run assms(1)
  proof (cases rule: InitService_cases)
    case 1 then show ?thesis using run by (cases r) simp_all
  next
    case 2
    note ch = render_all_changed [OF 2(2) ok(2), unfolded dir]
    show ?thesis
    proof (cases r)
      case (Some e) then show ?thesis using run ch 2(1) by simp
    next
      case None
      note all = render_all_ok [OF 2(2) [unfolded None] assms(1) ok(1)]
      have "map_of t' q \<noteq> None \<longleftrightarrow> list_ex (\<lambda>e. prefix q (target_of ?c e)) ?p" if "strict_prefix targetDir q" for q
        using all dir_names_Nil [OF assms(1) 2(1) that] below_target [of t' ?c ?p q] by blast
      then have "\<forall>q. strict_prefix targetDir q \<and> map_of t' q \<noteq> None \<longleftrightarrow> strict_prefix targetDir q \<and>
          list_ex (\<lambda>e. prefix q (target_of ?c e)) ?p" by blast
      then show ?thesis using run None ch 2(1) all by simp
    qed
  qed
qed

definition sample_templates :: "(path \<times> node) list" where
  "sample_templates =
     [([], Dir), ([''README.md.tmpl''], File ''# {{SERVICE_NAME}}''), ([''api''], Dir),
      ([''api'', ''_handler_.proto''], File ''package {{HANDLER_PKG}}.hub;''),
      ([''third_party''], Dir), ([''third_party'', ''x''], File ''y''),
      ([''zengo.textproto.tmpl''], File ''name: {{SERVICE_NAME}}''), ([''zengo.yaml''], File ''name: {{SERVICE_NAME}}'')]"

definition sample_parent :: tree where
  "sample_parent = [([], Dir), ([''go.mod''], File ''module m'')]"

lemma sample_templates_ok:
  "wf_tree sample_parent"
  "templates_ok (init_context_of ''user-service'' [''user''] ManifestFormatUnset [])
     (init_plan (init_context_of ''user-service'' [''user''] ManifestFormatUnset []) sample_templates)"
  by code_simp+

abbreviation sample_context :: init_context where
  "sample_context \<equiv> init_context_of ''user-service'' [''user''] ManifestFormatUnset []"

lemma sample_init_runs:
  "snd (InitService (\<lambda>_. False) (Inr []) sample_templates ''user-service'' [''user''] ManifestFormatUnset sample_parent)
     = None"
  by code_simp

theorem InitService_outcome_witness:
  "list_all (\<lambda>e. map_of (fst (InitService (\<lambda>_. False) (Inr []) sample_templates ''user-service'' [''user'']
         ManifestFormatUnset sample_parent)) (target_of sample_context e) = Some (rendered sample_context (snd e)))
     (init_plan sample_context sample_templates) \<and>
   map (target_of sample_context) (init_plan sample_context sample_templates) =
     [[''user''], [''user'', ''README.md''], [''user'', ''api''], [''user'', ''api'', ''user.proto''],
      [''user'', ''zengo.textproto'']]"
proof
  show "map (target_of sample_context) (init_plan sample_context sample_templates) =
     [[''user''], [''user'', ''README.md''], [''user'', ''api''], [''user'', ''api'', ''user.proto''],
      [''user'', ''zengo.textproto'']]" by code_simp
  show "list_all (\<lambda>e. map_of (fst (InitService (\<lambda>_. False) (Inr []) sample_templates ''user-service'' [''user'']
         ManifestFormatUnset sample_parent)) (target_of sample_context e) = Some (rendered sample_context (snd e)))
     (init_plan sample_context sample_templates)"
    using InitService_outcome [of sample_parent "''user-service''" "[''user'']" ManifestFormatUnset "[]" sample_templates
        "\<lambda>_. False", OF sample_templates_ok(1) sample_templates_ok(2)] sample_init_runs
    by (simp add: case_prod_beta split: prod.splits)
qed

end
