(* ===== verification/Plugin.thy ===== *)
theory Plugin
  imports Migration Naming GoStrings
begin

text \<open>
  The \<open>protoc\<close> plugin (\<open>cmd/protoc-gen-zengo/main.go\<close>): the registration helpers that it writes for every
  protobuf file with services, over the descriptors of \<open>PluginSchema\<close>.

  An argument of \<open>g.P\<close> is literal text of the plugin or a value; a line is the list of its arguments.
  \<open>QualifiedGoIdent\<close> of package \<open>protogen\<close> is the parameter \<open>qual\<close>, from an import path and a name to the
  text of the identifier.  Printing the lines, which formats them and adds the imports of qualified
  identifiers, is left to \<open>protogen\<close>.
\<close>

section \<open>Generated files\<close>

datatype segment = Lit string | Val string

type_synonym code_line = "segment list"

definition line_text :: "code_line \<Rightarrow> string" where
  "line_text l = concat (map (\<lambda>s. case s of Lit t \<Rightarrow> t | Val t \<Rightarrow> t) l)"

record generated_file =
  gf_Name :: string
  gf_ImportPath :: string
  gf_Imports :: "string list"
  gf_Lines :: "code_line list"

definition tab :: string where
  "tab = [CHR 0x09]"

type_synonym qualifier = "string \<Rightarrow> string \<Rightarrow> string"

section \<open>Names\<close>

text \<open>A version is never empty (see \<open>versionFromPackage\<close>), so that \<open>version[:1]\<close> does not panic.\<close>

definition registerName :: "proto_service \<Rightarrow> string \<Rightarrow> string" where
  "registerName svc version =
     ''RegisterGRPC'' @ trim_suffix (srv_GoName svc) ''Service'' @ to_upper (take 1 version) @ drop 1 version"

definition gatewayName :: "proto_service \<Rightarrow> string \<Rightarrow> string" where
  "gatewayName svc version =
     ''GatewayRegister'' @ trim_suffix (srv_GoName svc) ''Service'' @ to_upper (take 1 version) @ drop 1 version"

definition kafkaHandlerName :: "proto_service \<Rightarrow> proto_method \<Rightarrow> string \<Rightarrow> string" where
  "kafkaHandlerName svc method version =
     srv_GoName svc @ md_GoName method @ to_upper (take 1 version) @ drop 1 version"

definition kafkaProduce :: "proto_method \<Rightarrow> KafkaProduce option" where
  "kafkaProduce method =
     (case md_Produce method of None \<Rightarrow> None | Some p \<Rightarrow> if kp_Topic p = [] then None else Some p)"

definition kafkaConsume :: "proto_method \<Rightarrow> KafkaConsume option" where
  "kafkaConsume method =
     (case md_Consume method of None \<Rightarrow> None | Some c \<Rightarrow> if kc_Topic c = [] then None else Some c)"

definition genImportPath :: "proto_file \<Rightarrow> string" where
  "genImportPath file =
     (let base = fi_GoImportPath file;
          base = (case Index base ''/gen/'' of Some idx \<Rightarrow> take idx base | None \<Rightarrow> base)
      in base @ ''/gen/zengo'')"

section \<open>Imports\<close>

record needs =
  n_context :: bool
  n_fmt :: bool
  n_gateway :: bool
  n_grpc :: bool
  n_kafka :: bool
  n_policy :: bool
  n_router :: bool

definition no_needs :: needs where
  "no_needs = \<lparr>n_context = False, n_fmt = False, n_gateway = False, n_grpc = False, n_kafka = False,
     n_policy = False, n_router = False\<rparr>"

definition need_method :: "string \<Rightarrow> needs \<Rightarrow> proto_method \<Rightarrow> needs" where
  "need_method version n method =
     (if isHubVersion version \<and> kafkaProduce method \<noteq> None
      then n\<lparr>n_context := True, n_fmt := True, n_kafka := True\<rparr> else n)"

definition need_service :: "string \<Rightarrow> needs \<Rightarrow> proto_service \<Rightarrow> needs" where
  "need_service version n svc =
     (if isEventService svc
      then (if isHubVersion version then n\<lparr>n_context := True, n_kafka := True, n_policy := True, n_router := True\<rparr>
            else n)
      else foldl (need_method version) (n\<lparr>n_context := True, n_gateway := True, n_grpc := True\<rparr>) (srv_Methods svc))"

definition analyzeNeeds :: "proto_file \<Rightarrow> string \<Rightarrow> needs" where
  "analyzeNeeds file version = foldl (need_service version) no_needs (fi_Services file)"

definition writeImports :: "needs \<Rightarrow> code_line list" where
  "writeImports n =
     [[Lit ''import ('']] @
     (if n_context n then [[Lit (tab @ ''\"context\"'')]] else []) @
     (if n_fmt n then [[Lit (tab @ ''\"fmt\"'')]] else []) @
     (if n_gateway n \<or> n_grpc n then [[]] else []) @
     (if n_gateway n then [[Lit (tab @ ''\"github.com/grpc-ecosystem/grpc-gateway/v2/runtime\"'')]] else []) @
     (if n_grpc n then [[Lit (tab @ ''\"google.golang.org/grpc\"'')]] else []) @
     (if n_gateway n \<or> n_grpc n then [[]] else []) @
     (if n_kafka n then [[Lit (tab @ ''\"zengo/platform/sdk/transport/queue/kafka\"'')]] else []) @
     (if n_policy n then [[Lit (tab @ ''\"zengo/platform/sdk/policy\"'')]] else []) @
     (if n_router n then [[Lit (tab @ ''\"zengo/platform/sdk/router\"'')]] else []) @
     [[Lit '')''], []]"

section \<open>Declarations\<close>

definition writeGRPCRegister :: "qualifier \<Rightarrow> proto_file \<Rightarrow> proto_service \<Rightarrow> string \<Rightarrow> code_line list" where
  "writeGRPCRegister qual file svc version =
     (let serverIdent = qual (fi_GoImportPath file) (srv_GoName svc @ ''Server'');
          registerIdent = qual (fi_GoImportPath file) (''Register'' @ srv_GoName svc @ ''Server'')
      in [[Lit ''func '', Val (registerName svc version), Lit ''(server *grpc.Server, handler '', Val serverIdent,
           Lit '') {''],
          [Lit tab, Val registerIdent, Lit ''(server, handler)''],
          [Lit ''}''], []])"

definition writeGatewayRegister :: "qualifier \<Rightarrow> proto_file \<Rightarrow> proto_service \<Rightarrow> string \<Rightarrow> code_line list" where
  "writeGatewayRegister qual file svc version =
     (let registerIdent = qual (fi_GoImportPath file) (''Register'' @ srv_GoName svc @ ''HandlerFromEndpoint'')
      in [[Lit ''func '', Val (gatewayName svc version),
           Lit ''() func(context.Context, *runtime.ServeMux, string, []grpc.DialOption) error {''],
          [Lit (tab @ ''return ''), Val registerIdent],
          [Lit ''}''], []])"

definition produce_lines :: "proto_method \<Rightarrow> KafkaProduce \<Rightarrow> code_line list" where
  "produce_lines method produce =
     [[Lit ''func Publish'', Val (md_GoName method),
       Lit ''(ctx context.Context, producer *kafka.Producer, brokers []string, apiVersion string, payload []byte) error {''],
      [Lit (tab @ ''if producer == nil {'')],
      [Lit (tab @ tab @ ''return fmt.Errorf(\"kafka producer is nil\")'')],
      [Lit (tab @ ''}'')],
      [Lit (tab @ ''return producer.Publish(ctx, brokers, \"''), Val (kp_Topic produce),
       Lit ''\", apiVersion, \"'', Val (kp_Event produce), Lit ''\", payload)''],
      [Lit ''}''], []]"

definition writeKafkaProduce :: "proto_service \<Rightarrow> code_line list" where
  "writeKafkaProduce svc =
     concat (map (\<lambda>method. case kafkaProduce method of None \<Rightarrow> [] | Some produce \<Rightarrow> produce_lines method produce)
       (srv_Methods svc))"

definition consume_lines :: "string \<Rightarrow> KafkaConsume \<Rightarrow> code_line list" where
  "consume_lines handlerName consume =
     [[Lit ''func Register'', Val handlerName,
       Lit ''(consumer *kafka.Consumer, brokers []string, policyOpts policy.Options, handler func(context.Context, router.EventEnvelope) error) error {''],
      [Lit (tab @ ''return consumer.Register(kafka.ConsumeSpec{'')],
      [Lit (tab @ tab @ ''Topic:   \"''), Val (kc_Topic consume), Lit ''\",''],
      [Lit (tab @ tab @ ''Group:   \"''), Val (kc_Group consume), Lit ''\",''],
      [Lit (tab @ tab @ ''Brokers: brokers,'')],
      [Lit (tab @ tab @ ''Policy:  policyOpts,'')],
      [Lit (tab @ tab @ ''Handler: handler,'')],
      [Lit (tab @ ''})'')],
      [Lit ''}''], []]"

definition writeKafkaConsumer :: "proto_service \<Rightarrow> string \<Rightarrow> code_line list" where
  "writeKafkaConsumer svc version =
     concat (map (\<lambda>method. case kafkaConsume method of None \<Rightarrow> []
                  | Some consume \<Rightarrow> consume_lines (kafkaHandlerName svc method version) consume) (srv_Methods svc))"

definition service_lines :: "qualifier \<Rightarrow> proto_file \<Rightarrow> string \<Rightarrow> proto_service \<Rightarrow> code_line list" where
  "service_lines qual file version svc =
     (if isEventService svc then (if isHubVersion version then writeKafkaConsumer svc version else [])
      else writeGRPCRegister qual file svc version @ writeGatewayRegister qual file svc version @
           (if isHubVersion version then writeKafkaProduce svc else []))"

section \<open>The plugin\<close>

definition generateFile :: "qualifier \<Rightarrow> proto_file \<Rightarrow> generated_file option" where
  "generateFile qual file =
     (if fi_Services file = [] \<or> isOptionsFile file then None
      else let version = versionFromPackage (fi_Package file); n = analyzeNeeds file version
           in Some \<lparr>gf_Name = ''zengo/register_'' @ version @ ''.pb.go'',
                    gf_ImportPath = genImportPath file,
                    gf_Imports = (if n_gateway n \<or> n_grpc n then [fi_GoImportPath file] else []),
                    gf_Lines = [[Lit ''// Code generated by protoc-gen-zengo. DO NOT EDIT.''], [Lit ''package zengo''], []] @
                      writeImports n @ concat (map (service_lines qual file version) (fi_Services file))\<rparr>)"

text \<open>The generated Go files and the schema metadata.\<close>

definition runPlugin :: "qualifier \<Rightarrow> schema_codec \<Rightarrow> proto_file list \<Rightarrow> go_err + generated_file list \<times> string" where
  "runPlugin qual cod fs =
     (let generated = List.map_filter (\<lambda>file. if fi_Generate file then generateFile qual file else None) fs
      in bind_err (generateSchemaMetadata cod fs) (\<lambda>json. Inr (generated, json)))"

end
