(* ===== verification/PluginFacts.thy ===== *)
theory PluginFacts
  imports Plugin VersioningGenFacts
begin

text \<open>
  Properties of the registration helpers of the \<open>protoc\<close> plugin: the packages that a generated file imports are
  those that its code names, and the runtime wiring of \<open>VersioningGen\<close> calls functions that the plugin has
  declared.
\<close>

section \<open>Packages\<close>

datatype package = Context | Fmt | Runtime | Grpc | KafkaSDK | PolicySDK | RouterSDK

fun import_line :: "package \<Rightarrow> code_line" where
  "import_line Context = [Lit (tab @ ''\"context\"'')]"
| "import_line Fmt = [Lit (tab @ ''\"fmt\"'')]"
| "import_line Runtime = [Lit (tab @ ''\"github.com/grpc-ecosystem/grpc-gateway/v2/runtime\"'')]"
| "import_line Grpc = [Lit (tab @ ''\"google.golang.org/grpc\"'')]"
| "import_line KafkaSDK = [Lit (tab @ ''\"zengo/platform/sdk/transport/queue/kafka\"'')]"
| "import_line PolicySDK = [Lit (tab @ ''\"zengo/platform/sdk/policy\"'')]"
| "import_line RouterSDK = [Lit (tab @ ''\"zengo/platform/sdk/router\"'')]"

fun selector :: "package \<Rightarrow> string" where
  "selector Context = ''context.''"
| "selector Fmt = ''fmt.''"
| "selector Runtime = ''runtime.''"
| "selector Grpc = ''grpc.''"
| "selector KafkaSDK = ''kafka.''"
| "selector PolicySDK = ''policy.''"
| "selector RouterSDK = ''router.''"

text \<open>The literal text of a line names the package.\<close>

definition names_package :: "package \<Rightarrow> code_line \<Rightarrow> bool" where
  "names_package p l \<longleftrightarrow> list_ex (\<lambda>s. case s of Lit t \<Rightarrow> contains t (selector p) | Val _ \<Rightarrow> False) l"

definition uses :: "package \<Rightarrow> code_line list \<Rightarrow> bool" where
  "uses p ls \<longleftrightarrow> list_ex (names_package p) ls"

lemma uses_Nil [simp]: "\<not> uses p []" and uses_append [simp]: "uses p (a @ b) \<longleftrightarrow> uses p a \<or> uses p b"
  by (simp_all add: uses_def)

lemma uses_concat [simp]: "uses p (concat ls) \<longleftrightarrow> list_ex (uses p) ls"
  by (induction ls) simp_all

lemma uses_grpc: "uses p (writeGRPCRegister qual file svc version) \<longleftrightarrow> p = Grpc"
  by (cases p) (simp_all add: writeGRPCRegister_def Let_def uses_def names_package_def contains_def sublist_code tab_def)

lemma uses_gateway: "uses p (writeGatewayRegister qual file svc version) \<longleftrightarrow> p \<in> {Context, Runtime, Grpc}"
  by (cases p) (simp_all add: writeGatewayRegister_def Let_def uses_def names_package_def contains_def sublist_code tab_def)

lemma uses_produce: "uses p (produce_lines m d) \<longleftrightarrow> p \<in> {Context, Fmt, KafkaSDK}"
  by (cases p) (simp_all add: produce_lines_def uses_def names_package_def contains_def sublist_code tab_def)

lemma uses_consume: "uses p (consume_lines n d) \<longleftrightarrow> p \<in> {Context, KafkaSDK, PolicySDK, RouterSDK}"
  by (cases p) (simp_all add: consume_lines_def uses_def names_package_def contains_def sublist_code tab_def)

lemma uses_writeKafkaProduce:
  "uses p (writeKafkaProduce svc) \<longleftrightarrow>
     list_ex (\<lambda>m. kafkaProduce m \<noteq> None) (srv_Methods svc) \<and> p \<in> {Context, Fmt, KafkaSDK}"
  by (induction "srv_Methods svc" arbitrary: svc)
    (auto simp add: writeKafkaProduce_def list_ex_iff uses_produce split: option.splits)

lemma uses_writeKafkaConsumer:
  "uses p (writeKafkaConsumer svc version) \<longleftrightarrow>
     list_ex (\<lambda>m. kafkaConsume m \<noteq> None) (srv_Methods svc) \<and> p \<in> {Context, KafkaSDK, PolicySDK, RouterSDK}"
  by (auto simp add: writeKafkaConsumer_def list_ex_iff uses_consume split: option.splits)

fun needs_package :: "needs \<Rightarrow> package \<Rightarrow> bool" where
  "needs_package n Context = n_context n"
| "needs_package n Fmt = n_fmt n"
| "needs_package n Runtime = n_gateway n"
| "needs_package n Grpc = n_grpc n"
| "needs_package n KafkaSDK = n_kafka n"
| "needs_package n PolicySDK = n_policy n"
| "needs_package n RouterSDK = n_router n"

lemma import_line_iff: "import_line p \<in> set (writeImports n) \<longleftrightarrow> needs_package n p"
  by (cases p) (simp_all add: writeImports_def tab_def)

lemma need_methods:
  "needs_package (foldl (need_method v) n ms) p \<longleftrightarrow>
     needs_package n p \<or> isHubVersion v \<and> list_ex (\<lambda>m. kafkaProduce m \<noteq> None) ms \<and> p \<in> {Context, Fmt, KafkaSDK}"
proof (induction ms arbitrary: n)
  case (Cons m ms)
  have "needs_package (need_method v n m) p \<longleftrightarrow>
      needs_package n p \<or> isHubVersion v \<and> kafkaProduce m \<noteq> None \<and> p \<in> {Context, Fmt, KafkaSDK}"
    by (cases p) (auto simp add: need_method_def)
  then show ?case using Cons [of "need_method v n m"] by auto
qed simp

definition service_needs :: "string \<Rightarrow> proto_service \<Rightarrow> package \<Rightarrow> bool" where
  "service_needs v svc p \<longleftrightarrow>
     (if isEventService svc then isHubVersion v \<and> p \<in> {Context, KafkaSDK, PolicySDK, RouterSDK}
      else p \<in> {Context, Runtime, Grpc} \<or>
           isHubVersion v \<and> list_ex (\<lambda>m. kafkaProduce m \<noteq> None) (srv_Methods svc) \<and> p \<in> {Context, Fmt, KafkaSDK})"

lemma need_service: "needs_package (need_service v n svc) p \<longleftrightarrow> needs_package n p \<or> service_needs v svc p"
proof (cases "isEventService svc")
  case True then show ?thesis by (cases p) (auto simp add: need_service_def service_needs_def)
next
  case False
  have "needs_package (n\<lparr>n_context := True, n_gateway := True, n_grpc := True\<rparr>) p \<longleftrightarrow>
      needs_package n p \<or> p \<in> {Context, Runtime, Grpc}" by (cases p) simp_all
  then show ?thesis by (simp add: False need_service_def service_needs_def need_methods)
qed

lemma needs_file: "needs_package (analyzeNeeds file v) p \<longleftrightarrow> list_ex (\<lambda>svc. service_needs v svc p) (fi_Services file)"
proof -
  have "needs_package (foldl (need_service v) n svcs) p \<longleftrightarrow>
      needs_package n p \<or> list_ex (\<lambda>svc. service_needs v svc p) svcs" for n svcs
    by (induction svcs arbitrary: n) (simp_all add: need_service)
  moreover have "\<not> needs_package no_needs p" by (cases p) (simp_all add: no_needs_def)
  ultimately show ?thesis by (simp add: analyzeNeeds_def)
qed

lemma uses_service:
  "service_needs v svc p \<longleftrightarrow>
     uses p (service_lines qual file v svc) \<or>
     isHubVersion v \<and> isEventService svc \<and> p \<in> {Context, KafkaSDK, PolicySDK, RouterSDK}"
  by (auto simp add: service_needs_def service_lines_def uses_grpc uses_gateway uses_writeKafkaProduce
      uses_writeKafkaConsumer)

text \<open>C11: a generated registration file imports exactly the packages that its declarations name, and for a hub
  file with an event service also the packages of a consumer, even when no method of the service consumes a
  topic: the generated file then has unused imports, which Go rejects.\<close>

theorem plugin_imports_exact:
  "import_line p \<in> set (writeImports (analyzeNeeds file version)) \<longleftrightarrow>
     uses p (concat (map (service_lines qual file version) (fi_Services file))) \<or>
     isHubVersion version \<and> list_ex isEventService (fi_Services file) \<and> p \<in> {Context, KafkaSDK, PolicySDK, RouterSDK}"
  unfolding import_line_iff needs_file uses_service [of version _ p qual "file"] uses_concat
  by (auto simp add: list_ex_iff)

section \<open>The runtime wiring\<close>

text \<open>A declaration of a function starts with \<open>func\<close> and its name.\<close>

definition declares :: "code_line list \<Rightarrow> string \<Rightarrow> bool" where
  "declares ls name \<longleftrightarrow> list_ex (\<lambda>l. has_prefix (line_text l) (''func '' @ name @ ''('')) ls"

lemma declares_append [simp]: "declares (a @ b) name \<longleftrightarrow> declares a name \<or> declares b name"
  by (simp add: declares_def)

lemma declares_concat [simp]: "declares (concat ls) name \<longleftrightarrow> list_ex (\<lambda>l. declares l name) ls"
  by (induction ls) (simp_all add: declares_def)

lemma declares_head: "declares (([Lit ''func '', Val name, Lit (''('' @ t)] @ l) # ls) name"
  using has_prefix_append [of "''func '' @ name @ ''(''" "t @ line_text l"]
  by (simp add: declares_def line_text_def)

lemma declares_registerName: "declares (writeGRPCRegister qual file svc version) (registerName svc version)"
  using declares_head [of "registerName svc version" "''server *grpc.Server, handler ''"]
  by (simp add: writeGRPCRegister_def Let_def)

lemma declares_gatewayName: "declares (writeGatewayRegister qual file svc version) (gatewayName svc version)"
  using declares_head [of "gatewayName svc version"
      "'') func(context.Context, *runtime.ServeMux, string, []grpc.DialOption) error {''" "[]"]
  by (simp add: writeGatewayRegister_def Let_def)

lemma declares_consume: "declares (consume_lines n c) (''Register'' @ n)"
proof -
  let ?t = "''consumer *kafka.Consumer, brokers []string, policyOpts policy.Options, handler func(context.Context, router.EventEnvelope) error) error {''"
  show ?thesis using has_prefix_append [of "''func '' @ (''Register'' @ n) @ ''(''" ?t]
    by (simp add: consume_lines_def declares_def line_text_def)
qed

text \<open>The names that the compatibility generator computes are those of the plugin.\<close>

lemma UcFirst_eq: "v \<noteq> [] \<Longrightarrow> UcFirst v = to_upper (take 1 v) @ drop 1 v"
  by (simp add: UcFirst_def)

lemma registerName_agrees: "v \<noteq> [] \<Longrightarrow> registerGRPCName (srv_GoName svc) v = registerName svc v"
  by (simp add: registerGRPCName_def registerName_def serviceBaseName_def UcFirst_eq)

lemma gatewayName_agrees: "v \<noteq> [] \<Longrightarrow> gatewayRegisterName (srv_GoName svc) v = gatewayName svc v"
  by (simp add: gatewayRegisterName_def gatewayName_def serviceBaseName_def UcFirst_eq)

section \<open>The registrar\<close>

text \<open>The methods that consume a topic, in the order of the file.\<close>

definition consumers :: "proto_file \<Rightarrow> (proto_service \<times> proto_method) list" where
  "consumers file =
     concat (map (\<lambda>svc. map (Pair svc) (filter (\<lambda>m. kafkaConsume m \<noteq> None) (srv_Methods svc)))
       (filter isEventService (fi_Services file)))"

definition go_ident :: "string \<Rightarrow> bool" where
  "go_ident s \<longleftrightarrow> list_all (\<lambda>c. is_letter c \<or> is_digit c \<or> c = CHR ''_'') s"

definition names_ok :: "qualifier \<Rightarrow> proto_file \<Rightarrow> bool" where
  "names_ok qual file \<longleftrightarrow>
     list_all (\<lambda>svc. go_ident (srv_GoName svc) \<and> list_all (\<lambda>m. go_ident (md_GoName m)) (srv_Methods svc) \<and>
       CHR ''('' \<notin> set (qual (fi_GoImportPath file) (srv_GoName svc @ ''Server'')) \<and>
       CHR ''('' \<notin> set (qual (fi_GoImportPath file) (''Register'' @ srv_GoName svc @ ''Server'')))
     (fi_Services file)"

definition registrar_lines :: "string list \<Rightarrow> string list" where
  "registrar_lines ls = List.map_filter registrar_line ls"

text \<open>Only lines that start with \<open>func\<close> can be registrars.\<close>

definition func_line :: "string \<Rightarrow> bool" where
  "func_line l \<longleftrightarrow> has_prefix l ''func ''"

definition func_lines :: "string list \<Rightarrow> string list" where
  "func_lines ls = filter func_line (map trim_space ls)"

lemma prefix_has_prefix: "has_prefix s p \<longleftrightarrow> prefix p s"
  by (simp add: has_prefix_iff prefix_def)

lemma registrar_func_line: "registrar_line l \<noteq> None \<Longrightarrow> func_line (trim_space l)"
proof -
  assume "registrar_line l \<noteq> None"
  then have "prefix ''func Register'' (trim_space l)"
    by (auto simp add: registrar_line_def Let_def prefix_has_prefix split: if_splits)
  moreover have "prefix ''func '' ''func Register''" by simp
  ultimately show ?thesis unfolding func_line_def prefix_has_prefix by (rule prefix_order.trans [rotated])
qed

lemma registrar_trim: "registrar_line (trim_space l) = registrar_line l"
  by (simp add: registrar_line_def)

lemma registrar_lines_append [simp]: "registrar_lines (a @ b) = registrar_lines a @ registrar_lines b"
  by (simp add: registrar_lines_def List.map_filter_def)

lemma registrar_lines_Nil [simp]: "registrar_lines [] = []"
  by (simp add: registrar_lines_def List.map_filter_def)

lemma registrar_lines_Cons:
  "registrar_lines (l # ls) = (case registrar_line l of None \<Rightarrow> [] | Some n \<Rightarrow> [n]) @ registrar_lines ls"
  by (auto simp add: registrar_lines_def List.map_filter_def split: option.splits)

lemma registrar_lines_func: "registrar_lines (func_lines ls) = registrar_lines ls"
proof (induction ls)
  case (Cons l ls)
  then show ?case using registrar_func_line [of l]
    by (cases "registrar_line l") (auto simp add: func_lines_def registrar_lines_Cons registrar_trim)
qed (simp add: func_lines_def)

lemma trim_space_Cons: "is_space c \<Longrightarrow> trim_space (c # s) = trim_space s"
  by (simp add: trim_space_def trim_func_def)

lemma trim_space_prefix: "\<not> is_space c \<Longrightarrow> prefix (trim_space (c # s)) (c # s)"
  using rev_dropWhile_rev_prefix [of "c # s" is_space]
  by (auto simp add: trim_space_def trim_func_def prefix_def simp del: rev.simps)

lemma registrar_space: "is_space c \<Longrightarrow> registrar_line (c # s) = registrar_line s"
  by (simp add: registrar_line_def trim_space_Cons)

lemma registrar_Nil: "registrar_line [] = None"
  by (simp add: registrar_line_def trim_space_def trim_func_def has_prefix_def)

lemma registrar_other:
  assumes "\<not> is_space c" and "\<not> has_prefix (c # s) ''func Register'' \<or> \<not> contains (c # s) ''Hub(consumer *kafka.Consumer''"
  shows "registrar_line (c # s) = None"
proof -
  note p = trim_space_prefix [OF assms(1), of s]
  have "has_prefix (c # s) ''func Register''" if "has_prefix (trim_space (c # s)) ''func Register''"
    using that p unfolding prefix_has_prefix by (rule prefix_order.trans)
  moreover have "contains (c # s) x" if "contains (trim_space (c # s)) x" for x
    using that p unfolding contains_def by (metis prefix_imp_sublist sublist_order.order_trans)
  ultimately show ?thesis using assms(2) by (auto simp add: registrar_line_def Let_def)
qed

lemma trim_space_sublist: "sublist (trim_space l) l"
  unfolding trim_space_def trim_func_def
  by (metis dropWhile_eq_drop prefix_imp_sublist prefix_def rev_dropWhile_rev_prefix sublist_drop sublist_order.order_trans)

lemma registrar_not_contains: "\<not> contains l ''Hub(consumer *kafka.Consumer'' \<Longrightarrow> registrar_line l = None"
  using trim_space_sublist [of l] sublist_order.order_trans by (auto simp add: registrar_line_def Let_def contains_def)

text \<open>A line with one opening parenthesis.\<close>

lemma contains_paren:
  assumes "CHR ''('' \<notin> set a" "CHR ''('' \<notin> set b" and "contains (a @ CHR ''('' # b) (x @ CHR ''('' # y)"
  shows "prefix y b"
proof -
  obtain ps ss where "a @ CHR ''('' # b = ps @ (x @ CHR ''('' # y) @ ss"
    using assms(3) unfolding contains_def sublist_def by auto
  then have "a @ CHR ''('' # b = (ps @ x) @ CHR ''('' # (y @ ss)" by simp
  then have "b = y @ ss" using append_Cons_eq_iff [OF assms(1,2)] by blast
  then show ?thesis by simp
qed

section \<open>The registrars of a generated file\<close>

abbreviation texts :: "code_line list \<Rightarrow> string list" where
  "texts ls \<equiv> map line_text ls"

lemma go_ident_no_paren: "go_ident s \<Longrightarrow> CHR ''('' \<notin> set s"
  by (auto simp add: go_ident_def list_all_iff is_letter_def is_digit_def is_upper_def is_lower_def)

lemma set_trim_suffix_notin: "c \<notin> set s \<Longrightarrow> c \<notin> set (trim_suffix s p)"
  using set_trim_suffix [of s p] by auto

lemma hub_suffix: "to_upper (take 1 ''hub'') @ drop 1 ''hub'' = ''Hub''"
  by code_simp

lemma space_tab: "is_space (CHR 0x09)"
  by (simp add: is_space_def)

lemmas registrar_lit = line_text_def tab_def registrar_space space_tab registrar_Nil registrar_lines_Cons
  registrar_other is_space_def has_prefix_def

lemma registrars_imports: "registrar_lines (texts (writeImports n)) = []"
  by (simp add: writeImports_def registrar_lit)

lemma registrars_produce: "registrar_lines (texts (produce_lines m d)) = []"
  by (simp add: produce_lines_def registrar_lit)

lemma registrars_gateway: "registrar_lines (texts (writeGatewayRegister qual file svc version)) = []"
  by (simp add: writeGatewayRegister_def Let_def gatewayName_def registrar_lit)

lemma registrar_server_line:
  assumes "CHR ''('' \<notin> set a" and "CHR ''('' \<notin> set b"
  shows "registrar_line (a @ ''(server'' @ b) = None"
proof (rule registrar_not_contains)
  show "\<not> contains (a @ ''(server'' @ b) ''Hub(consumer *kafka.Consumer''"
    using contains_paren [of a "''server'' @ b" "''Hub''" "''consumer *kafka.Consumer''"] assms by auto
qed

lemma registrars_grpc:
  assumes "go_ident (srv_GoName svc)" and "CHR ''('' \<notin> set (qual (fi_GoImportPath file) (srv_GoName svc @ ''Server''))"
    and "CHR ''('' \<notin> set (qual (fi_GoImportPath file) (''Register'' @ srv_GoName svc @ ''Server''))"
  shows "registrar_lines (texts (writeGRPCRegister qual file svc ''hub'')) = []"
proof -
  let ?n = "registerName svc ''hub''" and ?q = "qual (fi_GoImportPath file) (srv_GoName svc @ ''Server'')"
    and ?r = "qual (fi_GoImportPath file) (''Register'' @ srv_GoName svc @ ''Server'')"
  have "CHR ''('' \<notin> set ?n"
    using set_trim_suffix_notin [OF go_ident_no_paren [OF assms(1)]] hub_suffix by (simp add: registerName_def)
  then have "registrar_line ((''func '' @ ?n) @ ''(server'' @ ('' *grpc.Server, handler '' @ ?q @ '') {'')) = None"
    by (intro registrar_server_line) (simp_all add: assms(2))
  moreover have "registrar_line ((tab @ ?r) @ ''(server'' @ '', handler)'') = None"
    by (intro registrar_server_line) (use assms(3) in \<open>simp_all add: tab_def\<close>)
  ultimately show ?thesis
    by (simp add: writeGRPCRegister_def Let_def registrar_lines_Cons line_text_def registrar_Nil registrar_other
        is_space_def has_prefix_def)
qed

lemma registrar_consume_line:
  assumes "CHR ''('' \<notin> set x"
  shows "registrar_line (''func Register'' @ x @ ''Hub(consumer *kafka.Consumer'' @ r @ ''{'') = Some (''Register'' @ x @ ''Hub'')"
    (is "registrar_line ?l = _")
proof -
  have t: "trim_space ?l = ?l" unfolding trim_space_def by (rule trim_func_fixed) (simp_all add: is_space_def)
  have p: "has_prefix ?l ''func Register''" using has_prefix_append [of "''func Register''"] by simp
  have "?l = (''func Register'' @ x) @ ''Hub(consumer *kafka.Consumer'' @ (r @ ''{'')" by simp
  then have c: "contains ?l ''Hub(consumer *kafka.Consumer''" unfolding contains_def by (metis sublist_appendI)
  have n: "trim_prefix ?l ''func '' = (''Register'' @ x @ ''Hub'') @ CHR ''('' # (''consumer *kafka.Consumer'' @ r @ ''{'')"
    using trim_prefix_append [of "''func ''"] by simp
  have "takeWhile (\<lambda>c. c \<noteq> CHR ''('') ((''Register'' @ x @ ''Hub'') @ CHR ''('' # b) = ''Register'' @ x @ ''Hub''" for b
    using assms by (subst takeWhile_append2) auto
  then show ?thesis unfolding registrar_line_def t Let_def n using p c by simp
qed

lemma kafkaHandlerName_hub: "kafkaHandlerName svc m ''hub'' = (srv_GoName svc @ md_GoName m) @ ''Hub''"
  using hub_suffix by (simp add: kafkaHandlerName_def)

lemma registrars_consume:
  assumes "go_ident (srv_GoName svc)" and "go_ident (md_GoName m)"
  shows "registrar_lines (texts (consume_lines (kafkaHandlerName svc m ''hub'') c)) =
    [''Register'' @ kafkaHandlerName svc m ''hub'']"
proof -
  let ?x = "srv_GoName svc @ md_GoName m"
  let ?r = "'', brokers []string, policyOpts policy.Options, handler func(context.Context, router.EventEnvelope) error) error ''"
  have "CHR ''('' \<notin> set ?x" using go_ident_no_paren assms by simp
  from registrar_consume_line [OF this, of ?r]
  have "registrar_line (''func Register'' @ kafkaHandlerName svc m ''hub'' @ ''(consumer *kafka.Consumer'' @ ?r @ ''{'') =
      Some (''Register'' @ kafkaHandlerName svc m ''hub'')"
    by (simp add: kafkaHandlerName_hub)
  then show ?thesis
    by (simp add: consume_lines_def registrar_lit)
qed

lemma registrars_concat: "registrar_lines (texts (concat ls)) = concat (map (\<lambda>l. registrar_lines (texts l)) ls)"
  by (induction ls) simp_all

definition registrar :: "proto_service \<times> proto_method \<Rightarrow> string" where
  "registrar c = (case c of (svc, m) \<Rightarrow> ''Register'' @ kafkaHandlerName svc m ''hub'')"

definition service_consumers :: "proto_service \<Rightarrow> (proto_service \<times> proto_method) list" where
  "service_consumers svc =
     (if isEventService svc then map (Pair svc) (filter (\<lambda>m. kafkaConsume m \<noteq> None) (srv_Methods svc)) else [])"

lemma consumers_eq: "consumers file = concat (map service_consumers (fi_Services file))"
proof -
  have "concat (map (\<lambda>svc. map (Pair svc) (filter (\<lambda>m. kafkaConsume m \<noteq> None) (srv_Methods svc))) (filter isEventService svcs)) =
      concat (map service_consumers svcs)" for svcs
    by (induction svcs) (simp_all add: service_consumers_def)
  then show ?thesis by (simp add: consumers_def)
qed

lemma registrars_writeKafkaConsumer:
  assumes "go_ident (srv_GoName svc)" and "list_all (\<lambda>m. go_ident (md_GoName m)) (srv_Methods svc)"
  shows "registrar_lines (texts (writeKafkaConsumer svc ''hub'')) =
    map (\<lambda>m. registrar (svc, m)) (filter (\<lambda>m. kafkaConsume m \<noteq> None) (srv_Methods svc))"
proof -
  have "registrar_lines (texts (concat (map (\<lambda>method. case kafkaConsume method of None \<Rightarrow> []
            | Some consume \<Rightarrow> consume_lines (kafkaHandlerName svc method ''hub'') consume) ms))) =
      map (\<lambda>m. registrar (svc, m)) (filter (\<lambda>m. kafkaConsume m \<noteq> None) ms)"
    if "list_all (\<lambda>m. go_ident (md_GoName m)) ms" for ms
    using that by (induction ms) (auto simp add: registrars_consume [OF assms(1)] registrar_def split: option.splits)
  then show ?thesis using assms(2) by (simp add: writeKafkaConsumer_def)
qed

lemma registrars_writeKafkaProduce: "registrar_lines (texts (writeKafkaProduce svc)) = []"
proof -
  have "registrar_lines (texts (concat (map (\<lambda>method. case kafkaProduce method of None \<Rightarrow> []
            | Some produce \<Rightarrow> produce_lines method produce) ms))) = []" for ms
    by (induction ms) (auto simp add: registrars_produce split: option.splits)
  then show ?thesis by (simp add: writeKafkaProduce_def)
qed

lemma registrars_file:
  assumes "names_ok qual file"
  shows "registrar_lines (texts (concat (map (service_lines qual file ''hub'') (fi_Services file)))) =
    map registrar (consumers file)"
proof -
  have one: "registrar_lines (texts (service_lines qual file ''hub'' svc)) = map registrar (service_consumers svc)"
    if "svc \<in> set (fi_Services file)" for svc
    using assms that registrars_writeKafkaConsumer [of svc] registrars_grpc [of svc qual "file"]
    by (simp add: service_lines_def service_consumers_def names_ok_def list_all_iff isHubVersion_def
        registrars_gateway registrars_writeKafkaProduce)
  then have "concat (map (\<lambda>l. registrar_lines (texts l)) (map (service_lines qual file ''hub'') svcs)) =
      map registrar (concat (map service_consumers svcs))" if "set svcs \<subseteq> set (fi_Services file)" for svcs
    using that by (induction svcs) simp_all
  then show ?thesis by (simp add: registrars_concat consumers_eq)
qed

lemma generateFile_hub:
  assumes "generateFile qual file = Some g" and "versionFromPackage (fi_Package file) = ''hub''"
  obtains h where "gf_Lines g = h @ concat (map (service_lines qual file ''hub'') (fi_Services file))"
    and "registrar_lines (texts h) = []"
proof (rule that)
  let ?h = "[[Lit ''// Code generated by protoc-gen-zengo. DO NOT EDIT.''], [Lit ''package zengo''], []] @
    writeImports (analyzeNeeds file ''hub'')"
  show "gf_Lines g = ?h @ concat (map (service_lines qual file ''hub'') (fi_Services file))"
    using assms by (auto simp add: generateFile_def Let_def split: if_splits)
  have "registrar_lines (texts [[Lit ''// Code generated by protoc-gen-zengo. DO NOT EDIT.''], [Lit ''package zengo''], []]) = []"
    by (simp add: registrar_lit)
  then show "registrar_lines (texts ?h) = []" using registrars_imports by (simp only: map_append registrar_lines_append) simp
qed

lemma registrar_declared:
  assumes "c \<in> set (consumers file)"
  shows "declares (concat (map (service_lines qual file ''hub'') (fi_Services file))) (registrar c)"
proof -
  obtain svc m d where c: "c = (svc, m)" "svc \<in> set (fi_Services file)" "isEventService svc" "m \<in> set (srv_Methods svc)"
      "kafkaConsume m = Some d"
    using assms by (auto simp add: consumers_def)
  have "declares (case kafkaConsume m of None \<Rightarrow> [] | Some consume \<Rightarrow> consume_lines (kafkaHandlerName svc m ''hub'') consume)
      (registrar c)" using declares_consume c(1,5) by (simp add: registrar_def)
  then have "declares (writeKafkaConsumer svc ''hub'') (registrar c)"
    using c(4) unfolding writeKafkaConsumer_def declares_concat list_ex_iff by auto
  then show ?thesis using c(2,3) by (auto simp add: list_ex_iff service_lines_def isHubVersion_def)
qed

text \<open>C10: what \<open>runtime_gen.go\<close> calls is declared by the plugin in \<open>register_hub.pb.go\<close>: the gRPC and the gateway
  registration of the primary service, and, when a hub method consumes a topic, a registrar of
  consumers.  That registrar is the one of the first such method only, although every one has its own: the other
  topics are never consumed.\<close>

theorem runtime_calls_plugin:
  assumes "generateFile qual file = Some g" and "versionFromPackage (fi_Package file) = ''hub''" and "names_ok qual file"
    and "ge_readFile env tr (path_join (path_join (go_GenDir opts) ''zengo'') ''register_hub.pb.go'') = Some data"
    and "func_lines (split_on (CHR 0x0A) data) = func_lines (texts (gf_Lines g))"
    and "generateRuntime env layout opts tr = (tr @ [Render (RuntimeData d) out], None)"
    and "svc \<in> set (fi_Services file)" and "\<not> isEventService svc"
    and "srv_GoName svc = hm_PrimaryService (go_HubMeta opts)"
  shows "declares (gf_Lines g) (rt_HubRegisterFunc d) \<and> declares (gf_Lines g) (rt_HubGatewayFunc d) \<and>
    list_all (\<lambda>c. declares (gf_Lines g) (registrar c)) (consumers file) \<and>
    (rt_HasEventService d \<and> consumers file \<noteq> [] \<longrightarrow> rt_KafkaHubRegistrar d = registrar (hd (consumers file)))"
proof -
  obtain h where g: "gf_Lines g = h @ concat (map (service_lines qual file ''hub'') (fi_Services file))"
    and h: "registrar_lines (texts h) = []" using generateFile_hub [OF assms(1,2)] .
  have "registrar_lines (split_on (CHR 0x0A) data) = registrar_lines (texts (gf_Lines g))"
    using registrar_lines_func [of "split_on (CHR 0x0A) data"] registrar_lines_func [of "texts (gf_Lines g)"] assms(5)
    by simp
  then have "registrar_lines (split_on (CHR 0x0A) data) = map registrar (consumers file)"
    using registrars_file [OF assms(3)] h by (simp add: g)
  then have regs: "List.map_filter registrar_line (split_on (CHR 0x0A) data) = map registrar (consumers file)"
    by (simp add: registrar_lines_def)
  have name: "kafkaHubRegistrarName env tr opts = registrar (hd (consumers file))" if "consumers file \<noteq> []"
    using that assms(4) regs by (cases "consumers file") (simp_all add: kafkaHubRegistrarName_def Let_def)
  have d: "rt_HubRegisterFunc d = registerGRPCName (srv_GoName svc) ''hub''"
      "rt_HubGatewayFunc d = gatewayRegisterName (srv_GoName svc) ''hub''"
      "rt_HasEventService d \<Longrightarrow> rt_KafkaHubRegistrar d = kafkaHubRegistrarName env tr opts"
    using assms(6) by (auto simp add: generateRuntime_def Let_def perform_def assms(9) split: if_splits)
  have "declares (service_lines qual file ''hub'' svc) (registerName svc ''hub'')"
      "declares (service_lines qual file ''hub'' svc) (gatewayName svc ''hub'')"
    using assms(8) declares_registerName declares_gatewayName by (simp_all add: service_lines_def)
  then have "declares (gf_Lines g) (rt_HubRegisterFunc d)" "declares (gf_Lines g) (rt_HubGatewayFunc d)"
    using assms(7) by (auto simp add: g d registerName_agrees gatewayName_agrees list_ex_iff)
  moreover have "list_all (\<lambda>c. declares (gf_Lines g) (registrar c)) (consumers file)"
    using registrar_declared by (simp add: g list_all_iff)
  ultimately show ?thesis using name d(3) by simp
qed

section \<open>Witness\<close>

definition demo_qual :: qualifier where
  "demo_qual path name = ''user.'' @ name"

definition demo_method :: "string \<Rightarrow> KafkaProduce option \<Rightarrow> KafkaConsume option \<Rightarrow> proto_method" where
  "demo_method n p c = \<lparr>md_GoName = n, md_Produce = p, md_Consume = c\<rparr>"

definition demo_primary :: proto_service where
  "demo_primary = \<lparr>srv_GoName = ''UserService'',
     srv_Methods = [demo_method ''CreateUser'' (Some \<lparr>kp_Topic = ''user.events'', kp_Event = ''user.created''\<rparr>) None],
     srv_Repository = None\<rparr>"

definition demo_events :: proto_service where
  "demo_events = \<lparr>srv_GoName = ''UserEventHandler'',
     srv_Methods = [demo_method ''OnUserCreated'' None (Some \<lparr>kc_Topic = ''user.events'', kc_Group = ''user''\<rparr>),
                    demo_method ''OnUserDeleted'' None (Some \<lparr>kc_Topic = ''user.deleted'', kc_Group = ''user''\<rparr>)],
     srv_Repository = None\<rparr>"

definition demo_hub :: proto_file where
  "demo_hub = \<lparr>fi_Path = ''user.proto'', fi_Package = ''api.user.hub'', fi_GoImportPath = ''m/gen/api/hub/user'',
     fi_Generate = True, fi_Messages = [], fi_Services = [demo_primary, demo_events]\<rparr>"

definition demo_generated :: generated_file where
  "demo_generated = the (generateFile demo_qual demo_hub)"

definition demo_register_hub :: string where
  "demo_register_hub = join [CHR 0x0A] (texts (gf_Lines demo_generated))"

definition demo_env :: "unit gen_env" where
  "demo_env = demo_gen\<lparr>ge_readFile := \<lambda>_ _. Some demo_register_hub\<rparr>"

definition demo_hub_opts :: GenerateOptions where
  "demo_hub_opts = demo_opts\<lparr>go_HubMeta := (go_HubMeta demo_opts)\<lparr>hm_PrimaryService := ''UserService'',
     hm_EventService := ''UserEventHandler''\<rparr>\<rparr>"

lemma demo_generate: "generateFile demo_qual demo_hub = Some demo_generated"
  by (simp add: demo_generated_def generateFile_def demo_hub_def isOptionsFile_def has_prefix_def Let_def)

lemma demo_hub_version: "versionFromPackage (fi_Package demo_hub) = ''hub''" by code_simp

lemma demo_names: "names_ok demo_qual demo_hub" by code_simp

lemma demo_lines: "gf_Lines demo_generated \<noteq> [] \<and> list_all (\<lambda>l. CHR 0x0A \<notin> set l) (texts (gf_Lines demo_generated))"
  by code_simp

lemma demo_func_lines:
  "func_lines (split_on (CHR 0x0A) demo_register_hub) = func_lines (texts (gf_Lines demo_generated))"
  using demo_lines by (simp add: demo_register_hub_def split_on_join)

lemma demo_runtime:
  "\<exists>d out. generateRuntime demo_env layout demo_hub_opts [] = ([Render (RuntimeData d) out], None) \<and> rt_HasEventService d"
  by (simp add: generateRuntime_def Let_def perform_def demo_env_def demo_gen_def demo_hub_opts_def)

lemma demo_consumers:
  "map registrar (consumers demo_hub) =
     [''RegisterUserEventHandlerOnUserCreatedHub'', ''RegisterUserEventHandlerOnUserDeletedHub'']"
  by code_simp

theorem runtime_calls_plugin_witness:
  "\<exists>d out. generateRuntime demo_env \<lparr>ly_APIRoot = ''api'', ly_Hub = ''api/hub'', ly_Legacy = []\<rparr> demo_hub_opts [] =
      ([Render (RuntimeData d) out], None) \<and>
    rt_KafkaHubRegistrar d = ''RegisterUserEventHandlerOnUserCreatedHub'' \<and>
    declares (gf_Lines demo_generated) ''RegisterUserEventHandlerOnUserDeletedHub''"
proof -
  let ?l = "\<lparr>ly_APIRoot = ''api'', ly_Hub = ''api/hub'', ly_Legacy = []\<rparr>"
  obtain d out where d: "generateRuntime demo_env ?l demo_hub_opts [] = ([] @ [Render (RuntimeData d) out], None)"
      "rt_HasEventService d" using demo_runtime [of ?l] by auto
  have data: "ge_readFile demo_env [] p = Some demo_register_hub" for p by (simp add: demo_env_def)
  have svc: "demo_primary \<in> set (fi_Services demo_hub)" "\<not> isEventService demo_primary"
      "srv_GoName demo_primary = hm_PrimaryService (go_HubMeta demo_hub_opts)" by code_simp+
  note calls = runtime_calls_plugin [OF demo_generate demo_hub_version demo_names data demo_func_lines d(1) svc]
  have ne: "consumers demo_hub \<noteq> []" using demo_consumers by auto
  have "registrar (hd (consumers demo_hub)) = ''RegisterUserEventHandlerOnUserCreatedHub''"
    using hd_map [OF ne, of registrar] by (simp add: demo_consumers)
  moreover have "list_all (\<lambda>n. declares (gf_Lines demo_generated) n) (map registrar (consumers demo_hub))"
    using calls by (simp add: list.pred_map comp_def)
  ultimately show ?thesis using calls d ne by (auto simp add: demo_consumers)
qed

end
