(* ===== verification/SpanAttributes.thy ===== *)
theory SpanAttributes
  imports Zengo_Prelude "HOL-Library.Word"
begin

text \<open>
  Span attributes (\<open>sdk/observability/attribute.go\<close>): the constructors of every Go type, which convert a value to
  the few types of OpenTelemetry.

  An integer of \<open>w\<close> bits is a \<open>w word\<close> and Go's \<open>int\<close> has 64; a pointer, and a slice that may be nil, is an
  option.  A \<open>float64\<close> is a \<open>'f\<close> and a \<open>float32\<close> a \<open>'g\<close>; the conversion between them is a parameter.  The
  contents of a slice are those that it has when the attribute is transformed.
\<close>

section \<open>Attributes\<close>

text \<open>The values that the constructors of package \<open>attribute\<close> are given.\<close>

datatype 'f attr_value =
    BoolValue bool | BoolSlice "bool list option"
  | IntValue "64 word" | IntSlice "64 word list option"
  | Int64Value "64 word" | Int64Slice "64 word list option"
  | Float64Value 'f | Float64Slice "'f list option"
  | StringValue string | StringSlice "string list option"
  | StringerValue string

type_synonym 'f key_value = "string \<times> 'f attr_value"

text \<open>A lazily built attribute.\<close>

record 'f Attribute =
  at_transform :: "unit \<Rightarrow> 'f key_value"

definition attribute :: "string \<Rightarrow> 'f attr_value \<Rightarrow> 'f Attribute" where
  "attribute key v = \<lparr>at_transform = \<lambda>_. (key, v)\<rparr>"

text \<open>\<open>transformNumberSlice\<close> with the conversion of one number.\<close>

definition transformNumberSlice :: "('a \<Rightarrow> 'b) \<Rightarrow> 'a list option \<Rightarrow> 'b list option" where
  "transformNumberSlice conv inp = (case inp of None \<Rightarrow> None | Some xs \<Rightarrow> Some (map conv xs))"

section \<open>Strings and Booleans\<close>

definition StringAttribute :: "string \<Rightarrow> string \<Rightarrow> 'f Attribute" where
  "StringAttribute key v = attribute key (StringValue v)"

definition NullStringAttribute :: "string \<Rightarrow> string option \<Rightarrow> 'f Attribute" where
  "NullStringAttribute key v = (case v of None \<Rightarrow> StringAttribute key ''<nil>'' | Some x \<Rightarrow> StringAttribute key x)"

definition StringSliceAttribute :: "string \<Rightarrow> string list option \<Rightarrow> 'f Attribute" where
  "StringSliceAttribute key v = attribute key (StringSlice v)"

definition BoolAttribute :: "string \<Rightarrow> bool \<Rightarrow> 'f Attribute" where
  "BoolAttribute key v = attribute key (BoolValue v)"

definition NullBoolAttribute :: "string \<Rightarrow> bool option \<Rightarrow> 'f Attribute" where
  "NullBoolAttribute key v = (case v of None \<Rightarrow> StringAttribute key ''<nil>'' | Some x \<Rightarrow> BoolAttribute key x)"

definition BoolSliceAttribute :: "string \<Rightarrow> bool list option \<Rightarrow> 'f Attribute" where
  "BoolSliceAttribute key v = attribute key (BoolSlice v)"

section \<open>Integers\<close>

definition Int8Attribute :: "string \<Rightarrow> 8 word \<Rightarrow> 'f Attribute" where
  "Int8Attribute key v = attribute key (IntValue (scast v))"

definition NullInt8Attribute :: "string \<Rightarrow> 8 word option \<Rightarrow> 'f Attribute" where
  "NullInt8Attribute key v = (case v of None \<Rightarrow> StringAttribute key ''<nil>'' | Some x \<Rightarrow> Int8Attribute key x)"

definition Int8SliceAttribute :: "string \<Rightarrow> 8 word list option \<Rightarrow> 'f Attribute" where
  "Int8SliceAttribute key v = attribute key (IntSlice (transformNumberSlice scast v))"

definition Int16Attribute :: "string \<Rightarrow> 16 word \<Rightarrow> 'f Attribute" where
  "Int16Attribute key v = attribute key (IntValue (scast v))"

definition NullInt16Attribute :: "string \<Rightarrow> 16 word option \<Rightarrow> 'f Attribute" where
  "NullInt16Attribute key v = (case v of None \<Rightarrow> StringAttribute key ''<nil>'' | Some x \<Rightarrow> Int16Attribute key x)"

definition Int16SliceAttribute :: "string \<Rightarrow> 16 word list option \<Rightarrow> 'f Attribute" where
  "Int16SliceAttribute key v = attribute key (IntSlice (transformNumberSlice scast v))"

definition Int32Attribute :: "string \<Rightarrow> 32 word \<Rightarrow> 'f Attribute" where
  "Int32Attribute key v = attribute key (IntValue (scast v))"

definition NullInt32Attribute :: "string \<Rightarrow> 32 word option \<Rightarrow> 'f Attribute" where
  "NullInt32Attribute key v = (case v of None \<Rightarrow> StringAttribute key ''<nil>'' | Some x \<Rightarrow> Int32Attribute key x)"

definition Int32SliceAttribute :: "string \<Rightarrow> 32 word list option \<Rightarrow> 'f Attribute" where
  "Int32SliceAttribute key v = attribute key (IntSlice (transformNumberSlice scast v))"

definition Int64Attribute :: "string \<Rightarrow> 64 word \<Rightarrow> 'f Attribute" where
  "Int64Attribute key v = attribute key (Int64Value v)"

definition NullInt64Attribute :: "string \<Rightarrow> 64 word option \<Rightarrow> 'f Attribute" where
  "NullInt64Attribute key v = (case v of None \<Rightarrow> StringAttribute key ''<nil>'' | Some x \<Rightarrow> Int64Attribute key x)"

definition Int64SliceAttribute :: "string \<Rightarrow> 64 word list option \<Rightarrow> 'f Attribute" where
  "Int64SliceAttribute key v = attribute key (Int64Slice v)"

definition IntAttribute :: "string \<Rightarrow> 64 word \<Rightarrow> 'f Attribute" where
  "IntAttribute key v = attribute key (IntValue v)"

definition NullIntAttribute :: "string \<Rightarrow> 64 word option \<Rightarrow> 'f Attribute" where
  "NullIntAttribute key v = (case v of None \<Rightarrow> StringAttribute key ''<nil>'' | Some x \<Rightarrow> IntAttribute key x)"

definition IntSliceAttribute :: "string \<Rightarrow> 64 word list option \<Rightarrow> 'f Attribute" where
  "IntSliceAttribute key v = attribute key (IntSlice v)"

definition Uint8Attribute :: "string \<Rightarrow> 8 word \<Rightarrow> 'f Attribute" where
  "Uint8Attribute key v = attribute key (IntValue (ucast v))"

definition NullUint8Attribute :: "string \<Rightarrow> 8 word option \<Rightarrow> 'f Attribute" where
  "NullUint8Attribute key v = (case v of None \<Rightarrow> StringAttribute key ''<nil>'' | Some x \<Rightarrow> Uint8Attribute key x)"

definition Uint8SliceAttribute :: "string \<Rightarrow> 8 word list option \<Rightarrow> 'f Attribute" where
  "Uint8SliceAttribute key v = attribute key (IntSlice (transformNumberSlice ucast v))"

definition Uint16Attribute :: "string \<Rightarrow> 16 word \<Rightarrow> 'f Attribute" where
  "Uint16Attribute key v = attribute key (IntValue (ucast v))"

definition NullUint16Attribute :: "string \<Rightarrow> 16 word option \<Rightarrow> 'f Attribute" where
  "NullUint16Attribute key v = (case v of None \<Rightarrow> StringAttribute key ''<nil>'' | Some x \<Rightarrow> Uint16Attribute key x)"

definition Uint16SliceAttribute :: "string \<Rightarrow> 16 word list option \<Rightarrow> 'f Attribute" where
  "Uint16SliceAttribute key v = attribute key (IntSlice (transformNumberSlice ucast v))"

definition Uint32Attribute :: "string \<Rightarrow> 32 word \<Rightarrow> 'f Attribute" where
  "Uint32Attribute key v = attribute key (Int64Value (ucast v))"

definition NullUint32Attribute :: "string \<Rightarrow> 32 word option \<Rightarrow> 'f Attribute" where
  "NullUint32Attribute key v = (case v of None \<Rightarrow> StringAttribute key ''<nil>'' | Some x \<Rightarrow> Uint32Attribute key x)"

definition Uint32SliceAttribute :: "string \<Rightarrow> 32 word list option \<Rightarrow> 'f Attribute" where
  "Uint32SliceAttribute key v = attribute key (Int64Slice (transformNumberSlice ucast v))"

section \<open>Floating point\<close>

definition Float64Attribute :: "string \<Rightarrow> 'f \<Rightarrow> 'f Attribute" where
  "Float64Attribute key v = attribute key (Float64Value v)"

definition NullFloat64Attribute :: "string \<Rightarrow> 'f option \<Rightarrow> 'f Attribute" where
  "NullFloat64Attribute key v = (case v of None \<Rightarrow> StringAttribute key ''<nil>'' | Some x \<Rightarrow> Float64Attribute key x)"

definition Float64SliceAttribute :: "string \<Rightarrow> 'f list option \<Rightarrow> 'f Attribute" where
  "Float64SliceAttribute key v = attribute key (Float64Slice v)"

definition Float32Attribute :: "('g \<Rightarrow> 'f) \<Rightarrow> string \<Rightarrow> 'g \<Rightarrow> 'f Attribute" where
  "Float32Attribute widen key v = attribute key (Float64Value (widen v))"

definition NullFloat32Attribute :: "('g \<Rightarrow> 'f) \<Rightarrow> string \<Rightarrow> 'g option \<Rightarrow> 'f Attribute" where
  "NullFloat32Attribute widen key v =
     (case v of None \<Rightarrow> StringAttribute key ''<nil>'' | Some x \<Rightarrow> Float32Attribute widen key x)"

definition Float32SliceAttribute :: "('g \<Rightarrow> 'f) \<Rightarrow> string \<Rightarrow> 'g list option \<Rightarrow> 'f Attribute" where
  "Float32SliceAttribute widen key v = attribute key (Float64Slice (transformNumberSlice widen v))"

section \<open>Stringers\<close>

text \<open>An interface value: nil, or of a kind of package \<open>reflect\<close>, with whether its pointer is nil.\<close>

datatype reflect_kind = PointerKind | UnsafePointerKind | InterfaceKind | OtherReflectKind

datatype stringer = NilInterface | Stringer (st_kind: reflect_kind) (st_nil: bool) (st_String: string)

definition isNil :: "stringer \<Rightarrow> bool" where
  "isNil x = (case x of NilInterface \<Rightarrow> True
              | Stringer k n s \<Rightarrow> if k \<in> {PointerKind, UnsafePointerKind, InterfaceKind} then n else False)"

text \<open>A stringer that is not nil has a text; \<open>st_String\<close> of a nil interface is not read.\<close>

definition stringer_text :: "stringer \<Rightarrow> string" where
  "stringer_text x = (case x of NilInterface \<Rightarrow> [] | Stringer k n s \<Rightarrow> s)"

definition StringerAttribute :: "string \<Rightarrow> stringer \<Rightarrow> 'f Attribute" where
  "StringerAttribute key v =
     (if isNil v then StringAttribute key ''<nil>'' else attribute key (StringerValue (stringer_text v)))"

definition StringerSliceAttribute :: "string \<Rightarrow> stringer list option \<Rightarrow> 'f Attribute" where
  "StringerSliceAttribute key v =
     (case v of None \<Rightarrow> StringSliceAttribute key None
      | Some xs \<Rightarrow> attribute key (StringSlice (Some (map (\<lambda>it. if isNil it then ''<nil>'' else stringer_text it) xs))))"

text \<open>The incoming metadata of a context, if it has any; \<open>Get\<close> gives the values of a key.\<close>

definition GRPCmetadataAttribute :: "(string \<Rightarrow> string list option) option \<Rightarrow> string \<Rightarrow> 'f Attribute" where
  "GRPCmetadataAttribute md key =
     (case md of None \<Rightarrow> StringSliceAttribute key None | Some Get \<Rightarrow> StringSliceAttribute key (Get key))"

section \<open>No integer is changed\<close>

text \<open>The number that OpenTelemetry records, and the numbers of a slice.\<close>

definition attr_int :: "'f Attribute \<Rightarrow> int option" where
  "attr_int a = (case snd (at_transform a ()) of IntValue w \<Rightarrow> Some (sint w) | Int64Value w \<Rightarrow> Some (sint w) | _ \<Rightarrow> None)"

definition attr_ints :: "'f Attribute \<Rightarrow> int list option" where
  "attr_ints a = (case snd (at_transform a ()) of
     IntSlice ws \<Rightarrow> map_option (map sint) ws | Int64Slice ws \<Rightarrow> map_option (map sint) ws | _ \<Rightarrow> None)"

lemmas attribute_defs = attribute_def attr_int_def attr_ints_def

lemma sint_scast_up: "LENGTH('a) \<le> LENGTH('b) \<Longrightarrow> sint (scast (w :: 'a :: len word) :: 'b :: len word) = sint w"
  by (rule sint_up_scast) (simp add: is_up)

lemma sint_ucast_up: "LENGTH('a) < LENGTH('b) \<Longrightarrow> sint (ucast (w :: 'a :: len word) :: 'b :: len word) = uint w"
proof -
  assume l: "LENGTH('a) < LENGTH('b)"
  have "uint w < 2 ^ LENGTH('a)" by (rule uint_lt2p)
  also have "(2 :: int) ^ LENGTH('a) \<le> 2 ^ (LENGTH('b) - 1)" using l by (intro power_increasing) auto
  finally have "uint w < 2 ^ (LENGTH('b) - 1)" .
  moreover have "uint (ucast w :: 'b word) = uint w" using l by (intro uint_up_ucast) (simp add: is_up)
  moreover have "- (2 ^ (LENGTH('b) - 1)) \<le> uint w" by (rule order.trans [of _ 0]) simp_all
  ultimately show ?thesis by (simp add: sint_uint signed_take_bit_int_eq_self_iff)
qed

lemmas attribute_int_defs = Int8Attribute_def Int8SliceAttribute_def Int16Attribute_def Int16SliceAttribute_def Int32Attribute_def Int32SliceAttribute_def Int64Attribute_def Int64SliceAttribute_def IntAttribute_def IntSliceAttribute_def Uint8Attribute_def Uint8SliceAttribute_def Uint16Attribute_def Uint16SliceAttribute_def Uint32Attribute_def Uint32SliceAttribute_def

lemma transform_ints: "map_option (map f) (transformNumberSlice g v) = map_option (map (\<lambda>x. f (g x))) v"
  by (cases v) (simp_all add: transformNumberSlice_def)

text \<open>The span attribute of an integer of any width records exactly that integer, and that of a slice
  exactly its integers in order: none of the conversions to the 64-bit types of OpenTelemetry wraps, also for the
  largest unsigned values.\<close>

theorem attributes_exact:
  "attr_int (Int8Attribute key i8) = Some (sint i8) \<and>
   attr_int (Int16Attribute key i16) = Some (sint i16) \<and>
   attr_int (Int32Attribute key i32) = Some (sint i32) \<and>
   attr_int (Int64Attribute key i64) = Some (sint i64) \<and>
   attr_int (IntAttribute key i) = Some (sint i) \<and>
   attr_int (Uint8Attribute key u8) = Some (uint u8) \<and>
   attr_int (Uint16Attribute key u16) = Some (uint u16) \<and>
   attr_int (Uint32Attribute key u32) = Some (uint u32) \<and>
   attr_ints (Int8SliceAttribute key i8s) = map_option (map sint) i8s \<and>
   attr_ints (Int16SliceAttribute key i16s) = map_option (map sint) i16s \<and>
   attr_ints (Int32SliceAttribute key i32s) = map_option (map sint) i32s \<and>
   attr_ints (Int64SliceAttribute key i64s) = map_option (map sint) i64s \<and>
   attr_ints (IntSliceAttribute key is) = map_option (map sint) is \<and>
   attr_ints (Uint8SliceAttribute key u8s) = map_option (map uint) u8s \<and>
   attr_ints (Uint16SliceAttribute key u16s) = map_option (map uint) u16s \<and>
   attr_ints (Uint32SliceAttribute key u32s) = map_option (map uint) u32s"
  by (simp_all add: attribute_defs attribute_int_defs transform_ints sint_scast_up sint_ucast_up)

end
