(* ===== verification/Observability.thy ===== *)
theory Observability
  imports Complex_Main SpanAttributes TLSConfig GoError GoStrings
begin

text \<open>
  Tracing and metrics (\<open>sdk/observability\<close>: \<open>observability.go\<close>, \<open>tracing.go\<close>, \<open>span.go\<close>): the installation of
  the providers with its shutdown, and the helpers that start, end and annotate spans.

  The calls to OpenTelemetry and to Prometheus are effects in a log, and the errors that they return are functions
  of an \<open>obs_env\<close>.  A context is the span that it carries, numbered in the order in which they are started.
  A \<open>float64\<close> is NaN, an infinity or a rational number.
\<close>

section \<open>Floating point\<close>

datatype f64 = NaN | NegInf | Finite rat | PosInf

definition f64_less :: "f64 \<Rightarrow> f64 \<Rightarrow> bool" where
  "f64_less x y \<longleftrightarrow>
     (case (x, y) of
        (NaN, _) \<Rightarrow> False
      | (_, NaN) \<Rightarrow> False
      | (Finite a, Finite b) \<Rightarrow> a < b
      | (NegInf, NegInf) \<Rightarrow> False
      | (NegInf, _) \<Rightarrow> True
      | (_, NegInf) \<Rightarrow> False
      | (PosInf, _) \<Rightarrow> False
      | (_, PosInf) \<Rightarrow> True)"

definition f64_leq :: "f64 \<Rightarrow> f64 \<Rightarrow> bool" where
  "f64_leq x y \<longleftrightarrow> x \<noteq> NaN \<and> (f64_less x y \<or> x = y)"

section \<open>Effects\<close>

datatype cleanup = MeterShutdown | TracerShutdown

datatype obs_effect =
    SetMeterProvider | SetTracerProvider | SetTextMapPropagator | StoreTracer string | RanCleanup cleanup
  | SpanStarted nat "nat option" string "f64 key_value list" | SpanEnded nat
  | SpanEvent "nat option" string "f64 key_value list"
  | SpanError "nat option" go_err "f64 key_value list" | SpanStatusError "nat option" string

text \<open>\<open>ob_tracer\<close> is \<open>tracerHolder\<close>: the name of the tracer that \<open>Init\<close> has stored.\<close>

record obs_state =
  ob_tracer :: "string option"
  ob_spans :: nat
  ob_log :: "obs_effect list"

definition emit :: "obs_effect \<Rightarrow> obs_state \<Rightarrow> obs_state" where
  "emit e st = st\<lparr>ob_log := ob_log st @ [e]\<rparr>"

definition storeTracer :: "string \<Rightarrow> obs_state \<Rightarrow> obs_state" where
  "storeTracer name st = emit (StoreTracer name) (st\<lparr>ob_tracer := Some name\<rparr>)"

definition loadTracer :: "obs_state \<Rightarrow> string option" where
  "loadTracer st = ob_tracer st"

section \<open>Installing the providers\<close>

datatype trace_protocol = PROTOCOL_UNSPECIFIED | Spec_GRPC | Spec_HTTP

record tracing_spec =
  tr_Endpoint :: string
  tr_Protocol :: trace_protocol
  tr_SamplingRatio :: "f64 option"
  tr_Tls :: "pb_ClientTLS option"

text \<open>A configuration whose \<open>spec\<close> may be nil.\<close>

type_synonym tracing_config = "tracing_spec option"

datatype ('pool, 'cert) exporter =
    StdoutExporter
  | OtlpHTTP string bool "('pool, 'cert) tls_Config option"
  | OtlpGRPC string bool "('pool, 'cert) tls_Config option"

text \<open>\<open>oe_sscanf\<close> is \<open>fmt.Sscanf\<close> with \<open>%f\<close>; \<open>oe_resource\<close> is the error of \<open>resource.Merge\<close>.\<close>

record ('e, 'pool, 'cert) obs_env =
  oe_tls :: "('e, 'pool, 'cert) tls_env"
  oe_getenv :: "string \<Rightarrow> string"
  oe_sscanf :: "string \<Rightarrow> f64 option"
  oe_prometheus :: "go_err option"
  oe_exporter :: "('pool, 'cert) exporter \<Rightarrow> go_err option"
  oe_resource :: "go_err option"
  oe_shutdown :: "cleanup \<Rightarrow> go_err option"

datatype 'e obs_error =
    PrometheusFailed go_err | TraceExporterTLS "'e tls_error" | ExporterFailed go_err | TraceResource go_err
  | InitTracer "'e obs_error" | CleanupFailed go_err | Joined "'e obs_error list"

definition samplingRatio :: "('e, 'pool, 'cert) obs_env \<Rightarrow> tracing_config option \<Rightarrow> f64" where
  "samplingRatio env cfg =
     (case (case cfg of None \<Rightarrow> None | Some None \<Rightarrow> None | Some (Some spec) \<Rightarrow> tr_SamplingRatio spec) of
        None \<Rightarrow>
          (let v = oe_getenv env ''OTEL_TRACES_SAMPLER_ARG''
           in if v \<noteq> []
              then (case oe_sscanf env v of
                      None \<Rightarrow> Finite 1
                    | Some f \<Rightarrow> if f64_leq (Finite 0) f \<and> f64_leq f (Finite 1) then f else Finite 1)
              else Finite 1)
      | Some r \<Rightarrow> if f64_less r (Finite 0) then Finite 0 else if f64_less (Finite 1) r then Finite 1 else r)"

definition new_exporter ::
  "('e, 'pool, 'cert) obs_env \<Rightarrow> ('pool, 'cert) exporter \<Rightarrow> 'e obs_error + ('pool, 'cert) exporter" where
  "new_exporter env x = (case oe_exporter env x of Some e \<Rightarrow> Inl (ExporterFailed e) | None \<Rightarrow> Inr x)"

definition newTraceExporter ::
  "('e, 'pool, 'cert) obs_env \<Rightarrow> tracing_config option \<Rightarrow> 'e obs_error + ('pool, 'cert) exporter" where
  "newTraceExporter env cfg =
     (case cfg of
        None \<Rightarrow> new_exporter env StdoutExporter
      | Some None \<Rightarrow> new_exporter env StdoutExporter
      | Some (Some spec) \<Rightarrow>
          (let endpoint = trim_space (tr_Endpoint spec);
               endpoint = (if endpoint = [] then trim_space (oe_getenv env ''OTEL_EXPORTER_OTLP_ENDPOINT'') else endpoint)
           in if endpoint = [] then new_exporter env StdoutExporter
              else let useInsecure = has_prefix endpoint ''http://'' \<or> oe_getenv env ''OTEL_EXPORTER_OTLP_INSECURE'' = ''true'';
                       endpoint = trim_prefix (trim_prefix endpoint ''https://'') ''http://''
                   in bind_err (wrap_err TraceExporterTLS (ClientConfig (oe_tls env) (ClientOptionsFromProto (tr_Tls spec))))
                        (\<lambda>clientTLS.
                          let tls = (if useInsecure then None else clientTLS)
                          in case tr_Protocol spec of
                               Spec_HTTP \<Rightarrow> new_exporter env (OtlpHTTP endpoint useInsecure tls)
                             | _ \<Rightarrow> new_exporter env (OtlpGRPC endpoint useInsecure tls))))"

text \<open>\<open>initTracer\<close> gives the cleanup \<open>provider.Shutdown\<close>.\<close>

definition initTracer ::
  "('e, 'pool, 'cert) obs_env \<Rightarrow> string \<Rightarrow> tracing_config option \<Rightarrow> obs_state \<Rightarrow> ('e obs_error + cleanup) \<times> obs_state" where
  "initTracer env serviceName cfg st =
     (case newTraceExporter env cfg of
        Inl e \<Rightarrow> (Inl e, st)
      | Inr exporter \<Rightarrow>
          (case oe_resource env of
             Some e \<Rightarrow> (Inl (TraceResource e), st)
           | None \<Rightarrow>
               (Inr TracerShutdown, storeTracer serviceName (emit SetTextMapPropagator (emit SetTracerProvider st)))))"

text \<open>The loop of \<open>buildShutdown\<close> runs from the last cleanup to the first, whatever they return.\<close>

fun run_cleanups_rev :: "('e, 'pool, 'cert) obs_env \<Rightarrow> cleanup list \<Rightarrow> go_err list \<Rightarrow> obs_state \<Rightarrow> go_err list \<times> obs_state" where
  "run_cleanups_rev env [] errs st = (errs, st)"
| "run_cleanups_rev env (c # cs) errs st =
     run_cleanups_rev env cs (case oe_shutdown env c of Some e \<Rightarrow> errs @ [e] | None \<Rightarrow> errs) (emit (RanCleanup c) st)"

definition buildShutdown :: "('e, 'pool, 'cert) obs_env \<Rightarrow> cleanup list \<Rightarrow> obs_state \<Rightarrow> go_err list \<times> obs_state" where
  "buildShutdown env cleanups st = run_cleanups_rev env (rev cleanups) [] st"

record obs_options =
  oo_ServiceName :: string
  oo_TracingCfg :: "tracing_config option"
  oo_Metrics :: bool
  oo_Tracing :: bool

definition init_metrics ::
  "('e, 'pool, 'cert) obs_env \<Rightarrow> obs_options \<Rightarrow> obs_state \<Rightarrow> ('e obs_error + cleanup list) \<times> obs_state" where
  "init_metrics env opts st =
     (if oo_Metrics opts
      then (case oe_prometheus env of
              Some e \<Rightarrow> (Inl (PrometheusFailed e), st)
            | None \<Rightarrow> (Inr [MeterShutdown], emit SetMeterProvider st))
      else (Inr [], st))"

text \<open>\<open>Init\<close>: the shutdown function that it returns is \<open>buildShutdown\<close> of the cleanups.\<close>

definition Init ::
  "('e, 'pool, 'cert) obs_env \<Rightarrow> obs_options \<Rightarrow> obs_state \<Rightarrow> ('e obs_error + cleanup list) \<times> obs_state" where
  "Init env opts st =
     (case init_metrics env opts st of
        (Inl e, st) \<Rightarrow> (Inl e, st)
      | (Inr cleanups, st) \<Rightarrow>
          (if oo_Tracing opts
           then (case initTracer env (oo_ServiceName opts) (oo_TracingCfg opts) st of
                   (Inr c, st) \<Rightarrow> (Inr (cleanups @ [c]), st)
                 | (Inl e, st) \<Rightarrow>
                     (case buildShutdown env cleanups st of
                        (errs, st) \<Rightarrow> (Inl (Joined (InitTracer e # (if errs = [] then [] else [Joined (map CleanupFailed errs)]))), st)))
           else (Inr cleanups, st)))"

section \<open>Spans\<close>

type_synonym span_ctx = "nat option"

text \<open>\<open>transformAttributes\<close>: nil for no attributes, which are then not passed on.\<close>

definition transformAttributes :: "f64 Attribute list \<Rightarrow> f64 key_value list option" where
  "transformAttributes attrs = (if attrs = [] then None else Some (map (\<lambda>a. at_transform a ()) attrs))"

definition attr_options :: "f64 Attribute list \<Rightarrow> f64 key_value list" where
  "attr_options attrs = (case transformAttributes attrs of None \<Rightarrow> [] | Some kvs \<Rightarrow> kvs)"

text \<open>The function that ends a span: it does nothing when there is no tracer.\<close>

type_synonym span_end = "nat option"

definition end_span :: "span_end \<Rightarrow> obs_state \<Rightarrow> obs_state" where
  "end_span h st = (case h of None \<Rightarrow> st | Some n \<Rightarrow> emit (SpanEnded n) st)"

definition StartSpanNamed ::
  "span_ctx \<Rightarrow> string \<Rightarrow> f64 Attribute list \<Rightarrow> obs_state \<Rightarrow> (span_ctx \<times> span_end) \<times> obs_state" where
  "StartSpanNamed ctx title attrs st =
     (case loadTracer st of
        None \<Rightarrow> ((ctx, None), st)
      | Some _ \<Rightarrow>
          (let n = ob_spans st
           in ((Some n, Some n), emit (SpanStarted n ctx title (attr_options attrs)) (st\<lparr>ob_spans := Suc n\<rparr>))))"

text \<open>\<open>getSpanName\<close>: the function of the calling frame, if there is one.\<close>

definition getSpanName :: "string option \<Rightarrow> string" where
  "getSpanName caller = (case caller of None \<Rightarrow> ''unknown'' | Some name \<Rightarrow> ReplaceAll name ''%2e'' ''.'')"

definition StartSpan ::
  "string option \<Rightarrow> span_ctx \<Rightarrow> f64 Attribute list \<Rightarrow> obs_state \<Rightarrow> (span_ctx \<times> span_end) \<times> obs_state" where
  "StartSpan caller ctx attrs st = StartSpanNamed ctx (getSpanName caller) attrs st"

text \<open>An action may panic; the deferred end of the span runs all the same.\<close>

type_synonym span_action = "span_ctx \<Rightarrow> obs_state \<Rightarrow> bool \<times> obs_state"

definition DoSpan :: "string \<Rightarrow> f64 Attribute list \<Rightarrow> span_action \<Rightarrow> span_action" where
  "DoSpan title attrs action ctx st =
     (case StartSpanNamed ctx title attrs st of
        ((spanCtx, endFunc), st) \<Rightarrow>
          (case action spanCtx st of (panicked, st) \<Rightarrow> (panicked, end_span endFunc st)))"

definition AddEventNamed :: "span_ctx \<Rightarrow> string \<Rightarrow> f64 Attribute list \<Rightarrow> obs_state \<Rightarrow> obs_state" where
  "AddEventNamed ctx title attrs st = emit (SpanEvent ctx title (attr_options attrs)) st"

definition AddEvent :: "string option \<Rightarrow> span_ctx \<Rightarrow> f64 Attribute list \<Rightarrow> obs_state \<Rightarrow> obs_state" where
  "AddEvent caller ctx attrs st = AddEventNamed ctx (getSpanName caller) attrs st"

definition RecordException ::
  "span_ctx \<Rightarrow> go_err option \<Rightarrow> string \<Rightarrow> f64 Attribute list \<Rightarrow> obs_state \<Rightarrow> obs_state" where
  "RecordException ctx err errDescription attrs st =
     (case err of
        None \<Rightarrow> st
      | Some e \<Rightarrow> emit (SpanStatusError ctx errDescription) (emit (SpanError ctx e (attr_options attrs)) st))"

section \<open>Trace context in Kafka headers\<close>

type_synonym kafka_header = "string \<times> string"

definition header_Get :: "kafka_header list \<Rightarrow> string \<Rightarrow> string" where
  "header_Get hs key = (case find (\<lambda>h. fst h = key) hs of Some h \<Rightarrow> snd h | None \<Rightarrow> [])"

fun header_Set :: "kafka_header list \<Rightarrow> string \<Rightarrow> string \<Rightarrow> kafka_header list" where
  "header_Set [] key value = [(key, value)]"
| "header_Set (h # hs) key value = (if fst h = key then (fst h, value) # hs else h # header_Set hs key value)"

definition header_Keys :: "kafka_header list \<Rightarrow> string list" where
  "header_Keys hs = map fst hs"

text \<open>A text map propagator sets some keys; the one of \<open>initTracer\<close> is given by what it injects and extracts.\<close>

record 'ctx propagator =
  pg_Inject :: "'ctx \<Rightarrow> (string \<times> string) list"
  pg_Extract :: "'ctx \<Rightarrow> (string \<Rightarrow> string) \<Rightarrow> 'ctx"

definition InjectKafkaHeaders :: "'ctx propagator \<Rightarrow> 'ctx \<Rightarrow> kafka_header list \<Rightarrow> kafka_header list" where
  "InjectKafkaHeaders pg ctx hs = foldl (\<lambda>hs (k, v). header_Set hs k v) hs (pg_Inject pg ctx)"

definition ExtractKafkaContext :: "'ctx propagator \<Rightarrow> 'ctx \<Rightarrow> kafka_header list \<Rightarrow> 'ctx" where
  "ExtractKafkaContext pg ctx hs = pg_Extract pg ctx (header_Get hs)"

end
