(* ===== verification/ObservabilityFacts.thy ===== *)
theory ObservabilityFacts
  imports Observability
begin

text \<open>
  Properties of tracing and metrics: no provider outlives a failed \<open>Init\<close> or its shutdown, spans are nested and
  always ended, and the trace context survives the headers of a Kafka message.
\<close>

section \<open>Providers\<close>

text \<open>The providers that a log leaves running, by their cleanups.\<close>

fun running :: "obs_effect list \<Rightarrow> cleanup list \<Rightarrow> cleanup list" where
  "running [] cs = cs"
| "running (SetMeterProvider # es) cs = running es (cs @ [MeterShutdown])"
| "running (SetTracerProvider # es) cs = running es (cs @ [TracerShutdown])"
| "running (RanCleanup c # es) cs = running es (remove1 c cs)"
| "running (_ # es) cs = running es cs"

definition new_effects :: "obs_state \<Rightarrow> obs_state \<Rightarrow> obs_effect list" where
  "new_effects st st' = drop (length (ob_log st)) (ob_log st')"

lemma emit_simps [simp]:
  "ob_log (emit e st) = ob_log st @ [e]" "ob_tracer (emit e st) = ob_tracer st" "ob_spans (emit e st) = ob_spans st"
  by (simp_all add: emit_def)

lemma run_cleanups_rev_eq:
  "run_cleanups_rev env cs errs st =
     (errs @ List.map_filter (oe_shutdown env) cs, st\<lparr>ob_log := ob_log st @ map RanCleanup cs\<rparr>)"
  by (induction env cs errs st rule: run_cleanups_rev.induct)
    (auto simp add: emit_def List.map_filter_def split: option.splits)

lemma buildShutdown_eq:
  "buildShutdown env cs st =
     (List.map_filter (oe_shutdown env) (rev cs), st\<lparr>ob_log := ob_log st @ map RanCleanup (rev cs)\<rparr>)"
  by (simp add: buildShutdown_def run_cleanups_rev_eq)

lemma initTracer_cases:
  obtains e where "initTracer env name cfg st = (Inl e, st)"
  | "initTracer env name cfg st =
       (Inr TracerShutdown, storeTracer name (emit SetTextMapPropagator (emit SetTracerProvider st)))"
  by (cases "newTraceExporter env cfg"; cases "oe_resource env") (auto simp add: initTracer_def)

text \<open>C21: \<open>Init\<close> leaves no provider behind.  When it fails, every provider that it has started is shut down
  and no tracer is stored; when it succeeds, exactly the chosen providers run, and the
  returned shutdown function stops every one of them, the last started first, and joins all their errors.\<close>

theorem Init_no_leak:
  "case Init env opts st of
     (Inl e, st') \<Rightarrow> running (new_effects st st') [] = [] \<and> ob_tracer st' = ob_tracer st
   | (Inr cleanups, st') \<Rightarrow>
       running (new_effects st st') [] = cleanups \<and>
       cleanups = (if oo_Metrics opts then [MeterShutdown] else []) @ (if oo_Tracing opts then [TracerShutdown] else []) \<and>
       (case buildShutdown env cleanups st' of
          (errs, st'') \<Rightarrow> running (new_effects st st'') [] = [] \<and>
            errs = List.map_filter (oe_shutdown env) (rev cleanups))"
proof (cases "oo_Tracing opts")
  case False
  then show ?thesis
    by (auto simp add: Init_def init_metrics_def new_effects_def buildShutdown_eq split: option.splits)
next
  case True
  show ?thesis
  proof (cases "oo_Metrics opts \<and> oe_prometheus env \<noteq> None")
    case True
    then show ?thesis by (auto simp add: Init_def init_metrics_def new_effects_def)
  next
    case False
    define st1 where "st1 = snd (init_metrics env opts st)"
    have m: "init_metrics env opts st = (Inr (if oo_Metrics opts then [MeterShutdown] else []), st1)"
        "ob_log st1 = ob_log st @ (if oo_Metrics opts then [SetMeterProvider] else [])" "ob_tracer st1 = ob_tracer st"
      using False by (auto simp add: st1_def init_metrics_def)
    show ?thesis using True m
      by (cases rule: initTracer_cases [of env "oo_ServiceName opts" "oo_TracingCfg opts" st1])
        (auto simp add: Init_def new_effects_def buildShutdown_eq storeTracer_def)
  qed
qed

section \<open>The sampling ratio\<close>

lemma samplingRatio_range:
  "samplingRatio env cfg = NaN \<or> f64_leq (Finite 0) (samplingRatio env cfg) \<and> f64_leq (samplingRatio env cfg) (Finite 1)"
  by (auto simp add: samplingRatio_def Let_def f64_less_def f64_leq_def split: option.splits f64.splits)

section \<open>Spans\<close>

text \<open>A log read with a stack of contexts: a span starts as a child of the context on top and becomes the
  top, the span on top is the one that ends, and events belong to it.  \<open>None\<close> is a log that does not nest.\<close>

fun nested :: "span_ctx list \<Rightarrow> obs_effect list \<Rightarrow> span_ctx list option" where
  "nested stack [] = Some stack"
| "nested stack (SpanStarted n p t a # es) = (if stack \<noteq> [] \<and> hd stack = p then nested (Some n # stack) es else None)"
| "nested stack (SpanEnded n # es) = (if stack \<noteq> [] \<and> hd stack = Some n then nested (tl stack) es else None)"
| "nested stack (SpanEvent c t a # es) = (if stack \<noteq> [] \<and> hd stack = c then nested stack es else None)"
| "nested stack (SpanError c e a # es) = (if stack \<noteq> [] \<and> hd stack = c then nested stack es else None)"
| "nested stack (SpanStatusError c t # es) = (if stack \<noteq> [] \<and> hd stack = c then nested stack es else None)"
| "nested stack (_ # es) = nested stack es"

lemma nested_append:
  "nested stack (a @ b) = (case nested stack a of None \<Rightarrow> None | Some s \<Rightarrow> nested s b)"
  by (induction stack a rule: nested.induct) auto

text \<open>An action that ends what it starts, below any context.\<close>

definition balanced :: "span_action \<Rightarrow> bool" where
  "balanced action \<longleftrightarrow>
     (\<forall>ctx st stack. \<exists>es. ob_log (snd (action ctx st)) = ob_log st @ es \<and>
        ob_tracer (snd (action ctx st)) = ob_tracer st \<and> nested (ctx # stack) es = Some (ctx # stack))"

lemma balanced_event: "balanced (\<lambda>ctx st. (p, AddEventNamed ctx t a st))"
  by (simp add: balanced_def AddEventNamed_def)

lemma balanced_exception: "balanced (\<lambda>ctx st. (p, RecordException ctx e d a st))"
  by (cases e) (simp_all add: balanced_def RecordException_def)

text \<open>\<open>DoSpan\<close> ends the span that it starts, also when the action panics: when the action nests its own spans
  and events, so does the whole; the span is a child of the caller's, everything inside belongs to it, and the
  caller's span is current again afterwards.  Without a tracer nothing is started.\<close>

theorem DoSpan_balanced:
  assumes "balanced action"
  shows "balanced (DoSpan title attrs action) \<and>
    fst (DoSpan title attrs action ctx st) = fst (action (fst (fst (StartSpanNamed ctx title attrs st)))
      (snd (StartSpanNamed ctx title attrs st)))"
proof
  show "balanced (DoSpan title attrs action)"
    unfolding balanced_def
  proof (intro allI)
    fix ctx st stack
    let ?a = "attr_options attrs"
    show "\<exists>es. ob_log (snd (DoSpan title attrs action ctx st)) = ob_log st @ es \<and>
        ob_tracer (snd (DoSpan title attrs action ctx st)) = ob_tracer st \<and> nested (ctx # stack) es = Some (ctx # stack)"
    proof (cases "ob_tracer st")
      case None
      then have "snd (DoSpan title attrs action ctx st) = snd (action ctx st)"
        by (simp add: DoSpan_def StartSpanNamed_def loadTracer_def end_span_def case_prod_beta)
      then show ?thesis using assms unfolding balanced_def by simp
    next
      case (Some name)
      let ?n = "ob_spans st"
      let ?st = "emit (SpanStarted ?n ctx title ?a) (st\<lparr>ob_spans := Suc ?n\<rparr>)"
      obtain es where es: "ob_log (snd (action (Some ?n) ?st)) = ob_log ?st @ es"
          "ob_tracer (snd (action (Some ?n) ?st)) = ob_tracer ?st"
          "nested (Some ?n # ctx # stack) es = Some (Some ?n # ctx # stack)"
        using assms unfolding balanced_def by blast
      have "snd (DoSpan title attrs action ctx st) = emit (SpanEnded ?n) (snd (action (Some ?n) ?st))"
        by (simp add: DoSpan_def StartSpanNamed_def loadTracer_def end_span_def case_prod_beta Some Let_def)
      then have "ob_log (snd (DoSpan title attrs action ctx st)) =
            ob_log st @ (SpanStarted ?n ctx title ?a # es @ [SpanEnded ?n])"
          "ob_tracer (snd (DoSpan title attrs action ctx st)) = ob_tracer st"
        using es by simp_all
      moreover have "nested (ctx # stack) (SpanStarted ?n ctx title ?a # es @ [SpanEnded ?n]) = Some (ctx # stack)"
        using es(3) by (simp add: nested_append)
      ultimately show ?thesis by blast
    qed
  qed
  show "fst (DoSpan title attrs action ctx st) = fst (action (fst (fst (StartSpanNamed ctx title attrs st)))
      (snd (StartSpanNamed ctx title attrs st)))"
    by (simp add: DoSpan_def case_prod_beta)
qed

theorem DoSpan_balanced_witness:
  "balanced (DoSpan ''request'' [] (\<lambda>ctx st. (True, AddEventNamed ctx ''failed'' [] st))) \<and>
   fst (DoSpan ''request'' [] (\<lambda>ctx st. (True, AddEventNamed ctx ''failed'' [] st)) None
     \<lparr>ob_tracer = Some ''user'', ob_spans = 0, ob_log = []\<rparr>)"
  using DoSpan_balanced [OF balanced_event, of "''request''" "[]" True "''failed''" "[]" None
      "\<lparr>ob_tracer = Some ''user'', ob_spans = 0, ob_log = []\<rparr>"] by simp

section \<open>Trace context in Kafka headers\<close>

text \<open>The interface \<open>propagation.TextMapCarrier\<close>, as a propagator uses it.\<close>

locale text_map_carrier =
  fixes carrier_get :: "'c \<Rightarrow> string \<Rightarrow> string"
    and carrier_set :: "'c \<Rightarrow> string \<Rightarrow> string \<Rightarrow> 'c"
  assumes get_set_same: "carrier_get (carrier_set c k v) k = v"
    and get_set_other: "k' \<noteq> k \<Longrightarrow> carrier_get (carrier_set c k v) k' = carrier_get c k'"
begin

lemma get_inject:
  "distinct (map fst kvs) \<Longrightarrow>
     carrier_get (foldl (\<lambda>c (k, v). carrier_set c k v) c kvs) k =
       (case map_of kvs k of Some v \<Rightarrow> v | None \<Rightarrow> carrier_get c k)"
proof (induction kvs arbitrary: c)
  case (Cons kv kvs)
  obtain k1 v1 where kv: "kv = (k1, v1)" by fastforce
  have "map_of kvs k1 = None" using Cons.prems by (simp add: kv map_of_eq_None_iff)
  then show ?case using Cons by (auto simp add: kv get_set_same get_set_other split: option.splits)
qed simp

end

lemma header_get_set_same: "header_Get (header_Set hs k v) k = v"
  by (induction hs k v rule: header_Set.induct) (simp_all add: header_Get_def)

lemma header_get_set_other: "k' \<noteq> k \<Longrightarrow> header_Get (header_Set hs k v) k' = header_Get hs k'"
  by (induction hs k v rule: header_Set.induct) (auto simp add: header_Get_def split: option.splits)

interpretation kafka_carrier: text_map_carrier header_Get header_Set
  by unfold_locales (simp_all add: header_get_set_same header_get_set_other)

text \<open>The keys of the carrier are those of the headers, with the injected keys at most once more.\<close>

lemma header_keys_set: "header_Keys (header_Set hs k v) = header_Keys hs @ (if k \<in> set (header_Keys hs) then [] else [k])"
  by (induction hs k v rule: header_Set.induct) (auto simp add: header_Keys_def)

text \<open>The trace context that a producer injects reaches the consumer: whatever headers the message
  already has, also old trace headers, the consumer extracts the injected context, provided that the propagator
  sets each key once and extracts what it injects.\<close>

theorem kafka_trace_roundtrip:
  assumes "distinct (map fst (pg_Inject pg ctx))"
    and "\<And>get. (\<And>k v. map_of (pg_Inject pg ctx) k = Some v \<Longrightarrow> get k = v) \<Longrightarrow> pg_Extract pg bg get = ctx"
  shows "ExtractKafkaContext pg bg (InjectKafkaHeaders pg ctx hs) = ctx"
  unfolding ExtractKafkaContext_def InjectKafkaHeaders_def
  by (rule assms(2)) (simp add: kafka_carrier.get_inject [OF assms(1)])

definition demo_propagator :: "string propagator" where
  "demo_propagator = \<lparr>pg_Inject = \<lambda>ctx. [(''traceparent'', ctx)], pg_Extract = \<lambda>_ get. get ''traceparent''\<rparr>"

theorem kafka_trace_roundtrip_witness:
  "ExtractKafkaContext demo_propagator [] (InjectKafkaHeaders demo_propagator ''00-abc'' [(''traceparent'', ''old''), (''x'', ''1'')])
     = ''00-abc''"
  by (rule kafka_trace_roundtrip) (simp_all add: demo_propagator_def)

end
