(* ===== verification/PostgresDSN.thy ===== *)
theory PostgresDSN
  imports GoStrings
begin

text \<open>
  The PostgreSQL connection string (\<open>DSN\<close> of \<open>sdk/transport/db/postgres/postgres.go\<close>) and the part of package
  \<open>net/url\<close> that writes it; the reading side, \<open>url.Parse\<close> as far as such a string needs it, is here for the
  round trip.
\<close>

section \<open>Percent encoding\<close>

datatype url_mode = EncodeUserPassword | EncodePath | EncodeHost | EncodeQueryComponent

definition shouldEscape :: "char \<Rightarrow> url_mode \<Rightarrow> bool" where
  "shouldEscape c mode =
     (if is_letter c \<or> is_digit c then False
      else if mode = EncodeHost \<and> c \<in> set ''!$&()*+,;=:[]<>'' \<union> {CHR 0x22, CHR 0x27} then False
      else if c \<in> set ''-_.~'' then False
      else if c \<in> set ''$&+,/:;=?@''
      then (case mode of
              EncodePath \<Rightarrow> c = CHR ''?''
            | EncodeUserPassword \<Rightarrow> c \<in> set ''@/?:''
            | _ \<Rightarrow> True)
      else True)"

definition upper_hex :: "nat \<Rightarrow> char" where
  "upper_hex n = ''0123456789ABCDEF'' ! n"

definition escape_char :: "url_mode \<Rightarrow> char \<Rightarrow> string" where
  "escape_char mode c =
     (if shouldEscape c mode
      then (if c = CHR '' '' \<and> mode = EncodeQueryComponent then ''+''
            else [CHR ''%'', upper_hex (of_char c div 16), upper_hex (of_char c mod 16)])
      else [c])"

definition url_escape :: "url_mode \<Rightarrow> string \<Rightarrow> string" where
  "url_escape mode s = concat (map (escape_char mode) s)"

definition unhex :: "char \<Rightarrow> nat" where
  "unhex c = (if is_digit c then of_char c - 48 else of_char c - 55)"

fun url_unescape :: "url_mode \<Rightarrow> string \<Rightarrow> string" where
  "url_unescape mode [] = []"
| "url_unescape mode (c # s) =
     (if c = CHR ''%''
      then (case s of a # b # s' \<Rightarrow> char_of (16 * unhex a + unhex b) # url_unescape mode s' | _ \<Rightarrow> [])
      else if c = CHR ''+'' \<and> mode = EncodeQueryComponent then CHR '' '' # url_unescape mode s
      else c # url_unescape mode s)"

section \<open>The connection string\<close>

datatype SSLMode = DISABLE | PREFER | ALLOW | REQUIRE | VERIFY_CA | VERIFY_FULL | OtherSSLMode int

definition stringsLowerSSLMode :: "SSLMode \<Rightarrow> string" where
  "stringsLowerSSLMode mode =
     (case mode of
        PREFER \<Rightarrow> ''prefer'' | ALLOW \<Rightarrow> ''allow'' | REQUIRE \<Rightarrow> ''require'' | VERIFY_CA \<Rightarrow> ''verify-ca''
      | VERIFY_FULL \<Rightarrow> ''verify-full'' | _ \<Rightarrow> ''disable'')"

definition joinSchemas :: "string list \<Rightarrow> string" where
  "joinSchemas schemas = join '','' schemas"

record dsn_spec =
  ds_Host :: string
  ds_Port :: "int option"
  ds_DbName :: string
  ds_UserName :: string
  ds_Password :: "string option"
  ds_SslMode :: "SSLMode option"
  ds_Schemas :: "string list"

text \<open>\<open>Values.Encode\<close> sorts the keys.\<close>

definition dsn_query :: "dsn_spec \<Rightarrow> string" where
  "dsn_query spec =
     (let sslMode = (case ds_SslMode spec of None \<Rightarrow> ''disable'' | Some m \<Rightarrow> stringsLowerSSLMode m)
      in (if ds_Schemas spec \<noteq> []
          then ''search_path='' @ url_escape EncodeQueryComponent (joinSchemas (ds_Schemas spec)) @ ''&'' else []) @
         ''sslmode='' @ url_escape EncodeQueryComponent sslMode)"

text \<open>\<open>EscapedPath\<close>, and the slash that \<open>URL.String\<close> puts before a path without one.\<close>

definition url_path :: "string \<Rightarrow> string" where
  "url_path p =
     (let e = (if p = ''*'' then p else url_escape EncodePath p)
      in if e \<noteq> [] \<and> hd e \<noteq> CHR ''/'' then ''/'' @ e else e)"

definition DSN :: "dsn_spec \<Rightarrow> string" where
  "DSN spec =
     (let port = (case ds_Port spec of None \<Rightarrow> 5432 | Some p \<Rightarrow> p);
          password = (case ds_Password spec of None \<Rightarrow> [] | Some p \<Rightarrow> p)
      in ''postgres://'' @ url_escape EncodeUserPassword (ds_UserName spec) @ '':'' @
         url_escape EncodeUserPassword password @ ''@'' @
         url_escape EncodeHost (ds_Host spec @ '':'' @ itoa port) @ url_path (ds_DbName spec) @
         ''?'' @ dsn_query spec)"

section \<open>Reading it\<close>

definition cut :: "char \<Rightarrow> string \<Rightarrow> string \<times> string" where
  "cut c s = (takeWhile (\<lambda>x. x \<noteq> c) s, drop 1 (dropWhile (\<lambda>x. x \<noteq> c) s))"

record parsed_dsn =
  pd_user :: string
  pd_password :: string
  pd_host :: string
  pd_database :: string
  pd_settings :: "(string \<times> string) list"

definition parse_query :: "string \<Rightarrow> (string \<times> string) list" where
  "parse_query q =
     map (\<lambda>kv. case cut (CHR ''='') kv of
            (k, v) \<Rightarrow> (url_unescape EncodeQueryComponent k, url_unescape EncodeQueryComponent v)) (split_on (CHR ''&'') q)"

text \<open>The user information ends at the last \<open>@\<close> of the authority; the database is the path without its
  leading slashes.\<close>

definition parse_dsn :: "string \<Rightarrow> parsed_dsn" where
  "parse_dsn s =
     (case cut (CHR ''?'') (trim_prefix s ''postgres://'') of
        (rest, query) \<Rightarrow>
          (let authority = takeWhile (\<lambda>c. c \<noteq> CHR ''/'') rest; path = dropWhile (\<lambda>c. c \<noteq> CHR ''/'') rest;
               host = rev (takeWhile (\<lambda>c. c \<noteq> CHR ''@'') (rev authority));
               userinfo = take (length authority - length host - 1) authority
           in case cut (CHR '':'') userinfo of
                (user, password) \<Rightarrow>
                  \<lparr>pd_user = url_unescape EncodeUserPassword user, pd_password = url_unescape EncodeUserPassword password,
                   pd_host = host, pd_database = dropWhile (\<lambda>c. c = CHR ''/'') (url_unescape EncodePath path),
                   pd_settings = parse_query query\<rparr>))"

section \<open>What is escaped comes back\<close>

lemma unhex_upper_hex: "n < 16 \<Longrightarrow> unhex (upper_hex n) = n"
proof -
  assume "n < 16"
  then have "n \<in> set [0..<16]" by simp
  moreover have "list_all (\<lambda>n. unhex (upper_hex n) = n) [0..<16]" by code_simp
  ultimately show ?thesis by (simp only: list_all_iff)
qed

lemma escape_char_roundtrip: "url_unescape mode (escape_char mode c @ s) = c # url_unescape mode s"
proof (cases "shouldEscape c mode")
  case True
  have "(of_char c :: nat) < 256" by (rule nat_of_char_less_256)
  then have d: "(of_char c :: nat) div 16 < 16" by (simp add: div_less_iff_less_mult)
  have "16 * (of_char c div 16) + of_char c mod 16 = (of_char c :: nat)" by simp
  then have "(char_of (16 * unhex (upper_hex (of_char c div 16)) + unhex (upper_hex (of_char c mod 16))) :: char) = c"
    by (simp add: unhex_upper_hex [OF d] unhex_upper_hex)
  then show ?thesis using True by (simp add: escape_char_def)
next
  case False
  have "shouldEscape (CHR ''%'') mode" "shouldEscape (CHR ''+'') EncodeQueryComponent"
    by (cases mode) (simp_all add: shouldEscape_def is_letter_def is_upper_def is_lower_def is_digit_def)
  then have "c \<noteq> CHR ''%''" "\<not> (c = CHR ''+'' \<and> mode = EncodeQueryComponent)" using False by auto
  then show ?thesis using False by (simp add: escape_char_def)
qed

lemma url_escape_roundtrip: "url_unescape mode (url_escape mode s) = s"
  by (induction s) (simp_all add: url_escape_def escape_char_roundtrip)

section \<open>The delimiters\<close>

lemma upper_hex_plain: "n < 16 \<Longrightarrow> is_letter (upper_hex n) \<or> is_digit (upper_hex n)"
proof -
  assume "n < 16"
  then have "n \<in> set [0..<16]" by simp
  moreover have "list_all (\<lambda>n. is_letter (upper_hex n) \<or> is_digit (upper_hex n)) [0..<16]" by code_simp
  ultimately show ?thesis by (simp only: list_all_iff)
qed

text \<open>A character that is escaped does not occur in escaped text, apart from the two that escaping writes.\<close>

lemma escaped_fresh:
  assumes "shouldEscape d mode" and "d \<noteq> CHR ''%''" and "d \<noteq> CHR ''+''"
  shows "d \<notin> set (url_escape mode s)"
proof -
  have "d \<notin> set (escape_char mode c)" for c
  proof -
    have "(of_char c :: nat) div 16 < 16" using nat_of_char_less_256 [of c] by (simp add: div_less_iff_less_mult)
    then have "\<not> shouldEscape (upper_hex (of_char c div 16)) mode" "\<not> shouldEscape (upper_hex (of_char c mod 16)) mode"
      using upper_hex_plain by (simp_all add: shouldEscape_def)
    then show ?thesis using assms by (auto simp add: escape_char_def)
  qed
  then show ?thesis by (simp add: url_escape_def)
qed

lemma delimiters_escaped:
  "shouldEscape (CHR ''?'') mode" if "mode \<noteq> EncodeHost" for mode
  using that by (cases mode) (simp_all add: shouldEscape_def is_letter_def is_upper_def is_lower_def is_digit_def)

lemma userinfo_escaped:
  "c \<in> set ''@/?:'' \<Longrightarrow> shouldEscape c EncodeUserPassword"
  by (auto simp add: shouldEscape_def is_letter_def is_upper_def is_lower_def is_digit_def)

lemma query_escaped:
  "c \<in> set ''&='' \<Longrightarrow> shouldEscape c EncodeQueryComponent"
  by (auto simp add: shouldEscape_def is_letter_def is_upper_def is_lower_def is_digit_def)

lemma userinfo_fresh: "c \<in> set ''@/?:'' \<Longrightarrow> c \<notin> set (url_escape EncodeUserPassword s)"
  using escaped_fresh [OF userinfo_escaped] by auto

lemma query_fresh: "c \<in> set ''&='' \<Longrightarrow> c \<notin> set (url_escape EncodeQueryComponent s)"
  using escaped_fresh [OF query_escaped] by auto

lemma take_before: "c \<notin> set a \<Longrightarrow> b = [] \<or> hd b = c \<Longrightarrow> takeWhile (\<lambda>x. x \<noteq> c) (a @ b) = a"
  by (induction a) (cases b; auto)+

lemma drop_before: "c \<notin> set a \<Longrightarrow> b = [] \<or> hd b = c \<Longrightarrow> dropWhile (\<lambda>x. x \<noteq> c) (a @ b) = b"
  by (induction a) (cases b; auto)+

lemma cut_at: "c \<notin> set a \<Longrightarrow> cut c (a @ c # b) = (a, b)"
  by (simp add: cut_def take_before drop_before)

section \<open>The round trip\<close>

definition plain_host :: "string \<Rightarrow> bool" where
  "plain_host h \<longleftrightarrow> list_all (\<lambda>c. is_letter c \<or> is_digit c \<or> c \<in> set ''.-_'') h"

lemma nat_digits_digit: "c \<in> set (nat_digits n) \<Longrightarrow> is_digit c"
proof (induction n rule: nat_digits.induct)
  case (1 n)
  have d: "is_digit (char_of (48 + m))" if "m < 10" for m :: nat using that by (simp add: is_digit_def)
  show ?case using 1 d [of n] d [of "n mod 10"] by (auto simp add: nat_digits.simps [of n] split: if_splits)
qed

lemma host_port:
  assumes "plain_host host" and "0 \<le> port"
  shows "url_escape EncodeHost (host @ '':'' @ itoa port) = host @ '':'' @ itoa port"
    and "list_all (\<lambda>c. is_letter c \<or> is_digit c \<or> c \<in> set ''.-_:'') (host @ '':'' @ itoa port)"
proof -
  show p: "list_all (\<lambda>c. is_letter c \<or> is_digit c \<or> c \<in> set ''.-_:'') (host @ '':'' @ itoa port)"
    using assms nat_digits_digit by (auto simp add: plain_host_def list_all_iff itoa_def)
  have "escape_char EncodeHost c = [c]" if "is_letter c \<or> is_digit c \<or> c \<in> set ''.-_:''" for c
    using that by (auto simp add: escape_char_def shouldEscape_def)
  then have "concat (map (escape_char EncodeHost) s) = s"
    if "list_all (\<lambda>c. is_letter c \<or> is_digit c \<or> c \<in> set ''.-_:'') s" for s
    using that by (induction s) simp_all
  then show "url_escape EncodeHost (host @ '':'' @ itoa port) = host @ '':'' @ itoa port"
    using p unfolding url_escape_def by blast
qed

lemma url_path_fresh: "CHR ''?'' \<notin> set (url_path p)"
  using escaped_fresh [OF delimiters_escaped, of EncodePath p] by (simp add: url_path_def Let_def)

lemma url_path_slash: "url_path p = [] \<or> hd (url_path p) = CHR ''/''"
  by (simp add: url_path_def Let_def)

lemma url_path_back:
  assumes "p = [] \<or> hd p \<noteq> CHR ''/''"
  shows "dropWhile (\<lambda>c. c = CHR ''/'') (url_unescape EncodePath (url_path p)) = p"
proof -
  let ?e = "if p = ''*'' then p else url_escape EncodePath p"
  have e: "url_unescape EncodePath ?e = p" by (simp add: url_escape_roundtrip)
  have "dropWhile (\<lambda>c. c = CHR ''/'') p = p" using assms by (cases p) simp_all
  moreover have "url_path p = ?e \<or> url_path p = CHR ''/'' # ?e" by (simp add: url_path_def Let_def)
  ultimately show ?thesis using e by auto
qed

lemma parse_dsn_query:
  "parse_query (dsn_query spec) =
     (if ds_Schemas spec \<noteq> [] then [(''search_path'', joinSchemas (ds_Schemas spec))] else []) @
     [(''sslmode'', case ds_SslMode spec of None \<Rightarrow> ''disable'' | Some m \<Rightarrow> stringsLowerSSLMode m)]"
proof -
  have field: "cut (CHR ''='') (k @ CHR ''='' # url_escape EncodeQueryComponent v) = (k, url_escape EncodeQueryComponent v)"
    if "CHR ''='' \<notin> set k" for k v using cut_at [OF that] .
  have one: "split_on (CHR ''&'') (k @ url_escape EncodeQueryComponent v) = [k @ url_escape EncodeQueryComponent v]"
    if "CHR ''&'' \<notin> set k" for k v using that query_fresh [of "CHR ''&''" v] by (intro split_on_fresh) auto
  have two: "split_on (CHR ''&'') ((k @ url_escape EncodeQueryComponent v) @ CHR ''&'' # r) =
      (k @ url_escape EncodeQueryComponent v) # split_on (CHR ''&'') r"
    if "CHR ''&'' \<notin> set k" for k v r using that query_fresh [of "CHR ''&''" v] by (intro split_on_sep) auto
  have "url_unescape EncodeQueryComponent ''search_path'' = ''search_path''"
       "url_unescape EncodeQueryComponent ''sslmode'' = ''sslmode''" by simp_all
  then show ?thesis
    using field [of "''sslmode''"] field [of "''search_path''"] one [of "''sslmode=''"] two [of "''search_path=''"]
    by (auto simp add: parse_query_def dsn_query_def Let_def url_escape_roundtrip)
qed


definition demo_dsn :: dsn_spec where
  "demo_dsn = \<lparr>ds_Host = ''db.internal'', ds_Port = None, ds_DbName = ''users'', ds_UserName = ''app'',
     ds_Password = Some ''p@ss:w/rd?&'', ds_SslMode = Some VERIFY_FULL, ds_Schemas = [''app'', ''public'']\<rparr>"


end
