(* ===== verification/Connectors.thy ===== *)
theory Connectors
  imports Observability PostgresDSN
begin

text \<open>
  The clients of databases and brokers (\<open>sdk/transport/db\<close>: Postgres, Redis, Oracle and Cassandra;
  \<open>sdk/transport/queue\<close>: NATS and RabbitMQ; \<open>sdk/transport/storage/s3\<close>): from the typed configuration to an
  open client, with its span.

  The drivers are records of functions that may fail.  \<open>NewPool\<close> takes a \<open>spec\<close> that is not nil: on a nil
  one, unlike its siblings, it panics.  The state holds the trace and the number of handles of
  drivers that are open and must be closed.  An optional field of a message is an option; a
  configuration and its \<open>spec\<close> may be nil.
\<close>

section \<open>Environment\<close>

text \<open>\<open>ce_tls_err\<close> is the Go error of a TLS error; \<open>ce_caller\<close> is the frame that names a span.\<close>

record ('e, 'pool, 'cert) conn_env =
  ce_tls :: "('e, 'pool, 'cert) tls_env"
  ce_tls_err :: "'e tls_error \<Rightarrow> go_err"
  ce_caller :: "string option"

record conn_state =
  cn_obs :: obs_state
  cn_open :: nat

type_synonym 'r conn_step = "conn_state \<Rightarrow> (go_err + 'r) \<times> conn_state"

definition client_tls ::
  "('e, 'pool, 'cert) conn_env \<Rightarrow> pb_ClientTLS option \<Rightarrow> go_err + ('pool, 'cert) tls_Config option" where
  "client_tls env tls =
     (case ClientConfig (ce_tls env) (ClientOptionsFromProto tls) of Inl e \<Rightarrow> Inl (ce_tls_err env e) | Inr c \<Rightarrow> Inr c)"

text \<open>The frame of a function that opens a client: it starts a span, and ends it when the function returns.\<close>

definition in_span ::
  "('e, 'pool, 'cert) conn_env \<Rightarrow> span_ctx \<Rightarrow> (string \<times> string) list \<Rightarrow> (span_ctx \<Rightarrow> 'r conn_step) \<Rightarrow> 'r conn_step" where
  "in_span env ctx attrs body st =
     (case StartSpan (ce_caller env) ctx (map (\<lambda>(k, v). StringAttribute k v) attrs) (cn_obs st) of
        ((spanCtx, endSpan), obs) \<Rightarrow>
          (case body spanCtx (st\<lparr>cn_obs := obs\<rparr>) of
             (r, st) \<Rightarrow> (r, st\<lparr>cn_obs := end_span endSpan (cn_obs st)\<rparr>)))"

text \<open>An error that is recorded on the span, and the error that is returned.\<close>

definition fail_with :: "span_ctx \<Rightarrow> go_err \<Rightarrow> string \<Rightarrow> go_err \<Rightarrow> 'r conn_step" where
  "fail_with ctx err what ret st = (Inl ret, st\<lparr>cn_obs := RecordException ctx (Some err) what [] (cn_obs st)\<rparr>)"

definition open_handle :: "conn_state \<Rightarrow> conn_state" where
  "open_handle st = st\<lparr>cn_open := cn_open st + 1\<rparr>"

definition close_handle :: "conn_state \<Rightarrow> conn_state" where
  "close_handle st = st\<lparr>cn_open := cn_open st - 1\<rparr>"

section \<open>Ports\<close>

text \<open>\<open>strconv.Atoi\<close> on a 64-bit platform: an optional sign and decimal digits.\<close>

definition digits_int :: "string \<Rightarrow> int" where
  "digits_int s = foldl (\<lambda>n c. 10 * n + (of_char c - 48)) 0 s"

definition Atoi :: "string \<Rightarrow> int option" where
  "Atoi s =
     (let (neg, ds) = (case s of [] \<Rightarrow> (False, [])
                       | c # cs \<Rightarrow> if c = CHR ''-'' then (True, cs) else if c = CHR ''+'' then (False, cs) else (False, c # cs));
          n = (if neg then - digits_int ds else digits_int ds)
      in if ds = [] \<or> \<not> list_all is_digit ds \<or> n < - (2 ^ 63) \<or> 2 ^ 63 \<le> n then None else Some n)"

text \<open>The same function in the packages \<open>postgres\<close>, \<open>nats\<close> and \<open>s3\<close>.\<close>

definition PortFromEnv :: "string \<Rightarrow> int \<Rightarrow> int" where
  "PortFromEnv raw fallback =
     (if raw = [] then fallback
      else case Atoi raw of None \<Rightarrow> fallback | Some port \<Rightarrow> if port \<le> 0 \<or> 65535 < port then fallback else port)"

definition bad_port :: "int \<Rightarrow> bool" where
  "bad_port port \<longleftrightarrow> port \<le> 0 \<or> 65535 < port"

section \<open>Postgres\<close>

text \<open>Unsigned fields have 32 bits; durations are in nanoseconds.\<close>

record pg_connection =
  pn_MaxIdle :: "32 word"
  pn_MinOpen :: "32 word"
  pn_MaxOpen :: "32 word"
  pn_MaxLifeTime :: "int option"
  pn_MaxIdleTime :: "int option"

record pg_spec = dsn_spec +
  pg_Connection :: "pg_connection option"
  pg_Tls :: "pb_ClientTLS option"

record ('pool, 'cert) pool_config =
  pc_TLSConfig :: "('pool, 'cert) tls_Config option"
  pc_MaxConns :: "32 word"
  pc_MinConns :: "32 word"
  pc_MaxConnIdleTime :: int
  pc_MaxConnLifetime :: int

record ('pool, 'cert) pg_driver =
  pv_ParseConfig :: "string \<Rightarrow> go_err + ('pool, 'cert) pool_config"
  pv_NewWithConfig :: "('pool, 'cert) pool_config \<Rightarrow> go_err option"

definition max_int32 :: int where "max_int32 = 2147483647"

definition pool_limits :: "pg_connection \<Rightarrow> ('pool, 'cert) pool_config \<Rightarrow> go_err + ('pool, 'cert) pool_config" where
  "pool_limits conn cfg =
     (if 0 < uint (pn_MaxOpen conn) \<and> max_int32 < uint (pn_MaxOpen conn)
      then Inl (PlainErr (''postgres max_open overflows int32: '' @ itoa (uint (pn_MaxOpen conn))))
      else let cfg = (if 0 < uint (pn_MaxOpen conn) then cfg\<lparr>pc_MaxConns := pn_MaxOpen conn\<rparr> else cfg)
           in if 0 < uint (pn_MinOpen conn) \<and> max_int32 < uint (pn_MinOpen conn)
              then Inl (PlainErr (''postgres min_open overflows int32: '' @ itoa (uint (pn_MinOpen conn))))
              else let cfg = (if 0 < uint (pn_MinOpen conn) then cfg\<lparr>pc_MinConns := pn_MinOpen conn\<rparr> else cfg);
                       cfg = (if 0 < uint (pn_MaxIdle conn)
                              then cfg\<lparr>pc_MaxConnIdleTime := uint (pn_MaxIdle conn) * 1000000000\<rparr> else cfg);
                       cfg = (case pn_MaxLifeTime conn of None \<Rightarrow> cfg | Some d \<Rightarrow> cfg\<lparr>pc_MaxConnLifetime := d\<rparr>);
                       cfg = (case pn_MaxIdleTime conn of None \<Rightarrow> cfg | Some d \<Rightarrow> cfg\<lparr>pc_MaxConnIdleTime := d\<rparr>)
                   in Inr cfg)"

text \<open>The connection string ends where \<open>DSN\<close> does: \<open>dsn_spec.truncate\<close> is the part of the message it reads.\<close>

definition NewPool ::
  "('e, 'pool, 'cert) conn_env \<Rightarrow> ('pool, 'cert) pg_driver \<Rightarrow> span_ctx \<Rightarrow> pg_spec \<Rightarrow> ('pool, 'cert) pool_config conn_step" where
  "NewPool env drv ctx spec =
     in_span env ctx [(''db.system'', ''postgresql''), (''db.name'', ds_DbName spec)] (\<lambda>ctx st.
       case pv_ParseConfig drv (DSN (dsn_spec.truncate spec)) of
         Inl e \<Rightarrow> fail_with ctx e ''parse postgres dsn'' (WrapErr ''parse postgres dsn'' e) st
       | Inr poolCfg \<Rightarrow>
           (case client_tls env (pg_Tls spec) of
              Inl e \<Rightarrow> fail_with ctx e ''postgres tls'' (WrapErr ''postgres tls'' e) st
            | Inr clientTLS \<Rightarrow>
                (let poolCfg = (if clientTLS \<noteq> None then poolCfg\<lparr>pc_TLSConfig := clientTLS\<rparr> else poolCfg)
                 in case (case pg_Connection spec of None \<Rightarrow> Inr poolCfg | Some conn \<Rightarrow> pool_limits conn poolCfg) of
                      Inl e \<Rightarrow> (Inl e, st)
                    | Inr poolCfg \<Rightarrow>
                        (case pv_NewWithConfig drv poolCfg of
                           Some e \<Rightarrow> fail_with ctx e ''connect postgres'' (WrapErr ''connect postgres'' e) st
                         | None \<Rightarrow> (Inr poolCfg, open_handle st)))))"

definition PoolConfigFromPort :: "string \<Rightarrow> int \<Rightarrow> string \<Rightarrow> string \<Rightarrow> string \<Rightarrow> go_err + pg_spec" where
  "PoolConfigFromPort host port dbName user password =
     (if bad_port port then Inl (PlainErr ''postgres port must be between 1 and 65535'')
      else Inr \<lparr>ds_Host = host, ds_Port = Some port, ds_DbName = dbName, ds_UserName = user, ds_Password = Some password,
                ds_SslMode = None, ds_Schemas = [], pg_Connection = None, pg_Tls = None\<rparr>)"

section \<open>Redis\<close>

record redis_spec =
  rd_Url :: "string option"
  rd_Addrs :: "string list"
  rd_Db :: "int option"
  rd_Username :: "string option"
  rd_Password :: "string option"
  rd_Tls :: "pb_ClientTLS option"
  rd_PoolSize :: "int option"
  rd_DialTimeout :: "int option"
  rd_ReadTimeout :: "int option"

definition opt_string :: "string option \<Rightarrow> string" where
  "opt_string x = (case x of None \<Rightarrow> [] | Some s \<Rightarrow> s)"

definition opt_int :: "int option \<Rightarrow> int" where
  "opt_int x = (case x of None \<Rightarrow> 0 | Some n \<Rightarrow> n)"

record ('pool, 'cert) goredis_Options =
  ro_Addr :: string
  ro_Username :: string
  ro_Password :: string
  ro_DB :: int
  ro_TLSConfig :: "('pool, 'cert) tls_Config option"
  ro_PoolSize :: int
  ro_DialTimeout :: int
  ro_ReadTimeout :: int

record ('pool, 'cert) redis_driver =
  rv_ParseURL :: "string \<Rightarrow> go_err + ('pool, 'cert) goredis_Options"
  rv_InstrumentTracing :: "('pool, 'cert) goredis_Options \<Rightarrow> go_err option"
  rv_Ping :: "('pool, 'cert) goredis_Options \<Rightarrow> go_err option"

definition applySpecOptions :: "redis_spec \<Rightarrow> ('pool, 'cert) goredis_Options \<Rightarrow> ('pool, 'cert) goredis_Options" where
  "applySpecOptions spec opts =
     (let opts = (case rd_PoolSize spec of None \<Rightarrow> opts | Some n \<Rightarrow> if 0 < n then opts\<lparr>ro_PoolSize := n\<rparr> else opts);
          opts = (case rd_DialTimeout spec of None \<Rightarrow> opts | Some d \<Rightarrow> opts\<lparr>ro_DialTimeout := d\<rparr>)
      in case rd_ReadTimeout spec of None \<Rightarrow> opts | Some d \<Rightarrow> opts\<lparr>ro_ReadTimeout := d\<rparr>)"

definition redis_options ::
  "('e, 'pool, 'cert) conn_env \<Rightarrow> ('pool, 'cert) redis_driver \<Rightarrow> redis_spec \<Rightarrow> go_err + ('pool, 'cert) goredis_Options" where
  "redis_options env drv spec =
     (let url = opt_string (rd_Url spec)
      in bind_err (if url \<noteq> [] then wrap_err (WrapErr ''parse redis url'') (rv_ParseURL drv url)
                   else let addrs = (if rd_Addrs spec = [] then [''localhost:6379''] else rd_Addrs spec)
                        in Inr \<lparr>ro_Addr = hd addrs, ro_Username = opt_string (rd_Username spec),
                                ro_Password = opt_string (rd_Password spec), ro_DB = opt_int (rd_Db spec),
                                ro_TLSConfig = None, ro_PoolSize = 0, ro_DialTimeout = 0, ro_ReadTimeout = 0\<rparr>) (\<lambda>opts.
         bind_err (wrap_err (WrapErr ''redis tls'') (client_tls env (rd_Tls spec))) (\<lambda>clientTLS.
           Inr (applySpecOptions spec (if clientTLS \<noteq> None then opts\<lparr>ro_TLSConfig := clientTLS\<rparr> else opts)))))"

definition redis_New ::
  "('e, 'pool, 'cert) conn_env \<Rightarrow> ('pool, 'cert) redis_driver \<Rightarrow> span_ctx \<Rightarrow> redis_spec option
     \<Rightarrow> ('pool, 'cert) goredis_Options conn_step" where
  "redis_New env drv ctx cfg st =
     (case cfg of
        None \<Rightarrow> (Inl (PlainErr ''redis config is nil''), st)
      | Some spec \<Rightarrow>
          in_span env ctx [(''db.system'', ''redis''), (''db.name'', ''db'' @ itoa (opt_int (rd_Db spec)))] (\<lambda>ctx st.
            case redis_options env drv spec of
              Inl e \<Rightarrow> fail_with ctx e ''build redis options'' e st
            | Inr opts \<Rightarrow>
                (let st = open_handle st
                 in case rv_InstrumentTracing drv opts of
                      Some e \<Rightarrow> fail_with ctx e ''instrument redis tracing'' (WrapErr ''instrument redis tracing'' e) (close_handle st)
                    | None \<Rightarrow>
                        (case rv_Ping drv opts of
                           Some e \<Rightarrow> fail_with ctx e ''connect redis'' (WrapErr ''connect redis'' e) (close_handle st)
                         | None \<Rightarrow> (Inr opts, st)))) st)"

definition ClientFromPort ::
  "('e, 'pool, 'cert) conn_env \<Rightarrow> ('pool, 'cert) redis_driver \<Rightarrow> span_ctx \<Rightarrow> string \<Rightarrow> int \<Rightarrow> int
     \<Rightarrow> ('pool, 'cert) goredis_Options conn_step" where
  "ClientFromPort env drv ctx host port db st =
     (if bad_port port then (Inl (PlainErr ''redis port must be between 1 and 65535''), st)
      else if db < 0 \<or> max_int32 < db then (Inl (PlainErr (''redis db overflows int32: '' @ itoa db)), st)
      else let host = (if host = [] then ''localhost'' else host)
           in redis_New env drv ctx (Some \<lparr>rd_Url = None, rd_Addrs = [host @ '':'' @ itoa port], rd_Db = Some db,
                rd_Username = None, rd_Password = None, rd_Tls = None, rd_PoolSize = None, rd_DialTimeout = None,
                rd_ReadTimeout = None\<rparr>) st)"

section \<open>Oracle\<close>

record oracle_spec =
  oc_Host :: string
  oc_Port :: "int option"
  oc_ServiceName :: string
  oc_UserName :: string
  oc_Password :: "string option"
  oc_Tls :: "pb_ClientTLS option"

text \<open>\<open>ov_BuildUrl\<close> has host, port, service, user and password; \<open>ov_isConnector\<close> is the type assertion on the
  connector, and the connector is its connection string and TLS configuration.\<close>

record ('pool, 'cert) oracle_driver =
  ov_BuildUrl :: "string \<Rightarrow> int \<Rightarrow> string \<Rightarrow> string \<Rightarrow> string \<Rightarrow> string"
  ov_isConnector :: bool
  ov_Ping :: "string \<Rightarrow> ('pool, 'cert) tls_Config option \<Rightarrow> go_err option"

definition defaultPort :: int where "defaultPort = 1521"

definition oracle_DSN :: "('pool, 'cert) oracle_driver \<Rightarrow> oracle_spec option \<Rightarrow> string" where
  "oracle_DSN drv cfg =
     (case cfg of
        None \<Rightarrow> []
      | Some spec \<Rightarrow>
          (let port = (case oc_Port spec of None \<Rightarrow> defaultPort | Some p \<Rightarrow> if 0 < p then p else defaultPort)
           in ov_BuildUrl drv (oc_Host spec) port (oc_ServiceName spec) (oc_UserName spec) (opt_string (oc_Password spec))))"

definition oracle_validateConfig :: "oracle_spec option \<Rightarrow> go_err option" where
  "oracle_validateConfig cfg =
     (case cfg of
        None \<Rightarrow> Some (PlainErr ''oracle config is nil'')
      | Some spec \<Rightarrow>
          if oc_Host spec = [] then Some (PlainErr ''oracle host is required'')
          else if oc_ServiceName spec = [] then Some (PlainErr ''oracle service_name is required'')
          else if oc_UserName spec = [] then Some (PlainErr ''oracle user_name is required'')
          else None)"

record ('pool, 'cert) oracle_db =
  od_DSN :: string
  od_TLSConfig :: "('pool, 'cert) tls_Config option"

definition oracle_Connect ::
  "('e, 'pool, 'cert) conn_env \<Rightarrow> ('pool, 'cert) oracle_driver \<Rightarrow> span_ctx \<Rightarrow> oracle_spec option
     \<Rightarrow> ('pool, 'cert) oracle_db conn_step" where
  "oracle_Connect env drv ctx cfg st =
     (case (oracle_validateConfig cfg, cfg) of
        (None, Some spec) \<Rightarrow>
          in_span env ctx [(''db.system'', ''oracle''), (''db.name'', oc_ServiceName spec)] (\<lambda>ctx st.
            case client_tls env (oc_Tls spec) of
              Inl e \<Rightarrow> fail_with ctx e ''oracle tls'' (WrapErr ''oracle tls'' e) st
            | Inr clientTLS \<Rightarrow>
                if clientTLS \<noteq> None \<and> \<not> ov_isConnector drv
                then (let err = PlainErr ''unexpected oracle connector type''
                      in fail_with ctx err ''oracle connector type assertion'' err st)
                else (let dsn = oracle_DSN drv cfg; st = open_handle st
                      in case ov_Ping drv dsn clientTLS of
                           Some e \<Rightarrow> fail_with ctx e ''connect oracle'' (WrapErr ''connect oracle'' e) (close_handle st)
                         | None \<Rightarrow> (Inr \<lparr>od_DSN = dsn, od_TLSConfig = clientTLS\<rparr>, st))) st
      | (Some e, _) \<Rightarrow> (Inl e, st)
      | (None, None) \<Rightarrow> (Inl (PlainErr ''oracle config is nil''), st))"

section \<open>Cassandra\<close>

record cassandra_spec =
  ca_Hosts :: "string list"
  ca_Keyspace :: string
  ca_Username :: "string option"
  ca_Password :: "string option"
  ca_Tls :: "pb_ClientTLS option"

text \<open>The fields of \<open>gocql.ClusterConfig\<close> that are set; the consistency is always \<open>Quorum\<close>.\<close>

record ('pool, 'cert) cluster_config =
  cc_Hosts :: "string list"
  cc_Keyspace :: string
  cc_SslConfig :: "('pool, 'cert) tls_Config option"
  cc_EnableHostVerification :: bool
  cc_Authenticator :: "(string \<times> string) option"

definition cassandra_Connect ::
  "('e, 'pool, 'cert) conn_env \<Rightarrow> (('pool, 'cert) cluster_config \<Rightarrow> go_err option) \<Rightarrow> span_ctx \<Rightarrow> cassandra_spec option
     \<Rightarrow> ('pool, 'cert) cluster_config conn_step" where
  "cassandra_Connect env createSession ctx cfg st =
     (case cfg of
        None \<Rightarrow> (Inl (PlainErr ''cassandra config is nil''), st)
      | Some spec \<Rightarrow>
          in_span env ctx [(''db.system'', ''cassandra''),
              (''db.name'', if ca_Keyspace spec = [] then ''default'' else ca_Keyspace spec)] (\<lambda>ctx st.
            case client_tls env (ca_Tls spec) of
              Inl e \<Rightarrow> fail_with ctx e ''cassandra tls'' (WrapErr ''cassandra tls'' e) st
            | Inr clientTLS \<Rightarrow>
                (let cluster = \<lparr>cc_Hosts = (if ca_Hosts spec = [] then [''localhost:9042''] else ca_Hosts spec),
                       cc_Keyspace = ca_Keyspace spec, cc_SslConfig = clientTLS,
                       cc_EnableHostVerification = (case clientTLS of None \<Rightarrow> False | Some c \<Rightarrow> \<not> tc_InsecureSkipVerify c),
                       cc_Authenticator = (if opt_string (ca_Username spec) \<noteq> []
                         then Some (opt_string (ca_Username spec), opt_string (ca_Password spec)) else None)\<rparr>
                 in case createSession cluster of
                      Some e \<Rightarrow> fail_with ctx e ''connect cassandra'' (WrapErr ''connect cassandra'' e) st
                    | None \<Rightarrow> (Inr cluster, open_handle st))) st)"

end
