(* ===== verification/Brokers.thy ===== *)
theory Brokers
  imports Connectors
begin

text \<open>
  NATS and RabbitMQ (\<open>sdk/transport/queue/nats\<close>, \<open>sdk/transport/queue/rabbitmq\<close>) and S3
  (\<open>sdk/transport/storage/s3\<close>): the options that a configuration becomes, and the connection.
\<close>

section \<open>NATS\<close>

record nats_spec =
  na_Urls :: "string list"
  na_Name :: "string option"
  na_Token :: "string option"
  na_Username :: "string option"
  na_Password :: "string option"
  na_Tls :: "pb_ClientTLS option"
  na_MaxReconnects :: "int option"
  na_ConnectTimeout :: "int option"

datatype ('pool, 'cert) nats_option =
    NatsName string | NatsToken string | UserInfo string string | MaxReconnects int | Timeout int
  | Secure "('pool, 'cert) tls_Config"

record ('pool, 'cert) parsedOptions =
  po_URL :: string
  po_NatsOptions :: "('pool, 'cert) nats_option list"

definition nats_DefaultURL :: string where "nats_DefaultURL = ''nats://127.0.0.1:4222''"

definition nats_options :: "('e, 'pool, 'cert) conn_env \<Rightarrow> nats_spec \<Rightarrow> go_err + ('pool, 'cert) parsedOptions" where
  "nats_options env spec =
     (let urls = (if na_Urls spec = [] then [nats_DefaultURL] else na_Urls spec);
          opts = (if opt_string (na_Name spec) \<noteq> [] then [NatsName (opt_string (na_Name spec))] else []) @
                 (if opt_string (na_Token spec) \<noteq> [] then [NatsToken (opt_string (na_Token spec))] else []) @
                 (if opt_string (na_Username spec) \<noteq> []
                  then [UserInfo (opt_string (na_Username spec)) (opt_string (na_Password spec))] else []) @
                 (case na_MaxReconnects spec of None \<Rightarrow> [] | Some n \<Rightarrow> [MaxReconnects n]) @
                 (case na_ConnectTimeout spec of None \<Rightarrow> [] | Some d \<Rightarrow> [Timeout d])
      in bind_err (wrap_err (WrapErr ''nats tls'') (client_tls env (na_Tls spec))) (\<lambda>clientTLS.
           Inr \<lparr>po_URL = join '','' urls,
                po_NatsOptions = opts @ (case clientTLS of None \<Rightarrow> [] | Some c \<Rightarrow> [Secure c])\<rparr>))"

definition nats_Connect ::
  "('e, 'pool, 'cert) conn_env \<Rightarrow> (('pool, 'cert) parsedOptions \<Rightarrow> go_err option) \<Rightarrow> span_ctx \<Rightarrow> nats_spec option
     \<Rightarrow> ('pool, 'cert) parsedOptions conn_step" where
  "nats_Connect env connect ctx cfg st =
     (case cfg of
        None \<Rightarrow> (Inl (PlainErr ''nats config is nil''), st)
      | Some spec \<Rightarrow>
          in_span env ctx [(''messaging.system'', ''nats''), (''messaging.destination.name'', join '','' (na_Urls spec))]
            (\<lambda>ctx st.
              case nats_options env spec of
                Inl e \<Rightarrow> fail_with ctx e ''build nats options'' e st
              | Inr opts \<Rightarrow>
                  (case connect opts of
                     Some e \<Rightarrow> fail_with ctx e ''connect nats'' (WrapErr ''connect nats'' e) st
                   | None \<Rightarrow> (Inr opts, open_handle st))) st)"

definition ConnectDefault ::
  "('e, 'pool, 'cert) conn_env \<Rightarrow> (('pool, 'cert) parsedOptions \<Rightarrow> go_err option) \<Rightarrow> span_ctx
     \<Rightarrow> ('pool, 'cert) parsedOptions conn_step" where
  "ConnectDefault env connect ctx =
     nats_Connect env connect ctx (Some \<lparr>na_Urls = [nats_DefaultURL], na_Name = None, na_Token = None, na_Username = None,
       na_Password = None, na_Tls = None, na_MaxReconnects = None, na_ConnectTimeout = None\<rparr>)"

section \<open>RabbitMQ\<close>

text \<open>The configuration also has a virtual host, credentials and a timeout, which the code does not read.\<close>

record rabbitmq_spec =
  rb_Urls :: "string list"
  rb_Vhost :: "string option"
  rb_Username :: "string option"
  rb_Password :: "string option"
  rb_ConnectTimeout :: "int option"
  rb_Tls :: "pb_ClientTLS option"

record ('pool, 'cert) rabbitmq_Options =
  rq_URLs :: "string list"
  rq_TLSConfig :: "('pool, 'cert) tls_Config option"

definition rabbitmq_Connect ::
  "('e, 'pool, 'cert) conn_env \<Rightarrow> rabbitmq_spec option option \<Rightarrow> go_err + ('pool, 'cert) rabbitmq_Options" where
  "rabbitmq_Connect env cfg =
     (case cfg of
        None \<Rightarrow> Inl (PlainErr ''rabbitmq config is nil'')
      | Some None \<Rightarrow> Inl (PlainErr ''rabbitmq spec is nil'')
      | Some (Some spec) \<Rightarrow>
          if rb_Urls spec = [] then Inl (PlainErr ''rabbitmq urls are required'')
          else bind_err (wrap_err (WrapErr ''rabbitmq tls'') (client_tls env (rb_Tls spec))) (\<lambda>clientTLS.
                 Inr \<lparr>rq_URLs = rb_Urls spec, rq_TLSConfig = clientTLS\<rparr>))"

section \<open>S3\<close>

record s3_spec =
  s3_Bucket :: "string option"
  s3_Region :: "string option"
  s3_Endpoint :: "string option"
  s3_AccessKeyId :: "string option"
  s3_SecretAccessKey :: "string option"
  s3_SessionToken :: "string option"
  s3_ForcePathStyle :: "bool option"
  s3_Tls :: "pb_ClientTLS option"
  s3_Prefix :: "string option"
  s3_RequestTimeout :: "int option"

text \<open>What is passed to \<open>LoadDefaultConfig\<close>: the region, static credentials, and a client with a timeout and a
  transport.\<close>

record ('pool, 'cert) aws_options =
  aw_Region :: string
  aw_Credentials :: "(string \<times> string \<times> string) option"
  aw_HTTPClient :: "(int \<times> ('pool, 'cert) tls_Config option) option"

record ('pool, 'cert) s3_client =
  sc_Options :: "('pool, 'cert) aws_options"
  sc_BaseEndpoint :: "string option"
  sc_UsePathStyle :: bool
  sc_Bucket :: string
  sc_Prefix :: string

definition loadAWSConfig ::
  "('e, 'pool, 'cert) conn_env \<Rightarrow> (('pool, 'cert) aws_options \<Rightarrow> go_err option) \<Rightarrow> s3_spec
     \<Rightarrow> go_err + ('pool, 'cert) aws_options" where
  "loadAWSConfig env loadDefaultConfig spec =
     (let region = (if opt_string (s3_Region spec) = [] then ''us-east-1'' else opt_string (s3_Region spec));
          key = opt_string (s3_AccessKeyId spec);
          credentials = (if key \<noteq> [] then Some (key, opt_string (s3_SecretAccessKey spec), opt_string (s3_SessionToken spec))
                         else None)
      in bind_err (wrap_err (WrapErr ''s3 tls'') (client_tls env (s3_Tls spec))) (\<lambda>clientTLS.
           let timeout = opt_int (s3_RequestTimeout spec);
               opts = \<lparr>aw_Region = region, aw_Credentials = credentials,
                       aw_HTTPClient = (if timeout \<noteq> 0 \<or> clientTLS \<noteq> None then Some (timeout, clientTLS) else None)\<rparr>
           in case loadDefaultConfig opts of Some e \<Rightarrow> Inl e | None \<Rightarrow> Inr opts))"

definition s3_NewClient ::
  "('e, 'pool, 'cert) conn_env \<Rightarrow> (('pool, 'cert) aws_options \<Rightarrow> go_err option) \<Rightarrow> span_ctx \<Rightarrow> s3_spec option
     \<Rightarrow> ('pool, 'cert) s3_client conn_step" where
  "s3_NewClient env loadDefaultConfig ctx cfg st =
     (case cfg of
        None \<Rightarrow> (Inl (PlainErr ''s3 config is nil''), st)
      | Some spec \<Rightarrow>
          in_span env ctx [(''cloud.storage.provider'', ''aws_s3''), (''cloud.storage.bucket'', opt_string (s3_Bucket spec))]
            (\<lambda>ctx st.
              case loadAWSConfig env loadDefaultConfig spec of
                Inl e \<Rightarrow> fail_with ctx e ''load s3 aws config'' e st
              | Inr opts \<Rightarrow>
                  (let endpoint = opt_string (s3_Endpoint spec)
                   in (Inr \<lparr>sc_Options = opts, sc_BaseEndpoint = (if endpoint \<noteq> [] then Some endpoint else None),
                            sc_UsePathStyle = (case s3_ForcePathStyle spec of None \<Rightarrow> False | Some b \<Rightarrow> b),
                            sc_Bucket = opt_string (s3_Bucket spec), sc_Prefix = opt_string (s3_Prefix spec)\<rparr>, st))) st)"

definition ClientFromMinIO ::
  "('e, 'pool, 'cert) conn_env \<Rightarrow> (('pool, 'cert) aws_options \<Rightarrow> go_err option) \<Rightarrow> span_ctx \<Rightarrow> string \<Rightarrow> int \<Rightarrow> string
     \<Rightarrow> ('pool, 'cert) s3_client conn_step" where
  "ClientFromMinIO env loadDefaultConfig ctx host port bucket st =
     (if bad_port port then (Inl (PlainErr ''s3 port must be between 1 and 65535''), st)
      else let host = (if host = [] then ''localhost'' else host); bucket = (if bucket = [] then ''zengo'' else bucket)
           in s3_NewClient env loadDefaultConfig ctx
                (Some \<lparr>s3_Bucket = Some bucket, s3_Region = Some ''us-east-1'',
                   s3_Endpoint = Some (''http://'' @ host @ '':'' @ itoa port), s3_AccessKeyId = Some ''minioadmin'',
                   s3_SecretAccessKey = Some ''minioadmin'', s3_SessionToken = None, s3_ForcePathStyle = Some True,
                   s3_Tls = None, s3_Prefix = None, s3_RequestTimeout = None\<rparr>) st)"

end
