(* ===== verification/ConnectorFacts.thy ===== *)
theory ConnectorFacts
  imports Brokers ObservabilityFacts
begin

text \<open>
  Properties of the clients of databases and brokers.  The locale \<open>connector\<close> is what every one of them promises to
  the service that opens it.
\<close>

section \<open>The frame\<close>

text \<open>What the body of a connector may do at the span of its context.\<close>

definition body_ok :: "nat \<Rightarrow> ('h \<Rightarrow> bool) \<Rightarrow> span_ctx \<Rightarrow> conn_state \<Rightarrow> (go_err + 'h) \<times> conn_state \<Rightarrow> bool" where
  "body_ok k P ctx st res \<longleftrightarrow>
     (cn_obs (snd res) = cn_obs st \<or> (\<exists>e w. cn_obs (snd res) = RecordException ctx (Some e) w [] (cn_obs st))) \<and>
     (case fst res of Inl e \<Rightarrow> cn_open (snd res) = cn_open st | Inr h \<Rightarrow> cn_open (snd res) = cn_open st + k \<and> P h)"

text \<open>The spans and events between two states nest below the context.\<close>

definition spans_closed :: "span_ctx \<Rightarrow> conn_state \<Rightarrow> conn_state \<Rightarrow> bool" where
  "spans_closed ctx st st' \<longleftrightarrow>
     (\<exists>es. ob_log (cn_obs st') = ob_log (cn_obs st) @ es \<and> nested [ctx] es = Some [ctx]) \<and>
     ob_tracer (cn_obs st') = ob_tracer (cn_obs st)"

lemma spans_closed_refl [simp]: "spans_closed ctx st st"
  by (simp add: spans_closed_def)

lemma in_span_ok:
  assumes "\<And>ctx st. body_ok k P ctx st (body ctx st)"
  shows "spans_closed ctx st (snd (in_span env ctx attrs body st)) \<and>
    (case fst (in_span env ctx attrs body st) of
       Inl e \<Rightarrow> cn_open (snd (in_span env ctx attrs body st)) = cn_open st
     | Inr h \<Rightarrow> cn_open (snd (in_span env ctx attrs body st)) = cn_open st + k \<and> P h)"
proof -
  obtain r st' where run: "in_span env ctx attrs body st = (r, st')" by fastforce
  define sp where "sp = StartSpan (ce_caller env) ctx (map (\<lambda>(k, v). StringAttribute k v) attrs) (cn_obs st)"
  define c e obs where "c = fst (fst sp)" and "e = snd (fst sp)" and "obs = snd sp"
  have sp: "sp = ((c, e), obs)" by (simp add: c_def e_def obs_def)
  obtain st1 where b: "body c (st\<lparr>cn_obs := obs\<rparr>) = (r, st1)" and st': "st' = st1\<lparr>cn_obs := end_span e (cn_obs st1)\<rparr>"
    using run sp unfolding sp_def by (auto simp add: in_span_def split: prod.splits)
  have ok: "body_ok k P c (st\<lparr>cn_obs := obs\<rparr>) (r, st1)" using assms [of c "st\<lparr>cn_obs := obs\<rparr>"] b by simp
  obtain es where es: "ob_log (cn_obs st1) = ob_log obs @ es" "ob_tracer (cn_obs st1) = ob_tracer obs"
      "\<And>stack. nested (c # stack) es = Some (c # stack)"
    using ok by (auto simp add: body_ok_def RecordException_def)
  have "spans_closed ctx st st'"
  proof (cases "ob_tracer (cn_obs st)")
    case None
    then have "sp = ((ctx, None), cn_obs st)" by (simp add: sp_def StartSpan_def StartSpanNamed_def loadTracer_def)
    then show ?thesis using es sp by (auto simp add: spans_closed_def st' end_span_def)
  next
    case (Some t)
    let ?n = "ob_spans (cn_obs st)"
    obtain title a where s: "c = Some ?n" "e = Some ?n" "ob_log obs = ob_log (cn_obs st) @ [SpanStarted ?n ctx title a]"
        "ob_tracer obs = ob_tracer (cn_obs st)"
      using Some sp by (auto simp add: sp_def StartSpan_def StartSpanNamed_def loadTracer_def Let_def)
    have "nested [ctx] (SpanStarted ?n ctx title a # es @ [SpanEnded ?n]) = Some [ctx]"
      using es(3) [of "[ctx]"] by (simp add: nested_append s(1))
    then show ?thesis using es s by (auto simp add: spans_closed_def st' end_span_def)
  qed
  then show ?thesis using ok unfolding run by (cases r) (simp_all add: body_ok_def st')
qed

section \<open>TLS\<close>

text \<open>Options that are given become a configuration, with TLS 1.2 at least.\<close>

lemma client_tls_some:
  assumes "client_tls env tls = Inr c" and "ClientOptionsFromProto tls = Some opts"
  shows "\<exists>cfg. c = Some cfg \<and> tc_MinVersion cfg = VersionTLS12 \<and> tc_InsecureSkipVerify cfg = co_InsecureSkipVerify opts"
  using assms
  by (auto simp add: client_tls_def ClientConfig_def Let_def zero_Config_def
      split: sum.splits option.splits if_splits)

definition secured :: "pb_ClientTLS option \<Rightarrow> ('pool, 'cert) tls_Config option \<Rightarrow> bool" where
  "secured tls c \<longleftrightarrow>
     (case ClientOptionsFromProto tls of None \<Rightarrow> True
      | Some opts \<Rightarrow> (case c of None \<Rightarrow> False
           | Some cfg \<Rightarrow> tc_MinVersion cfg = VersionTLS12 \<and> tc_InsecureSkipVerify cfg = co_InsecureSkipVerify opts))"

lemma client_tls_secured: "client_tls env tls = Inr c \<Longrightarrow> secured tls c"
  using client_tls_some [of env tls c] by (auto simp add: secured_def split: option.splits)

lemma secured_None: "secured tls None \<Longrightarrow> secured tls c"
  by (simp add: secured_def split: option.splits)

section \<open>The contract\<close>

text \<open>A run keeps the trace nested; it leaves no handle when it fails, and when it succeeds its handle carries the
  TLS configuration that the message asks for.\<close>

definition honours ::
  "nat \<Rightarrow> pb_ClientTLS option \<Rightarrow> ('h \<Rightarrow> ('pool, 'cert) tls_Config option) \<Rightarrow> span_ctx \<Rightarrow> conn_state
     \<Rightarrow> (go_err + 'h) \<times> conn_state \<Rightarrow> bool" where
  "honours k tls handle_tls ctx st res \<longleftrightarrow>
     spans_closed ctx st (snd res) \<and>
     (case fst res of Inl e \<Rightarrow> cn_open (snd res) = cn_open st
      | Inr h \<Rightarrow> cn_open (snd res) = cn_open st + k \<and> secured tls (handle_tls h))"

lemma in_span_honours:
  assumes "\<And>ctx st. body_ok k (\<lambda>h. secured tls (handle_tls h)) ctx st (body ctx st)"
  shows "honours k tls handle_tls ctx st (in_span env ctx attrs body st)"
  unfolding honours_def by (rule in_span_ok) (rule assms)

lemma honours_refused [simp]: "honours k tls f ctx st (Inl e, st)"
  by (simp add: honours_def)

locale connector =
  fixes connect :: "span_ctx \<Rightarrow> 'cfg \<Rightarrow> 'h conn_step"
    and tls_options :: "'cfg \<Rightarrow> pb_ClientTLS option"
    and handle_tls :: "'h \<Rightarrow> ('pool, 'cert) tls_Config option"
    and handles :: nat
  assumes frame: "honours handles (tls_options cfg) handle_tls ctx st (connect ctx cfg st)"
begin

lemma failure_leaves_nothing: "connect ctx cfg st = (Inl e, st') \<Longrightarrow> cn_open st' = cn_open st"
  using frame [of cfg ctx st] by (simp add: honours_def)

lemma never_plaintext:
  "connect ctx cfg st = (Inr h, st') \<Longrightarrow> ClientOptionsFromProto (tls_options cfg) \<noteq> None \<Longrightarrow> handle_tls h \<noteq> None"
  using frame [of cfg ctx st] by (auto simp add: honours_def secured_def split: option.splits)

text \<open>Connecting again after a failure is as good as a first try.\<close>

lemma retry_honours:
  "connect ctx cfg st = (Inl e, st') \<Longrightarrow> connect ctx cfg st' = (Inr h, st'') \<Longrightarrow>
     cn_open st'' = cn_open st + handles \<and> secured (tls_options cfg) (handle_tls h)"
  using frame [of cfg ctx st] frame [of cfg ctx st'] by (simp add: honours_def)

end

lemmas conn_simps = body_ok_def fail_with_def open_handle_def close_handle_def

lemma body_ok_fail: "body_ok k P ctx st (fail_with ctx e w ret st)"
  by (auto simp add: conn_simps)

lemma body_ok_fail_closed: "body_ok k P ctx st (fail_with ctx e w ret (close_handle (open_handle st)))"
  by (auto simp add: conn_simps)

lemma body_ok_inl: "body_ok k P ctx st (Inl e, st)"
  by (simp add: conn_simps)

lemma body_ok_inr: "P h \<Longrightarrow> body_ok 0 P ctx st (Inr h, st)"
  by (simp add: conn_simps)

lemma body_ok_open: "P h \<Longrightarrow> body_ok (Suc 0) P ctx st (Inr h, open_handle st)"
  by (simp add: conn_simps)

lemma body_ok_drive:
  "P h \<Longrightarrow> body_ok (Suc 0) P ctx st
     (case r of Some e \<Rightarrow> fail_with ctx e w (ret e) st | None \<Rightarrow> (Inr h, open_handle st))"
  by (cases r) (simp_all add: body_ok_fail body_ok_open)

lemmas body_oks = body_ok_fail body_ok_fail_closed body_ok_inl body_ok_inr body_ok_open

section \<open>Postgres\<close>

lemma pool_limits_tls: "pool_limits conn cfg = Inr cfg' \<Longrightarrow> pc_TLSConfig cfg' = pc_TLSConfig cfg"
  by (auto simp add: pool_limits_def Let_def split: if_splits option.splits)

lemma NewPool_frame: "honours (Suc 0) (pg_Tls spec) pc_TLSConfig ctx st (NewPool env drv ctx spec st)"
  unfolding NewPool_def
proof (rule in_span_honours, goal_cases)
  case (1 ctx st)
  show ?case
  proof (cases "pv_ParseConfig drv (DSN (dsn_spec.truncate spec))")
    case (Inl e) then show ?thesis by (simp add: body_oks)
  next
    case cfg: (Inr cfg)
    show ?thesis
    proof (cases "client_tls env (pg_Tls spec)")
      case (Inl e) then show ?thesis by (simp add: body_oks cfg)
    next
      case (Inr c)
      define cfg1 where "cfg1 = (if c \<noteq> None then cfg\<lparr>pc_TLSConfig := c\<rparr> else cfg)"
      have "secured (pg_Tls spec) (pc_TLSConfig cfg1)"
        using client_tls_secured [OF Inr] secured_None by (auto simp add: cfg1_def)
      then have sec: "secured (pg_Tls spec) (pc_TLSConfig cfg2)"
        if "(case pg_Connection spec of None \<Rightarrow> Inr cfg1 | Some conn \<Rightarrow> pool_limits conn cfg1) = Inr cfg2" for cfg2
        using that by (auto dest!: pool_limits_tls split: option.splits)
      show ?thesis unfolding cfg Inr sum.case Let_def cfg1_def [symmetric]
      proof (cases "case pg_Connection spec of None \<Rightarrow> Inr cfg1 | Some conn \<Rightarrow> pool_limits conn cfg1", goal_cases)
        case (1 e) show ?case unfolding 1 sum.case by (rule body_ok_inl)
      next
        case (2 cfg2) show ?case unfolding 2 sum.case by (rule body_ok_drive) (rule sec [OF 2])
      qed
    qed
  qed
qed

interpretation postgres: connector "NewPool env drv" pg_Tls pc_TLSConfig "Suc 0"
  by unfold_locales (rule NewPool_frame)

section \<open>Redis\<close>

definition spec_tls :: "('s \<Rightarrow> pb_ClientTLS option) \<Rightarrow> 's option \<Rightarrow> pb_ClientTLS option" where
  "spec_tls f cfg = (case cfg of None \<Rightarrow> None | Some spec \<Rightarrow> f spec)"

lemma applySpecOptions_tls [simp]: "ro_TLSConfig (applySpecOptions spec opts) = ro_TLSConfig opts"
  by (simp add: applySpecOptions_def Let_def split: option.split)

lemma redis_options_secured: "redis_options env drv spec = Inr opts \<Longrightarrow> secured (rd_Tls spec) (ro_TLSConfig opts)"
  by (auto simp add: redis_options_def Let_def dest!: client_tls_secured split: if_splits intro: secured_None)

lemma redis_New_frame: "honours (Suc 0) (spec_tls rd_Tls cfg) ro_TLSConfig ctx st (redis_New env drv ctx cfg st)"
proof (cases cfg)
  case None then show ?thesis by (simp add: redis_New_def)
next
  case (Some spec)
  show ?thesis unfolding redis_New_def Some option.case
    by (rule in_span_honours, cases "redis_options env drv spec")
      (simp_all add: Let_def body_oks redis_options_secured spec_tls_def split: option.split)
qed

interpretation redis: connector "redis_New env drv" "spec_tls rd_Tls" ro_TLSConfig "Suc 0"
  by unfold_locales (rule redis_New_frame)

section \<open>Oracle\<close>

lemma oracle_Connect_frame: "honours (Suc 0) (spec_tls oc_Tls cfg) od_TLSConfig ctx st (oracle_Connect env drv ctx cfg st)"
proof (cases "oracle_validateConfig cfg = None \<and> cfg \<noteq> None")
  case False then show ?thesis by (auto simp add: oracle_Connect_def split: option.splits)
next
  case True
  then obtain spec where spec: "cfg = Some spec" "oracle_validateConfig (Some spec) = None" by auto
  show ?thesis unfolding oracle_Connect_def spec prod.case option.case
  proof (rule in_span_honours, goal_cases)
    case (1 ctx st)
    show ?case
    proof (cases "client_tls env (oc_Tls spec)")
      case (Inr c)
      show ?thesis using client_tls_secured [OF Inr] unfolding Inr sum.case Let_def
        by (cases "c \<noteq> None \<and> \<not> ov_isConnector drv"; cases "ov_Ping drv (oracle_DSN drv (Some spec)) c")
          (simp_all add: body_oks spec_tls_def)
    qed (simp add: body_oks)
  qed
qed

interpretation oracle_db: connector "oracle_Connect env drv" "spec_tls oc_Tls" od_TLSConfig "Suc 0"
  by unfold_locales (rule oracle_Connect_frame)

section \<open>Cassandra\<close>

lemma cassandra_Connect_frame: "honours (Suc 0) (spec_tls ca_Tls cfg) cc_SslConfig ctx st (cassandra_Connect env createSession ctx cfg st)"
proof (cases cfg)
  case None then show ?thesis by (simp add: cassandra_Connect_def)
next
  case (Some spec)
  show ?thesis unfolding cassandra_Connect_def Some option.case
  proof (rule in_span_honours, goal_cases)
    case (1 ctx st)
    show ?case
    proof (cases "client_tls env (ca_Tls spec)")
      case (Inr c)
      show ?thesis unfolding Inr sum.case Let_def
        by (rule body_ok_drive) (simp add: client_tls_secured [OF Inr] spec_tls_def)
    qed (simp add: body_oks)
  qed
qed

interpretation cassandra: connector "cassandra_Connect env createSession" "spec_tls ca_Tls" cc_SslConfig "Suc 0"
  by unfold_locales (rule cassandra_Connect_frame)

section \<open>NATS\<close>

fun nats_tls :: "('pool, 'cert) nats_option list \<Rightarrow> ('pool, 'cert) tls_Config option" where
  "nats_tls [] = None"
| "nats_tls (Secure c # os) = (case nats_tls os of None \<Rightarrow> Some c | Some d \<Rightarrow> Some d)"
| "nats_tls (_ # os) = nats_tls os"

lemma nats_tls_snoc: "nats_tls (os @ [Secure c]) = Some c"
  by (induction os rule: nats_tls.induct) simp_all

lemma nats_options_secured: "nats_options env spec = Inr opts \<Longrightarrow> secured (na_Tls spec) (nats_tls (po_NatsOptions opts))"
  unfolding nats_options_def Let_def
  by (auto simp add: nats_tls_snoc append_assoc [symmetric] simp del: append_assoc dest!: client_tls_secured
      split: option.splits intro: secured_None)

lemma nats_Connect_frame: "honours (Suc 0) (spec_tls na_Tls cfg) (\<lambda>h. nats_tls (po_NatsOptions h)) ctx st (nats_Connect env connect ctx cfg st)"
proof (cases cfg)
  case None then show ?thesis by (simp add: nats_Connect_def)
next
  case (Some spec)
  show ?thesis unfolding nats_Connect_def Some option.case
    by (rule in_span_honours, cases "nats_options env spec")
      (simp_all add: Let_def body_oks nats_options_secured spec_tls_def split: option.split)
qed

interpretation nats: connector "nats_Connect env connect" "spec_tls na_Tls" "\<lambda>h. nats_tls (po_NatsOptions h)" "Suc 0"
  by unfold_locales (rule nats_Connect_frame)

section \<open>S3\<close>

definition s3_tls :: "('pool, 'cert) s3_client \<Rightarrow> ('pool, 'cert) tls_Config option" where
  "s3_tls c = (case aw_HTTPClient (sc_Options c) of None \<Rightarrow> None | Some (timeout, tls) \<Rightarrow> tls)"

lemma loadAWSConfig_secured:
  "loadAWSConfig env load spec = Inr opts \<Longrightarrow>
     secured (s3_Tls spec) (case aw_HTTPClient opts of None \<Rightarrow> None | Some (timeout, tls) \<Rightarrow> tls)"
  by (auto simp add: loadAWSConfig_def Let_def dest!: client_tls_secured split: option.splits if_splits intro: secured_None)

lemma s3_NewClient_frame: "honours 0 (spec_tls s3_Tls cfg) s3_tls ctx st (s3_NewClient env load ctx cfg st)"
proof (cases cfg)
  case None then show ?thesis by (simp add: s3_NewClient_def)
next
  case (Some spec)
  show ?thesis unfolding s3_NewClient_def Some option.case
    by (rule in_span_honours, cases "loadAWSConfig env load spec")
      (simp_all add: Let_def body_oks loadAWSConfig_secured spec_tls_def s3_tls_def split: option.split)
qed

interpretation s3_store: connector "s3_NewClient env load" "spec_tls s3_Tls" s3_tls 0
  by unfold_locales (rule s3_NewClient_frame)

section \<open>All of them\<close>


text \<open>RabbitMQ has no connection of its own: the validated options carry the same TLS configuration.\<close>

lemma rabbitmq_secured: "rabbitmq_Connect env (Some (Some spec)) = Inr o' \<Longrightarrow> secured (rb_Tls spec) (rq_TLSConfig o')"
  by (auto simp add: rabbitmq_Connect_def client_tls_secured split: if_splits)

section \<open>Ports\<close>

lemma PortFromEnv_valid: "\<not> bad_port fallback \<Longrightarrow> \<not> bad_port (PortFromEnv raw fallback)"
  by (auto simp add: PortFromEnv_def bad_port_def split: option.splits)

end
