(* ===== verification/GoPath.thy ===== *)
theory GoPath
  imports GoStrings
begin

text \<open>
  Package \<open>path/filepath\<close> on slash-separated strings: \<open>Clean\<close>, \<open>Dir\<close>, \<open>Join\<close>, \<open>Abs\<close> and \<open>Rel\<close>.
\<close>

section \<open>Cleaning\<close>

text \<open>The elements kept so far are in reverse order; \<open>..\<close> removes the last one, stays in front of a relative
  path, and is dropped at the root.\<close>

fun clean_elems :: "bool \<Rightarrow> string list \<Rightarrow> string list \<Rightarrow> string list" where
  "clean_elems rooted out [] = rev out"
| "clean_elems rooted out (e # es) =
     (if e = [] \<or> e = ''.'' then clean_elems rooted out es
      else if e = ''..''
      then (case out of
              [] \<Rightarrow> clean_elems rooted (if rooted then [] else [''..'']) es
            | o1 # os \<Rightarrow> clean_elems rooted (if o1 = ''..'' then e # out else os) es)
      else clean_elems rooted (e # out) es)"

definition is_abs :: "string \<Rightarrow> bool" where
  "is_abs p \<longleftrightarrow> p \<noteq> [] \<and> hd p = CHR ''/''"

definition path_elems :: "string \<Rightarrow> string list" where
  "path_elems p = clean_elems (is_abs p) [] (split_on (CHR ''/'') p)"

definition path_text :: "bool \<Rightarrow> string list \<Rightarrow> string" where
  "path_text rooted es = (if rooted then ''/'' @ join ''/'' es else if es = [] then ''.'' else join ''/'' es)"

definition Clean :: "string \<Rightarrow> string" where
  "Clean p = path_text (is_abs p) (path_elems p)"

text \<open>\<open>Dir\<close>: the path up to its last slash, cleaned.\<close>

definition upto_slash :: "string \<Rightarrow> string" where
  "upto_slash p = rev (dropWhile (\<lambda>c. c \<noteq> CHR ''/'') (rev p))"

definition path_Dir :: "string \<Rightarrow> string" where
  "path_Dir p = Clean (upto_slash p)"

definition path_Join :: "string list \<Rightarrow> string" where
  "path_Join ps =
     (let ps = filter (\<lambda>p. p \<noteq> []) ps in if ps = [] then [] else Clean (join ''/'' ps))"

text \<open>\<open>Abs\<close> in a working directory.\<close>

definition path_Abs :: "string \<Rightarrow> string \<Rightarrow> string" where
  "path_Abs wd p = (if is_abs p then Clean p else path_Join [wd, p])"

text \<open>\<open>Rel\<close> of two absolute paths: up from what the base has beyond the common elements.\<close>

definition common_prefix :: "string list \<Rightarrow> string list \<Rightarrow> nat" where
  "common_prefix a b = length (takeWhile (\<lambda>(x, y). x = y) (zip a b))"

definition rel_elems :: "string list \<Rightarrow> string list \<Rightarrow> string list" where
  "rel_elems base targ =
     (let n = common_prefix base targ
      in replicate (length base - n) ''..'' @ drop n targ)"

definition path_Rel :: "string \<Rightarrow> string \<Rightarrow> string" where
  "path_Rel basepath targpath =
     (let r = rel_elems (path_elems basepath) (path_elems targpath)
      in if r = [] then ''.'' else join ''/'' r)"

section \<open>Going up\<close>

text \<open>The size of some elements with a slash after each.\<close>

definition weight :: "string list \<Rightarrow> nat" where
  "weight es = sum_list (map (\<lambda>e. Suc (length e)) es)"

lemma weight_simps [simp]:
  "weight [] = 0" "weight (e # es) = Suc (length e) + weight es" "weight (a @ b) = weight a + weight b"
  "weight (rev es) = weight es"
  by (simp_all add: weight_def rev_map [symmetric])

lemma length_join: "es \<noteq> [] \<Longrightarrow> Suc (length (join ''/'' es)) = weight es"
  by (induction "''/''" es rule: join.induct) simp_all

lemma weight_split: "weight (split_on c s) = Suc (length s)"
proof (induction s)
  case (Cons x s)
  then show ?case by (cases "split_on c s") simp_all
qed simp

text \<open>Cleaning only drops elements, and drops the empty ones.\<close>

lemma weight_clean: "weight (clean_elems rooted out es) \<le> weight out + weight (filter (\<lambda>e. e \<noteq> []) es)"
proof (induction rooted out es rule: clean_elems.induct)
  case (2 rooted out e es)
  then show ?case by (cases out) (auto split: if_splits)
qed simp

lemma clean_elems_nonempty: "[] \<notin> set out \<Longrightarrow> [] \<notin> set (clean_elems rooted out es)"
proof (induction rooted out es rule: clean_elems.induct)
  case (2 rooted out e es)
  then show ?case by (cases out) auto
qed simp

lemma split_on_last: "split_on c (s @ [c]) = split_on c s @ [[]]"
proof (induction s)
  case (Cons x s)
  then show ?case by (cases "split_on c s") auto
qed simp

lemma weight_filter: "weight (filter P es) \<le> weight es"
  by (induction es) auto

text \<open>A path that ends with a slash gets shorter, unless it becomes the root or the working directory.\<close>

lemma Clean_shorter:
  assumes "Clean (s @ ''/'') \<noteq> ''/''" and "Clean (s @ ''/'') \<noteq> ''.''"
  shows "length (Clean (s @ ''/'')) \<le> length s"
proof -
  let ?p = "s @ ''/''" and ?f = "\<lambda>es. weight (filter (\<lambda>e. e \<noteq> []) es)"
  have sp: "split_on (CHR ''/'') ?p = split_on (CHR ''/'') s @ [[]]" by (rule split_on_last)
  have w: "weight (path_elems ?p) \<le> ?f (split_on (CHR ''/'') s)"
    using weight_clean [of "is_abs ?p" "[]" "split_on (CHR ''/'') ?p"] by (simp add: path_elems_def sp)
  have ne: "path_elems ?p \<noteq> []" 
    using assms by (cases "is_abs ?p"; cases "path_elems ?p") (simp_all add: Clean_def path_text_def)
  note len = length_join [OF ne]
  show ?thesis
  proof (cases "is_abs ?p")
    case True
    have "s \<noteq> []" using assms(1) by (auto simp add: Clean_def path_text_def path_elems_def is_abs_def)
    with True obtain s' where s: "s = CHR ''/'' # s'" by (cases s) (simp_all add: is_abs_def)
    have "?f (split_on (CHR ''/'') s) \<le> weight (split_on (CHR ''/'') s')"
      using weight_filter by (simp add: s)
    then show ?thesis using w len by (simp add: Clean_def path_text_def True weight_split s)
  next
    case False
    have "?f (split_on (CHR ''/'') s) \<le> weight (split_on (CHR ''/'') s)" by (rule weight_filter)
    then show ?thesis using w len ne by (simp add: Clean_def path_text_def False weight_split)
  qed
qed

lemma upto_slash_cases: "upto_slash p = [] \<or> (\<exists>s. upto_slash p = s @ ''/'' \<and> length s < length p)"
proof (cases "dropWhile (\<lambda>c. c \<noteq> CHR ''/'') (rev p)")
  case Nil then show ?thesis by (simp add: upto_slash_def)
next
  case (Cons c t)
  then have "c = CHR ''/''" using hd_dropWhile [of "\<lambda>c. c \<noteq> CHR ''/''" "rev p"] by simp
  moreover have "length (c # t) \<le> length p" using length_dropWhile_le [of "\<lambda>c. c \<noteq> CHR ''/''" "rev p"] Cons by simp
  ultimately show ?thesis using Cons by (auto simp add: upto_slash_def)
qed

definition up_measure :: "string \<Rightarrow> nat" where
  "up_measure d = (if d = ''.'' \<or> d = ''/'' then 0 else Suc (length d))"

lemma path_Dir_fixed: "path_Dir ''.'' = ''.''" "path_Dir ''/'' = ''/''"
  by code_simp+

lemma path_Dir_decreases: "path_Dir d \<noteq> d \<Longrightarrow> up_measure (path_Dir d) < up_measure d"
proof -
  assume ne: "path_Dir d \<noteq> d"
  then have d: "up_measure d = Suc (length d)" using path_Dir_fixed by (auto simp add: up_measure_def)
  show ?thesis
  proof (cases "path_Dir d = ''.'' \<or> path_Dir d = ''/''")
    case True then show ?thesis using d by (auto simp add: up_measure_def)
  next
    case False
    have "Clean [] = ''.''" by code_simp
    then have "upto_slash d \<noteq> []" using False by (auto simp add: path_Dir_def)
    then obtain s where s: "upto_slash d = s @ ''/''" "length s < length d" using upto_slash_cases by blast
    have "length (path_Dir d) \<le> length s" using Clean_shorter [of s] False s(1) by (auto simp add: path_Dir_def)
    then show ?thesis using s(2) d by (simp add: up_measure_def)
  qed
qed

end
