(* ===== verification/Codegen.thy ===== *)
theory Codegen
  imports GoPath GoError "HOL-Library.Monad_Syntax"
begin

text \<open>
  Rendering of generated files (\<open>internal/codegen/codegen.go\<close>): the search for an overriding template, the choice
  of the formatter, and the writing of the file.

  The state \<open>'s\<close> is the file system.  The template engine, the two formatters and the operations of package
  \<open>os\<close> are parameters; a template is its source.
\<close>

section \<open>Environment\<close>

datatype stat_answer = StatOk | StatNotExist | StatError go_err

record 's codegen_env =
  cg_stat :: "'s \<Rightarrow> string \<Rightarrow> stat_answer"
  cg_readFile :: "'s \<Rightarrow> string \<Rightarrow> go_err + string"
  cg_embedded :: "string \<Rightarrow> go_err + string"
  cg_parse :: "string \<Rightarrow> string \<Rightarrow> go_err + string"
  cg_getwd :: "go_err + string"
  cg_goimports :: "string \<Rightarrow> string \<Rightarrow> go_err + string"
  cg_gofmt :: "string \<Rightarrow> go_err + string"
  cg_MkdirAll :: "string \<Rightarrow> 's \<Rightarrow> 's \<times> go_err option"
  cg_WriteFile :: "string \<Rightarrow> string \<Rightarrow> 's \<Rightarrow> 's \<times> go_err option"

text \<open>\<open>cf_Data\<close> is the execution of a parsed template on the data of the file.\<close>

record codegen_file =
  cf_Template :: string
  cf_Data :: "string \<Rightarrow> go_err + string"
  cf_OutputPath :: string

section \<open>The overriding template\<close>

definition override_path :: "string \<Rightarrow> string \<Rightarrow> string" where
  "override_path dir name = path_Join [dir, ''.zengo'', ''templates'', name]"

text \<open>The loop of \<open>findOverrideTemplate\<close>; \<open>None\<close> is a loop that does not end.\<close>

partial_function (option) override_loop ::
  "(string \<Rightarrow> stat_answer) \<Rightarrow> string \<Rightarrow> string \<Rightarrow> (go_err + string option) option" where
  "override_loop stat name dir =
     (case stat (override_path dir name) of
        StatOk \<Rightarrow> Some (Inr (Some (override_path dir name)))
      | StatError e \<Rightarrow> Some (Inl e)
      | StatNotExist \<Rightarrow>
          (if path_Dir dir = dir then Some (Inr None) else override_loop stat name (path_Dir dir)))"

definition findOverrideTemplate ::
  "(string \<Rightarrow> stat_answer) \<Rightarrow> string \<Rightarrow> string \<Rightarrow> (go_err + string option) option" where
  "findOverrideTemplate stat name outputPath =
     (if outputPath = [] then Some (Inr None) else override_loop stat name (path_Dir outputPath))"

text \<open>\<open>parseTemplate\<close>: the parsed template.\<close>

definition parseTemplate :: "'s codegen_env \<Rightarrow> 's \<Rightarrow> string \<Rightarrow> string \<Rightarrow> (go_err + string) option" where
  "parseTemplate env s name outputPath =
     map_option (\<lambda>found. bind_err found (\<lambda>override.
        case override of
          Some overridePath \<Rightarrow> bind_err (cg_readFile env s overridePath) (cg_parse env name)
        | None \<Rightarrow> bind_err (cg_embedded env (''templates/'' @ name)) (cg_parse env name)))
       (findOverrideTemplate (cg_stat env s) name outputPath)"

definition executeTemplate ::
  "'s codegen_env \<Rightarrow> 's \<Rightarrow> string \<Rightarrow> (string \<Rightarrow> go_err + string) \<Rightarrow> string \<Rightarrow> (go_err + string) option" where
  "executeTemplate env s name data outputPath =
     map_option (\<lambda>parsed. bind_err parsed data) (parseTemplate env s name outputPath)"

section \<open>Formatting\<close>

definition shouldUseGoimports :: "go_err + string \<Rightarrow> string \<Rightarrow> bool" where
  "shouldUseGoimports getwd filename =
     (if filename = [] then True
      else case getwd of
             Inl e \<Rightarrow> True
           | Inr wd \<Rightarrow>
               (let rel = path_Rel wd (path_Abs wd filename)
                in rel = ''.'' \<or> rel \<noteq> ''..'' \<and> \<not> has_prefix rel ''../''))"

definition FormatSource :: "'s codegen_env \<Rightarrow> string \<Rightarrow> string \<Rightarrow> go_err + string" where
  "FormatSource env src filename =
     (case (if shouldUseGoimports (cg_getwd env) filename then cg_goimports env filename src else Inl (PlainErr [])) of
        Inr formatted \<Rightarrow> Inr formatted
      | Inl _ \<Rightarrow> wrap_err (WrapErr ''gofmt'') (cg_gofmt env src))"

section \<open>Rendering\<close>

definition Render :: "'s codegen_env \<Rightarrow> codegen_file \<Rightarrow> 's \<Rightarrow> ('s \<times> go_err option) option" where
  "Render env f s =
     map_option (\<lambda>src.
       case bind_err src (\<lambda>src. if has_suffix (cf_OutputPath f) ''.go'' then FormatSource env src (cf_OutputPath f) else Inr src) of
         Inl e \<Rightarrow> (s, Some e)
       | Inr src \<Rightarrow>
           (case cg_MkdirAll env (path_Dir (cf_OutputPath f)) s of
              (s, Some e) \<Rightarrow> (s, Some e)
            | (s, None) \<Rightarrow> cg_WriteFile env (cf_OutputPath f) src s))
       (executeTemplate env s (cf_Template f) (cf_Data f) (cf_OutputPath f))"

end
