(* ===== verification/CodegenFacts.thy ===== *)
theory CodegenFacts
  imports Codegen
begin

text \<open>
  Properties of rendering: the search for an override ends and finds the nearest one, and \<open>goimports\<close> is used
  exactly inside the working directory.
\<close>

section \<open>The search ends\<close>

text \<open>A directory and those above it.\<close>

function ancestors :: "string \<Rightarrow> string list" where
  "ancestors d = d # (if path_Dir d = d then [] else ancestors (path_Dir d))"
  by pat_completeness auto
termination by (relation "measure up_measure") (simp_all add: path_Dir_decreases)

declare ancestors.simps [simp del]

fun nearest_override :: "(string \<Rightarrow> stat_answer) \<Rightarrow> string \<Rightarrow> string list \<Rightarrow> go_err + string option" where
  "nearest_override stat name [] = Inr None"
| "nearest_override stat name (d # ds) =
     (case stat (override_path d name) of
        StatOk \<Rightarrow> Inr (Some (override_path d name))
      | StatError e \<Rightarrow> Inl e
      | StatNotExist \<Rightarrow> nearest_override stat name ds)"

lemma override_loop_eq: "override_loop stat name d = Some (nearest_override stat name (ancestors d))"
proof (induction d rule: ancestors.induct)
  case (1 d)
  show ?case
    by (subst override_loop.simps, subst ancestors.simps) (use 1 in \<open>auto split: stat_answer.splits\<close>)
qed

lemma ancestors_ne: "ancestors d \<noteq> []"
  by (simp add: ancestors.simps [of d])

lemma ancestors_chain: "successively (\<lambda>a b. b = path_Dir a \<and> b \<noteq> a) (ancestors d) \<and> hd (ancestors d) = d \<and>
    path_Dir (last (ancestors d)) = last (ancestors d)"
proof (induction d rule: ancestors.induct)
  case (1 d)
  show ?case
  proof (cases "path_Dir d = d")
    case True then show ?thesis by (simp add: ancestors.simps [of d])
  next
    case False
    then show ?thesis using 1 [OF False] ancestors_ne [of "path_Dir d"]
      by (auto simp add: ancestors.simps [of d] successively_Cons)
  qed
qed

text \<open>C36: The search for an overriding template ends for every output path, absolute or relative, clean or not: it
  walks up the directories, each the parent of the one before, to the root or the working directory, and gives the
  override of the nearest one, or the first error that is not a missing file.  So rendering always returns.\<close>

theorem override_search_terminates:
  "findOverrideTemplate stat name outputPath =
     Some (if outputPath = [] then Inr None else nearest_override stat name (ancestors (path_Dir outputPath))) \<and>
   Render env f s \<noteq> None"
  by (simp add: findOverrideTemplate_def override_loop_eq Render_def executeTemplate_def parseTemplate_def)

section \<open>Inside the working directory\<close>

lemma clean_rooted_no_dotdot:
  "''..'' \<notin> set out \<Longrightarrow> ''..'' \<notin> set (clean_elems True out es)"
  by (induction True out es rule: clean_elems.induct) (auto split: list.splits)

lemma clean_elems_set: "set (clean_elems rooted out es) \<subseteq> set out \<union> set es \<union> {''..''}"
  by (induction rooted out es rule: clean_elems.induct) (auto split: list.splits if_splits)

lemma split_on_no_sep: "e \<in> set (split_on c s) \<Longrightarrow> c \<notin> set e"
  by (induction s arbitrary: e) (auto split: list.splits if_splits)

lemma path_elems_no_slash: "e \<in> set (path_elems p) \<Longrightarrow> CHR ''/'' \<notin> set e"
  using clean_elems_set [of "is_abs p" "[]" "split_on (CHR ''/'') p"] split_on_no_sep
  by (fastforce simp add: path_elems_def)

lemma path_elems_abs: "is_abs p \<Longrightarrow> ''..'' \<notin> set (path_elems p)"
  using clean_rooted_no_dotdot [of "[]"] by (simp add: path_elems_def)

lemma common_prefix_le: "common_prefix a b \<le> length a"
  using length_takeWhile_le [of "\<lambda>(x, y). x = y" "zip a b"] by (simp add: common_prefix_def)

lemma common_prefix_full: "common_prefix a b = length a \<longleftrightarrow> prefix a b"
proof (induction a arbitrary: b)
  case (Cons x a)
  then show ?case by (cases b) (auto simp add: common_prefix_def)
qed (simp add: common_prefix_def)

lemma join_dotdot:
  assumes "CHR ''/'' \<notin> set e"
  shows "join ''/'' (e # es) = ''..'' \<or> has_prefix (join ''/'' (e # es)) ''../'' \<longleftrightarrow> e = ''..''"
proof (cases es)
  case Nil
  have "\<not> has_prefix e ''../''" using assms by (auto simp add: has_prefix_iff)
  then show ?thesis by (simp add: Nil)
next
  case (Cons f fs)
  let ?j = "join ''/'' (f # fs)"
  have "e @ CHR ''/'' # ?j \<noteq> ''..''"
  proof
    assume "e @ CHR ''/'' # ?j = ''..''"
    then have "CHR ''/'' \<in> set ''..''" by (metis in_set_conv_decomp)
    then show False by simp
  qed
  moreover have "has_prefix (e @ CHR ''/'' # ?j) ''../'' \<longleftrightarrow> e = ''..''"
  proof
    assume "has_prefix (e @ CHR ''/'' # ?j) ''../''"
    then obtain t where "e @ CHR ''/'' # ?j = ''..'' @ CHR ''/'' # t" by (auto simp add: has_prefix_iff)
    then have "takeWhile (\<lambda>c. c \<noteq> CHR ''/'') (e @ CHR ''/'' # ?j) = takeWhile (\<lambda>c. c \<noteq> CHR ''/'') (''..'' @ CHR ''/'' # t)"
      by simp
    moreover have "takeWhile (\<lambda>c. c \<noteq> CHR ''/'') (e @ CHR ''/'' # ?j) = e" using assms by (subst takeWhile_append2) auto
    ultimately show "e = ''..''" by simp
  qed (simp add: has_prefix_def)
  ultimately show ?thesis by (simp add: Cons)
qed

lemma rel_elems_cases:
  "prefix a b \<Longrightarrow> rel_elems a b = drop (length a) b"
  "\<not> prefix a b \<Longrightarrow> \<exists>es. rel_elems a b = ''..'' # es"
proof -
  show "prefix a b \<Longrightarrow> rel_elems a b = drop (length a) b"
    using common_prefix_full [of a b] by (simp add: rel_elems_def Let_def)
  assume "\<not> prefix a b"
  then have "common_prefix a b < length a" using common_prefix_full [of a b] common_prefix_le [of a b] by simp
  then obtain k where "length a - common_prefix a b = Suc k" by (cases "length a - common_prefix a b") auto
  then show "\<exists>es. rel_elems a b = ''..'' # es" by (simp add: rel_elems_def Let_def)
qed

text \<open>A relative path leads out of its base exactly when the base is not above the target.\<close>

lemma rel_inside:
  assumes "is_abs wd" and "is_abs p"
  shows "(let rel = path_Rel wd p in rel = ''.'' \<or> rel \<noteq> ''..'' \<and> \<not> has_prefix rel ''../'') \<longleftrightarrow>
    prefix (path_elems wd) (path_elems p)"
proof (cases "prefix (path_elems wd) (path_elems p)")
  case True
  note r = rel_elems_cases(1) [OF True]
  show ?thesis
  proof (cases "drop (length (path_elems wd)) (path_elems p)")
    case Nil then show ?thesis using True by (simp add: path_Rel_def r)
  next
    case (Cons e es)
    then have e: "e \<in> set (path_elems p)" by (metis in_set_dropD list.set_intros(1))
    then have "e \<noteq> ''..''" "CHR ''/'' \<notin> set e" using path_elems_abs [OF assms(2)] path_elems_no_slash by auto
    then show ?thesis using True join_dotdot [of e es] by (simp add: path_Rel_def r Cons)
  qed
next
  case False
  obtain es where r: "rel_elems (path_elems wd) (path_elems p) = ''..'' # es" using rel_elems_cases(2) [OF False] by blast
  have "join ''/'' (''..'' # es) = ''..'' \<or> has_prefix (join ''/'' (''..'' # es)) ''../''"
    using join_dotdot [of "''..''" es] by simp
  moreover have "join ''/'' (''..'' # es) \<noteq> ''.''" by (cases es) simp_all
  ultimately show ?thesis using False by (auto simp add: path_Rel_def r Let_def)
qed

lemma path_Abs_abs: "is_abs wd \<Longrightarrow> is_abs (path_Abs wd p)"
  by (cases wd) (auto simp add: path_Abs_def path_Join_def Clean_def path_text_def is_abs_def)

text \<open>\<open>goimports\<close>, which may rewrite imports, is used exactly for files inside the working directory.\<close>

lemma goimports_inside:
  "is_abs wd \<Longrightarrow> filename \<noteq> [] \<Longrightarrow>
     shouldUseGoimports (Inr wd) filename \<longleftrightarrow> prefix (path_elems wd) (path_elems (path_Abs wd filename))"
  using rel_inside [OF _ path_Abs_abs, of wd wd filename] by (simp add: shouldUseGoimports_def)

end
