(* ===== verification/Check.thy ===== *)
theory Check
  imports Pipeline FreshCheck
begin

text \<open>
  The command \<open>zengo check\<close> (\<open>cmd/zengo/check.go\<close>): its checks of a service or of the platform, in order; the first
  that fails ends the process with an exit code.

  The state is the file tree of \<open>FileTree\<close>; running a command is an action on it, and the commands that were run are
  in a trace.  What is printed is left out.
\<close>

section \<open>Environment\<close>

datatype check_event = LoadedManifest string | RanCommand string "string list" | ComparedGenerated string string bool

text \<open>\<open>ck_run\<close> has the directory, \<open>.\<close> for the current one, and the command line; \<open>ck_fresh\<close> is \<open>checkGenFreshIn\<close> with
  the root, the manifest and \<open>skipBuf\<close>.\<close>

record check_env =
  ck_cmd :: "tree cmd_env"
  ck_run :: "string \<Rightarrow> string list \<Rightarrow> tree action"
  ck_git :: "tree \<Rightarrow> bool"
  ck_fresh :: "string \<Rightarrow> string \<Rightarrow> bool \<Rightarrow> tree action"

record checkCommandOptions =
  cc_dir :: string
  cc_manifestPath :: string
  cc_skipTests :: bool
  cc_skipGen :: bool
  cc_skipBuf :: bool
  cc_skipLint :: bool
  cc_breaking :: bool
  cc_against :: string

record check_state =
  cs_tree :: tree
  cs_trace :: "check_event list"

text \<open>The result of a check: the state and the exit code with which it ends the process, if it does.\<close>

type_synonym check_step = "check_state \<Rightarrow> check_state \<times> int option"

definition then_check :: "check_step \<Rightarrow> check_step \<Rightarrow> check_step" where
  "then_check f g st = (case f st of (st, Some code) \<Rightarrow> (st, Some code) | (st, None) \<Rightarrow> g st)"

definition event_check :: "check_event \<Rightarrow> tree action \<Rightarrow> int \<Rightarrow> check_step" where
  "event_check ev act code st =
     (case act (cs_tree st) of
        (t, e) \<Rightarrow> (\<lparr>cs_tree = t, cs_trace = cs_trace st @ [ev]\<rparr>, if e = None then None else Some code))"

definition command_check :: "check_env \<Rightarrow> string \<Rightarrow> string list \<Rightarrow> int \<Rightarrow> check_step" where
  "command_check env dir cmd code = event_check (RanCommand dir cmd) (ck_run env dir cmd) code"

definition when_check :: "(tree \<Rightarrow> bool) \<Rightarrow> check_step \<Rightarrow> check_step" where
  "when_check b f st = (if b (cs_tree st) then f st else (st, None))"

section \<open>The checks\<close>

definition runServiceCheck :: "check_env \<Rightarrow> checkCommandOptions \<Rightarrow> check_step" where
  "runServiceCheck env opts st =
     (case resolveServicePaths (ck_cmd env) (cs_tree st) (cc_dir opts) (cc_manifestPath opts) of
        Inl e \<Rightarrow> (st, Some 1)
      | Inr paths \<Rightarrow>
          (let root = sp_rootDir paths;
               has_buf = (\<lambda>t. ce_exists (ck_cmd env) t (path_join root ''buf.yaml''))
           in then_check
                (event_check (LoadedManifest (sp_manifestPath paths))
                   (\<lambda>t. (t, case ce_load (ck_cmd env) t (sp_manifestPath paths) of Inl e \<Rightarrow> Some e | Inr m \<Rightarrow> None)) 1)
             (then_check
                (when_check (\<lambda>t. \<not> cc_skipLint opts \<and> has_buf t) (command_check env root [''buf'', ''lint''] 1))
             (then_check
                (when_check (\<lambda>t. cc_breaking opts \<and> has_buf t \<and> ck_git env t)
                   (command_check env root [''buf'', ''breaking'', ''--against'', cc_against opts] 1))
             (then_check
                (when_check (\<lambda>t. \<not> cc_skipGen opts)
                   (event_check (ComparedGenerated root (sp_manifestPath paths) (cc_skipBuf opts))
                      (ck_fresh env root (sp_manifestPath paths) (cc_skipBuf opts)) 1))
             (then_check
                (command_check env root [''go'', ''vet'', ''./...''] 12)
                (when_check (\<lambda>t. \<not> cc_skipTests opts) (command_check env root [''go'', ''test'', ''./...''] 1)))))) st))"

definition runPlatformCheck :: "check_env \<Rightarrow> checkCommandOptions \<Rightarrow> check_step" where
  "runPlatformCheck env opts =
     (let has_buf = (\<lambda>t. ce_exists (ck_cmd env) t ''api/buf.yaml'')
      in then_check
           (when_check (\<lambda>t. has_buf t \<and> \<not> cc_skipLint opts)
              (command_check env ''.'' [''buf'', ''lint'', ''--path'', ''api''] 1))
        (then_check
           (when_check (\<lambda>t. cc_breaking opts \<and> has_buf t \<and> ck_git env t)
              (command_check env ''.'' [''buf'', ''breaking'', ''--against'', cc_against opts, ''--path'', ''api''] 1))
        (then_check
           (command_check env ''.'' [''go'', ''vet'', ''./...''] 1)
           (when_check (\<lambda>t. \<not> cc_skipTests opts) (command_check env ''.'' [''go'', ''test'', ''./...''] 1)))))"

definition executeCheck :: "check_env \<Rightarrow> checkCommandOptions \<Rightarrow> check_step" where
  "executeCheck env opts st =
     (if cc_manifestPath opts \<noteq> [] \<or> isServiceRootAt (ck_cmd env) (cs_tree st) (cc_dir opts)
      then runServiceCheck env opts st else runPlatformCheck env opts st)"

text \<open>The freshness check of \<open>FreshCheck\<close>, with the manifest, the plan and the generator of a service as
  parameters.\<close>

definition fresh_of ::
  "(io_op \<Rightarrow> bool) \<Rightarrow> (tree \<Rightarrow> go_err + path \<times> tree) \<Rightarrow> generator \<Rightarrow> (tree \<Rightarrow> string \<Rightarrow> string \<Rightarrow> go_err + generatedPlan)
     \<Rightarrow> string \<Rightarrow> string \<Rightarrow> bool \<Rightarrow> tree action" where
  "fresh_of io mkTemp gen plan root manifest skipBuf t = checkGenFreshIn io mkTemp gen skipBuf (plan t root manifest) t"

end
