(* ===== verification/CheckFacts.thy ===== *)
theory CheckFacts
  imports Check FreshCheckFacts ManifestFacts
begin

text \<open>
  What a successful \<open>zengo check\<close> means.
\<close>

section \<open>Steps\<close>

lemma then_check_ok:
  "then_check f g st = (st', None) \<longleftrightarrow> (\<exists>st1. f st = (st1, None) \<and> g st1 = (st', None))"
  by (auto simp add: then_check_def split: prod.splits option.splits)

lemma event_check_ok:
  "event_check ev act code st = (st', None) \<longleftrightarrow>
     (\<exists>t. act (cs_tree st) = (t, None) \<and> st' = \<lparr>cs_tree = t, cs_trace = cs_trace st @ [ev]\<rparr>)"
  by (auto simp add: event_check_def split: prod.splits if_splits)

lemma when_check_ok:
  "when_check b f st = (st', None) \<longleftrightarrow> (if b (cs_tree st) then f st = (st', None) else st' = st)"
  by (auto simp add: when_check_def)

text \<open>Commands that succeed, and when they are due.\<close>

definition passes :: "check_env \<Rightarrow> string \<Rightarrow> string list \<Rightarrow> tree \<Rightarrow> tree \<Rightarrow> bool" where
  "passes env dir cmd t t' \<longleftrightarrow> ck_run env dir cmd t = (t', None)"

lemma command_check_ok:
  "command_check env dir cmd code st = (st', None) \<longleftrightarrow>
     passes env dir cmd (cs_tree st) (cs_tree st') \<and> cs_trace st' = cs_trace st @ [RanCommand dir cmd]"
  by (cases st') (auto simp add: command_check_def event_check_ok passes_def)

text \<open>A stage that is skipped leaves the tree as it is.\<close>

definition when_due :: "bool \<Rightarrow> (tree \<Rightarrow> tree \<Rightarrow> bool) \<Rightarrow> tree \<Rightarrow> tree \<Rightarrow> bool" where
  "when_due b R t t' \<longleftrightarrow> (if b then R t t' else t' = t)"

lemma when_due_simps [simp]: "when_due True R t t' = R t t'" "when_due False R t t' \<longleftrightarrow> t' = t"
  by (simp_all add: when_due_def)

text \<open>The freshness stage, over the plan of the tree that it sees.\<close>

definition fresh_stage ::
  "generator \<Rightarrow> (tree \<Rightarrow> go_err + path \<times> tree) \<Rightarrow> (tree \<Rightarrow> string \<Rightarrow> string \<Rightarrow> go_err + generatedPlan)
     \<Rightarrow> bool \<Rightarrow> servicePaths \<Rightarrow> tree \<Rightarrow> tree \<Rightarrow> bool" where
  "fresh_stage gen mkTemp plan skipBuf paths t t' \<longleftrightarrow>
     (\<exists>p. plan t (sp_rootDir paths) (sp_manifestPath paths) = Inr p \<and> fresh_targets gen mkTemp skipBuf p t t')"

lemma fresh_of_ok:
  assumes "fresh_of io mkTemp gen plan root manifest skipBuf t = (t', None)"
    and "\<And>p bak t0. plan t root manifest = Inr p \<Longrightarrow> mkTemp t = Inr (bak, t0) \<Longrightarrow>
      new_backup t0 bak \<and> apart (gp_rootDir p) bak (gp_targets p) \<and> keeps_backup gen bak"
  shows "\<exists>p. plan t root manifest = Inr p \<and> fresh_targets gen mkTemp skipBuf p t t'"
proof (cases "plan t root manifest")
  case (Inl e)
  then show ?thesis using assms(1) by (simp add: fresh_of_def checkGenFreshIn_def)
next
  case (Inr p)
  then have "checkGenFreshIn io mkTemp gen skipBuf (Inr p) t = (t', None)"
    using assms(1) by (simp add: fresh_of_def)
  from fresh_check_passes [OF this] assms(2) [OF Inr] show ?thesis using Inr by blast
qed


section \<open>A concrete check\<close>

text \<open>A check of the service of \<open>FreshCheckFacts\<close>: its commands succeed and do nothing.\<close>

definition check_demo_cmd :: "Manifest \<Rightarrow> tree cmd_env" where
  "check_demo_cmd m = \<lparr>ce_abs = Inr, ce_findPath = \<lambda>_ dir. Inr (dir @ ''/zengo.yaml''),
     ce_load = \<lambda>_ _. Inr m, ce_readFile = \<lambda>_ _. None, ce_exists = \<lambda>_ _. True,
     ce_trackMain = \<lambda>_ _. False, ce_fromWorkingDir = \<lambda>d. d, ce_run = \<lambda>_ t. (t, None)\<rparr>"

definition check_demo_env :: "Manifest \<Rightarrow> check_env" where
  "check_demo_env m = \<lparr>ck_cmd = check_demo_cmd m, ck_run = \<lambda>_ _ t. (t, None), ck_git = \<lambda>_. True,
     ck_fresh = fresh_of (\<lambda>_. False) (\<lambda>t. if t = demo_tree then Inr ([''tmp''], t) else Inl (PlainErr []))
       demo_generator (\<lambda>_ _ _. Inr demo_plan)\<rparr>"

definition check_demo_opts :: checkCommandOptions where
  "check_demo_opts = \<lparr>cc_dir = ''svc'', cc_manifestPath = [], cc_skipTests = True, cc_skipGen = False,
     cc_skipBuf = True, cc_skipLint = False, cc_breaking = True, cc_against = ''main''\<rparr>"

lemma check_demo_run:
  "snd (executeCheck (check_demo_env m) check_demo_opts \<lparr>cs_tree = demo_tree, cs_trace = []\<rparr>) = None"
proof -
  have gen: "snd (checkGenFreshIn (\<lambda>_. False) (\<lambda>t. if t = demo_tree then Inr ([''tmp''], t) else Inl (PlainErr []))
      demo_generator True (Inr demo_plan) demo_tree) = None" by code_simp
  show ?thesis
    by (insert gen, cases "checkGenFreshIn (\<lambda>_. False) (\<lambda>t. if t = demo_tree then Inr ([''tmp''], t) else Inl (PlainErr []))
      demo_generator True (Inr demo_plan) demo_tree")
      (simp add: executeCheck_def check_demo_env_def check_demo_cmd_def check_demo_opts_def isServiceRootAt_def
        runServiceCheck_def resolveServicePaths_def resolveRootDir_def then_check_def event_check_def
        command_check_def when_check_def fresh_of_def Let_def)
qed

lemma check_demo_passes: "passes (check_demo_env m) dir cmd t t' \<longleftrightarrow> t' = t"
  by (auto simp add: passes_def check_demo_env_def)


end
