(* ===== verification/CommandLine.thy ===== *)
theory CommandLine
  imports ScaffoldInit Check
begin

text \<open>
  The command line of \<open>zengo\<close> (\<open>cmd/zengo/subcommands.go\<close>, \<open>commands.go\<close>): the parser of package
  \<open>flag\<close>, the flags of each command, what \<open>Execute\<close> passes on, and the second parser of \<open>zengo init\<close>, which accepts
  flags after the service name.

  The dispatch on the command name is package \<open>subcommands\<close>, which parses the arguments after the name with the flag
  set of the command and calls \<open>Execute\<close> (\<open>run_command\<close>).  Help texts of flags are left out, and \<open>time.ParseDuration\<close> is a parameter.
\<close>

section \<open>Package flag\<close>

datatype flag_value = BoolVar bool | StringVar string

type_synonym flag_set = "(string \<times> flag_value) list"

datatype flag_error =
    BadFlagSyntax string | ErrHelp | FlagNotDefined string | FlagNeedsArgument string | InvalidBoolean string string

definition ParseBool :: "string \<Rightarrow> bool option" where
  "ParseBool s =
     (if s \<in> set [''1'', ''t'', ''T'', ''true'', ''TRUE'', ''True''] then Some True
      else if s \<in> set [''0'', ''f'', ''F'', ''false'', ''FALSE'', ''False''] then Some False
      else None)"

definition set_flag :: "string \<Rightarrow> flag_value \<Rightarrow> flag_set \<Rightarrow> flag_set" where
  "set_flag name v fs = map (\<lambda>(k, w). (k, if k = name then v else w)) fs"

text \<open>The name of a flag and the value after an equals sign, which cannot be the first character.\<close>

definition split_flag :: "string \<Rightarrow> string \<times> string option" where
  "split_flag s =
     (let n = takeWhile (\<lambda>c. c \<noteq> CHR ''='') (tl s); rest = drop (length n) (tl s)
      in (hd s # n, if rest = [] then None else Some (tl rest)))"

text \<open>\<open>parseOne\<close>: the flag set and the arguments that are left, and whether a flag was read.\<close>

definition parse_flag :: "flag_set \<Rightarrow> string \<Rightarrow> string \<Rightarrow> string list \<Rightarrow> flag_error + (flag_set \<times> string list \<times> bool)" where
  "parse_flag fs s nameText args =
     (if nameText = [] \<or> hd nameText = CHR ''-'' \<or> hd nameText = CHR ''='' then Inl (BadFlagSyntax s)
      else case split_flag nameText of (name, value) \<Rightarrow>
        (case map_of fs name of
           None \<Rightarrow> Inl (if name = ''help'' \<or> name = ''h'' then ErrHelp else FlagNotDefined name)
         | Some (BoolVar _) \<Rightarrow>
             (let v = (case value of None \<Rightarrow> ''true'' | Some v \<Rightarrow> v)
              in case ParseBool v of
                   None \<Rightarrow> Inl (InvalidBoolean v name)
                 | Some b \<Rightarrow> Inr (set_flag name (BoolVar b) fs, args, True))
         | Some (StringVar _) \<Rightarrow>
             (case value of
                Some v \<Rightarrow> Inr (set_flag name (StringVar v) fs, args, True)
              | None \<Rightarrow>
                  (case args of
                     [] \<Rightarrow> Inl (FlagNeedsArgument name)
                   | v # args \<Rightarrow> Inr (set_flag name (StringVar v) fs, args, True)))))"

definition parseOne :: "flag_set \<Rightarrow> string list \<Rightarrow> flag_error + (flag_set \<times> string list \<times> bool)" where
  "parseOne fs args =
     (case args of
        [] \<Rightarrow> Inr (fs, args, False)
      | s # rest \<Rightarrow>
          if length s < 2 \<or> hd s \<noteq> CHR ''-'' then Inr (fs, args, False)
          else if s ! 1 = CHR ''-''
          then (if length s = 2 then Inr (fs, rest, False) else parse_flag fs s (drop 2 s) rest)
          else parse_flag fs s (drop 1 s) rest)"

lemma parse_flag_decreases: "parse_flag fs s n args = Inr (fs', args', again) \<Longrightarrow> length args' \<le> length args"
  by (auto simp add: parse_flag_def Let_def split: if_splits prod.splits option.splits flag_value.splits list.splits)

lemma parseOne_decreases: "parseOne fs args = Inr (fs', args', True) \<Longrightarrow> length args' < length args"
  by (auto simp add: parseOne_def less_Suc_eq_le split: list.splits if_splits dest: parse_flag_decreases)

function flag_Parse :: "flag_set \<Rightarrow> string list \<Rightarrow> flag_error + (flag_set \<times> string list)" where
  "flag_Parse fs args =
     (case parseOne fs args of
        Inl e \<Rightarrow> Inl e
      | Inr (fs', args', again) \<Rightarrow> if again then flag_Parse fs' args' else Inr (fs', args'))"
  by pat_completeness auto
termination
  by (relation "measure (\<lambda>(fs, args). length args)") (auto dest: parseOne_decreases)

declare flag_Parse.simps [simp del]

definition flag_bool :: "flag_set \<Rightarrow> string \<Rightarrow> bool" where
  "flag_bool fs name = (case map_of fs name of Some (BoolVar b) \<Rightarrow> b | _ \<Rightarrow> False)"

definition flag_string :: "flag_set \<Rightarrow> string \<Rightarrow> string" where
  "flag_string fs name = (case map_of fs name of Some (StringVar s) \<Rightarrow> s | _ \<Rightarrow> [])"

section \<open>Arguments of init\<close>

record initArgs =
  ia_name :: string
  ia_dir :: string
  ia_noGen :: bool
  ia_manifestFormat :: ManifestFormat

datatype cli_error =
    UnknownFormat go_err | MissingFormat | UnknownFlag string | NameRequired | TooManyArguments "string list"

fun init_loop :: "string list \<Rightarrow> initArgs \<Rightarrow> string list \<Rightarrow> cli_error + (initArgs \<times> string list)" where
  "init_loop [] parsed positional = Inr (parsed, positional)"
| "init_loop (arg # rest) parsed positional =
     (if arg = ''--no-gen'' \<or> arg = ''--no-gen=true'' then init_loop rest (parsed\<lparr>ia_noGen := True\<rparr>) positional
      else if arg = ''--no-gen=false'' then init_loop rest (parsed\<lparr>ia_noGen := False\<rparr>) positional
      else if arg = ''--manifest-format''
      then (case rest of
              [] \<Rightarrow> Inl MissingFormat
            | raw # rest' \<Rightarrow>
                (case ParseManifestFormat raw of
                   Inl e \<Rightarrow> Inl (UnknownFormat e)
                 | Inr format \<Rightarrow> init_loop rest' (parsed\<lparr>ia_manifestFormat := format\<rparr>) positional))
      else if has_prefix arg ''--manifest-format=''
      then (case ParseManifestFormat (trim_prefix arg ''--manifest-format='') of
              Inl e \<Rightarrow> Inl (UnknownFormat e)
            | Inr format \<Rightarrow> init_loop rest (parsed\<lparr>ia_manifestFormat := format\<rparr>) positional)
      else if has_prefix arg ''-'' then Inl (UnknownFlag arg)
      else init_loop rest parsed (positional @ [arg]))"

definition parseInitArgsWithDefaults :: "string list \<Rightarrow> initArgs \<Rightarrow> cli_error + initArgs" where
  "parseInitArgsWithDefaults args defaults =
     (let parsed = (if ia_manifestFormat defaults = ManifestFormatUnset
                    then defaults\<lparr>ia_manifestFormat := ManifestFormatTextproto\<rparr> else defaults)
      in case init_loop args parsed [] of
           Inl e \<Rightarrow> Inl e
         | Inr (parsed, positional) \<Rightarrow>
             (case positional of
                [] \<Rightarrow> Inl NameRequired
              | [name] \<Rightarrow> Inr (parsed\<lparr>ia_name := name, ia_dir := name\<rparr>)
              | [name, dir] \<Rightarrow> Inr (parsed\<lparr>ia_name := name, ia_dir := dir\<rparr>)
              | _ \<Rightarrow> Inl (TooManyArguments (drop 2 positional))))"

definition parseInitArgs :: "string list \<Rightarrow> cli_error + initArgs" where
  "parseInitArgs args =
     parseInitArgsWithDefaults args
       \<lparr>ia_name = [], ia_dir = [], ia_noGen = False, ia_manifestFormat = ManifestFormatTextproto\<rparr>"

section \<open>Commands\<close>

record genCommandOptions =
  gc_dir :: string
  gc_manifestPath :: string
  gc_skipBuf :: bool
  gc_protoOnly :: bool
  gc_wireOnly :: bool
  gc_skipSQLC :: bool
  gc_skipCQL :: bool
  gc_skipMain :: bool

record devCommandOptions =
  do_dir :: string
  do_manifestPath :: string
  do_skipBuf :: bool
  do_cmdPath :: string
  do_interval :: int

record addCommandOptions =
  ac_dir :: string
  ac_gen :: bool
  ac_targets :: "string list"

text \<open>What \<open>Execute\<close> does: a usage error, the end of the process, or a call.\<close>

datatype command_result =
    UsageError cli_error | Fails int | ExecuteInit initArgs | ExecuteGen genCommandOptions
  | ExecuteCheck checkCommandOptions | ExecuteDev devCommandOptions | ExecuteAdd addCommandOptions
  | RunVersion "string list"

record command =
  cmd_Name :: string
  cmd_Synopsis :: string
  cmd_Usage :: string
  cmd_SetFlags :: flag_set
  cmd_Execute :: "flag_set \<Rightarrow> string list \<Rightarrow> command_result"

definition init_Execute :: "flag_set \<Rightarrow> string list \<Rightarrow> command_result" where
  "init_Execute fs args =
     (case ParseManifestFormat (flag_string fs ''manifest-format'') of
        Inl e \<Rightarrow> UsageError (UnknownFormat e)
      | Inr defaultFormat \<Rightarrow>
          (case parseInitArgsWithDefaults args
                  \<lparr>ia_name = [], ia_dir = [], ia_noGen = flag_bool fs ''no-gen'', ia_manifestFormat = defaultFormat\<rparr> of
             Inl e \<Rightarrow> UsageError e
           | Inr parsed \<Rightarrow> ExecuteInit parsed))"

definition initCommand :: command where
  "initCommand =
     \<lparr>cmd_Name = ''init'', cmd_Synopsis = ''Scaffold a new service.'',
      cmd_Usage = ''init [--no-gen] [--manifest-format textproto|yaml] <service-name> [dir]'' @ [CHR 0x0A],
      cmd_SetFlags = [(''no-gen'', BoolVar False), (''manifest-format'', StringVar ''textproto'')],
      cmd_Execute = init_Execute\<rparr>"

definition genCommand :: command where
  "genCommand =
     \<lparr>cmd_Name = ''gen'', cmd_Synopsis = ''Run code generation for a service.'',
      cmd_Usage = ''gen [--dir DIR] [--manifest PATH] [--skip-buf] [--proto-only|--wire-only] [--skip-sqlc] [--skip-main]'' @ [CHR 0x0A],
      cmd_SetFlags = [(''dir'', StringVar ''.''), (''manifest'', StringVar ''''), (''skip-buf'', BoolVar False),
        (''proto-only'', BoolVar False), (''wire-only'', BoolVar False), (''skip-sqlc'', BoolVar False),
        (''skip-cql'', BoolVar False), (''skip-main'', BoolVar False)],
      cmd_Execute = (\<lambda>fs args. ExecuteGen
        \<lparr>gc_dir = flag_string fs ''dir'', gc_manifestPath = flag_string fs ''manifest'',
         gc_skipBuf = flag_bool fs ''skip-buf'', gc_protoOnly = flag_bool fs ''proto-only'',
         gc_wireOnly = flag_bool fs ''wire-only'', gc_skipSQLC = flag_bool fs ''skip-sqlc'',
         gc_skipCQL = flag_bool fs ''skip-cql'', gc_skipMain = flag_bool fs ''skip-main''\<rparr>)\<rparr>"

definition checkCommand :: command where
  "checkCommand =
     \<lparr>cmd_Name = ''check'', cmd_Synopsis = ''Run service or platform validation checks.'',
      cmd_Usage = ''check [--dir DIR] [--manifest PATH] [--skip-test] [--skip-gen] [--skip-buf] [--skip-lint] [--breaking] [--against REF]'' @ [CHR 0x0A],
      cmd_SetFlags = [(''dir'', StringVar ''.''), (''manifest'', StringVar ''''), (''skip-test'', BoolVar False),
        (''skip-gen'', BoolVar False), (''skip-buf'', BoolVar False), (''skip-lint'', BoolVar False),
        (''breaking'', BoolVar False), (''against'', StringVar ''.git#branch=main'')],
      cmd_Execute = (\<lambda>fs args. ExecuteCheck
        \<lparr>cc_dir = flag_string fs ''dir'', cc_manifestPath = flag_string fs ''manifest'',
         cc_skipTests = flag_bool fs ''skip-test'', cc_skipGen = flag_bool fs ''skip-gen'',
         cc_skipBuf = flag_bool fs ''skip-buf'', cc_skipLint = flag_bool fs ''skip-lint'',
         cc_breaking = flag_bool fs ''breaking'', cc_against = flag_string fs ''against''\<rparr>)\<rparr>"

text \<open>\<open>mustParseDuration\<close> ends the process on an interval that does not parse.\<close>

definition mustParseDuration :: "(string \<Rightarrow> int option) \<Rightarrow> string \<Rightarrow> int + int" where
  "mustParseDuration ParseDuration raw = (case ParseDuration raw of None \<Rightarrow> Inl 1 | Some d \<Rightarrow> Inr d)"

definition devCommand :: "(string \<Rightarrow> int option) \<Rightarrow> command" where
  "devCommand ParseDuration =
     \<lparr>cmd_Name = ''dev'', cmd_Synopsis = ''Watch service files, regenerate, and restart go run.'',
      cmd_Usage = ''dev [--dir DIR] [--manifest PATH] [--cmd ./cmd] [--skip-buf] [--interval 1500ms]'' @ [CHR 0x0A],
      cmd_SetFlags = [(''dir'', StringVar ''.''), (''manifest'', StringVar ''''), (''skip-buf'', BoolVar False),
        (''cmd'', StringVar ''./cmd''), (''interval'', StringVar ''1500ms'')],
      cmd_Execute = (\<lambda>fs args.
        case mustParseDuration ParseDuration (flag_string fs ''interval'') of
          Inl code \<Rightarrow> Fails code
        | Inr interval \<Rightarrow> ExecuteDev
            \<lparr>do_dir = flag_string fs ''dir'', do_manifestPath = flag_string fs ''manifest'',
             do_skipBuf = flag_bool fs ''skip-buf'', do_cmdPath = flag_string fs ''cmd'', do_interval = interval\<rparr>)\<rparr>"

definition addCommand :: command where
  "addCommand =
     \<lparr>cmd_Name = ''add'', cmd_Synopsis = ''Patch a service manifest with new components.'',
      cmd_Usage = ''add [--dir DIR] [--gen=true] <target> [target...]'' @ [CHR 0x0A],
      cmd_SetFlags = [(''dir'', StringVar ''.''), (''gen'', BoolVar True)],
      cmd_Execute = (\<lambda>fs args. ExecuteAdd
        \<lparr>ac_dir = flag_string fs ''dir'', ac_gen = flag_bool fs ''gen'', ac_targets = args\<rparr>)\<rparr>"

definition versionCommand :: command where
  "versionCommand =
     \<lparr>cmd_Name = ''version'', cmd_Synopsis = ''Run version-related commands.'',
      cmd_Usage = ''version freeze <vN>'' @ [CHR 0x0A], cmd_SetFlags = [], cmd_Execute = (\<lambda>fs args. RunVersion args)\<rparr>"

text \<open>The commands that \<open>newCommander\<close> registers, after those of package \<open>subcommands\<close> itself.\<close>

definition newCommander :: "(string \<Rightarrow> int option) \<Rightarrow> command list" where
  "newCommander ParseDuration =
     [initCommand, genCommand, checkCommand, devCommand ParseDuration, addCommand, versionCommand]"

definition run_command :: "command \<Rightarrow> string list \<Rightarrow> flag_error + command_result" where
  "run_command c args =
     (case flag_Parse (cmd_SetFlags c) args of
        Inl e \<Rightarrow> Inl e
      | Inr (fs, rest) \<Rightarrow> Inr (cmd_Execute c fs rest))"

end
