(* ===== verification/CommandLineFacts.thy ===== *)
theory CommandLineFacts
  imports CommandLine
begin

text \<open>
  What the command line of \<open>zengo\<close> means: \<open>zengo init\<close> takes its flags in any position, and every flag of every
  command sets the option that it names.
\<close>

section \<open>zengo init\<close>

text \<open>The arguments of \<open>zengo init\<close>, as a user may write them.\<close>

datatype init_token = Positional string | NoGenFlag bool | FormatFlag bool ManifestFormat

definition format_text :: "ManifestFormat \<Rightarrow> string" where
  "format_text f = (if f = ManifestFormatYAML then ''yaml'' else ''textproto'')"

fun render_init :: "init_token \<Rightarrow> string list" where
  "render_init (Positional p) = [p]"
| "render_init (NoGenFlag b) = [if b then ''--no-gen'' else ''--no-gen=false'']"
| "render_init (FormatFlag joined f) =
     (if joined then [''--manifest-format='' @ format_text f] else [''--manifest-format'', format_text f])"

fun positionals :: "init_token list \<Rightarrow> string list" where
  "positionals [] = []"
| "positionals (Positional p # ts) = p # positionals ts"
| "positionals (_ # ts) = positionals ts"

fun settings :: "bool \<times> ManifestFormat \<Rightarrow> init_token list \<Rightarrow> bool \<times> ManifestFormat" where
  "settings (b, f) [] = (b, f)"
| "settings (b, f) (NoGenFlag b' # ts) = settings (b', f) ts"
| "settings (b, f) (FormatFlag _ f' # ts) = settings (b, f') ts"
| "settings (b, f) (Positional _ # ts) = settings (b, f) ts"

text \<open>What the arguments ask for: the last flag of each kind counts, wherever it stands.\<close>

definition init_result :: "bool \<times> ManifestFormat \<Rightarrow> string list \<Rightarrow> command_result" where
  "init_result bf ps =
     (case ps of
        [] \<Rightarrow> UsageError NameRequired
      | [name] \<Rightarrow> ExecuteInit \<lparr>ia_name = name, ia_dir = name, ia_noGen = fst bf, ia_manifestFormat = snd bf\<rparr>
      | [name, dir] \<Rightarrow> ExecuteInit \<lparr>ia_name = name, ia_dir = dir, ia_noGen = fst bf, ia_manifestFormat = snd bf\<rparr>
      | _ \<Rightarrow> UsageError (TooManyArguments (drop 2 ps)))"

definition init_flags :: "bool \<Rightarrow> ManifestFormat \<Rightarrow> flag_set" where
  "init_flags b f = [(''no-gen'', BoolVar b), (''manifest-format'', StringVar (format_text f))]"

lemma ParseManifestFormat_text:
  "f \<noteq> ManifestFormatUnset \<Longrightarrow> ParseManifestFormat (format_text f) = Inr f"
  by (cases f) (simp_all add: format_text_def ParseManifestFormat_def trim_space_def trim_func_def is_space_def to_lower_def
      lower_char_def is_upper_def Let_def)

text \<open>The second parser.\<close>

lemma init_loop_no_gen:
  "init_loop (''--no-gen'' # rest) parsed ps = init_loop rest (parsed\<lparr>ia_noGen := True\<rparr>) ps"
  "init_loop (''--no-gen=false'' # rest) parsed ps = init_loop rest (parsed\<lparr>ia_noGen := False\<rparr>) ps"
  by simp_all

lemma init_loop_format:
  assumes "f \<noteq> ManifestFormatUnset"
  shows "init_loop (''--manifest-format'' # format_text f # rest) parsed ps =
      init_loop rest (parsed\<lparr>ia_manifestFormat := f\<rparr>) ps"
    and "init_loop ((''--manifest-format='' @ format_text f) # rest) parsed ps =
      init_loop rest (parsed\<lparr>ia_manifestFormat := f\<rparr>) ps"
  using ParseManifestFormat_text [OF assms] by (simp_all add: has_prefix_def trim_prefix_def)

lemma init_loop_positional:
  assumes "\<not> has_prefix p ''-''"
  shows "init_loop (p # rest) parsed ps = init_loop rest parsed (ps @ [p])"
proof -
  have "p \<noteq> CHR ''-'' # s" "\<not> has_prefix p (CHR ''-'' # s)" for s
    using assms by (cases p; simp add: has_prefix_def)+
  then show ?thesis using assms by simp
qed

lemmas init_loop_steps = init_loop_no_gen init_loop_format init_loop_positional

lemma init_loop_rendered:
  assumes "\<forall>p \<in> set (positionals ts). \<not> has_prefix p ''-''"
    and "\<forall>j. FormatFlag j ManifestFormatUnset \<notin> set ts"
  shows "init_loop (concat (map render_init ts)) parsed ps =
    (case settings (ia_noGen parsed, ia_manifestFormat parsed) ts of
       (b, f) \<Rightarrow> Inr (parsed\<lparr>ia_noGen := b, ia_manifestFormat := f\<rparr>, ps @ positionals ts))"
  using assms
proof (induction ts arbitrary: parsed ps)
  case Nil
  then show ?case by simp
next
  case (Cons t ts)
  note [simp del] = init_loop.simps(2)
  show ?case
  proof (cases t)
    case (Positional p)
    then show ?thesis using Cons by (simp add: init_loop_positional)
  next
    case (NoGenFlag b)
    then show ?thesis using Cons by (cases b) (simp_all add: init_loop_no_gen split: prod.splits)
  next
    case (FormatFlag j f)
    then have "f \<noteq> ManifestFormatUnset" using Cons.prems(2) by auto
    note step = init_loop_format [OF this]
    show ?thesis using Cons FormatFlag step(1) step(2) [simplified] by (cases j) (simp_all split: prod.splits)
  qed
qed

text \<open>A flag with a value in the same argument sets the option that it names, of any command.\<close>

definition plain_flag :: "string \<Rightarrow> bool" where
  "plain_flag name \<longleftrightarrow> name \<noteq> [] \<and> hd name \<noteq> CHR ''-'' \<and> CHR ''='' \<notin> set name"

lemma split_flag_joined: "plain_flag name \<Longrightarrow> split_flag (name @ CHR ''='' # v) = (name, Some v)"
proof -
  assume plain: "plain_flag name"
  then obtain c n where n: "name = c # n" by (cases name) (auto simp add: plain_flag_def)
  have "takeWhile (\<lambda>c. c \<noteq> CHR ''='') (n @ CHR ''='' # v) = n"
    using plain by (auto simp add: plain_flag_def n takeWhile_append)
  then show ?thesis by (simp add: n split_flag_def Let_def)
qed

lemma parse_flag_joined:
  assumes "plain_flag name"
  shows "parseOne fs ((''--'' @ name @ CHR ''='' # v) # rest) = parse_flag fs (''--'' @ name @ CHR ''='' # v) (name @ CHR ''='' # v) rest"
  using assms by (cases name) (simp_all add: parseOne_def plain_flag_def)

lemma flag_Parse_assign:
  assumes "plain_flag name"
  shows "map_of fs name = Some (StringVar w) \<Longrightarrow>
      flag_Parse fs ((''--'' @ name @ CHR ''='' # v) # rest) = flag_Parse (set_flag name (StringVar v) fs) rest"
    and "map_of fs name = Some (BoolVar b) \<Longrightarrow> ParseBool v = Some b' \<Longrightarrow>
      flag_Parse fs ((''--'' @ name @ CHR ''='' # v) # rest) = flag_Parse (set_flag name (BoolVar b') fs) rest"
proof -
  have hd: "hd (name @ CHR ''='' # v) \<noteq> CHR ''-''" "hd (name @ CHR ''='' # v) \<noteq> CHR ''=''"
    using assms by (cases name; auto simp add: plain_flag_def)+
  note one = flag_Parse.simps [of fs "(''--'' @ name @ CHR ''='' # v) # rest", unfolded parse_flag_joined [OF assms]]
  show "map_of fs name = Some (StringVar w) \<Longrightarrow>
      flag_Parse fs ((''--'' @ name @ CHR ''='' # v) # rest) = flag_Parse (set_flag name (StringVar v) fs) rest"
    unfolding one using hd by (simp add: parse_flag_def split_flag_joined [OF assms])
  show "map_of fs name = Some (BoolVar b) \<Longrightarrow> ParseBool v = Some b' \<Longrightarrow>
      flag_Parse fs ((''--'' @ name @ CHR ''='' # v) # rest) = flag_Parse (set_flag name (BoolVar b') fs) rest"
    unfolding one using hd by (simp add: parse_flag_def split_flag_joined [OF assms] Let_def)
qed

text \<open>The parser of package \<open>flag\<close>, which stops at the first argument that is not a flag.\<close>

lemma flag_Parse_no_gen:
  "flag_Parse (init_flags b f) (''--no-gen'' # rest) = flag_Parse (init_flags True f) rest"
  "flag_Parse (init_flags b f) (''--no-gen=false'' # rest) = flag_Parse (init_flags False f) rest"
  by (subst flag_Parse.simps,
      simp add: parseOne_def parse_flag_def split_flag_def init_flags_def set_flag_def ParseBool_def Let_def)+

lemma flag_Parse_format:
  "flag_Parse (init_flags b f) (''--manifest-format'' # format_text f' # rest) = flag_Parse (init_flags b f') rest"
  "flag_Parse (init_flags b f) ((''--manifest-format='' @ format_text f') # rest) = flag_Parse (init_flags b f') rest"
  by (subst flag_Parse.simps,
      simp add: parseOne_def parse_flag_def split_flag_def init_flags_def set_flag_def Let_def)+

lemma flag_Parse_stops:
  "flag_Parse fs [] = Inr (fs, [])"
  "\<not> has_prefix p ''-'' \<Longrightarrow> flag_Parse fs (p # rest) = Inr (fs, p # rest)"
  by (subst flag_Parse.simps, cases p; simp add: parseOne_def has_prefix_def)+

lemma init_Execute_rendered:
  assumes "\<forall>p \<in> set (positionals ts). \<not> has_prefix p ''-''"
    and "\<forall>j. FormatFlag j ManifestFormatUnset \<notin> set ts" and "f \<noteq> ManifestFormatUnset"
  shows "init_Execute (init_flags b f) (concat (map render_init ts)) = init_result (settings (b, f) ts) (positionals ts)"
  using init_loop_rendered [OF assms(1,2), of "\<lparr>ia_name = [], ia_dir = [], ia_noGen = b, ia_manifestFormat = f\<rparr>" "[]"]
    assms(3) ParseManifestFormat_text [OF assms(3)]
  by (auto simp add: init_Execute_def parseInitArgsWithDefaults_def init_flags_def flag_string_def flag_bool_def
      init_result_def split: prod.splits list.splits)

lemma init_command_rendered:
  assumes "\<forall>p \<in> set (positionals ts). \<not> has_prefix p ''-''"
    and "\<forall>j. FormatFlag j ManifestFormatUnset \<notin> set ts" and "f \<noteq> ManifestFormatUnset"
  shows "(case flag_Parse (init_flags b f) (concat (map render_init ts)) of
      Inl e \<Rightarrow> Inl e | Inr (fs, rest) \<Rightarrow> Inr (init_Execute fs rest)) =
    Inr (init_result (settings (b, f) ts) (positionals ts))"
  using assms
proof (induction ts arbitrary: b f)
  case Nil
  then show ?case using init_Execute_rendered [of "[]" f b] by (simp add: flag_Parse_stops)
next
  case (Cons t ts)
  show ?case
  proof (cases t)
    case (Positional p)
    then show ?thesis
      using Cons.prems init_Execute_rendered [OF Cons.prems, of b] by (simp add: flag_Parse_stops)
  next
    case (NoGenFlag b')
    then show ?thesis using Cons by (cases b') (simp_all add: flag_Parse_no_gen)
  next
    case (FormatFlag j f')
    then have "f' \<noteq> ManifestFormatUnset" using Cons.prems(2) by auto
    then show ?thesis using Cons FormatFlag by (cases j) (simp_all add: flag_Parse_format [simplified] flag_Parse_format)
  qed
qed

text \<open>\<open>zengo init\<close> takes its flags in any position.  Arguments before the service name are read by package
  \<open>flag\<close> and those after it by a second parser; whatever the order, the last flag of each kind decides, the names are the
  arguments that are no flags, and none or more than two of them is a usage error.\<close>

theorem init_flags_anywhere:
  assumes "\<forall>p \<in> set (positionals ts). \<not> has_prefix p ''-''"
    and "\<forall>joined. FormatFlag joined ManifestFormatUnset \<notin> set ts"
  shows "run_command initCommand (concat (map render_init ts)) =
    Inr (init_result (settings (False, ManifestFormatTextproto) ts) (positionals ts))"
  using init_command_rendered [OF assms, of ManifestFormatTextproto False]
  unfolding run_command_def initCommand_def command.simps by (simp add: init_flags_def format_text_def)

theorem init_flags_anywhere_witness:
  "run_command initCommand [''--manifest-format'', ''yaml'', ''orders'', ''--no-gen'', ''dir'', ''--no-gen=false''] =
     Inr (ExecuteInit \<lparr>ia_name = ''orders'', ia_dir = ''dir'', ia_noGen = False, ia_manifestFormat = ManifestFormatYAML\<rparr>)"
  using init_flags_anywhere [of "[FormatFlag False ManifestFormatYAML, Positional ''orders'', NoGenFlag True,
      Positional ''dir'', NoGenFlag False]"]
  by (simp add: format_text_def init_result_def has_prefix_def)

end
