(* ===== verification/Commands.thy ===== *)
theory Commands
  imports CommandLine ScaffoldAdd Freeze GoPath
begin

text \<open>
  What the commands \<open>init\<close>, \<open>gen\<close>, \<open>add\<close> and \<open>version\<close> of \<open>zengo\<close> do (\<open>cmd/zengo/commands.go\<close>, \<open>add.go\<close>, \<open>main.go\<close>,
  \<open>helpers.go\<close>), composed of the models of the packages that they call.

  A command returns the state and, when it ends the process, the exit code.  What is printed is left out.
\<close>

section \<open>zengo gen\<close>

definition executeGen :: "'s cmd_env \<Rightarrow> genCommandOptions \<Rightarrow> 's \<Rightarrow> 's \<times> int option" where
  "executeGen env opts s =
     (case runGenerateAll env (gc_dir opts) (gc_manifestPath opts)
             \<lparr>go_skipBuf = gc_skipBuf opts, go_protoOnly = gc_protoOnly opts, go_wireOnly = gc_wireOnly opts,
              go_skipSQLC = gc_skipSQLC opts, go_skipCQL = gc_skipCQL opts, go_skipMain = gc_skipMain opts,
              go_forceMain = False, go_quietMain = False\<rparr> s of
        (s, e) \<Rightarrow> (s, if e = None then None else Some 1))"

text \<open>\<open>pathFromWorkingDir\<close>: \<open>wd\<close> is the result of \<open>os.Getwd\<close>, an absolute path; \<open>Rel\<close> fails for a relative one.\<close>

definition pathFromWorkingDir :: "go_err + string \<Rightarrow> string \<Rightarrow> string" where
  "pathFromWorkingDir wd path =
     (case wd of Inl e \<Rightarrow> path | Inr wd \<Rightarrow> if is_abs path then path_Rel wd path else path)"

section \<open>zengo init\<close>

definition plain_options :: "bool \<Rightarrow> genOptions" where
  "plain_options force =
     \<lparr>go_skipBuf = False, go_protoOnly = False, go_wireOnly = False, go_skipSQLC = False, go_skipCQL = False,
      go_skipMain = False, go_forceMain = force, go_quietMain = True\<rparr>"

text \<open>\<open>run\<close> runs a command line in a directory.\<close>

definition finalizeInit :: "'s cmd_env \<Rightarrow> (string \<Rightarrow> string list \<Rightarrow> 's action) \<Rightarrow> string \<Rightarrow> 's action" where
  "finalizeInit env run dir s =
     (case resolveServicePaths env s dir [] of
        Inl e \<Rightarrow> (s, Some e)
      | Inr paths \<Rightarrow>
          (case run (sp_rootDir paths) [''buf'', ''dep'', ''update''] s of
             (s, Some e) \<Rightarrow> (s, Some (WrapErr ''buf dep update'' e))
           | (s, None) \<Rightarrow> runGenerateAll env (sp_rootDir paths) (sp_manifestPath paths) (plain_options True) s))"

record init_env =
  ie_io :: "io_op \<Rightarrow> bool"
  ie_cmd :: "tree cmd_env"
  ie_run :: "string \<Rightarrow> string list \<Rightarrow> tree action"
  ie_platform :: "string \<Rightarrow> go_err + string"
  ie_templates :: "(path \<times> node) list"
  ie_path :: "string \<Rightarrow> path"

definition executeInit :: "init_env \<Rightarrow> initArgs \<Rightarrow> tree \<Rightarrow> tree \<times> int option" where
  "executeInit env parsed t =
     (case InitService (ie_io env) (ie_platform env (ia_dir parsed)) (ie_templates env) (ia_name parsed)
             (ie_path env (ia_dir parsed)) (ia_manifestFormat parsed) t of
        (t, Some e) \<Rightarrow> (t, Some 1)
      | (t, None) \<Rightarrow>
          if ia_noGen parsed then (t, None)
          else (case finalizeInit (ie_cmd env) (ie_run env) (ia_dir parsed) t of
                  (t, Some e) \<Rightarrow> (t, Some 1)
                | (t, None) \<Rightarrow> (t, None)))"

section \<open>zengo add\<close>

definition isServiceRootIn :: "'s cmd_env \<Rightarrow> 's \<Rightarrow> string \<Rightarrow> bool" where
  "isServiceRootIn env s dir =
     (if list_ex (\<lambda>name. ce_exists env s (path_join dir name))
           [''zengo.yaml'', ''zengo.yml'', ''zengo.textproto'', ''zengo.pbtxt''] then True
      else ce_exists env s (path_join dir ''buf.gen.yaml'') \<and> ce_exists env s (path_join dir ''api''))"

text \<open>\<open>scaffold.Add\<close> of each target, up to the first that fails.\<close>

fun add_targets :: "'e add_env \<Rightarrow> templates \<Rightarrow> (string \<Rightarrow> go_err + string) \<Rightarrow> string \<Rightarrow> string list \<Rightarrow> disk \<Rightarrow> disk \<times> bool" where
  "add_targets env tm Abs dir [] d = (d, True)"
| "add_targets env tm Abs dir (target # targets) d =
     (case Abs dir of
        Inl e \<Rightarrow> (d, False)
      | Inr absDir \<Rightarrow>
          (case Add env tm absDir target d of
             (d, Some e) \<Rightarrow> (d, False)
           | (d, None) \<Rightarrow> add_targets env tm Abs dir targets d))"

definition executeAdd :: "'e add_env \<Rightarrow> templates \<Rightarrow> disk cmd_env \<Rightarrow> addCommandOptions \<Rightarrow> disk \<Rightarrow> disk \<times> int option" where
  "executeAdd env tm cmd opts d =
     (if ac_targets opts = [] then (d, Some 1)
      else case add_targets env tm (ce_abs cmd) (ac_dir opts) (ac_targets opts) d of
        (d, False) \<Rightarrow> (d, Some 1)
      | (d, True) \<Rightarrow>
          if \<not> ac_gen opts then (d, None)
          else (case ce_abs cmd (ac_dir opts) of
                  Inl e \<Rightarrow> (d, Some 1)
                | Inr absDir \<Rightarrow>
                    if \<not> isServiceRootIn cmd d absDir then (d, None)
                    else (case resolveServicePaths cmd d absDir [] of
                            Inl e \<Rightarrow> (d, Some 1)
                          | Inr paths \<Rightarrow>
                              (case runGenerateAll cmd (sp_rootDir paths) (sp_manifestPath paths) (plain_options False) d of
                                 (d, e) \<Rightarrow> (d, if e = None then None else Some 1)))))"

section \<open>zengo version\<close>

text \<open>The tree is the part of the file system below \<open>api\<close>, the disk the manifest and \<open>go.mod\<close>.  \<open>fz_hub\<close> is
  \<open>DiscoverHubMeta\<close> of a module and a directory of generated code.\<close>

record 'e freeze_env =
  fz_io :: "io_op \<Rightarrow> bool"
  fz_fmt :: "'e add_env"
  fz_hub :: "string \<Rightarrow> string \<Rightarrow> gen_error + HubMeta"
  fz_path :: "string \<Rightarrow> path"

datatype 'e freeze_failure =
    FreezeStep freeze_error | FindStep path_error | UpdateStep "('e, unit) update_error"

definition enable_compatibility :: "Manifest \<Rightarrow> Manifest" where
  "enable_compatibility m =
     (let c = (case m_Compatibility m of None \<Rightarrow> \<lparr>cp_LegacyVersions = Manifest.CompatibilityUnspecified\<rparr> | Some c \<Rightarrow> c)
      in m\<lparr>m_Compatibility := Some (c\<lparr>cp_LegacyVersions := Manifest.CompatibilityEnabled\<rparr>)\<rparr>)"

definition freezeVersion ::
  "'e freeze_env \<Rightarrow> string \<Rightarrow> string \<Rightarrow> tree \<times> disk \<Rightarrow> (tree \<times> disk) \<times> 'e freeze_failure option" where
  "freezeVersion env rootDir version = (\<lambda>(t, d).
     (case Freeze (fz_io env)
             (fz_hub env (ReadModuleAt (ReadFile d (path_Join [rootDir, ''go.mod'']))) (path_Join [rootDir, ''gen'']))
             (fz_path env (path_Join [rootDir, ''api''])) version t of
        (t, Some e) \<Rightarrow> ((t, d), Some (FreezeStep e))
      | (t, None) \<Rightarrow>
          (case FindPath d rootDir of
             Inl e \<Rightarrow> ((t, d), Some (FindStep e))
           | Inr manifestPath \<Rightarrow>
               (case Update (fz_fmt env) d manifestPath (\<lambda>m. Inr (enable_compatibility m)) of
                  (d, e) \<Rightarrow> ((t, d), map_option UpdateStep e)))))"

definition runVersion :: "'e freeze_env \<Rightarrow> string list \<Rightarrow> tree \<times> disk \<Rightarrow> (tree \<times> disk) \<times> int option" where
  "runVersion env args s =
     (if args = [] \<or> hd args \<noteq> ''freeze'' then (s, Some 1)
      else if length args < 2 then (s, Some 1)
      else case freezeVersion env ''.'' (args ! 1) s of (s, e) \<Rightarrow> (s, if e = None then None else Some 1))"

end
