(* ===== verification/CommandsFacts.thy ===== *)
theory CommandsFacts
  imports Commands FreezeFacts
begin

text \<open>
  \<open>zengo version freeze\<close> as a whole: the snapshot of the API and the switch in the manifest.
\<close>

section \<open>The manifest\<close>

lemma enable_compatibility_wf: "wf_manifest m \<Longrightarrow> wf_manifest (enable_compatibility m)"
  by (auto simp add: wf_manifest_def enable_compatibility_def compat_modes_def Let_def split: option.splits)

lemma enable_compatibility_mode: "LegacyCompatibilityMode (Some (enable_compatibility m)) = Manifest.CompatibilityEnabled"
  by (simp add: LegacyCompatibilityMode_def enable_compatibility_def Let_def)

lemma validate_enable_compatibility: "validate (enable_compatibility m) = validate m"
  by (rule validate_cong) (simp_all add: enable_compatibility_def Let_def)

text \<open>After the update, the manifest loads and has the compatibility mode switched on.\<close>

lemma Update_enable_loads:
  assumes "Update env d path (\<lambda>m. Inr (enable_compatibility m)) = (d', None)" and "fmt_faithful env"
  shows "\<exists>m. Load env d' path = Inr m \<and> LegacyCompatibilityEnabled (Some m)"
proof -
  from assms(1) obtain r pb m' data where u: "loadProto env d path = Inr (r, pb)"
      "(Inr (enable_compatibility (fromProto pb)) :: 'b + Manifest) = Inr m'" "validate m' = None"
      "fmt_Marshal env r (toProto m') = Inr data" "d' = d\<lparr>files := (files d)(r \<mapsto> data)\<rparr>"
    by (rule UpdateE)
  have m': "m' = enable_compatibility (fromProto pb)" using u(2) by simp
  have wf: "wf_manifest m'"
    using u(3) wf_fromProto [of pb] enable_compatibility_wf by (simp add: m' validate_enable_compatibility)
  have "loadProto env d' path = Inr (r, toProto m')"
    unfolding u(5) by (rule loadProto_rewritten [OF u(1) assms(2) u(4)])
  then have "Load env d' path = Inr (drop_empty m')"
    using u(3) wf by (simp add: Load_def fromProto_toProto drop_empty_accessors)
  then show ?thesis
    by (simp add: LegacyCompatibilityEnabled_def drop_empty_accessors m' enable_compatibility_mode)
qed

lemma Update_error_keeps: "Update env d path patch = (d', Some e) \<Longrightarrow> d' = d"
  by (auto simp add: Update_def WriteFile_def split: sum.splits option.splits if_splits)

section \<open>The snapshot\<close>

lemma Freeze_existing:
  assumes "map_of t (apiRoot @ [version]) \<noteq> None" and "\<not> io (OpStat (apiRoot @ [version]))"
  shows "\<exists>e. Freeze io hubMeta apiRoot version t = (t, Some e)"
  using assms by (auto simp add: Freeze_def os_Stat_def Let_def split: sum.splits option.splits)

lemma Freeze_creates:
  assumes "Freeze io hubMeta apiRoot version t = (t', None)" and "wf_tree t" and "\<not> io (OpStat (apiRoot @ [version]))"
  shows "map_of t' (apiRoot @ [version]) \<noteq> None"
proof -
  obtain meta where "\<forall>r. map_of t' ((apiRoot @ [version]) @ r) =
      map_option (map_node (frozen_content version meta ((apiRoot @ [''hub'']) @ r))) (map_of t ((apiRoot @ [''hub'']) @ r))"
    using Freeze_snapshot [OF assms(2), of io apiRoot version hubMeta] assms(1,3) by auto
  from spec [OF this, of "[]"] have all: "map_of t' (apiRoot @ [version]) =
      map_option (map_node (frozen_content version meta (apiRoot @ [''hub'']))) (map_of t (apiRoot @ [''hub'']))" by simp
  have "\<exists>es. walk io t (apiRoot @ [''hub'']) = Inr es"
    using assms(1) by (auto simp add: Freeze_def Let_def split: if_splits sum.splits stat_result.splits)
  then have "map_of t (apiRoot @ [''hub'']) \<noteq> None"
    by (auto simp add: walk_def split: if_splits option.splits)
  then show ?thesis using all by auto
qed

section \<open>The command\<close>

text \<open>The API after a freeze: below the directory of the version is the frozen copy of the hub, and nothing else
  has changed.\<close>

definition frozen_api :: "gen_error + HubMeta \<Rightarrow> path \<Rightarrow> string \<Rightarrow> tree \<Rightarrow> tree \<Rightarrow> bool" where
  "frozen_api hubMeta api version t t' \<longleftrightarrow>
     (\<exists>meta. hubMeta = Inr meta \<and> legacyDirPattern version \<and> map_of t (api @ [version]) = None \<and>
        changed_at (api @ [version]) t t' \<and>
        (\<forall>r. map_of t' ((api @ [version]) @ r) =
           map_option (map_node (frozen_content version meta ((api @ [''hub'']) @ r))) (map_of t ((api @ [''hub'']) @ r))))"

definition freeze_hub :: "'e freeze_env \<Rightarrow> string \<Rightarrow> disk \<Rightarrow> gen_error + HubMeta" where
  "freeze_hub env rootDir d =
     fz_hub env (ReadModuleAt (ReadFile d (path_Join [rootDir, ''go.mod'']))) (path_Join [rootDir, ''gen''])"

lemma freezeVersion_alt:
  "freezeVersion env rootDir version (t, d) =
     (case Freeze (fz_io env) (freeze_hub env rootDir d) (fz_path env (path_Join [rootDir, ''api''])) version t of
        (t, Some e) \<Rightarrow> ((t, d), Some (FreezeStep e))
      | (t, None) \<Rightarrow>
          (case FindPath d rootDir of
             Inl e \<Rightarrow> ((t, d), Some (FindStep e))
           | Inr manifestPath \<Rightarrow>
               (case Update (fz_fmt env) d manifestPath (\<lambda>m. Inr (enable_compatibility m)) of
                  (d, e) \<Rightarrow> ((t, d), map_option UpdateStep e))))"
  by (simp add: freezeVersion_def freeze_hub_def)

lemma freezeVersion_again:
  assumes "map_of t (fz_path env (path_Join [rootDir, ''api'']) @ [version]) \<noteq> None"
    and "\<not> fz_io env (OpStat (fz_path env (path_Join [rootDir, ''api'']) @ [version]))"
  shows "\<exists>e. freezeVersion env rootDir version (t, d) = ((t, d), Some (FreezeStep e))"
  using Freeze_existing [of t "fz_path env (path_Join [rootDir, ''api''])" version "fz_io env" "freeze_hub env rootDir d", OF assms] by (auto simp add: freezeVersion_alt)

text \<open>C7: \<open>zengo version freeze\<close>.  If it succeeds, the API has the frozen copy of the hub as its new version and
  the manifest loads with legacy versions enabled.  If the snapshot fails, the manifest is as it was, and so is
  the API unless the copying itself failed, which leaves a part of the new version.  If the snapshot succeeds and
  the manifest cannot be found or updated, the manifest is unchanged but the new version stays: every further run of
  the command, with the manifest repaired or not, refuses it as existing, so that the command never enables it.\<close>

theorem freezeVersion_outcome:
  assumes "wf_tree t" and "api = fz_path env (path_Join [rootDir, ''api''])"
    and "\<not> fz_io env (OpStat (api @ [version]))" and "fmt_faithful (fz_fmt env)"
  shows "case freezeVersion env rootDir version (t, d) of
      ((t', d'), None) \<Rightarrow> frozen_api (freeze_hub env rootDir d) api version t t' \<and>
        (\<exists>path m. FindPath d rootDir = Inr path \<and> Load (fz_fmt env) d' path = Inr m \<and> LegacyCompatibilityEnabled (Some m))
    | ((t', d'), Some (FreezeStep (FreezeFailed e))) \<Rightarrow> d' = d \<and> changed_at (api @ [version]) t t'
    | ((t', d'), Some (FreezeStep e)) \<Rightarrow> d' = d \<and> t' = t
    | ((t', d'), Some e) \<Rightarrow> d' = d \<and> frozen_api (freeze_hub env rootDir d) api version t t' \<and>
        (\<forall>d2. \<exists>e2. freezeVersion env rootDir version (t', d2) = ((t', d2), Some (FreezeStep e2)))"
proof -
  obtain t' r where f: "Freeze (fz_io env) (freeze_hub env rootDir d) api version t = (t', r)" by force
  note snap = Freeze_snapshot [of t "fz_io env" api version "freeze_hub env rootDir d", OF assms(1,3), unfolded f]
  show ?thesis
  proof (cases r)
    case (Some e)
    then show ?thesis using snap f by (cases e) (auto simp add: freezeVersion_alt assms(2))
  next
    case None
    have frozen: "frozen_api (freeze_hub env rootDir d) api version t t'"
      using snap None by (simp add: frozen_api_def)
    have again: "\<forall>d2. \<exists>e2. freezeVersion env rootDir version (t', d2) = ((t', d2), Some (FreezeStep e2))"
      using freezeVersion_again [of t' env rootDir version] Freeze_creates [OF f [unfolded None] assms(1,3)] assms(2,3) by blast
    show ?thesis
    proof (cases "FindPath d rootDir")
      case (Inl e)
      then show ?thesis using f None frozen again by (simp add: freezeVersion_alt assms(2))
    next
      case (Inr path)
      obtain d' u where up: "Update (fz_fmt env) d path (\<lambda>m. Inr (enable_compatibility m) :: unit + Manifest) = (d', u)" by force
      have run: "freezeVersion env rootDir version (t, d) = ((t', d'), map_option UpdateStep u)"
        using f None Inr up by (simp add: freezeVersion_alt assms(2))
      show ?thesis
      proof (cases u)
        case None
        then show ?thesis
          using run frozen Inr Update_enable_loads [OF up [unfolded None] assms(4)] by simp
      next
        case (Some e)
        then have "d' = d" using up Update_error_keeps by metis
        then show ?thesis using run Some frozen again by simp
      qed
    qed
  qed
qed

text \<open>A freeze of the API of \<open>FreezeFacts\<close> in a directory that has no manifest.\<close>

definition demo_freeze_env :: "unit freeze_env" where
  "demo_freeze_env = \<lparr>fz_io = \<lambda>_. False, fz_fmt = demo_fmt_env (toProto demo_loaded) (toProto demo_patched),
     fz_hub = \<lambda>_ _. Inr demo_meta, fz_path = \<lambda>p. [p]\<rparr>"

definition bare_disk :: disk where
  "bare_disk = \<lparr>files = Map.empty, unreadable = \<lambda>_. False, unwritable = \<lambda>_. False, unmakeable = \<lambda>_. False\<rparr>"

lemma demo_api_path: "path_Join [''.'', ''api''] = ''api''"
  by code_simp

lemma demo_freeze_fails:
  "\<exists>t' e. freezeVersion demo_freeze_env ''.'' ''v1'' (demo_api, bare_disk) = ((t', bare_disk), Some (FindStep e))"
proof -
  have "snd (Freeze (\<lambda>_. False) (Inr demo_meta) [''api''] ''v1'' demo_api) = None" by code_simp
  then obtain t' where "Freeze (\<lambda>_. False) (Inr demo_meta) [''api''] ''v1'' demo_api = (t', None)" by (metis prod.collapse)
  then show ?thesis
    by (simp add: freezeVersion_def demo_freeze_env_def demo_api_path FindPath_def resolveManifestPath_def fileExists_def
        bare_disk_def pick_found_def)
qed

theorem freezeVersion_outcome_witness:
  "\<exists>t'. frozen_api (Inr demo_meta) [''api''] ''v1'' demo_api t' \<and>
     (\<forall>d. \<exists>e. freezeVersion demo_freeze_env ''.'' ''v1'' (t', d) = ((t', d), Some (FreezeStep e)))"
proof -
  obtain t' e where run: "freezeVersion demo_freeze_env ''.'' ''v1'' (demo_api, bare_disk) = ((t', bare_disk), Some (FindStep e))"
    using demo_freeze_fails by blast
  have wf: "wf_tree demo_api" by code_simp
  have hyps: "[''api''] = fz_path demo_freeze_env (path_Join [''.'', ''api''])"
      "\<not> fz_io demo_freeze_env (OpStat ([''api''] @ [''v1'']))" "fmt_faithful (fz_fmt demo_freeze_env)"
    by (simp_all add: demo_freeze_env_def demo_api_path demo_fmt_env_faithful)
  have "freeze_hub demo_freeze_env ''.'' bare_disk = Inr demo_meta"
    by (simp add: freeze_hub_def demo_freeze_env_def)
  then show ?thesis
    using freezeVersion_outcome [OF wf hyps, of bare_disk] unfolding run by auto
qed

end
