(* ===== verification/CqlGen.thy ===== *)
theory CqlGen
  imports FileTree GoStrings Codegen
begin

text \<open>
  The generator of CQL query constants (\<open>internal/cqlgen/generator.go\<close>): the queries of the \<open>.cql\<close> files of a
  service, and the Go file that declares them.

  The files are those of a tree of \<open>FileTree\<close>; formatting is \<open>FormatSource\<close> of \<open>Codegen\<close>, and the template is written out.
\<close>

section \<open>Reading queries\<close>

record Query =
  q_Name :: string
  q_Query :: string

definition name_mark :: string where
  "name_mark = ''-- name:''"

text \<open>A statement between semicolons: empty ones and those without a name line are skipped.\<close>

definition cql_block :: "string \<Rightarrow> Query option" where
  "cql_block text =
     (let block = trim_space text
      in if block = [] then None
         else case split_on (CHR 0x0A) block of
                [] \<Rightarrow> None
              | line # lines \<Rightarrow>
                  if \<not> has_prefix line name_mark then None
                  else Some \<lparr>q_Name = hd (split_on (CHR '' '') (trim_space (trim_prefix line name_mark))),
                             q_Query = trim_space (join [CHR 0x0A] lines)\<rparr>)"

definition cql_queries :: "string \<Rightarrow> Query list" where
  "cql_queries data = List.map_filter cql_block (split_on (CHR '';'') data)"

definition is_query_file :: "tree \<Rightarrow> path \<Rightarrow> string \<Rightarrow> bool" where
  "is_query_file t dir name \<longleftrightarrow>
     map_of t (dir @ [name]) \<noteq> Some Dir \<and> has_suffix name ''.cql'' \<and> name \<noteq> ''schema.cql''"

fun read_queries :: "(io_op \<Rightarrow> bool) \<Rightarrow> tree \<Rightarrow> path \<Rightarrow> string list \<Rightarrow> go_err + Query list" where
  "read_queries io t dir [] = Inr []"
| "read_queries io t dir (name # names) =
     (if \<not> is_query_file t dir name then read_queries io t dir names
      else bind_err (os_ReadFile io t (dir @ [name])) (\<lambda>data.
             bind_err (read_queries io t dir names) (\<lambda>qs. Inr (cql_queries data @ qs))))"

definition parseCQL :: "(io_op \<Rightarrow> bool) \<Rightarrow> tree \<Rightarrow> path \<Rightarrow> go_err + Query list" where
  "parseCQL io t dir =
     (if io (OpWalk dir) \<or> map_of t dir \<noteq> Some Dir then Inl (io_error ''open'' dir)
      else read_queries io t dir (dir_names t dir))"

section \<open>The generated file\<close>

definition cqlTemplate :: "Query list \<Rightarrow> string" where
  "cqlTemplate queries =
     ''// Code generated by zengo cqlgen. DO NOT EDIT.'' @ [CHR 0x0A] @ ''package cqlgen'' @ [CHR 0x0A, CHR 0x0A] @
     ''const ('' @
     concat (map (\<lambda>q. [CHR 0x0A, CHR 0x09] @ q_Name q @ ''Query = '' @ [CHR 0x60] @ q_Query q @ [CHR 0x60]) queries) @
     [CHR 0x0A] @ '')'' @ [CHR 0x0A]"

definition Generate_cql ::
  "(io_op \<Rightarrow> bool) \<Rightarrow> 's codegen_env \<Rightarrow> (path \<Rightarrow> string) \<Rightarrow> path \<Rightarrow> path \<Rightarrow> tree action" where
  "Generate_cql io env text_of configPath outDir t =
     (case parseCQL io t (configPath @ [''cql'']) of
        Inl e \<Rightarrow> (t, Some e)
      | Inr queries \<Rightarrow>
          (case os_MkdirAll io outDir t of
             (t, Some e) \<Rightarrow> (t, Some e)
           | (t, None) \<Rightarrow>
               (let outPath = outDir @ [''queries_gen.go'']
                in case FormatSource env (cqlTemplate queries) (text_of outPath) of
                     Inl e \<Rightarrow> (t, Some e)
                   | Inr src \<Rightarrow> os_WriteFile io outPath src t)))"

section \<open>Every query once\<close>

text \<open>A query as it is written in a file: a name line with some annotation, and the statement.\<close>

definition render_query :: "string \<times> Query \<Rightarrow> string" where
  "render_query = (\<lambda>(note, q). name_mark @ '' '' @ q_Name q @ '' '' @ note @ [CHR 0x0A] @ q_Query q @ '';'' @ [CHR 0x0A])"

text \<open>A name without white space, a statement without a semicolon and without white space around it.\<close>

definition plain_query :: "string \<times> Query \<Rightarrow> bool" where
  "plain_query = (\<lambda>(note, q). q_Name q \<noteq> [] \<and> list_all (\<lambda>c. \<not> is_space c) (q_Name q) \<and>
     CHR '';'' \<notin> set (q_Name q @ note @ q_Query q) \<and> CHR 0x0A \<notin> set note \<and>
     q_Query q \<noteq> [] \<and> \<not> is_space (hd (q_Query q)) \<and> \<not> is_space (last (q_Query q)))"

lemma trim_space_ends:
  assumes "s \<noteq> []" and "\<not> is_space (hd s)" and "\<not> is_space (last s)"
  shows "trim_space s = s"
proof -
  have "dropWhile is_space s = s" using assms(1,2) by (cases s) simp_all
  moreover have "dropWhile is_space (rev s) = rev s"
    using assms(1,3) by (cases s rule: rev_cases) simp_all
  ultimately show ?thesis by (simp add: trim_space_def trim_func_def)
qed

lemma trim_space_lead: "is_space c \<Longrightarrow> trim_space (c # s) = trim_space s"
  by (simp add: trim_space_def trim_func_def)

lemma split_first_line: "c \<notin> set w \<Longrightarrow> \<exists>ls. split_on c (w @ c # s) = w # ls \<and> join [c] ls = s"
proof -
  assume "c \<notin> set w"
  moreover have "join [c] (split_on c s) = s" for s
  proof (induction s)
    case (Cons x s)
    then show ?case by (cases "split_on c s"; cases "tl (split_on c s)") (auto split: list.splits)
  qed simp
  ultimately show ?thesis using split_on_sep by blast
qed

lemma trim_name_line:
  assumes "n \<noteq> []" and "list_all (\<lambda>c. \<not> is_space c) n"
  shows "hd (split_on (CHR '' '') (trim_space (CHR '' '' # n @ CHR '' '' # note))) = n"
proof -
  let ?r = "n @ CHR '' '' # note"
  have "\<not> is_space (hd n)" using assms by (cases n) simp_all
  then have "dropWhile is_space ?r = ?r" using assms(1) by (cases n) simp_all
  then have t: "trim_space (CHR '' '' # ?r) = rev (dropWhile is_space (rev ?r))"
    by (simp add: trim_space_def trim_func_def is_space_def)
  have last: "rev n \<noteq> []" "\<not> is_space (hd (rev n))"
    using assms by (simp_all add: hd_rev list_all_iff)
  have n: "CHR '' '' \<notin> set n" using assms(2) by (auto simp add: list_all_iff is_space_def)
  show ?thesis
  proof (cases "\<forall>c \<in> set note. is_space c")
    case True
    then have "dropWhile is_space (rev note @ CHR '' '' # rev n) = dropWhile is_space (rev n)"
      by (simp add: dropWhile_append is_space_def)
    also have "\<dots> = rev n" using last by (cases "rev n") simp_all
    finally show ?thesis unfolding t using n by (simp add: split_on_fresh)
  next
    case False
    then obtain c where "c \<in> set (rev note)" "\<not> is_space c" by auto
    then have "dropWhile is_space (rev note @ CHR '' '' # rev n) = dropWhile is_space (rev note) @ CHR '' '' # rev n"
      by (rule dropWhile_append1)
    then show ?thesis unfolding t using n by (simp add: split_on_sep)
  qed
qed

lemma cql_block_render:
  assumes "plain_query nq"
  shows "cql_block (name_mark @ '' '' @ q_Name (snd nq) @ '' '' @ fst nq @ [CHR 0x0A] @ q_Query (snd nq)) = Some (snd nq)"
proof -
  let ?n = "q_Name (snd nq)" and ?q = "q_Query (snd nq)"
  let ?line = "name_mark @ '' '' @ ?n @ '' '' @ fst nq"
  have q: "?n \<noteq> []" "list_all (\<lambda>c. \<not> is_space c) ?n" "CHR 0x0A \<notin> set (fst nq)" "?q \<noteq> []"
    "\<not> is_space (hd ?q)" "\<not> is_space (last ?q)"
    using assms by (auto simp add: plain_query_def split: prod.splits)
  have "is_space (CHR 0x0A)" by (simp add: is_space_def)
  then have "CHR 0x0A \<notin> set ?n" using q(2) unfolding list_all_iff by blast
  then have fresh: "CHR 0x0A \<notin> set ?line" using q(3) by (simp add: name_mark_def)
  have "hd (?line @ CHR 0x0A # ?q) = CHR ''-''" "last (?line @ CHR 0x0A # ?q) = last ?q"
    using q(4) by (simp_all add: name_mark_def)
  moreover have "\<not> is_space (CHR ''-'')" by (simp add: is_space_def)
  ultimately have "trim_space (?line @ CHR 0x0A # ?q) = ?line @ CHR 0x0A # ?q"
    using trim_space_ends [of "?line @ CHR 0x0A # ?q"] q(6) by simp
  moreover obtain ls where "split_on (CHR 0x0A) (?line @ CHR 0x0A # ?q) = ?line # ls" "join [CHR 0x0A] ls = ?q"
    using split_first_line [OF fresh] by blast
  moreover have "hd (split_on (CHR '' '') (trim_space (trim_prefix ?line name_mark))) = ?n"
    using trim_name_line [OF q(1,2), of "fst nq"] by (simp add: trim_prefix_def has_prefix_def)
  moreover have "has_prefix ?line name_mark" by (simp add: has_prefix_def)
  ultimately show ?thesis
    using trim_space_ends [OF q(4,5,6)] by (simp add: cql_block_def Let_def)
qed

lemma cql_block_lead: "is_space c \<Longrightarrow> cql_block (c # s) = cql_block s"
  by (simp add: cql_block_def trim_space_lead)

lemma cql_queries_render:
  assumes "list_all plain_query nqs"
  shows "cql_queries (concat (map render_query nqs)) = map snd nqs"
proof -
  define body where "body = (\<lambda>nq :: string \<times> Query. name_mark @ '' '' @ q_Name (snd nq) @ '' '' @ fst nq @ [CHR 0x0A] @ q_Query (snd nq))"
  have r: "render_query nq = body nq @ [CHR '';'', CHR 0x0A]" for nq
    by (simp add: render_query_def body_def split: prod.splits)
  have blank: "cql_block (pre @ []) = None" if "list_all is_space pre" for pre
    using that by (simp add: cql_block_def trim_space_def trim_func_def list_all_iff dropWhile_eq_Nil_conv [THEN iffD2])
  have "List.map_filter cql_block (split_on (CHR '';'') (pre @ concat (map render_query nqs))) = map snd nqs"
    if "list_all plain_query nqs" "pre = [] \<or> pre = [CHR 0x0A]" for nqs pre
    using that
  proof (induction nqs arbitrary: pre)
    case Nil
    then have p: "CHR '';'' \<notin> set pre" "list_all is_space pre" by (auto simp add: is_space_def)
    show ?case using split_on_fresh [OF p(1)] blank [OF p(2)] by (simp add: map_filter_simps)
  next
    case (Cons nq nqs)
    have "CHR '';'' \<notin> set (pre @ body nq)"
      using Cons.prems by (auto simp add: body_def plain_query_def name_mark_def split: prod.splits)
    from split_on_sep [OF this, of "CHR 0x0A # concat (map render_query nqs)"]
    have "split_on (CHR '';'') (pre @ concat (map render_query (nq # nqs))) =
        (pre @ body nq) # split_on (CHR '';'') ([CHR 0x0A] @ concat (map render_query nqs))" by (simp add: r)
    moreover have "cql_block (pre @ body nq) = Some (snd nq)"
      using Cons.prems cql_block_render [of nq] by (auto simp add: cql_block_lead body_def is_space_def)
    ultimately show ?case using Cons.IH [of "[CHR 0x0A]"] Cons.prems(1) by (simp add: map_filter_simps)
  qed
  from this [OF assms, of "[]"] show ?thesis by (simp add: cql_queries_def)
qed

text \<open>The CQL generator finds every query once.  When every query file holds queries with a name line each, and
  no statement contains a semicolon, \<open>parseCQL\<close> gives exactly these queries, in the order of the file names and of
  the files, whatever other files, directories and schema the directory holds.\<close>

theorem parseCQL_exact:
  assumes "map_of t dir = Some Dir" and "\<not> io (OpWalk dir)"
    and "\<And>name. name \<in> set (dir_names t dir) \<Longrightarrow> is_query_file t dir name \<Longrightarrow>
      list_all plain_query (queries name) \<and> os_ReadFile io t (dir @ [name]) = Inr (concat (map render_query (queries name)))"
  shows "parseCQL io t dir = Inr (concat (map (\<lambda>name. map snd (queries name)) (filter (is_query_file t dir) (dir_names t dir))))"
proof -
  have "read_queries io t dir names =
      Inr (concat (map (\<lambda>name. map snd (queries name)) (filter (is_query_file t dir) names)))"
    if "set names \<subseteq> set (dir_names t dir)" for names
    using that by (induction names) (simp_all add: assms(3) cql_queries_render)
  then show ?thesis using assms(1,2) by (simp add: parseCQL_def)
qed

definition demo_cql :: tree where
  "demo_cql = [([''cql''], Dir), ([''cql'', ''schema.cql''], File ''CREATE TABLE t;''),
     ([''cql'', ''user.cql''], File (''-- name: Get :one'' @ [CHR 0x0A] @ ''SELECT a FROM t'' @ '';'' @ [CHR 0x0A])),
     ([''cql'', ''old''], Dir)]"

theorem parseCQL_exact_witness:
  "parseCQL (\<lambda>_. False) demo_cql [''cql''] = Inr [\<lparr>q_Name = ''Get'', q_Query = ''SELECT a FROM t''\<rparr>]"
proof -
  define qs where "qs = (\<lambda>_ :: string. [('':one'', \<lparr>q_Name = ''Get'', q_Query = ''SELECT a FROM t''\<rparr>)])"
  have names: "dir_names demo_cql [''cql''] = [''old'', ''schema.cql'', ''user.cql'']" by code_simp
  have files: "is_query_file demo_cql [''cql''] ''user.cql''" "\<not> is_query_file demo_cql [''cql''] ''old''"
      "\<not> is_query_file demo_cql [''cql''] ''schema.cql''" by code_simp+
  have plain: "list_all plain_query (qs n)" for n
    by (simp add: qs_def plain_query_def is_space_def)
  have "os_ReadFile (\<lambda>_. False) demo_cql [''cql'', ''user.cql''] = Inr (concat (map render_query (qs n)))" for n
    unfolding qs_def by code_simp
  with plain files names have "list_all plain_query (qs n) \<and>
      os_ReadFile (\<lambda>_. False) demo_cql ([''cql''] @ [n]) = Inr (concat (map render_query (qs n)))"
    if "n \<in> set (dir_names demo_cql [''cql''])" "is_query_file demo_cql [''cql''] n" for n
    using that by auto
  from parseCQL_exact [of demo_cql "[''cql'']" "\<lambda>_. False" qs, OF _ _ this] show ?thesis
    by (simp add: names files demo_cql_def [THEN arg_cong [where f = "\<lambda>t. map_of t [''cql'']"]] qs_def)
qed

end
