(* ===== verification/RawDesc.thy ===== *)
theory RawDesc
  imports GoError
begin

text \<open>
  The raw descriptor in generated protobuf code (\<open>internal/versioning/rawdesc.go\<close>): the constant of a \<open>.pb.go\<close> file whose name
  contains \<open>proto_rawDesc\<close>, and the evaluation of its string expression.

  The syntax tree is that of \<open>go/ast\<close>, reduced to what the code distinguishes; parsing a file is a parameter.
  \<open>strconv.Unquote\<close> is written out for the two forms of a string literal; its text is valid UTF-8, as the scanner requires
  of a Go file.
\<close>

section \<open>String literals\<close>

definition hex_value :: "char \<Rightarrow> nat option" where
  "hex_value c =
     (let n = of_char c
      in if 48 \<le> n \<and> n \<le> 57 then Some (n - 48) else if 97 \<le> n \<and> n \<le> 102 then Some (n - 87)
         else if 65 \<le> n \<and> n \<le> 70 then Some (n - 55) else None)"

fun digits_value :: "nat \<Rightarrow> nat \<Rightarrow> string \<Rightarrow> nat option" where
  "digits_value base acc [] = Some acc"
| "digits_value base acc (c # cs) =
     (case hex_value c of
        None \<Rightarrow> None
      | Some d \<Rightarrow> if d < base then digits_value base (base * acc + d) cs else None)"

text \<open>The UTF-8 encoding of a code point.\<close>

definition utf8_encode :: "nat \<Rightarrow> string" where
  "utf8_encode n = map char_of
     (if n < 128 then [n]
      else if n < 2048 then [192 + n div 64, 128 + n mod 64]
      else if n < 65536 then [224 + n div 4096, 128 + n div 64 mod 64, 128 + n mod 64]
      else [240 + n div 262144, 128 + n div 4096 mod 64, 128 + n div 64 mod 64, 128 + n mod 64])"

text \<open>An escape of \<open>k\<close> digits, and the bytes of its value if it is a valid one.\<close>

definition numeric_escape :: "nat \<Rightarrow> nat \<Rightarrow> (nat \<Rightarrow> string option) \<Rightarrow> string \<Rightarrow> (string \<times> string) option" where
  "numeric_escape base k bytes s =
     (if length s < k then None
      else Option.bind (digits_value base 0 (take k s)) (\<lambda>n. map_option (\<lambda>out. (out, drop k s)) (bytes n)))"

definition byte_value :: "nat \<Rightarrow> string option" where
  "byte_value n = (if n < 256 then Some [char_of n] else None)"

definition rune_value :: "nat \<Rightarrow> string option" where
  "rune_value n = (if n < 55296 \<or> 57344 \<le> n \<and> n \<le> 1114111 then Some (utf8_encode n) else None)"

definition simple_escapes :: "(char \<times> char) list" where
  "simple_escapes = [(CHR ''a'', CHR 0x07), (CHR ''b'', CHR 0x08), (CHR ''f'', CHR 0x0C), (CHR ''n'', CHR 0x0A),
     (CHR ''r'', CHR 0x0D), (CHR ''t'', CHR 0x09), (CHR ''v'', CHR 0x0B), (CHR 0x5C, CHR 0x5C), (CHR 0x22, CHR 0x22)]"

text \<open>What follows a backslash: the bytes that it means, and the rest.\<close>

definition unquote_escape :: "string \<Rightarrow> (string \<times> string) option" where
  "unquote_escape s =
     (case s of
        [] \<Rightarrow> None
      | c # rest \<Rightarrow>
          (case map_of simple_escapes c of
             Some out \<Rightarrow> Some ([out], rest)
           | None \<Rightarrow>
               if c = CHR ''x'' then numeric_escape 16 2 byte_value rest
               else if c = CHR ''u'' then numeric_escape 16 4 rune_value rest
               else if c = CHR ''U'' then numeric_escape 16 8 rune_value rest
               else numeric_escape 8 3 byte_value s))"

lemma numeric_escape_shorter: "numeric_escape base k bytes s = Some (out, rest) \<Longrightarrow> length rest = length s - k \<and> k \<le> length s"
  by (auto simp add: numeric_escape_def bind_eq_Some_conv split: if_splits)

lemma unquote_escape_shorter: "unquote_escape s = Some (out, rest) \<Longrightarrow> length rest < length s"
  by (auto simp add: unquote_escape_def split: list.splits option.splits if_splits dest!: numeric_escape_shorter)

function unquote_body :: "string \<Rightarrow> string option" where
  "unquote_body [] = None"
| "unquote_body (c # s) =
     (if c = CHR 0x22 then (if s = [] then Some [] else None)
      else if c = CHR 0x0A then None
      else if c \<noteq> CHR 0x5C then map_option ((#) c) (unquote_body s)
      else case unquote_escape s of
             None \<Rightarrow> None
           | Some (out, rest) \<Rightarrow> map_option ((@) out) (unquote_body rest))"
  by pat_completeness auto
termination
  by (relation "measure length") (auto dest: unquote_escape_shorter)

definition Unquote :: "string \<Rightarrow> go_err + string" where
  "Unquote s =
     (case (if length s < 2 then None
            else if hd s = CHR 0x22 then unquote_body (tl s)
            else if hd s = CHR 0x60 \<and> last s = CHR 0x60 \<and> CHR 0x60 \<notin> set (butlast (tl s))
            then Some (filter (\<lambda>c. c \<noteq> CHR 0x0D) (butlast (tl s))) else None) of
        None \<Rightarrow> Inl (PlainErr ''invalid syntax'')
      | Some out \<Rightarrow> Inr out)"

section \<open>Syntax\<close>

datatype go_token = ADD | OtherOp string

datatype go_expr =
    BinaryExpr go_token go_expr go_expr | StringLit string | OtherLit string | ParenExpr go_expr | OtherExpr string

text \<open>A declared name can be missing.\<close>

datatype go_spec = ValueSpec "string option list" "go_expr list" | OtherSpec

datatype go_decl = ConstDecl "go_spec list" | OtherDecl

section \<open>The descriptor\<close>

fun eval_string :: "go_expr \<Rightarrow> go_err + string" where
  "eval_string (BinaryExpr op x y) =
     (case op of
        OtherOp s \<Rightarrow> Inl (PlainErr (''unsupported expr op '' @ s))
      | ADD \<Rightarrow> bind_err (eval_string x) (\<lambda>l. bind_err (eval_string y) (\<lambda>r. Inr (l @ r))))"
| "eval_string (StringLit s) = Unquote s"
| "eval_string (OtherLit s) = Inl (PlainErr ''expected string literal'')"
| "eval_string (ParenExpr e) = eval_string e"
| "eval_string (OtherExpr t) = Inl (PlainErr (''unsupported expr '' @ t))"

text \<open>The constants are strings whenever the evaluation succeeds.\<close>

definition evalStringExpr :: "go_expr \<Rightarrow> go_err + string" where
  "evalStringExpr e = eval_string e"

fun raw_names :: "string option list \<Rightarrow> nat \<Rightarrow> go_expr list \<Rightarrow> (go_err + string) option" where
  "raw_names [] i values = None"
| "raw_names (name # names) i values =
     (case name of
        None \<Rightarrow> raw_names names (Suc i) values
      | Some n \<Rightarrow>
          if \<not> contains n ''proto_rawDesc'' \<or> length values \<le> i then raw_names names (Suc i) values
          else Some (evalStringExpr (values ! i)))"

fun raw_specs :: "go_spec list \<Rightarrow> (go_err + string) option" where
  "raw_specs [] = None"
| "raw_specs (OtherSpec # specs) = raw_specs specs"
| "raw_specs (ValueSpec names values # specs) =
     (case raw_names names 0 values of Some r \<Rightarrow> Some r | None \<Rightarrow> raw_specs specs)"

fun raw_decls :: "go_decl list \<Rightarrow> (go_err + string) option" where
  "raw_decls [] = None"
| "raw_decls (OtherDecl # decls) = raw_decls decls"
| "raw_decls (ConstDecl specs # decls) = (case raw_specs specs of Some r \<Rightarrow> Some r | None \<Rightarrow> raw_decls decls)"

definition rawDescFromPBGo :: "(string \<Rightarrow> go_err + go_decl list) \<Rightarrow> string \<Rightarrow> go_err + string" where
  "rawDescFromPBGo ParseFile path =
     bind_err (ParseFile path) (\<lambda>decls.
       case raw_decls decls of
         Some r \<Rightarrow> r
       | None \<Rightarrow> Inl (PlainErr (''rawDesc const not found in '' @ path)))"

section \<open>What protoc-gen-go writes is read back\<close>

lemma hex_value_digit: "n < 16 \<Longrightarrow> hex_value (hex_digit n) = Some n"
proof -
  assume "n < 16"
  then have "n \<in> set [0..<16]" by simp
  moreover have "list_all (\<lambda>n. hex_value (hex_digit n) = Some n) [0..<16]" by code_simp
  ultimately show ?thesis unfolding list_all_iff by blast
qed

text \<open>How \<open>strconv.Quote\<close> writes bytes: as they are or with a short escape, as \<open>\\x\<close> with two digits, or a character that does
  not print as \<open>\\u\<close> with four digits or \<open>\\U\<close> with eight.\<close>

datatype literal_piece = PlainByte char | HexByte char | Rune4 nat | Rune8 nat

definition hex_text :: "nat \<Rightarrow> nat \<Rightarrow> string" where
  "hex_text k n = map (\<lambda>i. hex_digit (n div 16 ^ (k - 1 - i) mod 16)) [0..<k]"

fun piece_text :: "literal_piece \<Rightarrow> string" where
  "piece_text (PlainByte c) = quote_char c"
| "piece_text (HexByte c) = [CHR 0x5C, CHR ''x''] @ hex_text 2 (of_char c)"
| "piece_text (Rune4 n) = [CHR 0x5C, CHR ''u''] @ hex_text 4 n"
| "piece_text (Rune8 n) = [CHR 0x5C, CHR ''U''] @ hex_text 8 n"

fun piece_bytes :: "literal_piece \<Rightarrow> string" where
  "piece_bytes (PlainByte c) = [c]"
| "piece_bytes (HexByte c) = [c]"
| "piece_bytes (Rune4 n) = utf8_encode n"
| "piece_bytes (Rune8 n) = utf8_encode n"

fun valid_piece :: "literal_piece \<Rightarrow> bool" where
  "valid_piece (Rune4 n) \<longleftrightarrow> n < 55296 \<or> 57344 \<le> n \<and> n < 65536"
| "valid_piece (Rune8 n) \<longleftrightarrow> n < 55296 \<or> 57344 \<le> n \<and> n \<le> 1114111"
| "valid_piece _ \<longleftrightarrow> True"

definition literal_text :: "literal_piece list \<Rightarrow> string" where
  "literal_text ps = [CHR 0x22] @ concat (map piece_text ps) @ [CHR 0x22]"

definition literal_bytes :: "literal_piece list \<Rightarrow> string" where
  "literal_bytes ps = concat (map piece_bytes ps)"

lemma digits_value_hex:
  assumes "list_all (\<lambda>d. d < 16) ds"
  shows "digits_value 16 acc (map hex_digit ds) = Some (foldl (\<lambda>a d. 16 * a + d) acc ds)"
  using assms by (induction ds arbitrary: acc) (simp_all add: hex_value_digit)

lemma foldl_hex: "foldl (\<lambda>a d. 16 * a + d) 0 (map (\<lambda>i. n div 16 ^ (k - 1 - i) mod 16) [0..<k]) = n mod 16 ^ k"
  for n :: nat
proof (induction k arbitrary: n)
  case (Suc k)
  define g h where "g = (\<lambda>i. n div 16 ^ (Suc k - 1 - i) mod 16)" and "h = (\<lambda>i. n div 16 div 16 ^ (k - 1 - i) mod 16)"
  have "map g [0..<k] = map h [0..<k]"
  proof (rule map_cong [OF refl])
    fix i assume "i \<in> set [0..<k]"
    then have "Suc k - 1 - i = Suc (k - 1 - i)" by auto
    then show "g i = h i" unfolding g_def h_def by (simp add: div_mult2_eq)
  qed
  moreover have "foldl (\<lambda>a d. 16 * a + d) 0 (map h [0..<k]) = n div 16 mod 16 ^ k" unfolding h_def by (rule Suc)
  moreover have "foldl (\<lambda>a d. 16 * a + d) 0 (map g [0..<Suc k]) = 16 * foldl (\<lambda>a d. 16 * a + d) 0 (map g [0..<k]) + g k"
    by simp
  moreover have "g k = n mod 16" by (simp add: g_def)
  ultimately have "foldl (\<lambda>a d. 16 * a + d) 0 (map g [0..<Suc k]) = 16 * (n div 16 mod 16 ^ k) + n mod 16"
    by (simp only:)
  then show ?case unfolding g_def by (simp add: mod_mult2_eq)
qed simp

lemma digits_value_hex_text: "n < 16 ^ k \<Longrightarrow> digits_value 16 0 (hex_text k n) = Some n"
proof -
  assume n: "n < 16 ^ k"
  have "hex_text k n = map hex_digit (map (\<lambda>i. n div 16 ^ (k - 1 - i) mod 16) [0..<k])" by (simp add: hex_text_def)
  then show ?thesis
    using digits_value_hex [of "map (\<lambda>i. n div 16 ^ (k - 1 - i) mod 16) [0..<k]" 0] foldl_hex [of n k] n
    by (simp only:) (simp add: list_all_iff)
qed

lemma length_hex_text [simp]: "length (hex_text k n) = k"
  by (simp add: hex_text_def)

lemma numeric_escape_hex:
  "n < 16 ^ k \<Longrightarrow> numeric_escape 16 k bytes (hex_text k n @ s) = map_option (\<lambda>out. (out, s)) (bytes n)"
  by (simp add: numeric_escape_def digits_value_hex_text)

lemma unquote_escaped:
  "unquote_escape (e # r) = Some (out, s) \<Longrightarrow> unquote_body (CHR 0x5C # e # r) = map_option ((@) out) (unquote_body s)"
  by simp

lemma unquote_hex_byte: "unquote_body (CHR 0x5C # CHR ''x'' # hex_text 2 (of_char c) @ s) = map_option ((@) [c]) (unquote_body s)"
  using numeric_escape_hex [of "of_char c" 2 byte_value s]
  by (intro unquote_escaped) (simp add: unquote_escape_def simple_escapes_def byte_value_def)

lemma unquote_quote_char: "unquote_body (quote_char c @ s) = map_option ((@) [c]) (unquote_body s)"
proof -
  have esc: "unquote_body (CHR 0x5C # e # s) = map_option ((@) [c]) (unquote_body s)"
    if "map_of simple_escapes e = Some c" for e
    using that by (intro unquote_escaped) (simp add: unquote_escape_def)
  have plain: "unquote_body (c # s) = map_option ((@) [c]) (unquote_body s)"
    if "c \<noteq> CHR 0x22" "c \<noteq> CHR 0x0A" "c \<noteq> CHR 0x5C"
    using that by (cases "unquote_body s") simp_all
  have hex: "hex_text 2 (of_char c) = [hex_digit (of_char c div 16), hex_digit (of_char c mod 16)]"
    using nat_of_char_less_256 [of c] by (simp add: hex_text_def numeral_2_eq_2 div_less_iff_less_mult)
  show ?thesis
  proof (cases "of_char c < (32::nat) \<or> c = CHR 0x7F")
    case True
    then show ?thesis
      using unquote_hex_byte [of c s] unfolding quote_char_def hex
      by (auto simp add: esc simple_escapes_def simp del: unquote_body.simps)
  next
    case False
    then show ?thesis
      unfolding quote_char_def by (auto simp add: esc plain simple_escapes_def simp del: unquote_body.simps(2))
  qed
qed

lemma unquote_piece: "valid_piece p \<Longrightarrow> unquote_body (piece_text p @ s) = map_option ((@) (piece_bytes p)) (unquote_body s)"
proof (cases p)
  case (Rune4 n)
  moreover assume "valid_piece p"
  ultimately have "n < 65536" by auto
  then show ?thesis
    using \<open>p = Rune4 n\<close> \<open>valid_piece p\<close> numeric_escape_hex [of n 4 rune_value s] unquote_escaped [of "CHR ''u''" "hex_text 4 n @ s" "utf8_encode n" s]
    by (simp add: unquote_escape_def simple_escapes_def rune_value_def)
next
  case (Rune8 n)
  moreover assume "valid_piece p"
  ultimately have "n < 1114112" by auto
  then show ?thesis
    using \<open>p = Rune8 n\<close> \<open>valid_piece p\<close> numeric_escape_hex [of n 8 rune_value s] unquote_escaped [of "CHR ''U''" "hex_text 8 n @ s" "utf8_encode n" s]
    by (simp add: unquote_escape_def simple_escapes_def rune_value_def)
qed (simp_all only: piece_text.simps piece_bytes.simps append_Cons append_Nil unquote_quote_char unquote_hex_byte)

lemma Unquote_literal: "list_all valid_piece ps \<Longrightarrow> Unquote (literal_text ps) = Inr (literal_bytes ps)"
proof -
  assume "list_all valid_piece ps"
  then have "unquote_body (concat (map piece_text ps) @ [CHR 0x22]) = Some (literal_bytes ps)"
    by (induction ps) (simp_all add: literal_bytes_def unquote_piece)
  then show ?thesis by (simp add: Unquote_def literal_text_def)
qed

text \<open>The constant that \<open>protoc-gen-go\<close> writes for a descriptor: an empty literal, and a quoted literal per chunk.\<close>

definition raw_const :: "literal_piece list list \<Rightarrow> go_expr" where
  "raw_const chunks = foldl (\<lambda>e ps. BinaryExpr ADD e (StringLit (literal_text ps))) (StringLit (literal_text [])) chunks"

lemma eval_raw_const:
  "list_all (list_all valid_piece) chunks \<Longrightarrow> evalStringExpr (raw_const chunks) = Inr (concat (map literal_bytes chunks))"
  unfolding evalStringExpr_def raw_const_def
  by (induction chunks rule: rev_induct) (simp_all add: Unquote_literal literal_bytes_def)

text \<open>The raw descriptor survives its generated Go file.  Whatever bytes the descriptor has, and however it was cut
  into chunks and escaped, a file whose first matching constant is the concatenation of the quoted chunks gives back
  exactly the descriptor; declarations, constants and names before it do not matter as long as none of them matches.\<close>

theorem rawDesc_roundtrip:
  assumes "ParseFile path = Inr (before @ ConstDecl (specs @ ValueSpec (names @ Some n # more_names) values # more_specs) # rest)"
    and "raw_decls before = None" and "raw_specs specs = None" and "raw_names names 0 values = None"
    and "contains n ''proto_rawDesc''" and "length names < length values"
    and "values ! length names = raw_const chunks" and "list_all (list_all valid_piece) chunks"
  shows "rawDescFromPBGo ParseFile path = Inr (concat (map literal_bytes chunks))"
proof -
  have n: "raw_names (names @ Some n # more_names) i values = Some (Inr (concat (map literal_bytes chunks)))"
    if "raw_names names i values = None" "i + length names < length values" "values ! (i + length names) = raw_const chunks"
    for i
    using that assms(5,8)
    by (induction names arbitrary: i) (auto simp add: eval_raw_const split: option.splits if_splits)
  have s: "raw_specs (specs @ ValueSpec (names @ Some n # more_names) values # more_specs) = Some (Inr (concat (map literal_bytes chunks)))"
    using assms(3)
  proof (induction specs)
    case Nil
    then show ?case using n [of 0] assms(4,6,7) by simp
  next
    case (Cons x xs)
    then show ?case by (cases x) (simp_all split: option.splits)
  qed
  have "raw_decls (before @ ConstDecl (specs @ ValueSpec (names @ Some n # more_names) values # more_specs) # rest) =
      Some (Inr (concat (map literal_bytes chunks)))"
    using assms(2)
  proof (induction "before")
    case Nil
    then show ?case using s by simp
  next
    case (Cons x xs)
    then show ?case by (cases x) (simp_all split: option.splits)
  qed
  then show ?thesis by (simp add: rawDescFromPBGo_def assms(1))
qed

theorem rawDesc_roundtrip_witness:
  "rawDescFromPBGo (\<lambda>_. Inr [OtherDecl, ConstDecl [ValueSpec [Some ''_'', Some ''file_a_proto_rawDesc'']
       [OtherLit ''1'', raw_const [[PlainByte (CHR 0x0A), HexByte (CHR 0xC3)], [Rune4 160, PlainByte (CHR 0x22)]]]]]) ''a.pb.go'' =
     Inr [CHR 0x0A, CHR 0xC3, CHR 0xC2, CHR 0xA0, CHR 0x22]"
proof -
  have "contains ''file_a_proto_rawDesc'' ''proto_rawDesc''" "\<not> contains ''_'' ''proto_rawDesc''"
      "char_of (194 :: nat) = CHR 0xC2" "char_of (160 :: nat) = CHR 0xA0" by code_simp+
  then show ?thesis
    using rawDesc_roundtrip [of "\<lambda>_. Inr [OtherDecl, ConstDecl [ValueSpec [Some ''_'', Some ''file_a_proto_rawDesc'']
       [OtherLit ''1'', raw_const [[PlainByte (CHR 0x0A), HexByte (CHR 0xC3)], [Rune4 160, PlainByte (CHR 0x22)]]]]]" "''a.pb.go''" "[OtherDecl]" "[]" "[Some ''_'']"
     "''file_a_proto_rawDesc''" "[]" "[OtherLit ''1'', raw_const [[PlainByte (CHR 0x0A), HexByte (CHR 0xC3)], [Rune4 160, PlainByte (CHR 0x22)]]]" "[]" "[]"
     "[[PlainByte (CHR 0x0A), HexByte (CHR 0xC3)], [Rune4 160, PlainByte (CHR 0x22)]]"]
    by (simp add: literal_bytes_def utf8_encode_def)
qed

end
