(* ===== verification/Assets.thy ===== *)
theory Assets
  imports FileTree GoStrings GoPath
begin

text \<open>
  Small generators: the editor rules and the registry notes of a service (\<open>internal/generator/assets.go\<close>), and the plugin that
  runs \<open>protoc-gen-go\<close> and renames its files (\<open>cmd/protoc-gen-go-zz/main.go\<close>).
\<close>

section \<open>Documents\<close>

abbreviation (input) nl :: string where "nl \<equiv> [CHR 0x0A]"

definition cursorRulesTemplate :: string where
  "cursorRulesTemplate =
     ''---'' @ nl @
     ''description: Zengo service development conventions for {{SERVICE}}'' @ nl @
     ''globs: '' @ [CHR 0x22] @ ''**/*.{go,proto,sql,yaml,yml,textproto,pbtxt}'' @ [CHR 0x22] @ nl @
     ''---'' @ nl @
     ''- Business logic lives only in internal/**/handler.go (hub API).'' @ nl @
     ''- Edit only api/hub/ for active API development; api/vN/ directories are frozen legacy contracts.'' @ nl @
     ''- Never edit files under gen/.'' @ nl @
     ''- Run zengo gen or mage gen after changing .proto, queries, or zengo manifest/config files.'' @ nl @
     ''- configs/* and zengo.* accept YAML or prototext (.textproto/.pbtxt); schema is defined in proto.'' @ nl @
     ''- Canonical postgres config kind is postgres.'' @ nl"

definition GenerateCursorRulesAt :: "(io_op \<Rightarrow> bool) \<Rightarrow> path \<Rightarrow> string \<Rightarrow> tree action" where
  "GenerateCursorRulesAt io root serviceName t =
     (let content = ReplaceAll cursorRulesTemplate ''{{SERVICE}}'' serviceName
      in seq_run (os_MkdirAll io (root @ [''.cursor'', ''rules'']) t)
           (os_WriteFile io (root @ [''.cursor'', ''rules'', ''zengo-service.mdc'']) content))"

definition registry_doc :: "string \<Rightarrow> string" where
  "registry_doc serviceName =
     ''# Proto registry'' @ nl @ nl @
     ''Service '' @ go_quote serviceName @ '' should publish protos to Buf Schema Registry:'' @ nl @ nl @
     ''```bash'' @ nl @
     ''buf push --label '' @ serviceName @ nl @
     ''```'' @ nl @ nl @
     ''Breaking change detection:'' @ nl @ nl @
     ''```bash'' @ nl @
     ''buf breaking --against '' @ [CHR 0x27] @ ''.git#branch=main'' @ [CHR 0x27] @ nl @
     ''```'' @ nl"

definition GenerateBufRegistryDocAt :: "(io_op \<Rightarrow> bool) \<Rightarrow> path \<Rightarrow> string \<Rightarrow> tree action" where
  "GenerateBufRegistryDocAt io root serviceName t =
     seq_run (os_MkdirAll io (root @ [''docs'']) t)
       (os_WriteFile io (root @ [''docs'', ''PROTO_REGISTRY.md'']) (registry_doc serviceName))"

section \<open>Renaming generated files\<close>

text \<open>\<open>filepath.Split\<close>: up to the last slash, and the rest.\<close>

definition path_Split :: "string \<Rightarrow> string \<times> string" where
  "path_Split p = (upto_slash p, drop (length (upto_slash p)) p)"

definition zz_name :: "string \<Rightarrow> string" where
  "zz_name name =
     (if \<not> has_suffix name ''.pb.go'' then name
      else case path_Split name of (dir, base) \<Rightarrow>
        if has_prefix base ''zz_generated_'' then name else dir @ ''zz_generated_'' @ base)"

text \<open>The response of a plugin: an error text, or the names and contents of files.\<close>

record plugin_response =
  pr_Error :: "string option"
  pr_File :: "(string \<times> string) list"

text \<open>\<open>zz_run\<close> is \<open>protoc-gen-go\<close>: its output, and its error with what it wrote to standard error.\<close>

record zz_env =
  zz_run :: "string \<Rightarrow> string \<times> go_err option"
  zz_Unmarshal :: "string \<Rightarrow> go_err + plugin_response"
  zz_Marshal :: "plugin_response \<Rightarrow> go_err + string"
  zz_Write :: "string \<Rightarrow> go_err option"

text \<open>What was written to standard output, and the exit code.\<close>

definition zz_main :: "zz_env \<Rightarrow> go_err + string \<Rightarrow> string list \<times> int" where
  "zz_main env stdin =
     (case stdin of Inl e \<Rightarrow> ([], 1)
      | Inr input \<Rightarrow>
          (case zz_run env input of
             (out, Some e) \<Rightarrow> (if out = [] then [] else [out], 1)
           | (out, None) \<Rightarrow>
               (case zz_Unmarshal env out of Inl e \<Rightarrow> ([], 1)
                | Inr resp \<Rightarrow>
                    if pr_Error resp \<noteq> None then ([], 1)
                    else (case zz_Marshal env (resp\<lparr>pr_File := map (\<lambda>(n, c). (zz_name n, c)) (pr_File resp)\<rparr>) of
                            Inl e \<Rightarrow> ([], 1)
                          | Inr encoded \<Rightarrow> ([encoded], if zz_Write env encoded = None then 0 else 1)))))"

end
