(* ===== verification/UserService.thy ===== *)
theory UserService
  imports Errx GoStrings
begin

text \<open>
  The example service of users (\<open>examples/user-service\<close>): its handler (\<open>internal/user/handler.go\<close>), its repository
  (\<open>repository.go\<close>) over the queries that \<open>sqlc\<close> generated (\<open>gen/db\<close>), and a gRPC call from a client with the interceptors of
  \<open>sdk/errx\<close> on both sides.

  The table is the list of its rows, the newest first; a query fails where \<open>db_fail\<close> says so.  The encoders of protobuf JSON, the
  identifiers and the outcome of publishing are parameters.  Spans are left out.
\<close>

section \<open>The table\<close>

record user_row =
  rw_ID :: string
  rw_Email :: string
  rw_Name :: string

datatype db_op = GetUserOp string | ListUsersOp | CreateUserOp user_row

definition ErrNoRows :: go_err where
  "ErrNoRows = SentinelErr ''no rows in result set''"

type_synonym db_fail = "db_op \<Rightarrow> go_err option"

definition Queries_GetUser :: "db_fail \<Rightarrow> user_row list \<Rightarrow> string \<Rightarrow> go_err + user_row" where
  "Queries_GetUser db rows uid =
     (case db (GetUserOp uid) of
        Some e \<Rightarrow> Inl e
      | None \<Rightarrow> (case find (\<lambda>r. rw_ID r = uid) rows of None \<Rightarrow> Inl ErrNoRows | Some r \<Rightarrow> Inr r))"

definition Queries_ListUsers :: "db_fail \<Rightarrow> user_row list \<Rightarrow> go_err + user_row list" where
  "Queries_ListUsers db rows = (case db ListUsersOp of Some e \<Rightarrow> Inl e | None \<Rightarrow> Inr rows)"

text \<open>The key and the email are unique.\<close>

definition Queries_CreateUser :: "db_fail \<Rightarrow> user_row \<Rightarrow> user_row list \<Rightarrow> user_row list \<times> (go_err + user_row)" where
  "Queries_CreateUser db row rows =
     (case db (CreateUserOp row) of
        Some e \<Rightarrow> (rows, Inl e)
      | None \<Rightarrow>
          if list_ex (\<lambda>r. rw_ID r = rw_ID row \<or> rw_Email r = rw_Email row) rows
          then (rows, Inl (PlainErr ''duplicate key value violates unique constraint''))
          else (row # rows, Inr row))"

section \<open>The repository\<close>

record user_Record =
  ur_ID :: string
  ur_Email :: string
  ur_Name :: string

definition record_of_row :: "user_row \<Rightarrow> user_Record" where
  "record_of_row row = \<lparr>ur_ID = rw_ID row, ur_Email = rw_Email row, ur_Name = rw_Name row\<rparr>"

definition Repository_GetByID :: "db_fail \<Rightarrow> user_row list \<Rightarrow> string \<Rightarrow> go_err + user_Record" where
  "Repository_GetByID db rows uid = bind_err (Queries_GetUser db rows uid) (\<lambda>row. Inr (record_of_row row))"

definition Repository_List :: "db_fail \<Rightarrow> user_row list \<Rightarrow> go_err + user_Record list" where
  "Repository_List db rows = bind_err (Queries_ListUsers db rows) (\<lambda>rows. Inr (map record_of_row rows))"

definition Repository_Create ::
  "db_fail \<Rightarrow> string \<Rightarrow> string \<Rightarrow> string \<Rightarrow> user_row list \<Rightarrow> user_row list \<times> (go_err + user_Record)" where
  "Repository_Create db uuid email name rows =
     (case Queries_CreateUser db \<lparr>rw_ID = uuid, rw_Email = email, rw_Name = name\<rparr> rows of
        (rows, Inl e) \<Rightarrow> (rows, Inl e)
      | (rows, Inr row) \<Rightarrow> (rows, Inr (record_of_row row)))"

section \<open>The handler\<close>

record hub_user =
  hu_Id :: string
  hu_Email :: string
  hu_Name :: string
  hu_DisplayName :: string

record app_spec =
  as_DefaultDisplayNamePrefix :: string
  as_RequireDisplayName :: bool

record create_request =
  cr_Email :: string
  cr_Name :: string
  cr_DisplayName :: string

record created_event =
  ev_ApiVersion :: string
  ev_User :: hub_user

record user_env =
  ue_grpc :: grpc_env
  ue_callers :: callers
  ue_db :: db_fail
  ue_uuid :: string
  ue_app :: "app_spec option"
  ue_Marshal :: "created_event \<Rightarrow> go_err + string"
  ue_Unmarshal :: "string \<Rightarrow> go_err + created_event"
  ue_jsonUnmarshal :: "string \<Rightarrow> go_err + created_event"
  ue_publish :: "string \<Rightarrow> go_err option"

record user_state =
  us_rows :: "user_row list"
  us_events :: "string list"

text \<open>\<open>errx.Wrap\<close> and \<open>errx.New\<close> with a public message.\<close>

definition wrapped :: "user_env \<Rightarrow> go_err \<Rightarrow> Code \<Rightarrow> string \<Rightarrow> string \<Rightarrow> go_err" where
  "wrapped env e code message public =
     AppErr (the (Wrap (ue_grpc env) (ue_callers env) (Some e) code message [Some (Public public)]))"

definition fresh_error :: "user_env \<Rightarrow> Code \<Rightarrow> string \<Rightarrow> go_err" where
  "fresh_error env code message = AppErr (New (ue_grpc env) (ue_callers env) code message [Some (Public message)])"

definition user_toProto :: "user_Record \<Rightarrow> hub_user" where
  "user_toProto user = \<lparr>hu_Id = ur_ID user, hu_Email = ur_Email user, hu_Name = ur_Name user, hu_DisplayName = ur_Name user\<rparr>"

definition user_GetUser :: "user_env \<Rightarrow> user_state \<Rightarrow> string \<Rightarrow> go_err + hub_user" where
  "user_GetUser env st uid =
     (case Repository_GetByID (ue_db env) (us_rows st) uid of
        Inr user \<Rightarrow> Inr (user_toProto user)
      | Inl err \<Rightarrow>
          if err_Is (\<lambda>x. x = ErrNoRows) err
          then Inl (wrapped env err NotFound ''get user by id'' ''user not found'')
          else Inl (wrapped env err Internal ''get user by id'' ''could not fetch user''))"

definition user_ListUsers :: "user_env \<Rightarrow> user_state \<Rightarrow> go_err + hub_user list" where
  "user_ListUsers env st =
     (case Repository_List (ue_db env) (us_rows st) of
        Inl err \<Rightarrow> Inl (wrapped env err Internal ''list users'' ''could not list users'')
      | Inr users \<Rightarrow> Inr (map user_toProto users))"

definition requiresDisplayName :: "app_spec option \<Rightarrow> bool" where
  "requiresDisplayName app = (case app of None \<Rightarrow> False | Some spec \<Rightarrow> as_RequireDisplayName spec)"

definition defaultDisplayName :: "app_spec option \<Rightarrow> string \<Rightarrow> string" where
  "defaultDisplayName app name =
     (let pre = (case app of None \<Rightarrow> [] | Some spec \<Rightarrow> as_DefaultDisplayNamePrefix spec)
      in if pre = [] then name else pre @ name)"

text \<open>What is published is the payload of the event.\<close>

definition user_CreateUser :: "user_env \<Rightarrow> create_request \<Rightarrow> user_state \<Rightarrow> user_state \<times> (go_err + hub_user)" where
  "user_CreateUser env req st =
     (if cr_Email req = [] \<or> cr_Name req = [] then (st, Inl (fresh_error env InvalidArgument ''email and name are required''))
      else if requiresDisplayName (ue_app env) \<and> cr_DisplayName req = []
      then (st, Inl (fresh_error env InvalidArgument ''display_name is required''))
      else let displayName = (if cr_DisplayName req = [] then defaultDisplayName (ue_app env) (cr_Name req) else cr_DisplayName req)
           in case Repository_Create (ue_db env) (ue_uuid env) (cr_Email req) displayName (us_rows st) of
                (rows, Inl err) \<Rightarrow> (st\<lparr>us_rows := rows\<rparr>, Inl (wrapped env err Internal ''create user'' ''could not create user''))
              | (rows, Inr user) \<Rightarrow>
                  (let st = st\<lparr>us_rows := rows\<rparr>; pbUser = user_toProto user
                   in case ue_Marshal env \<lparr>ev_ApiVersion = ''hub'', ev_User = pbUser\<rparr> of
                        Inl err \<Rightarrow> (st, Inl (wrapped env err Internal ''marshal user created event'' ''could not create user''))
                      | Inr payload \<Rightarrow>
                          (case ue_publish env payload of
                             Some err \<Rightarrow> (st, Inl (wrapped env err Internal ''publish user created event'' ''could not create user''))
                           | None \<Rightarrow> (st\<lparr>us_events := us_events st @ [payload]\<rparr>, Inr pbUser))))"

definition HandleUserCreatedEvent :: "user_env \<Rightarrow> string \<Rightarrow> go_err option" where
  "HandleUserCreatedEvent env payload =
     (case ue_Unmarshal env payload of
        Inr event \<Rightarrow> None
      | Inl _ \<Rightarrow> (case ue_jsonUnmarshal env payload of Inl err \<Rightarrow> Some err | Inr event \<Rightarrow> None))"

definition user_OnUserCreated :: "user_env \<Rightarrow> created_event \<Rightarrow> go_err option" where
  "user_OnUserCreated env event =
     (case ue_Marshal env event of
        Inl err \<Rightarrow> Some (wrapped env err Internal ''marshal user created event'' ''could not process user event'')
      | Inr payload \<Rightarrow>
          map_option (\<lambda>err. wrapped env err Internal ''handle user created event'' ''could not process user event'')
            (HandleUserCreatedEvent env payload))"

section \<open>A remote call\<close>

text \<open>The answer of a handler passes the server interceptor; an application error crosses the wire as its status and is
  decoded by the client interceptor.\<close>

definition status_of_error :: "grpc_env \<Rightarrow> go_err \<Rightarrow> Status" where
  "status_of_error g e =
     (case e of
        AppErr a \<Rightarrow> GRPCStatus g (Some a)
      | _ \<Rightarrow> (case status_FromError g e of
                Some st \<Rightarrow> st | None \<Rightarrow> \<lparr>st_Code = 2, st_Message = Error_text g e, st_Details = []\<rparr>))"

definition unary_call :: "grpc_env \<Rightarrow> callers \<Rightarrow> go_err + 'r \<Rightarrow> go_err + 'r" where
  "unary_call g callers answer =
     (case errx_UnaryServerInterceptor g callers
             (case answer of Inr resp \<Rightarrow> (Some resp, None) | Inl e \<Rightarrow> (None, Some e)) of
        (resp, Some e) \<Rightarrow> Inl (the (errx_UnaryClientInterceptor g (Some (StatusErr (status_of_error g e)))))
      | (resp, None) \<Rightarrow> Inr (the resp))"

end
