(* ===== verification/SearchService.thy ===== *)
theory SearchService
  imports UserService
begin

text \<open>
  The example service of searches (\<open>examples/search-service/internal/search\<close>): a handler and a repository that answers from a
  Redis cache and falls back to the user service.

  The cache maps keys to payloads; reading or writing a key can fail, and an entry can expire at any time.  JSON is a
  codec of environment functions, and the answers of the user service are parameters, which \<open>SearchFacts\<close> replaces by
  \<open>UserService\<close>.  A pointer is an option.
\<close>

section \<open>State\<close>

record search_Record =
  se_ID :: string
  se_Email :: string
  se_Name :: string
  se_DisplayName :: string

type_synonym cache = "string \<rightharpoonup> string"

record search_env =
  sx_grpc :: grpc_env
  sx_callers :: callers
  sx_connected :: bool
  sx_addr :: string
  sx_getFails :: "string \<Rightarrow> go_err option"
  sx_setFails :: "string \<Rightarrow> bool"
  sx_encodeUser :: "search_Record \<Rightarrow> go_err + string"
  sx_decodeUser :: "string \<Rightarrow> go_err + search_Record"
  sx_encodeUsers :: "search_Record option list \<Rightarrow> go_err + string"
  sx_decodeUsers :: "string \<Rightarrow> go_err + search_Record option list"
  sx_dial :: "go_err option"
  sx_GetUser :: "string \<Rightarrow> go_err + hub_user option"
  sx_ListUsers :: "go_err + hub_user option list"

definition allUsersCacheKey :: string where
  "allUsersCacheKey = ''search-service:users:all''"

definition cacheUserKey :: "string \<Rightarrow> string" where
  "cacheUserKey uid = ''search-service:user:'' @ uid"

definition redis_Nil :: go_err where
  "redis_Nil = SentinelErr ''redis: nil''"

definition cache_Get :: "search_env \<Rightarrow> cache \<Rightarrow> string \<Rightarrow> go_err + string" where
  "cache_Get env c key =
     (case sx_getFails env key of
        Some e \<Rightarrow> Inl e
      | None \<Rightarrow> (case c key of None \<Rightarrow> Inl redis_Nil | Some p \<Rightarrow> Inr p))"

definition cache_Set :: "search_env \<Rightarrow> string \<Rightarrow> string \<Rightarrow> cache \<Rightarrow> cache" where
  "cache_Set env key payload c = (if sx_setFails env key then c else c(key \<mapsto> payload))"

section \<open>The repository\<close>

definition fromUpstreamUser :: "hub_user option \<Rightarrow> search_Record option" where
  "fromUpstreamUser user =
     map_option (\<lambda>u. \<lparr>se_ID = hu_Id u, se_Email = hu_Email u, se_Name = hu_Name u, se_DisplayName = hu_DisplayName u\<rparr>) user"

definition loadCachedUser :: "search_env \<Rightarrow> cache \<Rightarrow> string \<Rightarrow> go_err + search_Record" where
  "loadCachedUser env c uid = bind_err (cache_Get env c (cacheUserKey uid)) (sx_decodeUser env)"

definition loadCachedUsers :: "search_env \<Rightarrow> cache \<Rightarrow> go_err + search_Record option list" where
  "loadCachedUsers env c =
     (if \<not> sx_connected env then Inl (PlainErr ''redis cache is unavailable'')
      else bind_err (cache_Get env c allUsersCacheKey) (sx_decodeUsers env))"

definition cacheUser :: "search_env \<Rightarrow> search_Record option \<Rightarrow> cache \<Rightarrow> cache" where
  "cacheUser env user c =
     (case user of
        None \<Rightarrow> c
      | Some u \<Rightarrow>
          if \<not> sx_connected env then c
          else (case sx_encodeUser env u of Inl e \<Rightarrow> c | Inr payload \<Rightarrow> cache_Set env (cacheUserKey (se_ID u)) payload c))"

definition cacheUsers :: "search_env \<Rightarrow> search_Record option list \<Rightarrow> cache \<Rightarrow> cache" where
  "cacheUsers env users c =
     (if \<not> sx_connected env \<or> users = [] then c
      else case sx_encodeUsers env users of
             Inl e \<Rightarrow> c
           | Inr payload \<Rightarrow> fold (cacheUser env) users (cache_Set env allUsersCacheKey payload c))"

text \<open>\<open>userClient\<close>: the connection is made lazily, so that only its creation can fail here.\<close>

definition userClient :: "search_env \<Rightarrow> go_err option" where
  "userClient env =
     map_option (\<lambda>err. AppErr (the (Wrap (sx_grpc env) (sx_callers env) (Some err) Internal ''dial user-service''
         [Some (Public ''could not search users''), Some (Fields [\<lparr>f_Key = ''addr'', f_Value = sx_addr env\<rparr>])])))
       (sx_dial env)"

definition fetchUser :: "search_env \<Rightarrow> string \<Rightarrow> go_err + search_Record" where
  "fetchUser env uid =
     (case userClient env of
        Some e \<Rightarrow> Inl e
      | None \<Rightarrow>
          (case sx_GetUser env uid of
             Inl err \<Rightarrow>
               (let code = Code_of (sx_grpc env) (Some err);
                    code = (if code = OK then Internal else code);
                    publicMessage = (if code = NotFound then ''user not found'' else ''could not fetch user'')
                in Inl (AppErr (the (Wrap (sx_grpc env) (sx_callers env) (Some err) code ''fetch user from user-service''
                     [Some (Public publicMessage), Some (Fields [\<lparr>f_Key = ''user_id'', f_Value = uid\<rparr>])]))))
           | Inr resp \<Rightarrow>
               (case fromUpstreamUser resp of
                  None \<Rightarrow> Inl (AppErr (New (sx_grpc env) (sx_callers env) NotFound ''user-service returned empty user''
                     [Some (Public ''user not found''), Some (Fields [\<lparr>f_Key = ''user_id'', f_Value = uid\<rparr>])]))
                | Some u \<Rightarrow> Inr u)))"

definition fetchAllUsers :: "search_env \<Rightarrow> go_err + search_Record option list" where
  "fetchAllUsers env =
     (case userClient env of
        Some e \<Rightarrow> Inl e
      | None \<Rightarrow>
          (case sx_ListUsers env of
             Inl err \<Rightarrow> Inl (AppErr (the (Wrap (sx_grpc env) (sx_callers env) (Some err) Internal ''list users from user-service''
                  [Some (Public ''could not search users'')])))
           | Inr users \<Rightarrow> Inr (map fromUpstreamUser users)))"

definition search_repo_GetUser :: "search_env \<Rightarrow> string \<Rightarrow> cache \<Rightarrow> cache \<times> (go_err + search_Record)" where
  "search_repo_GetUser env uid c =
     (case (if sx_connected env then loadCachedUser env c uid else Inl redis_Nil) of
        Inr r \<Rightarrow> (c, Inr r)
      | Inl _ \<Rightarrow>
          (case fetchUser env uid of
             Inl e \<Rightarrow> (c, Inl e)
           | Inr r \<Rightarrow> (cacheUser env (Some r) c, Inr r)))"

definition matches_user :: "string \<Rightarrow> search_Record \<Rightarrow> bool" where
  "matches_user query u \<longleftrightarrow>
     contains (to_lower (se_ID u)) query \<or> contains (to_lower (se_Email u)) query \<or>
     contains (to_lower (se_Name u)) query \<or> contains (to_lower (se_DisplayName u)) query"

definition filterUsers :: "search_Record option list \<Rightarrow> string \<Rightarrow> search_Record option list" where
  "filterUsers users query =
     (let query = to_lower (trim_space query)
      in if query = [] then users
         else filter (\<lambda>user. case user of None \<Rightarrow> False | Some u \<Rightarrow> matches_user query u) users)"

definition search_repo_SearchUsers ::
  "search_env \<Rightarrow> string \<Rightarrow> cache \<Rightarrow> cache \<times> (go_err + search_Record option list)" where
  "search_repo_SearchUsers env query c =
     (let cached = loadCachedUsers env c
      in case cached of
           Inr (u # us) \<Rightarrow> (c, Inr (filterUsers (u # us) query))
         | _ \<Rightarrow>
             (case fetchAllUsers env of
                Inl e \<Rightarrow> (c, Inl e)
              | Inr users \<Rightarrow> (cacheUsers env users c, Inr (filterUsers users query))))"

section \<open>The handler\<close>

definition search_toProto :: "search_Record option \<Rightarrow> hub_user option" where
  "search_toProto user =
     map_option (\<lambda>u. \<lparr>hu_Id = se_ID u, hu_Email = se_Email u, hu_Name = se_Name u, hu_DisplayName = se_DisplayName u\<rparr>) user"

definition search_GetUser :: "search_env \<Rightarrow> string \<Rightarrow> cache \<Rightarrow> cache \<times> (go_err + hub_user option)" where
  "search_GetUser env uid c =
     (if trim_space uid = []
      then (c, Inl (AppErr (New (sx_grpc env) (sx_callers env) InvalidArgument ''user id is required''
              [Some (Public ''user id is required'')])))
      else case search_repo_GetUser env uid c of
        (c, Inl e) \<Rightarrow> (c, Inl e)
      | (c, Inr user) \<Rightarrow> (c, Inr (search_toProto (Some user))))"

definition search_SearchUsers :: "search_env \<Rightarrow> string \<Rightarrow> cache \<Rightarrow> cache \<times> (go_err + hub_user option list)" where
  "search_SearchUsers env query c =
     (case search_repo_SearchUsers env query c of
        (c, Inl e) \<Rightarrow> (c, Inl e)
      | (c, Inr users) \<Rightarrow> (c, Inr (map search_toProto users)))"

text \<open>\<open>NewRepository\<close>: the address, the lifetime of an entry and whether there is a cache, from the application
  configuration and the client that \<open>redis.New\<close> gives.\<close>

record search_app =
  sp_UserServiceGrpcAddr :: string
  sp_CacheTtl :: "int option"

record search_Repository =
  rp_cache :: bool
  rp_userServiceAddr :: string
  rp_cacheTTL :: int

definition search_NewRepository :: "search_app option \<Rightarrow> go_err + unit \<Rightarrow> search_Repository" where
  "search_NewRepository app redis =
     (let addr = (case app of None \<Rightarrow> [] | Some spec \<Rightarrow> trim_space (sp_UserServiceGrpcAddr spec));
          ttl = (case app of None \<Rightarrow> None | Some spec \<Rightarrow> sp_CacheTtl spec)
      in \<lparr>rp_cache = (case redis of Inl e \<Rightarrow> False | Inr u \<Rightarrow> True),
          rp_userServiceAddr = (if addr \<noteq> [] then addr else ''127.0.0.1:9090''),
          rp_cacheTTL = (case ttl of None \<Rightarrow> 300 * 10 ^ 9 | Some t \<Rightarrow> if 0 < t then t else 300 * 10 ^ 9)\<rparr>)"

end
