(* ===== verification/SearchFacts.thy ===== *)
theory SearchFacts
  imports SearchService ErrxFacts
begin

text \<open>
  The two example services together: what a client of the search service learns of an error in the database of the user
  service, two calls away, and that the cache between them does not show.
\<close>

section \<open>The deployment\<close>

text \<open>The search service with the user service as its upstream.\<close>

definition deploy :: "user_env \<Rightarrow> user_state \<Rightarrow> search_env \<Rightarrow> search_env" where
  "deploy uenv ust env = env
     \<lparr>sx_GetUser := (\<lambda>uid. unary_call (ue_grpc uenv) (ue_callers uenv) (map_sum (\<lambda>e. e) Some (user_GetUser uenv ust uid))),
      sx_ListUsers := unary_call (ue_grpc uenv) (ue_callers uenv) (map_sum (\<lambda>e. e) (map Some) (user_ListUsers uenv ust))\<rparr>"

lemma deploy_simps [simp]:
  "sx_grpc (deploy uenv ust env) = sx_grpc env" "sx_callers (deploy uenv ust env) = sx_callers env"
  "sx_connected (deploy uenv ust env) = sx_connected env" "sx_dial (deploy uenv ust env) = sx_dial env"
  "sx_encodeUser (deploy uenv ust env) = sx_encodeUser env" "sx_decodeUser (deploy uenv ust env) = sx_decodeUser env"
  "sx_encodeUsers (deploy uenv ust env) = sx_encodeUsers env" "sx_decodeUsers (deploy uenv ust env) = sx_decodeUsers env"
  "sx_getFails (deploy uenv ust env) = sx_getFails env" "sx_setFails (deploy uenv ust env) = sx_setFails env"
  by (simp_all add: deploy_def)

lemma unary_call_Inr [simp]: "unary_call g callers (Inr x) = Inr x"
  by (simp add: unary_call_def errx_UnaryServerInterceptor_def)

section \<open>Errors, two calls away\<close>

lemma unary_call_error:
  fixes answer :: "go_err + 'r"
  assumes "grpc_documented g"
  shows "\<exists>b. unary_call g callers (Inl e :: go_err + 'r) = Inl (AppErr b) \<and> (e_code b, e_publicMessage b) = public_view g e"
proof -
  obtain a b where "errx_UnaryServerInterceptor g callers (None :: 'r option, Some e) = (None, Some (AppErr a))"
      "errx_UnaryClientInterceptor g (Some (StatusErr (GRPCStatus g (Some a)))) = Some (AppErr b)"
      "(e_code b, e_publicMessage b) = public_view g e"
    using client_decodes_public_view [OF assms, of callers "None :: 'r option" e] by blast
  then show ?thesis by (simp add: unary_call_def status_of_error_def)
qed

lemma Wrap_view:
  assumes "code \<noteq> OK" and "opt_publicMessage (applyOptions opts) = public" and "public \<noteq> []"
  shows "\<exists>a. Wrap g callers (Some e) code message opts = Some a \<and> e_code a = code \<and> e_publicMessage a = public"
  using assms by (simp add: Wrap_def Let_def pickCode_def)

lemma AppErr_view: "e_publicMessage a \<noteq> [] \<Longrightarrow> e_code a \<noteq> OK \<Longrightarrow> public_view g (AppErr a) = (e_code a, e_publicMessage a)"
  by (simp add: public_view_def)

lemma wrapped_view:
  assumes "code \<noteq> OK" and "public \<noteq> []"
  shows "public_view g (wrapped env e code message public) = (code, public)"
proof -
  have "opt_publicMessage (applyOptions [Some (Public public)]) = public" by (simp add: applyOptions_def Public_def)
  from Wrap_view [OF assms(1) this assms(2), of "ue_grpc env" "ue_callers env" e message] show ?thesis
    using assms by (auto simp add: wrapped_def AppErr_view)
qed

text \<open>What the client of the search service may know.\<close>

definition missing_view :: "go_err \<Rightarrow> Code \<times> string" where
  "missing_view err =
     (if err_Is (\<lambda>x. x = ErrNoRows) err then (NotFound, ''user not found'') else (Internal, ''could not fetch user''))"

lemma user_GetUser_view:
  assumes "Repository_GetByID (ue_db uenv) (us_rows ust) uid = Inl err"
  shows "\<exists>e. user_GetUser uenv ust uid = Inl e \<and> public_view g e = missing_view err"
  using assms by (auto simp add: user_GetUser_def missing_view_def wrapped_view)

lemma fetchUser_view:
  assumes "grpc_documented g" and "ue_grpc uenv = g" and "sx_grpc env = g" and "sx_dial env = None"
    and "Repository_GetByID (ue_db uenv) (us_rows ust) uid = Inl err"
  shows "\<exists>e. fetchUser (deploy uenv ust env) uid = Inl e \<and> public_view g e = missing_view err"
proof -
  obtain e where e: "user_GetUser uenv ust uid = Inl e" "public_view g e = missing_view err"
    using user_GetUser_view [OF assms(5)] by blast
  obtain b where b: "unary_call g (ue_callers uenv) (Inl e :: go_err + hub_user option) = Inl (AppErr b)"
      "(e_code b, e_publicMessage b) = missing_view err"
    using unary_call_error [OF assms(1), of "ue_callers uenv" e] e(2) by metis
  have up: "sx_GetUser (deploy uenv ust env) uid = Inl (AppErr b)"
    using b(1) assms(2) by (simp add: deploy_def e(1))
  let ?code = "e_code b" and ?public = "if e_code b = NotFound then ''user not found'' else ''could not fetch user''"
  let ?opts = "[Some (Public ?public), Some (Fields [\<lparr>f_Key = ''user_id'', f_Value = uid\<rparr>])]"
  have code: "?code \<noteq> OK" using b(2) by (auto simp add: missing_view_def split: if_splits)
  have "opt_publicMessage (applyOptions ?opts) = ?public" by (simp add: applyOptions_def Public_def Fields_def)
  moreover have "?public \<noteq> []" by simp
  ultimately have "\<exists>a. Wrap g (sx_callers env) (Some (AppErr b)) ?code ''fetch user from user-service'' ?opts = Some a \<and>
      e_code a = ?code \<and> e_publicMessage a = ?public" by (rule Wrap_view [OF code])
  then obtain a where a: "Wrap g (sx_callers env) (Some (AppErr b)) ?code ''fetch user from user-service'' ?opts = Some a"
      "e_code a = ?code" "e_publicMessage a = ?public" by (elim exE conjE)
  have "Code_of g (Some (AppErr b)) = ?code" by (simp add: Code_of_def base_error_AppErr)
  then have "fetchUser (deploy uenv ust env) uid = Inl (AppErr a)"
    using up a(1) code assms(3,4) by (simp add: fetchUser_def userClient_def Let_def)
  moreover have "public_view g (AppErr a) = missing_view err"
    using a(2,3) b(2) code by (auto simp add: AppErr_view missing_view_def split: if_splits)
  ultimately show ?thesis by blast
qed

text \<open>C31: An error crosses two services and shows nothing.  When the user is not in the cache and the database of the user
  service fails, the caller of the search service gets a status that depends on one bit of the database error only,
  whether it says that there is no such row: \<open>NotFound\<close> saying \<open>user not found\<close>, or \<open>Internal\<close> saying \<open>could not fetch
  user\<close>.  Messages, fields, stack traces and causes of both services stay behind, and the cache is unchanged.\<close>

theorem two_hop_error:
  assumes "grpc_documented g" and "ue_grpc uenv = g" and "sx_grpc env = g" and "sx_dial env = None"
    and "trim_space uid \<noteq> []" and "sx_connected env \<Longrightarrow> isl (loadCachedUser env c uid)"
    and "Repository_GetByID (ue_db uenv) (us_rows ust) uid = Inl err"
  shows "\<exists>e a. search_GetUser (deploy uenv ust env) uid c = (c, Inl e) \<and>
    errx_UnaryServerInterceptor g callers (None :: hub_user option, Some e) = (None, Some (AppErr a)) \<and>
    GRPCStatus g (Some a) = wire_status g (missing_view err)"
proof -
  obtain e where e: "fetchUser (deploy uenv ust env) uid = Inl e" "public_view g e = missing_view err"
    using fetchUser_view [OF assms(1-4,7)] by blast
  have "loadCachedUser (deploy uenv ust env) c uid = loadCachedUser env c uid"
    by (simp add: loadCachedUser_def cache_Get_def)
  then have "search_GetUser (deploy uenv ust env) uid c = (c, Inl e)"
    using assms(5,6) e(1) by (auto simp add: search_GetUser_def search_repo_GetUser_def split: sum.splits)
  moreover obtain a where "serverError g callers (Some e) = Some a"
      "(normalizeCode (e_code a), e_publicMessage a) = missing_view err"
    using serverError_view [of g callers e] e(2) by auto
  ultimately show ?thesis by (auto simp add: errx_UnaryServerInterceptor_def GRPCStatus_wire)
qed

definition idle_user_env :: user_env where
  "idle_user_env =
     \<lparr>ue_grpc = demo_grpc, ue_callers = (\<lambda>_. []), ue_db = (\<lambda>_. None), ue_uuid = ''u-1'', ue_app = None,
      ue_Marshal = (\<lambda>e. Inr ''{}''), ue_Unmarshal = (\<lambda>p. Inl (PlainErr ''no event'')),
      ue_jsonUnmarshal = (\<lambda>p. Inl (PlainErr ''no event'')), ue_publish = (\<lambda>p. None)\<rparr>"

definition uncached_env :: search_env where
  "uncached_env =
     \<lparr>sx_grpc = demo_grpc, sx_callers = (\<lambda>_. []), sx_connected = False, sx_addr = ''users:9090'', sx_getFails = (\<lambda>_. None),
      sx_setFails = (\<lambda>_. False), sx_encodeUser = (\<lambda>_. Inl (PlainErr ''no codec'')),
      sx_decodeUser = (\<lambda>_. Inl (PlainErr ''no codec'')), sx_encodeUsers = (\<lambda>_. Inl (PlainErr ''no codec'')),
      sx_decodeUsers = (\<lambda>_. Inl (PlainErr ''no codec'')), sx_dial = None, sx_GetUser = (\<lambda>_. Inr None),
      sx_ListUsers = Inr []\<rparr>"

theorem two_hop_error_witness:
  "\<exists>e a. search_GetUser (deploy idle_user_env \<lparr>us_rows = [], us_events = []\<rparr> uncached_env) ''u-7'' Map.empty =
       (Map.empty, Inl e) \<and>
     errx_UnaryServerInterceptor demo_grpc (\<lambda>_. []) (None :: hub_user option, Some e) = (None, Some (AppErr a)) \<and>
     GRPCStatus demo_grpc (Some a) = wire_status demo_grpc (NotFound, ''user not found'')"
proof -
  have missing: "Repository_GetByID (ue_db idle_user_env) (us_rows \<lparr>us_rows = [], us_events = []\<rparr>) ''u-7'' = Inl ErrNoRows"
    by (simp add: Repository_GetByID_def Queries_GetUser_def idle_user_env_def)
  have "missing_view ErrNoRows = (NotFound, ''user not found'')" by (simp add: missing_view_def ErrNoRows_def)
  moreover have "trim_space ''u-7'' \<noteq> []" by code_simp
  ultimately show ?thesis
    using two_hop_error [OF demo_grpc_documented _ _ _ _ _ missing, of uncached_env Map.empty "\<lambda>_. []"]
    by (simp add: idle_user_env_def uncached_env_def)
qed

end
