(* ===== verification/SearchWorld.thy ===== *)
theory SearchWorld
  imports SearchFacts
begin

text \<open>
  The cache of the search service over a table of users that grows: requests to both services, in any order, and entries that
  expire.  A single user in the cache is always exact; the cached list of all users may be old.
\<close>

section \<open>What the cache may hold\<close>

text \<open>\<open>encoding/json\<close> on records of valid text (\<open>ok\<close>): what it writes it reads back.\<close>

definition record_text :: "(string \<Rightarrow> bool) \<Rightarrow> search_Record \<Rightarrow> bool" where
  "record_text ok r \<longleftrightarrow> ok (se_ID r) \<and> ok (se_Email r) \<and> ok (se_Name r) \<and> ok (se_DisplayName r)"

definition codec_documented :: "(string \<Rightarrow> bool) \<Rightarrow> search_env \<Rightarrow> bool" where
  "codec_documented ok env \<longleftrightarrow>
     (\<forall>r p. record_text ok r \<longrightarrow> sx_encodeUser env r = Inr p \<longrightarrow> sx_decodeUser env p = Inr r) \<and>
     (\<forall>us p. (\<forall>r. Some r \<in> set us \<longrightarrow> record_text ok r) \<longrightarrow> sx_encodeUsers env us = Inr p \<longrightarrow> sx_decodeUsers env p = Inr us)"

definition row_record :: "user_row \<Rightarrow> search_Record" where
  "row_record row = \<lparr>se_ID = rw_ID row, se_Email = rw_Email row, se_Name = rw_Name row, se_DisplayName = rw_Name row\<rparr>"

definition row_text :: "(string \<Rightarrow> bool) \<Rightarrow> user_row \<Rightarrow> bool" where
  "row_text ok row \<longleftrightarrow> ok (rw_ID row) \<and> ok (rw_Email row) \<and> ok (rw_Name row)"

definition table_ok :: "(string \<Rightarrow> bool) \<Rightarrow> user_row list \<Rightarrow> bool" where
  "table_ok ok rows \<longleftrightarrow> distinct (map rw_ID rows) \<and> list_all (row_text ok) rows"

definition exact_entries :: "search_env \<Rightarrow> user_row list \<Rightarrow> cache \<Rightarrow> bool" where
  "exact_entries env rows c \<longleftrightarrow>
     (\<forall>uid p r. c (cacheUserKey uid) = Some p \<longrightarrow> sx_decodeUser env p = Inr r \<longrightarrow>
        (\<exists>row \<in> set rows. rw_ID row = uid \<and> r = row_record row))"

definition old_list :: "search_env \<Rightarrow> user_row list \<Rightarrow> cache \<Rightarrow> bool" where
  "old_list env rows c \<longleftrightarrow>
     (\<forall>p us. c allUsersCacheKey = Some p \<longrightarrow> sx_decodeUsers env p = Inr us \<longrightarrow>
        (\<exists>old. suffix old rows \<and> us = map (\<lambda>row. Some (row_record row)) old))"

definition coherent :: "(string \<Rightarrow> bool) \<Rightarrow> search_env \<Rightarrow> user_row list \<Rightarrow> cache \<Rightarrow> bool" where
  "coherent ok env rows c \<longleftrightarrow> table_ok ok rows \<and> exact_entries env rows c \<and> old_list env rows c"

lemma key_distinct [simp]: "cacheUserKey uid \<noteq> allUsersCacheKey" "allUsersCacheKey \<noteq> cacheUserKey uid"
  by (simp_all add: cacheUserKey_def allUsersCacheKey_def)

lemma cacheUserKey_inj [simp]: "cacheUserKey u = cacheUserKey v \<longleftrightarrow> u = v"
  by (simp add: cacheUserKey_def)

lemma record_text_row: "record_text ok (row_record row) = row_text ok row"
  by (auto simp add: record_text_def row_text_def row_record_def)

lemma table_row_text: "table_ok ok rows \<Longrightarrow> row \<in> set rows \<Longrightarrow> row_text ok row"
  by (simp add: table_ok_def list_all_iff)

section \<open>What the user service answers\<close>

lemma unary_call_Inl: "\<exists>e'. unary_call g callers (Inl e :: go_err + 'r) = Inl e'"
proof -
  obtain a where "serverError g callers (Some e) = Some a" using serverError_view [of g callers e] by blast
  then show ?thesis by (simp add: unary_call_def errx_UnaryServerInterceptor_def)
qed

lemma unary_call_Inr_iff: "unary_call g callers answer = Inr x \<longleftrightarrow> answer = Inr x"
proof (cases answer)
  case (Inl e)
  then obtain e' where "unary_call g callers answer = Inl e'" using unary_call_Inl by metis
  then show ?thesis using Inl by simp
qed simp

lemma user_GetUser_row:
  assumes "user_GetUser uenv ust uid = Inr u"
  shows "\<exists>row \<in> set (us_rows ust). rw_ID row = uid \<and> u = user_toProto (record_of_row row)"
  using assms
  by (auto simp add: user_GetUser_def Repository_GetByID_def Queries_GetUser_def find_Some_iff
      split: option.splits if_splits sum.splits)

lemma user_ListUsers_rows:
  assumes "user_ListUsers uenv ust = Inr us"
  shows "us = map (\<lambda>row. user_toProto (record_of_row row)) (us_rows ust)"
  using assms by (auto simp add: user_ListUsers_def Repository_List_def Queries_ListUsers_def split: option.splits)

lemma fromUpstreamUser_row: "fromUpstreamUser (Some (user_toProto (record_of_row row))) = Some (row_record row)"
  by (simp add: fromUpstreamUser_def user_toProto_def record_of_row_def row_record_def)

lemma search_toProto_row: "search_toProto (Some (row_record row)) = Some (user_toProto (record_of_row row))"
  by (simp add: search_toProto_def user_toProto_def record_of_row_def row_record_def)

lemma map_sum_Inr_iff: "map_sum (\<lambda>e. e) f s = Inr y \<longleftrightarrow> (\<exists>x. s = Inr x \<and> y = f x)"
  by (cases s) auto

lemma fetchUser_row:
  assumes "fetchUser (deploy uenv ust env) uid = Inr r"
  shows "\<exists>row \<in> set (us_rows ust). rw_ID row = uid \<and> r = row_record row"
proof -
  obtain x where "sx_GetUser (deploy uenv ust env) uid = Inr x" "fromUpstreamUser x = Some r"
    using assms by (auto simp add: fetchUser_def Let_def split: option.splits sum.splits)
  then obtain u where "user_GetUser uenv ust uid = Inr u" "fromUpstreamUser (Some u) = Some r"
    by (auto simp add: deploy_def map_sum_Inr_iff unary_call_Inr_iff)
  then show ?thesis using user_GetUser_row fromUpstreamUser_row by fastforce
qed

lemma fetchAllUsers_rows:
  assumes "fetchAllUsers (deploy uenv ust env) = Inr us"
  shows "us = map (\<lambda>row. Some (row_record row)) (us_rows ust)"
proof -
  obtain xs where "sx_ListUsers (deploy uenv ust env) = Inr xs" and us: "us = map fromUpstreamUser xs"
    using assms by (auto simp add: fetchAllUsers_def split: option.splits sum.splits)
  then obtain vs where "user_ListUsers uenv ust = Inr vs" and "xs = map Some vs"
    by (auto simp add: deploy_def map_sum_Inr_iff unary_call_Inr_iff)
  from user_ListUsers_rows [OF this(1)] this(2) us show ?thesis by (simp add: fromUpstreamUser_row)
qed

section \<open>What the operations do to the cache\<close>

lemma cache_Set_exact:
  assumes "exact_entries env rows c" and "row \<in> set rows" and "sx_decodeUser env p = Inr (row_record row)"
  shows "exact_entries env rows (cache_Set env (cacheUserKey (rw_ID row)) p c)"
  using assms by (auto simp add: exact_entries_def cache_Set_def)

lemma cacheUser_coherent:
  assumes "codec_documented ok env" and "coherent ok env rows c" and "row \<in> set rows"
  shows "coherent ok env rows (cacheUser env (Some (row_record row)) c)"
proof (cases "sx_connected env \<and> (\<exists>p. sx_encodeUser env (row_record row) = Inr p)")
  case True
  then obtain p where p: "sx_connected env" "sx_encodeUser env (row_record row) = Inr p" by blast
  have "record_text ok (row_record row)"
    using assms(2,3) by (auto simp add: record_text_row coherent_def intro: table_row_text)
  then have "sx_decodeUser env p = Inr (row_record row)" using assms(1) p(2) by (simp add: codec_documented_def)
  then have "exact_entries env rows (cache_Set env (cacheUserKey (rw_ID row)) p c)"
    using assms(2,3) by (simp add: cache_Set_exact coherent_def)
  moreover have "old_list env rows (cache_Set env (cacheUserKey (rw_ID row)) p c)"
    using assms(2) by (simp add: coherent_def old_list_def cache_Set_def)
  moreover have "cacheUser env (Some (row_record row)) c = cache_Set env (cacheUserKey (rw_ID row)) p c"
    using p by (simp add: cacheUser_def row_record_def)
  ultimately show ?thesis using assms(2) by (simp add: coherent_def)
next
  case False
  then have "cacheUser env (Some (row_record row)) c = c" by (auto simp add: cacheUser_def split: sum.split)
  then show ?thesis using assms(2) by simp
qed

lemma fold_cacheUser_coherent:
  assumes "codec_documented ok env" and "coherent ok env rows c" and "set old \<subseteq> set rows"
  shows "coherent ok env rows (fold (cacheUser env) (map (\<lambda>row. Some (row_record row)) old) c)"
  using assms(2,3) by (induction old arbitrary: c) (simp_all add: cacheUser_coherent [OF assms(1)])

lemma cacheUsers_coherent:
  assumes "codec_documented ok env" and "coherent ok env rows c" and "suffix old rows"
  shows "coherent ok env rows (cacheUsers env (map (\<lambda>row. Some (row_record row)) old) c)"
proof (cases "sx_encodeUsers env (map (\<lambda>row. Some (row_record row)) old)")
  case (Inl e)
  then show ?thesis using assms(2) by (simp add: cacheUsers_def)
next
  case (Inr p)
  let ?us = "map (\<lambda>row. Some (row_record row)) old"
  have sub: "set old \<subseteq> set rows" using assms(3) by (rule set_mono_suffix)
  have "\<forall>r. Some r \<in> set ?us \<longrightarrow> record_text ok r"
    using assms(2) sub by (auto simp add: record_text_row coherent_def table_row_text subset_iff)
  then have "sx_decodeUsers env p = Inr ?us" using assms(1) Inr by (simp add: codec_documented_def)
  then have "old_list env rows (cache_Set env allUsersCacheKey p c)"
    using assms(2,3) by (auto simp add: coherent_def old_list_def cache_Set_def)
  moreover have "exact_entries env rows (cache_Set env allUsersCacheKey p c)"
    using assms(2) by (simp add: coherent_def exact_entries_def cache_Set_def)
  ultimately have "coherent ok env rows (cache_Set env allUsersCacheKey p c)" using assms(2) by (simp add: coherent_def)
  from fold_cacheUser_coherent [OF assms(1) this sub] show ?thesis using Inr assms(2) by (simp add: cacheUsers_def)
qed

lemma loadCachedUser_row:
  assumes "coherent ok env rows c" and "loadCachedUser (deploy uenv ust env) c uid = Inr r"
  shows "\<exists>row \<in> set rows. rw_ID row = uid \<and> r = row_record row"
  using assms by (auto simp add: loadCachedUser_def cache_Get_def coherent_def exact_entries_def split: option.splits)

lemma loadCachedUsers_rows:
  assumes "coherent ok env rows c" and "loadCachedUsers (deploy uenv ust env) c = Inr us"
  shows "\<exists>old. suffix old rows \<and> us = map (\<lambda>row. Some (row_record row)) old"
  using assms by (auto simp add: loadCachedUsers_def cache_Get_def coherent_def old_list_def split: option.splits if_splits)

lemma cacheUser_deploy [simp]: "cacheUser (deploy uenv ust env) = cacheUser env"
  by (simp add: fun_eq_iff cacheUser_def cache_Set_def split: option.split sum.split)

lemma cacheUsers_deploy [simp]: "cacheUsers (deploy uenv ust env) = cacheUsers env"
  by (simp add: fun_eq_iff cacheUsers_def cache_Set_def split: sum.split)

section \<open>The two services in operation\<close>

definition same_codec :: "search_env \<Rightarrow> search_env \<Rightarrow> bool" where
  "same_codec e0 env \<longleftrightarrow>
     sx_encodeUser env = sx_encodeUser e0 \<and> sx_decodeUser env = sx_decodeUser e0 \<and>
     sx_encodeUsers env = sx_encodeUsers e0 \<and> sx_decodeUsers env = sx_decodeUsers e0"

text \<open>The database only stores valid text, as Postgres does.\<close>

definition db_text :: "(string \<Rightarrow> bool) \<Rightarrow> db_fail \<Rightarrow> bool" where
  "db_text ok db \<longleftrightarrow> (\<forall>row. db (CreateUserOp row) = None \<longrightarrow> row_text ok row)"

text \<open>A request to the search service may get the answer of an older table of the user service: rows are only added.  In every
  step the database, Redis, the network and publishing may fail otherwise.\<close>

inductive world_step :: "(string \<Rightarrow> bool) \<Rightarrow> search_env \<Rightarrow> user_state \<times> cache \<Rightarrow> user_state \<times> cache \<Rightarrow> bool"
  for ok e0 where
  world_create: "db_text ok (ue_db uenv) \<Longrightarrow> world_step ok e0 (ust, c) (fst (user_CreateUser uenv req ust), c)"
| world_get: "same_codec e0 env \<Longrightarrow> suffix (us_rows old) (us_rows ust) \<Longrightarrow>
    world_step ok e0 (ust, c) (ust, fst (search_GetUser (deploy uenv old env) uid c))"
| world_search: "same_codec e0 env \<Longrightarrow> suffix (us_rows old) (us_rows ust) \<Longrightarrow>
    world_step ok e0 (ust, c) (ust, fst (search_SearchUsers (deploy uenv old env) query c))"
| world_expire: "world_step ok e0 (ust, c) (ust, c(key := None))"

lemma coherent_codec: "same_codec e0 env \<Longrightarrow> coherent ok env rows c = coherent ok e0 rows c"
  by (simp add: same_codec_def coherent_def exact_entries_def old_list_def)

lemma codec_same: "same_codec e0 env \<Longrightarrow> codec_documented ok env = codec_documented ok e0"
  by (simp add: same_codec_def codec_documented_def)

lemma Repository_Create_rows:
  "fst (Repository_Create db uuid email name rows) = rows \<or>
   (\<exists>row. fst (Repository_Create db uuid email name rows) = row # rows \<and>
      db (CreateUserOp row) = None \<and> rw_ID row \<notin> rw_ID ` set rows)"
  by (auto simp add: Repository_Create_def Queries_CreateUser_def list_ex_iff split: option.split)

lemma user_CreateUser_writes:
  "us_rows (fst (user_CreateUser uenv req ust)) = us_rows ust \<or>
   (\<exists>name. us_rows (fst (user_CreateUser uenv req ust)) =
      fst (Repository_Create (ue_db uenv) (ue_uuid uenv) (cr_Email req) name (us_rows ust)))"
proof -
  let ?name = "if cr_DisplayName req = [] then defaultDisplayName (ue_app uenv) (cr_Name req) else cr_DisplayName req"
  obtain rows answer where "Repository_Create (ue_db uenv) (ue_uuid uenv) (cr_Email req) ?name (us_rows ust) = (rows, answer)"
    by (cases "Repository_Create (ue_db uenv) (ue_uuid uenv) (cr_Email req) ?name (us_rows ust)")
  moreover from this have "us_rows (fst (user_CreateUser uenv req ust)) \<in> {us_rows ust, rows}"
    by (simp add: user_CreateUser_def Let_def split: sum.split option.split)
  ultimately show ?thesis by (metis fst_conv insertE singletonD)
qed

lemma user_CreateUser_rows:
  "us_rows (fst (user_CreateUser uenv req ust)) = us_rows ust \<or>
   (\<exists>row. us_rows (fst (user_CreateUser uenv req ust)) = row # us_rows ust \<and>
      ue_db uenv (CreateUserOp row) = None \<and> rw_ID row \<notin> rw_ID ` set (us_rows ust))"
  using user_CreateUser_writes [of uenv req ust]
    Repository_Create_rows [of "ue_db uenv" "ue_uuid uenv" "cr_Email req" _ "us_rows ust"] by metis

lemma coherent_create:
  assumes "db_text ok (ue_db uenv)" and "coherent ok e0 (us_rows ust) c"
  shows "coherent ok e0 (us_rows (fst (user_CreateUser uenv req ust))) c"
  using user_CreateUser_rows [of uenv req ust]
proof (elim disjE exE conjE)
  fix row
  assume rows: "us_rows (fst (user_CreateUser uenv req ust)) = row # us_rows ust"
    and new: "ue_db uenv (CreateUserOp row) = None" "rw_ID row \<notin> rw_ID ` set (us_rows ust)"
  have "table_ok ok (row # us_rows ust)"
    using assms new by (simp add: db_text_def coherent_def table_ok_def)
  moreover have "exact_entries e0 (row # us_rows ust) c"
    using assms(2) unfolding coherent_def exact_entries_def by (meson list.set_intros(2))
  moreover have "old_list e0 (row # us_rows ust) c"
    using assms(2) unfolding coherent_def old_list_def by (meson suffix_ConsI)
  ultimately show ?thesis by (simp add: rows coherent_def)
qed (simp add: assms)

text \<open>One request to the search service, on a coherent cache.\<close>

lemma search_GetUser_coherent:
  assumes "codec_documented ok env" and "coherent ok env rows c" and "suffix (us_rows old) rows"
  shows "coherent ok env rows (fst (search_GetUser (deploy uenv old env) uid c))"
    and "snd (search_GetUser (deploy uenv old env) uid c) = Inr u \<Longrightarrow>
      \<exists>row \<in> set rows. rw_ID row = uid \<and> u = Some (user_toProto (record_of_row row))"
proof -
  let ?env = "deploy uenv old env"
  have fetched: "\<exists>row \<in> set rows. rw_ID row = uid \<and> r = row_record row" if "fetchUser ?env uid = Inr r" for r
    using fetchUser_row [OF that] set_mono_suffix [OF assms(3)] by blast
  then show "coherent ok env rows (fst (search_GetUser ?env uid c))"
    using assms(2) cacheUser_coherent [OF assms(1,2)]
    by (fastforce simp add: search_GetUser_def search_repo_GetUser_def split: sum.split)
  assume answer: "snd (search_GetUser ?env uid c) = Inr u"
  obtain r where r: "u = search_toProto (Some r)" "fetchUser ?env uid = Inr r \<or> loadCachedUser ?env c uid = Inr r"
    using answer by (auto simp add: search_GetUser_def search_repo_GetUser_def split: sum.splits if_splits)
  then have "\<exists>row \<in> set rows. rw_ID row = uid \<and> r = row_record row"
    using fetched loadCachedUser_row [OF assms(2)] by blast
  then show "\<exists>row \<in> set rows. rw_ID row = uid \<and> u = Some (user_toProto (record_of_row row))"
    using r(1) by (auto simp add: search_toProto_row)
qed

definition row_matches :: "string \<Rightarrow> user_row \<Rightarrow> bool" where
  "row_matches query row \<longleftrightarrow>
     to_lower (trim_space query) = [] \<or> matches_user (to_lower (trim_space query)) (row_record row)"

lemma filterUsers_rows:
  "map search_toProto (filterUsers (map (\<lambda>row. Some (row_record row)) rows) query) =
   map (\<lambda>row. Some (user_toProto (record_of_row row))) (filter (row_matches query) rows)"
  by (simp add: filterUsers_def Let_def row_matches_def [abs_def] filter_map o_def search_toProto_row)

lemma repo_SearchUsers_cases:
  assumes "codec_documented ok env" and "coherent ok env rows c" and "suffix (us_rows old) rows"
  shows "coherent ok env rows (fst (search_repo_SearchUsers (deploy uenv old env) query c))"
    and "snd (search_repo_SearchUsers (deploy uenv old env) query c) = Inr us \<Longrightarrow>
      \<exists>seen. suffix seen rows \<and> (c allUsersCacheKey = None \<longrightarrow> seen = us_rows old) \<and>
        us = filterUsers (map (\<lambda>row. Some (row_record row)) seen) query"
proof -
  let ?env = "deploy uenv old env"
  have cold: "\<And>us. c allUsersCacheKey = None \<Longrightarrow> loadCachedUsers ?env c \<noteq> Inr us"
    by (auto simp add: loadCachedUsers_def cache_Get_def split: option.split)
  consider (hit) seen where "loadCachedUsers ?env c = Inr (map (\<lambda>row. Some (row_record row)) seen)" "seen \<noteq> []"
      "suffix seen rows" | (miss) "\<And>u us. loadCachedUsers ?env c \<noteq> Inr (u # us)"
    using loadCachedUsers_rows [OF assms(2), where uenv = uenv and ust = old]
    by (metis list.map_disc_iff list.distinct(1))
  then have "coherent ok env rows (fst (search_repo_SearchUsers ?env query c)) \<and>
    (snd (search_repo_SearchUsers ?env query c) = Inr us \<longrightarrow>
      (\<exists>seen. suffix seen rows \<and> (c allUsersCacheKey = None \<longrightarrow> seen = us_rows old) \<and>
        us = filterUsers (map (\<lambda>row. Some (row_record row)) seen) query))"
  proof cases
    case hit
    then have "search_repo_SearchUsers ?env query c = (c, Inr (filterUsers (map (\<lambda>row. Some (row_record row)) seen) query))"
      by (cases seen) (simp_all add: search_repo_SearchUsers_def)
    then show ?thesis using hit assms(2) cold by auto
  next
    case miss
    then have *: "search_repo_SearchUsers ?env query c =
       (case fetchAllUsers ?env of Inl e \<Rightarrow> (c, Inl e) | Inr users \<Rightarrow> (cacheUsers env users c, Inr (filterUsers users query)))"
      by (auto simp add: search_repo_SearchUsers_def Let_def split: sum.split list.split)
    show ?thesis
    proof (cases "fetchAllUsers ?env")
      case (Inl e)
      then show ?thesis using assms(2) by (simp add: *)
    next
      case (Inr users)
      from fetchAllUsers_rows [OF this] show ?thesis
        using assms(3) cacheUsers_coherent [OF assms] by (auto simp add: * Inr)
    qed
  qed
  then show "coherent ok env rows (fst (search_repo_SearchUsers ?env query c))"
    and "snd (search_repo_SearchUsers ?env query c) = Inr us \<Longrightarrow>
      \<exists>seen. suffix seen rows \<and> (c allUsersCacheKey = None \<longrightarrow> seen = us_rows old) \<and>
        us = filterUsers (map (\<lambda>row. Some (row_record row)) seen) query" by blast+
qed

lemma search_SearchUsers_coherent:
  assumes "codec_documented ok env" and "coherent ok env rows c" and "suffix (us_rows old) rows"
  shows "coherent ok env rows (fst (search_SearchUsers (deploy uenv old env) query c))"
    and "snd (search_SearchUsers (deploy uenv old env) query c) = Inr us \<Longrightarrow>
      \<exists>seen. suffix seen rows \<and> (c allUsersCacheKey = None \<longrightarrow> seen = us_rows old) \<and>
        us = map (\<lambda>row. Some (user_toProto (record_of_row row))) (filter (row_matches query) seen)"
  using repo_SearchUsers_cases(1) [OF assms, of uenv query] repo_SearchUsers_cases(2) [OF assms, of uenv query]
  by (auto simp add: search_SearchUsers_def filterUsers_rows split: prod.splits sum.splits)

lemma world_step_coherent:
  assumes "world_step ok e0 w w'" and "codec_documented ok e0" and "coherent ok e0 (us_rows (fst w)) (snd w)"
  shows "coherent ok e0 (us_rows (fst w')) (snd w')"
  using assms(1,3)
proof cases
  case (world_create uenv ust c req)
  then show ?thesis using assms(3) by (simp add: coherent_create)
next
  case (world_get env old ust c uenv uid)
  then show ?thesis
    using assms(2,3) search_GetUser_coherent(1) [of ok env "us_rows ust" c old uenv uid] by (simp add: coherent_codec codec_same)
next
  case (world_search env old ust c uenv query)
  then show ?thesis
    using assms(2,3) search_SearchUsers_coherent(1) [of ok env "us_rows ust" c old uenv query]
    by (simp add: coherent_codec codec_same)
next
  case (world_expire ust c key)
  then show ?thesis using assms(3) by (simp add: coherent_def exact_entries_def old_list_def)
qed

lemma world_coherent:
  assumes "(world_step ok e0)\<^sup>*\<^sup>* w w'" and "codec_documented ok e0" and "coherent ok e0 (us_rows (fst w)) (snd w)"
  shows "coherent ok e0 (us_rows (fst w')) (snd w')"
  using assms by (induction rule: rtranclp_induct) (auto dest: world_step_coherent)

lemma coherent_empty: "table_ok ok rows \<Longrightarrow> coherent ok e0 rows Map.empty"
  by (simp add: coherent_def exact_entries_def old_list_def)

text \<open>C30: The search service is stale at worst, never wrong.  From an empty cache, after any requests to both services in any order,
  with any failures of the database, of Redis and of the network and any expiry, a user that \<open>GetUser\<close> of the search
  service answers is the row of the user service's table with that identifier, as the user service itself would answer; and
  what \<open>SearchUsers\<close> answers are the matching rows, in the order of the table, of the table as it was at some earlier moment: of
  the present table when no list of users is cached.\<close>

theorem search_stale_never_wrong:
  assumes "codec_documented ok e0" and "table_ok ok (us_rows ust0)"
    and "(world_step ok e0)\<^sup>*\<^sup>* (ust0, Map.empty) (ust, c)" and "same_codec e0 env"
  shows "(\<forall>u. snd (search_GetUser (deploy uenv ust env) uid c) = Inr u \<longrightarrow>
      (\<exists>row \<in> set (us_rows ust). rw_ID row = uid \<and> u = Some (user_toProto (record_of_row row)))) \<and>
    (\<forall>us. snd (search_SearchUsers (deploy uenv ust env) query c) = Inr us \<longrightarrow>
      (\<exists>seen. suffix seen (us_rows ust) \<and> (c allUsersCacheKey = None \<longrightarrow> seen = us_rows ust) \<and>
        us = map (\<lambda>row. Some (user_toProto (record_of_row row))) (filter (row_matches query) seen)))"
proof -
  have "coherent ok env (us_rows ust) c"
    using world_coherent [OF assms(3,1)] assms(2,4) by (simp add: coherent_empty coherent_codec)
  then show ?thesis
    using search_GetUser_coherent(2) [of ok env "us_rows ust" c ust uenv uid]
      search_SearchUsers_coherent(2) [of ok env "us_rows ust" c ust uenv query] assms(1,4)
    by (auto simp add: codec_same)
qed

text \<open>A run with a stale list: Ann is searched for, then Bob is created.\<close>

definition ann :: user_row where
  "ann = \<lparr>rw_ID = ''u-1'', rw_Email = ''ann@zengo.dev'', rw_Name = ''Ann''\<rparr>"

definition ann_only :: user_state where
  "ann_only = \<lparr>us_rows = [ann], us_events = []\<rparr>"

definition cached_env :: search_env where
  "cached_env = uncached_env
     \<lparr>sx_connected := True,
      sx_encodeUser := (\<lambda>r. if r = row_record ann then Inr ''{ann}'' else Inl (PlainErr ''no codec'')),
      sx_decodeUser := (\<lambda>p. Inr (row_record ann)),
      sx_encodeUsers := (\<lambda>us. if us = [Some (row_record ann)] then Inr ''[ann]'' else Inl (PlainErr ''no codec'')),
      sx_decodeUsers := (\<lambda>p. Inr [Some (row_record ann)])\<rparr>"

definition bob_request :: create_request where
  "bob_request = \<lparr>cr_Email = ''bob@zengo.dev'', cr_Name = ''Bob'', cr_DisplayName = []\<rparr>"

definition bob_env :: user_env where
  "bob_env = idle_user_env\<lparr>ue_uuid := ''u-2''\<rparr>"

lemmas demo_world = ann_def ann_only_def cached_env_def uncached_env_def bob_request_def bob_env_def idle_user_env_def

definition ann_and_bob :: user_state where
  "ann_and_bob = fst (user_CreateUser bob_env bob_request ann_only)"

definition warm_cache :: cache where
  "warm_cache = fst (search_SearchUsers (deploy bob_env ann_only cached_env) [] Map.empty)"

lemma ann_and_bob_rows: "map rw_ID (us_rows ann_and_bob) = [''u-2'', ''u-1'']"
  by (simp add: ann_and_bob_def user_CreateUser_def Repository_Create_def Queries_CreateUser_def requiresDisplayName_def
      defaultDisplayName_def Let_def demo_world)

lemma warm_cache_list: "warm_cache allUsersCacheKey = Some ''[ann]''"
proof -
  have "user_ListUsers bob_env ann_only = Inr [user_toProto (record_of_row ann)]"
    by (simp add: user_ListUsers_def Repository_List_def Queries_ListUsers_def bob_env_def idle_user_env_def ann_only_def)
  then have "fetchAllUsers (deploy bob_env ann_only cached_env) = Inr [Some (row_record ann)]"
    by (simp add: fetchAllUsers_def userClient_def cached_env_def uncached_env_def deploy_def fromUpstreamUser_row)
  moreover have "loadCachedUsers (deploy bob_env ann_only cached_env) Map.empty = Inl redis_Nil"
    by (simp add: loadCachedUsers_def cache_Get_def cached_env_def uncached_env_def)
  ultimately have cache: "warm_cache = cacheUsers cached_env [Some (row_record ann)] Map.empty"
    by (simp add: warm_cache_def search_SearchUsers_def search_repo_SearchUsers_def)
  show ?thesis
    unfolding cache by (simp add: cacheUsers_def cacheUser_def cache_Set_def cached_env_def uncached_env_def)
qed

theorem search_stale_never_wrong_witness:
  "\<exists>seen. suffix seen (us_rows ann_and_bob) \<and> [''u-1''] = map rw_ID (filter (row_matches ''a'') seen) \<and>
     snd (search_SearchUsers (deploy bob_env ann_and_bob cached_env) ''a'' warm_cache) =
       Inr (map (\<lambda>row. Some (user_toProto (record_of_row row))) (filter (row_matches ''a'') seen))"
proof -
  have codec: "codec_documented (\<lambda>_. True) cached_env"
    by (simp add: codec_documented_def cached_env_def)
  have table: "table_ok (\<lambda>_. True) (us_rows ann_only)" by (simp add: table_ok_def row_text_def ann_only_def)
  have "world_step (\<lambda>_. True) cached_env (ann_only, Map.empty) (ann_only, warm_cache)"
    unfolding warm_cache_def by (rule world_search) (simp_all add: same_codec_def)
  moreover have "world_step (\<lambda>_. True) cached_env (ann_only, warm_cache) (ann_and_bob, warm_cache)"
    unfolding ann_and_bob_def by (rule world_create) (simp add: db_text_def row_text_def)
  ultimately have run: "(world_step (\<lambda>_. True) cached_env)\<^sup>*\<^sup>* (ann_only, Map.empty) (ann_and_bob, warm_cache)"
    by (rule converse_rtranclp_into_rtranclp [OF _ r_into_rtranclp])
  have hit: "search_SearchUsers (deploy bob_env ann_and_bob cached_env) ''a'' warm_cache =
      (warm_cache, Inr [Some (user_toProto (record_of_row ann))])"
  proof -
    have "loadCachedUsers (deploy bob_env ann_and_bob cached_env) warm_cache = Inr [Some (row_record ann)]"
      using warm_cache_list by (simp add: loadCachedUsers_def cache_Get_def cached_env_def uncached_env_def)
    moreover have "row_matches ''a'' ann" by (simp add: ann_def) code_simp
    ultimately show ?thesis
      using filterUsers_rows [of "[ann]" "''a''"] by (simp add: search_SearchUsers_def search_repo_SearchUsers_def)
  qed
  have "same_codec cached_env cached_env" by (simp add: same_codec_def)
  note answers = search_stale_never_wrong [OF codec table run this, of bob_env "''u-1''" "''a''"]
  from hit have answer: "snd (search_SearchUsers (deploy bob_env ann_and_bob cached_env) ''a'' warm_cache) =
      Inr [Some (user_toProto (record_of_row ann))]" by simp
  from answers [THEN conjunct2, THEN spec, THEN mp, OF answer] obtain seen where "suffix seen (us_rows ann_and_bob)"
    and seen: "[Some (user_toProto (record_of_row ann))] =
      map (\<lambda>row. Some (user_toProto (record_of_row row))) (filter (row_matches ''a'') seen)" by (elim exE conjE)
  moreover have "map rw_ID (filter (row_matches ''a'') seen) = [''u-1'']"
    using seen by (auto simp add: user_toProto_def record_of_row_def ann_def)
  ultimately show ?thesis using hit by (metis snd_conv)
qed

end
