(* ===== verification/NotificationService.thy ===== *)
theory NotificationService
  imports UserService
begin

text \<open>
  The example service of notifications (\<open>examples/notification-service/internal/notification/handler.go\<close>), which prints a line for
  every created user, and what becomes of a user that the user service creates.

  The event of a payload, decoded by protobuf JSON, is a parameter.  What is printed is returned.
\<close>

section \<open>The handler\<close>

record notified_event =
  ne_ApiVersion :: string
  ne_User :: "hub_user option"

record status_response =
  sr_Service :: string
  sr_State :: string

definition notification_GetStatus :: status_response where
  "notification_GetStatus = \<lparr>sr_Service = ''notification-service'', sr_State = ''ready''\<rparr>"

definition printUserCreated :: "notified_event option \<Rightarrow> string" where
  "printUserCreated event =
     (case event of
        None \<Rightarrow> ''notification-service: received empty user.created event''
      | Some ev \<Rightarrow>
          (case ne_User ev of
             None \<Rightarrow> ''notification-service: received empty user.created event''
           | Some user \<Rightarrow>
               ''notification-service: user created id='' @ hu_Id user @ '' email='' @ hu_Email user @ '' name='' @ hu_Name user @
               '' display_name='' @ hu_DisplayName user @ '' api_version='' @ ne_ApiVersion ev))"

definition notification_OnUserCreated :: "notified_event option \<Rightarrow> string list \<Rightarrow> string list \<times> go_err option" where
  "notification_OnUserCreated event out = (out @ [printUserCreated event], None)"

definition handleUserCreatedEvent ::
  "(string \<Rightarrow> go_err + notified_event) \<Rightarrow> (notified_event option \<Rightarrow> string list \<Rightarrow> string list \<times> go_err option) \<Rightarrow>
   string \<Rightarrow> string list \<Rightarrow> string list \<times> go_err option" where
  "handleUserCreatedEvent unmarshal onUserCreated payload out =
     (case unmarshal payload of
        Inl err \<Rightarrow> (out, Some (WrapErr ''decode user created event'' err))
      | Inr event \<Rightarrow>
          (case onUserCreated (Some event) out of
             (out, Some err) \<Rightarrow> (out, Some err)
           | (out, None) \<Rightarrow> (out, None)))"

section \<open>From creation to notification\<close>

definition notification_line :: "hub_user \<Rightarrow> string" where
  "notification_line user = printUserCreated (Some \<lparr>ne_ApiVersion = ''hub'', ne_User = Some user\<rparr>)"

lemma CreateUser_publishes:
  assumes "user_CreateUser env req st = (st', Inr user)"
  shows "\<exists>payload. ue_Marshal env \<lparr>ev_ApiVersion = ''hub'', ev_User = user\<rparr> = Inr payload \<and> us_events st' = us_events st @ [payload] \<and>
    ue_publish env payload = None"
  using assms
  by (auto simp add: user_CreateUser_def Let_def split: if_splits prod.splits sum.splits option.splits)

text \<open>A user that was created is printed by the notification service, once per delivery, when that service decodes what the
  user service encodes.\<close>

lemma created_user_is_notified:
  assumes "user_CreateUser env req st = (st', Inr user)"
    and "\<And>payload. ue_Marshal env \<lparr>ev_ApiVersion = ''hub'', ev_User = user\<rparr> = Inr payload \<Longrightarrow>
      unmarshal payload = Inr \<lparr>ne_ApiVersion = ''hub'', ne_User = Some user\<rparr>"
  shows "\<exists>payload. us_events st' = us_events st @ [payload] \<and>
    handleUserCreatedEvent unmarshal notification_OnUserCreated payload out = (out @ [notification_line user], None)"
  using CreateUser_publishes [OF assms(1)] assms(2)
  by (auto simp add: handleUserCreatedEvent_def notification_OnUserCreated_def notification_line_def)

text \<open>A failed publication leaves the row: the request fails, and its repetition fails for the email that is taken.\<close>

lemma CreateUser_dual_write:
  assumes "cr_Email req \<noteq> []" and "cr_Name req \<noteq> []" and "cr_DisplayName req \<noteq> []"
    and "ue_db env = (\<lambda>_. None)" and "ue_Marshal env = (\<lambda>_. Inr payload)" and "ue_publish env = (\<lambda>_. Some err)"
    and "\<forall>row \<in> set rows. rw_ID row \<noteq> ue_uuid env \<and> rw_Email row \<noteq> cr_Email req"
    and "st = \<lparr>us_rows = rows, us_events = events\<rparr>"
  shows "\<exists>row e. user_CreateUser env req st = (\<lparr>us_rows = row # rows, us_events = events\<rparr>, Inl e) \<and> rw_Email row = cr_Email req"
    and "\<exists>e. user_CreateUser env' \<lparr>cr_Email = rw_Email row, cr_Name = cr_Name req, cr_DisplayName = cr_DisplayName req\<rparr>
      \<lparr>us_rows = row # rows, us_events = events\<rparr> = (\<lparr>us_rows = row # rows, us_events = events\<rparr>, Inl e)"
  using assms
  by (auto simp add: user_CreateUser_def Let_def Repository_Create_def Queries_CreateUser_def list_ex_iff
      split: option.split)

end
