(* ===== verification/EventFlow.thy ===== *)
theory EventFlow
  imports NotificationService KafkaFacts
begin

text \<open>
  A user is created in one service and announced by another: the handlers of the example services, the code that the plugin generated for
  them (\<open>gen/zengo/register_hub.pb.go\<close>, \<open>runtime_gen.go\<close>) and the Kafka transport of the SDK put together.
\<close>

section \<open>The generated code\<close>

text \<open>The producer is a pointer; the answer has the producer after the call and what was sent.\<close>

definition PublishCreateUser ::
  "'t producer_env \<Rightarrow> 't Producer option \<Rightarrow> string list \<Rightarrow> string \<Rightarrow> string
     \<Rightarrow> 't Producer option \<times> (producer_id \<times> message) list \<times> go_err option" where
  "PublishCreateUser env producer brokers apiVersion payload =
     (case producer of
        None \<Rightarrow> (None, [], Some (PlainErr ''kafka producer is nil''))
      | Some p \<Rightarrow>
          (case Publish env p brokers ''user.events'' apiVersion ''user.created'' payload of
             (p', sent, err) \<Rightarrow> (Some p', sent, err)))"

definition notification_spec :: "string list \<Rightarrow> Options \<Rightarrow> 's kafka_handler option \<Rightarrow> 's ConsumeSpec" where
  "notification_spec brokers policyOpts handler =
     \<lparr>sp_Topic = ''user.events'', sp_Group = ''notification-service'', sp_Brokers = brokers, sp_Handler = handler,
      sp_Policy = policyOpts\<rparr>"

definition RegisterNotificationEventHandlerOnUserCreatedHub ::
  "'t sarama_Config \<Rightarrow> (string list \<Rightarrow> string \<Rightarrow> 't sarama_Config \<Rightarrow> go_err + group_id) \<Rightarrow> 't Consumer option \<Rightarrow> string list \<Rightarrow>
   Options \<Rightarrow> 's kafka_handler option \<Rightarrow> go_err + ('t Consumer \<times> group_id \<times> string)" where
  "RegisterNotificationEventHandlerOnUserCreatedHub NewConfig newGroup consumer brokers policyOpts handler =
     Register NewConfig newGroup consumer (notification_spec brokers policyOpts handler)"

record Dependencies =
  dp_KafkaBrokers :: "string list"
  dp_KafkaPolicy :: Options

text \<open>Without a handler nothing is registered (\<open>Inr None\<close>).\<close>

definition zengo_RegisterKafka ::
  "'t sarama_Config \<Rightarrow> (string list \<Rightarrow> string \<Rightarrow> 't sarama_Config \<Rightarrow> go_err + group_id) \<Rightarrow> 't Consumer option \<Rightarrow> Dependencies \<Rightarrow>
   's kafka_handler option \<Rightarrow> go_err + ('t Consumer \<times> group_id \<times> string) option" where
  "zengo_RegisterKafka NewConfig newGroup consumer deps handler =
     (if handler = None then Inr None
      else case RegisterNotificationEventHandlerOnUserCreatedHub NewConfig newGroup consumer (dp_KafkaBrokers deps)
                  (dp_KafkaPolicy deps) handler of
             Inl e \<Rightarrow> Inl e | Inr r \<Rightarrow> Inr (Some r))"

section \<open>The consumer of notifications\<close>

text \<open>The state of the handler is what was printed.\<close>

definition notification_handler :: "(string \<Rightarrow> go_err + notified_event) \<Rightarrow> string list kafka_handler" where
  "notification_handler unmarshal env timeout out =
     handleUserCreatedEvent unmarshal notification_OnUserCreated (ev_Payload env) out"

definition notification_RegisterKafka ::
  "'t sarama_Config \<Rightarrow> (string list \<Rightarrow> string \<Rightarrow> 't sarama_Config \<Rightarrow> go_err + group_id) \<Rightarrow> 't Consumer option \<Rightarrow> Dependencies \<Rightarrow>
   (string \<Rightarrow> go_err + notified_event) \<Rightarrow> go_err + ('t Consumer \<times> group_id \<times> string) option" where
  "notification_RegisterKafka NewConfig newGroup consumer deps unmarshal =
     zengo_RegisterKafka NewConfig newGroup consumer deps (Some (notification_handler unmarshal))"

text \<open>A registration serves the group of the service, and refuses only a missing consumer or what Kafka refuses.\<close>

lemma notification_registered:
  "notification_RegisterKafka NewConfig newGroup consumer deps unmarshal = Inr r \<Longrightarrow>
   \<exists>c gid. r = Some (c, gid, ''notification-service'') \<and> gid \<in> set (cn_groups c)"
  by (auto simp add: notification_RegisterKafka_def zengo_RegisterKafka_def RegisterNotificationEventHandlerOnUserCreatedHub_def
      Register_def notification_spec_def Let_def split: option.splits sum.splits if_splits)

section \<open>The flow\<close>

definition publishing :: "'t producer_env \<Rightarrow> 't Producer option \<Rightarrow> string list \<Rightarrow> user_env \<Rightarrow> user_env" where
  "publishing penv producer brokers uenv =
     uenv\<lparr>ue_publish := (\<lambda>payload. snd (snd (PublishCreateUser penv producer brokers ''hub'' payload)))\<rparr>"

lemma CreateUser_stores:
  assumes "user_CreateUser env req st = (st', Inr user)"
  shows "\<exists>row. us_rows st' = row # us_rows st \<and> user = user_toProto (record_of_row row) \<and> rw_Email row = cr_Email req"
  using assms
  by (auto simp add: user_CreateUser_def Let_def Repository_Create_def Queries_CreateUser_def
      split: if_splits prod.splits sum.splits option.splits)

lemma Do_successful:
  assumes "1 \<le> rt_Attempts (po_Retry (ex_opts x))" and "\<And>timeout. fn timeout s = (s', None)"
  shows "(\<exists>x'. Do fl g env (Some x) fn s = (Some x', s', None)) \<or>
    (\<exists>x' e. Do fl g env (Some x) fn s = (Some x', s, Some e) \<and> snd (admit fl env x) = Some e)"
proof (cases "admit fl env x")
  case (Pair x1 r)
  then have "nat (rt_Attempts (po_Retry (ex_opts x1))) = Suc (nat (rt_Attempts (po_Retry (ex_opts x)) - 1))"
    using admit_opts [OF Pair] assms(1) by simp
  then show ?thesis using Pair assms(2) by (cases r) (simp_all add: Do_def)
qed


definition bob_producer_env :: "unit producer_env" where
  "bob_producer_env = \<lparr>newSyncProducer = (\<lambda>bs cfg. Inr (length bs)),
     json_Marshal = (\<lambda>e. if e = NewEventEnvelope ''hub'' ''user.created'' ''{bob}'' then Inr ''{envelope}''
        else Inl (PlainErr ''unsupported'')),
     SendMessage = (\<lambda>pid msg. None)\<rparr>"

definition bob_creation :: user_env where
  "bob_creation =
     \<lparr>ue_grpc = demo_grpc, ue_callers = (\<lambda>_. []), ue_db = (\<lambda>_. None), ue_uuid = ''u-2'', ue_app = None,
      ue_Marshal = (\<lambda>e. Inr ''{bob}''), ue_Unmarshal = (\<lambda>p. Inl (PlainErr ''no event'')),
      ue_jsonUnmarshal = (\<lambda>p. Inl (PlainErr ''no event'')), ue_publish = (\<lambda>p. None)\<rparr>"

definition bob :: hub_user where
  "bob = \<lparr>hu_Id = ''u-2'', hu_Email = ''bob@zengo.dev'', hu_Name = ''Bob'', hu_DisplayName = ''Bob''\<rparr>"

abbreviation (input) bob_producer :: "unit Producer" where
  "bob_producer \<equiv> NewProducer demo_sarama [''k:9092'']"

lemma bob_published: "\<exists>p' sent. Publish bob_producer_env bob_producer [] ''user.events'' ''hub'' ''user.created'' ''{bob}'' = (p', sent, None)"
  by (simp add: Publish_def NewProducer_def newProducerWithConfig_def effectiveBrokers_def Envelope_Validate_def
      NewEventEnvelope_def bob_producer_env_def get_producer_def Let_def)

lemma bob_created:
  "user_CreateUser (publishing bob_producer_env (Some bob_producer) [] bob_creation)
     \<lparr>cr_Email = ''bob@zengo.dev'', cr_Name = ''Bob'', cr_DisplayName = []\<rparr> \<lparr>us_rows = [], us_events = []\<rparr> =
   (\<lparr>us_rows = [\<lparr>rw_ID = ''u-2'', rw_Email = ''bob@zengo.dev'', rw_Name = ''Bob''\<rparr>], us_events = [''{bob}'']\<rparr>, Inr bob)"
proof -
  obtain p' sent where "Publish bob_producer_env bob_producer [] ''user.events'' ''hub'' ''user.created'' ''{bob}'' = (p', sent, None)"
    using bob_published by blast
  then show ?thesis
    by (simp add: user_CreateUser_def Let_def Repository_Create_def Queries_CreateUser_def requiresDisplayName_def
        defaultDisplayName_def publishing_def PublishCreateUser_def bob_creation_def bob_def user_toProto_def record_of_row_def)
qed


end
