(* ===== verification/TLSLiteral.thy ===== *)
theory TLSLiteral
  imports TLSConfig RawDesc
begin

text \<open>
  The TLS options of a manifest as Go source (\<open>Quote\<close>, \<open>ClientTLSLiteral\<close>, \<open>ServerTLSLiteral\<close> of \<open>internal/codegen/helpers.go\<close>), which the
  template of the main file writes into the generated program, and what that source denotes.

  The text is ASCII, as for \<open>go_quote\<close>.  A reader takes a text and gives the value of the literal it begins with and the text that is
  left; string literals are evaluated by \<open>Unquote\<close>, the model of \<open>strconv.Unquote\<close>.
\<close>

section \<open>The literals\<close>

definition Quote :: "string \<Rightarrow> string" where
  "Quote s = go_quote s"

definition format_bool :: "bool \<Rightarrow> string" where
  "format_bool b = (if b then ''true'' else ''false'')"

definition materialLiteral :: "Material option \<Rightarrow> string" where
  "materialLiteral material =
     (case material of
        None \<Rightarrow> ''nil''
      | Some m \<Rightarrow> ''&tlsconfig.Material{Path: '' @ Quote (mt_Path m) @ '', InlinePEM: '' @ Quote (mt_InlinePEM m) @ ''}'')"

definition ClientTLSLiteral :: "ClientOptions option \<Rightarrow> string" where
  "ClientTLSLiteral opts =
     (case opts of
        None \<Rightarrow> ''nil''
      | Some co \<Rightarrow> ''&tlsconfig.ClientOptions{CA: '' @ materialLiteral (co_CA co) @ '', Cert: '' @ materialLiteral (co_Cert co) @
          '', Key: '' @ materialLiteral (co_Key co) @ '', ServerName: '' @ Quote (co_ServerName co) @
          '', InsecureSkipVerify: '' @ format_bool (co_InsecureSkipVerify co) @ ''}'')"

definition ServerTLSLiteral :: "ServerOptions option \<Rightarrow> string" where
  "ServerTLSLiteral opts =
     (case opts of
        None \<Rightarrow> ''nil''
      | Some so \<Rightarrow> ''&tlsconfig.ServerOptions{Cert: '' @ materialLiteral (so_Cert so) @ '', Key: '' @ materialLiteral (so_Key so) @
          '', CA: '' @ materialLiteral (so_CA so) @ '', ClientCA: '' @ materialLiteral (so_ClientCA so) @
          '', ServerName: '' @ Quote (so_ServerName so) @
          '', ClientAuth: tlsconfig.ClientAuthMode('' @ Quote (so_ClientAuth so) @ '')}'')"

section \<open>Reading Go source\<close>

type_synonym 'a reader = "string \<Rightarrow> ('a \<times> string) option"

definition read_token :: "string \<Rightarrow> 'a \<Rightarrow> 'a reader" where
  "read_token tok x s = (if prefix tok s then Some (x, drop (length tok) s) else None)"

definition read_then :: "'a reader \<Rightarrow> ('a \<Rightarrow> 'b reader) \<Rightarrow> 'b reader" where
  "read_then p f s = (case p s of None \<Rightarrow> None | Some (x, rest) \<Rightarrow> f x rest)"

definition read_either :: "'a reader \<Rightarrow> 'a reader \<Rightarrow> 'a reader" where
  "read_either p q s = (case p s of None \<Rightarrow> q s | Some r \<Rightarrow> Some r)"

text \<open>The scanner of Go takes an interpreted string up to the quote that no backslash escapes.\<close>

fun scan_body :: "string \<Rightarrow> (string \<times> string) option" where
  "scan_body [] = None"
| "scan_body (c # s) =
     (if c = CHR 0x22 then Some ([], s)
      else if c = CHR 0x5C
      then (case s of [] \<Rightarrow> None | d # t \<Rightarrow> map_option (\<lambda>(b, r). (c # d # b, r)) (scan_body t))
      else map_option (\<lambda>(b, r). (c # b, r)) (scan_body s))"

definition read_string :: "string reader" where
  "read_string s =
     (case s of
        [] \<Rightarrow> None
      | c # t \<Rightarrow>
          if c \<noteq> CHR 0x22 then None
          else (case scan_body t of
                  None \<Rightarrow> None
                | Some (body, rest) \<Rightarrow>
                    (case Unquote ([CHR 0x22] @ body @ [CHR 0x22]) of Inl e \<Rightarrow> None | Inr v \<Rightarrow> Some (v, rest))))"

definition read_bool :: "bool reader" where
  "read_bool = read_either (read_token ''true'' True) (read_token ''false'' False)"

definition read_pointer :: "'a reader \<Rightarrow> 'a option reader" where
  "read_pointer p = read_either (read_token ''nil'' None) (read_then p (\<lambda>x. read_token ''}'' (Some x)))"

text \<open>The composite literals, with their fields in the order of the source.\<close>

definition field :: "string \<Rightarrow> 'a reader \<Rightarrow> ('a \<Rightarrow> 'b reader) \<Rightarrow> 'b reader" where
  "field name p f = read_then (read_token name ()) (\<lambda>_. read_then p f)"

definition read_done :: "'a \<Rightarrow> 'a reader" where
  "read_done x s = Some (x, s)"

definition read_material :: "Material option reader" where
  "read_material = read_pointer
     (field ''&tlsconfig.Material{Path: '' read_string (\<lambda>path. field '', InlinePEM: '' read_string (\<lambda>pem.
      read_done \<lparr>mt_Path = path, mt_InlinePEM = pem\<rparr>)))"

definition read_ClientTLS :: "ClientOptions option reader" where
  "read_ClientTLS = read_pointer
     (field ''&tlsconfig.ClientOptions{CA: '' read_material (\<lambda>ca. field '', Cert: '' read_material (\<lambda>cert.
      field '', Key: '' read_material (\<lambda>key. field '', ServerName: '' read_string (\<lambda>name.
      field '', InsecureSkipVerify: '' read_bool (\<lambda>insecure.
      read_done \<lparr>co_CA = ca, co_Cert = cert, co_Key = key, co_ServerName = name, co_InsecureSkipVerify = insecure\<rparr>))))))"

definition read_ServerTLS :: "ServerOptions option reader" where
  "read_ServerTLS = read_pointer
     (field ''&tlsconfig.ServerOptions{Cert: '' read_material (\<lambda>cert. field '', Key: '' read_material (\<lambda>key.
      field '', CA: '' read_material (\<lambda>ca. field '', ClientCA: '' read_material (\<lambda>clientCA.
      field '', ServerName: '' read_string (\<lambda>name.
      field '', ClientAuth: tlsconfig.ClientAuthMode('' (read_then read_string (\<lambda>mode. read_token '')'' mode)) (\<lambda>mode.
      read_done \<lparr>so_Cert = cert, so_Key = key, so_CA = ca, so_ClientCA = clientCA, so_ServerName = name,
        so_ClientAuth = mode\<rparr>)))))))"

section \<open>The literals denote the options\<close>

lemma read_token_self [simp]: "read_token tok x (tok @ rest) = Some (x, rest)"
  by (simp add: read_token_def)

lemma scan_quote_char: "scan_body (quote_char c @ s) = map_option (\<lambda>(b, r). (quote_char c @ b, r)) (scan_body s)"
proof -
  have escaped: "scan_body (CHR 0x5C # d # s) = map_option (\<lambda>(b, r). (CHR 0x5C # d # b, r)) (scan_body s)" for d by simp
  have digit: "hex_digit (of_char c div 16) \<noteq> CHR 0x22 \<and> hex_digit (of_char c div 16) \<noteq> CHR 0x5C \<and>
    hex_digit (of_char c mod 16) \<noteq> CHR 0x22 \<and> hex_digit (of_char c mod 16) \<noteq> CHR 0x5C"
  proof -
    have no: "hex_digit n \<notin> {CHR 0x22, CHR 0x5C}" if "n < 16" for n
    proof -
      have "list_all (\<lambda>d. d \<noteq> CHR 0x22 \<and> d \<noteq> CHR 0x5C) ''0123456789abcdef''" by simp
      then show ?thesis using that by (auto simp add: list_all_length hex_digit_def)
    qed
    have "of_char c div 16 < (16::nat)" using nat_of_char_less_256 [of c] by (simp add: div_less_iff_less_mult)
    then show ?thesis using no [of "of_char c div 16"] no [of "of_char c mod 16"] by simp
  qed
  have hex: "scan_body (CHR 0x5C # CHR ''x'' # hex_digit (of_char c div 16) # hex_digit (of_char c mod 16) # s) =
    map_option (\<lambda>(b, r). (CHR 0x5C # CHR ''x'' # hex_digit (of_char c div 16) # hex_digit (of_char c mod 16) # b, r)) (scan_body s)"
    using digit by (cases "scan_body s") auto
  have plain: "scan_body (c # s) = map_option (\<lambda>(b, r). (c # b, r)) (scan_body s)" if "c \<noteq> CHR 0x22" "c \<noteq> CHR 0x5C"
    using that by simp
  show ?thesis
    unfolding quote_char_def using hex escaped plain
    by (auto simp add: split_beta option.map_comp o_def simp del: scan_body.simps)
qed

lemma scan_quoted: "scan_body (concat (map quote_char s) @ CHR 0x22 # rest) = Some (concat (map quote_char s), rest)"
  by (induction s) (simp_all add: scan_quote_char del: scan_body.simps(2), simp)

lemma read_Quote [simp]: "read_string (Quote s @ rest) = Some (s, rest)"
proof -
  have "literal_text (map PlainByte s) = go_quote s" "literal_bytes (map PlainByte s) = s"
    by (simp_all add: literal_text_def literal_bytes_def go_quote_def o_def)
  moreover have "list_all valid_piece (map PlainByte s)" by (simp add: list_all_iff)
  ultimately have "Unquote (go_quote s) = Inr s" using Unquote_literal by metis
  then show ?thesis by (simp add: read_string_def Quote_def go_quote_def scan_quoted)
qed

lemma read_format_bool [simp]: "read_bool (format_bool b @ rest) = Some (b, rest)"
  by (cases b) (simp_all add: read_bool_def read_either_def read_token_def format_bool_def)

text \<open>A reader reads a printer when it gives back the value in front of any rest.\<close>

definition reads :: "'a reader \<Rightarrow> ('a \<Rightarrow> string) \<Rightarrow> bool" where
  "reads p text \<longleftrightarrow> (\<forall>x rest. p (text x @ rest) = Some (x, rest))"

lemma readsD [simp]: "reads p text \<Longrightarrow> p (text x @ rest) = Some (x, rest)"
  by (simp add: reads_def)

lemma reads_inj:
  assumes "reads p text" and "text x @ r = text y @ s"
  shows "x = y \<and> r = s"
  using assms unfolding reads_def by (metis option.inject prod.inject)

lemma field_reads [simp]: "p (x @ rest) = Some (v, rest) \<Longrightarrow> field name p f (name @ x @ rest) = f v rest"
  by (simp add: field_def read_then_def)

lemma read_pointer_nil [simp]: "read_pointer p (''nil'' @ rest) = Some (None, rest)"
  by (simp add: read_pointer_def read_either_def read_token_def)

lemma read_pointer_ref: "p (CHR ''&'' # s) = Some (x, CHR ''}'' # rest) \<Longrightarrow> read_pointer p (CHR ''&'' # s) = Some (Some x, rest)"
  by (simp add: read_pointer_def read_either_def read_token_def read_then_def)

lemma read_material_reads: "reads read_material materialLiteral"
proof (unfold reads_def, intro allI)
  fix m rest
  show "read_material (materialLiteral m @ rest) = Some (m, rest)"
  proof (cases m)
    case None
    then show ?thesis by (simp add: read_material_def materialLiteral_def del: append_Cons)
  next
    case (Some a)
    let ?p = "field ''&tlsconfig.Material{Path: '' read_string (\<lambda>path. field '', InlinePEM: '' read_string (\<lambda>pem.
      read_done \<lparr>mt_Path = path, mt_InlinePEM = pem\<rparr>))"
    have "?p (''&tlsconfig.Material{Path: '' @ Quote (mt_Path a) @ '', InlinePEM: '' @ Quote (mt_InlinePEM a) @ ''}'' @ rest)
      = Some (a, ''}'' @ rest)" by (simp add: read_done_def del: append_Cons append_Nil)
    then show ?thesis using Some unfolding read_material_def materialLiteral_def by (simp add: read_pointer_ref)
  qed
qed

lemma read_material [simp]: "read_material (materialLiteral m @ rest) = Some (m, rest)"
  using read_material_reads by simp

lemma field_mode [simp]:
  "field name (read_then read_string (\<lambda>mode. read_token '')'' mode)) f (name @ Quote s @ '')'' @ rest) = f s rest"
  by (simp add: field_def read_then_def read_token_def)

text \<open>C35: The generated main file says what the manifest says about TLS.  Whatever comes after it, the Go expression that the template
  writes for client or server options is read back as exactly these options: no path, PEM text, server name or mode of a
  manifest can end its string literal and become code.\<close>

theorem tls_literal_roundtrip:
  "read_ClientTLS (ClientTLSLiteral client @ rest) = Some (client, rest) \<and>
   read_ServerTLS (ServerTLSLiteral server @ rest) = Some (server, rest)"
proof
  show "read_ClientTLS (ClientTLSLiteral client @ rest) = Some (client, rest)"
  proof (cases client)
    case None
    then show ?thesis unfolding read_ClientTLS_def ClientTLSLiteral_def by (simp del: append_Cons)
  next
    case (Some co)
    let ?p = "field ''&tlsconfig.ClientOptions{CA: '' read_material (\<lambda>ca. field '', Cert: '' read_material (\<lambda>cert.
      field '', Key: '' read_material (\<lambda>key. field '', ServerName: '' read_string (\<lambda>name.
      field '', InsecureSkipVerify: '' read_bool (\<lambda>insecure.
      read_done \<lparr>co_CA = ca, co_Cert = cert, co_Key = key, co_ServerName = name, co_InsecureSkipVerify = insecure\<rparr>)))))"
    have "?p (''&tlsconfig.ClientOptions{CA: '' @ materialLiteral (co_CA co) @ '', Cert: '' @ materialLiteral (co_Cert co) @
          '', Key: '' @ materialLiteral (co_Key co) @ '', ServerName: '' @ Quote (co_ServerName co) @
          '', InsecureSkipVerify: '' @ format_bool (co_InsecureSkipVerify co) @ ''}'' @ rest) = Some (co, ''}'' @ rest)"
      by (simp add: read_done_def del: append_Cons append_Nil)
    then show ?thesis using Some unfolding read_ClientTLS_def ClientTLSLiteral_def by (simp add: read_pointer_ref)
  qed
  show "read_ServerTLS (ServerTLSLiteral server @ rest) = Some (server, rest)"
  proof (cases server)
    case None
    then show ?thesis unfolding read_ServerTLS_def ServerTLSLiteral_def by (simp del: append_Cons)
  next
    case (Some so)
    let ?p = "field ''&tlsconfig.ServerOptions{Cert: '' read_material (\<lambda>cert. field '', Key: '' read_material (\<lambda>key.
      field '', CA: '' read_material (\<lambda>ca. field '', ClientCA: '' read_material (\<lambda>clientCA.
      field '', ServerName: '' read_string (\<lambda>name.
      field '', ClientAuth: tlsconfig.ClientAuthMode('' (read_then read_string (\<lambda>mode. read_token '')'' mode)) (\<lambda>mode.
      read_done \<lparr>so_Cert = cert, so_Key = key, so_CA = ca, so_ClientCA = clientCA, so_ServerName = name,
        so_ClientAuth = mode\<rparr>))))))"
    have "?p (''&tlsconfig.ServerOptions{Cert: '' @ materialLiteral (so_Cert so) @ '', Key: '' @ materialLiteral (so_Key so) @
          '', CA: '' @ materialLiteral (so_CA so) @ '', ClientCA: '' @ materialLiteral (so_ClientCA so) @
          '', ServerName: '' @ Quote (so_ServerName so) @ '', ClientAuth: tlsconfig.ClientAuthMode('' @
          (Quote (so_ClientAuth so) @ '')'') @ ''}'' @ rest) = Some (so, ''}'' @ rest)"
      by (simp add: read_done_def del: append_Cons append_Nil)
    then show ?thesis using Some unfolding read_ServerTLS_def ServerTLSLiteral_def by (simp add: read_pointer_ref)
  qed
qed

end
