(* ===== verification/BuildTargets.thy ===== *)
theory BuildTargets
  imports CommandLine GoPath GoError
begin

text \<open>
  The mage targets of the repository (\<open>magefile.go\<close>) and of its example service of users (\<open>examples/user-service/magefile.go\<close>).

  The state is the log of what was done, with its results.  The operating system is \<open>be_answer\<close>, which may give any answer to a step
  after any log, and \<open>be_output\<close>, the output of a command that is read; the process environment and the working directory are fields.
  A target gives the log after it and its error.
\<close>

section \<open>Running commands\<close>

datatype build_op =
    Mkdir string
  | Exec (x_dir: string) (x_env: "string list") (x_name: string) (x_args: "string list")

type_synonym build_log = "(build_op \<times> go_err option) list"

type_synonym target = "build_log \<Rightarrow> build_log \<times> go_err option"

record build_env =
  be_answer :: "build_log \<Rightarrow> build_op \<Rightarrow> go_err option"
  be_output :: "build_log \<Rightarrow> string \<Rightarrow> string \<Rightarrow> string list \<Rightarrow> go_err + string"
  be_environ :: "string list"
  be_PATH :: string
  be_wd :: "go_err + string"

text \<open>\<open>err := t(); if err != nil { return err }; return u()\<close>\<close>

definition then_do :: "target \<Rightarrow> target \<Rightarrow> target" where
  "then_do t u log = (case t log of (log, Some e) \<Rightarrow> (log, Some e) | (log, None) \<Rightarrow> u log)"

definition mage_ensureDir :: "build_env \<Rightarrow> string \<Rightarrow> target" where
  "mage_ensureDir e dir log = (let r = be_answer e log (Mkdir dir) in (log @ [(Mkdir dir, r)], r))"

definition mage_run :: "build_env \<Rightarrow> string \<Rightarrow> string list \<Rightarrow> string \<Rightarrow> string list \<Rightarrow> target" where
  "mage_run e dir env name args log =
     (let r = be_answer e log (Exec dir env name args)
      in (log @ [(Exec dir env name args, r)], map_option (WrapErr (name @ '' '' @ join '' '' args)) r))"

definition mage_absPath :: "build_env \<Rightarrow> string \<Rightarrow> string" where
  "mage_absPath e path =
     (if is_abs path then path else case be_wd e of Inl _ \<Rightarrow> path | Inr wd \<Rightarrow> path_Abs wd path)"

definition mage_goEnv :: "build_env \<Rightarrow> build_log \<Rightarrow> string \<Rightarrow> string" where
  "mage_goEnv e log name = (case be_output e log [] ''go'' [''env'', name] of Inl _ \<Rightarrow> [] | Inr out \<Rightarrow> trim_space out)"

definition mage_gitValue :: "build_env \<Rightarrow> build_log \<Rightarrow> string \<Rightarrow> string list \<Rightarrow> string" where
  "mage_gitValue e log dir args = (case be_output e log dir ''git'' args of Inl _ \<Rightarrow> [] | Inr out \<Rightarrow> trim_space out)"

definition mage_buildInfoLDFlags :: "build_env \<Rightarrow> build_log \<Rightarrow> string \<Rightarrow> string" where
  "mage_buildInfoLDFlags e log dir =
     ''-X zengo/platform/sdk/buildinfo.Version='' @ mage_gitValue e log dir [''describe'', ''--tags'', ''--always'', ''--dirty''] @
     '' -X zengo/platform/sdk/buildinfo.Branch='' @ mage_gitValue e log dir [''rev-parse'', ''--abbrev-ref'', ''HEAD'']"

fun replace_path :: "string \<Rightarrow> string list \<Rightarrow> string list" where
  "replace_path key [] = [key]"
| "replace_path key (item # env) = (if has_prefix item ''PATH='' then key # env else item # replace_path key env)"

definition mage_pathEnv :: "build_env \<Rightarrow> build_log \<Rightarrow> string list \<Rightarrow> string list" where
  "mage_pathEnv e log entries =
     (let gopathBin = mage_goEnv e log ''GOPATH'';
          pathParts = map (mage_absPath e) (filter (\<lambda>p. p \<noteq> []) entries) @
            (if gopathBin \<noteq> [] then [path_Join [gopathBin, ''bin'']] else []) @ [be_PATH e]
      in replace_path (''PATH='' @ join '':'' pathParts) (be_environ e))"

section \<open>The targets of the repository\<close>

abbreviation (input) apiDir :: string where "apiDir \<equiv> ''api''"
abbreviation (input) binDir :: string where "binDir \<equiv> ''.bin''"
abbreviation (input) exampleDir :: string where "exampleDir \<equiv> ''examples/user-service''"

text \<open>\<open>run\<close> with \<open>pathEnv(filepath.Join(".", binDir))\<close>, which every call of the file has.\<close>

definition mage_cmd :: "build_env \<Rightarrow> string \<Rightarrow> string \<Rightarrow> string list \<Rightarrow> target" where
  "mage_cmd e dir name args log = mage_run e dir (mage_pathEnv e log [path_Join [''.'', binDir]]) name args log"

definition buildProtocGenGoZZ :: "build_env \<Rightarrow> target" where
  "buildProtocGenGoZZ e =
     then_do (mage_ensureDir e binDir)
       (mage_cmd e ''.'' ''go'' [''build'', ''-o'', ''./.bin/protoc-gen-go-zz'', ''./cmd/protoc-gen-go-zz''])"

definition mage_generateAt :: "build_env \<Rightarrow> string \<Rightarrow> string \<Rightarrow> string \<Rightarrow> target" where
  "mage_generateAt e dir template path = mage_cmd e dir ''buf'' [''generate'', ''--template'', template, ''--path'', path]"

definition mage_ZengoProto :: "build_env \<Rightarrow> target" where
  "mage_ZengoProto e = then_do (buildProtocGenGoZZ e) (mage_generateAt e apiDir ''zengo/buf.gen.yaml'' ''zengo'')"

definition mage_ProtocGenGoZz :: "build_env \<Rightarrow> target" where
  "mage_ProtocGenGoZz e = buildProtocGenGoZZ e"

definition mage_ConfigModel :: "build_env \<Rightarrow> target" where
  "mage_ConfigModel e = then_do (buildProtocGenGoZZ e) (mage_generateAt e apiDir ''config/buf.gen.yaml'' ''config'')"

definition mage_ProtocGenZengo :: "build_env \<Rightarrow> target" where
  "mage_ProtocGenZengo e =
     then_do (mage_ZengoProto e) (then_do (mage_ensureDir e binDir)
       (mage_cmd e ''.'' ''go'' [''build'', ''-o'', ''./.bin/protoc-gen-zengo'', ''./cmd/protoc-gen-zengo'']))"

definition mage_ProtocGenOpenAPIV2 :: "build_env \<Rightarrow> target" where
  "mage_ProtocGenOpenAPIV2 e =
     then_do (mage_ensureDir e binDir)
       (mage_cmd e ''.'' ''go'' [''build'', ''-o'', ''./.bin/protoc-gen-openapiv2'',
          ''github.com/grpc-ecosystem/grpc-gateway/v2/protoc-gen-openapiv2''])"

definition mage_Zengo :: "build_env \<Rightarrow> target" where
  "mage_Zengo e =
     then_do (mage_ProtocGenZengo e) (then_do (mage_ProtocGenOpenAPIV2 e) (then_do (mage_ensureDir e binDir)
       (mage_cmd e ''.'' ''go'' [''build'', ''-o'', ''./.bin/zengo'', ''./cmd/zengo''])))"

definition mage_GenPlatform :: "build_env \<Rightarrow> target" where
  "mage_GenPlatform e = then_do (mage_ConfigModel e) (mage_Zengo e)"

definition mage_GenService :: "build_env \<Rightarrow> target" where
  "mage_GenService e =
     then_do (mage_GenPlatform e) (then_do (mage_cmd e exampleDir ''buf'' [''dep'', ''update''])
       (mage_cmd e exampleDir ''../../.bin/zengo'' [''gen'']))"

definition mage_Gen :: "build_env \<Rightarrow> target" where
  "mage_Gen e = then_do (mage_GenPlatform e) (mage_GenService e)"

definition mage_Build :: "build_env \<Rightarrow> target" where
  "mage_Build e =
     then_do (mage_cmd e ''.'' ''go'' [''build'', ''./...'']) (then_do (mage_ensureDir e (path_Join [exampleDir, ''bin'']))
       (\<lambda>log. mage_cmd e exampleDir ''go''
          [''build'', ''-ldflags'', mage_buildInfoLDFlags e log exampleDir, ''-o'', ''bin/user-service'', ''./cmd''] log))"

definition mage_All :: "build_env \<Rightarrow> target" where
  "mage_All e = then_do (mage_Gen e) (mage_Build e)"

definition mage_Test :: "build_env \<Rightarrow> target" where
  "mage_Test e =
     then_do (mage_cmd e ''.'' ''go'' [''test'', ''./...'']) (mage_cmd e exampleDir ''go'' [''test'', ''./...''])"

definition mage_Tidy :: "build_env \<Rightarrow> target" where
  "mage_Tidy e =
     then_do (mage_cmd e ''.'' ''go'' [''mod'', ''tidy'']) (mage_cmd e exampleDir ''go'' [''mod'', ''tidy''])"

definition mage_Check :: "build_env \<Rightarrow> target" where
  "mage_Check e =
     then_do (mage_Zengo e) (then_do (mage_cmd e ''.'' ''./.bin/zengo'' [''check'', ''--breaking''])
       (mage_cmd e exampleDir ''../../.bin/zengo'' [''check'', ''--breaking'']))"

definition mage_Dev :: "build_env \<Rightarrow> target" where
  "mage_Dev e = then_do (mage_Zengo e) (mage_cmd e exampleDir ''../../.bin/zengo'' [''dev''])"

definition mage_targets :: "build_env \<Rightarrow> target list" where
  "mage_targets e =
     [mage_All e, mage_ZengoProto e, mage_ProtocGenGoZz e, mage_ConfigModel e, mage_ProtocGenZengo e,
      mage_ProtocGenOpenAPIV2 e, mage_Zengo e, mage_GenPlatform e, mage_GenService e, mage_Gen e, mage_Build e,
      mage_Test e, mage_Tidy e, mage_Check e, mage_Dev e]"

section \<open>The targets of the example service\<close>

abbreviation (input) platformDir :: string where "platformDir \<equiv> ''../..''"

definition platformBinary :: "string \<Rightarrow> string" where
  "platformBinary name = path_Join [platformDir, binDir, name]"

definition platformEnv :: "build_env \<Rightarrow> build_log \<Rightarrow> string list" where
  "platformEnv e log =
     (let gopathBin = mage_goEnv e log ''GOPATH'';
          pathParts = [mage_absPath e (path_Join [platformDir, binDir])] @
            (if gopathBin \<noteq> [] then [path_Join [gopathBin, ''bin'']] else []) @ [be_PATH e]
      in replace_path (''PATH='' @ join '':'' pathParts) (be_environ e))"

definition example_cmd :: "build_env \<Rightarrow> string \<Rightarrow> string \<Rightarrow> string list \<Rightarrow> target" where
  "example_cmd e dir name args log = mage_run e dir (platformEnv e log) name args log"

definition example_Tools :: "build_env \<Rightarrow> target" where
  "example_Tools e =
     then_do (mage_ensureDir e (path_Join [platformDir, binDir]))
     (then_do (example_cmd e platformDir ''go'' [''build'', ''-o'', ''./.bin/protoc-gen-go-zz'', ''./cmd/protoc-gen-go-zz''])
     (then_do (example_cmd e (path_Join [platformDir, ''api'']) ''buf'' [''generate'', ''--template'', ''zengo/buf.gen.yaml'', ''--path'', ''zengo''])
     (then_do (example_cmd e platformDir ''go'' [''build'', ''-o'', ''./.bin/protoc-gen-zengo'', ''./cmd/protoc-gen-zengo''])
     (then_do (example_cmd e platformDir ''go'' [''build'', ''-o'', ''./.bin/protoc-gen-openapiv2'',
          ''github.com/grpc-ecosystem/grpc-gateway/v2/protoc-gen-openapiv2''])
     (example_cmd e platformDir ''go'' [''build'', ''-o'', ''./.bin/zengo'', ''./cmd/zengo''])))))"

definition example_Gen :: "build_env \<Rightarrow> target" where
  "example_Gen e =
     then_do (example_Tools e)
     (then_do (example_cmd e ''.'' ''buf'' [''dep'', ''update''])
     (then_do (example_cmd e ''.'' ''buf'' [''generate'', ''--path'', ''api''])
     (then_do (example_cmd e ''.'' ''sqlc'' [''generate''])
     (example_cmd e ''.'' (platformBinary ''zengo'') [''gen'', ''--skip-buf'', ''--skip-main'']))))"

definition example_Build :: "build_env \<Rightarrow> target" where
  "example_Build e =
     then_do (example_Gen e) (then_do (mage_ensureDir e ''bin'')
       (\<lambda>log. example_cmd e ''.'' ''go''
          [''build'', ''-ldflags'', mage_buildInfoLDFlags e log ''.'', ''-o'', path_Join [''bin'', ''user-service''], ''./cmd''] log))"

definition example_Run :: "build_env \<Rightarrow> target" where
  "example_Run e = then_do (example_Build e) (example_cmd e ''.'' (path_Join [''.'', ''bin'', ''user-service'']) [])"

definition example_Test :: "build_env \<Rightarrow> target" where
  "example_Test e = example_cmd e ''.'' ''go'' [''test'', ''./...'']"

definition example_Check :: "build_env \<Rightarrow> target" where
  "example_Check e = then_do (example_Tools e) (example_cmd e ''.'' (platformBinary ''zengo'') [''check'', ''--breaking''])"

definition example_Dev :: "build_env \<Rightarrow> target" where
  "example_Dev e = then_do (example_Tools e) (example_cmd e ''.'' (platformBinary ''zengo'') [''dev''])"

definition example_Up :: "build_env \<Rightarrow> target" where
  "example_Up e = then_do (example_Tools e) (example_cmd e ''.'' (platformBinary ''zengo'') [''up''])"

definition example_Down :: "build_env \<Rightarrow> target" where
  "example_Down e = then_do (example_Tools e) (example_cmd e ''.'' (platformBinary ''zengo'') [''up'', ''--down''])"

definition example_Deps :: "build_env \<Rightarrow> target" where
  "example_Deps e =
     then_do (example_cmd e ''.'' ''go'' [''mod'', ''tidy'']) (example_cmd e platformDir ''go'' [''mod'', ''tidy''])"

definition example_targets :: "build_env \<Rightarrow> target list" where
  "example_targets e =
     [example_Gen e, example_Build e, example_Run e, example_Test e, example_Check e, example_Dev e, example_Up e,
      example_Down e, example_Tools e, example_Deps e]"

end
