(* ===== verification/BuildFacts.thy ===== *)
theory BuildFacts
  imports BuildTargets
begin

text \<open>
  What the mage targets guarantee: a step that fails is the last one, and the tools of the platform are built, in the same run, before a step
  that uses them.  The rules for \<open>then_do\<close> are those of a Hoare logic whose assertions are the tools that are built.
\<close>

section \<open>Tools\<close>

text \<open>The tools that a log has built into the directory \<open>.bin\<close> of the platform, which is at \<open>root\<close>.\<close>

definition output_of :: "string \<Rightarrow> build_op \<Rightarrow> string option" where
  "output_of root op =
     (case op of
        Exec dir env name (a # b # out # args) \<Rightarrow>
          if name = ''go'' \<and> a = ''build'' \<and> b = ''-o'' then Some (path_Join [dir, out]) else None
      | _ \<Rightarrow> None)"

definition tool_path :: "string \<Rightarrow> string \<Rightarrow> string" where
  "tool_path root tool = path_Join [root, ''.bin'', tool]"

definition built :: "string \<Rightarrow> build_log \<Rightarrow> string set" where
  "built root log = {tool. \<exists>op. (op, None) \<in> set log \<and> output_of root op = Some (tool_path root tool)}"

text \<open>What a step uses: \<open>zengo\<close> runs \<open>buf\<close> with the plugins of a service, and \<open>buf generate\<close> the plugins of its template.\<close>

definition step_needs :: "string \<Rightarrow> build_op \<Rightarrow> string set" where
  "step_needs root op =
     (case op of
        Mkdir dir \<Rightarrow> {}
      | Exec dir env name args \<Rightarrow>
          if path_Join [dir, name] = tool_path root ''zengo''
          then {''zengo'', ''protoc-gen-zengo'', ''protoc-gen-openapiv2''}
          else if name = ''buf'' \<and> take 1 args = [''generate'']
          then (if dir = path_Join [root, ''api''] then {''protoc-gen-go-zz''} else {''protoc-gen-zengo'', ''protoc-gen-openapiv2''})
          else {})"

fun covered :: "string \<Rightarrow> build_log \<Rightarrow> build_log \<Rightarrow> bool" where
  "covered root log [] \<longleftrightarrow> True"
| "covered root log ((op, r) # new) \<longleftrightarrow> step_needs root op \<subseteq> built root log \<and> covered root (log @ [(op, r)]) new"

definition stops_at_failure :: "build_log \<Rightarrow> go_err option \<Rightarrow> bool" where
  "stops_at_failure new err \<longleftrightarrow>
     (case err of
        None \<Rightarrow> \<forall>x \<in> set new. snd x = None
      | Some e \<Rightarrow> new \<noteq> [] \<and> (\<forall>x \<in> set (butlast new). snd x = None) \<and> snd (last new) \<noteq> None)"

text \<open>From the tools \<open>A\<close> the target uses only tools that are built, stops at its first failure, and without one has the tools \<open>B\<close>.\<close>

definition tooled :: "string \<Rightarrow> string set \<Rightarrow> target \<Rightarrow> string set \<Rightarrow> bool" where
  "tooled root A t B \<longleftrightarrow>
     (\<forall>log. A \<subseteq> built root log \<longrightarrow>
        (\<exists>new. fst (t log) = log @ new \<and> covered root log new \<and> stops_at_failure new (snd (t log)) \<and>
           (snd (t log) = None \<longrightarrow> B \<subseteq> built root (log @ new))))"

lemma covered_append: "covered root log (xs @ ys) \<longleftrightarrow> covered root log xs \<and> covered root (log @ xs) ys"
  by (induction xs arbitrary: log) auto

lemma covered_split: "covered root log (pre @ (op, r) # post) \<Longrightarrow> step_needs root op \<subseteq> built root (log @ pre)"
  by (simp add: covered_append)

lemma built_append [simp]: "built root (xs @ ys) = built root xs \<union> built root ys"
  by (auto simp add: built_def)

lemma built_single: "built root [(op, r)] = (if r = None then {tool. output_of root op = Some (tool_path root tool)} else {})"
  by (auto simp add: built_def)

lemma stops_append:
  assumes "stops_at_failure xs None" and "stops_at_failure ys err"
  shows "stops_at_failure (xs @ ys) err"
  using assms by (auto simp add: stops_at_failure_def butlast_append split: option.splits)

lemma tooled_then [intro]:
  assumes "tooled root A t B" and "tooled root B u C"
  shows "tooled root A (then_do t u) C"
  unfolding tooled_def
proof (intro allI impI)
  fix log assume "A \<subseteq> built root log"
  then obtain new where t: "fst (t log) = log @ new" "covered root log new" "stops_at_failure new (snd (t log))"
      "snd (t log) = None \<longrightarrow> B \<subseteq> built root (log @ new)"
    using assms(1) unfolding tooled_def by blast
  show "\<exists>new. fst (then_do t u log) = log @ new \<and> covered root log new \<and> stops_at_failure new (snd (then_do t u log)) \<and>
    (snd (then_do t u log) = None \<longrightarrow> C \<subseteq> built root (log @ new))"
  proof (cases "snd (t log)")
    case (Some e)
    then have "then_do t u log = t log" by (cases "t log") (simp add: then_do_def)
    then show ?thesis using t Some by auto
  next
    case None
    then have u: "then_do t u log = u (log @ new)" using t(1) by (simp add: then_do_def split_beta)
    obtain more where "fst (u (log @ new)) = (log @ new) @ more" "covered root (log @ new) more"
        "stops_at_failure more (snd (u (log @ new)))"
        "snd (u (log @ new)) = None \<longrightarrow> C \<subseteq> built root ((log @ new) @ more)"
      using assms(2) t(4) None unfolding tooled_def by blast
    then show ?thesis using t(2,3) None stops_append by (intro exI [of _ "new @ more"]) (auto simp add: u covered_append)
  qed
qed

lemma tooled_step:
  assumes "\<And>log. \<exists>op r f. t log = (log @ [(op, r)], map_option f r) \<and> step_needs root op \<subseteq> A \<and>
    B \<subseteq> A \<union> {tool. output_of root op = Some (tool_path root tool)}"
  shows "tooled root A t B"
  unfolding tooled_def
proof (intro allI impI)
  fix log assume A: "A \<subseteq> built root log"
  obtain op r f where t: "t log = (log @ [(op, r)], map_option f r)" "step_needs root op \<subseteq> A"
      "B \<subseteq> A \<union> {tool. output_of root op = Some (tool_path root tool)}" using assms by blast
  have "stops_at_failure [(op, r)] (map_option f r)" by (cases r) (simp_all add: stops_at_failure_def)
  moreover have "map_option f r = None \<longrightarrow> B \<subseteq> built root (log @ [(op, r)])"
    using t(3) A by (auto simp add: built_single)
  ultimately show "\<exists>new. fst (t log) = log @ new \<and> covered root log new \<and> stops_at_failure new (snd (t log)) \<and>
    (snd (t log) = None \<longrightarrow> B \<subseteq> built root (log @ new))"
    using t(1,2) A by (intro exI [of _ "[(op, r)]"]) auto
qed

lemma tooled_ensureDir [intro]: "tooled root A (mage_ensureDir e dir) A"
proof (rule tooled_step)
  fix log
  have "mage_ensureDir e dir log = (log @ [(Mkdir dir, be_answer e log (Mkdir dir))], map_option (\<lambda>x. x) (be_answer e log (Mkdir dir)))"
    by (simp add: mage_ensureDir_def Let_def option.map_ident)
  then show "\<exists>op r f. mage_ensureDir e dir log = (log @ [(op, r)], map_option f r) \<and> step_needs root op \<subseteq> A \<and>
    A \<subseteq> A \<union> {tool. output_of root op = Some (tool_path root tool)}" by (auto simp add: step_needs_def)
qed

lemma tooled_run:
  assumes "\<And>log. \<exists>env args. t log = mage_run e dir env name args log \<and> step_needs root (Exec dir env name args) \<subseteq> A \<and>
    B \<subseteq> A \<union> {tool. output_of root (Exec dir env name args) = Some (tool_path root tool)}"
  shows "tooled root A t B"
proof (rule tooled_step)
  fix log
  obtain env args where "t log = mage_run e dir env name args log" "step_needs root (Exec dir env name args) \<subseteq> A"
      "B \<subseteq> A \<union> {tool. output_of root (Exec dir env name args) = Some (tool_path root tool)}" using assms by blast
  then show "\<exists>op r f. t log = (log @ [(op, r)], map_option f r) \<and> step_needs root op \<subseteq> A \<and>
    B \<subseteq> A \<union> {tool. output_of root op = Some (tool_path root tool)}"
    by (intro exI [of _ "Exec dir env name args"]) (auto simp add: mage_run_def Let_def)
qed

lemma tooled_mage_cmd:
  assumes "\<And>env. step_needs root (Exec dir env name args) \<subseteq> A"
    and "\<And>env. B \<subseteq> A \<union> {tool. output_of root (Exec dir env name args) = Some (tool_path root tool)}"
  shows "tooled root A (mage_cmd e dir name args) B"
  using assms by (intro tooled_run [where e = e and dir = dir and name = name]) (unfold mage_cmd_def, blast)

lemma tooled_example_cmd:
  assumes "\<And>env. step_needs root (Exec dir env name args) \<subseteq> A"
    and "\<And>env. B \<subseteq> A \<union> {tool. output_of root (Exec dir env name args) = Some (tool_path root tool)}"
  shows "tooled root A (example_cmd e dir name args) B"
  using assms by (intro tooled_run [where e = e and dir = dir and name = name]) (unfold example_cmd_def, blast)

section \<open>The targets\<close>

lemma root_paths:
  "tool_path ''.'' ''zengo'' = ''.bin/zengo''" "tool_path ''.'' ''protoc-gen-zengo'' = ''.bin/protoc-gen-zengo''"
  "tool_path ''.'' ''protoc-gen-openapiv2'' = ''.bin/protoc-gen-openapiv2''"
  "tool_path ''.'' ''protoc-gen-go-zz'' = ''.bin/protoc-gen-go-zz''"
  "path_Join [''.'', ''./.bin/zengo''] = ''.bin/zengo''"
  "path_Join [''.'', ''./.bin/protoc-gen-zengo''] = ''.bin/protoc-gen-zengo''"
  "path_Join [''.'', ''./.bin/protoc-gen-openapiv2''] = ''.bin/protoc-gen-openapiv2''"
  "path_Join [''.'', ''./.bin/protoc-gen-go-zz''] = ''.bin/protoc-gen-go-zz''"
  "path_Join [''examples/user-service'', ''../../.bin/zengo''] = ''.bin/zengo''"
  "path_Join [''.'', ''api''] = ''api''" "path_Join [''.'', ''go''] = ''go''" "path_Join [''api'', ''buf''] = ''api/buf''"
  "path_Join [''examples/user-service'', ''buf''] = ''examples/user-service/buf''"
  "path_Join [''examples/user-service'', ''go''] = ''examples/user-service/go''"
  by code_simp+

lemma example_paths:
  "tool_path ''../..'' ''zengo'' = ''../../.bin/zengo''"
  "tool_path ''../..'' ''protoc-gen-zengo'' = ''../../.bin/protoc-gen-zengo''"
  "tool_path ''../..'' ''protoc-gen-openapiv2'' = ''../../.bin/protoc-gen-openapiv2''"
  "tool_path ''../..'' ''protoc-gen-go-zz'' = ''../../.bin/protoc-gen-go-zz''"
  "path_Join [''../..'', ''./.bin/zengo''] = ''../../.bin/zengo''"
  "path_Join [''../..'', ''./.bin/protoc-gen-zengo''] = ''../../.bin/protoc-gen-zengo''"
  "path_Join [''../..'', ''./.bin/protoc-gen-openapiv2''] = ''../../.bin/protoc-gen-openapiv2''"
  "path_Join [''../..'', ''./.bin/protoc-gen-go-zz''] = ''../../.bin/protoc-gen-go-zz''"
  "path_Join [''.'', ''../../.bin/zengo''] = ''../../.bin/zengo''" "platformBinary ''zengo'' = ''../../.bin/zengo''"
  "path_Join [''../..'', ''api''] = ''../../api''" "path_Join [''../..'', ''go''] = ''../../go''"
  "path_Join [''../../api'', ''buf''] = ''../../api/buf''" "path_Join [''.'', ''go''] = ''go''" "path_Join [''.'', ''buf''] = ''buf''"
  "path_Join [''.'', ''sqlc''] = ''sqlc''" "path_Join [''.'', ''bin'', ''user-service''] = ''bin/user-service''"
  "path_Join [''.'', ''bin/user-service''] = ''bin/user-service''"
  by code_simp+

definition plugins :: "string set" where
  "plugins = {''protoc-gen-zengo'', ''protoc-gen-openapiv2'', ''zengo''}"

lemmas root_step = tooled_mage_cmd [where root = "''.''"]
lemmas step_simps = step_needs_def output_of_def plugins_def

lemma tooled_zz: "tooled ''.'' A (buildProtocGenGoZZ e) (insert ''protoc-gen-go-zz'' A)"
  unfolding buildProtocGenGoZZ_def
  by (rule tooled_then [OF tooled_ensureDir]; rule root_step) (auto simp add: step_simps root_paths)

lemma tooled_generateAt:
  "''protoc-gen-go-zz'' \<in> A \<Longrightarrow> tooled ''.'' A (mage_generateAt e apiDir template path) A"
  unfolding mage_generateAt_def by (rule root_step) (auto simp add: step_simps root_paths)

lemma tooled_ZengoProto: "tooled ''.'' A (mage_ZengoProto e) (insert ''protoc-gen-go-zz'' A)"
  unfolding mage_ZengoProto_def by (rule tooled_then [OF tooled_zz tooled_generateAt]) simp

lemma tooled_ConfigModel: "tooled ''.'' A (mage_ConfigModel e) (insert ''protoc-gen-go-zz'' A)"
  unfolding mage_ConfigModel_def by (rule tooled_then [OF tooled_zz tooled_generateAt]) simp

lemma tooled_ProtocGenZengo:
  "tooled ''.'' A (mage_ProtocGenZengo e) (insert ''protoc-gen-zengo'' (insert ''protoc-gen-go-zz'' A))"
  unfolding mage_ProtocGenZengo_def
  by (rule tooled_then [OF tooled_ZengoProto tooled_then [OF tooled_ensureDir]]; rule root_step)
     (auto simp add: step_simps root_paths)

lemma tooled_ProtocGenOpenAPIV2: "tooled ''.'' A (mage_ProtocGenOpenAPIV2 e) (insert ''protoc-gen-openapiv2'' A)"
  unfolding mage_ProtocGenOpenAPIV2_def
  by (rule tooled_then [OF tooled_ensureDir]; rule root_step) (auto simp add: step_simps root_paths)

lemma tooled_Zengo: "tooled ''.'' A (mage_Zengo e) (insert ''protoc-gen-go-zz'' (plugins \<union> A))"
  unfolding mage_Zengo_def
  by (rule tooled_then [OF tooled_ProtocGenZengo tooled_then [OF tooled_ProtocGenOpenAPIV2 tooled_then [OF tooled_ensureDir]]];
      rule root_step) (auto simp add: step_simps root_paths)

lemma tooled_weaken: "tooled root A t B \<Longrightarrow> A \<subseteq> A' \<Longrightarrow> B' \<subseteq> B \<Longrightarrow> tooled root A' t B'"
  unfolding tooled_def by (meson order_trans)

lemma tooled_GenPlatform: "tooled ''.'' A (mage_GenPlatform e) (plugins \<union> A)"
  unfolding mage_GenPlatform_def
  by (rule tooled_weaken [OF tooled_then [OF tooled_ConfigModel tooled_Zengo]]) auto

lemma root_other:
  "path_Join [dir, name] \<noteq> ''.bin/zengo'' \<Longrightarrow> name \<noteq> ''buf'' \<or> take 1 args \<noteq> [''generate''] \<Longrightarrow>
   tooled ''.'' A (mage_cmd e dir name args) A"
  by (rule root_step) (auto simp add: step_simps root_paths)

lemma root_zengo:
  "path_Join [dir, name] = ''.bin/zengo'' \<Longrightarrow> plugins \<subseteq> A \<Longrightarrow> tooled ''.'' A (mage_cmd e dir name args) A"
  by (rule root_step) (auto simp add: step_simps root_paths)

lemma tooled_GenService: "tooled ''.'' A (mage_GenService e) (plugins \<union> A)"
  unfolding mage_GenService_def
  by (rule tooled_then [OF tooled_GenPlatform tooled_then [OF root_other root_zengo]]) (auto simp add: root_paths)

lemma tooled_Gen: "tooled ''.'' A (mage_Gen e) (plugins \<union> A)"
  unfolding mage_Gen_def by (rule tooled_weaken [OF tooled_then [OF tooled_GenPlatform tooled_GenService]]) auto

lemma tooled_Build: "tooled ''.'' A (mage_Build e) A"
proof -
  have "tooled ''.'' A (\<lambda>log. mage_cmd e exampleDir ''go''
      [''build'', ''-ldflags'', mage_buildInfoLDFlags e log exampleDir, ''-o'', ''bin/user-service'', ''./cmd''] log) A"
    by (rule tooled_run [where e = e and dir = exampleDir and name = "''go''"])
       (auto simp add: mage_cmd_def step_simps root_paths intro!: exI)
  then show ?thesis
    unfolding mage_Build_def by (intro tooled_then [OF root_other tooled_then [OF tooled_ensureDir]]) (simp_all add: root_paths)
qed

lemma mage_targets_tooled: "t \<in> set (mage_targets e) \<Longrightarrow> tooled ''.'' {} t {}"
proof -
  have test: "tooled ''.'' {} (mage_Test e) {}" and tidy: "tooled ''.'' {} (mage_Tidy e) {}"
    unfolding mage_Test_def mage_Tidy_def by (rule tooled_then [OF root_other root_other]; simp add: root_paths)+
  have zengo: "tooled ''.'' {} (mage_Zengo e) plugins" by (rule tooled_weaken [OF tooled_Zengo [of "{}"]]) auto
  have run: "tooled ''.'' plugins (mage_cmd e dir name args) plugins" if "path_Join [dir, name] = ''.bin/zengo''" for dir name args
    using that by (rule root_zengo) simp
  have check: "tooled ''.'' {} (mage_Check e) plugins"
    unfolding mage_Check_def by (rule tooled_then [OF zengo tooled_then [OF run run]]) (simp_all add: root_paths)
  have dev: "tooled ''.'' {} (mage_Dev e) plugins"
    unfolding mage_Dev_def by (rule tooled_then [OF zengo run]) (simp add: root_paths)
  have full: "tooled ''.'' {} (mage_All e) plugins"
    unfolding mage_All_def by (rule tooled_weaken [OF tooled_then [OF tooled_Gen tooled_Build]]) auto
  note all = test tidy zengo check dev full tooled_zz [of "{}"] tooled_ZengoProto [of "{}"] tooled_ConfigModel [of "{}"]
    tooled_ProtocGenZengo [of "{}"] tooled_ProtocGenOpenAPIV2 [of "{}"] tooled_GenPlatform [of "{}"]
    tooled_GenService [of "{}"] tooled_Gen [of "{}"] tooled_Build [of "{}"]
  assume "t \<in> set (mage_targets e)"
  then show ?thesis
    unfolding mage_targets_def mage_ProtocGenGoZz_def list.set
    using all [THEN tooled_weaken [OF _ order_refl empty_subsetI]] by (elim insertE) (simp_all only: empty_iff)
qed

lemmas example_step = tooled_example_cmd [where root = "''../..''"]

lemma tooled_Tools: "tooled ''../..'' A (example_Tools e) (insert ''protoc-gen-go-zz'' (plugins \<union> A))"
proof -
  let ?A1 = "insert ''protoc-gen-go-zz'' A"
  let ?A2 = "insert ''protoc-gen-zengo'' ?A1"
  let ?A3 = "insert ''protoc-gen-openapiv2'' ?A2"
  have 1: "tooled ''../..'' A (example_cmd e platformDir ''go''
      [''build'', ''-o'', ''./.bin/protoc-gen-go-zz'', ''./cmd/protoc-gen-go-zz'']) ?A1"
    by (rule example_step) (auto simp add: step_simps example_paths)
  have 2: "tooled ''../..'' ?A1 (example_cmd e (path_Join [platformDir, ''api'']) ''buf''
      [''generate'', ''--template'', ''zengo/buf.gen.yaml'', ''--path'', ''zengo'']) ?A1"
    by (rule example_step) (auto simp add: step_simps example_paths)
  have 3: "tooled ''../..'' ?A1 (example_cmd e platformDir ''go''
      [''build'', ''-o'', ''./.bin/protoc-gen-zengo'', ''./cmd/protoc-gen-zengo'']) ?A2"
    by (rule example_step) (auto simp add: step_simps example_paths)
  have 4: "tooled ''../..'' ?A2 (example_cmd e platformDir ''go'' [''build'', ''-o'', ''./.bin/protoc-gen-openapiv2'',
      ''github.com/grpc-ecosystem/grpc-gateway/v2/protoc-gen-openapiv2'']) ?A3"
    by (rule example_step) (auto simp add: step_simps example_paths)
  have 5: "tooled ''../..'' ?A3 (example_cmd e platformDir ''go'' [''build'', ''-o'', ''./.bin/zengo'', ''./cmd/zengo''])
      (insert ''protoc-gen-go-zz'' (plugins \<union> A))"
    by (rule example_step) (auto simp add: step_simps example_paths)
  show ?thesis
    unfolding example_Tools_def
    by (rule tooled_then [OF tooled_ensureDir tooled_then [OF 1 tooled_then [OF 2 tooled_then [OF 3 tooled_then [OF 4 5]]]]])
qed

lemma example_other:
  "path_Join [dir, name] \<noteq> ''../../.bin/zengo'' \<Longrightarrow> name \<noteq> ''buf'' \<or> take 1 args \<noteq> [''generate''] \<Longrightarrow>
   tooled ''../..'' A (example_cmd e dir name args) A"
  by (rule example_step) (auto simp add: step_simps example_paths)

lemma example_zengo: "plugins \<subseteq> A \<Longrightarrow> tooled ''../..'' A (example_cmd e dir (platformBinary ''zengo'') args) A"
  by (rule example_step) (auto simp add: step_simps example_paths)

lemma example_generate: "plugins \<subseteq> A \<Longrightarrow> tooled ''../..'' A (example_cmd e dir ''buf'' (''generate'' # args)) A"
  if "dir = ''.''"
  using that by (intro example_step) (auto simp add: step_simps example_paths)

lemma example_plugins: "tooled ''../..'' {} (example_Tools e) plugins"
  by (rule tooled_weaken [OF tooled_Tools [of "{}"]]) auto

lemma tooled_example_Gen: "tooled ''../..'' {} (example_Gen e) plugins"
  unfolding example_Gen_def
  by (rule tooled_then [OF example_plugins tooled_then [OF example_other tooled_then [OF example_generate
        tooled_then [OF example_other example_zengo]]]]) (simp_all add: example_paths)

lemma tooled_example_Build: "tooled ''../..'' {} (example_Build e) plugins"
proof -
  have "tooled ''../..'' plugins (\<lambda>log. example_cmd e ''.'' ''go''
      [''build'', ''-ldflags'', mage_buildInfoLDFlags e log ''.'', ''-o'', path_Join [''bin'', ''user-service''], ''./cmd''] log) plugins"
    by (rule tooled_run [where e = e and dir = "''.''" and name = "''go''"])
       (auto simp add: example_cmd_def step_needs_def output_of_def example_paths intro!: exI)
  then show ?thesis
    unfolding example_Build_def by (intro tooled_then [OF tooled_example_Gen tooled_then [OF tooled_ensureDir]])
qed

lemma example_targets_tooled: "t \<in> set (example_targets e) \<Longrightarrow> tooled ''../..'' {} t {}"
proof -
  have run: "tooled ''../..'' {} (example_Run e) plugins"
    unfolding example_Run_def by (rule tooled_then [OF tooled_example_Build example_other]) (simp_all add: example_paths)
  have test: "tooled ''../..'' {} (example_Test e) {}" and deps: "tooled ''../..'' {} (example_Deps e) {}"
    unfolding example_Test_def example_Deps_def
    by (rule example_other; simp add: example_paths)
       (rule tooled_then [OF example_other example_other]; simp add: example_paths)
  have zengo: "tooled ''../..'' {} (then_do (example_Tools e) (example_cmd e ''.'' (platformBinary ''zengo'') args)) plugins" for args
    by (rule tooled_then [OF example_plugins example_zengo]) simp
  note all = run test deps zengo [of "[''check'', ''--breaking'']"] zengo [of "[''dev'']"] zengo [of "[''up'']"]
    zengo [of "[''up'', ''--down'']"] example_plugins tooled_example_Gen tooled_example_Build
  assume "t \<in> set (example_targets e)"
  then show ?thesis
    unfolding example_targets_def example_Check_def example_Dev_def example_Up_def example_Down_def list.set
    using all [THEN tooled_weaken [OF _ order_refl empty_subsetI]] by (elim insertE) (simp_all only: empty_iff)
qed

section \<open>The command lines\<close>

text \<open>What the tool makes of a command line: a command of package \<open>subcommands\<close>, or one of its own whose flags parse.\<close>

definition accepted :: "(string \<Rightarrow> int option) \<Rightarrow> string list \<Rightarrow> bool" where
  "accepted ParseDuration args \<longleftrightarrow>
     (case args of
        [] \<Rightarrow> False
      | name # rest \<Rightarrow>
          name \<in> {''help'', ''flags'', ''commands''} \<or>
          (\<exists>c \<in> set (newCommander ParseDuration). cmd_Name c = name \<and> \<not> isl (run_command c rest)))"

lemmas commander_simps = accepted_def newCommander_def initCommand_def genCommand_def checkCommand_def devCommand_def
  addCommand_def versionCommand_def run_command_def

lemma target_lines_accepted:
  "accepted ParseDuration [''gen'']" "accepted ParseDuration [''gen'', ''--skip-buf'', ''--skip-main'']"
  "accepted ParseDuration [''check'', ''--breaking'']" "accepted ParseDuration [''dev'']"
proof -
  have "\<not> isl (flag_Parse (cmd_SetFlags genCommand) [])" "\<not> isl (flag_Parse (cmd_SetFlags genCommand) [''--skip-buf'', ''--skip-main''])"
    "\<not> isl (flag_Parse (cmd_SetFlags checkCommand) [''--breaking''])" by code_simp+
  moreover have "\<not> isl (flag_Parse (cmd_SetFlags (devCommand ParseDuration)) [])"
    unfolding devCommand_def by (simp add: flag_Parse.simps parseOne_def)
  ultimately show "accepted ParseDuration [''gen'']" "accepted ParseDuration [''gen'', ''--skip-buf'', ''--skip-main'']"
    "accepted ParseDuration [''check'', ''--breaking'']" "accepted ParseDuration [''dev'']"
    by (auto simp add: commander_simps split: sum.split)
qed

lemma up_rejected: "\<not> accepted ParseDuration (''up'' # rest)"
  by (simp add: commander_simps)

text \<open>The targets \<open>Up\<close> and \<open>Down\<close> of the example service can never succeed, because the tool has no command \<open>up\<close>.\<close>

theorem up_never_succeeds:
  assumes "\<And>log dir env name args. path_Join [dir, name] = tool_path ''../..'' ''zengo'' \<Longrightarrow> \<not> accepted ParseDuration args \<Longrightarrow>
    be_answer e log (Exec dir env name args) \<noteq> None"
  shows "snd (example_Up e log) \<noteq> None \<and> snd (example_Down e log) \<noteq> None"
proof -
  have "snd (example_cmd e ''.'' (platformBinary ''zengo'') (''up'' # rest) log) \<noteq> None" for rest log
  proof -
    have "path_Join [''.'', platformBinary ''zengo''] = tool_path ''../..'' ''zengo''" by (simp add: example_paths)
    from assms [OF this up_rejected] show ?thesis by (simp add: example_cmd_def mage_run_def Let_def)
  qed
  then have "snd (then_do t (example_cmd e ''.'' (platformBinary ''zengo'') (''up'' # rest)) log) \<noteq> None" for t rest
    by (cases "t log") (auto simp add: then_do_def split: option.split)
  then show ?thesis by (simp add: example_Up_def example_Down_def)
qed

text \<open>The build targets use the tools of this commit.  In every target of the repository and of the example service, whatever
  the commands answer, a step that runs \<open>zengo\<close> or \<open>buf generate\<close> comes after successful builds, in the same run, of that tool and of the plugins it
  calls; the first step that fails is the last one of the target, which then returns an error, and without one all steps succeeded.\<close>

theorem build_targets_use_fresh_tools:
  assumes "t \<in> set (mage_targets e) \<and> root = ''.'' \<or> t \<in> set (example_targets e) \<and> root = ''../..''"
    and "t [] = (log, err)"
  shows "stops_at_failure log err \<and>
    (\<forall>pre op r post. log = pre @ (op, r) # post \<longrightarrow> step_needs root op \<subseteq> built root pre)"
proof -
  have "tooled root {} t {}" using assms(1) mage_targets_tooled example_targets_tooled by blast
  then obtain new where new: "fst (t []) = [] @ new" "covered root [] new" "stops_at_failure new (snd (t []))"
    unfolding tooled_def by blast
  have "step_needs root op \<subseteq> built root pre" if "log = pre @ (op, r) # post" for pre op r post
    using new(1,2) assms(2) that covered_split [of root "[]" pre op r post] by simp
  then show ?thesis using new(1,3) assms(2) by auto
qed

definition quiet_env :: build_env where
  "quiet_env = \<lparr>be_answer = (\<lambda>log op. None), be_output = (\<lambda>log dir name args. Inr []), be_environ = [''PATH=/bin''],
     be_PATH = ''/bin'', be_wd = Inr ''/zengo''\<rparr>"

theorem build_targets_use_fresh_tools_witness:
  "\<exists>log pre op post. example_Dev quiet_env [] = (log, None) \<and> log = pre @ (op, None) # post \<and> x_args op = [''dev''] \<and>
     {''zengo'', ''protoc-gen-zengo'', ''protoc-gen-openapiv2''} \<subseteq> built ''../..'' pre \<and> stops_at_failure log None"
proof -
  let ?dev = "Exec ''.'' (platformEnv quiet_env (fst (example_Tools quiet_env []))) ''../../.bin/zengo'' [''dev'']"
  have answer: "be_answer quiet_env = (\<lambda>log op. None)" by (simp add: quiet_env_def)
  have "snd (example_Tools quiet_env []) = None"
    by (simp add: example_Tools_def then_do_def mage_ensureDir_def example_cmd_def mage_run_def Let_def answer)
  then have dev: "example_Dev quiet_env [] = (fst (example_Tools quiet_env []) @ [(?dev, None)], None)"
    by (simp add: example_Dev_def then_do_def example_cmd_def mage_run_def Let_def answer example_paths split_beta)
  have "example_Dev quiet_env \<in> set (example_targets quiet_env) \<and> ''../..'' = ''../..''" by (simp add: example_targets_def)
  from build_targets_use_fresh_tools [OF disjI2 [OF this] dev]
  have fresh: "stops_at_failure (fst (example_Tools quiet_env []) @ [(?dev, None)]) None"
    "step_needs ''../..'' ?dev \<subseteq> built ''../..'' (fst (example_Tools quiet_env []))" by auto
  have "step_needs ''../..'' ?dev = {''zengo'', ''protoc-gen-zengo'', ''protoc-gen-openapiv2''}" by (simp add: step_needs_def example_paths)
  with fresh(2) have tools: "{''zengo'', ''protoc-gen-zengo'', ''protoc-gen-openapiv2''} \<subseteq> built ''../..'' (fst (example_Tools quiet_env []))"
    by (simp only:)
  show ?thesis
    by (rule exI, rule exI, rule exI, rule exI, rule conjI, rule dev, rule conjI, rule refl, rule conjI, simp, rule conjI, rule tools,
        rule fresh(1))
qed

end
