(* ===== verification/Spec2Isabelle.thy ===== *)
theory Spec2Isabelle
  imports Zengo_Prelude Naming TLSConfig Manifest ManifestFacts ManifestStore ScaffoldAdd
    ScaffoldAddFacts GoError Errx ErrxFacts AuthInterceptor Policy PolicyFacts Kafka KafkaFacts
    Health AppLifecycle Versioning VersioningLoader VersioningGen VersioningFacts VersioningGenFacts
    FileTree FileTreeFacts FreshCheck FreshCheckFacts Pipeline PipelineFacts OpenAPI OpenAPIFacts
    PluginSchema PluginSchemaFacts Migration MigrationFacts
    Gateway GatewayFacts ServerChain ServiceRuntime ServiceRuntimeFacts
    DevLoop DevLoopFacts GoStrings Freeze FreezeFacts ConfigStore ConfigStoreFacts ScaffoldInit ScaffoldInitFacts
    Plugin PluginFacts SpanAttributes Observability ObservabilityFacts PostgresDSN Connectors Brokers
    ConnectorFacts GoPath Codegen CodegenFacts Check CheckFacts
    CommandLine CommandLineFacts Commands CommandsFacts CqlGen RawDesc Assets
    UserService SearchService SearchFacts SearchWorld NotificationService EventFlow
    TLSLiteral BuildTargets BuildFacts
begin

text \<open>
  A verification development for zengo, a platform for Go services: an SDK that a service links, and a command-line
  tool with protoc plugins that scaffolds services and generates code for them.

  \<^bold>\<open>The program.\<close>  A service is described by a manifest (\<open>zengo.yaml\<close> or protobuf text).  \<open>zengo init\<close> creates a repository
  from templates, \<open>zengo add\<close> patches the manifest, \<open>zengo gen\<close> runs the generators in order (\<open>buf\<close> with the plugins, the
  OpenAPI split, the compatibility layer between the hub API and frozen legacy versions, SQL and CQL, the migration, the main file),
  \<open>zengo version freeze\<close> copies the hub API to a legacy version, \<open>zengo check\<close> verifies that generated code is up to date and \<open>zengo dev\<close>
  regenerates and restarts on changes.  At run time \<open>sdk/service\<close> builds a runtime of a gRPC server, an HTTP gateway, health probes and
  telemetry; calls pass an interceptor chain of policies, authentication and error translation; events travel over Kafka.

  \<^bold>\<open>Conventions.\<close>  A theory \<open>X\<close> holds the model of a component, translated from the source in its order, and \<open>XFacts\<close> what is proved of it;
  small components have both in one theory.  A struct is a record, an enumeration a datatype, a Go \<open>error\<close> a datatype in a sum or an
  option, a map a function to options or, where the order of \<open>range\<close> matters, an association list in any order.  Ports, durations
  and counters are \<open>int\<close> where the code checks their range, words where the width shows.  Bytes of text are \<open>char\<close>.
  Third-party packages, the operating system, \<open>go/parser\<close>, \<open>encoding/json\<close>, templates and child processes are fields of environment
  records or arguments; what a theorem needs of one is a premise (\<open>fmt_faithful\<close>, \<open>keeps_backup\<close>).  Of the standard library, \<open>strings\<close>,
  \<open>strconv\<close>, \<open>path/filepath\<close>, \<open>net/url\<close>, \<open>flag\<close> and the regular expressions are written out as far as they are used, on ASCII text.

  \<^bold>\<open>Shared theories.\<close>
  \<^item> \<open>Zengo_Prelude\<close>, \<open>GoStrings\<close>, \<open>GoPath\<close>: strings, decimal and quoted output, paths, the sum and option idioms of Go.  \<open>GoPath\<close> proves
    that \<open>Dir\<close> makes a path smaller until it reaches its fixed point.
  \<^item> \<open>GoError\<close>: error values with their chains.  \<open>FileTree\<close>, \<open>FileTreeFacts\<close>: a file system whose operations may fail wherever a parameter
    says so, and \<open>changed_at\<close>, the frame that every file theorem is stated with.

  \<^bold>\<open>The SDK.\<close>
  \<^item> \<open>Errx\<close>, \<open>ErrxFacts\<close> (\<open>sdk/errx\<close>): no private text reaches a peer, and a client decodes the public view.
  \<^item> \<open>Policy\<close>, \<open>PolicyFacts\<close> (\<open>sdk/policy\<close>): rate limiter, breaker, concurrency and retries; a step relation with its reachable states bounds the
    calls in flight, the breaker is its reference automaton.  \<open>AuthInterceptor\<close> (\<open>sdk/transport/grpc/auth\<close>), \<open>ServerChain\<close>, \<open>ServiceRuntime\<close>,
    \<open>ServiceRuntimeFacts\<close> (\<open>sdk/service\<close>, \<open>sdk/buildinfo\<close>), \<open>Gateway\<close>, \<open>GatewayFacts\<close> (\<open>sdk/gateway\<close>, \<open>sdk/transport/grpc\<close>), \<open>AppLifecycle\<close> (\<open>app\<close>), \<open>Health\<close>
    (\<open>sdk/health\<close>): how a server is put together, that a handler runs once, in which order it stops, and that a failed start leaves no listener.
  \<^item> \<open>Kafka\<close>, \<open>KafkaFacts\<close> (\<open>sdk/transport/queue/kafka\<close>, \<open>sdk/router\<close>): consumption at least once over sequences of sessions.
  \<^item> \<open>SpanAttributes\<close>, \<open>Observability\<close>, \<open>ObservabilityFacts\<close> (\<open>sdk/observability\<close>): no provider outlives a failed \<open>Init\<close>, spans end, trace
    headers round-trip.  \<open>TLSConfig\<close> (\<open>sdk/tlsconfig\<close>).  \<open>ConfigStore\<close>, \<open>ConfigStoreFacts\<close> (\<open>sdk/config\<close>, \<open>pkg/sdk/config\<close>).
  \<^item> \<open>Connectors\<close>, \<open>Brokers\<close>, \<open>PostgresDSN\<close>, \<open>ConnectorFacts\<close> (\<open>sdk/transport/db\<close>, \<open>queue\<close>, \<open>storage\<close>): one contract, the locale \<open>connector\<close>, for six
    clients.

  \<^bold>\<open>The tool.\<close>
  \<^item> \<open>Naming\<close>, \<open>Manifest\<close>, \<open>ManifestFacts\<close>, \<open>ManifestStore\<close> (\<open>internal/naming\<close>, \<open>internal/manifest\<close>, \<open>pkg/sdk/config/configfmt\<close>): validation, both protobuf
    conversions, atomic updates.
  \<^item> \<open>ScaffoldInit\<close>, \<open>ScaffoldAdd\<close> and their facts (\<open>internal/scaffold\<close>); \<open>Pipeline\<close>, \<open>FreshCheck\<close>, \<open>Check\<close> and their facts (\<open>cmd/zengo/helpers.go\<close>,
    \<open>check.go\<close>); \<open>DevLoop\<close>, \<open>DevLoopFacts\<close> (\<open>dev.go\<close>), a step relation with the user's edits between the steps; \<open>CommandLine\<close>, \<open>Commands\<close> and their facts
    (\<open>subcommands.go\<close>, \<open>commands.go\<close>, \<open>add.go\<close>, \<open>main.go\<close>), which compose the others into commands.
  \<^item> \<open>Versioning\<close>, \<open>VersioningLoader\<close>, \<open>VersioningGen\<close>, \<open>VersioningFacts\<close>, \<open>VersioningGenFacts\<close>, \<open>RawDesc\<close>, \<open>Freeze\<close>, \<open>FreezeFacts\<close> (\<open>internal/versioning\<close>): when a legacy message
    converts automatically, what \<open>Generate\<close> writes and removes, how descriptors are read, what a frozen version is.
  \<^item> \<open>OpenAPI\<close>, \<open>PluginSchema\<close>, \<open>Migration\<close> and their facts, \<open>Assets\<close> (\<open>internal/generator\<close>, \<open>cmd/protoc-gen-zengo/schema.go\<close>, \<open>cmd/protoc-gen-go-zz\<close>), \<open>CqlGen\<close>
    (\<open>internal/cqlgen\<close>), \<open>Codegen\<close>, \<open>CodegenFacts\<close> (\<open>internal/codegen\<close>), \<open>Plugin\<close>, \<open>PluginFacts\<close> (\<open>cmd/protoc-gen-zengo/main.go\<close>): the generators, with the code
    that they emit as data, so that it can be related to the runtime that calls it.
  \<^item> \<open>TLSLiteral\<close> (\<open>internal/codegen/helpers.go\<close>): the Go source of TLS options, read back by readers that leave any rest.  \<open>BuildTargets\<close>,
    \<open>BuildFacts\<close> (\<open>magefile.go\<close>): the targets as programs over a log of steps, with rules in the manner of Hoare for the tools that are built.

  \<^bold>\<open>The example services.\<close>
  \<^item> \<open>UserService\<close>, \<open>SearchService\<close>, \<open>NotificationService\<close> (\<open>examples/*/internal\<close>): their handlers and repositories.  \<open>SearchFacts\<close> deploys the first two
    together and follows an error through both and the interceptors of \<open>Errx\<close>; \<open>SearchWorld\<close> is the step relation of both services
    with the cache between them, in which a cached user is exact and a cached list may be old; \<open>EventFlow\<close> follows a created
    user through the generated code, the producer, the broker and the consumer of the SDK to the line that \<open>NotificationService\<close> prints.

  \<^bold>\<open>Loops.\<close>  Loops over data are structural recursions or have a measure: the attempts of a policy recurse on their number, the
  closure of OpenAPI definitions on the references not yet reached and the queue, the flags of a command line on the arguments left.  No fuel is used.
  The search for an override template is a partial function that is proved to end for every path.  The development loop never ends; its
  theorems are about reachable states and about enough steps.

  \<^bold>\<open>Interfaces.\<close>  Locales state what several operations share, each interpreted on the model: the clients (\<open>connector\<close>), the carrier
  of trace headers (\<open>text_map_carrier\<close>), the patches of \<open>zengo add\<close> (\<open>manifest_patch\<close>) and the protobuf codecs (\<open>codec\<close>).

  \<^bold>\<open>Not modelled.\<close>  The magefiles of the search and notification services, which repeat that of the user service but for a test for \<open>sqlc.yaml\<close>;
  generated protobuf code (also that of the example services), and templates; the printing of messages and usage
  texts; signals and child processes beyond their results; \<open>MetricsHandler\<close> and the middleware that OpenTelemetry provides; time, which appears
  as arguments; data races between goroutines, except where a step relation interleaves their critical sections.
\<close>

end
